(* ===== verification/Prelude.thy ===== *)
theory Prelude
  imports
    Main
    "HOL-Library.Word"
    "HOL-Library.AList"
    "HOL-Library.Multiset"
    "HOL-Library.Char_ord"
    "HOL-Library.List_Lexorder"
    "HOL-Library.Product_Lexorder"
begin

text \<open>
  Shared vocabulary of the development: identifiers and instants, tables as lists of rows with
  the queries and updates the services issue, nullable SQL comparisons, the Python string
  operations the code uses, and the collections that carry the component proofs.

  Strings are lists of characters; a character stands for one Unicode code point below 256
  (Latin-1), which is what \<open>char\<close> can hold.  Where the code consults the Unicode database beyond
  that range the operation is an argument of the model.
\<close>

section \<open>Identifiers, instants and collections of facts\<close>

text \<open>A UUID is its 128-bit value; an instant is the number of microseconds since the epoch, UTC.\<close>

type_synonym uuid = nat
type_synonym time = int

named_theorems table_simps \<open>how table queries and updates compose\<close>
named_theorems check_defs \<open>the CHECK constraints of the tables\<close>

definition microseconds_per_second :: int where
  "microseconds_per_second = 1000000"

definition seconds :: "int \<Rightarrow> int" where
  "seconds n = n * microseconds_per_second"

definition minutes :: "int \<Rightarrow> int" where
  "minutes n = seconds (60 * n)"

definition days :: "int \<Rightarrow> int" where
  "days n = minutes (1440 * n)"

lemmas duration_defs = seconds_def minutes_def days_def microseconds_per_second_def

section \<open>Nullable columns\<close>

text \<open>
  A CHECK constraint that evaluates to NULL is satisfied, so a comparison with a NULL operand
  holds: \<open>null_or\<close> for one nullable operand, \<open>null_or2\<close> for two.
\<close>

definition null_or :: "('a \<Rightarrow> bool) \<Rightarrow> 'a option \<Rightarrow> bool" where
  "null_or P x = (case x of None \<Rightarrow> True | Some v \<Rightarrow> P v)"

definition null_or2 :: "('a \<Rightarrow> 'b \<Rightarrow> bool) \<Rightarrow> 'a option \<Rightarrow> 'b option \<Rightarrow> bool" where
  "null_or2 P x y = (case x of None \<Rightarrow> True | Some v \<Rightarrow>
     (case y of None \<Rightarrow> True | Some w \<Rightarrow> P v w))"

lemma null_or_simps [simp]:
  "null_or P None" "null_or P (Some v) = P v"
  by (simp_all add: null_or_def)

lemma null_or2_simps [simp]:
  "null_or2 P None y" "null_or2 P x None" "null_or2 P (Some v) (Some w) = P v w"
  by (simp_all add: null_or2_def split: option.splits)

definition is_null :: "'a option \<Rightarrow> bool" where
  "is_null x = (case x of None \<Rightarrow> True | Some _ \<Rightarrow> False)"

lemma is_null_simps [simp]: "is_null None" "\<not> is_null (Some v)"
  by (simp_all add: is_null_def)

lemma is_null_iff: "is_null x \<longleftrightarrow> x = None"
  by (cases x) simp_all

lemma not_is_null_iff: "\<not> is_null x \<longleftrightarrow> (\<exists>v. x = Some v)"
  by (cases x) simp_all

section \<open>Tables\<close>

text \<open>
  A table is the list of its rows in insertion order.  \<open>row_where\<close> is a
  \<open>scalar_one_or_none\<close> query: every use of it in the code is on a key that a UNIQUE constraint
  of the same table makes unique (the lemma \<open>row_where_unique\<close>), so the first match is the only
  one.  \<open>update_where\<close> is an UPDATE with a WHERE clause or the flush of a changed row, and
  \<open>latest_where\<close> is \<open>ORDER BY key DESC LIMIT 1\<close>.
\<close>

definition row_where :: "('r \<Rightarrow> bool) \<Rightarrow> 'r list \<Rightarrow> 'r option" where
  "row_where P t = find P t"

definition rows_where :: "('r \<Rightarrow> bool) \<Rightarrow> 'r list \<Rightarrow> 'r list" where
  "rows_where P t = filter P t"

definition update_where :: "('r \<Rightarrow> bool) \<Rightarrow> ('r \<Rightarrow> 'r) \<Rightarrow> 'r list \<Rightarrow> 'r list" where
  "update_where P f t = map (\<lambda>r. if P r then f r else r) t"

definition insert_row :: "'r \<Rightarrow> 'r list \<Rightarrow> 'r list" where
  "insert_row r t = t @ [r]"

definition count_where :: "('r \<Rightarrow> bool) \<Rightarrow> 'r list \<Rightarrow> nat" where
  "count_where P t = length (filter P t)"

definition latest_where :: "('r \<Rightarrow> time) \<Rightarrow> ('r \<Rightarrow> bool) \<Rightarrow> 'r list \<Rightarrow> 'r option" where
  "latest_where key P t =
     (case sort_key (\<lambda>r. - key r) (filter P t) of [] \<Rightarrow> None | r # _ \<Rightarrow> Some r)"

definition unique_on :: "('r \<Rightarrow> 'k) \<Rightarrow> 'r list \<Rightarrow> bool" where
  "unique_on key t = distinct (map key t)"

text \<open>A UNIQUE constraint ignores rows whose key is NULL; a partial unique index looks only at
  the rows its predicate selects.\<close>

definition unique_nullable :: "('r \<Rightarrow> 'k option) \<Rightarrow> 'r list \<Rightarrow> bool" where
  "unique_nullable key t = distinct (filter (\<lambda>k. \<not> is_null k) (map key t))"

definition unique_where :: "('r \<Rightarrow> bool) \<Rightarrow> ('r \<Rightarrow> 'k) \<Rightarrow> 'r list \<Rightarrow> bool" where
  "unique_where P key t = distinct (map key (filter P t))"

subsection \<open>Queries\<close>

lemma row_where_SomeD: "row_where P t = Some r \<Longrightarrow> r \<in> set t \<and> P r"
  by (auto simp: row_where_def find_Some_iff)

lemma row_where_None_iff: "row_where P t = None \<longleftrightarrow> (\<forall>r \<in> set t. \<not> P r)"
  by (auto simp: row_where_def find_None_iff)

lemma row_where_Nil [simp]: "row_where P [] = None"
  by (simp add: row_where_def)

lemma row_where_Cons [simp]:
  "row_where P (x # xs) = (if P x then Some x else row_where P xs)"
  by (simp add: row_where_def)

lemma row_where_append:
  "row_where P (xs @ ys) = (case row_where P xs of None \<Rightarrow> row_where P ys | Some r \<Rightarrow> Some r)"
  by (induction xs) auto

lemma row_where_unique:
  "unique_on key t \<Longrightarrow> r \<in> set t \<Longrightarrow> row_where (\<lambda>x. key x = key r) t = Some r"
  by (induction t) (auto simp: unique_on_def)

lemma row_where_unique2:
  assumes "unique_on key t" and "r \<in> set t" and "P r" and eq: "\<forall>x. P x \<longrightarrow> key x = key r"
  shows "row_where P t = Some r"
  using assms(1-3)
proof (induction t)
  case Nil
  then show ?case by simp
next
  case (Cons x xs)
  show ?case
  proof (cases "P x")
    case True
    with eq have "key x = key r" by simp
    with Cons.prems have "x = r" by (auto simp: unique_on_def)
    with True show ?thesis by simp
  next
    case False
    with Cons show ?thesis by (auto simp: unique_on_def)
  qed
qed

lemma row_where_cong: "(\<And>r. r \<in> set t \<Longrightarrow> P r = Q r) \<Longrightarrow> row_where P t = row_where Q t"
  by (induction t) auto

lemma unique_onD:
  "unique_on key t \<Longrightarrow> r \<in> set t \<Longrightarrow> s \<in> set t \<Longrightarrow> key r = key s \<Longrightarrow> r = s"
proof (induction t)
  case Nil
  then show ?case by simp
next
  case (Cons x xs)
  then show ?case
    by (auto simp: unique_on_def image_iff dest: sym)
qed

lemma set_rows_where [simp]: "set (rows_where P t) = {r \<in> set t. P r}"
  by (simp add: rows_where_def)

lemma latest_where_SomeD: "latest_where key P t = Some r \<Longrightarrow> r \<in> set t \<and> P r"
proof -
  assume "latest_where key P t = Some r"
  then obtain rs where "sort_key (\<lambda>r. - key r) (filter P t) = r # rs"
    by (auto simp: latest_where_def split: list.splits)
  then have "r \<in> set (sort_key (\<lambda>r. - key r) (filter P t))" by simp
  then show ?thesis by simp
qed

lemma latest_where_None_iff: "latest_where key P t = None \<longleftrightarrow> (\<forall>r \<in> set t. \<not> P r)"
proof -
  have "latest_where key P t = None \<longleftrightarrow> sort_key (\<lambda>r. - key r) (filter P t) = []"
    by (auto simp: latest_where_def split: list.splits)
  also have "\<dots> \<longleftrightarrow> set (sort_key (\<lambda>r. - key r) (filter P t)) = {}"
    by (simp only: set_empty)
  also have "\<dots> \<longleftrightarrow> (\<forall>r \<in> set t. \<not> P r)" by (auto simp: filter_empty_conv)
  finally show ?thesis .
qed

lemma latest_where_max:
  assumes "latest_where key P t = Some r" and "s \<in> set t" and "P s"
  shows "key s \<le> key r"
proof -
  obtain rs where srt: "sort_key (\<lambda>r. - key r) (filter P t) = r # rs"
    using assms(1) by (auto simp: latest_where_def split: list.splits)
  have "sorted (map (\<lambda>r. - key r) (r # rs))"
    by (metis sorted_sort_key srt)
  moreover have "s \<in> set (r # rs)"
    using assms(2,3) unfolding srt [symmetric] by simp
  ultimately show ?thesis by auto
qed

lemma distinct_map_sort_key [simp]: "distinct (map f (sort_key g xs)) = distinct (map f xs)"
  by (rule mset_eq_imp_distinct_iff) simp

lemma latest_where_single:
  "filter P t = [r] \<Longrightarrow> latest_where key P t = Some r"
  by (simp add: latest_where_def)

subsection \<open>Updates\<close>

lemma update_where_Nil [simp]: "update_where P f [] = []"
  and update_where_Cons [simp]:
    "update_where P f (x # xs) = (if P x then f x else x) # update_where P f xs"
  by (simp_all add: update_where_def)

lemma length_update_where [simp]: "length (update_where P f t) = length t"
  by (simp add: update_where_def)

lemma set_update_where: "set (update_where P f t) = f ` {r \<in> set t. P r} \<union> {r \<in> set t. \<not> P r}"
  by (auto simp: update_where_def)

lemma update_where_id [simp]: "update_where P (\<lambda>r. r) t = t"
  by (induction t) simp_all

lemma update_where_none: "(\<And>r. r \<in> set t \<Longrightarrow> \<not> P r) \<Longrightarrow> update_where P f t = t"
  by (induction t) auto

lemma map_update_where:
  "(\<And>r. P r \<Longrightarrow> key (f r) = key r) \<Longrightarrow> map key (update_where P f t) = map key t"
  by (induction t) auto

lemma unique_on_update_where:
  "(\<And>r. P r \<Longrightarrow> key (f r) = key r) \<Longrightarrow> unique_on key (update_where P f t) = unique_on key t"
  by (simp add: unique_on_def map_update_where)

lemma set_insert_row [simp]: "set (insert_row r t) = insert r (set t)"
  by (auto simp: insert_row_def)

lemma list_all_insert_row [simp]: "list_all P (insert_row r t) \<longleftrightarrow> list_all P t \<and> P r"
  by (simp add: insert_row_def)

lemma unique_on_insert_row:
  "unique_on key (insert_row r t) \<longleftrightarrow> unique_on key t \<and> key r \<notin> key ` set t"
  by (auto simp: unique_on_def insert_row_def)

lemma row_where_insert_row:
  "row_where P (insert_row r t) =
     (case row_where P t of None \<Rightarrow> if P r then Some r else None | Some x \<Rightarrow> Some x)"
  by (simp add: insert_row_def row_where_append split: option.splits)

lemma row_where_update_where_frame:
  assumes "\<And>r. P r \<Longrightarrow> Q (f r) = Q r" and "\<And>r. Q r \<Longrightarrow> \<not> P r"
  shows "row_where Q (update_where P f t) = row_where Q t"
  using assms by (induction t) auto

lemma row_where_update_where_hit:
  assumes "\<And>r. P r \<Longrightarrow> Q (f r) = Q r" and "row_where Q t = Some r" and "P r"
  shows "row_where Q (update_where P f t) = Some (f r)"
  using assms by (induction t) (auto split: if_splits)

lemma filter_update_where_frame:
  assumes "\<And>r. P r \<Longrightarrow> \<not> Q r" and "\<And>r. P r \<Longrightarrow> \<not> Q (f r)"
  shows "filter Q (update_where P f t) = filter Q t"
  using assms by (induction t) auto

subsection \<open>Counting\<close>

lemma count_where_Nil [simp]: "count_where P [] = 0"
  and count_where_Cons [simp]: "count_where P (x # xs) = (if P x then 1 else 0) + count_where P xs"
  by (simp_all add: count_where_def)

lemma count_where_insert_row [simp]:
  "count_where P (insert_row r t) = count_where P t + (if P r then 1 else 0)"
  by (simp add: count_where_def insert_row_def)

lemma count_where_cong: "(\<And>r. r \<in> set t \<Longrightarrow> P r = Q r) \<Longrightarrow> count_where P t = count_where Q t"
  by (induction t) auto

lemma count_where_zero: "(\<And>r. r \<in> set t \<Longrightarrow> \<not> P r) \<Longrightarrow> count_where P t = 0"
  by (induction t) auto

lemma count_where_update_where_same:
  "(\<And>r. r \<in> set t \<Longrightarrow> Q r \<Longrightarrow> P (f r) = P r) \<Longrightarrow> count_where P (update_where Q f t) = count_where P t"
  by (induction t) auto

text \<open>Changing the one row with a given key changes a count by that row's contribution.\<close>

lemma count_where_update_row:
  assumes "unique_on key t" and "r \<in> set t"
  shows "count_where P (update_where (\<lambda>x. key x = key r) f t) + (if P r then 1 else 0)
       = count_where P t + (if P (f r) then 1 else 0)"
  using assms
proof (induction t)
  case Nil
  then show ?case by simp
next
  case (Cons x xs)
  show ?case
  proof (cases "x = r")
    case True
    with Cons.prems have "key r \<notin> key ` set xs" by (auto simp: unique_on_def)
    then have "update_where (\<lambda>x. key x = key r) f xs = xs"
      by (intro update_where_none) (auto simp: image_iff)
    with True show ?thesis by simp
  next
    case False
    with Cons.prems have "r \<in> set xs" and "unique_on key xs" and "key x \<noteq> key r"
      by (auto simp: unique_on_def)
    with Cons.IH show ?thesis by simp
  qed
qed

lemma count_where_pos: "r \<in> set t \<Longrightarrow> P r \<Longrightarrow> 0 < count_where P t"
  by (auto simp: count_where_def filter_empty_conv)

section \<open>Searching lists by a key\<close>

lemma find_distinct_key:
  assumes "distinct (map key xs)"
  shows "find (\<lambda>i. key i = k) xs = Some x \<longleftrightarrow> x \<in> set xs \<and> key x = k"
  using assms by (induction xs) (auto simp: image_iff)

lemma find_rev_key:
  assumes "distinct (map key es)"
  shows "find (\<lambda>e. key e = k) (rev es) = find (\<lambda>e. key e = k) es"
proof -
  have "distinct (map key (rev es))" using assms by (simp add: rev_map [symmetric])
  then have "find (\<lambda>e. key e = k) (rev es) = Some x \<longleftrightarrow> find (\<lambda>e. key e = k) es = Some x" for x
    using assms by (simp only: find_distinct_key set_rev)
  then show ?thesis by (metis not_Some_eq)
qed

lemma find_map_key:
  "find (\<lambda>e. key e = k) (map f es) = map_option f (find (\<lambda>e. key (f e) = k) es)"
  by (induction es) auto

lemma find_filter_rows: "find Q (rows_where P t) = row_where (\<lambda>r. P r \<and> Q r) t"
  by (induction t) (auto simp: rows_where_def row_where_def)

lemma distinct_filter_pair_key:
  assumes "distinct (map (\<lambda>e. (f e, g e)) t)" and "\<forall>e \<in> set t. P e \<longrightarrow> f e = c"
  shows "distinct (map g (filter P t))"
  using assms by (induction t) (auto simp: image_iff)

lemma unique_where_filter:
  assumes "unique_where P key t" and "r \<in> set t" and "P r"
  shows "filter (\<lambda>x. key x = key r \<and> P x) t = [r]"
  using assms
proof (induction t)
  case Nil
  then show ?case by simp
next
  case (Cons x xs)
  show ?case
  proof (cases "x = r")
    case True
    with Cons.prems have "key r \<notin> key ` {y \<in> set xs. P y}"
      by (auto simp: unique_where_def)
    then have "filter (\<lambda>y. key y = key r \<and> P y) xs = []"
      by (auto simp: filter_empty_conv image_iff)
    with True Cons.prems(3) show ?thesis by simp
  next
    case False
    with Cons.prems have "r \<in> set xs" and u: "unique_where P key xs"
      and n: "\<not> (key x = key r \<and> P x)"
      by (auto simp: unique_where_def split: if_splits)
    with Cons.IH Cons.prems(3) show ?thesis by simp
  qed
qed

lemma map_of_map_const: "map_of (map (\<lambda>i. (i, v)) xs) k = (if k \<in> set xs then Some v else None)"
  by (induction xs) auto

end
