(* ===== verification/PyStrings.thy ===== *)
theory PyStrings
  imports Prelude
begin

text \<open>
  The string operations of Python and PostgreSQL that the code uses: stripping, lowering,
  splitting, decimal and UUID rendering, and the error-code pattern of the report pipeline.
\<close>

section \<open>SQL and Python strings\<close>

text \<open>\<open>trim\<close> of PostgreSQL removes spaces only; \<open>str.strip\<close> removes every character for which
  \<open>str.isspace\<close> holds.\<close>

definition sql_trim :: "string \<Rightarrow> string" where
  "sql_trim s = rev (dropWhile (\<lambda>c. c = CHR '' '') (rev (dropWhile (\<lambda>c. c = CHR '' '') s)))"

definition py_isspace :: "char \<Rightarrow> bool" where
  "py_isspace c = (let n = (of_char c :: nat) in
     (9 \<le> n \<and> n \<le> 13) \<or> (28 \<le> n \<and> n \<le> 32) \<or> n = 133 \<or> n = 160)"

definition py_strip :: "string \<Rightarrow> string" where
  "py_strip s = rev (dropWhile py_isspace (rev (dropWhile py_isspace s)))"

definition py_lower_char :: "char \<Rightarrow> char" where
  "py_lower_char c = (let n = (of_char c :: nat) in
     if (65 \<le> n \<and> n \<le> 90) \<or> (192 \<le> n \<and> n \<le> 222 \<and> n \<noteq> 215) then char_of (n + 32) else c)"

definition py_lower :: "string \<Rightarrow> string" where
  "py_lower s = map py_lower_char s"

text \<open>\<open>str.casefold\<close> on Latin-1, except that the micro sign stays (it folds to a Greek letter).\<close>

definition py_casefold :: "string \<Rightarrow> string" where
  "py_casefold s = concat (map (\<lambda>c. if c = CHR 0xDF then ''ss'' else [py_lower_char c]) s)"

text \<open>\<open>s.split()\<close>: the parts between runs of white space.\<close>

fun py_words :: "string \<Rightarrow> string list" where
  "py_words [] = []"
| "py_words (c # cs) =
     (if py_isspace c then py_words cs
      else (case cs of
              [] \<Rightarrow> [[c]]
            | x # xs \<Rightarrow> if py_isspace x then [c] # py_words cs
                else (case py_words cs of [] \<Rightarrow> [[c]] | w # ws \<Rightarrow> (c # w) # ws)))"

text \<open>\<open>str.encode("utf-8")\<close>, the bytes as characters.\<close>

definition utf8_encode :: "string \<Rightarrow> string" where
  "utf8_encode s = concat (map (\<lambda>c. let n = (of_char c :: nat) in
     if n < 128 then [c] else [char_of (192 + n div 64), char_of (128 + n mod 64)]) s)"

lemma dropWhile_hd: "dropWhile P xs \<noteq> [] \<Longrightarrow> \<not> P (hd (dropWhile P xs))"
  by (induction xs) auto

lemma dropWhile_stays: "xs = [] \<or> \<not> P (hd xs) \<Longrightarrow> dropWhile P xs = xs"
  by (cases xs) auto

lemma rev_dropWhile_rev_hd:
  assumes "xs = [] \<or> \<not> P (hd xs)"
  shows "rev (dropWhile P (rev xs)) = [] \<or> \<not> P (hd (rev (dropWhile P (rev xs))))"
proof (cases "dropWhile P (rev xs) = []")
  case False
  obtain ys where ys: "rev xs = ys @ dropWhile P (rev xs)"
    by (metis takeWhile_dropWhile_id)
  then have "xs = rev (dropWhile P (rev xs)) @ rev ys"
    by (metis rev_append rev_rev_ident)
  with False have "hd (rev (dropWhile P (rev xs))) = hd xs" and "xs \<noteq> []"
    by (metis hd_append2 rev_is_Nil_conv) (use False in auto)
  with assms show ?thesis by simp
qed simp

text \<open>Stripping twice is stripping once, and a stripped string has no spaces left for SQL to trim.\<close>

lemma strip_ends:
  fixes P :: "'a \<Rightarrow> bool" and s :: "'a list"
  defines "t \<equiv> rev (dropWhile P (rev (dropWhile P s)))"
  shows "t = [] \<or> (\<not> P (hd t) \<and> \<not> P (last t))"
proof (cases "t = []")
  case False
  have "\<not> P (hd t)"
    using rev_dropWhile_rev_hd [of "dropWhile P s" P] False dropWhile_hd [of P s]
    unfolding t_def by blast
  moreover have "\<not> P (last t)"
    using False dropWhile_hd [of P "rev (dropWhile P s)"]
    by (simp add: t_def last_rev)
  ultimately show ?thesis by simp
qed simp

lemma trim_fixpoint:
  assumes "t = [] \<or> (\<not> P (hd t) \<and> \<not> P (last t))"
  shows "rev (dropWhile P (rev (dropWhile P t))) = t"
proof (cases "t = []")
  case False
  with assms have "dropWhile P t = t" by (simp add: dropWhile_stays)
  moreover have "dropWhile P (rev t) = rev t"
    using assms False by (intro dropWhile_stays) (simp add: hd_rev)
  ultimately show ?thesis by simp
qed simp

lemma py_strip_idem [simp]: "py_strip (py_strip s) = py_strip s"
  unfolding py_strip_def by (intro trim_fixpoint strip_ends)

lemma py_isspace_space [simp]: "py_isspace (CHR '' '')"
  by (simp add: py_isspace_def Let_def)

lemma sql_trim_py_strip [simp]: "sql_trim (py_strip s) = py_strip s"
proof -
  have "py_strip s = [] \<or> (\<not> py_isspace (hd (py_strip s)) \<and> \<not> py_isspace (last (py_strip s)))"
    unfolding py_strip_def by (rule strip_ends)
  then have "py_strip s = [] \<or> (hd (py_strip s) \<noteq> CHR '' '' \<and> last (py_strip s) \<noteq> CHR '' '')"
    by (metis py_isspace_space)
  then show ?thesis
    unfolding sql_trim_def by (rule trim_fixpoint)
qed

section \<open>Splitting and replacing\<close>

text \<open>\<open>s.split(sep)\<close> for a one-character separator, and \<open>s.replace(a, b)\<close> for characters.\<close>

fun split_on :: "char \<Rightarrow> string \<Rightarrow> string list" where
  "split_on sep [] = [[]]"
| "split_on sep (c # cs) =
     (if c = sep then [] # split_on sep cs
      else case split_on sep cs of [] \<Rightarrow> [[c]] | p # ps \<Rightarrow> (c # p) # ps)"

definition replace_char :: "char \<Rightarrow> char \<Rightarrow> string \<Rightarrow> string" where
  "replace_char a b s = map (\<lambda>c. if c = a then b else c) s"

fun has_prefix :: "string \<Rightarrow> string \<Rightarrow> bool" where
  "has_prefix [] s = True"
| "has_prefix (p # ps) [] = False"
| "has_prefix (p # ps) (c # cs) = (p = c \<and> has_prefix ps cs)"

definition has_suffix :: "string \<Rightarrow> string \<Rightarrow> bool" where
  "has_suffix p s = has_prefix (rev p) (rev s)"

fun has_infix :: "string \<Rightarrow> string \<Rightarrow> bool" where
  "has_infix p [] = (p = [])"
| "has_infix p (c # cs) = (has_prefix p (c # cs) \<or> has_infix p cs)"

lemma split_on_not_Nil [simp]: "split_on sep s \<noteq> []"
  by (induction s) (auto split: list.splits)

text \<open>The number of bytes of the UTF-8 encoding.\<close>

definition utf8_length :: "string \<Rightarrow> nat" where
  "utf8_length s = sum_list (map (\<lambda>c. if (of_char c :: nat) < 128 then 1 else 2) s)"

section \<open>Numbers\<close>

definition digit_char :: "nat \<Rightarrow> char" where
  "digit_char n = char_of (if n < 10 then 48 + n else 87 + n)"

fun dec_str :: "nat \<Rightarrow> string" where
  "dec_str n = (if n < 10 then [digit_char n] else dec_str (n div 10) @ [digit_char (n mod 10)])"

declare dec_str.simps [simp del]

definition int_str :: "int \<Rightarrow> string" where
  "int_str z = (if z < 0 then CHR ''-'' # dec_str (nat (- z)) else dec_str (nat z))"

fun hex_digits :: "nat \<Rightarrow> nat \<Rightarrow> string" where
  "hex_digits 0 n = []"
| "hex_digits (Suc k) n = hex_digits k (n div 16) @ [digit_char (n mod 16)]"

text \<open>\<open>str(uuid)\<close>: 32 hexadecimal digits in groups of 8, 4, 4, 4 and 12; \<open>uuid.hex\<close> without
  the hyphens.\<close>

definition uuid_hex :: "uuid \<Rightarrow> string" where
  "uuid_hex u = hex_digits 32 u"

definition uuid_str :: "uuid \<Rightarrow> string" where
  "uuid_str u = (let h = uuid_hex u in
     take 8 h @ ''-'' @ take 4 (drop 8 h) @ ''-'' @ take 4 (drop 12 h) @ ''-''
       @ take 4 (drop 16 h) @ ''-'' @ drop 20 h)"

lemma of_char_digit_char: "k < 16 \<Longrightarrow> of_char (digit_char k) = (if k < 10 then 48 + k else 87 + k)"
  by (simp add: digit_char_def of_char_of)

lemma digit_char_inj:
  assumes "m < 16" and "n < 16" and "digit_char m = digit_char n"
  shows "m = n"
proof -
  have "(if m < 10 then 48 + m else 87 + m) = (if n < 10 then 48 + n else 87 + n)"
    using assms of_char_digit_char by metis
  then show ?thesis using assms(1,2) by (simp split: if_splits)
qed

lemma length_hex_digits [simp]: "length (hex_digits k n) = k"
  by (induction k arbitrary: n) auto

lemma hex_digits_inj:
  "hex_digits k m = hex_digits k n \<Longrightarrow> m < 16 ^ k \<Longrightarrow> n < 16 ^ k \<Longrightarrow> m = n"
proof (induction k arbitrary: m n)
  case 0
  then show ?case by simp
next
  case (Suc k)
  from Suc.prems(1) have "hex_digits k (m div 16) = hex_digits k (n div 16)"
    and d: "digit_char (m mod 16) = digit_char (n mod 16)" by simp_all
  moreover have "m div 16 < 16 ^ k" "n div 16 < 16 ^ k"
    using Suc.prems(2,3) by (simp_all add: less_mult_imp_div_less mult.commute)
  ultimately have "m div 16 = n div 16" by (intro Suc.IH)
  moreover have "m mod 16 = n mod 16" using d by (intro digit_char_inj) simp_all
  ultimately show ?case by (metis div_mult_mod_eq)
qed

lemma length_uuid_str [simp]: "length (uuid_str u) = 36"
  by (simp add: uuid_str_def uuid_hex_def Let_def)

lemma uuid_parts:
  "take 8 x @ take 4 (drop 8 x) @ take 4 (drop 12 x) @ take 4 (drop 16 x) @ drop 20 x = x"
proof -
  have "take 4 (drop 16 x) @ drop 20 x = drop 16 x"
    using append_take_drop_id [of 4 "drop 16 x"] by simp
  moreover have "take 4 (drop 12 x) @ drop 16 x = drop 12 x"
    using append_take_drop_id [of 4 "drop 12 x"] by simp
  moreover have "take 4 (drop 8 x) @ drop 12 x = drop 8 x"
    using append_take_drop_id [of 4 "drop 8 x"] by simp
  ultimately show ?thesis by simp
qed

lemma uuid_str_inj:
  assumes "uuid_str u = uuid_str v" and "u < 2 ^ 128" and "v < 2 ^ 128"
  shows "u = v"
proof -
  define h where "h = uuid_hex u"
  define k where "k = uuid_hex v"
  have len: "length h = 32" "length k = 32" by (simp_all add: h_def k_def uuid_hex_def)
  have eq: "take 8 h @ ''-'' @ take 4 (drop 8 h) @ ''-'' @ take 4 (drop 12 h) @ ''-''
       @ take 4 (drop 16 h) @ ''-'' @ drop 20 h
     = take 8 k @ ''-'' @ take 4 (drop 8 k) @ ''-'' @ take 4 (drop 12 k) @ ''-''
       @ take 4 (drop 16 k) @ ''-'' @ drop 20 k"
    using assms(1) by (simp add: uuid_str_def h_def k_def Let_def)
  have parts: "take 8 h = take 8 k" "take 4 (drop 8 h) = take 4 (drop 8 k)"
    "take 4 (drop 12 h) = take 4 (drop 12 k)" "take 4 (drop 16 h) = take 4 (drop 16 k)"
    "drop 20 h = drop 20 k"
    using eq len by (simp_all add: append_eq_append_conv)
  then have "h = k" using uuid_parts [of h] uuid_parts [of k] by metis
  moreover have "u < 16 ^ 32" "v < 16 ^ 32" using assms(2,3) by simp_all
  ultimately show ?thesis unfolding h_def k_def uuid_hex_def by (intro hex_digits_inj) auto
qed

lemma dec_str_inj: "dec_str m = dec_str n \<Longrightarrow> m = n"
proof (induction m arbitrary: n rule: dec_str.induct)
  case (1 m)
  have last: "digit_char (m mod 10) = digit_char (n mod 10)"
    using arg_cong [OF 1(2), of last] by (simp add: dec_str.simps [of m] dec_str.simps [of n] split: if_splits)
  have "m mod 10 = n mod 10" by (rule digit_char_inj [OF _ _ last]) (simp_all add: mod_less_divisor less_trans [of _ 10])
  moreover have "m div 10 = n div 10"
  proof (cases "m < 10")
    case True
    with 1(2) have "n < 10" by (subst (asm) dec_str.simps [of m], subst (asm) dec_str.simps [of n])
      (auto split: if_splits simp: dec_str.simps [of "n div 10"])
    with True show ?thesis by simp
  next
    case False
    with 1(2) have n: "\<not> n < 10" by (subst (asm) dec_str.simps [of m], subst (asm) dec_str.simps [of n])
      (auto split: if_splits simp: dec_str.simps [of "m div 10"])
    with False 1(2) have "dec_str (m div 10) = dec_str (n div 10)"
      by (simp add: dec_str.simps [of m] dec_str.simps [of n])
    with 1(1) [OF False] show ?thesis .
  qed
  ultimately show ?case by (metis div_mult_mod_eq)
qed

section \<open>Safe error codes\<close>

text \<open>The pattern \<open>[a-z][a-z0-9_]{0,63}\<close>, matched in full.\<close>

definition lower_letter :: "char \<Rightarrow> bool" where
  "lower_letter c \<longleftrightarrow> CHR ''a'' \<le> c \<and> c \<le> CHR ''z''"

definition digit :: "char \<Rightarrow> bool" where
  "digit c \<longleftrightarrow> CHR ''0'' \<le> c \<and> c \<le> CHR ''9''"

definition safe_error_code :: "string \<Rightarrow> bool" where
  "safe_error_code s = (case s of [] \<Rightarrow> False
     | c # cs \<Rightarrow> lower_letter c \<and> length cs \<le> 63
         \<and> list_all (\<lambda>x. lower_letter x \<or> digit x \<or> x = CHR ''_'') cs)"

lemma digit_digit_char: "k < 10 \<Longrightarrow> digit (digit_char k)"
proof -
  assume "k < 10"
  then have "k \<in> set [0, 1, 2, 3, 4, 5, 6, 7, 8, 9]" by auto
  moreover have "\<forall>k \<in> set [0, 1, 2, 3, 4, 5, 6, 7, 8, 9]. digit (digit_char k)" by code_simp
  ultimately show ?thesis by blast
qed

lemma digits_dec_str: "list_all digit (dec_str n)" "dec_str n \<noteq> []"
  by (induction n rule: dec_str.induct; subst dec_str.simps; simp add: digit_digit_char)+

end
