(* ===== verification/Model_Identity.thy ===== *)
theory Model_Identity
  imports PyStrings
begin

text \<open>
  The rows of \<open>app/models/user.py\<close>, \<open>app/models/business.py\<close>, \<open>app/models/auth.py\<close> and
  \<open>app/models/admin.py\<close> and their CHECK constraints.  Column names carry a prefix where two tables
  share one.  \<open>updated_at\<close> columns are left out: no modelled code reads them.
\<close>

section \<open>Users\<close>

datatype user_role = Role_USER | Role_SUPER_ADMIN | Role_CUSTOMER_SERVICE

datatype industry = GENERAL | FINANCE_BANKING | INVESTMENT_MANAGEMENT | INSURANCE | ACCOUNTING
  | AGRICULTURE | MEDIA_ENTERTAINMENT | HEALTHCARE | TRANSPORTATION | MANUFACTURING
  | CONSTRUCTION | CONSULTANT | TECHNOLOGY | GOVERNMENT | MARKETING | OTHER

datatype job_role = EXECUTIVE_C_SUITE | ACCOUNTANT | BOOKKEEPER | CONTROLLER | ANALYST
  | PRODUCT_MANAGER | ENGINEER_DEVELOPER | MARKETER | MANUFACTURER | CFO | SALES_REVOPS
  | JOB_CONSULTANT | OPERATIONS | FINANCIAL_ADVISOR | SUPPORT

record user =
  user_id :: uuid
  user_created_at :: time
  email :: string
  full_name :: string
  username :: "string option"
  phone_number :: "string option"
  street_address :: "string option"
  city :: "string option"
  user_state :: "string option"
  postal_code :: "string option"
  bio :: "string option"
  password_hash :: string
  user_role :: user_role
  auth_session_version :: int
  user_industry :: "industry option"
  user_job_role :: "job_role option"
  terms_accepted_at :: "time option"
  terms_version :: "string option"
  user_is_active :: bool
  is_verified :: bool
  email_two_step_enabled :: bool
  email_two_step_enabled_at :: "time option"
  last_login_at :: "time option"
  deleted_at :: "time option"

definition trimmed_length_between :: "nat \<Rightarrow> nat \<Rightarrow> string \<Rightarrow> bool" where
  "trimmed_length_between lo hi s = (let n = length (sql_trim s) in lo \<le> n \<and> n \<le> hi)"

definition user_checks :: "user \<Rightarrow> bool" where [check_defs]:
  "user_checks u \<longleftrightarrow>
     0 \<le> auth_session_version u
   \<and> ((email_two_step_enabled u \<and> \<not> is_null (email_two_step_enabled_at u))
      \<or> (\<not> email_two_step_enabled u \<and> is_null (email_two_step_enabled_at u)))
   \<and> null_or (trimmed_length_between 1 80) (username u)
   \<and> null_or (trimmed_length_between 7 32) (phone_number u)
   \<and> null_or (trimmed_length_between 1 255) (street_address u)
   \<and> null_or (trimmed_length_between 1 120) (city u)
   \<and> null_or (trimmed_length_between 1 120) (user_state u)
   \<and> null_or (trimmed_length_between 1 32) (postal_code u)
   \<and> null_or (trimmed_length_between 1 200) (bio u)"

section \<open>Businesses and role assignments\<close>

datatype tenant_role = OWNER

record business =
  business_id :: uuid
  business_created_at :: time
  owner_user_id :: uuid
  business_name :: string
  business_industry :: "industry option"

record role_assignment =
  assignment_id :: uuid
  assignment_business_id :: uuid
  assignment_user_id :: uuid
  tenant_role :: tenant_role
  assignment_is_active :: bool

section \<open>Sessions and one-time codes\<close>

record refresh_token =
  rt_id :: uuid
  rt_user_id :: uuid
  rt_token_id :: uuid
  rt_token_hash :: string
  rt_expires_at :: time
  is_persistent :: bool
  revoked_at :: "time option"

text \<open>The four one-time-code tables share their bookkeeping columns.\<close>

record otp_row =
  otp_id :: uuid
  otp_user_id :: uuid
  otp_created_at :: time
  otp_hash :: string
  otp_expires_at :: time
  attempt_count :: int
  used_at :: "time option"

type_synonym email_verification_otp = otp_row

record password_reset_otp = otp_row +
  verified_at :: "time option"

record email_change_otp = otp_row +
  new_email :: string

datatype email_two_step_purpose = ENABLE | DISABLE | LOGIN

record email_two_step_challenge = otp_row +
  purpose :: email_two_step_purpose
  session_version :: int
  remember_me :: bool

definition challenge_checks :: "email_two_step_challenge \<Rightarrow> bool" where [check_defs]:
  "challenge_checks c \<longleftrightarrow> 0 \<le> attempt_count c \<and> 0 \<le> session_version c"

end
