(* ===== verification/Model_Subscription.thy ===== *)
theory Model_Subscription
  imports Prelude
begin

text \<open>
  The rows of \<open>app/models/subscription.py\<close>: plans, plan entitlements, subscriptions and
  subscription entitlements, with their CHECK constraints.  An enum column is a datatype, so the
  \<open>IN\<close> constraints on it hold by typing.
\<close>

definition TRIAL_DAYS :: int where "TRIAL_DAYS = 14"
definition TRIAL_AI_FULL_RESPONSES_PER_PERIOD :: int where
  "TRIAL_AI_FULL_RESPONSES_PER_PERIOD = 15"
definition TRIAL_DASHBOARD_LIMIT :: int where "TRIAL_DASHBOARD_LIMIT = 1"
definition PREMIUM_AI_FULL_RESPONSES_PER_PERIOD :: int where
  "PREMIUM_AI_FULL_RESPONSES_PER_PERIOD = 250"
definition PREMIUM_DASHBOARD_LIMIT :: int where "PREMIUM_DASHBOARD_LIMIT = 20"
definition PRO_AI_FULL_RESPONSES_PER_PERIOD :: int where
  "PRO_AI_FULL_RESPONSES_PER_PERIOD = 2000"

datatype seeded_plan_code = PREMIUM | PRO | ENTERPRISE

primrec seeded_plan_code_value :: "seeded_plan_code \<Rightarrow> string" where
  "seeded_plan_code_value PREMIUM = ''premium''"
| "seeded_plan_code_value PRO = ''pro''"
| "seeded_plan_code_value ENTERPRISE = ''enterprise''"

datatype subscription_status = TRIALING | ACTIVE | PAST_DUE | UNPAID | PAUSED | INCOMPLETE
  | INCOMPLETE_EXPIRED | CANCELED

primrec subscription_status_value :: "subscription_status \<Rightarrow> string" where
  "subscription_status_value TRIALING = ''trialing''"
| "subscription_status_value ACTIVE = ''active''"
| "subscription_status_value PAST_DUE = ''past_due''"
| "subscription_status_value UNPAID = ''unpaid''"
| "subscription_status_value PAUSED = ''paused''"
| "subscription_status_value INCOMPLETE = ''incomplete''"
| "subscription_status_value INCOMPLETE_EXPIRED = ''incomplete_expired''"
| "subscription_status_value CANCELED = ''canceled''"

datatype entitlement_key = AI_FULL_RESPONSES | DASHBOARDS

primrec entitlement_key_value :: "entitlement_key \<Rightarrow> string" where
  "entitlement_key_value AI_FULL_RESPONSES = ''ai_full_responses''"
| "entitlement_key_value DASHBOARDS = ''dashboards''"

datatype entitlement_source = SRC_TRIAL | SRC_PLAN | SRC_OVERRIDE

text \<open>Keys are ordered by their string values, as \<open>sorted(..., key=lambda item: item.key.value)\<close>
  and \<open>ORDER BY key\<close> order them.\<close>

instantiation entitlement_key :: linorder
begin

definition less_eq_entitlement_key :: "entitlement_key \<Rightarrow> entitlement_key \<Rightarrow> bool" where
  "less_eq_entitlement_key k l = (k = AI_FULL_RESPONSES \<or> l = DASHBOARDS)"

definition less_entitlement_key :: "entitlement_key \<Rightarrow> entitlement_key \<Rightarrow> bool" where
  "less_entitlement_key k l = (k = AI_FULL_RESPONSES \<and> l = DASHBOARDS)"

instance
proof
  fix x y z :: entitlement_key
  show "x < y \<longleftrightarrow> x \<le> y \<and> \<not> y \<le> x"
    by (cases x; cases y) (simp_all add: less_eq_entitlement_key_def less_entitlement_key_def)
  show "x \<le> x" by (cases x) (simp_all add: less_eq_entitlement_key_def)
  show "x \<le> y \<Longrightarrow> y \<le> z \<Longrightarrow> x \<le> z"
    by (cases x; cases y; cases z) (simp_all add: less_eq_entitlement_key_def)
  show "x \<le> y \<Longrightarrow> y \<le> x \<Longrightarrow> x = y"
    by (cases x; cases y) (simp_all add: less_eq_entitlement_key_def)
  show "x \<le> y \<or> y \<le> x"
    by (cases x; cases y) (simp_all add: less_eq_entitlement_key_def)
qed

end

lemma entitlement_key_order:
  "k \<le> l \<longleftrightarrow> entitlement_key_value k \<le> entitlement_key_value l"
  by (cases k; cases l) (simp_all add: less_eq_entitlement_key_def less_eq_char_def)

record plan =
  plan_id :: uuid
  plan_code :: string
  plan_name :: string
  plan_description :: "string option"
  monthly_price_cents :: "int option"
  plan_currency :: string
  is_custom_pricing :: bool
  plan_is_active :: bool
  plan_is_public :: bool
  sort_order :: int

definition plan_checks :: "plan \<Rightarrow> bool" where [check_defs]:
  "plan_checks p \<longleftrightarrow> null_or (\<lambda>c. 0 \<le> c) (monthly_price_cents p) \<and> length (plan_currency p) = 3"

record plan_entitlement =
  pe_id :: uuid
  pe_plan_id :: uuid
  pe_key :: entitlement_key
  pe_is_enabled :: bool
  pe_limit_value :: "int option"

definition plan_entitlement_checks :: "plan_entitlement \<Rightarrow> bool" where [check_defs]:
  "plan_entitlement_checks e \<longleftrightarrow> null_or (\<lambda>n. 0 \<le> n) (pe_limit_value e)"

record subscription =
  sub_id :: uuid
  sub_business_id :: uuid
  sub_created_at :: time
  sub_plan_id :: "uuid option"
  sub_status :: subscription_status
  trial_started_at :: "time option"
  trial_ends_at :: "time option"
  current_period_started_at :: "time option"
  current_period_ends_at :: "time option"
  cancel_at_period_end :: bool
  canceled_at :: "time option"
  ended_at :: "time option"
  sub_stripe_customer_id :: "string option"
  sub_stripe_subscription_id :: "string option"
  stripe_price_id :: "string option"
  sub_last_stripe_event_created_at :: "time option"
  sub_last_stripe_event_id :: "string option"
  last_stripe_synced_at :: "time option"

definition subscription_checks :: "subscription \<Rightarrow> bool" where [check_defs]:
  "subscription_checks s \<longleftrightarrow>
     (is_null (trial_ends_at s) \<or> \<not> is_null (trial_started_at s))
   \<and> (is_null (current_period_ends_at s) \<or> \<not> is_null (current_period_started_at s))"

record subscription_entitlement =
  se_id :: uuid
  se_business_id :: uuid
  se_subscription_id :: uuid
  se_key :: entitlement_key
  se_source :: entitlement_source
  se_is_enabled :: bool
  se_limit_value :: "int option"

definition subscription_entitlement_checks :: "subscription_entitlement \<Rightarrow> bool" where [check_defs]:
  "subscription_entitlement_checks e \<longleftrightarrow> null_or (\<lambda>n. 0 \<le> n) (se_limit_value e)"

end
