(* ===== verification/Model_Credit.thy ===== *)
theory Model_Credit
  imports Model_Identity Model_Subscription
begin

text \<open>
  The AI credit rows of \<open>app/models/ai.py\<close> (accounts, ledger entries, privileged adjustments) and
  the audit event of \<open>app/models/admin.py\<close>, with their CHECK constraints.
\<close>

datatype ai_credit_ledger_status = RESERVED | CONSUMED | RELEASED

datatype ai_credit_adjustment_reason = SUPPORT_CREDIT | SERVICE_RECOVERY | BILLING_CORRECTION
  | ADMINISTRATIVE_CORRECTION | FRAUD_REVERSAL

primrec adjustment_reason_value :: "ai_credit_adjustment_reason \<Rightarrow> string" where
  "adjustment_reason_value SUPPORT_CREDIT = ''support_credit''"
| "adjustment_reason_value SERVICE_RECOVERY = ''service_recovery''"
| "adjustment_reason_value BILLING_CORRECTION = ''billing_correction''"
| "adjustment_reason_value ADMINISTRATIVE_CORRECTION = ''administrative_correction''"
| "adjustment_reason_value FRAUD_REVERSAL = ''fraud_reversal''"

record ai_credit_account =
  acc_id :: uuid
  acc_business_id :: uuid
  acc_subscription_id :: uuid
  acc_entitlement_key :: entitlement_key
  acc_period_started_at :: time
  acc_period_ends_at :: time
  acc_limit_value :: "int option"
  acc_reserved_count :: int
  acc_consumed_count :: int

definition ai_credit_account_checks :: "ai_credit_account \<Rightarrow> bool" where [check_defs]:
  "ai_credit_account_checks a \<longleftrightarrow>
     acc_entitlement_key a = AI_FULL_RESPONSES
   \<and> acc_period_started_at a < acc_period_ends_at a
   \<and> null_or (\<lambda>n. 0 \<le> n) (acc_limit_value a)
   \<and> 0 \<le> acc_reserved_count a \<and> 0 \<le> acc_consumed_count a
   \<and> null_or (\<lambda>n. acc_reserved_count a + acc_consumed_count a \<le> n) (acc_limit_value a)"

record ai_credit_ledger_entry =
  ent_id :: uuid
  ent_business_id :: uuid
  ent_account_id :: uuid
  ent_subscription_id :: uuid
  ent_entitlement_key :: entitlement_key
  ent_idempotency_key_digest :: string
  ent_status :: ai_credit_ledger_status
  ent_quantity :: int
  ent_reserved_at :: time
  ent_consumed_at :: "time option"
  ent_released_at :: "time option"
  ent_release_reason :: "string option"

definition ai_credit_ledger_entry_checks :: "ai_credit_ledger_entry \<Rightarrow> bool" where [check_defs]:
  "ai_credit_ledger_entry_checks e \<longleftrightarrow>
     ent_entitlement_key e = AI_FULL_RESPONSES
   \<and> ent_quantity e = 1
   \<and> length (ent_idempotency_key_digest e) = 64
   \<and> ((ent_status e = RESERVED \<and> is_null (ent_consumed_at e) \<and> is_null (ent_released_at e)
        \<and> is_null (ent_release_reason e))
      \<or> (ent_status e = CONSUMED \<and> \<not> is_null (ent_consumed_at e) \<and> is_null (ent_released_at e)
        \<and> is_null (ent_release_reason e))
      \<or> (ent_status e = RELEASED \<and> is_null (ent_consumed_at e) \<and> \<not> is_null (ent_released_at e)
        \<and> \<not> is_null (ent_release_reason e)
        \<and> null_or (trimmed_length_between 1 255) (ent_release_reason e)))
   \<and> null_or (\<lambda>t. ent_reserved_at e \<le> t) (ent_consumed_at e)
   \<and> null_or (\<lambda>t. ent_reserved_at e \<le> t) (ent_released_at e)"

record ai_credit_adjustment =
  adj_id :: uuid
  adj_business_id :: uuid
  adj_account_id :: uuid
  adj_subscription_id :: uuid
  adj_entitlement_key :: entitlement_key
  adj_actor_user_id :: uuid
  adj_idempotency_key_digest :: string
  adj_delta :: int
  adj_reason_code :: ai_credit_adjustment_reason
  adj_request_id :: "string option"
  adj_base_limit_value :: int
  adj_effective_limit_before :: int
  adj_effective_limit_after :: int
  adj_reserved_count :: int
  adj_consumed_count :: int
  adjusted_at :: time

definition ai_credit_adjustment_checks :: "ai_credit_adjustment \<Rightarrow> bool" where [check_defs]:
  "ai_credit_adjustment_checks a \<longleftrightarrow>
     adj_entitlement_key a = AI_FULL_RESPONSES
   \<and> adj_delta a \<noteq> 0 \<and> - 1000 \<le> adj_delta a \<and> adj_delta a \<le> 1000
   \<and> length (adj_idempotency_key_digest a) = 64
   \<and> 0 \<le> adj_base_limit_value a \<and> 0 \<le> adj_effective_limit_before a
   \<and> 0 \<le> adj_effective_limit_after a
   \<and> adj_effective_limit_after a = adj_effective_limit_before a + adj_delta a
   \<and> 0 \<le> adj_reserved_count a \<and> 0 \<le> adj_consumed_count a
   \<and> adj_reserved_count a + adj_consumed_count a \<le> adj_effective_limit_before a
   \<and> adj_reserved_count a + adj_consumed_count a \<le> adj_effective_limit_after a"

section \<open>Audit events\<close>

text \<open>JSON values of the audit metadata: a finite float is kept as the text Python prints for it, an
  infinity or NaN has none.\<close>

datatype json = JNull | JBool bool | JInt int | JFloat "string option" | JStr string | JList "json list"
  | JDict "(string \<times> json) list"

record admin_audit_event =
  aud_id :: uuid
  aud_actor_user_id :: uuid
  aud_actor_role :: user_role
  aud_action :: string
  aud_target_type :: string
  aud_target_id :: uuid
  aud_business_id :: "uuid option"
  aud_request_id :: "string option"
  aud_metadata :: "(string \<times> json) list"
  aud_created_at :: time

definition label_head_char :: "char \<Rightarrow> bool" where
  "label_head_char c \<longleftrightarrow> CHR ''a'' \<le> c \<and> c \<le> CHR ''z''"

definition label_tail_char :: "char \<Rightarrow> bool" where
  "label_tail_char c \<longleftrightarrow> (CHR ''a'' \<le> c \<and> c \<le> CHR ''z'') \<or> (CHR ''0'' \<le> c \<and> c \<le> CHR ''9'')
     \<or> c \<in> set ''_.:-''"

definition request_id_char :: "char \<Rightarrow> bool" where
  "request_id_char c \<longleftrightarrow> (CHR ''A'' \<le> c \<and> c \<le> CHR ''Z'') \<or> (CHR ''a'' \<le> c \<and> c \<le> CHR ''z'')
     \<or> (CHR ''0'' \<le> c \<and> c \<le> CHR ''9'') \<or> c \<in> set ''._:-''"

text \<open>The patterns \<open>^[a-z][a-z0-9_.:-]{0,63}$\<close> and \<open>^[A-Za-z0-9._:-]{1,128}$\<close>, matched in full.\<close>

definition audit_label_matches :: "string \<Rightarrow> bool" where
  "audit_label_matches s = (case s of [] \<Rightarrow> False
     | c # cs \<Rightarrow> label_head_char c \<and> list_all label_tail_char cs \<and> length cs \<le> 63)"

definition audit_request_id_matches :: "string \<Rightarrow> bool" where
  "audit_request_id_matches s \<longleftrightarrow> 1 \<le> length s \<and> length s \<le> 128 \<and> list_all request_id_char s"

definition admin_audit_event_checks :: "admin_audit_event \<Rightarrow> bool" where [check_defs]:
  "admin_audit_event_checks e \<longleftrightarrow>
     aud_actor_role e \<noteq> Role_USER
   \<and> audit_label_matches (aud_action e)
   \<and> audit_label_matches (aud_target_type e)
   \<and> null_or audit_request_id_matches (aud_request_id e)"

end
