(* ===== verification/Model_Report.thy ===== *)
theory Model_Report
  imports Prelude
begin

text \<open>
  The rows of \<open>app/models/upload.py\<close> and \<open>app/models/processing.py\<close>: upload batches, uploads and
  processing jobs, with their CHECK constraints.
\<close>

definition MAX_REPORT_UPLOAD_BYTES :: int where
  "MAX_REPORT_UPLOAD_BYTES = 25 * 1024 * 1024"
definition MAX_REPORT_UPLOAD_FILES_PER_BATCH :: int where
  "MAX_REPORT_UPLOAD_FILES_PER_BATCH = 5"
definition DEFAULT_REPORT_PROCESSING_MAX_ATTEMPTS :: int where
  "DEFAULT_REPORT_PROCESSING_MAX_ATTEMPTS = 3"
definition MAX_REPORT_PROCESSING_ATTEMPTS :: int where
  "MAX_REPORT_PROCESSING_ATTEMPTS = 10"

definition between :: "int \<Rightarrow> int \<Rightarrow> int \<Rightarrow> bool" where
  "between lo hi n \<longleftrightarrow> lo \<le> n \<and> n \<le> hi"

section \<open>Upload batches\<close>

datatype batch_status = BATCH_PENDING | BATCH_COMPLETE | BATCH_PARTIAL | BATCH_REJECTED
  | BATCH_EXPIRED

datatype upload_status = UPLOAD_PENDING | UPLOADED | UPLOAD_REJECTED | UPLOAD_EXPIRED

record report_upload_batch =
  batch_id :: uuid
  batch_business_id :: uuid
  batch_created_at :: time
  created_by_user_id :: uuid
  batch_status :: batch_status
  file_count :: int
  batch_expires_at :: time
  completed_at :: "time option"

definition report_upload_batch_checks :: "report_upload_batch \<Rightarrow> bool" where [check_defs]:
  "report_upload_batch_checks b \<longleftrightarrow>
     between 1 MAX_REPORT_UPLOAD_FILES_PER_BATCH (file_count b)
   \<and> batch_created_at b < batch_expires_at b
   \<and> ((batch_status b = BATCH_PENDING \<and> is_null (completed_at b))
      \<or> (batch_status b \<noteq> BATCH_PENDING \<and> \<not> is_null (completed_at b)))"

section \<open>Uploads\<close>

record report_upload =
  up_id :: uuid
  up_business_id :: uuid
  up_batch_id :: uuid
  batch_position :: int
  uploaded_by_user_id :: uuid
  original_filename :: string
  file_extension :: string
  content_type :: string
  expected_size_bytes :: int
  storage_bucket :: string
  storage_key :: string
  up_status :: upload_status
  up_expires_at :: time
  actual_size_bytes :: "int option"
  storage_version_id :: "string option"
  etag :: "string option"
  uploaded_at :: "time option"
  rejected_at :: "time option"
  rejection_code :: "string option"

definition report_upload_status_fields :: "report_upload \<Rightarrow> bool" where [check_defs]:
  "report_upload_status_fields u \<longleftrightarrow>
     (up_status u = UPLOAD_PENDING
      \<and> is_null (actual_size_bytes u) \<and> is_null (storage_version_id u) \<and> is_null (etag u)
      \<and> is_null (uploaded_at u) \<and> is_null (rejected_at u) \<and> is_null (rejection_code u))
   \<or> (up_status u = UPLOADED
      \<and> \<not> is_null (actual_size_bytes u) \<and> \<not> is_null (storage_version_id u) \<and> \<not> is_null (etag u)
      \<and> \<not> is_null (uploaded_at u) \<and> is_null (rejected_at u) \<and> is_null (rejection_code u))
   \<or> ((up_status u = UPLOAD_REJECTED \<or> up_status u = UPLOAD_EXPIRED)
      \<and> is_null (actual_size_bytes u) \<and> is_null (storage_version_id u) \<and> is_null (etag u)
      \<and> is_null (uploaded_at u) \<and> \<not> is_null (rejected_at u) \<and> \<not> is_null (rejection_code u))"

definition report_upload_checks :: "report_upload \<Rightarrow> bool" where [check_defs]:
  "report_upload_checks u \<longleftrightarrow>
     between 0 (MAX_REPORT_UPLOAD_FILES_PER_BATCH - 1) (batch_position u)
   \<and> file_extension u \<in> {''csv'', ''xls'', ''xlsx''}
   \<and> between 1 MAX_REPORT_UPLOAD_BYTES (expected_size_bytes u)
   \<and> null_or (between 1 MAX_REPORT_UPLOAD_BYTES) (actual_size_bytes u)
   \<and> ((file_extension u = ''csv'' \<and> content_type u = ''text/csv'')
      \<or> (file_extension u = ''xls'' \<and> content_type u = ''application/vnd.ms-excel'')
      \<or> (file_extension u = ''xlsx'' \<and> content_type u =
          ''application/vnd.openxmlformats-officedocument.spreadsheetml.sheet''))
   \<and> 0 < length (storage_bucket u) \<and> 0 < length (storage_key u)
   \<and> report_upload_status_fields u"

section \<open>Processing jobs\<close>

datatype job_status = QUEUED | PROCESSING | COMPLETED | FAILED

record report_processing_job =
  job_id :: uuid
  job_business_id :: uuid
  job_created_at :: time
  report_upload_id :: uuid
  source_storage_version_id :: string
  source_etag :: string
  job_status :: job_status
  job_attempt_count :: int
  max_attempts :: int
  dispatch_attempt_count :: int
  available_at :: "time option"
  last_dispatched_at :: "time option"
  started_at :: "time option"
  lease_token :: "uuid option"
  lease_expires_at :: "time option"
  finished_at :: "time option"
  error_code :: "string option"
  result_storage_bucket :: "string option"
  normalized_storage_key :: "string option"
  normalized_storage_version_id :: "string option"
  normalized_etag :: "string option"
  normalized_size_bytes :: "int option"
  profile_storage_key :: "string option"
  profile_storage_version_id :: "string option"
  profile_etag :: "string option"
  record_count :: "int option"
  sheet_count :: "int option"

definition job_attempts_check :: "report_processing_job \<Rightarrow> bool" where [check_defs]:
  "job_attempts_check j \<longleftrightarrow>
     between 1 MAX_REPORT_PROCESSING_ATTEMPTS (max_attempts j)
   \<and> between 0 (max_attempts j) (job_attempt_count j)
   \<and> ((job_attempt_count j = 0 \<and> is_null (started_at j) \<and> is_null (error_code j))
      \<or> (0 < job_attempt_count j \<and> \<not> is_null (started_at j)))"

definition job_dispatch_check :: "report_processing_job \<Rightarrow> bool" where [check_defs]:
  "job_dispatch_check j \<longleftrightarrow>
     0 \<le> dispatch_attempt_count j
   \<and> ((dispatch_attempt_count j = 0 \<and> is_null (last_dispatched_at j))
      \<or> (0 < dispatch_attempt_count j \<and> \<not> is_null (last_dispatched_at j)))"

definition job_status_fields_check :: "report_processing_job \<Rightarrow> bool" where [check_defs]:
  "job_status_fields_check j \<longleftrightarrow>
     (job_status j = QUEUED \<and> \<not> is_null (available_at j) \<and> is_null (lease_token j)
      \<and> is_null (lease_expires_at j) \<and> is_null (finished_at j))
   \<or> (job_status j = PROCESSING \<and> is_null (available_at j) \<and> 0 < job_attempt_count j
      \<and> \<not> is_null (lease_token j) \<and> \<not> is_null (lease_expires_at j) \<and> is_null (error_code j)
      \<and> is_null (finished_at j))
   \<or> (job_status j = COMPLETED \<and> is_null (available_at j) \<and> 0 < job_attempt_count j
      \<and> is_null (lease_token j) \<and> is_null (lease_expires_at j) \<and> is_null (error_code j)
      \<and> \<not> is_null (finished_at j))
   \<or> (job_status j = FAILED \<and> is_null (available_at j) \<and> 0 < job_attempt_count j
      \<and> is_null (lease_token j) \<and> is_null (lease_expires_at j) \<and> \<not> is_null (error_code j)
      \<and> \<not> is_null (finished_at j))"

definition job_output_fields_check :: "report_processing_job \<Rightarrow> bool" where [check_defs]:
  "job_output_fields_check j \<longleftrightarrow>
     (job_status j = COMPLETED
      \<and> \<not> is_null (result_storage_bucket j) \<and> \<not> is_null (normalized_storage_key j)
      \<and> \<not> is_null (normalized_storage_version_id j) \<and> \<not> is_null (normalized_etag j)
      \<and> \<not> is_null (normalized_size_bytes j) \<and> \<not> is_null (profile_storage_key j)
      \<and> \<not> is_null (profile_storage_version_id j) \<and> \<not> is_null (profile_etag j)
      \<and> \<not> is_null (record_count j) \<and> \<not> is_null (sheet_count j))
   \<or> (job_status j \<noteq> COMPLETED
      \<and> is_null (result_storage_bucket j) \<and> is_null (normalized_storage_key j)
      \<and> is_null (normalized_storage_version_id j) \<and> is_null (normalized_etag j)
      \<and> is_null (normalized_size_bytes j) \<and> is_null (profile_storage_key j)
      \<and> is_null (profile_storage_version_id j) \<and> is_null (profile_etag j)
      \<and> is_null (record_count j) \<and> is_null (sheet_count j))"

definition job_output_values_check :: "report_processing_job \<Rightarrow> bool" where [check_defs]:
  "job_output_values_check j \<longleftrightarrow>
     0 < length (source_storage_version_id j) \<and> 0 < length (source_etag j)
   \<and> null_or (\<lambda>s. 3 \<le> length s \<and> length s \<le> 63) (result_storage_bucket j)
   \<and> null_or (\<lambda>s. 0 < length s) (normalized_storage_key j)
   \<and> null_or (\<lambda>s. 0 < length s) (normalized_storage_version_id j)
   \<and> null_or (\<lambda>s. 0 < length s) (normalized_etag j)
   \<and> null_or (\<lambda>s. 0 < length s) (profile_storage_key j)
   \<and> null_or (\<lambda>s. 0 < length s) (profile_storage_version_id j)
   \<and> null_or (\<lambda>s. 0 < length s) (profile_etag j)
   \<and> null_or (\<lambda>n. 0 < n) (normalized_size_bytes j)
   \<and> null_or (\<lambda>n. 0 \<le> n) (record_count j)
   \<and> null_or (\<lambda>n. 0 < n) (sheet_count j)"

definition job_timestamps_check :: "report_processing_job \<Rightarrow> bool" where [check_defs]:
  "job_timestamps_check j \<longleftrightarrow>
     null_or (\<lambda>t. job_created_at j \<le> t) (available_at j)
   \<and> null_or (\<lambda>t. job_created_at j \<le> t) (last_dispatched_at j)
   \<and> null_or (\<lambda>t. job_created_at j \<le> t) (started_at j)
   \<and> null_or2 (\<lambda>f s. s \<le> f) (finished_at j) (started_at j)
   \<and> null_or2 (\<lambda>l s. s < l) (lease_expires_at j) (started_at j)"

definition report_processing_job_checks :: "report_processing_job \<Rightarrow> bool" where
  "report_processing_job_checks j \<longleftrightarrow>
     job_attempts_check j \<and> job_dispatch_check j \<and> job_status_fields_check j
   \<and> job_output_fields_check j \<and> job_output_values_check j \<and> job_timestamps_check j"

end
