(* ===== verification/Model_Billing.thy ===== *)
theory Model_Billing
  imports Prelude
begin

text \<open>
  The rows of \<open>app/models/billing.py\<close>: Checkout sessions, invoices and claimed webhook events.
\<close>

datatype checkout_status = CHECKOUT_PENDING | CHECKOUT_OPEN | CHECKOUT_COMPLETE | CHECKOUT_EXPIRED

datatype invoice_status = INVOICE_DRAFT | INVOICE_OPEN | INVOICE_PAID | INVOICE_UNCOLLECTIBLE
  | INVOICE_VOID

datatype webhook_result = WEBHOOK_PROCESSED | WEBHOOK_IGNORED

record billing_checkout_session =
  co_id :: uuid
  co_business_id :: uuid
  co_created_at :: time
  co_subscription_id :: uuid
  co_plan_id :: uuid
  co_status :: checkout_status
  co_idempotency_key_digest :: string
  stripe_checkout_session_id :: "string option"
  checkout_url :: "string option"
  co_expires_at :: "time option"
  co_completed_at :: "time option"
  co_stripe_customer_id :: "string option"
  co_stripe_subscription_id :: "string option"

record billing_invoice =
  inv_id :: uuid
  inv_business_id :: uuid
  inv_subscription_id :: uuid
  stripe_invoice_id :: string
  inv_stripe_customer_id :: string
  invoice_number :: "string option"
  inv_status :: invoice_status
  inv_currency :: string
  subtotal_cents :: int
  total_cents :: int
  amount_due_cents :: int
  amount_paid_cents :: int
  amount_remaining_cents :: int
  inv_stripe_created_at :: time
  period_started_at :: "time option"
  period_ends_at :: "time option"
  paid_at :: "time option"
  hosted_invoice_url :: "string option"
  invoice_pdf_url :: "string option"
  inv_last_stripe_event_created_at :: time
  inv_last_stripe_event_id :: string

definition billing_invoice_checks :: "billing_invoice \<Rightarrow> bool" where [check_defs]:
  "billing_invoice_checks i \<longleftrightarrow> length (inv_currency i) = 3"

record stripe_webhook_event =
  ev_id :: uuid
  stripe_event_id :: string
  event_type :: string
  object_id :: "string option"
  ev_stripe_created_at :: time
  livemode :: bool
  ev_result :: webhook_result
  processed_at :: time

end
