(* ===== verification/Model_Dashboard.thy ===== *)
theory Model_Dashboard
  imports Model_Credit
begin

text \<open>
  The rows of \<open>app/models/dashboard.py\<close>: dashboards, their immutable versioned snapshots and the report
  artifacts a snapshot was made from, with their CHECK constraints.  A JSONB column is a \<open>json\<close> value.
\<close>

definition DASHBOARD_TITLE_MAX_LENGTH :: nat where "DASHBOARD_TITLE_MAX_LENGTH = 160"
definition DASHBOARD_SNAPSHOT_SCHEMA_VERSION :: int where "DASHBOARD_SNAPSHOT_SCHEMA_VERSION = 1"

datatype dashboard_type = EXECUTIVE_SUMMARY | FINANCIAL_PERFORMANCE | OPERATIONAL_KPI

primrec dashboard_type_value :: "dashboard_type \<Rightarrow> string" where
  "dashboard_type_value EXECUTIVE_SUMMARY = ''executive_summary''"
| "dashboard_type_value FINANCIAL_PERFORMANCE = ''financial_performance''"
| "dashboard_type_value OPERATIONAL_KPI = ''operational_kpi''"

definition is_json_object :: "json \<Rightarrow> bool" where
  "is_json_object j = (case j of JDict _ \<Rightarrow> True | _ \<Rightarrow> False)"

record dashboard =
  dash_id :: uuid
  dash_business_id :: uuid
  dash_created_at :: time
  dash_updated_at :: time
  dash_created_by_user_id :: uuid
  dash_type :: dashboard_type
  dash_title :: string
  dash_configuration :: json
  dash_insight_configuration :: "json option"

definition dashboard_checks :: "dashboard \<Rightarrow> bool" where [check_defs]:
  "dashboard_checks x \<longleftrightarrow> trimmed_length_between 1 DASHBOARD_TITLE_MAX_LENGTH (dash_title x)
   \<and> is_json_object (dash_configuration x) \<and> null_or is_json_object (dash_insight_configuration x)"

record dashboard_snapshot =
  ds_id :: uuid
  ds_business_id :: uuid
  ds_dashboard_id :: uuid
  ds_version :: int
  ds_schema_version :: int
  ds_payload :: json
  ds_content_hash :: string
  ds_created_by_user_id :: uuid
  ds_created_at :: time

definition lower_hex_digit :: "char \<Rightarrow> bool" where
  "lower_hex_digit c \<longleftrightarrow> (CHR ''0'' \<le> c \<and> c \<le> CHR ''9'') \<or> (CHR ''a'' \<le> c \<and> c \<le> CHR ''f'')"

definition dashboard_snapshot_checks :: "dashboard_snapshot \<Rightarrow> bool" where [check_defs]:
  "dashboard_snapshot_checks s \<longleftrightarrow> 1 \<le> ds_version s
   \<and> ds_schema_version s = DASHBOARD_SNAPSHOT_SCHEMA_VERSION \<and> is_json_object (ds_payload s)
   \<and> length (ds_content_hash s) = 64 \<and> list_all lower_hex_digit (ds_content_hash s)"

record snapshot_source =
  src_id :: uuid
  src_business_id :: uuid
  src_snapshot_id :: uuid
  src_processing_job_id :: uuid
  src_position :: int
  src_normalized_version_id :: string
  src_normalized_etag :: string
  src_profile_version_id :: string
  src_profile_etag :: string
  src_created_at :: time

definition snapshot_source_checks :: "snapshot_source \<Rightarrow> bool" where [check_defs]:
  "snapshot_source_checks s \<longleftrightarrow> 0 \<le> src_position s
   \<and> 0 < length (src_normalized_version_id s) \<and> 0 < length (src_normalized_etag s)
   \<and> 0 < length (src_profile_version_id s) \<and> 0 < length (src_profile_etag s)"

end
