(* ===== verification/Model_AI.thy ===== *)
theory Model_AI
  imports Model_Credit
begin

text \<open>
  The conversation and message rows of \<open>app/models/ai.py\<close> with their CHECK constraints.
\<close>

definition AI_CONVERSATION_TITLE_MAX_LENGTH :: nat where "AI_CONVERSATION_TITLE_MAX_LENGTH = 160"
definition AI_MESSAGE_CONTENT_MAX_LENGTH :: nat where "AI_MESSAGE_CONTENT_MAX_LENGTH = 12000"

datatype ai_message_role = MSG_USER | MSG_ASSISTANT

datatype ai_message_status = MSG_PENDING | MSG_COMPLETED | MSG_FAILED

datatype ai_conversation_purpose = CHAT | DASHBOARD_ANALYSIS

record ai_conversation =
  conv_id :: uuid
  conv_business_id :: uuid
  conv_created_at :: time
  conv_updated_at :: time
  conv_created_by_user_id :: uuid
  conv_purpose :: ai_conversation_purpose
  conv_dashboard_snapshot_id :: "uuid option"
  conv_title :: "string option"
  conv_last_message_at :: "time option"

definition ai_conversation_checks :: "ai_conversation \<Rightarrow> bool" where [check_defs]:
  "ai_conversation_checks c \<longleftrightarrow>
     null_or (trimmed_length_between 1 AI_CONVERSATION_TITLE_MAX_LENGTH) (conv_title c)
   \<and> null_or (\<lambda>t. conv_created_at c \<le> t) (conv_last_message_at c)
   \<and> (conv_purpose c \<noteq> DASHBOARD_ANALYSIS \<or> \<not> is_null (conv_dashboard_snapshot_id c))"

record ai_message =
  msg_id :: uuid
  msg_business_id :: uuid
  msg_created_at :: time
  msg_conversation_id :: uuid
  msg_role :: ai_message_role
  msg_status :: ai_message_status
  msg_content :: string
  msg_created_by_user_id :: "uuid option"
  msg_reply_to_message_id :: "uuid option"
  msg_idempotency_key_digest :: "string option"
  msg_credit_ledger_entry_id :: "uuid option"
  msg_processing_token :: "uuid option"
  msg_processing_lease_expires_at :: "time option"
  msg_provider_response_id :: "string option"
  msg_provider_model :: "string option"
  msg_provider_finish_reason :: "string option"
  msg_prompt_token_count :: "int option"
  msg_response_token_count :: "int option"
  msg_thoughts_token_count :: "int option"
  msg_total_token_count :: "int option"
  msg_completed_at :: "time option"
  msg_error_code :: "string option"

definition message_role_fields_check :: "ai_message \<Rightarrow> bool" where [check_defs]:
  "message_role_fields_check m \<longleftrightarrow>
     (msg_role m = MSG_USER \<and> \<not> is_null (msg_created_by_user_id m)
      \<and> is_null (msg_reply_to_message_id m) \<and> \<not> is_null (msg_idempotency_key_digest m))
   \<or> (msg_role m = MSG_ASSISTANT \<and> is_null (msg_created_by_user_id m)
      \<and> \<not> is_null (msg_reply_to_message_id m) \<and> is_null (msg_idempotency_key_digest m)
      \<and> is_null (msg_processing_token m) \<and> is_null (msg_processing_lease_expires_at m))"

definition message_provider_fields_check :: "ai_message \<Rightarrow> bool" where [check_defs]:
  "message_provider_fields_check m \<longleftrightarrow>
     (msg_role m = MSG_USER \<and> is_null (msg_provider_response_id m) \<and> is_null (msg_provider_model m)
      \<and> is_null (msg_provider_finish_reason m) \<and> is_null (msg_prompt_token_count m)
      \<and> is_null (msg_response_token_count m) \<and> is_null (msg_thoughts_token_count m)
      \<and> is_null (msg_total_token_count m))
   \<or> (msg_role m = MSG_ASSISTANT \<and> msg_status m = MSG_COMPLETED
      \<and> \<not> is_null (msg_credit_ledger_entry_id m) \<and> \<not> is_null (msg_provider_model m)
      \<and> \<not> is_null (msg_provider_finish_reason m) \<and> \<not> is_null (msg_completed_at m)
      \<and> is_null (msg_error_code m))"

definition message_status_fields_check :: "ai_message \<Rightarrow> bool" where [check_defs]:
  "message_status_fields_check m \<longleftrightarrow>
     (msg_role m = MSG_USER \<and>
       ((msg_status m = MSG_PENDING \<and> is_null (msg_completed_at m) \<and> is_null (msg_error_code m)
         \<and> ((is_null (msg_credit_ledger_entry_id m) \<and> is_null (msg_processing_token m)
             \<and> is_null (msg_processing_lease_expires_at m))
          \<or> (\<not> is_null (msg_credit_ledger_entry_id m) \<and> \<not> is_null (msg_processing_token m)
             \<and> \<not> is_null (msg_processing_lease_expires_at m))))
      \<or> (msg_status m = MSG_COMPLETED \<and> \<not> is_null (msg_credit_ledger_entry_id m)
         \<and> \<not> is_null (msg_completed_at m) \<and> is_null (msg_error_code m)
         \<and> is_null (msg_processing_token m) \<and> is_null (msg_processing_lease_expires_at m))
      \<or> (msg_status m = MSG_FAILED \<and> \<not> is_null (msg_completed_at m) \<and> \<not> is_null (msg_error_code m)
         \<and> is_null (msg_processing_token m) \<and> is_null (msg_processing_lease_expires_at m)
         \<and> null_or (trimmed_length_between 1 64) (msg_error_code m))))
   \<or> msg_role m = MSG_ASSISTANT"

definition ai_message_checks :: "ai_message \<Rightarrow> bool" where [check_defs]:
  "ai_message_checks m \<longleftrightarrow>
     trimmed_length_between 1 AI_MESSAGE_CONTENT_MAX_LENGTH (msg_content m)
   \<and> null_or (\<lambda>g. length g = 64) (msg_idempotency_key_digest m)
   \<and> message_role_fields_check m \<and> message_provider_fields_check m \<and> message_status_fields_check m
   \<and> null_or (\<lambda>t. msg_created_at m \<le> t) (msg_processing_lease_expires_at m)
   \<and> null_or (\<lambda>n. 0 \<le> n) (msg_prompt_token_count m) \<and> null_or (\<lambda>n. 0 \<le> n) (msg_response_token_count m)
   \<and> null_or (\<lambda>n. 0 \<le> n) (msg_thoughts_token_count m) \<and> null_or (\<lambda>n. 0 \<le> n) (msg_total_token_count m)
   \<and> null_or (\<lambda>t. msg_created_at m \<le> t) (msg_completed_at m)"

end
