(* ===== verification/Database.thy ===== *)
theory Database
  imports Model_Credit Model_Report Model_Billing Model_Dashboard Model_AI
begin

text \<open>
  The PostgreSQL database as one record of tables, and its table constraints: CHECK constraints
  row by row, primary keys and UNIQUE constraints (partial indexes included), and the composite
  foreign keys that tie a row to the business of its parent.

  A service operation maps a database to a result and the database that the transaction leaves
  behind: the committed state, or the last committed one when the transaction rolls back.  A
  commit (or flush) is accepted when the constraints of the tables the operation writes hold, and
  is an \<open>IntegrityError\<close> otherwise.
\<close>

record db =
  users :: "user list"
  businesses :: "business list"
  role_assignments :: "role_assignment list"
  refresh_tokens :: "refresh_token list"
  email_verification_otps :: "email_verification_otp list"
  password_reset_otps :: "password_reset_otp list"
  email_change_otps :: "email_change_otp list"
  two_step_challenges :: "email_two_step_challenge list"
  plans :: "plan list"
  plan_entitlements :: "plan_entitlement list"
  subscriptions :: "subscription list"
  subscription_entitlements :: "subscription_entitlement list"
  credit_accounts :: "ai_credit_account list"
  ledger_entries :: "ai_credit_ledger_entry list"
  credit_adjustments :: "ai_credit_adjustment list"
  audit_events :: "admin_audit_event list"
  upload_batches :: "report_upload_batch list"
  uploads :: "report_upload list"
  processing_jobs :: "report_processing_job list"
  checkout_sessions :: "billing_checkout_session list"
  invoices :: "billing_invoice list"
  webhook_events :: "stripe_webhook_event list"
  dashboards :: "dashboard list"
  dashboard_snapshots :: "dashboard_snapshot list"
  snapshot_sources :: "snapshot_source list"
  ai_conversations :: "ai_conversation list"
  ai_messages :: "ai_message list"

definition empty_db :: db where
  "empty_db = \<lparr> users = [], businesses = [], role_assignments = [], refresh_tokens = [],
     email_verification_otps = [], password_reset_otps = [], email_change_otps = [],
     two_step_challenges = [], plans = [], plan_entitlements = [], subscriptions = [],
     subscription_entitlements = [], credit_accounts = [], ledger_entries = [],
     credit_adjustments = [], audit_events = [], upload_batches = [], uploads = [],
     processing_jobs = [], checkout_sessions = [], invoices = [], webhook_events = [],
     dashboards = [], dashboard_snapshots = [], snapshot_sources = [], ai_conversations = [],
     ai_messages = [] \<rparr>"

section \<open>Constraints per table\<close>

definition CURRENT_SUBSCRIPTION_STATUSES :: "subscription_status list" where
  "CURRENT_SUBSCRIPTION_STATUSES = [TRIALING, ACTIVE, PAST_DUE, UNPAID, PAUSED, INCOMPLETE]"

definition is_current :: "subscription \<Rightarrow> bool" where
  "is_current s \<longleftrightarrow> sub_status s \<in> set CURRENT_SUBSCRIPTION_STATUSES"

definition user_table_ok :: "db \<Rightarrow> bool" where
  "user_table_ok d \<longleftrightarrow> list_all user_checks (users d) \<and> unique_on user_id (users d)
     \<and> unique_on email (users d)"

definition business_table_ok :: "db \<Rightarrow> bool" where
  "business_table_ok d \<longleftrightarrow> unique_on business_id (businesses d)
     \<and> unique_on owner_user_id (businesses d)"

definition role_assignment_table_ok :: "db \<Rightarrow> bool" where
  "role_assignment_table_ok d \<longleftrightarrow> unique_on assignment_id (role_assignments d)
     \<and> unique_on assignment_user_id (role_assignments d)
     \<and> unique_on (\<lambda>a. (assignment_business_id a, assignment_user_id a)) (role_assignments d)"

definition subscription_table_ok :: "db \<Rightarrow> bool" where
  "subscription_table_ok d \<longleftrightarrow> list_all subscription_checks (subscriptions d)
     \<and> unique_on sub_id (subscriptions d)
     \<and> unique_where is_current sub_business_id (subscriptions d)
     \<and> unique_nullable sub_stripe_subscription_id (subscriptions d)"

definition subscription_entitlement_table_ok :: "db \<Rightarrow> bool" where
  "subscription_entitlement_table_ok d \<longleftrightarrow>
     list_all subscription_entitlement_checks (subscription_entitlements d)
     \<and> unique_on se_id (subscription_entitlements d)
     \<and> unique_on (\<lambda>e. (se_subscription_id e, se_key e)) (subscription_entitlements d)
     \<and> (\<forall>e \<in> set (subscription_entitlements d). \<exists>s \<in> set (subscriptions d).
          sub_id s = se_subscription_id e \<and> sub_business_id s = se_business_id e)"

definition plan_entitlement_table_ok :: "db \<Rightarrow> bool" where
  "plan_entitlement_table_ok d \<longleftrightarrow> list_all plan_entitlement_checks (plan_entitlements d)
     \<and> unique_on pe_id (plan_entitlements d)
     \<and> unique_on (\<lambda>e. (pe_plan_id e, pe_key e)) (plan_entitlements d)"

definition account_key :: "ai_credit_account \<Rightarrow> uuid \<times> uuid \<times> entitlement_key \<times> time \<times> time" where
  "account_key a = (acc_business_id a, acc_subscription_id a, acc_entitlement_key a,
     acc_period_started_at a, acc_period_ends_at a)"

definition credit_account_table_ok :: "db \<Rightarrow> bool" where
  "credit_account_table_ok d \<longleftrightarrow> list_all ai_credit_account_checks (credit_accounts d)
     \<and> unique_on acc_id (credit_accounts d) \<and> unique_on account_key (credit_accounts d)
     \<and> (\<forall>a \<in> set (credit_accounts d). \<exists>s \<in> set (subscriptions d).
          sub_id s = acc_subscription_id a \<and> sub_business_id s = acc_business_id a)"

definition ledger_table_ok :: "db \<Rightarrow> bool" where
  "ledger_table_ok d \<longleftrightarrow> list_all ai_credit_ledger_entry_checks (ledger_entries d)
     \<and> unique_on ent_id (ledger_entries d)
     \<and> unique_on (\<lambda>e. (ent_business_id e, ent_idempotency_key_digest e)) (ledger_entries d)
     \<and> (\<forall>e \<in> set (ledger_entries d). \<exists>a \<in> set (credit_accounts d).
          acc_id a = ent_account_id e \<and> acc_business_id a = ent_business_id e
          \<and> acc_subscription_id a = ent_subscription_id e)"

definition adjustment_table_ok :: "db \<Rightarrow> bool" where
  "adjustment_table_ok d \<longleftrightarrow> list_all ai_credit_adjustment_checks (credit_adjustments d)
     \<and> unique_on adj_id (credit_adjustments d)
     \<and> unique_on (\<lambda>a. (adj_business_id a, adj_idempotency_key_digest a)) (credit_adjustments d)
     \<and> (\<forall>j \<in> set (credit_adjustments d). \<exists>a \<in> set (credit_accounts d).
          acc_id a = adj_account_id j \<and> acc_business_id a = adj_business_id j
          \<and> acc_subscription_id a = adj_subscription_id j)"

definition audit_table_ok :: "db \<Rightarrow> bool" where
  "audit_table_ok d \<longleftrightarrow> list_all admin_audit_event_checks (audit_events d)
     \<and> unique_on aud_id (audit_events d)"

definition upload_batch_table_ok :: "db \<Rightarrow> bool" where
  "upload_batch_table_ok d \<longleftrightarrow> list_all report_upload_batch_checks (upload_batches d)
     \<and> unique_on batch_id (upload_batches d)
     \<and> (\<forall>b \<in> set (upload_batches d). \<exists>a \<in> set (role_assignments d).
          assignment_business_id a = batch_business_id b
          \<and> assignment_user_id a = created_by_user_id b)"

definition upload_table_ok :: "db \<Rightarrow> bool" where
  "upload_table_ok d \<longleftrightarrow> list_all report_upload_checks (uploads d)
     \<and> unique_on up_id (uploads d)
     \<and> unique_on (\<lambda>u. (up_batch_id u, batch_position u)) (uploads d)
     \<and> unique_on storage_key (uploads d)
     \<and> (\<forall>u \<in> set (uploads d). \<exists>b \<in> set (upload_batches d).
          batch_id b = up_batch_id u \<and> batch_business_id b = up_business_id u)
     \<and> (\<forall>u \<in> set (uploads d). \<exists>a \<in> set (role_assignments d).
          assignment_business_id a = up_business_id u
          \<and> assignment_user_id a = uploaded_by_user_id u)"

definition job_table_ok :: "db \<Rightarrow> bool" where
  "job_table_ok d \<longleftrightarrow> list_all report_processing_job_checks (processing_jobs d)
     \<and> unique_on job_id (processing_jobs d)
     \<and> unique_on report_upload_id (processing_jobs d)
     \<and> unique_nullable normalized_storage_key (processing_jobs d)
     \<and> unique_nullable profile_storage_key (processing_jobs d)
     \<and> (\<forall>j \<in> set (processing_jobs d). \<exists>u \<in> set (uploads d).
          up_id u = report_upload_id j \<and> up_business_id u = job_business_id j)"

definition checkout_is_open :: "billing_checkout_session \<Rightarrow> bool" where
  "checkout_is_open c \<longleftrightarrow> co_status c = CHECKOUT_PENDING \<or> co_status c = CHECKOUT_OPEN"

definition checkout_table_ok :: "db \<Rightarrow> bool" where
  "checkout_table_ok d \<longleftrightarrow> unique_on co_id (checkout_sessions d)
     \<and> unique_on (\<lambda>c. (co_business_id c, co_idempotency_key_digest c)) (checkout_sessions d)
     \<and> unique_where checkout_is_open co_business_id (checkout_sessions d)
     \<and> unique_nullable stripe_checkout_session_id (checkout_sessions d)
     \<and> (\<forall>c \<in> set (checkout_sessions d). \<exists>s \<in> set (subscriptions d).
          sub_id s = co_subscription_id c \<and> sub_business_id s = co_business_id c)"

definition invoice_table_ok :: "db \<Rightarrow> bool" where
  "invoice_table_ok d \<longleftrightarrow> list_all billing_invoice_checks (invoices d)
     \<and> unique_on inv_id (invoices d) \<and> unique_on stripe_invoice_id (invoices d)
     \<and> (\<forall>i \<in> set (invoices d). \<exists>s \<in> set (subscriptions d).
          sub_id s = inv_subscription_id i \<and> sub_business_id s = inv_business_id i)"

definition webhook_event_table_ok :: "db \<Rightarrow> bool" where
  "webhook_event_table_ok d \<longleftrightarrow> unique_on ev_id (webhook_events d)
     \<and> unique_on stripe_event_id (webhook_events d)"

definition challenge_table_ok :: "db \<Rightarrow> bool" where
  "challenge_table_ok d \<longleftrightarrow> list_all challenge_checks (two_step_challenges d)
     \<and> unique_on otp_id (two_step_challenges d)"

definition refresh_token_table_ok :: "db \<Rightarrow> bool" where
  "refresh_token_table_ok d \<longleftrightarrow> unique_on rt_id (refresh_tokens d)
     \<and> unique_on rt_token_id (refresh_tokens d)"

definition otp_tables_ok :: "db \<Rightarrow> bool" where
  "otp_tables_ok d \<longleftrightarrow>
     unique_on otp_id (email_verification_otps d) \<and> unique_on otp_hash (email_verification_otps d)
   \<and> unique_on otp_id (password_reset_otps d) \<and> unique_on otp_hash (password_reset_otps d)
   \<and> unique_on otp_id (email_change_otps d) \<and> unique_on otp_hash (email_change_otps d)"

definition dashboard_table_ok :: "db \<Rightarrow> bool" where
  "dashboard_table_ok d \<longleftrightarrow> list_all dashboard_checks (dashboards d)
     \<and> unique_on dash_id (dashboards d)
     \<and> (\<forall>x \<in> set (dashboards d). \<exists>a \<in> set (role_assignments d).
          assignment_business_id a = dash_business_id x
          \<and> assignment_user_id a = dash_created_by_user_id x)"

definition dashboard_snapshot_table_ok :: "db \<Rightarrow> bool" where
  "dashboard_snapshot_table_ok d \<longleftrightarrow> list_all dashboard_snapshot_checks (dashboard_snapshots d)
     \<and> unique_on ds_id (dashboard_snapshots d)
     \<and> unique_on (\<lambda>s. (ds_dashboard_id s, ds_version s)) (dashboard_snapshots d)
     \<and> (\<forall>s \<in> set (dashboard_snapshots d). \<exists>x \<in> set (dashboards d).
          dash_id x = ds_dashboard_id s \<and> dash_business_id x = ds_business_id s)
     \<and> (\<forall>s \<in> set (dashboard_snapshots d). \<exists>a \<in> set (role_assignments d).
          assignment_business_id a = ds_business_id s
          \<and> assignment_user_id a = ds_created_by_user_id s)"

definition snapshot_source_table_ok :: "db \<Rightarrow> bool" where
  "snapshot_source_table_ok d \<longleftrightarrow> list_all snapshot_source_checks (snapshot_sources d)
     \<and> unique_on src_id (snapshot_sources d)
     \<and> unique_on (\<lambda>s. (src_snapshot_id s, src_position s)) (snapshot_sources d)
     \<and> unique_on (\<lambda>s. (src_snapshot_id s, src_processing_job_id s)) (snapshot_sources d)
     \<and> (\<forall>s \<in> set (snapshot_sources d). \<exists>x \<in> set (dashboard_snapshots d).
          ds_id x = src_snapshot_id s \<and> ds_business_id x = src_business_id s)
     \<and> (\<forall>s \<in> set (snapshot_sources d). \<exists>j \<in> set (processing_jobs d).
          job_id j = src_processing_job_id s \<and> job_business_id j = src_business_id s)"

definition conversation_table_ok :: "db \<Rightarrow> bool" where
  "conversation_table_ok d \<longleftrightarrow> list_all ai_conversation_checks (ai_conversations d)
     \<and> unique_on conv_id (ai_conversations d)
     \<and> unique_where (\<lambda>c. conv_purpose c = DASHBOARD_ANALYSIS)
          (\<lambda>c. (conv_business_id c, conv_dashboard_snapshot_id c)) (ai_conversations d)
     \<and> (\<forall>c \<in> set (ai_conversations d). \<exists>a \<in> set (role_assignments d).
          assignment_business_id a = conv_business_id c
          \<and> assignment_user_id a = conv_created_by_user_id c)
     \<and> (\<forall>c \<in> set (ai_conversations d). null_or (\<lambda>i. \<exists>s \<in> set (dashboard_snapshots d).
          ds_id s = i \<and> ds_business_id s = conv_business_id c) (conv_dashboard_snapshot_id c))"

definition message_table_ok :: "db \<Rightarrow> bool" where
  "message_table_ok d \<longleftrightarrow> list_all ai_message_checks (ai_messages d)
     \<and> unique_on msg_id (ai_messages d)
     \<and> unique_nullable (\<lambda>m. map_option (\<lambda>g. (msg_business_id m, g)) (msg_idempotency_key_digest m))
          (ai_messages d)
     \<and> unique_nullable (\<lambda>m. map_option (\<lambda>e. (msg_business_id m, e, msg_role m))
          (msg_credit_ledger_entry_id m)) (ai_messages d)
     \<and> unique_nullable (\<lambda>m. map_option (\<lambda>r. (msg_business_id m, msg_conversation_id m, r))
          (msg_reply_to_message_id m)) (ai_messages d)
     \<and> (\<forall>m \<in> set (ai_messages d). \<exists>c \<in> set (ai_conversations d).
          conv_id c = msg_conversation_id m \<and> conv_business_id c = msg_business_id m)
     \<and> (\<forall>m \<in> set (ai_messages d). null_or (\<lambda>u. \<exists>a \<in> set (role_assignments d).
          assignment_business_id a = msg_business_id m \<and> assignment_user_id a = u)
          (msg_created_by_user_id m))
     \<and> (\<forall>m \<in> set (ai_messages d). null_or (\<lambda>i. \<exists>e \<in> set (ledger_entries d).
          ent_id e = i \<and> ent_business_id e = msg_business_id m) (msg_credit_ledger_entry_id m))
     \<and> (\<forall>m \<in> set (ai_messages d). null_or (\<lambda>r. \<exists>q \<in> set (ai_messages d).
          msg_id q = r \<and> msg_business_id q = msg_business_id m
          \<and> msg_conversation_id q = msg_conversation_id m) (msg_reply_to_message_id m))"

text \<open>The constraints of the tables that the credit services write.\<close>

definition credit_tables_ok :: "db \<Rightarrow> bool" where
  "credit_tables_ok d \<longleftrightarrow> credit_account_table_ok d \<and> ledger_table_ok d \<and> adjustment_table_ok d
     \<and> audit_table_ok d"

text \<open>The constraints of the tables that the report services write.\<close>

definition report_tables_ok :: "db \<Rightarrow> bool" where
  "report_tables_ok d \<longleftrightarrow> upload_batch_table_ok d \<and> upload_table_ok d \<and> job_table_ok d"

text \<open>The constraints of the tables that the AI conversations write, those of the credit tables apart.\<close>

definition ai_tables_ok :: "db \<Rightarrow> bool" where
  "ai_tables_ok d \<longleftrightarrow> conversation_table_ok d \<and> message_table_ok d"

lemmas table_ok_defs = user_table_ok_def business_table_ok_def role_assignment_table_ok_def
  subscription_table_ok_def subscription_entitlement_table_ok_def plan_entitlement_table_ok_def
  credit_account_table_ok_def ledger_table_ok_def adjustment_table_ok_def audit_table_ok_def
  upload_batch_table_ok_def upload_table_ok_def job_table_ok_def checkout_table_ok_def
  invoice_table_ok_def webhook_event_table_ok_def challenge_table_ok_def
  refresh_token_table_ok_def otp_tables_ok_def dashboard_table_ok_def dashboard_snapshot_table_ok_def
  snapshot_source_table_ok_def conversation_table_ok_def message_table_ok_def

section \<open>Tenant scope\<close>

text \<open>
  \<open>tenant_select\<close> of \<open>app/services/tenant.py\<close> refuses a model without a \<open>business_id\<close> column and
  otherwise adds the tenant condition to the criteria; the column is an optional function here.
\<close>

datatype tenant_error = TenantSelectTypeError

definition tenant_select ::
  "('r \<Rightarrow> uuid) option \<Rightarrow> uuid \<Rightarrow> ('r \<Rightarrow> bool) \<Rightarrow> 'r list \<Rightarrow> tenant_error + 'r list" where
  "tenant_select column b criteria t =
     (case column of
        None \<Rightarrow> Inl TenantSelectTypeError
      | Some business_column \<Rightarrow> Inr (rows_where (\<lambda>r. business_column r = b \<and> criteria r) t))"

text \<open>\<open>scope.select(Model, criteria)\<close> and \<open>scope.get\<close> for the tenant-owned tables.\<close>

definition scope_select :: "('r \<Rightarrow> uuid) \<Rightarrow> uuid \<Rightarrow> ('r \<Rightarrow> bool) \<Rightarrow> 'r list \<Rightarrow> 'r list" where
  "scope_select business_column b criteria t =
     rows_where (\<lambda>r. business_column r = b \<and> criteria r) t"

definition scope_one :: "('r \<Rightarrow> uuid) \<Rightarrow> uuid \<Rightarrow> ('r \<Rightarrow> bool) \<Rightarrow> 'r list \<Rightarrow> 'r option" where
  "scope_one business_column b criteria t =
     row_where (\<lambda>r. business_column r = b \<and> criteria r) t"

definition scope_latest ::
  "('r \<Rightarrow> uuid) \<Rightarrow> uuid \<Rightarrow> ('r \<Rightarrow> time) \<Rightarrow> ('r \<Rightarrow> bool) \<Rightarrow> 'r list \<Rightarrow> 'r option" where
  "scope_latest business_column b key criteria t =
     latest_where key (\<lambda>r. business_column r = b \<and> criteria r) t"

lemma scope_select_is_tenant_select:
  "tenant_select (Some business_column) b criteria t = Inr (scope_select business_column b criteria t)"
  by (simp add: tenant_select_def scope_select_def)

lemma scope_one_SomeD:
  "scope_one col b P t = Some r \<Longrightarrow> r \<in> set t \<and> col r = b \<and> P r"
  unfolding scope_one_def by (drule row_where_SomeD) simp

lemma scope_latest_SomeD:
  "scope_latest col b key P t = Some r \<Longrightarrow> r \<in> set t \<and> col r = b \<and> P r"
  unfolding scope_latest_def by (drule latest_where_SomeD) simp

lemma scope_select_subset: "r \<in> set (scope_select col b P t) \<longleftrightarrow> r \<in> set t \<and> col r = b \<and> P r"
  by (auto simp: scope_select_def)

end
