(* ===== verification/Sample.thy ===== *)
theory Sample
  imports Database
begin

text \<open>
  A small consistent database for the witnesses: one verified owner with a business on a running
  trial, and a second business of another owner.
\<close>

definition sample_user :: user where
  "sample_user = \<lparr> user_id = 1, user_created_at = 0, email = ''a@b.co'', full_name = ''A'',
     username = None, phone_number = None, street_address = None, city = None, user_state = None,
     postal_code = None, bio = None, password_hash = ''h'', user_role = Role_USER,
     auth_session_version = 0, user_industry = None, user_job_role = None, terms_accepted_at = None,
     terms_version = None, user_is_active = True, is_verified = True,
     email_two_step_enabled = False, email_two_step_enabled_at = None, last_login_at = None,
     deleted_at = None \<rparr>"

definition sample_admin :: user where
  "sample_admin = sample_user\<lparr> user_id := 2, email := ''r@b.co'', user_role := Role_SUPER_ADMIN \<rparr>"

definition sample_business :: business where
  "sample_business = \<lparr> business_id = 10, business_created_at = 0, owner_user_id = 1,
     business_name = ''B'', business_industry = None \<rparr>"

definition sample_assignment :: role_assignment where
  "sample_assignment = \<lparr> assignment_id = 11, assignment_business_id = 10, assignment_user_id = 1,
     tenant_role = OWNER, assignment_is_active = True \<rparr>"

definition sample_subscription :: subscription where
  "sample_subscription = \<lparr> sub_id = 20, sub_business_id = 10, sub_created_at = 0,
     sub_plan_id = None, sub_status = TRIALING, trial_started_at = Some 0,
     trial_ends_at = Some 1000, current_period_started_at = Some 0,
     current_period_ends_at = Some 1000, cancel_at_period_end = False, canceled_at = None,
     ended_at = None, sub_stripe_customer_id = None, sub_stripe_subscription_id = None,
     stripe_price_id = None, sub_last_stripe_event_created_at = None,
     sub_last_stripe_event_id = None, last_stripe_synced_at = None \<rparr>"

definition sample_entitlement :: subscription_entitlement where
  "sample_entitlement = \<lparr> se_id = 30, se_business_id = 10, se_subscription_id = 20,
     se_key = AI_FULL_RESPONSES, se_source = SRC_TRIAL, se_is_enabled = True,
     se_limit_value = Some 2 \<rparr>"

definition sample_db :: db where
  "sample_db = empty_db\<lparr> users := [sample_user, sample_admin], businesses := [sample_business],
     role_assignments := [sample_assignment], subscriptions := [sample_subscription],
     subscription_entitlements := [sample_entitlement] \<rparr>"

lemmas sample_defs = sample_user_def sample_admin_def sample_business_def sample_assignment_def
  sample_subscription_def sample_entitlement_def sample_db_def empty_db_def

lemma sample_tables_ok:
  "user_table_ok sample_db" "business_table_ok sample_db" "role_assignment_table_ok sample_db"
  "subscription_table_ok sample_db" "subscription_entitlement_table_ok sample_db"
  "plan_entitlement_table_ok sample_db" "credit_tables_ok sample_db" "report_tables_ok sample_db"
  by (simp_all add: table_ok_defs credit_tables_ok_def report_tables_ok_def sample_defs check_defs
      unique_on_def unique_where_def unique_nullable_def is_current_def
      CURRENT_SUBSCRIPTION_STATUSES_def)

end
