(* ===== verification/Subscriptions.thy ===== *)
theory Subscriptions
  imports Sample
begin

text \<open>
  \<open>app/services/subscriptions.py\<close>: the public plan list, the current subscription of a tenant, the
  access window it gives, the effective entitlements (plan rows overridden by subscription rows)
  and \<open>EntitlementService.require\<close>.
\<close>

datatype subscription_error = SubscriptionRequiredError | SubscriptionInactiveError string
  | EntitlementDeniedError | EntitlementLimitReachedError | NegativeUsageValueError

record subscription_access =
  access_active :: bool
  access_reason :: string
  access_period_started_at :: "time option"
  access_period_ends_at :: "time option"

record effective_entitlement =
  ee_key :: entitlement_key
  ee_is_enabled :: bool
  ee_limit_value :: "int option"
  ee_source :: entitlement_source

record entitlement_summary =
  summary_subscription :: subscription
  summary_access :: subscription_access
  summary_entitlements :: "effective_entitlement list"

record entitlement_grant =
  grant_subscription_id :: uuid
  grant_business_id :: uuid
  grant_key :: entitlement_key
  grant_limit_value :: "int option"
  grant_remaining :: "int option"
  grant_period_started_at :: "time option"
  grant_period_ends_at :: "time option"

record plan_with_entitlements =
  pwe_plan :: plan
  pwe_entitlements :: "plan_entitlement list"

section \<open>PlanService\<close>

text \<open>
  \<open>ORDER BY sort_order, name\<close> compares names by the collation of the database, the argument
  \<open>collate\<close>.  \<open>by_plan\<close> is the dictionary of the code, filled row by row.
\<close>

definition append_to_plan ::
  "plan_entitlement \<Rightarrow> (uuid \<times> plan_entitlement list) list \<Rightarrow> (uuid \<times> plan_entitlement list) list" where
  "append_to_plan e by_plan =
     map (\<lambda>(k, es). if k = pe_plan_id e then (k, es @ [e]) else (k, es)) by_plan"

definition list_public :: "(string \<Rightarrow> nat) \<Rightarrow> db \<Rightarrow> plan_with_entitlements list" where
  "list_public collate d =
     (let found = sort_key (\<lambda>p. (sort_order p, collate (plan_name p)))
                    (rows_where (\<lambda>p. plan_is_active p \<and> plan_is_public p) (plans d))
      in if found = [] then []
         else
           let plan_ids = map plan_id found;
               rows = sort_key pe_key
                        (rows_where (\<lambda>e. pe_plan_id e \<in> set plan_ids) (plan_entitlements d));
               by_plan = fold append_to_plan rows (map (\<lambda>i. (i, [])) plan_ids)
           in map (\<lambda>p. \<lparr> pwe_plan = p,
                         pwe_entitlements = (case map_of by_plan (plan_id p) of
                                               None \<Rightarrow> [] | Some es \<Rightarrow> es) \<rparr>) found)"

section \<open>SubscriptionService\<close>

definition get_current :: "uuid \<Rightarrow> db \<Rightarrow> subscription option" where
  "get_current b d = scope_latest sub_business_id b sub_created_at is_current (subscriptions d)"

definition get_by_id :: "uuid \<Rightarrow> uuid \<Rightarrow> db \<Rightarrow> subscription option" where
  "get_by_id b i d = scope_one sub_business_id b (\<lambda>s. sub_id s = i) (subscriptions d)"

definition access :: "bool \<Rightarrow> string \<Rightarrow> time option \<Rightarrow> time option \<Rightarrow> subscription_access" where
  "access active reason started ends =
     \<lparr> access_active = active, access_reason = reason,
       access_period_started_at = started, access_period_ends_at = ends \<rparr>"

lemma access_sel [simp]:
  "access_active (access a r s e) = a" "access_reason (access a r s e) = r"
  "access_period_started_at (access a r s e) = s" "access_period_ends_at (access a r s e) = e"
  by (simp_all add: access_def)

definition evaluate_access :: "subscription \<Rightarrow> time \<Rightarrow> subscription_access" where
  "evaluate_access s checked_at =
     (case sub_status s of
        TRIALING \<Rightarrow>
          (case (trial_started_at s, trial_ends_at s) of
             (Some started, Some ends) \<Rightarrow>
               if checked_at < started
               then access False ''trial_not_started'' (Some started) (Some ends)
               else access (checked_at < ends)
                      (if checked_at < ends then ''active'' else ''trial_expired'')
                      (Some started) (Some ends)
           | _ \<Rightarrow> access False ''trial_period_not_configured'' None None)
      | ACTIVE \<Rightarrow>
          (case (current_period_started_at s, current_period_ends_at s) of
             (Some started, Some ends) \<Rightarrow>
               if checked_at < started
               then access False ''billing_period_not_started'' (Some started) (Some ends)
               else access (checked_at < ends)
                      (if checked_at < ends then ''active'' else ''period_expired'')
                      (Some started) (Some ends)
           | _ \<Rightarrow> access False ''billing_period_not_configured'' None None)
      | other \<Rightarrow> access False (''subscription_'' @ subscription_status_value other)
                   (current_period_started_at s) (current_period_ends_at s))"

text \<open>The window that gives access: the trial while trialing, the billing period while active.\<close>

definition access_window :: "subscription \<Rightarrow> (time \<times> time) option" where
  "access_window s =
     (case sub_status s of
        TRIALING \<Rightarrow> (case (trial_started_at s, trial_ends_at s) of
           (Some x, Some y) \<Rightarrow> Some (x, y) | _ \<Rightarrow> None)
      | ACTIVE \<Rightarrow> (case (current_period_started_at s, current_period_ends_at s) of
           (Some x, Some y) \<Rightarrow> Some (x, y) | _ \<Rightarrow> None)
      | _ \<Rightarrow> None)"

lemma evaluate_access_active_iff:
  "access_active (evaluate_access s t) \<longleftrightarrow>
     (\<exists>x y. access_window s = Some (x, y) \<and> x \<le> t \<and> t < y)"
  by (auto simp: evaluate_access_def access_window_def
      split: subscription_status.splits option.splits)

lemma evaluate_access_period:
  "access_active (evaluate_access s t) \<Longrightarrow>
     \<exists>x y. access_window s = Some (x, y) \<and> x \<le> t \<and> t < y
       \<and> access_period_started_at (evaluate_access s t) = Some x
       \<and> access_period_ends_at (evaluate_access s t) = Some y
       \<and> access_reason (evaluate_access s t) = ''active''"
  by (auto simp: evaluate_access_def access_window_def
      split: subscription_status.splits option.splits if_splits)

lemma evaluate_access_active_reason:
  "access_reason (evaluate_access s t) = ''active'' \<longleftrightarrow> access_active (evaluate_access s t)"
  by (auto simp: evaluate_access_def split: subscription_status.splits option.splits)

section \<open>EntitlementService\<close>

definition entitlement_of_plan :: "plan_entitlement \<Rightarrow> effective_entitlement" where
  "entitlement_of_plan e = \<lparr> ee_key = pe_key e, ee_is_enabled = pe_is_enabled e,
     ee_limit_value = pe_limit_value e, ee_source = SRC_PLAN \<rparr>"

definition entitlement_of_subscription :: "subscription_entitlement \<Rightarrow> effective_entitlement" where
  "entitlement_of_subscription e = \<lparr> ee_key = se_key e, ee_is_enabled = se_is_enabled e,
     ee_limit_value = se_limit_value e, ee_source = se_source e \<rparr>"

definition set_entitlement ::
  "effective_entitlement \<Rightarrow> (entitlement_key \<times> effective_entitlement) list
   \<Rightarrow> (entitlement_key \<times> effective_entitlement) list" where
  "set_entitlement e m = AList.update (ee_key e) e m"

definition plan_rows :: "db \<Rightarrow> subscription \<Rightarrow> plan_entitlement list" where
  "plan_rows d s = (case sub_plan_id s of None \<Rightarrow> []
     | Some p \<Rightarrow> rows_where (\<lambda>e. pe_plan_id e = p) (plan_entitlements d))"

definition subscription_rows :: "db \<Rightarrow> uuid \<Rightarrow> subscription \<Rightarrow> subscription_entitlement list" where
  "subscription_rows d b s =
     scope_select se_business_id b (\<lambda>e. se_subscription_id e = sub_id s) (subscription_entitlements d)"

definition effective_entitlements :: "db \<Rightarrow> uuid \<Rightarrow> subscription \<Rightarrow> effective_entitlement list" where
  "effective_entitlements d b s =
     (let m1 = fold set_entitlement (map entitlement_of_plan (plan_rows d s)) [];
          m2 = fold set_entitlement (map entitlement_of_subscription (subscription_rows d b s)) m1
      in sort_key ee_key (map snd m2))"

definition summarize :: "db \<Rightarrow> uuid \<Rightarrow> time \<Rightarrow> subscription_error + entitlement_summary" where
  "summarize d b now =
     (case get_current b d of
        None \<Rightarrow> Inl SubscriptionRequiredError
      | Some s \<Rightarrow> Inr \<lparr> summary_subscription = s, summary_access = evaluate_access s now,
                         summary_entitlements = effective_entitlements d b s \<rparr>)"

definition find_entitlement ::
  "entitlement_key \<Rightarrow> effective_entitlement list \<Rightarrow> effective_entitlement option" where
  "find_entitlement k es = find (\<lambda>i. ee_key i = k) es"

definition require ::
  "db \<Rightarrow> uuid \<Rightarrow> entitlement_key \<Rightarrow> int \<Rightarrow> time \<Rightarrow> subscription_error + entitlement_grant" where
  "require d b k current_usage now =
     (if current_usage < 0 then Inl NegativeUsageValueError
      else case summarize d b now of
        Inl e \<Rightarrow> Inl e
      | Inr summary \<Rightarrow>
          if \<not> access_active (summary_access summary)
          then Inl (SubscriptionInactiveError (access_reason (summary_access summary)))
          else case find_entitlement k (summary_entitlements summary) of
            None \<Rightarrow> Inl EntitlementDeniedError
          | Some ent \<Rightarrow>
              if \<not> ee_is_enabled ent then Inl EntitlementDeniedError
              else if (case ee_limit_value ent of None \<Rightarrow> False | Some l \<Rightarrow> l \<le> current_usage)
              then Inl EntitlementLimitReachedError
              else Inr \<lparr> grant_subscription_id = sub_id (summary_subscription summary),
                         grant_business_id = sub_business_id (summary_subscription summary),
                         grant_key = k,
                         grant_limit_value = ee_limit_value ent,
                         grant_remaining = (case ee_limit_value ent of None \<Rightarrow> None
                                              | Some l \<Rightarrow> Some (l - current_usage)),
                         grant_period_started_at = access_period_started_at (summary_access summary),
                         grant_period_ends_at = access_period_ends_at (summary_access summary) \<rparr>)"

section \<open>The effective entitlements as a lookup\<close>

text \<open>
  The dictionary of the code is an association list whose keys are distinct; sorting its values
  does not change what a search by key finds.
\<close>

definition entitlement_map_ok :: "(entitlement_key \<times> effective_entitlement) list \<Rightarrow> bool" where
  "entitlement_map_ok m \<longleftrightarrow> distinct (map fst m) \<and> (\<forall>(k, e) \<in> set m. ee_key e = k)"

lemma entitlement_map_ok_Nil [simp]: "entitlement_map_ok []"
  by (simp add: entitlement_map_ok_def)

lemma map_of_set_entitlement [simp]:
  "map_of (set_entitlement e m) = (map_of m)(ee_key e \<mapsto> e)"
  by (simp add: set_entitlement_def AList.update_conv')

lemma entitlement_map_ok_set:
  assumes "entitlement_map_ok m"
  shows "entitlement_map_ok (set_entitlement e m)"
proof -
  have d: "distinct (map fst (set_entitlement e m))"
    using assms by (simp add: entitlement_map_ok_def set_entitlement_def AList.distinct_update)
  moreover have "ee_key x = k" if "(k, x) \<in> set (set_entitlement e m)" for k x
  proof -
    from that d have "map_of (set_entitlement e m) k = Some x" by (rule map_of_is_SomeI [rotated])
    then show ?thesis
      using assms by (auto simp: entitlement_map_ok_def split: if_splits dest: map_of_SomeD)
  qed
  ultimately show ?thesis by (auto simp: entitlement_map_ok_def)
qed

lemma entitlement_map_ok_fold: "entitlement_map_ok m \<Longrightarrow> entitlement_map_ok (fold set_entitlement es m)"
  by (induction es arbitrary: m) (auto intro: entitlement_map_ok_set)

lemma map_of_fold_set_entitlement:
  "map_of (fold set_entitlement es m) k =
     (case find (\<lambda>e. ee_key e = k) (rev es) of None \<Rightarrow> map_of m k | Some e \<Rightarrow> Some e)"
proof (induction es rule: rev_induct)
  case Nil
  then show ?case by simp
next
  case (snoc e es)
  then show ?case by simp
qed

lemma ee_key_values:
  assumes "entitlement_map_ok m"
  shows "map ee_key (map snd m) = map fst m"
  using assms by (auto simp: entitlement_map_ok_def)

lemma find_values:
  assumes "entitlement_map_ok m"
  shows "find_entitlement k (sort_key ee_key (map snd m)) = map_of m k"
proof -
  have dist: "distinct (map ee_key (sort_key ee_key (map snd m)))"
    using assms by (simp only: distinct_map_sort_key ee_key_values [OF assms])
      (simp add: entitlement_map_ok_def)
  have "find_entitlement k (sort_key ee_key (map snd m)) = Some x \<longleftrightarrow> map_of m k = Some x" for x
  proof -
    have "find_entitlement k (sort_key ee_key (map snd m)) = Some x
       \<longleftrightarrow> x \<in> snd ` set m \<and> ee_key x = k"
      using find_distinct_key [OF dist, of k x] by (simp add: find_entitlement_def)
    also have "\<dots> \<longleftrightarrow> (k, x) \<in> set m"
      using assms by (force simp: entitlement_map_ok_def)
    also have "\<dots> \<longleftrightarrow> map_of m k = Some x"
      using assms by (simp add: entitlement_map_ok_def)
    finally show ?thesis .
  qed
  then show ?thesis by (metis not_Some_eq)
qed


lemma ee_key_of [simp]:
  "ee_key (entitlement_of_plan e) = pe_key e"
  "ee_key (entitlement_of_subscription x) = se_key x"
  by (simp_all add: entitlement_of_plan_def entitlement_of_subscription_def)

lemma effective_find:
  "find_entitlement k (effective_entitlements d b s) =
     (case find (\<lambda>e. se_key e = k) (rev (subscription_rows d b s)) of
        Some e \<Rightarrow> Some (entitlement_of_subscription e)
      | None \<Rightarrow> map_option entitlement_of_plan (find (\<lambda>e. pe_key e = k) (rev (plan_rows d s))))"
  by (simp add: effective_entitlements_def Let_def find_values entitlement_map_ok_fold
      map_of_fold_set_entitlement find_map_key rev_map split: option.splits)

lemma subscription_rows_distinct:
  "subscription_entitlement_table_ok d \<Longrightarrow> distinct (map se_key (subscription_rows d b s))"
  unfolding subscription_rows_def scope_select_def rows_where_def
  by (rule distinct_filter_pair_key [where f = se_subscription_id and c = "sub_id s"])
     (auto simp: subscription_entitlement_table_ok_def unique_on_def)

lemma plan_rows_distinct:
  "plan_entitlement_table_ok d \<Longrightarrow> distinct (map pe_key (plan_rows d s))"
  by (auto simp: plan_rows_def rows_where_def plan_entitlement_table_ok_def unique_on_def
      intro!: distinct_filter_pair_key [where f = pe_plan_id] split: option.splits)

lemma effective_lookup:
  assumes "plan_entitlement_table_ok d" and "subscription_entitlement_table_ok d"
  shows "find_entitlement k (effective_entitlements d b s) =
     (case scope_one se_business_id b (\<lambda>e. se_subscription_id e = sub_id s \<and> se_key e = k)
             (subscription_entitlements d) of
        Some e \<Rightarrow> Some (entitlement_of_subscription e)
      | None \<Rightarrow> (case sub_plan_id s of None \<Rightarrow> None
          | Some p \<Rightarrow> map_option entitlement_of_plan
              (row_where (\<lambda>e. pe_plan_id e = p \<and> pe_key e = k) (plan_entitlements d))))"
proof -
  have sub: "find (\<lambda>e. se_key e = k) (rev (subscription_rows d b s)) =
      scope_one se_business_id b (\<lambda>e. se_subscription_id e = sub_id s \<and> se_key e = k)
        (subscription_entitlements d)"
    using find_rev_key [OF subscription_rows_distinct [OF assms(2)]]
    by (simp add: subscription_rows_def scope_select_def scope_one_def find_filter_rows conj_assoc)
  have plan: "find (\<lambda>e. pe_key e = k) (rev (plan_rows d s)) =
      (case sub_plan_id s of None \<Rightarrow> None
       | Some p \<Rightarrow> row_where (\<lambda>e. pe_plan_id e = p \<and> pe_key e = k) (plan_entitlements d))"
    using find_rev_key [OF plan_rows_distinct [OF assms(1)]]
    by (simp add: plan_rows_def find_filter_rows split: option.splits)
  show ?thesis
    unfolding effective_find sub plan by (simp split: option.splits)
qed

lemma effective_entitlements_keys:
  "sorted (map ee_key (effective_entitlements d b s))
   \<and> distinct (map ee_key (effective_entitlements d b s))"
proof -
  have ok: "entitlement_map_ok (fold set_entitlement (map entitlement_of_subscription (subscription_rows d b s))
     (fold set_entitlement (map entitlement_of_plan (plan_rows d s)) []))" (is "entitlement_map_ok ?m")
    by (intro entitlement_map_ok_fold) simp
  have "distinct (map ee_key (map snd ?m))"
    using ok by (simp only: ee_key_values [OF ok]) (simp add: entitlement_map_ok_def)
  then show ?thesis
    by (simp add: effective_entitlements_def Let_def del: map_map)
qed
section \<open>The current subscription is the only one\<close>

lemma get_current_iff:
  assumes "subscription_table_ok d"
  shows "get_current b d = Some s \<longleftrightarrow> s \<in> set (subscriptions d) \<and> sub_business_id s = b \<and> is_current s"
proof
  assume "get_current b d = Some s"
  then show "s \<in> set (subscriptions d) \<and> sub_business_id s = b \<and> is_current s"
    unfolding get_current_def by (rule scope_latest_SomeD)
next
  assume s: "s \<in> set (subscriptions d) \<and> sub_business_id s = b \<and> is_current s"
  have "unique_where is_current sub_business_id (subscriptions d)"
    using assms by (simp add: subscription_table_ok_def)
  then have "filter (\<lambda>x. sub_business_id x = sub_business_id s \<and> is_current x) (subscriptions d) = [s]"
    using s by (intro unique_where_filter) auto
  with s show "get_current b d = Some s"
    unfolding get_current_def scope_latest_def by (intro latest_where_single) simp
qed

section \<open>Grouping the plan rows\<close>

lemma map_of_append_to_plan:
  "map_of (append_to_plan e m) p =
     (if p = pe_plan_id e then map_option (\<lambda>es. es @ [e]) (map_of m p) else map_of m p)"
  by (induction m) (auto simp: append_to_plan_def)

lemma map_of_fold_append_to_plan:
  "map_of (fold append_to_plan rows m) p =
     map_option (\<lambda>es. es @ filter (\<lambda>e. pe_plan_id e = p) rows) (map_of m p)"
  by (induction rows arbitrary: m)
    (auto simp: map_of_append_to_plan option.map_comp comp_def option.map_ident)

lemma filter_sorted_plan_rows:
  assumes "p \<in> S"
  shows "filter (\<lambda>e. pe_plan_id e = plan_id p)
           (sort_key pe_key (rows_where (\<lambda>e. pe_plan_id e \<in> plan_id ` S) t))
       = sort_key pe_key (rows_where (\<lambda>e. pe_plan_id e = plan_id p) t)"
proof -
  have "filter (\<lambda>e. pe_plan_id e = plan_id p) (rows_where (\<lambda>e. pe_plan_id e \<in> plan_id ` S) t)
      = rows_where (\<lambda>e. pe_plan_id e = plan_id p) t"
    using assms by (auto simp: rows_where_def intro: filter_cong)
  then show ?thesis by (simp add: filter_sort)
qed

lemma list_public_eq:
  "list_public collate d =
     map (\<lambda>p. \<lparr> pwe_plan = p,
              pwe_entitlements = sort_key pe_key
                (rows_where (\<lambda>e. pe_plan_id e = plan_id p) (plan_entitlements d)) \<rparr>)
       (sort_key (\<lambda>p. (sort_order p, collate (plan_name p)))
         (rows_where (\<lambda>p. plan_is_active p \<and> plan_is_public p) (plans d)))"
  by (auto simp: list_public_def Let_def map_of_fold_append_to_plan map_of_map_const
      filter_sorted_plan_rows)
section \<open>Properties\<close>

text \<open>
  A subscription grants access exactly while the window of its status contains the instant
  checked: the trial window while trialing, the billing window while active, never otherwise;
  and the reason says "active" exactly then.
\<close>

theorem access_exactly_in_window:
  "(access_active (evaluate_access s t) \<longleftrightarrow> (\<exists>x y. access_window s = Some (x, y) \<and> x \<le> t \<and> t < y))
   \<and> (access_reason (evaluate_access s t) = ''active'' \<longleftrightarrow> access_active (evaluate_access s t))"
  by (simp add: evaluate_access_active_iff evaluate_access_active_reason)

text \<open>
  The effective entitlement of a key is the tenant's own row of the subscription for that key
  where there is one, and otherwise the row of the subscribed plan: a subscription row overrides
  the plan, and no row of another tenant or plan is ever consulted.
\<close>

theorem effective_entitlement_override:
  assumes "plan_entitlement_table_ok d" and "subscription_entitlement_table_ok d"
  shows "find_entitlement k (effective_entitlements d b s) =
     (case scope_one se_business_id b (\<lambda>e. se_subscription_id e = sub_id s \<and> se_key e = k)
             (subscription_entitlements d) of
        Some e \<Rightarrow> Some (entitlement_of_subscription e)
      | None \<Rightarrow> (case sub_plan_id s of None \<Rightarrow> None
          | Some p \<Rightarrow> map_option entitlement_of_plan
              (row_where (\<lambda>e. pe_plan_id e = p \<and> pe_key e = k) (plan_entitlements d))))
     \<and> sorted (map ee_key (effective_entitlements d b s))
     \<and> distinct (map ee_key (effective_entitlements d b s))"
  using effective_lookup [OF assms] effective_entitlements_keys by simp

theorem effective_entitlement_override_witness:
  "find_entitlement AI_FULL_RESPONSES (effective_entitlements sample_db 10 sample_subscription)
     = Some (entitlement_of_subscription sample_entitlement)"
  using effective_entitlement_override [OF sample_tables_ok(6) sample_tables_ok(5),
      of AI_FULL_RESPONSES 10 sample_subscription]
  by (simp add: scope_one_def sample_defs)

text \<open>
  \<open>require\<close> grants a feature exactly when the usage is not negative, the tenant has a current
  subscription whose window contains the instant, the key is entitled and enabled, and the usage
  is below the limit (if there is one).
\<close>

theorem require_grants_iff:
  "(\<exists>g. require d b k u now = Inr g) \<longleftrightarrow>
     0 \<le> u \<and> (\<exists>s x y e. get_current b d = Some s \<and> access_window s = Some (x, y) \<and> x \<le> now \<and> now < y
       \<and> find_entitlement k (effective_entitlements d b s) = Some e \<and> ee_is_enabled e
       \<and> null_or (\<lambda>l. u < l) (ee_limit_value e))"
  by (auto simp: require_def summarize_def evaluate_access_active_iff null_or_def
      split: option.splits if_splits)

text \<open>
  The public plan list pairs every active public plan, in the order asked for, with exactly its
  own entitlement rows in key order: the grouping through one query and a dictionary is the
  per-plan query.
\<close>

theorem list_public_groups_by_plan:
  "list_public collate d =
     map (\<lambda>p. \<lparr> pwe_plan = p,
              pwe_entitlements = sort_key pe_key
                (rows_where (\<lambda>e. pe_plan_id e = plan_id p) (plan_entitlements d)) \<rparr>)
       (sort_key (\<lambda>p. (sort_order p, collate (plan_name p)))
         (rows_where (\<lambda>p. plan_is_active p \<and> plan_is_public p) (plans d)))"
  by (rule list_public_eq)

end
