(* ===== verification/Credits.thy ===== *)
theory Credits
  imports Subscriptions
begin

text \<open>
  \<open>app/services/ai_credits.py\<close>: reserving, consuming and releasing AI credits against the account
  of the current subscription period, with idempotency keys, and the usage summary.

  SHA-256 is the argument \<open>sha\<close> (the hexadecimal digest of the UTF-8 bytes).  \<open>reserve\<close> looks a
  key up, waits for the lock of the subscription row and looks again; the argument \<open>env\<close> is
  what the transactions that commit while it waits do to the database.
\<close>

definition AI_IDEMPOTENCY_KEY_MAX_LENGTH :: nat where "AI_IDEMPOTENCY_KEY_MAX_LENGTH = 255"
definition AI_RELEASE_REASON_MAX_LENGTH :: nat where "AI_RELEASE_REASON_MAX_LENGTH = 255"

datatype credit_error = CreditSubscriptionError subscription_error | AICreditIdempotencyKeyError
  | AICreditReleaseReasonError | AICreditReservationNotFoundError | AICreditStateConflictError
  | AICreditIntegrityError | CreditCommitIntegrityError

record ledger_snapshot =
  snap_entry_id :: uuid
  snap_account_id :: uuid
  snap_business_id :: uuid
  snap_subscription_id :: uuid
  snap_status :: ai_credit_ledger_status
  snap_limit_value :: "int option"
  snap_reserved_count :: int
  snap_consumed_count :: int
  snap_remaining :: "int option"
  snap_period_started_at :: time
  snap_period_ends_at :: time
  snap_reserved_at :: time
  snap_consumed_at :: "time option"
  snap_released_at :: "time option"
  snap_release_reason :: "string option"
  snap_replayed :: bool

record usage_summary =
  usage_account_id :: "uuid option"
  usage_subscription_id :: uuid
  usage_business_id :: uuid
  usage_limit_value :: "int option"
  usage_reserved_count :: int
  usage_consumed_count :: int
  usage_remaining :: "int option"
  usage_period_started_at :: time
  usage_period_ends_at :: time

record usage_page =
  page_current :: usage_summary
  page_items :: "ai_credit_ledger_entry list"
  page_total :: nat
  page_limit :: nat
  page_offset :: nat

definition digest_ai_idempotency_key :: "(string \<Rightarrow> string) \<Rightarrow> string \<Rightarrow> credit_error + string" where
  "digest_ai_idempotency_key sha key =
     (let normalized = py_strip key
      in if normalized = [] \<or> AI_IDEMPOTENCY_KEY_MAX_LENGTH < length normalized
         then Inl AICreditIdempotencyKeyError
         else Inr (sha normalized))"

definition normalize_ai_release_reason :: "string \<Rightarrow> credit_error + string" where
  "normalize_ai_release_reason reason =
     (let normalized = py_strip reason
      in if normalized = [] \<or> AI_RELEASE_REASON_MAX_LENGTH < length normalized
         then Inl AICreditReleaseReasonError
         else Inr normalized)"

section \<open>Queries\<close>

definition adjustment_total :: "db \<Rightarrow> uuid \<Rightarrow> ai_credit_account \<Rightarrow> int" where
  "adjustment_total d b a =
     sum_list (map adj_delta (rows_where (\<lambda>j. adj_business_id j = b \<and> adj_account_id j = acc_id a
       \<and> adj_subscription_id j = acc_subscription_id a) (credit_adjustments d)))"

definition effective_limit ::
  "db \<Rightarrow> uuid \<Rightarrow> ai_credit_account \<Rightarrow> int option \<Rightarrow> credit_error + int option" where
  "effective_limit d b a base_limit =
     (case base_limit of
        None \<Rightarrow> Inr None
      | Some l \<Rightarrow>
          let effective = l + adjustment_total d b a
          in if effective < 0 then Inl AICreditIntegrityError else Inr (Some effective))"

definition used :: "ai_credit_account \<Rightarrow> int" where
  "used a = acc_reserved_count a + acc_consumed_count a"

definition snapshot_of :: "ai_credit_ledger_entry \<Rightarrow> ai_credit_account \<Rightarrow> bool \<Rightarrow> ledger_snapshot" where
  "snapshot_of e a replayed =
     \<lparr> snap_entry_id = ent_id e, snap_account_id = acc_id a, snap_business_id = ent_business_id e,
       snap_subscription_id = ent_subscription_id e, snap_status = ent_status e,
       snap_limit_value = acc_limit_value a, snap_reserved_count = acc_reserved_count a,
       snap_consumed_count = acc_consumed_count a,
       snap_remaining = (case acc_limit_value a of None \<Rightarrow> None | Some l \<Rightarrow> Some (l - used a)),
       snap_period_started_at = acc_period_started_at a,
       snap_period_ends_at = acc_period_ends_at a, snap_reserved_at = ent_reserved_at e,
       snap_consumed_at = ent_consumed_at e, snap_released_at = ent_released_at e,
       snap_release_reason = ent_release_reason e, snap_replayed = replayed \<rparr>"

definition entry_by_digest :: "db \<Rightarrow> uuid \<Rightarrow> string \<Rightarrow> ai_credit_ledger_entry option" where
  "entry_by_digest d b digest =
     scope_one ent_business_id b (\<lambda>e. ent_idempotency_key_digest e = digest) (ledger_entries d)"

definition entry_by_id :: "db \<Rightarrow> uuid \<Rightarrow> uuid \<Rightarrow> ai_credit_ledger_entry option" where
  "entry_by_id d b i = scope_one ent_business_id b (\<lambda>e. ent_id e = i) (ledger_entries d)"

definition account_for_entry ::
  "db \<Rightarrow> uuid \<Rightarrow> ai_credit_ledger_entry \<Rightarrow> credit_error + ai_credit_account" where
  "account_for_entry d b e =
     (case scope_one acc_business_id b
             (\<lambda>a. acc_id a = ent_account_id e \<and> acc_subscription_id a = ent_subscription_id e)
             (credit_accounts d) of
        None \<Rightarrow> Inl AICreditIntegrityError
      | Some a \<Rightarrow> Inr a)"

definition current_subscription_for_update :: "db \<Rightarrow> uuid \<Rightarrow> subscription option" where
  "current_subscription_for_update d b =
     scope_latest sub_business_id b sub_created_at is_current (subscriptions d)"

definition existing_snapshot :: "db \<Rightarrow> uuid \<Rightarrow> string \<Rightarrow> credit_error + ledger_snapshot option" where
  "existing_snapshot d b digest =
     (case entry_by_digest d b digest of
        None \<Rightarrow> Inr None
      | Some e \<Rightarrow> (case account_for_entry d b e of
            Inl err \<Rightarrow> Inl err
          | Inr a \<Rightarrow> Inr (Some (snapshot_of e a True))))"

section \<open>Writes\<close>

text \<open>An attribute assignment on a loaded row is flushed as an UPDATE of the row with its id.\<close>

definition save_account :: "ai_credit_account \<Rightarrow> db \<Rightarrow> db" where
  "save_account a d = d\<lparr> credit_accounts :=
     update_where (\<lambda>x. acc_id x = acc_id a) (\<lambda>_. a) (credit_accounts d) \<rparr>"

definition save_entry :: "ai_credit_ledger_entry \<Rightarrow> db \<Rightarrow> db" where
  "save_entry e d = d\<lparr> ledger_entries :=
     update_where (\<lambda>x. ent_id x = ent_id e) (\<lambda>_. e) (ledger_entries d) \<rparr>"

definition add_account :: "ai_credit_account \<Rightarrow> db \<Rightarrow> db" where
  "add_account a d = d\<lparr> credit_accounts := insert_row a (credit_accounts d) \<rparr>"

definition add_entry :: "ai_credit_ledger_entry \<Rightarrow> db \<Rightarrow> db" where
  "add_entry e d = d\<lparr> ledger_entries := insert_row e (ledger_entries d) \<rparr>"

definition new_account ::
  "uuid \<Rightarrow> uuid \<Rightarrow> subscription \<Rightarrow> time \<Rightarrow> time \<Rightarrow> int option \<Rightarrow> ai_credit_account" where
  "new_account i b s started ends limit =
     \<lparr> acc_id = i, acc_business_id = b, acc_subscription_id = sub_id s,
       acc_entitlement_key = AI_FULL_RESPONSES, acc_period_started_at = started,
       acc_period_ends_at = ends, acc_limit_value = limit, acc_reserved_count = 0,
       acc_consumed_count = 0 \<rparr>"

definition account_for_period ::
  "db \<Rightarrow> uuid \<Rightarrow> subscription \<Rightarrow> time \<Rightarrow> time \<Rightarrow> ai_credit_account option" where
  "account_for_period d b s started ends =
     scope_one acc_business_id b
       (\<lambda>a. acc_subscription_id a = sub_id s \<and> acc_entitlement_key a = AI_FULL_RESPONSES
          \<and> acc_period_started_at a = started \<and> acc_period_ends_at a = ends) (credit_accounts d)"

text \<open>Finding the account of the period or adding it; \<open>None\<close> when the flush of the new row fails.\<close>

definition ensure_account ::
  "uuid \<Rightarrow> db \<Rightarrow> uuid \<Rightarrow> subscription \<Rightarrow> time \<Rightarrow> time \<Rightarrow> int option
   \<Rightarrow> (ai_credit_account \<times> db) option" where
  "ensure_account new_id d b s started ends limit =
     (case account_for_period d b s started ends of
        Some a \<Rightarrow> Some (a, d)
      | None \<Rightarrow>
          let a = new_account new_id b s started ends limit;
              d' = add_account a d
          in if credit_tables_ok d' then Some (a, d') else None)"

definition new_entry ::
  "uuid \<Rightarrow> uuid \<Rightarrow> ai_credit_account \<Rightarrow> subscription \<Rightarrow> string \<Rightarrow> time \<Rightarrow> ai_credit_ledger_entry" where
  "new_entry i b a s digest reserved_at =
     \<lparr> ent_id = i, ent_business_id = b, ent_account_id = acc_id a, ent_subscription_id = sub_id s,
       ent_entitlement_key = AI_FULL_RESPONSES, ent_idempotency_key_digest = digest,
       ent_status = RESERVED, ent_quantity = 1, ent_reserved_at = reserved_at,
       ent_consumed_at = None, ent_released_at = None, ent_release_reason = None \<rparr>"

text \<open>The handler of \<open>IntegrityError\<close>: after the rollback to \<open>d\<close>, the entry of a concurrent
  duplicate, if it is there now.\<close>

definition reserve_duplicate ::
  "db \<Rightarrow> uuid \<Rightarrow> string \<Rightarrow> (credit_error + ledger_snapshot) \<times> db" where
  "reserve_duplicate d b digest =
     (case existing_snapshot d b digest of
        Inl e \<Rightarrow> (Inl e, d)
      | Inr (Some snap) \<Rightarrow> (Inr snap, d)
      | Inr None \<Rightarrow> (Inl AICreditIntegrityError, d))"

text \<open>The part of \<open>reserve\<close> that counts the credit, once the account and its limit are known.\<close>

definition reserve_count ::
  "uuid \<Rightarrow> db \<Rightarrow> db \<Rightarrow> uuid \<Rightarrow> subscription \<Rightarrow> ai_credit_account \<Rightarrow> int option \<Rightarrow> string \<Rightarrow> time
   \<Rightarrow> (credit_error + ledger_snapshot) \<times> db" where
  "reserve_count entry_id d d1 b s account current_limit digest reserved_at =
     (if (case current_limit of None \<Rightarrow> False | Some l \<Rightarrow> l \<le> used account)
      then (Inl (CreditSubscriptionError EntitlementLimitReachedError), d)
      else if acc_limit_value account \<noteq> current_limit
        \<and> (case current_limit of None \<Rightarrow> False | Some l \<Rightarrow> l < used account)
      then (Inl (CreditSubscriptionError EntitlementLimitReachedError), d)
      else
        let account' = account\<lparr> acc_limit_value := current_limit,
                                acc_reserved_count := acc_reserved_count account + 1 \<rparr>;
            entry = new_entry entry_id b account' s digest reserved_at;
            d2 = add_entry entry (save_account account' d1)
        in if credit_tables_ok d2 then (Inr (snapshot_of entry account' False), d2)
           else reserve_duplicate d b digest)"

definition reserve_locked ::
  "uuid \<Rightarrow> uuid \<Rightarrow> db \<Rightarrow> uuid \<Rightarrow> string \<Rightarrow> time \<Rightarrow> (credit_error + ledger_snapshot) \<times> db" where
  "reserve_locked account_id entry_id d b digest reserved_at =
     (case current_subscription_for_update d b of
        None \<Rightarrow> (Inl (CreditSubscriptionError SubscriptionRequiredError), d)
      | Some s \<Rightarrow>
        let acc = evaluate_access s reserved_at
        in if \<not> access_active acc
           then (Inl (CreditSubscriptionError (SubscriptionInactiveError (access_reason acc))), d)
           else case (access_period_started_at acc, access_period_ends_at acc) of
             (Some started, Some ends) \<Rightarrow>
               (case existing_snapshot d b digest of
                  Inl e \<Rightarrow> (Inl e, d)
                | Inr (Some snap) \<Rightarrow> (Inr snap, d)
                | Inr None \<Rightarrow>
                  (case find_entitlement AI_FULL_RESPONSES (effective_entitlements d b s) of
                     None \<Rightarrow> (Inl (CreditSubscriptionError EntitlementDeniedError), d)
                   | Some ent \<Rightarrow>
                     if \<not> ee_is_enabled ent
                     then (Inl (CreditSubscriptionError EntitlementDeniedError), d)
                     else case ensure_account account_id d b s started ends (ee_limit_value ent) of
                       None \<Rightarrow> reserve_duplicate d b digest
                     | Some (account, d1) \<Rightarrow>
                       (case effective_limit d1 b account (ee_limit_value ent) of
                          Inl e \<Rightarrow> (Inl e, d)
                        | Inr current_limit \<Rightarrow>
                            reserve_count entry_id d d1 b s account current_limit digest
                              reserved_at)))
           | _ \<Rightarrow> (Inl AICreditIntegrityError, d))"

definition reserve ::
  "(string \<Rightarrow> string) \<Rightarrow> (db \<Rightarrow> db) \<Rightarrow> uuid \<Rightarrow> uuid \<Rightarrow> db \<Rightarrow> uuid \<Rightarrow> string \<Rightarrow> time
   \<Rightarrow> (credit_error + ledger_snapshot) \<times> db" where
  "reserve sha env account_id entry_id d b idempotency_key reserved_at =
     (case digest_ai_idempotency_key sha idempotency_key of
        Inl e \<Rightarrow> (Inl e, d)
      | Inr digest \<Rightarrow>
          (case existing_snapshot d b digest of
             Inl e \<Rightarrow> (Inl e, d)
           | Inr (Some snap) \<Rightarrow> (Inr snap, d)
           | Inr None \<Rightarrow> reserve_locked account_id entry_id (env d) b digest reserved_at))"

definition commit_credits ::
  "ledger_snapshot \<Rightarrow> db \<Rightarrow> db \<Rightarrow> (credit_error + ledger_snapshot) \<times> db" where
  "commit_credits snap d d' =
     (if credit_tables_ok d' then (Inr snap, d') else (Inl CreditCommitIntegrityError, d))"

definition consume :: "db \<Rightarrow> uuid \<Rightarrow> uuid \<Rightarrow> time \<Rightarrow> (credit_error + ledger_snapshot) \<times> db" where
  "consume d b entry_id consumed_at =
     (case entry_by_id d b entry_id of
        None \<Rightarrow> (Inl AICreditReservationNotFoundError, d)
      | Some entry \<Rightarrow>
        (case account_for_entry d b entry of
           Inl e \<Rightarrow> (Inl e, d)
         | Inr account \<Rightarrow>
           (case ent_status entry of
              CONSUMED \<Rightarrow> (Inr (snapshot_of entry account True), d)
            | RELEASED \<Rightarrow> (Inl AICreditStateConflictError, d)
            | RESERVED \<Rightarrow>
              if acc_reserved_count account < 1 then (Inl AICreditIntegrityError, d)
              else
                let account' = account\<lparr> acc_reserved_count := acc_reserved_count account - 1,
                                        acc_consumed_count := acc_consumed_count account + 1 \<rparr>;
                    entry' = entry\<lparr> ent_status := CONSUMED, ent_consumed_at := Some consumed_at,
                                    ent_released_at := None, ent_release_reason := None \<rparr>
                in commit_credits (snapshot_of entry' account' False) d
                     (save_entry entry' (save_account account' d)))))"

definition release ::
  "db \<Rightarrow> uuid \<Rightarrow> uuid \<Rightarrow> string \<Rightarrow> time \<Rightarrow> (credit_error + ledger_snapshot) \<times> db" where
  "release d b entry_id reason released_at =
     (case normalize_ai_release_reason reason of
        Inl e \<Rightarrow> (Inl e, d)
      | Inr normalized_reason \<Rightarrow>
        (case entry_by_id d b entry_id of
           None \<Rightarrow> (Inl AICreditReservationNotFoundError, d)
         | Some entry \<Rightarrow>
           (case account_for_entry d b entry of
              Inl e \<Rightarrow> (Inl e, d)
            | Inr account \<Rightarrow>
              (case ent_status entry of
                 RELEASED \<Rightarrow> (Inr (snapshot_of entry account True), d)
               | CONSUMED \<Rightarrow> (Inl AICreditStateConflictError, d)
               | RESERVED \<Rightarrow>
                 if acc_reserved_count account < 1 then (Inl AICreditIntegrityError, d)
                 else
                   let account' = account\<lparr> acc_reserved_count := acc_reserved_count account - 1 \<rparr>;
                       entry' = entry\<lparr> ent_status := RELEASED, ent_consumed_at := None,
                                       ent_released_at := Some released_at,
                                       ent_release_reason := Some normalized_reason \<rparr>
                   in commit_credits (snapshot_of entry' account' False) d
                        (save_entry entry' (save_account account' d))))))"

section \<open>Reads\<close>

definition credit_snapshot :: "db \<Rightarrow> uuid \<Rightarrow> uuid \<Rightarrow> bool \<Rightarrow> credit_error + ledger_snapshot" where
  "credit_snapshot d b entry_id replayed =
     (case scope_one ent_business_id b (\<lambda>e. ent_id e = entry_id) (ledger_entries d) of
        None \<Rightarrow> Inl AICreditReservationNotFoundError
      | Some entry \<Rightarrow>
        (case scope_one acc_business_id b (\<lambda>a. acc_id a = ent_account_id entry) (credit_accounts d) of
           None \<Rightarrow> Inl AICreditIntegrityError
         | Some account \<Rightarrow>
             if acc_subscription_id account \<noteq> ent_subscription_id entry
             then Inl AICreditIntegrityError
             else Inr (snapshot_of entry account replayed)))"

definition usage_history :: "db \<Rightarrow> uuid \<Rightarrow> nat \<Rightarrow> nat \<Rightarrow> time \<Rightarrow> credit_error + usage_page" where
  "usage_history d b limit offset now =
     (case get_current b d of
        None \<Rightarrow> Inl (CreditSubscriptionError SubscriptionRequiredError)
      | Some s \<Rightarrow>
        let acc = evaluate_access s now
        in case (access_active acc, access_period_started_at acc, access_period_ends_at acc) of
          (True, Some started, Some ends) \<Rightarrow>
            (case find_entitlement AI_FULL_RESPONSES (effective_entitlements d b s) of
               None \<Rightarrow> Inl (CreditSubscriptionError EntitlementDeniedError)
             | Some ent \<Rightarrow>
               if \<not> ee_is_enabled ent then Inl (CreditSubscriptionError EntitlementDeniedError)
               else
                 let account = account_for_period d b s started ends;
                     reserved = (case account of None \<Rightarrow> 0 | Some a \<Rightarrow> acc_reserved_count a);
                     consumed = (case account of None \<Rightarrow> 0 | Some a \<Rightarrow> acc_consumed_count a)
                 in case (case account of None \<Rightarrow> Inr (ee_limit_value ent)
                            | Some a \<Rightarrow> effective_limit d b a (ee_limit_value ent)) of
                      Inl e \<Rightarrow> Inl e
                    | Inr lim \<Rightarrow> Inr
                      \<lparr> page_current =
                          \<lparr> usage_account_id = map_option acc_id account,
                            usage_subscription_id = sub_id s, usage_business_id = b,
                            usage_limit_value = lim, usage_reserved_count = reserved,
                            usage_consumed_count = consumed,
                            usage_remaining = (case lim of None \<Rightarrow> None
                              | Some l \<Rightarrow> Some (max (l - (reserved + consumed)) 0)),
                            usage_period_started_at = started, usage_period_ends_at = ends \<rparr>,
                        page_items = take limit (drop offset
                          (sort_key (\<lambda>e. (- ent_reserved_at e, - int (ent_id e)))
                            (scope_select ent_business_id b (\<lambda>_. True) (ledger_entries d)))),
                        page_total = count_where (\<lambda>e. ent_business_id e = b) (ledger_entries d),
                        page_limit = limit, page_offset = offset \<rparr>)
        | _ \<Rightarrow> Inl (CreditSubscriptionError (SubscriptionInactiveError (access_reason acc))))"

end
