(* ===== verification/Admin_Audit.thy ===== *)
theory Admin_Audit
  imports Sample
begin

text \<open>
  \<open>app/services/admin_audit.py\<close>: labels, request identifiers and metadata of audit events, and the
  append of an event inside the caller's transaction.
\<close>

definition ADMIN_AUDIT_METADATA_MAX_BYTES :: nat where
  "ADMIN_AUDIT_METADATA_MAX_BYTES = 16 * 1024"
definition ADMIN_AUDIT_METADATA_MAX_DEPTH :: nat where "ADMIN_AUDIT_METADATA_MAX_DEPTH = 5"
definition ADMIN_AUDIT_METADATA_MAX_ITEMS :: nat where "ADMIN_AUDIT_METADATA_MAX_ITEMS = 128"
definition ADMIN_AUDIT_METADATA_MAX_KEY_LENGTH :: nat where
  "ADMIN_AUDIT_METADATA_MAX_KEY_LENGTH = 64"
definition ADMIN_AUDIT_METADATA_MAX_STRING_LENGTH :: nat where
  "ADMIN_AUDIT_METADATA_MAX_STRING_LENGTH = 512"

lemmas metadata_limits = ADMIN_AUDIT_METADATA_MAX_BYTES_def ADMIN_AUDIT_METADATA_MAX_DEPTH_def
  ADMIN_AUDIT_METADATA_MAX_ITEMS_def ADMIN_AUDIT_METADATA_MAX_KEY_LENGTH_def
  ADMIN_AUDIT_METADATA_MAX_STRING_LENGTH_def

definition SENSITIVE_METADATA_KEY_PARTS :: "string list" where
  "SENSITIVE_METADATA_KEY_PARTS = [''password'', ''otp'', ''secret'', ''token'', ''authorization'',
     ''cookie'', ''prompt'', ''content'']"

definition SENSITIVE_METADATA_KEYS :: "string list" where
  "SENSITIVE_METADATA_KEYS = [''api_key'', ''apikey'', ''raw_payload'', ''raw_request'',
     ''raw_response'', ''file_contents'', ''message_body'']"

datatype metadata_problem = TooDeep | NonFiniteNumber | StringTooLong | TooManyItems | InvalidKey
  | SensitiveKey | NotJson | TooLarge

datatype audit_error = AdminAuditActorError | AdminAuditLabelError | AdminAuditRequestIdError
  | AdminAuditMetadataError metadata_problem | AuditFlushIntegrityError

definition normalize_admin_audit_label :: "string \<Rightarrow> audit_error + string" where
  "normalize_admin_audit_label value =
     (let normalized = py_strip value
      in if audit_label_matches normalized then Inr normalized else Inl AdminAuditLabelError)"

definition normalize_admin_audit_request_id ::
  "string option \<Rightarrow> audit_error + string option" where
  "normalize_admin_audit_request_id request_id =
     (case request_id of
        None \<Rightarrow> Inr None
      | Some r \<Rightarrow>
          let normalized = py_strip r
          in if audit_request_id_matches normalized then Inr (Some normalized)
             else Inl AdminAuditRequestIdError)"

definition metadata_key_is_sensitive :: "string \<Rightarrow> bool" where
  "metadata_key_is_sensitive key =
     (let normalized = replace_char (CHR ''-'') (CHR ''_'') (py_lower (py_strip key))
      in if normalized \<in> set SENSITIVE_METADATA_KEYS then True
         else (\<exists>part \<in> set (filter (\<lambda>p. p \<noteq> []) (split_on (CHR ''_'') normalized)).
                 part \<in> set SENSITIVE_METADATA_KEY_PARTS))"

text \<open>
  The recursive validation; the one-element list \<open>item_counter\<close> that the code mutates is the
  counter that goes in and comes out.  Numbers and strings that Python can only hold as JSON values
  are covered by the constructors, so the final \<open>raise\<close> for other types has no case.
\<close>

fun validate_metadata_value :: "nat \<Rightarrow> json \<Rightarrow> nat \<Rightarrow> metadata_problem + nat"
and validate_metadata_list :: "nat \<Rightarrow> json list \<Rightarrow> nat \<Rightarrow> metadata_problem + nat"
and validate_metadata_items :: "nat \<Rightarrow> (string \<times> json) list \<Rightarrow> nat \<Rightarrow> metadata_problem + nat" where
  "validate_metadata_value depth value counter =
     (if ADMIN_AUDIT_METADATA_MAX_DEPTH < depth then Inl TooDeep
      else case value of
        JNull \<Rightarrow> Inr counter
      | JBool _ \<Rightarrow> Inr counter
      | JInt _ \<Rightarrow> Inr counter
      | JFloat digits \<Rightarrow> (if is_null digits then Inl NonFiniteNumber else Inr counter)
      | JStr s \<Rightarrow> (if ADMIN_AUDIT_METADATA_MAX_STRING_LENGTH < length s then Inl StringTooLong
                   else Inr counter)
      | JList xs \<Rightarrow>
          (if ADMIN_AUDIT_METADATA_MAX_ITEMS < counter + length xs then Inl TooManyItems
           else validate_metadata_list (depth + 1) xs (counter + length xs))
      | JDict kvs \<Rightarrow>
          (if ADMIN_AUDIT_METADATA_MAX_ITEMS < counter + length kvs then Inl TooManyItems
           else validate_metadata_items (depth + 1) kvs (counter + length kvs)))"
| "validate_metadata_list depth [] counter = Inr counter"
| "validate_metadata_list depth (x # xs) counter =
     (case validate_metadata_value depth x counter of
        Inl e \<Rightarrow> Inl e
      | Inr counter' \<Rightarrow> validate_metadata_list depth xs counter')"
| "validate_metadata_items depth [] counter = Inr counter"
| "validate_metadata_items depth ((key, x) # kvs) counter =
     (if \<not> (1 \<le> length key \<and> length key \<le> ADMIN_AUDIT_METADATA_MAX_KEY_LENGTH)
      then Inl InvalidKey
      else if metadata_key_is_sensitive key then Inl SensitiveKey
      else case validate_metadata_value depth x counter of
        Inl e \<Rightarrow> Inl e
      | Inr counter' \<Rightarrow> validate_metadata_items depth kvs counter')"

declare validate_metadata_value.simps [simp del]

section \<open>The size of the serialized metadata\<close>

text \<open>
  \<open>json.dumps(..., ensure_ascii=False, separators=(",", ":"), sort_keys=True)\<close>: strings are quoted
  with the short escapes for quote, backslash and the control characters that have one and
  \<open>\u00xx\<close> for the other control characters; the result is measured in UTF-8 bytes.
\<close>

definition json_escape_char :: "char \<Rightarrow> string" where
  "json_escape_char c = (let n = (of_char c :: nat) in
     if n = 34 then [char_of (92 :: nat), c]
     else if n = 92 then [c, c]
     else if n = 10 then [char_of (92 :: nat), CHR ''n'']
     else if n = 13 then [char_of (92 :: nat), CHR ''r'']
     else if n = 9 then [char_of (92 :: nat), CHR ''t'']
     else if n = 12 then [char_of (92 :: nat), CHR ''f'']
     else if n = 8 then [char_of (92 :: nat), CHR ''b'']
     else if n < 32 then [char_of (92 :: nat), CHR ''u''] @ hex_digits 4 n
     else [c])"

definition json_string :: "string \<Rightarrow> string" where
  "json_string s = [char_of (34 :: nat)] @ concat (map json_escape_char s) @ [char_of (34 :: nat)]"

fun join_with :: "string \<Rightarrow> string list \<Rightarrow> string" where
  "join_with sep [] = []"
| "join_with sep [x] = x"
| "join_with sep (x # y # xs) = x @ sep @ join_with sep (y # xs)"

fun json_dumps :: "json \<Rightarrow> string" where
  "json_dumps JNull = ''null''"
| "json_dumps (JBool b) = (if b then ''true'' else ''false'')"
| "json_dumps (JInt z) = int_str z"
| "json_dumps (JFloat digits) = (case digits of None \<Rightarrow> ''NaN'' | Some s \<Rightarrow> s)"
| "json_dumps (JStr s) = json_string s"
| "json_dumps (JList xs) = ''['' @ join_with '','' (map json_dumps xs) @ '']''"
| "json_dumps (JDict kvs) =
     ''{'' @ join_with '','' (map snd (sort_key fst
        (map (\<lambda>kv. (fst kv, json_string (fst kv) @ '':'' @ json_dumps (snd kv))) kvs))) @ ''}''"

definition validate_admin_audit_metadata ::
  "(string \<times> json) list option \<Rightarrow> audit_error + (string \<times> json) list" where
  "validate_admin_audit_metadata metadata =
     (case metadata of
        None \<Rightarrow> Inr []
      | Some kvs \<Rightarrow>
          (case validate_metadata_value 0 (JDict kvs) 0 of
             Inl e \<Rightarrow> Inl (AdminAuditMetadataError e)
           | Inr _ \<Rightarrow>
               if ADMIN_AUDIT_METADATA_MAX_BYTES < utf8_length (json_dumps (JDict kvs))
               then Inl (AdminAuditMetadataError TooLarge)
               else Inr kvs))"

section \<open>Recording an event\<close>

definition PLATFORM_AUDIT_ROLES :: "user_role list" where
  "PLATFORM_AUDIT_ROLES = [Role_SUPER_ADMIN, Role_CUSTOMER_SERVICE]"

definition audit_actor_ok :: "user \<Rightarrow> bool" where
  "audit_actor_ok actor \<longleftrightarrow>
     \<not> (user_role actor \<notin> set PLATFORM_AUDIT_ROLES \<or> \<not> user_is_active actor \<or> \<not> is_verified actor)"

text \<open>The keyword arguments of the event are evaluated from left to right, so the first invalid
  one decides the error; the flush checks the constraints of the audit table.\<close>

definition record_audit_event ::
  "uuid \<Rightarrow> time \<Rightarrow> user \<Rightarrow> string \<Rightarrow> string \<Rightarrow> uuid \<Rightarrow> uuid option \<Rightarrow> string option
   \<Rightarrow> (string \<times> json) list option \<Rightarrow> db \<Rightarrow> audit_error + (admin_audit_event \<times> db)" where
  "record_audit_event new_id now actor action target_type target_id b request_id metadata d =
     (if \<not> audit_actor_ok actor then Inl AdminAuditActorError
      else case normalize_admin_audit_label action of
        Inl e \<Rightarrow> Inl e
      | Inr action' \<Rightarrow>
      (case normalize_admin_audit_label target_type of
        Inl e \<Rightarrow> Inl e
      | Inr target_type' \<Rightarrow>
      (case normalize_admin_audit_request_id request_id of
        Inl e \<Rightarrow> Inl e
      | Inr request_id' \<Rightarrow>
      (case validate_admin_audit_metadata metadata of
        Inl e \<Rightarrow> Inl e
      | Inr metadata' \<Rightarrow>
          let event = \<lparr> aud_id = new_id, aud_actor_user_id = user_id actor,
                aud_actor_role = user_role actor, aud_action = action',
                aud_target_type = target_type', aud_target_id = target_id, aud_business_id = b,
                aud_request_id = request_id', aud_metadata = metadata', aud_created_at = now \<rparr>;
              d' = d\<lparr> audit_events := insert_row event (audit_events d) \<rparr>
          in if audit_table_ok d' then Inr (event, d') else Inl AuditFlushIntegrityError))))"

section \<open>What the metadata validation accepts\<close>

text \<open>
  All nodes of a JSON value with their depths, the number of items of a node, and what a node must
  satisfy: the specification of the recursive validation.
\<close>

fun json_nodes :: "nat \<Rightarrow> json \<Rightarrow> (nat \<times> json) list" where
  "json_nodes n (JList xs) = (n, JList xs) # concat (map (json_nodes (Suc n)) xs)"
| "json_nodes n (JDict kvs) = (n, JDict kvs) # concat (map (\<lambda>kv. json_nodes (Suc n) (snd kv)) kvs)"
| "json_nodes n v = [(n, v)]"

fun node_items :: "json \<Rightarrow> nat" where
  "node_items (JList xs) = length xs"
| "node_items (JDict kvs) = length kvs"
| "node_items _ = 0"

definition metadata_key_ok :: "string \<Rightarrow> bool" where
  "metadata_key_ok key \<longleftrightarrow> 1 \<le> length key \<and> length key \<le> ADMIN_AUDIT_METADATA_MAX_KEY_LENGTH
     \<and> \<not> metadata_key_is_sensitive key"

fun metadata_node_ok :: "nat \<times> json \<Rightarrow> bool" where
  "metadata_node_ok (n, v) \<longleftrightarrow> n \<le> ADMIN_AUDIT_METADATA_MAX_DEPTH
     \<and> (case v of JFloat digits \<Rightarrow> \<not> is_null digits
        | JStr s \<Rightarrow> length s \<le> ADMIN_AUDIT_METADATA_MAX_STRING_LENGTH
        | JDict kvs \<Rightarrow> list_all (\<lambda>kv. metadata_key_ok (fst kv)) kvs
        | _ \<Rightarrow> True)"

definition total_items :: "(nat \<times> json) list \<Rightarrow> nat" where
  "total_items ns = sum_list (map (\<lambda>nv. node_items (snd nv)) ns)"

lemma total_items_simps [simp]:
  "total_items [] = 0" "total_items (nv # ns) = node_items (snd nv) + total_items ns"
  "total_items (ms @ ns) = total_items ms + total_items ns"
  by (simp_all add: total_items_def)

abbreviation accepts :: "(nat \<times> json) list \<Rightarrow> nat \<Rightarrow> nat \<Rightarrow> bool" where
  "accepts ns c c' \<equiv> c' = c + total_items ns \<and> c' \<le> ADMIN_AUDIT_METADATA_MAX_ITEMS
     \<and> list_all metadata_node_ok ns"

lemma validate_metadata_spec:
  "c \<le> ADMIN_AUDIT_METADATA_MAX_ITEMS \<Longrightarrow>
     validate_metadata_value n v c = Inr c' \<longleftrightarrow> accepts (json_nodes n v) c c'"
  "c \<le> ADMIN_AUDIT_METADATA_MAX_ITEMS \<Longrightarrow>
     validate_metadata_list n xs c = Inr c' \<longleftrightarrow> accepts (concat (map (json_nodes n) xs)) c c'"
  "c \<le> ADMIN_AUDIT_METADATA_MAX_ITEMS \<Longrightarrow>
     validate_metadata_items n kvs c = Inr c' \<longleftrightarrow>
       accepts (concat (map (\<lambda>kv. json_nodes n (snd kv)) kvs)) c c'
       \<and> list_all (\<lambda>kv. metadata_key_ok (fst kv)) kvs"
proof (induction n v c and n xs c and n kvs c arbitrary: c' and c' and c'
    rule: validate_metadata_value_validate_metadata_list_validate_metadata_items.induct)
  case (1 depth v counter)
  then show ?case
    by (cases v) (auto simp: validate_metadata_value.simps)
next
  case (3 depth x xs counter)
  show ?case
  proof (cases "validate_metadata_value depth x counter")
    case (Inl e)
    with 3(1) [OF 3(3), of "counter + total_items (json_nodes depth x)"] show ?thesis by auto
  next
    case (Inr c1)
    then have first: "accepts (json_nodes depth x) counter c1" using 3(1) [OF 3(3), of c1] by simp
    then have "validate_metadata_list depth xs c1 = Inr c' \<longleftrightarrow> accepts (concat (map (json_nodes depth) xs)) c1 c'"
      using 3(2) [OF Inr] by simp
    with Inr first show ?thesis by auto
  qed
next
  case (5 depth key x kvs counter)
  show ?case
  proof (cases "validate_metadata_value depth x counter")
    case (Inl e)
    show ?thesis
    proof (cases "metadata_key_ok key")
      case True
      then show ?thesis
        using Inl 5(1) [OF _ _ 5(3), of "counter + total_items (json_nodes depth x)"]
        by (auto simp: metadata_key_ok_def)
    qed (auto simp: metadata_key_ok_def)
  next
    case (Inr c1)
    show ?thesis
    proof (cases "metadata_key_ok key")
      case True
      then have key: "\<not> \<not> (1 \<le> length key \<and> length key \<le> ADMIN_AUDIT_METADATA_MAX_KEY_LENGTH)"
        "\<not> metadata_key_is_sensitive key" by (simp_all add: metadata_key_ok_def)
      have first: "accepts (json_nodes depth x) counter c1" using 5(1) [OF key 5(3), of c1] Inr by simp
      then have "validate_metadata_items depth kvs c1 = Inr c' \<longleftrightarrow>
          accepts (concat (map (\<lambda>kv. json_nodes depth (snd kv)) kvs)) c1 c'
          \<and> list_all (\<lambda>kv. metadata_key_ok (fst kv)) kvs"
        using 5(2) [OF key Inr] by simp
      with Inr first True key show ?thesis by auto
    qed (auto simp: metadata_key_ok_def)
  qed
qed auto

text \<open>
  Audit metadata is recorded exactly when no node lies deeper than five levels, there are at
  most 128 items in all, every key has 1 to 64 characters and is not sensitive, strings have at most
  512 characters, numbers are finite and the serialized object fits 16 KiB; accepted metadata is
  recorded unchanged.
\<close>

theorem audit_metadata_accepted_iff:
  "validate_admin_audit_metadata (Some kvs) = Inr m \<longleftrightarrow>
     m = kvs \<and> total_items (json_nodes 0 (JDict kvs)) \<le> 128
   \<and> list_all metadata_node_ok (json_nodes 0 (JDict kvs))
   \<and> utf8_length (json_dumps (JDict kvs)) \<le> 16 * 1024"
  (is "?L \<longleftrightarrow> _ \<and> ?items \<and> ?nodes \<and> ?size")
proof -
  have "(\<exists>c. validate_metadata_value 0 (JDict kvs) 0 = Inr c) \<longleftrightarrow> ?items \<and> ?nodes"
    by (simp only: validate_metadata_spec(1) [of 0] metadata_limits) auto
  then show ?thesis
    by (auto simp: validate_admin_audit_metadata_def ADMIN_AUDIT_METADATA_MAX_BYTES_def
        simp del: json_dumps.simps json_nodes.simps split: sum.splits)
qed

end
