(* ===== verification/Admin_Credits.thy ===== *)
theory Admin_Credits
  imports Credits Admin_Audit
begin

text \<open>
  \<open>app/services/admin_ai_credits.py\<close>: the privileged, append-only adjustment of a tenant's credit
  limit, serialized by the lock of the business row and recorded in the audit log of the same
  transaction.
\<close>

datatype adjust_error = AdminAICreditActorForbiddenError | AdminAICreditBusinessNotFoundError
  | AdminAICreditSubscriptionUnavailableError | AdminAICreditEntitlementUnavailableError
  | AdminAICreditUnlimitedEntitlementError | AdminAICreditAdjustmentConflictError
  | AdminAICreditIdempotencyConflictError | AdjustIdempotencyKeyError | AdjustAuditError audit_error
  | AdjustCommitIntegrityError

record adjustment_result =
  result_adjustment :: ai_credit_adjustment
  result_remaining_after :: int
  result_replayed :: bool

definition validate_adjust_actor :: "user \<Rightarrow> bool" where
  "validate_adjust_actor actor \<longleftrightarrow>
     \<not> (user_role actor \<noteq> Role_SUPER_ADMIN \<or> \<not> user_is_active actor \<or> \<not> is_verified actor)"

definition business_for_update :: "db \<Rightarrow> uuid \<Rightarrow> business option" where
  "business_for_update d b = row_where (\<lambda>x. business_id x = b) (businesses d)"

definition existing_adjustment :: "db \<Rightarrow> uuid \<Rightarrow> string \<Rightarrow> ai_credit_adjustment option" where
  "existing_adjustment d b digest =
     row_where (\<lambda>a. adj_business_id a = b \<and> adj_idempotency_key_digest a = digest)
       (credit_adjustments d)"

definition admin_current_subscription :: "db \<Rightarrow> uuid \<Rightarrow> subscription option" where
  "admin_current_subscription d b =
     (case sort_key (\<lambda>s. (- sub_created_at s, - int (sub_id s)))
             (scope_select sub_business_id b is_current (subscriptions d)) of
        [] \<Rightarrow> None | s # _ \<Rightarrow> Some s)"

definition replayed_adjustment ::
  "ai_credit_adjustment \<Rightarrow> int \<Rightarrow> ai_credit_adjustment_reason \<Rightarrow> adjust_error + adjustment_result" where
  "replayed_adjustment existing delta reason =
     (if adj_delta existing \<noteq> delta \<or> adj_reason_code existing \<noteq> reason
      then Inl AdminAICreditIdempotencyConflictError
      else Inr \<lparr> result_adjustment = existing,
                 result_remaining_after = adj_effective_limit_after existing
                   - adj_reserved_count existing - adj_consumed_count existing,
                 result_replayed = True \<rparr>)"

definition adjustment_metadata ::
  "ai_credit_adjustment \<Rightarrow> ai_credit_account \<Rightarrow> (string \<times> json) list" where
  "adjustment_metadata a account =
     [(''adjustment_id'', JStr (uuid_str (adj_id a))),
      (''delta'', JInt (adj_delta a)),
      (''reason_code'', JStr (adjustment_reason_value (adj_reason_code a))),
      (''base_limit_value'', JInt (adj_base_limit_value a)),
      (''effective_limit_before'', JInt (adj_effective_limit_before a)),
      (''effective_limit_after'', JInt (adj_effective_limit_after a)),
      (''reserved_count'', JInt (acc_reserved_count account)),
      (''consumed_count'', JInt (acc_consumed_count account))]"

text \<open>The identifiers a call draws from \<open>uuid4\<close>: a new account, the adjustment and its event.\<close>

record adjust_ids =
  fresh_account_id :: uuid
  fresh_adjustment_id :: uuid
  fresh_event_id :: uuid

definition new_adjustment ::
  "adjust_ids \<Rightarrow> time \<Rightarrow> user \<Rightarrow> uuid \<Rightarrow> subscription \<Rightarrow> ai_credit_account \<Rightarrow> int \<Rightarrow> int \<Rightarrow> int
   \<Rightarrow> ai_credit_adjustment_reason \<Rightarrow> string \<Rightarrow> string option \<Rightarrow> ai_credit_adjustment" where
  "new_adjustment ids now actor b s account base_limit effective_before delta reason digest
     request_id =
     \<lparr> adj_id = fresh_adjustment_id ids, adj_business_id = b, adj_account_id = acc_id account,
       adj_subscription_id = sub_id s, adj_entitlement_key = AI_FULL_RESPONSES,
       adj_actor_user_id = user_id actor, adj_idempotency_key_digest = digest,
       adj_delta = delta, adj_reason_code = reason, adj_request_id = request_id,
       adj_base_limit_value = base_limit, adj_effective_limit_before = effective_before,
       adj_effective_limit_after = effective_before + delta,
       adj_reserved_count = acc_reserved_count account,
       adj_consumed_count = acc_consumed_count account, adjusted_at = now \<rparr>"

text \<open>The end of \<open>adjust\<close>: the limit arithmetic on the locked account, the append and the audit
  event, committed together.\<close>

definition apply_adjustment ::
  "adjust_ids \<Rightarrow> time \<Rightarrow> user \<Rightarrow> db \<Rightarrow> db \<Rightarrow> uuid \<Rightarrow> subscription \<Rightarrow> ai_credit_account \<Rightarrow> int
   \<Rightarrow> int \<Rightarrow> ai_credit_adjustment_reason \<Rightarrow> string \<Rightarrow> string option
   \<Rightarrow> (adjust_error + adjustment_result) \<times> db" where
  "apply_adjustment ids now actor d d1 b s account base_limit delta reason digest request_id =
     (let effective_before = base_limit + adjustment_total d1 (acc_business_id account) account;
          effective_after = effective_before + delta
      in if effective_before < used account
         then (Inl AdminAICreditAdjustmentConflictError, d)
         else if effective_after < used account \<or> effective_after < 0
         then (Inl AdminAICreditAdjustmentConflictError, d)
         else
           let account' = account\<lparr> acc_limit_value := Some effective_after \<rparr>;
               adjustment = new_adjustment ids now actor b s account base_limit effective_before
                 delta reason digest request_id;
               d2 = (save_account account' d1)
                      \<lparr> credit_adjustments := insert_row adjustment (credit_adjustments d1) \<rparr>
           in if \<not> credit_tables_ok d2 then (Inl AdjustCommitIntegrityError, d)
              else case record_audit_event (fresh_event_id ids) now actor
                     ''ai.credit.adjust'' ''ai_credit_account'' (acc_id account) (Some b) request_id
                     (Some (adjustment_metadata adjustment account')) d2 of
                Inl e \<Rightarrow> (Inl (AdjustAuditError e), d)
              | Inr (_, d3) \<Rightarrow>
                  (Inr \<lparr> result_adjustment = adjustment,
                         result_remaining_after = effective_after - used account,
                         result_replayed = False \<rparr>, d3))"

definition adjust ::
  "(string \<Rightarrow> string) \<Rightarrow> adjust_ids \<Rightarrow> time \<Rightarrow> user \<Rightarrow> db \<Rightarrow> uuid \<Rightarrow> int
   \<Rightarrow> ai_credit_adjustment_reason \<Rightarrow> string \<Rightarrow> string option
   \<Rightarrow> (adjust_error + adjustment_result) \<times> db" where
  "adjust sha ids now actor d b delta reason idempotency_key request_id =
     (if \<not> validate_adjust_actor actor then (Inl AdminAICreditActorForbiddenError, d)
      else if delta = 0 \<or> delta < - 1000 \<or> 1000 < delta
      then (Inl AdminAICreditAdjustmentConflictError, d)
      else case digest_ai_idempotency_key sha idempotency_key of
        Inl _ \<Rightarrow> (Inl AdjustIdempotencyKeyError, d)
      | Inr digest \<Rightarrow>
      (case business_for_update d b of
        None \<Rightarrow> (Inl AdminAICreditBusinessNotFoundError, d)
      | Some _ \<Rightarrow>
      (case existing_adjustment d b digest of
        Some existing \<Rightarrow> (replayed_adjustment existing delta reason, d)
      | None \<Rightarrow>
      (case admin_current_subscription d b of
        None \<Rightarrow> (Inl AdminAICreditSubscriptionUnavailableError, d)
      | Some s \<Rightarrow>
        let acc = evaluate_access s now
        in case (access_active acc, access_period_started_at acc, access_period_ends_at acc) of
          (True, Some started, Some ends) \<Rightarrow>
            (case find_entitlement AI_FULL_RESPONSES (effective_entitlements d b s) of
               None \<Rightarrow> (Inl AdminAICreditEntitlementUnavailableError, d)
             | Some ent \<Rightarrow>
               if \<not> ee_is_enabled ent then (Inl AdminAICreditEntitlementUnavailableError, d)
               else case ee_limit_value ent of
                 None \<Rightarrow> (Inl AdminAICreditUnlimitedEntitlementError, d)
               | Some base_limit \<Rightarrow>
                 (case ensure_account (fresh_account_id ids) d b s started ends (Some base_limit) of
                    None \<Rightarrow> (Inl AdjustCommitIntegrityError, d)
                  | Some (account, d1) \<Rightarrow>
                      apply_adjustment ids now actor d d1 b s account base_limit delta
                        reason digest request_id))
        | _ \<Rightarrow> (Inl AdminAICreditSubscriptionUnavailableError, d)))))"

end
