(* ===== verification/Contracts.thy ===== *)
theory Contracts
  imports Prelude
begin

text \<open>
  The interfaces that several components share, as locales over a transition function \<open>step\<close>
  from operations to database changes: an invariant that every operation keeps, rows that no
  operation changes any more, and the part of the database one tenant sees.  Each component
  interprets them on its own operations and so lifts its per-operation lemmas to every finite
  sequence of operations.
\<close>

section \<open>Invariants of an operation sequence\<close>

locale invariant_system =
  fixes step :: "'op \<Rightarrow> 'd \<Rightarrow> 'd"
    and inv :: "'d \<Rightarrow> bool"
  assumes step_keeps: "inv d \<Longrightarrow> inv (step x d)"
begin

lemma run_keeps: "inv d \<Longrightarrow> inv (fold step xs d)"
  by (induction xs arbitrary: d) (simp_all add: step_keeps)

end

text \<open>A fact about a row is stable when no operation of a database that satisfies the invariant
  makes it false.\<close>

locale stable_system = invariant_system +
  fixes holds :: "'r \<Rightarrow> 'd \<Rightarrow> bool"
  assumes step_stable: "inv d \<Longrightarrow> holds r d \<Longrightarrow> holds r (step x d)"
begin

lemma run_stable: "inv d \<Longrightarrow> holds r d \<Longrightarrow> holds r (fold step xs d)"
proof (induction xs arbitrary: d)
  case Nil
  then show ?case by simp
next
  case (Cons x xs)
  then show ?case by (simp add: step_keeps step_stable)
qed

end

section \<open>Rely and guarantee\<close>

text \<open>
  \<open>evolves d d'\<close> is what every operation guarantees about its change of the database, and what another
  operation in progress may rely on.
\<close>

locale evolving_system =
  fixes step :: "'op \<Rightarrow> 'd \<Rightarrow> 'd"
    and evolves :: "'d \<Rightarrow> 'd \<Rightarrow> bool"
  assumes evolves_refl: "evolves d d"
    and evolves_trans: "evolves d d' \<Longrightarrow> evolves d' d'' \<Longrightarrow> evolves d d''"
    and step_evolves: "evolves d (step x d)"
begin

lemma run_evolves: "evolves d (fold step xs d)"
proof (induction xs arbitrary: d)
  case Nil
  then show ?case by (simp add: evolves_refl)
next
  case (Cons x xs)
  then show ?case using evolves_trans step_evolves by (metis fold_simps(2))
qed

end

section \<open>Tenant isolation\<close>

text \<open>\<open>view b d\<close> is what tenant \<open>b\<close> sees of \<open>d\<close>; an operation names the tenants it acts for.\<close>

locale isolated_system = invariant_system +
  fixes acts_for :: "'op \<Rightarrow> nat set"
    and view :: "nat \<Rightarrow> 'd \<Rightarrow> 'v"
  assumes step_frame: "inv d \<Longrightarrow> b \<notin> acts_for x \<Longrightarrow> view b (step x d) = view b d"
begin

lemma run_frame:
  "inv d \<Longrightarrow> \<forall>x \<in> set xs. b \<notin> acts_for x \<Longrightarrow> view b (fold step xs d) = view b d"
proof (induction xs arbitrary: d)
  case Nil
  then show ?case by simp
next
  case (Cons x xs)
  then show ?case by (simp add: step_keeps step_frame)
qed

end


text \<open>
  A code that may be tried a bounded number of times: \<open>check c g\<close> says whether the guess \<open>g\<close> is
  accepted and gives the code's new state.
\<close>

locale bounded_code =
  fixes check :: "'c \<Rightarrow> 'g \<Rightarrow> bool \<times> 'c"
    and closed :: "'c \<Rightarrow> bool"
    and tries :: "'c \<Rightarrow> int"
    and limit :: int
    and right :: "'c \<Rightarrow> 'g \<Rightarrow> bool"
  assumes accepted_right: "fst (check c g) \<Longrightarrow> \<not> closed c \<and> right c g \<and> tries c < limit"
    and closed_stays: "closed c \<Longrightarrow> closed (snd (check c g))"
    and refused_counts: "\<not> closed c \<Longrightarrow> \<not> fst (check c g) \<Longrightarrow>
      closed (snd (check c g)) \<or> tries (snd (check c g)) = tries c + 1 \<and> tries c + 1 < limit"
    and right_kept: "right (snd (check c g)) = right c"
begin

definition after :: "'c \<Rightarrow> 'g list \<Rightarrow> 'c" where
  "after c gs = fold (\<lambda>g c. snd (check c g)) gs c"

lemma after_simps [simp]: "after c [] = c" "after c (g # gs) = after (snd (check c g)) gs"
  by (simp_all add: after_def)

lemma closed_after: "closed c \<Longrightarrow> closed (after c gs)"
  by (induction gs arbitrary: c) (simp_all add: closed_stays)

lemma right_after: "right (after c gs) = right c"
  by (induction gs arbitrary: c) (simp_all add: right_kept)

lemma wrong_guesses:
  "\<forall>g \<in> set gs. \<not> right c g \<Longrightarrow> closed (after c gs) \<or> (tries (after c gs) = tries c + int (length gs)
     \<and> (gs \<noteq> [] \<longrightarrow> tries (after c gs) < limit))"
proof (induction gs arbitrary: c)
  case Nil
  then show ?case by simp
next
  case (Cons g gs)
  show ?case
  proof (cases "closed (snd (check c g))")
    case True
    then show ?thesis using closed_after by simp
  next
    case False
    then have open': "\<not> closed c" using closed_stays by blast
    have "\<not> fst (check c g)" using accepted_right Cons.prems by auto
    with refused_counts [OF open' this] False
    have "tries (snd (check c g)) = tries c + 1" "tries c + 1 < limit" by auto
    with Cons.IH [of "snd (check c g)"] Cons.prems show ?thesis
      by (cases gs) (auto simp: right_kept)
  qed
qed

lemma locked_out:
  assumes "\<forall>g \<in> set gs. \<not> right c g" and "limit \<le> tries c + int (length gs)" and "gs \<noteq> []"
  shows "\<not> fst (check (after c gs) g)"
  using wrong_guesses [OF assms(1)] assms(2,3) accepted_right by fastforce

end


section \<open>Versioned values\<close>

text \<open>
  A store that keeps the value with the greatest version: an event carries a value, \<open>version\<close> orders the
  values, and applying an event leaves the later of its value and the stored one.
\<close>

definition keep_latest :: "('v \<Rightarrow> 'k :: linorder) \<Rightarrow> 'v \<Rightarrow> 'v option \<Rightarrow> 'v option" where
  "keep_latest version v cur = (case cur of None \<Rightarrow> Some v | Some w \<Rightarrow> if version v < version w then Some w else Some v)"

lemma keep_latest_simps [simp]:
  "keep_latest version v None = Some v"
  "keep_latest version v (Some w) = (if version v < version w then Some w else Some v)"
  by (simp_all add: keep_latest_def)

locale versioned_store =
  fixes apply_event :: "'e \<Rightarrow> 's \<Rightarrow> 's"
    and stored :: "'s \<Rightarrow> 'v option"
    and carried :: "'e \<Rightarrow> 'v"
    and version :: "'v \<Rightarrow> 'k :: linorder"
    and admits :: "'e \<Rightarrow> 's \<Rightarrow> bool"
  assumes stored_apply: "admits e s \<Longrightarrow> stored (apply_event e s) = keep_latest version (carried e) (stored s)"
    and admits_apply: "admits e s \<Longrightarrow> admits e' s \<Longrightarrow> admits e' (apply_event e s)"
begin

definition deliver :: "'e list \<Rightarrow> 's \<Rightarrow> 's" where
  "deliver es s = fold apply_event es s"

lemma deliver_simps [simp]: "deliver [] s = s" "deliver (e # es) s = deliver es (apply_event e s)"
  by (simp_all add: deliver_def)

lemma stored_deliver:
  assumes "\<forall>e \<in> set es. admits e s"
  shows "stored (deliver es s) = fold (keep_latest version) (map carried es) (stored s)"
  using assms by (induction es arbitrary: s) (auto simp: stored_apply admits_apply)

lemma latest_wins:
  assumes "\<forall>e \<in> set es. admits e s" and "stored (deliver es s) = Some w"
  shows "w \<in> carried ` set es \<union> set_option (stored s)
    \<and> (\<forall>v \<in> carried ` set es \<union> set_option (stored s). version v \<le> version w)"
  using assms
proof (induction es arbitrary: s)
  case Nil
  then show ?case by simp
next
  case (Cons e es)
  let ?s = "apply_event e s"
  have ok: "admits e s" "\<forall>x \<in> set es. admits x ?s" using Cons.prems(1) admits_apply by auto
  have one: "stored ?s = keep_latest version (carried e) (stored s)" using ok(1) by (rule stored_apply)
  have "w \<in> carried ` set es \<union> set_option (stored ?s)"
      and max: "\<forall>v \<in> carried ` set es \<union> set_option (stored ?s). version v \<le> version w"
    using Cons.IH [OF ok(2)] Cons.prems(2) by auto
  moreover have "set_option (stored ?s) \<subseteq> insert (carried e) (set_option (stored s))"
    unfolding one by (cases "stored s") auto
  moreover have "version (carried e) \<le> version w" "\<forall>v \<in> set_option (stored s). version v \<le> version w"
    using max unfolding one by (cases "stored s"; force split: if_splits)+
  ultimately show ?case by auto
qed

lemma deliver_stores: "\<forall>e \<in> set es. admits e s \<Longrightarrow> es \<noteq> [] \<Longrightarrow> \<exists>w. stored (deliver es s) = Some w"
proof (induction es arbitrary: s)
  case Nil
  then show ?case by simp
next
  case (Cons e es)
  then have "stored (apply_event e s) \<noteq> None" by (auto simp: stored_apply keep_latest_def split: option.splits)
  with Cons admits_apply show ?case by (cases es) auto
qed

text \<open>Repeated and reordered deliveries of the same events leave the same value.\<close>

lemma converges:
  assumes "\<forall>e \<in> set es. admits e s" and "set es = set es'"
    and "inj_on version (carried ` set es \<union> set_option (stored s))"
  shows "stored (deliver es s) = stored (deliver es' s)"
proof (cases "es = []")
  case True
  with assms(2) show ?thesis by simp
next
  case False
  have ok': "\<forall>e \<in> set es'. admits e s" using assms(1,2) by simp
  have "es' \<noteq> []" using False assms(2) by auto
  with False ok' assms(1) obtain w w' where w: "stored (deliver es s) = Some w" "stored (deliver es' s) = Some w'"
    using deliver_stores by blast
  from latest_wins [OF assms(1) w(1)] latest_wins [OF ok' w(2)] assms(2,3) have "w = w'"
    by (metis (no_types, lifting) inj_onD order_antisym)
  with w show ?thesis by simp
qed

end

end
