(* ===== verification/Credit_System.thy ===== *)
theory Credit_System
  imports Admin_Credits Contracts
begin

text \<open>
  The credit services together: the operations that change the credit tables as one transition
  function, the invariant that ties the counters of an account to its ledger entries, and the
  properties of arbitrary sequences of reservations, settlements and adjustments.
\<close>


section \<open>The ledger and its accounts\<close>

definition entries_of :: "uuid \<Rightarrow> ai_credit_ledger_status \<Rightarrow> ai_credit_ledger_entry \<Rightarrow> bool" where
  "entries_of i st e \<longleftrightarrow> ent_account_id e = i \<and> ent_status e = st"

definition ledger_consistent :: "db \<Rightarrow> bool" where
  "ledger_consistent d \<longleftrightarrow> (\<forall>a \<in> set (credit_accounts d).
     acc_reserved_count a = int (count_where (entries_of (acc_id a) RESERVED) (ledger_entries d))
   \<and> acc_consumed_count a = int (count_where (entries_of (acc_id a) CONSUMED) (ledger_entries d)))"

lemma credit_tables_okD:
  assumes "credit_tables_ok d"
  shows "unique_on acc_id (credit_accounts d)" "unique_on ent_id (ledger_entries d)"
    "unique_on account_key (credit_accounts d)"
    "list_all ai_credit_account_checks (credit_accounts d)"
    "list_all ai_credit_ledger_entry_checks (ledger_entries d)"
    "unique_on (\<lambda>e. (ent_business_id e, ent_idempotency_key_digest e)) (ledger_entries d)"
  using assms by (simp_all add: credit_tables_ok_def credit_account_table_ok_def ledger_table_ok_def)

lemma entry_account_exists:
  "credit_tables_ok d \<Longrightarrow> e \<in> set (ledger_entries d) \<Longrightarrow>
     \<exists>a \<in> set (credit_accounts d). acc_id a = ent_account_id e \<and> acc_business_id a = ent_business_id e
       \<and> acc_subscription_id a = ent_subscription_id e"
  by (auto simp: credit_tables_ok_def ledger_table_ok_def)

lemma save_account_sel [simp]:
  "ledger_entries (save_account a d) = ledger_entries d"
  "credit_accounts (save_account a d) = update_where (\<lambda>x. acc_id x = acc_id a) (\<lambda>_. a) (credit_accounts d)"
  by (simp_all add: save_account_def)

lemma save_entry_sel [simp]:
  "credit_accounts (save_entry e d) = credit_accounts d"
  "ledger_entries (save_entry e d) = update_where (\<lambda>x. ent_id x = ent_id e) (\<lambda>_. e) (ledger_entries d)"
  by (simp_all add: save_entry_def)

lemma add_entry_sel [simp]:
  "credit_accounts (add_entry e d) = credit_accounts d"
  "ledger_entries (add_entry e d) = insert_row e (ledger_entries d)"
  by (simp_all add: add_entry_def)

lemma add_account_sel [simp]:
  "credit_accounts (add_account a d) = insert_row a (credit_accounts d)"
  "ledger_entries (add_account a d) = ledger_entries d"
  by (simp_all add: add_account_def)

lemma consistent_add_account:
  assumes "ledger_consistent d" and "credit_tables_ok d" and "credit_tables_ok (add_account a d)"
    and "acc_reserved_count a = 0" and "acc_consumed_count a = 0"
  shows "ledger_consistent (add_account a d)"
proof -
  have fresh: "acc_id a \<notin> acc_id ` set (credit_accounts d)"
    using credit_tables_okD(1) [OF assms(3)] by (simp add: unique_on_insert_row)
  have "count_where (entries_of (acc_id a) st) (ledger_entries d) = 0" for st
  proof (rule count_where_zero)
    fix e assume "e \<in> set (ledger_entries d)"
    from entry_account_exists [OF assms(2) this] fresh
    show "\<not> entries_of (acc_id a) st e" by (auto simp: entries_of_def image_iff)
  qed
  with assms show ?thesis by (auto simp: ledger_consistent_def)
qed

lemma set_save_account:
  assumes "unique_on acc_id t" and "a \<in> set t" and "acc_id a' = acc_id a"
  shows "set (update_where (\<lambda>x. acc_id x = acc_id a') (\<lambda>_. a') t)
       = insert a' {x \<in> set t. acc_id x \<noteq> acc_id a}"
  using assms by (auto simp: set_update_where)

lemma consistent_reserve:
  assumes "ledger_consistent d" and "unique_on acc_id (credit_accounts d)"
    and "a \<in> set (credit_accounts d)" and "acc_id a' = acc_id a"
    and "acc_reserved_count a' = acc_reserved_count a + 1"
    and "acc_consumed_count a' = acc_consumed_count a"
    and "ent_account_id e = acc_id a" and "ent_status e = RESERVED"
  shows "ledger_consistent (add_entry e (save_account a' d))"
proof -
  have rows: "set (credit_accounts (add_entry e (save_account a' d)))
      = insert a' {x \<in> set (credit_accounts d). acc_id x \<noteq> acc_id a}"
    by (simp add: set_save_account [OF assms(2-4)])
  show ?thesis
    unfolding ledger_consistent_def rows
    using assms by (auto simp: ledger_consistent_def entries_of_def)
qed

lemma consistent_settle:
  assumes "ledger_consistent d" and "unique_on acc_id (credit_accounts d)"
    and "unique_on ent_id (ledger_entries d)"
    and "a \<in> set (credit_accounts d)" and "acc_id a' = acc_id a"
    and "e \<in> set (ledger_entries d)" and "ent_id e' = ent_id e"
    and "ent_account_id e = acc_id a" and "ent_account_id e' = acc_id a"
    and "ent_status e = RESERVED"
    and "acc_reserved_count a' = acc_reserved_count a - 1"
    and "ent_status e' = CONSUMED \<and> acc_consumed_count a' = acc_consumed_count a + 1
       \<or> ent_status e' = RELEASED \<and> acc_consumed_count a' = acc_consumed_count a"
  shows "ledger_consistent (save_entry e' (save_account a' d))"
proof -
  have count: "count_where P (update_where (\<lambda>x. ent_id x = ent_id e') (\<lambda>_. e') (ledger_entries d))
      + (if P e then 1 else 0) = count_where P (ledger_entries d) + (if P e' then 1 else 0)" for P
    using count_where_update_row [OF assms(3,6), of P "\<lambda>_. e'"] assms(7) by simp
  have pos: "0 < count_where (entries_of (acc_id a) RESERVED) (ledger_entries d)"
    by (rule count_where_pos [OF assms(6)]) (simp add: entries_of_def assms)
  have row: "acc_reserved_count x
        = int (count_where (entries_of (acc_id x) RESERVED) (ledger_entries (save_entry e' (save_account a' d))))
      \<and> acc_consumed_count x
        = int (count_where (entries_of (acc_id x) CONSUMED) (ledger_entries (save_entry e' (save_account a' d))))"
    if "x = a' \<or> (x \<in> set (credit_accounts d) \<and> acc_id x \<noteq> acc_id a)" for x
  proof (cases "x = a'")
    case True
    have old: "acc_reserved_count a = int (count_where (entries_of (acc_id a) RESERVED) (ledger_entries d))"
      "acc_consumed_count a = int (count_where (entries_of (acc_id a) CONSUMED) (ledger_entries d))"
      using assms(1,4) by (auto simp: ledger_consistent_def)
    show ?thesis
      using count [of "entries_of (acc_id a) RESERVED"] count [of "entries_of (acc_id a) CONSUMED"]
        old pos assms(5,8-12) True by (auto simp: entries_of_def)
  next
    case False
    with that have x: "x \<in> set (credit_accounts d)" "acc_id x \<noteq> acc_id a" by auto
    show ?thesis
      using count [of "entries_of (acc_id x) RESERVED"] count [of "entries_of (acc_id x) CONSUMED"]
        assms(1,8,9) x by (auto simp: entries_of_def ledger_consistent_def)
  qed
  have rows: "set (credit_accounts (save_entry e' (save_account a' d)))
      = insert a' {x \<in> set (credit_accounts d). acc_id x \<noteq> acc_id a}"
    by (simp add: set_save_account [OF assms(2,4,5)])
  show ?thesis
    unfolding ledger_consistent_def rows using row by blast
qed

section \<open>What one operation does to the tables\<close>

lemma account_for_period_SomeD:
  assumes "account_for_period d b s started ends = Some a"
  shows "a \<in> set (credit_accounts d)" "acc_business_id a = b" "acc_subscription_id a = sub_id s"
    "acc_period_started_at a = started" "acc_period_ends_at a = ends"
  using scope_one_SomeD [OF assms [unfolded account_for_period_def]] by auto

lemma ensure_account_cases:
  assumes "ensure_account i d b s started ends limit = Some (a, d1)"
  obtains (found) "d1 = d" "account_for_period d b s started ends = Some a"
  | (added) "d1 = add_account a d" "credit_tables_ok d1" "a = new_account i b s started ends limit"
      "account_for_period d b s started ends = None"
proof (cases "account_for_period d b s started ends")
  case None
  with assms show ?thesis
    by (intro added) (auto simp: ensure_account_def Let_def split: if_splits)
next
  case (Some x)
  with assms show ?thesis by (intro found) (simp_all add: ensure_account_def)
qed

lemma new_account_sel [simp]:
  "acc_id (new_account i b s started ends l) = i"
  "acc_business_id (new_account i b s started ends l) = b"
  "acc_subscription_id (new_account i b s started ends l) = sub_id s"
  "acc_period_started_at (new_account i b s started ends l) = started"
  "acc_period_ends_at (new_account i b s started ends l) = ends"
  "acc_reserved_count (new_account i b s started ends l) = 0"
  "acc_consumed_count (new_account i b s started ends l) = 0"
  "acc_limit_value (new_account i b s started ends l) = l"
  by (simp_all add: new_account_def)

lemma ensure_account_row:
  assumes "ensure_account i d b s started ends limit = Some (a, d1)"
  shows "a \<in> set (credit_accounts d1)" "acc_business_id a = b" "acc_subscription_id a = sub_id s"
    "acc_period_started_at a = started" "acc_period_ends_at a = ends"
  using assms by (cases rule: ensure_account_cases; simp add: account_for_period_SomeD)+

lemma ensure_account_frame:
  assumes "ensure_account i d b s started ends limit = Some (a, d1)"
  shows "ledger_entries d1 = ledger_entries d" "credit_adjustments d1 = credit_adjustments d"
    "audit_events d1 = audit_events d" "set (credit_accounts d) \<subseteq> set (credit_accounts d1)"
    "b' \<noteq> b \<Longrightarrow> rows_where (\<lambda>a. acc_business_id a = b') (credit_accounts d1)
        = rows_where (\<lambda>a. acc_business_id a = b') (credit_accounts d)"
  using assms
  by (cases rule: ensure_account_cases; auto simp: add_account_def rows_where_def insert_row_def)+

lemma ensure_account_inv:
  assumes "ensure_account i d b s started ends limit = Some (a, d1)" and "credit_tables_ok d"
    and "ledger_consistent d"
  shows "credit_tables_ok d1" "ledger_consistent d1"
  using assms by (cases rule: ensure_account_cases; simp add: consistent_add_account)+

text \<open>The one write of \<open>reserve\<close>: one credit of the account of the current period.\<close>

definition counts_one :: "ai_credit_account \<Rightarrow> ai_credit_account \<Rightarrow> bool" where
  "counts_one a a' \<longleftrightarrow> (\<exists>l. a' = a\<lparr> acc_limit_value := l, acc_reserved_count := acc_reserved_count a + 1 \<rparr>
     \<and> null_or (\<lambda>n. used a < n) l)"

lemma reserve_duplicate_db [simp]: "snd (reserve_duplicate d b g) = d"
  by (simp add: reserve_duplicate_def split: sum.splits option.splits)

lemma reserve_duplicateD: "reserve_duplicate d b g = (r, d') \<Longrightarrow> d' = d"
  using reserve_duplicate_db [of d b g] by simp

lemma reserve_count_cases:
  assumes "reserve_count e d d1 b s a l g t = (r, d')"
  obtains "d' = d"
  | a' where "counts_one a a'" "acc_limit_value a' = l"
      "d' = add_entry (new_entry e b a' s g t) (save_account a' d1)" "credit_tables_ok d'"
      "r = Inr (snapshot_of (new_entry e b a' s g t) a' False)"
proof (cases "d' = d")
  case True
  with that(1) show ?thesis by blast
next
  case False
  let ?a = "a\<lparr> acc_limit_value := l, acc_reserved_count := acc_reserved_count a + 1 \<rparr>"
  have "counts_one a ?a" "d' = add_entry (new_entry e b ?a s g t) (save_account ?a d1)"
    "credit_tables_ok d'" "r = Inr (snapshot_of (new_entry e b ?a s g t) ?a False)"
    using assms False
    by (auto simp: reserve_count_def counts_one_def Let_def dest: reserve_duplicateD
        split: if_splits option.splits)
  then show ?thesis by (intro that(2)) auto
qed

lemma reserve_locked_cases:
  assumes "reserve_locked i e d b g t = (r, d')"
  obtains "d' = d"
  | s a a' d1 limit started ends where "ensure_account i d b s started ends limit = Some (a, d1)"
      "counts_one a a'" "d' = add_entry (new_entry e b a' s g t) (save_account a' d1)"
      "credit_tables_ok d'" "r = Inr (snapshot_of (new_entry e b a' s g t) a' False)"
proof (cases "d' = d")
  case True
  with that(1) show ?thesis by blast
next
  case False
  have "\<exists>s a d1 l limit started ends. ensure_account i d b s started ends limit = Some (a, d1)
      \<and> reserve_count e d d1 b s a l g t = (r, d')"
    using assms False unfolding reserve_locked_def Let_def
    by (simp split: option.splits sum.splits if_splits prod.splits)
      (blast dest: reserve_duplicateD)+
  then obtain s a d1 l limit started ends
    where en: "ensure_account i d b s started ends limit = Some (a, d1)"
      and rc: "reserve_count e d d1 b s a l g t = (r, d')" by blast
  from rc show ?thesis
    by (cases rule: reserve_count_cases) (use that False en in auto)
qed


definition settles :: "ai_credit_account \<Rightarrow> ai_credit_account \<Rightarrow> ai_credit_ledger_entry
   \<Rightarrow> ai_credit_ledger_entry \<Rightarrow> bool" where
  "settles a a' e e' \<longleftrightarrow> 1 \<le> acc_reserved_count a \<and> ent_status e = RESERVED
     \<and> (ent_status e' = CONSUMED \<and> a' = a\<lparr> acc_reserved_count := acc_reserved_count a - 1,
            acc_consumed_count := acc_consumed_count a + 1 \<rparr>
        \<or> ent_status e' = RELEASED \<and> a' = a\<lparr> acc_reserved_count := acc_reserved_count a - 1 \<rparr>)
     \<and> (\<exists>st c r w. e' = e\<lparr> ent_status := st, ent_consumed_at := c, ent_released_at := r,
          ent_release_reason := w \<rparr>)"

text \<open>The one write of \<open>consume\<close> and \<open>release\<close>: a reserved entry of the tenant becomes final.\<close>

definition settled_write :: "db \<Rightarrow> uuid \<Rightarrow> uuid \<Rightarrow> db \<Rightarrow> bool" where
  "settled_write d b i d' \<longleftrightarrow> (\<exists>e e' a a'. entry_by_id d b i = Some e \<and> account_for_entry d b e = Inr a
     \<and> settles a a' e e' \<and> d' = save_entry e' (save_account a' d) \<and> credit_tables_ok d')"

lemma commit_credits_cases:
  "commit_credits snap d d' = (r, d'') \<Longrightarrow>
     d'' = d \<or> d'' = d' \<and> credit_tables_ok d' \<and> r = Inr snap"
  by (auto simp: commit_credits_def split: if_splits)

lemma consume_cases:
  assumes "consume d b i t = (r, d')"
  shows "d' = d \<or> settled_write d b i d'"
proof (rule disjCI)
  assume neq: "\<not> settled_write d b i d'"
  show "d' = d"
    using assms neq unfolding consume_def Let_def settled_write_def settles_def
    by (simp split: option.splits sum.splits ai_credit_ledger_status.splits if_splits)
      (drule commit_credits_cases, fastforce)
qed

lemma release_cases:
  assumes "release d b i w t = (r, d')"
  shows "d' = d \<or> settled_write d b i d'"
proof (rule disjCI)
  assume neq: "\<not> settled_write d b i d'"
  show "d' = d"
    using assms neq unfolding release_def Let_def settled_write_def settles_def
    by (simp split: option.splits sum.splits ai_credit_ledger_status.splits if_splits)
      (drule commit_credits_cases, fastforce)
qed

text \<open>The one write of \<open>adjust\<close>: the limit of an account, an adjustment and its audit event.\<close>

definition adjusted_write :: "adjust_ids \<Rightarrow> db \<Rightarrow> uuid \<Rightarrow> db \<Rightarrow> bool" where
  "adjusted_write ids d b d' \<longleftrightarrow> (\<exists>s started ends limit a d1 l j ev.
     ensure_account (fresh_account_id ids) d b s started ends limit = Some (a, d1)
     \<and> adj_business_id j = b \<and> adj_account_id j = acc_id a \<and> used a \<le> l
     \<and> d' = (save_account (a\<lparr> acc_limit_value := Some l \<rparr>) d1)
          \<lparr> credit_adjustments := insert_row j (credit_adjustments d1),
            audit_events := insert_row ev (audit_events d1) \<rparr>
     \<and> credit_tables_ok d')"

lemma record_audit_event_db:
  assumes "record_audit_event i now actor action target_type t b rq m d = Inr (ev, d')"
  shows "d' = d\<lparr> audit_events := insert_row ev (audit_events d) \<rparr>" "audit_table_ok d'"
  using assms by (auto simp: record_audit_event_def Let_def split: if_splits sum.splits)

lemma credit_tables_ok_audit:
  "credit_tables_ok (d\<lparr> audit_events := t \<rparr>) \<longleftrightarrow> credit_account_table_ok d \<and> ledger_table_ok d
     \<and> adjustment_table_ok d \<and> audit_table_ok (d\<lparr> audit_events := t \<rparr>)"
  by (simp add: credit_tables_ok_def credit_account_table_ok_def ledger_table_ok_def
      adjustment_table_ok_def)

lemma new_adjustment_sel [simp]:
  "adj_id (new_adjustment ids now actor b s a base before delta reason g rq) = fresh_adjustment_id ids"
  "adj_business_id (new_adjustment ids now actor b s a base before delta reason g rq) = b"
  "adj_account_id (new_adjustment ids now actor b s a base before delta reason g rq) = acc_id a"
  "adj_subscription_id (new_adjustment ids now actor b s a base before delta reason g rq) = sub_id s"
  "adj_delta (new_adjustment ids now actor b s a base before delta reason g rq) = delta"
  "adj_reason_code (new_adjustment ids now actor b s a base before delta reason g rq) = reason"
  "adj_idempotency_key_digest (new_adjustment ids now actor b s a base before delta reason g rq) = g"
  "adj_base_limit_value (new_adjustment ids now actor b s a base before delta reason g rq) = base"
  "adj_effective_limit_before (new_adjustment ids now actor b s a base before delta reason g rq) = before"
  "adj_effective_limit_after (new_adjustment ids now actor b s a base before delta reason g rq)
     = before + delta"
  by (simp_all add: new_adjustment_def)

lemma apply_adjustment_cases:
  assumes "apply_adjustment ids now actor d d1 b s a base delta reason g rq = (r, d')"
    and "d' \<noteq> d \<or> (\<exists>x. r = Inr x)"
  defines "before \<equiv> base + adjustment_total d1 (acc_business_id a) a"
  defines "j \<equiv> new_adjustment ids now actor b s a base before delta reason g rq"
  defines "a' \<equiv> a\<lparr> acc_limit_value := Some (before + delta) \<rparr>"
  defines "d2 \<equiv> (save_account a' d1)\<lparr> credit_adjustments := insert_row j (credit_adjustments d1) \<rparr>"
  shows "used a \<le> before" "used a \<le> before + delta" "0 \<le> before + delta" "credit_tables_ok d2"
    "r = Inr \<lparr> result_adjustment = j, result_remaining_after = before + delta - used a,
       result_replayed = False \<rparr>"
    "\<exists>ev. record_audit_event (fresh_event_id ids) now actor ''ai.credit.adjust'' ''ai_credit_account''
       (acc_id a) (Some b) rq (Some (adjustment_metadata j a')) d2 = Inr (ev, d')"
  using assms(1,2) unfolding apply_adjustment_def Let_def
    before_def [symmetric] j_def [symmetric] a'_def [symmetric] d2_def [symmetric]
  by (auto split: if_splits sum.splits)

lemma apply_adjustment_write:
  assumes "apply_adjustment ids now actor d d1 b s a base delta reason g rq = (r, d')"
    and "ensure_account (fresh_account_id ids) d b s started ends limit = Some (a, d1)"
  shows "d' = d \<or> adjusted_write ids d b d'"
proof (cases "d' = d")
  case True
  then show ?thesis by simp
next
  case neq: False
  note facts = apply_adjustment_cases [OF assms(1) disjI1 [OF neq]]
  obtain ev where ev: "record_audit_event (fresh_event_id ids) now actor ''ai.credit.adjust''
      ''ai_credit_account'' (acc_id a) (Some b) rq
      (Some (adjustment_metadata (new_adjustment ids now actor b s a base
         (base + adjustment_total d1 (acc_business_id a) a) delta reason g rq)
        (a\<lparr> acc_limit_value := Some (base + adjustment_total d1 (acc_business_id a) a + delta) \<rparr>)))
      ((save_account (a\<lparr> acc_limit_value := Some (base + adjustment_total d1 (acc_business_id a) a + delta) \<rparr>) d1)
        \<lparr> credit_adjustments := insert_row (new_adjustment ids now actor b s a base
         (base + adjustment_total d1 (acc_business_id a) a) delta reason g rq) (credit_adjustments d1) \<rparr>)
      = Inr (ev, d')" using facts(6) by blast
  note d' = record_audit_event_db [OF ev]
  have "credit_tables_ok d'"
    using d' facts(4) by (simp add: credit_tables_ok_audit) (simp add: credit_tables_ok_def)
  then have "adjusted_write ids d b d'"
    unfolding adjusted_write_def using d'(1) facts(2) assms(2)
    by (intro exI conjI) (auto simp: save_account_def)
  then show ?thesis ..
qed

lemma adjust_cases:
  assumes "adjust sha ids now actor d b delta reason key rq = (r, d')"
  shows "d' = d \<or> adjusted_write ids d b d'"
  using assms unfolding adjust_def Let_def
  by (simp split: option.splits sum.splits bool.splits if_splits prod.splits)
    (blast dest: apply_adjustment_write)+


section \<open>The operations as steps of the ledger\<close>

text \<open>
  An abstract transition of tenant \<open>b\<close>'s ledger: one credit reserved, one reservation settled, or
  one adjustment.
\<close>

inductive ledger_step :: "uuid \<Rightarrow> db \<Rightarrow> db \<Rightarrow> bool" where
  reserved: "ensure_account i d b s started ends limit = Some (a, d1) \<Longrightarrow> counts_one a a' \<Longrightarrow>
    credit_tables_ok (add_entry (new_entry e b a' s g t) (save_account a' d1)) \<Longrightarrow>
    ledger_step b d (add_entry (new_entry e b a' s g t) (save_account a' d1))"
| settled: "settled_write d b i d' \<Longrightarrow> ledger_step b d d'"
| adjusted: "adjusted_write ids d b d' \<Longrightarrow> ledger_step b d d'"

inductive_cases ledger_step_cases: "ledger_step b d d'"

definition ledger_steps :: "uuid set \<Rightarrow> db \<Rightarrow> db \<Rightarrow> bool" where
  "ledger_steps B = (\<lambda>d d'. \<exists>b \<in> B. ledger_step b d d')\<^sup>*\<^sup>*"

lemma ledger_steps_refl [simp]: "ledger_steps B d d"
  by (simp add: ledger_steps_def)

lemma ledger_steps_trans [trans]: "ledger_steps B d d' \<Longrightarrow> ledger_steps B d' d'' \<Longrightarrow> ledger_steps B d d''"
  by (simp add: ledger_steps_def)

lemma ledger_steps_mono: "ledger_steps B d d' \<Longrightarrow> B \<subseteq> C \<Longrightarrow> ledger_steps C d d'"
  unfolding ledger_steps_def by (rule rtranclp_mono [THEN predicate2D, rotated]) blast+

lemma ledger_steps_one: "ledger_step b d d' \<Longrightarrow> b \<in> B \<Longrightarrow> ledger_steps B d d'"
  unfolding ledger_steps_def by (rule r_into_rtranclp) blast

text \<open>
  The service calls.  A reservation carries the calls that commit while it waits for the lock of
  the subscription row, so a list of calls covers their interleavings.
\<close>

datatype credit_op =
    Reserve "credit_op list" uuid uuid uuid string time
  | Consume uuid uuid time
  | Release uuid uuid string time
  | Adjust adjust_ids time user uuid int ai_credit_adjustment_reason string "string option"

fun credit_step :: "(string \<Rightarrow> string) \<Rightarrow> credit_op \<Rightarrow> db \<Rightarrow> db" where
  "credit_step sha (Reserve meanwhile i e b key now) = (\<lambda>d.
     snd (reserve sha (fold (\<lambda>f. f) (map (credit_step sha) meanwhile)) i e d b key now))"
| "credit_step sha (Consume b i now) = (\<lambda>d. snd (consume d b i now))"
| "credit_step sha (Release b i reason now) = (\<lambda>d. snd (release d b i reason now))"
| "credit_step sha (Adjust ids now actor b delta reason key rq) = (\<lambda>d.
     snd (adjust sha ids now actor d b delta reason key rq))"

fun acting_tenants :: "credit_op \<Rightarrow> uuid set" where
  "acting_tenants (Reserve meanwhile i e b key now) = insert b (\<Union>x \<in> set meanwhile. acting_tenants x)"
| "acting_tenants (Consume b i now) = {b}"
| "acting_tenants (Release b i reason now) = {b}"
| "acting_tenants (Adjust ids now actor b delta reason key rq) = {b}"

definition run_credits :: "(string \<Rightarrow> string) \<Rightarrow> credit_op list \<Rightarrow> db \<Rightarrow> db" where
  "run_credits sha xs d = fold (credit_step sha) xs d"

lemma fold_ledger_steps:
  assumes "\<And>x d. x \<in> set xs \<Longrightarrow> ledger_steps (acting_tenants x) d (credit_step sha x d)"
  shows "ledger_steps (\<Union>x \<in> set xs. acting_tenants x) d (fold (credit_step sha) xs d)"
  using assms
proof (induction xs arbitrary: d)
  case Nil
  then show ?case by simp
next
  case (Cons x xs)
  have "ledger_steps (\<Union>x \<in> set (x # xs). acting_tenants x) d (credit_step sha x d)"
    using Cons.prems by (rule ledger_steps_mono) auto
  also have "ledger_steps (\<Union>x \<in> set (x # xs). acting_tenants x) \<dots> (fold (credit_step sha) xs (credit_step sha x d))"
    using Cons by (intro ledger_steps_mono [OF Cons.IH]) auto
  finally show ?case by simp
qed

lemma reserve_ledger_steps:
  assumes "\<And>d. ledger_steps B d (env d)" and "b \<in> B"
  shows "ledger_steps B d (snd (reserve sha env i e d b key now))"
proof (cases "digest_ai_idempotency_key sha key")
  case (Inl err)
  then show ?thesis by (simp add: reserve_def)
next
  case (Inr g)
  show ?thesis
  proof (cases "existing_snapshot d b g")
    case (Inl err)
    with Inr show ?thesis by (simp add: reserve_def)
  next
    case (Inr found)
    show ?thesis
    proof (cases found)
      case (Some snap)
      with \<open>digest_ai_idempotency_key sha key = Inr g\<close> Inr show ?thesis by (simp add: reserve_def)
    next
      case None
      obtain r d' where locked: "reserve_locked i e (env d) b g now = (r, d')" by fastforce
      then have result: "snd (reserve sha env i e d b key now) = d'"
        using None Inr \<open>digest_ai_idempotency_key sha key = Inr g\<close> by (simp add: reserve_def)
      from locked have "ledger_steps B (env d) d'"
        by (cases rule: reserve_locked_cases)
          (auto intro: ledger_steps_one [OF _ assms(2)] ledger_step.reserved)
      with assms(1) show ?thesis unfolding result by (rule ledger_steps_trans)
    qed
  qed
qed

lemma credit_step_refines: "ledger_steps (acting_tenants x) d (credit_step sha x d)"
proof (induction sha x arbitrary: d rule: credit_step.induct)
  case (1 sha meanwhile i e b key now)
  have "fold (\<lambda>f. f) (map (credit_step sha) meanwhile) = fold (credit_step sha) meanwhile"
    by (simp add: fold_map comp_def)
  moreover have "ledger_steps (acting_tenants (Reserve meanwhile i e b key now)) d
      (fold (credit_step sha) meanwhile d)" for d
    by (rule ledger_steps_mono [OF fold_ledger_steps]) (use 1 in auto)
  ultimately show ?case by (simp add: reserve_ledger_steps)
next
  case (2 sha b i now)
  obtain r d' where "consume d b i now = (r, d')" by fastforce
  then show ?case
    using consume_cases [of d b i now r d'] by (auto intro: ledger_steps_one ledger_step.settled)
next
  case (3 sha b i reason now)
  obtain r d' where "release d b i reason now = (r, d')" by fastforce
  then show ?case
    using release_cases [of d b i reason now r d'] by (auto intro: ledger_steps_one ledger_step.settled)
next
  case (4 sha ids now actor b delta reason key rq)
  obtain r d' where "adjust sha ids now actor d b delta reason key rq = (r, d')" by fastforce
  then show ?case
    using adjust_cases [of sha ids now actor d b delta reason key rq r d']
    by (auto intro: ledger_steps_one ledger_step.adjusted)
qed

section \<open>The invariant\<close>

definition credit_inv :: "db \<Rightarrow> bool" where
  "credit_inv d \<longleftrightarrow> credit_tables_ok d \<and> ledger_consistent d"

lemma ledger_consistent_cong:
  "credit_accounts d' = credit_accounts d \<Longrightarrow> ledger_entries d' = ledger_entries d \<Longrightarrow>
     ledger_consistent d' = ledger_consistent d"
  by (simp add: ledger_consistent_def)

lemma consistent_limit:
  assumes "ledger_consistent d" and "unique_on acc_id (credit_accounts d)"
    and "a \<in> set (credit_accounts d)"
  shows "ledger_consistent (save_account (a\<lparr> acc_limit_value := l \<rparr>) d)"
  unfolding ledger_consistent_def
  using assms by (auto simp: set_update_where ledger_consistent_def)

lemma counts_oneD:
  assumes "counts_one a a'"
  shows "acc_id a' = acc_id a" "acc_business_id a' = acc_business_id a"
    "acc_reserved_count a' = acc_reserved_count a + 1" "acc_consumed_count a' = acc_consumed_count a"
    "acc_subscription_id a' = acc_subscription_id a"
  using assms by (auto simp: counts_one_def)

lemma new_entry_sel [simp]:
  "ent_id (new_entry i b a s g t) = i" "ent_business_id (new_entry i b a s g t) = b"
  "ent_account_id (new_entry i b a s g t) = acc_id a" "ent_subscription_id (new_entry i b a s g t) = sub_id s"
  "ent_status (new_entry i b a s g t) = RESERVED"
  "ent_idempotency_key_digest (new_entry i b a s g t) = g"
  by (simp_all add: new_entry_def)

lemma entry_by_id_SomeD:
  "entry_by_id d b i = Some e \<Longrightarrow> e \<in> set (ledger_entries d) \<and> ent_business_id e = b \<and> ent_id e = i"
  unfolding entry_by_id_def by (drule scope_one_SomeD) simp

lemma account_for_entry_InrD:
  assumes "account_for_entry d b e = Inr a"
  shows "a \<in> set (credit_accounts d)" "acc_business_id a = b" "acc_id a = ent_account_id e"
    "acc_subscription_id a = ent_subscription_id e"
  using assms scope_one_SomeD [of acc_business_id b _ "credit_accounts d" a]
  by (auto simp: account_for_entry_def split: option.splits)

lemma settledD:
  assumes "settled_write d b i d'"
  obtains e e' a a' where "e \<in> set (ledger_entries d)" "ent_business_id e = b" "ent_id e = i"
    "a \<in> set (credit_accounts d)" "acc_business_id a = b" "acc_id a = ent_account_id e"
    "settles a a' e e'" "d' = save_entry e' (save_account a' d)" "credit_tables_ok d'"
  using assms unfolding settled_write_def by (blast dest: entry_by_id_SomeD account_for_entry_InrD)

lemma settlesD:
  assumes "settles a a' e e'"
  shows "acc_id a' = acc_id a" "acc_business_id a' = acc_business_id a" "ent_id e' = ent_id e"
    "ent_business_id e' = ent_business_id e" "ent_account_id e' = ent_account_id e"
    "ent_idempotency_key_digest e' = ent_idempotency_key_digest e"
    "ent_subscription_id e' = ent_subscription_id e"
    "ent_status e = RESERVED" "acc_reserved_count a' = acc_reserved_count a - 1"
    "ent_status e' = CONSUMED \<and> acc_consumed_count a' = acc_consumed_count a + 1
       \<or> ent_status e' = RELEASED \<and> acc_consumed_count a' = acc_consumed_count a"
    "ent_status e' \<noteq> RESERVED"
  using assms by (auto simp: settles_def)

lemma ledger_step_inv: "ledger_step b d d' \<Longrightarrow> credit_inv d \<Longrightarrow> credit_inv d'"
proof (induction rule: ledger_step.induct)
  case (reserved i d b s started ends limit a d1 a' e g t)
  note d1 = ensure_account_inv [OF reserved(1)] and row = ensure_account_row(1) [OF reserved(1)]
  from reserved d1 row have "ledger_consistent (add_entry (new_entry e b a' s g t) (save_account a' d1))"
    by (intro consistent_reserve [where a = a])
      (auto simp: credit_inv_def counts_oneD [OF reserved(2)] credit_tables_okD)
  with reserved show ?case by (simp add: credit_inv_def)
next
  case (settled d b i d')
  then obtain e e' a a' where *: "e \<in> set (ledger_entries d)" "a \<in> set (credit_accounts d)"
    "acc_id a = ent_account_id e" "settles a a' e e'" "d' = save_entry e' (save_account a' d)"
    "credit_tables_ok d'" by (auto elim: settledD)
  have "ledger_consistent d'"
    unfolding *(5) using settled(2) *(1-3) settlesD [OF *(4)]
    by (intro consistent_settle [where a = a and e = e]) (auto simp: credit_inv_def credit_tables_okD)
  with *(6) show ?case by (simp add: credit_inv_def)
next
  case (adjusted ids d b d')
  then obtain s started ends limit a d1 l j ev where
    en: "ensure_account (fresh_account_id ids) d b s started ends limit = Some (a, d1)"
    and d': "d' = (save_account (a\<lparr> acc_limit_value := Some l \<rparr>) d1)
          \<lparr> credit_adjustments := insert_row j (credit_adjustments d1),
            audit_events := insert_row ev (audit_events d1) \<rparr>"
    and ok: "credit_tables_ok d'" by (auto simp: adjusted_write_def)
  have "credit_inv d1" using ensure_account_inv [OF en] adjusted(2) by (simp add: credit_inv_def)
  then have "ledger_consistent (save_account (a\<lparr> acc_limit_value := Some l \<rparr>) d1)"
    using ensure_account_row(1) [OF en]
    by (intro consistent_limit) (auto simp: credit_inv_def credit_tables_okD)
  then have "ledger_consistent d'"
    by (rule ledger_consistent_cong [THEN iffD2, rotated 2]) (simp_all add: d')
  with ok show ?case by (simp add: credit_inv_def)
qed

lemma ledger_steps_inv: "ledger_steps B d d' \<Longrightarrow> credit_inv d \<Longrightarrow> credit_inv d'"
  unfolding ledger_steps_def
  by (induction rule: rtranclp_induct) (auto intro: ledger_step_inv)


section \<open>What no operation changes\<close>

text \<open>A settled entry, and the identity of an entry: its key and where it is booked.\<close>

definition final_entry :: "ai_credit_ledger_entry \<Rightarrow> db \<Rightarrow> bool" where
  "final_entry e d \<longleftrightarrow> e \<in> set (ledger_entries d) \<and> ent_status e \<noteq> RESERVED"

definition entry_identity :: "ai_credit_ledger_entry \<Rightarrow> uuid \<times> uuid \<times> string \<times> uuid \<times> uuid" where
  "entry_identity e = (ent_id e, ent_business_id e, ent_idempotency_key_digest e, ent_account_id e,
     ent_subscription_id e)"

definition known_entry :: "uuid \<times> uuid \<times> string \<times> uuid \<times> uuid \<Rightarrow> db \<Rightarrow> bool" where
  "known_entry k d \<longleftrightarrow> k \<in> entry_identity ` set (ledger_entries d)"

definition tenant_ledger ::
  "uuid \<Rightarrow> db \<Rightarrow> ai_credit_account list \<times> ai_credit_ledger_entry list \<times> ai_credit_adjustment list" where
  "tenant_ledger b d = (rows_where (\<lambda>a. acc_business_id a = b) (credit_accounts d),
     rows_where (\<lambda>e. ent_business_id e = b) (ledger_entries d),
     rows_where (\<lambda>j. adj_business_id j = b) (credit_adjustments d))"

lemma rows_where_update_other:
  "(\<And>r. r \<in> set t \<Longrightarrow> Q r \<Longrightarrow> \<not> P r) \<Longrightarrow> (\<And>r. r \<in> set t \<Longrightarrow> Q r \<Longrightarrow> \<not> P (f r)) \<Longrightarrow>
     rows_where P (update_where Q f t) = rows_where P t"
  by (induction t) (auto simp: rows_where_def)

lemma rows_where_insert_other: "\<not> P r \<Longrightarrow> rows_where P (insert_row r t) = rows_where P t"
  by (simp add: rows_where_def insert_row_def)

lemma ledger_step_final:
  assumes "ledger_step b d d'" and "credit_inv d" and "final_entry e d"
  shows "final_entry e d'"
  using assms
proof (induction rule: ledger_step.induct)
  case (reserved i d b s started ends limit a d1 a' e g t)
  then show ?case using ensure_account_frame(1) [OF reserved(1)] by (simp add: final_entry_def)
next
  case (settled d b i d')
  then obtain e0 e' a a' where *: "e0 \<in> set (ledger_entries d)" "settles a a' e0 e'"
    "d' = save_entry e' (save_account a' d)" by (auto elim: settledD)
  have "ent_id e \<noteq> ent_id e0"
    using settled(2,3) *(1) settlesD(8) [OF *(2)] unique_onD [OF credit_tables_okD(2), of d e e0]
    by (auto simp: credit_inv_def final_entry_def)
  with settled(3) show ?case
    by (auto simp: *(3) final_entry_def set_update_where settlesD [OF *(2)])
next
  case (adjusted ids d b d')
  then obtain s started ends limit a d1 l j ev where
    en: "ensure_account (fresh_account_id ids) d b s started ends limit = Some (a, d1)"
    and d': "d' = (save_account (a\<lparr> acc_limit_value := Some l \<rparr>) d1)
          \<lparr> credit_adjustments := insert_row j (credit_adjustments d1),
            audit_events := insert_row ev (audit_events d1) \<rparr>" by (auto simp: adjusted_write_def)
  with adjusted(3) ensure_account_frame(1) [OF en] show ?case by (simp add: final_entry_def)
qed

lemma ledger_step_known:
  assumes "ledger_step b d d'" and "credit_inv d" and "known_entry k d"
  shows "known_entry k d'"
  using assms
proof (induction rule: ledger_step.induct)
  case (reserved i d b s started ends limit a d1 a' e g t)
  then show ?case using ensure_account_frame(1) [OF reserved(1)] by (auto simp: known_entry_def)
next
  case (settled d b i d')
  then obtain e0 e' a a' where *: "e0 \<in> set (ledger_entries d)" "settles a a' e0 e'"
    "d' = save_entry e' (save_account a' d)" by (auto elim: settledD)
  have "entry_identity e' = entry_identity e0"
    by (simp add: entry_identity_def settlesD [OF *(2)])
  moreover have "x = e0" if "x \<in> set (ledger_entries d)" "ent_id x = ent_id e0" for x
    using that *(1) settled(2) unique_onD [OF credit_tables_okD(2), of d x e0]
    by (auto simp: credit_inv_def)
  ultimately have "map entry_identity (ledger_entries d') = map entry_identity (ledger_entries d)"
    by (simp add: *(3) update_where_def settlesD [OF *(2)]) metis
  then have "entry_identity ` set (ledger_entries d') = entry_identity ` set (ledger_entries d)"
    by (metis set_map)
  with settled(3) show ?case by (simp add: known_entry_def)
next
  case (adjusted ids d b d')
  then obtain s started ends limit a d1 l j ev where
    en: "ensure_account (fresh_account_id ids) d b s started ends limit = Some (a, d1)"
    and d': "d' = (save_account (a\<lparr> acc_limit_value := Some l \<rparr>) d1)
          \<lparr> credit_adjustments := insert_row j (credit_adjustments d1),
            audit_events := insert_row ev (audit_events d1) \<rparr>" by (auto simp: adjusted_write_def)
  with adjusted(3) ensure_account_frame(1) [OF en] show ?case by (simp add: known_entry_def)
qed

lemma other_tenants_accounts:
  assumes "unique_on acc_id (credit_accounts d)" and "a \<in> set (credit_accounts d)"
    and "acc_id a' = acc_id a" and "acc_business_id a' = acc_business_id a" and "acc_business_id a \<noteq> b"
  shows "rows_where (\<lambda>x. acc_business_id x = b) (credit_accounts (save_account a' d))
       = rows_where (\<lambda>x. acc_business_id x = b) (credit_accounts d)"
  unfolding save_account_sel
  by (rule rows_where_update_other) (use assms unique_onD [OF assms(1)] in fastforce)+

lemma ledger_step_frame:
  assumes "ledger_step b d d'" and "credit_inv d" and "b' \<noteq> b"
  shows "tenant_ledger b' d' = tenant_ledger b' d"
  using assms
proof (induction rule: ledger_step.induct)
  case (reserved i d b s started ends limit a d1 a' e g t)
  note row = ensure_account_row [OF reserved(1)] and inv = ensure_account_inv(1) [OF reserved(1)]
    and eq = counts_oneD [OF reserved(2)]
  have "unique_on acc_id (credit_accounts d1)"
    using inv reserved(4) by (intro credit_tables_okD) (simp add: credit_inv_def)
  from other_tenants_accounts [OF this row(1) eq(1,2), of b'] row(2) reserved(5)
  show ?case
    using ensure_account_frame(1,2) [OF reserved(1)] ensure_account_frame(5) [OF reserved(1), of b']
    by (simp add: tenant_ledger_def rows_where_insert_other add_entry_def save_account_def)
next
  case (settled d b i d')
  then obtain e e' a a' where *: "e \<in> set (ledger_entries d)" "ent_business_id e = b"
    "a \<in> set (credit_accounts d)" "acc_business_id a = b" "settles a a' e e'"
    "d' = save_entry e' (save_account a' d)" by (auto elim: settledD)
  note eq = settlesD [OF *(5)]
  have ok: "credit_tables_ok d" using settled(2) by (simp add: credit_inv_def)
  have "rows_where (\<lambda>x. ent_business_id x = b') (ledger_entries d')
      = rows_where (\<lambda>x. ent_business_id x = b') (ledger_entries d)"
    unfolding *(6) save_entry_sel save_account_sel
    by (rule rows_where_update_other)
      (use *(1,2) eq(3,4) settled(3) unique_onD [OF credit_tables_okD(2) [OF ok]] in fastforce)+
  with other_tenants_accounts [OF credit_tables_okD(1) [OF ok] *(3) eq(1,2), of b'] *(4) settled(3)
  show ?case by (simp add: tenant_ledger_def *(6)) (simp add: save_entry_def save_account_def)
next
  case (adjusted ids d b d')
  then obtain s started ends limit a d1 l j ev where
    en: "ensure_account (fresh_account_id ids) d b s started ends limit = Some (a, d1)"
    and j: "adj_business_id j = b"
    and d': "d' = (save_account (a\<lparr> acc_limit_value := Some l \<rparr>) d1)
          \<lparr> credit_adjustments := insert_row j (credit_adjustments d1),
            audit_events := insert_row ev (audit_events d1) \<rparr>" by (auto simp: adjusted_write_def)
  note row = ensure_account_row [OF en] and inv = ensure_account_inv(1) [OF en]
  have "unique_on acc_id (credit_accounts d1)"
    using inv adjusted(2) by (intro credit_tables_okD) (simp add: credit_inv_def)
  from other_tenants_accounts [OF this row(1), of "a\<lparr> acc_limit_value := Some l \<rparr>" b'] row(2) adjusted(3) j
  show ?case
    using ensure_account_frame(1,2) [OF en] ensure_account_frame(5) [OF en, of b']
    by (simp add: tenant_ledger_def rows_where_insert_other d')
qed

text \<open>The three facts for the operations, and the interfaces they discharge.\<close>

lemma ledger_steps_stable:
  assumes "ledger_steps B d d'" and "credit_inv d" and "P d"
    and "\<And>b d d'. ledger_step b d d' \<Longrightarrow> credit_inv d \<Longrightarrow> P d \<Longrightarrow> P d'"
  shows "P d'"
proof -
  have "credit_inv d' \<and> P d'"
    using assms(1) unfolding ledger_steps_def
    by (induction rule: rtranclp_induct) (use assms(2-4) ledger_step_inv in blast)+
  then show ?thesis ..
qed

lemma ledger_steps_frame:
  assumes "ledger_steps B d d'" and "credit_inv d" and "b \<notin> B"
  shows "tenant_ledger b d' = tenant_ledger b d"
proof -
  have "credit_inv d' \<and> tenant_ledger b d' = tenant_ledger b d"
    using assms(1) unfolding ledger_steps_def
  proof (induction rule: rtranclp_induct)
    case base
    then show ?case using assms(2) by simp
  next
    case (step y z)
    then obtain b' where "b' \<in> B" "ledger_step b' y z" by blast
    with step assms(3) show ?case using ledger_step_inv ledger_step_frame [of b' y z b] by auto
  qed
  then show ?thesis ..
qed

interpretation ledger: isolated_system "credit_step sha" credit_inv acting_tenants tenant_ledger
  for sha
  by unfold_locales (blast intro: ledger_steps_inv ledger_steps_frame credit_step_refines)+

interpretation settled: stable_system "credit_step sha" credit_inv final_entry
  for sha
  by unfold_locales (blast intro: ledger_steps_stable credit_step_refines ledger_step_final)

interpretation booked: stable_system "credit_step sha" credit_inv known_entry
  for sha
  by unfold_locales (blast intro: ledger_steps_stable credit_step_refines ledger_step_known)


section \<open>When the constraints hold after a write\<close>

lemma credit_tables_ok_save_account:
  assumes "credit_tables_ok d" and "a \<in> set (credit_accounts d)" and "acc_id a' = acc_id a"
    and "acc_business_id a' = acc_business_id a" and "acc_subscription_id a' = acc_subscription_id a"
    and "account_key a' = account_key a" and "ai_credit_account_checks a'"
  shows "credit_tables_ok (save_account a' d)"
proof -
  have same: "x = a" if "x \<in> set (credit_accounts d)" "acc_id x = acc_id a" for x
    using unique_onD [OF credit_tables_okD(1) [OF assms(1)] that(1) assms(2) that(2)] .
  have keep: "map f (credit_accounts (save_account a' d)) = map f (credit_accounts d)"
    if "f a' = f a" for f :: "ai_credit_account \<Rightarrow> 'k"
    using that assms(3) by (auto simp: update_where_def dest!: same)
  have set': "set (credit_accounts (save_account a' d)) = insert a' {x \<in> set (credit_accounts d). acc_id x \<noteq> acc_id a}"
    using set_save_account [OF credit_tables_okD(1) [OF assms(1)] assms(2,3)] by simp
  have parent: "(\<exists>x \<in> set (credit_accounts (save_account a' d)).
        acc_id x = i \<and> acc_business_id x = b \<and> acc_subscription_id x = s)
     \<longleftrightarrow> (\<exists>x \<in> set (credit_accounts d). acc_id x = i \<and> acc_business_id x = b \<and> acc_subscription_id x = s)"
    for i b s
    unfolding set' using assms(2-5) same by auto
  have checks: "list_all ai_credit_account_checks (credit_accounts (save_account a' d))"
    using assms(1,7) unfolding list_all_iff set' by (auto simp: credit_tables_ok_def credit_account_table_ok_def list_all_iff)
  have subs: "\<forall>x \<in> set (credit_accounts (save_account a' d)). \<exists>s \<in> set (subscriptions d).
      sub_id s = acc_subscription_id x \<and> sub_business_id s = acc_business_id x"
    using assms(1,2,4,5) unfolding set' by (auto simp: credit_tables_ok_def credit_account_table_ok_def)
  show ?thesis
    using assms(1) checks subs
    unfolding credit_tables_ok_def credit_account_table_ok_def ledger_table_ok_def adjustment_table_ok_def
      unique_on_def parent keep [of acc_id, OF assms(3)] keep [of account_key, OF assms(6)]
    by (simp add: save_account_def audit_table_ok_def)
qed

lemma credit_tables_ok_save_entry:
  assumes "credit_tables_ok d" and "e \<in> set (ledger_entries d)" and "ent_id e' = ent_id e"
    and "entry_identity e' = entry_identity e" and "ai_credit_ledger_entry_checks e'"
  shows "credit_tables_ok (save_entry e' d)"
proof -
  have same: "x = e" if "x \<in> set (ledger_entries d)" "ent_id x = ent_id e" for x
    using unique_onD [OF credit_tables_okD(2) [OF assms(1)] that(1) assms(2) that(2)] .
  have eqs: "ent_business_id e' = ent_business_id e" "ent_account_id e' = ent_account_id e"
    "ent_idempotency_key_digest e' = ent_idempotency_key_digest e"
    "ent_subscription_id e' = ent_subscription_id e" using assms(4) by (auto simp: entry_identity_def)
  have keep: "map f (ledger_entries (save_entry e' d)) = map f (ledger_entries d)"
    if "f e' = f e" for f :: "ai_credit_ledger_entry \<Rightarrow> 'k"
    using that assms(3) by (auto simp: update_where_def dest!: same)
  have set': "set (ledger_entries (save_entry e' d)) \<subseteq> insert e' (set (ledger_entries d))"
    by (auto simp: set_update_where)
  have rows: "list_all ai_credit_ledger_entry_checks (ledger_entries (save_entry e' d))"
    using assms(1,5) set' by (auto simp: list_all_iff credit_tables_ok_def ledger_table_ok_def)
  have parent: "\<forall>x \<in> set (ledger_entries (save_entry e' d)). \<exists>a \<in> set (credit_accounts d).
      acc_id a = ent_account_id x \<and> acc_business_id a = ent_business_id x
      \<and> acc_subscription_id a = ent_subscription_id x"
    using entry_account_exists [OF assms(1)] set' assms(2) eqs by fastforce
  show ?thesis
    using assms(1) rows parent
    unfolding credit_tables_ok_def ledger_table_ok_def unique_on_def
      keep [of ent_id, OF assms(3)]
    using keep [of "\<lambda>x. (ent_business_id x, ent_idempotency_key_digest x)"] eqs
    by (simp add: save_entry_def audit_table_ok_def credit_account_table_ok_def adjustment_table_ok_def)
qed

lemma credit_tables_ok_add_entry:
  assumes "credit_tables_ok d" and "a \<in> set (credit_accounts d)" and "acc_id a = ent_account_id e"
    and "acc_business_id a = ent_business_id e" and "acc_subscription_id a = ent_subscription_id e"
    and "ai_credit_ledger_entry_checks e" and "ent_id e \<notin> ent_id ` set (ledger_entries d)"
    and "\<forall>x \<in> set (ledger_entries d). ent_business_id x = ent_business_id e
       \<longrightarrow> ent_idempotency_key_digest x \<noteq> ent_idempotency_key_digest e"
  shows "credit_tables_ok (add_entry e d)"
  using assms
  by (auto simp: credit_tables_ok_def ledger_table_ok_def add_entry_def unique_on_insert_row
      audit_table_ok_def credit_account_table_ok_def adjustment_table_ok_def)

lemma credit_tables_ok_add_account:
  assumes "credit_tables_ok d" and "s \<in> set (subscriptions d)" and "sub_id s = acc_subscription_id a"
    and "sub_business_id s = acc_business_id a" and "ai_credit_account_checks a"
    and "acc_id a \<notin> acc_id ` set (credit_accounts d)"
    and "account_key a \<notin> account_key ` set (credit_accounts d)"
  shows "credit_tables_ok (add_account a d)"
  using assms
  by (auto simp: credit_tables_ok_def ledger_table_ok_def add_account_def unique_on_insert_row
      audit_table_ok_def credit_account_table_ok_def adjustment_table_ok_def)


section \<open>Each operation on its success branch\<close>

lemma account_of_entry:
  assumes "credit_tables_ok d" and "e \<in> set (ledger_entries d)" and "ent_business_id e = b"
  obtains a where "account_for_entry d b e = Inr a" "a \<in> set (credit_accounts d)"
    "acc_id a = ent_account_id e" "acc_business_id a = b"
proof -
  obtain a where a: "a \<in> set (credit_accounts d)" "acc_id a = ent_account_id e"
    "acc_business_id a = b" "acc_subscription_id a = ent_subscription_id e"
    using entry_account_exists [OF assms(1,2)] assms(3) by blast
  have "scope_one acc_business_id b (\<lambda>a. acc_id a = ent_account_id e
      \<and> acc_subscription_id a = ent_subscription_id e) (credit_accounts d) = Some a"
    unfolding scope_one_def
    by (rule row_where_unique2 [OF credit_tables_okD(1) [OF assms(1)] a(1)]) (use a in auto)
  with a that show ?thesis by (simp add: account_for_entry_def)
qed

lemma entry_lookup:
  assumes "credit_tables_ok d" and "e \<in> set (ledger_entries d)" and "ent_business_id e = b"
  shows "entry_by_id d b (ent_id e) = Some e" "entry_by_digest d b (ent_idempotency_key_digest e) = Some e"
proof -
  show "entry_by_id d b (ent_id e) = Some e" unfolding entry_by_id_def scope_one_def
    by (rule row_where_unique2 [OF credit_tables_okD(2) [OF assms(1)] assms(2)]) (use assms in auto)
  show "entry_by_digest d b (ent_idempotency_key_digest e) = Some e"
    unfolding entry_by_digest_def scope_one_def
    by (rule row_where_unique2 [OF credit_tables_okD(6) [OF assms(1)] assms(2)]) (use assms in auto)
qed

lemma reserved_entry_counted:
  assumes "ledger_consistent d" and "e \<in> set (ledger_entries d)" and "ent_status e = RESERVED"
    and "a \<in> set (credit_accounts d)" and "acc_id a = ent_account_id e"
  shows "1 \<le> acc_reserved_count a"
proof -
  have "0 < count_where (entries_of (acc_id a) RESERVED) (ledger_entries d)"
    by (rule count_where_pos [OF assms(2)]) (simp add: entries_of_def assms)
  with assms(1,4) show ?thesis by (auto simp: ledger_consistent_def)
qed

lemma checks_of:
  assumes "credit_tables_ok d"
  shows "a \<in> set (credit_accounts d) \<Longrightarrow> ai_credit_account_checks a"
    "e \<in> set (ledger_entries d) \<Longrightarrow> ai_credit_ledger_entry_checks e"
    "j \<in> set (credit_adjustments d) \<Longrightarrow> ai_credit_adjustment_checks j"
  using assms by (auto simp: credit_tables_ok_def credit_account_table_ok_def ledger_table_ok_def
      adjustment_table_ok_def list_all_iff)

text \<open>The commit of a settlement never fails: the rows it writes satisfy every constraint.\<close>

lemma settlement_commits:
  assumes inv: "credit_inv d" and e: "e \<in> set (ledger_entries d)"
    and a: "a \<in> set (credit_accounts d)" and "acc_id a = ent_account_id e"
    and set: "settles a a' e e'" and check: "ai_credit_ledger_entry_checks e'"
  shows "credit_tables_ok (save_entry e' (save_account a' d))"
proof -
  note eq = settlesD [OF set]
  have ok: "credit_tables_ok d" using inv by (simp add: credit_inv_def)
  have "account_key a' = account_key a" "ai_credit_account_checks a'"
    using set checks_of(1) [OF ok a]
    by (auto simp: settles_def account_key_def ai_credit_account_checks_def null_or_def split: option.splits)
  then have "credit_tables_ok (save_account a' d)"
    using set by (intro credit_tables_ok_save_account [OF ok a eq(1,2)]) (auto simp: settles_def)
  then show ?thesis
    using e check eq by (intro credit_tables_ok_save_entry [where e = e]) (auto simp: entry_identity_def)
qed

lemma consume_reserved:
  assumes inv: "credit_inv d" and e: "e \<in> set (ledger_entries d)" "ent_business_id e = b"
    "ent_status e = RESERVED" "ent_reserved_at e \<le> now"
  obtains a a' e' where "a \<in> set (credit_accounts d)" "acc_id a = ent_account_id e"
    "e' = e\<lparr> ent_status := CONSUMED, ent_consumed_at := Some now, ent_released_at := None,
       ent_release_reason := None \<rparr>"
    "a' = a\<lparr> acc_reserved_count := acc_reserved_count a - 1,
       acc_consumed_count := acc_consumed_count a + 1 \<rparr>"
    "consume d b (ent_id e) now = (Inr (snapshot_of e' a' False), save_entry e' (save_account a' d))"
proof -
  have ok: "credit_tables_ok d" and lc: "ledger_consistent d" using inv by (simp_all add: credit_inv_def)
  obtain a where a: "account_for_entry d b e = Inr a" "a \<in> set (credit_accounts d)"
    "acc_id a = ent_account_id e" using account_of_entry [OF ok e(1,2)] by metis
  let ?e = "e\<lparr> ent_status := CONSUMED, ent_consumed_at := Some now, ent_released_at := None,
       ent_release_reason := None \<rparr>"
  let ?a = "a\<lparr> acc_reserved_count := acc_reserved_count a - 1,
       acc_consumed_count := acc_consumed_count a + 1 \<rparr>"
  have pos: "1 \<le> acc_reserved_count a" by (rule reserved_entry_counted [OF lc e(1,3) a(2,3)])
  have "credit_tables_ok (save_entry ?e (save_account ?a d))"
    by (rule settlement_commits [OF inv e(1) a(2,3)])
      (use pos e(3,4) checks_of(2) [OF ok e(1)] in \<open>auto simp: settles_def ai_credit_ledger_entry_checks_def\<close>)
  then show ?thesis
    using a pos entry_lookup(1) [OF ok e(1,2)] e(3)
    by (intro that [OF a(2,3) refl refl]) (simp add: consume_def Let_def commit_credits_def)
qed

lemma release_reserved:
  assumes inv: "credit_inv d" and e: "e \<in> set (ledger_entries d)" "ent_business_id e = b"
    "ent_status e = RESERVED" "ent_reserved_at e \<le> now"
    and reason: "normalize_ai_release_reason w = Inr w'"
  obtains a a' e' where "a \<in> set (credit_accounts d)" "acc_id a = ent_account_id e"
    "e' = e\<lparr> ent_status := RELEASED, ent_consumed_at := None, ent_released_at := Some now,
       ent_release_reason := Some w' \<rparr>"
    "a' = a\<lparr> acc_reserved_count := acc_reserved_count a - 1 \<rparr>"
    "release d b (ent_id e) w now = (Inr (snapshot_of e' a' False), save_entry e' (save_account a' d))"
proof -
  have ok: "credit_tables_ok d" and lc: "ledger_consistent d" using inv by (simp_all add: credit_inv_def)
  obtain a where a: "account_for_entry d b e = Inr a" "a \<in> set (credit_accounts d)"
    "acc_id a = ent_account_id e" using account_of_entry [OF ok e(1,2)] by metis
  let ?e = "e\<lparr> ent_status := RELEASED, ent_consumed_at := None, ent_released_at := Some now,
       ent_release_reason := Some w' \<rparr>"
  let ?a = "a\<lparr> acc_reserved_count := acc_reserved_count a - 1 \<rparr>"
  have w: "w' = py_strip w" "w' \<noteq> []" "length w' \<le> 255"
    using reason by (auto simp: normalize_ai_release_reason_def Let_def AI_RELEASE_REASON_MAX_LENGTH_def
        split: if_splits)
  have trim: "trimmed_length_between 1 255 w'"
    using w by (auto simp: trimmed_length_between_def Suc_le_eq)
  have pos: "1 \<le> acc_reserved_count a" by (rule reserved_entry_counted [OF lc e(1,3) a(2,3)])
  have "credit_tables_ok (save_entry ?e (save_account ?a d))"
    by (rule settlement_commits [OF inv e(1) a(2,3)])
      (use pos e(3,4) checks_of(2) [OF ok e(1)] trim in \<open>auto simp: settles_def ai_credit_ledger_entry_checks_def\<close>)
  then show ?thesis
    using a pos entry_lookup(1) [OF ok e(1,2)] e(3) reason
    by (intro that [OF a(2,3) refl refl]) (simp add: release_def Let_def commit_credits_def)
qed


section \<open>Admission of a new reservation\<close>

text \<open>What is left of the entitlement in the period: the base limit and the adjustments of the
  account less what is reserved or consumed; \<open>None\<close> for an unlimited entitlement.\<close>

definition credits_left :: "db \<Rightarrow> uuid \<Rightarrow> subscription \<Rightarrow> time \<Rightarrow> time \<Rightarrow> int option \<Rightarrow> int option" where
  "credits_left d b s started ends base =
     (case base of None \<Rightarrow> None
      | Some l \<Rightarrow> Some (case account_for_period d b s started ends of
            None \<Rightarrow> l
          | Some a \<Rightarrow> l + adjustment_total d b a - used a))"

lemma account_for_period_None:
  assumes "account_for_period d b s started ends = None"
  shows "account_key (new_account i b s started ends l) \<notin> account_key ` set (credit_accounts d)"
  using assms unfolding account_for_period_def scope_one_def row_where_None_iff
  by (auto simp: account_key_def new_account_def)

lemma ensure_account_total:
  assumes ok: "credit_tables_ok d" and s: "s \<in> set (subscriptions d)" "sub_business_id s = b"
    and "started < ends" and "null_or (\<lambda>n. 0 \<le> n) l" and i: "i \<notin> acc_id ` set (credit_accounts d)"
  obtains a d1 where "ensure_account i d b s started ends l = Some (a, d1)"
proof (cases "account_for_period d b s started ends")
  case (Some a)
  then show ?thesis by (intro that) (simp add: ensure_account_def)
next
  case None
  have "credit_tables_ok (add_account (new_account i b s started ends l) d)"
    by (rule credit_tables_ok_add_account [OF ok s(1)])
      (use s(2) assms(4,5) i account_for_period_None [OF None] in
        \<open>auto simp: ai_credit_account_checks_def new_account_def split: option.splits\<close>)
  with None show ?thesis by (intro that) (simp add: ensure_account_def Let_def)
qed

lemma adjustment_total_new_account:
  assumes "credit_tables_ok d" and "i \<notin> acc_id ` set (credit_accounts d)" and "acc_id a = i"
    and "credit_adjustments d1 = credit_adjustments d"
  shows "adjustment_total d1 b a = 0"
proof -
  have "rows_where (\<lambda>j. adj_business_id j = b \<and> adj_account_id j = acc_id a
       \<and> adj_subscription_id j = acc_subscription_id a) (credit_adjustments d1) = []"
    using assms unfolding rows_where_def filter_empty_conv
    by (fastforce simp: credit_tables_ok_def adjustment_table_ok_def image_iff)
  then show ?thesis by (simp add: adjustment_total_def)
qed

lemma credits_left_ensured:
  assumes "ensure_account i d b s started ends base = Some (a, d1)" and "credit_tables_ok d"
    and "i \<notin> acc_id ` set (credit_accounts d)"
  shows "credits_left d b s started ends base
       = map_option (\<lambda>l. l + adjustment_total d1 b a - used a) base"
  using assms(1)
proof (cases rule: ensure_account_cases)
  case found
  then show ?thesis by (simp add: credits_left_def split: option.splits)
next
  case added
  then show ?thesis
    using adjustment_total_new_account [OF assms(2,3), of a d1 b]
    by (simp add: credits_left_def used_def add_account_def split: option.splits)
qed

lemma reserve_flush:
  assumes ok: "credit_tables_ok d1" and a: "a \<in> set (credit_accounts d1)" "acc_business_id a = b"
    "acc_subscription_id a = sub_id s"
    and e: "e \<notin> ent_id ` set (ledger_entries d1)" and g: "length g = 64"
    "entry_by_digest d1 b g = None"
    and l: "null_or (\<lambda>n. used a < n) l"
  shows "credit_tables_ok (add_entry (new_entry e b (a\<lparr> acc_limit_value := l,
      acc_reserved_count := acc_reserved_count a + 1 \<rparr>) s g t)
      (save_account (a\<lparr> acc_limit_value := l, acc_reserved_count := acc_reserved_count a + 1 \<rparr>) d1))"
proof -
  let ?a = "a\<lparr> acc_limit_value := l, acc_reserved_count := acc_reserved_count a + 1 \<rparr>"
  have "ai_credit_account_checks ?a"
    using checks_of(1) [OF ok a(1)] l
    by (auto simp: ai_credit_account_checks_def used_def null_or_def split: option.splits)
  then have saved: "credit_tables_ok (save_account ?a d1)"
    by (intro credit_tables_ok_save_account [OF ok a(1)]) (simp_all add: account_key_def)
  have fresh: "\<forall>x \<in> set (ledger_entries d1). ent_business_id x = b \<longrightarrow> ent_idempotency_key_digest x \<noteq> g"
    using g(2) by (auto simp: entry_by_digest_def scope_one_def row_where_None_iff)
  show ?thesis
    by (rule credit_tables_ok_add_entry [OF saved, of ?a])
      (use a e g fresh in \<open>auto simp: new_entry_def ai_credit_ledger_entry_checks_def set_update_where\<close>)
qed


end
