(* ===== verification/Credit_Theorems.thy ===== *)
theory Credit_Theorems
  imports Credit_System
begin

text \<open>
  The properties of the credit services over whole sequences of operations: conservation of the
  ledger, finality, tenant isolation, admission, replay and the adjustment of the limit.
\<close>

lemma existing_snapshot_None: "existing_snapshot d b g = Inr None \<longleftrightarrow> entry_by_digest d b g = None"
  by (auto simp: existing_snapshot_def split: option.splits sum.splits)

definition some_left :: "int option \<Rightarrow> bool" where
  "some_left r = (case r of None \<Rightarrow> True | Some n \<Rightarrow> 0 < n)"

lemma reserve_count_admits:
  assumes ok: "credit_tables_ok d1" and a: "a \<in> set (credit_accounts d1)" "acc_business_id a = b"
    "acc_subscription_id a = sub_id s"
    and e: "e \<notin> ent_id ` set (ledger_entries d1)" and g: "length g = 64" "entry_by_digest d1 b g = None"
  shows "if null_or (\<lambda>n. used a < n) l
    then \<exists>snap d'. reserve_count e d d1 b s a l g t = (Inr snap, d') \<and> \<not> snap_replayed snap
       \<and> snap_entry_id snap = e \<and> snap_status snap = RESERVED
       \<and> snap_remaining snap = map_option (\<lambda>n. n - used a - 1) l
    else \<exists>err. reserve_count e d d1 b s a l g t = (Inl err, d)"
proof (cases "null_or (\<lambda>n. used a < n) l")
  case True
  from reserve_flush [OF ok a e g True, of t] True show ?thesis
    by (cases l) (auto simp: reserve_count_def Let_def snapshot_of_def used_def)
next
  case False
  then show ?thesis by (cases l) (auto simp: reserve_count_def)
qed

lemma reserve_locked_admits:
  assumes inv: "credit_inv d" and none: "entry_by_digest d b g = None" and g: "length g = 64"
    and s: "current_subscription_for_update d b = Some s"
    and w: "access_window s = Some (started, ends)" "started \<le> t" "t < ends"
    and ent: "find_entitlement AI_FULL_RESPONSES (effective_entitlements d b s) = Some ent"
      "ee_is_enabled ent" "null_or (\<lambda>n. 0 \<le> n) (ee_limit_value ent)"
    and fresh: "i \<notin> acc_id ` set (credit_accounts d)" "e \<notin> ent_id ` set (ledger_entries d)"
  shows "if some_left (credits_left d b s started ends (ee_limit_value ent))
    then \<exists>snap d'. reserve_locked i e d b g t = (Inr snap, d') \<and> \<not> snap_replayed snap
       \<and> snap_entry_id snap = e \<and> snap_status snap = RESERVED
       \<and> snap_remaining snap
           = map_option (\<lambda>n. n - 1) (credits_left d b s started ends (ee_limit_value ent))
    else \<exists>err. reserve_locked i e d b g t = (Inl err, d)"
proof -
  have ok: "credit_tables_ok d" and lc: "ledger_consistent d" using inv by (simp_all add: credit_inv_def)
  have sub: "s \<in> set (subscriptions d)" "sub_business_id s = b"
    using s scope_latest_SomeD unfolding current_subscription_for_update_def by fastforce+
  have acc: "access_active (evaluate_access s t)"
    using w by (simp add: evaluate_access_active_iff)
  with evaluate_access_period [OF acc] w
  have per: "access_period_started_at (evaluate_access s t) = Some started"
    "access_period_ends_at (evaluate_access s t) = Some ends" by auto
  obtain a d1 where en: "ensure_account i d b s started ends (ee_limit_value ent) = Some (a, d1)"
    using ensure_account_total [OF ok sub _ ent(3) fresh(1)] w by (metis less_le_trans order.strict_trans1)
  note row = ensure_account_row [OF en] and ok1 = ensure_account_inv(1) [OF en ok lc]
    and left = credits_left_ensured [OF en ok fresh(1)]
  have e1: "e \<notin> ent_id ` set (ledger_entries d1)" "entry_by_digest d1 b g = None"
    using fresh(2) none ensure_account_frame(1) [OF en] by (simp_all add: entry_by_digest_def)
  have used: "0 \<le> used a"
    using checks_of(1) [OF ok1 row(1)] by (simp add: ai_credit_account_checks_def used_def)
  have unfold: "reserve_locked i e d b g t =
     (case effective_limit d1 b a (ee_limit_value ent) of Inl err \<Rightarrow> (Inl err, d)
      | Inr l \<Rightarrow> reserve_count e d d1 b s a l g t)"
    using s acc per none ent(1,2) en
    by (simp add: reserve_locked_def Let_def existing_snapshot_None [THEN iffD2])
  show ?thesis
  proof (cases "effective_limit d1 b a (ee_limit_value ent)")
    case (Inl err)
    then have "\<not> some_left (credits_left d b s started ends (ee_limit_value ent))"
      using used left by (auto simp: effective_limit_def Let_def some_left_def split: option.splits if_splits)
    with Inl unfold show ?thesis by simp
  next
    case (Inr l)
    then have l: "l = map_option (\<lambda>l. l + adjustment_total d1 b a) (ee_limit_value ent)"
      by (auto simp: effective_limit_def Let_def split: option.splits if_splits)
    then have eqs: "some_left (credits_left d b s started ends (ee_limit_value ent)) \<longleftrightarrow> null_or (\<lambda>n. used a < n) l"
      "map_option (\<lambda>n. n - 1) (credits_left d b s started ends (ee_limit_value ent))
         = map_option (\<lambda>n. n - used a - 1) l"
      unfolding left by (cases "ee_limit_value ent"; simp add: some_left_def)+
    have locked: "reserve_locked i e d b g t = reserve_count e d d1 b s a l g t"
      using Inr unfold by simp
    show ?thesis
      unfolding locked eqs by (rule reserve_count_admits [OF ok1 row(1-3) e1(1) g e1(2)])
  qed
qed


section \<open>A sample ledger\<close>

definition sample_sha :: "string \<Rightarrow> string" where
  "sample_sha s = take 64 (s @ replicate 64 CHR ''0'')"

definition sample_account :: ai_credit_account where
  "sample_account = (new_account 40 10 sample_subscription 0 1000 (Some 2))
     \<lparr> acc_reserved_count := 1, acc_consumed_count := 1 \<rparr>"

definition sample_consumed :: ai_credit_ledger_entry where
  "sample_consumed = (new_entry 50 10 sample_account sample_subscription (sample_sha ''k'') 5)
     \<lparr> ent_status := CONSUMED, ent_consumed_at := Some 6 \<rparr>"

definition sample_reserved :: ai_credit_ledger_entry where
  "sample_reserved = new_entry 51 10 sample_account sample_subscription (sample_sha ''l'') 7"

definition sample_ledger :: db where
  "sample_ledger = sample_db\<lparr> credit_accounts := [sample_account],
     ledger_entries := [sample_consumed, sample_reserved] \<rparr>"

lemmas sample_ledger_defs = sample_ledger_def sample_consumed_def sample_reserved_def
  sample_account_def sample_sha_def new_account_def new_entry_def

lemma sample_sha_length [simp]: "length (sample_sha s) = 64"
  by (simp add: sample_sha_def)

lemma sample_credit_inv: "credit_inv sample_db" "credit_inv sample_ledger"
proof -
  show "credit_inv sample_db"
    using sample_tables_ok(7) by (simp add: credit_inv_def ledger_consistent_def sample_defs)
  have "credit_tables_ok sample_ledger"
    using sample_tables_ok(7)
    by (simp add: credit_tables_ok_def credit_account_table_ok_def ledger_table_ok_def
        adjustment_table_ok_def audit_table_ok_def ai_credit_account_checks_def
        ai_credit_ledger_entry_checks_def unique_on_def sample_ledger_defs sample_defs)
  then show "credit_inv sample_ledger"
    by (simp add: credit_inv_def ledger_consistent_def entries_of_def sample_ledger_defs)
qed

lemma sample_current: "current_subscription_for_update sample_db 10 = Some sample_subscription"
  by (simp add: current_subscription_for_update_def scope_latest_def latest_where_def is_current_def
      CURRENT_SUBSCRIPTION_STATUSES_def sample_defs)

lemma sample_effective:
  "find_entitlement AI_FULL_RESPONSES (effective_entitlements sample_db 10 sample_subscription)
     = Some (entitlement_of_subscription sample_entitlement)"
  unfolding effective_lookup [OF sample_tables_ok(6,5)]
  by (simp add: scope_one_def sample_defs)

lemma sample_left: "Some 2 = credits_left sample_db 10 sample_subscription 0 1000
    (ee_limit_value (entitlement_of_subscription sample_entitlement))"
  by (simp add: credits_left_def account_for_period_def scope_one_def entitlement_of_subscription_def
      sample_defs)

lemma sample_reserve_facts: "entry_by_digest sample_db 10 (sample_sha ''k'') = None"
  "digest_ai_idempotency_key sample_sha ''k'' = Inr (sample_sha ''k'')"
  "access_window sample_subscription = Some (0, 1000)"
  "ee_is_enabled (entitlement_of_subscription sample_entitlement)"
  "null_or (\<lambda>n. 0 \<le> n) (ee_limit_value (entitlement_of_subscription sample_entitlement))"
  "40 \<notin> acc_id ` set (credit_accounts sample_db)" "50 \<notin> ent_id ` set (ledger_entries sample_db)"
  by (simp_all add: digest_ai_idempotency_key_def Let_def py_strip_def py_isspace_def
      AI_IDEMPOTENCY_KEY_MAX_LENGTH_def entry_by_digest_def scope_one_def access_window_def
      entitlement_of_subscription_def sample_defs)

lemma sample_reserve_succeeds:
  "\<exists>snap d'. reserve sample_sha (\<lambda>d. d) 40 50 sample_db 10 ''k'' 5 = (Inr snap, d')"
proof -
  have "reserve sample_sha (\<lambda>d. d) 40 50 sample_db 10 ''k'' 5
      = reserve_locked 40 50 sample_db 10 (sample_sha ''k'') 5"
    using sample_reserve_facts(1,2) by (simp add: reserve_def existing_snapshot_None [THEN iffD2])
  with reserve_locked_admits [where t = 5, OF sample_credit_inv(1) sample_reserve_facts(1) sample_sha_length
      sample_current sample_reserve_facts(3) _ _ sample_effective sample_reserve_facts(4-7)]
  show ?thesis unfolding sample_left [symmetric] by (auto simp: some_left_def)
qed

section \<open>Properties\<close>

text \<open>
  C1: whatever sequence of reservations, consumptions, releases and adjustments runs, with the
  calls that commit while a reservation waits, every credit account's counters are the numbers of
  its reserved and consumed ledger entries, and their sum stays within the account's limit.
\<close>

theorem credit_ledger_conserved:
  assumes "credit_inv d" and "d' = run_credits sha ops d" and "a \<in> set (credit_accounts d')"
  shows "acc_reserved_count a = int (count_where (entries_of (acc_id a) RESERVED) (ledger_entries d'))
    \<and> acc_consumed_count a = int (count_where (entries_of (acc_id a) CONSUMED) (ledger_entries d'))
    \<and> null_or (\<lambda>l. used a \<le> l) (acc_limit_value a)"
proof -
  have inv: "credit_inv d'" unfolding assms(2) run_credits_def by (rule ledger.run_keeps [OF assms(1)])
  with checks_of(1) [of d' a] assms(3) show ?thesis
    by (auto simp: credit_inv_def ledger_consistent_def ai_credit_account_checks_def used_def)
qed

theorem credit_ledger_conserved_witness:
  "acc_reserved_count sample_account = int (count_where (entries_of 40 RESERVED) (ledger_entries sample_ledger))"
  using credit_ledger_conserved [OF sample_credit_inv(2), of sample_ledger sample_sha "[]" sample_account]
  by (simp add: run_credits_def sample_ledger_defs)

text \<open>
  A consumed or released ledger entry is final: no sequence of credit operations changes any
  field of it, removes it, or lets it be settled again.
\<close>

theorem settled_entry_is_final:
  assumes "credit_inv d" and "e \<in> set (ledger_entries d)" and "ent_status e \<noteq> RESERVED"
  shows "e \<in> set (ledger_entries (run_credits sha ops d))"
  using settled.run_stable [OF assms(1), of e sha ops] assms(2,3)
  by (simp add: final_entry_def run_credits_def)

theorem settled_entry_is_final_witness:
  "sample_consumed \<in> set (ledger_entries (run_credits sample_sha [Release 10 50 ''x'' 8] sample_ledger))"
  by (rule settled_entry_is_final [OF sample_credit_inv(2)]) (simp_all add: sample_ledger_defs)

text \<open>
  C18: the credit operations of some tenants leave every other tenant's accounts, ledger entries
  and adjustments exactly as they were.
\<close>

theorem credit_operations_isolated:
  assumes "credit_inv d" and "\<forall>x \<in> set ops. b \<notin> acting_tenants x"
  shows "tenant_ledger b (run_credits sha ops d) = tenant_ledger b d"
  unfolding run_credits_def by (rule ledger.run_frame [OF assms])

theorem credit_operations_isolated_witness:
  "tenant_ledger 10 (run_credits sample_sha [Consume 11 51 9] sample_ledger) = tenant_ledger 10 sample_ledger"
  by (rule credit_operations_isolated [OF sample_credit_inv(2)]) simp




lemma known_entry_replayed:
  assumes "credit_tables_ok d" and "known_entry (i, b, g, acc, sub) d"
  obtains e a where "e \<in> set (ledger_entries d)" "ent_id e = i" "existing_snapshot d b g = Inr (Some (snapshot_of e a True))"
proof -
  obtain e where e: "e \<in> set (ledger_entries d)" "ent_id e = i" "ent_business_id e = b"
    "ent_idempotency_key_digest e = g" using assms(2) by (auto simp: known_entry_def entry_identity_def)
  obtain a where "account_for_entry d b e = Inr a" using account_of_entry [OF assms(1) e(1,3)] by metis
  with e entry_lookup(2) [OF assms(1) e(1,3)] show ?thesis
    by (intro that [of e a]) (simp_all add: existing_snapshot_def)
qed

lemma existing_snapshot_SomeD:
  assumes "existing_snapshot d b g = Inr (Some snap)"
  shows "\<exists>acc sub. known_entry (snap_entry_id snap, b, g, acc, sub) d"
proof -
  obtain e a where "entry_by_digest d b g = Some e" "snap = snapshot_of e a True"
    using assms by (auto simp: existing_snapshot_def split: option.splits sum.splits)
  then have "e \<in> set (ledger_entries d) \<and> ent_business_id e = b \<and> ent_idempotency_key_digest e = g"
    "snap_entry_id snap = ent_id e"
    unfolding entry_by_digest_def by (auto dest: scope_one_SomeD simp: snapshot_of_def)
  then show ?thesis by (auto simp: known_entry_def entry_identity_def image_iff)
qed

lemma reserve_duplicate_known:
  assumes "reserve_duplicate d b g = (Inr snap, d')"
  shows "\<exists>acc sub. known_entry (snap_entry_id snap, b, g, acc, sub) d'"
  using assms by (auto simp: reserve_duplicate_def existing_snapshot_SomeD split: sum.splits option.splits)

lemma known_new_entry:
  "known_entry (snap_entry_id (snapshot_of (new_entry e b a' s g t) a' r), b, g, acc_id a', sub_id s)
     (add_entry (new_entry e b a' s g t) d)"
  by (simp add: known_entry_def entry_identity_def snapshot_of_def)

lemma reserve_count_known:
  assumes "reserve_count e d d1 b s a l g t = (Inr snap, d')"
  shows "\<exists>acc sub. known_entry (snap_entry_id snap, b, g, acc, sub) d'"
  using assms unfolding reserve_count_def Let_def
  by (simp split: if_splits) (use known_new_entry reserve_duplicate_known in blast)+

lemma reserve_known:
  assumes "reserve sha env i e d b key t = (Inr snap, d')"
  shows "\<exists>g acc sub. digest_ai_idempotency_key sha key = Inr g
    \<and> known_entry (snap_entry_id snap, b, g, acc, sub) d'"
proof -
  obtain g where g: "digest_ai_idempotency_key sha key = Inr g"
    using assms by (auto simp: reserve_def split: sum.splits)
  have "\<exists>acc sub. known_entry (snap_entry_id snap, b, g, acc, sub) d'"
  proof (cases "existing_snapshot d b g = Inr None")
    case False
    with assms g show ?thesis
      by (auto simp: reserve_def existing_snapshot_SomeD split: sum.splits option.splits)
  next
    case True
    with assms g have "reserve_locked i e (env d) b g t = (Inr snap, d')" by (simp add: reserve_def)
    then show ?thesis
      unfolding reserve_locked_def Let_def
      by (simp split: option.splits sum.splits if_splits prod.splits)
        (blast dest: existing_snapshot_SomeD reserve_duplicate_known reserve_count_known)+
  qed
  with g show ?thesis by blast
qed

text \<open>
  C16: an idempotency key books at most one credit: once a reservation under a key has succeeded,
  any later call with a key that strips to the same text, after any further credit operations,
  returns that same ledger entry as a replay and writes nothing.
\<close>

theorem reserve_key_replays:
  assumes "credit_inv d" and "reserve sha (fold (credit_step sha) meanwhile) i e d b key t = (Inr snap, d1)"
    and "py_strip key' = py_strip key"
  shows "\<exists>snap'. reserve sha env i' e' (run_credits sha ops d1) b key' t' = (Inr snap', run_credits sha ops d1)
    \<and> snap_entry_id snap' = snap_entry_id snap \<and> snap_replayed snap'"
proof -
  obtain g acc sub where g: "digest_ai_idempotency_key sha key = Inr g"
    and known: "known_entry (snap_entry_id snap, b, g, acc, sub) d1" using reserve_known [OF assms(2)] by blast
  have "d1 = credit_step sha (Reserve meanwhile i e b key t) d"
    using assms(2) by (simp add: fold_map comp_def)
  then have inv1: "credit_inv d1" using ledger.step_keeps [OF assms(1)] by metis
  let ?d = "run_credits sha ops d1"
  have inv: "credit_inv ?d" unfolding run_credits_def by (rule ledger.run_keeps [OF inv1])
  have "known_entry (snap_entry_id snap, b, g, acc, sub) ?d"
    unfolding run_credits_def by (rule booked.run_stable [OF inv1 known])
  with inv obtain e2 a where "ent_id e2 = snap_entry_id snap"
    "existing_snapshot ?d b g = Inr (Some (snapshot_of e2 a True))"
    by (auto simp: credit_inv_def elim: known_entry_replayed)
  moreover have "digest_ai_idempotency_key sha key' = Inr g"
    using g assms(3) by (simp add: digest_ai_idempotency_key_def)
  ultimately show ?thesis by (simp add: reserve_def snapshot_of_def)
qed

theorem reserve_key_replays_witness:
  "\<exists>snap snap' d1. reserve sample_sha (fold (credit_step sample_sha) []) 40 50 sample_db 10 ''k'' 5 = (Inr snap, d1)
     \<and> reserve sample_sha (\<lambda>d. d) 41 60 (run_credits sample_sha [Consume 10 50 6] d1) 10 '' k '' 8
         = (Inr snap', run_credits sample_sha [Consume 10 50 6] d1)
     \<and> snap_entry_id snap' = snap_entry_id snap"
proof -
  have "\<exists>snap d1. reserve sample_sha (fold (credit_step sample_sha) []) 40 50 sample_db 10 ''k'' 5 = (Inr snap, d1)"
    using sample_reserve_succeeds by (simp add: id_def)
  then obtain snap d1 where
    r: "reserve sample_sha (fold (credit_step sample_sha) []) 40 50 sample_db 10 ''k'' 5 = (Inr snap, d1)" by blast
  have "py_strip '' k '' = py_strip ''k''" by (simp add: py_strip_def py_isspace_def)
  from reserve_key_replays [OF sample_credit_inv(1) r this, of "\<lambda>d. d" 41 60 "[Consume 10 50 6]" 8] r
  show ?thesis by blast
qed

text \<open>
  Consuming a reserved entry of the tenant always succeeds and moves exactly one credit from
  reserved to consumed; consuming it again replays without a write, and releasing it then is a
  state conflict.
\<close>

theorem consume_settles_reservation:
  assumes "credit_inv d" and "e \<in> set (ledger_entries d)" and "ent_business_id e = b"
    and "ent_status e = RESERVED" and "ent_reserved_at e \<le> t"
  shows "\<exists>snap d'. consume d b (ent_id e) t = (Inr snap, d') \<and> snap_status snap = CONSUMED
    \<and> \<not> snap_replayed snap
    \<and> (\<exists>a \<in> set (credit_accounts d). acc_id a = ent_account_id e
         \<and> snap_reserved_count snap = acc_reserved_count a - 1
         \<and> snap_consumed_count snap = acc_consumed_count a + 1)
    \<and> (\<exists>snap'. consume d' b (ent_id e) t' = (Inr snap', d') \<and> snap_replayed snap'
         \<and> snap_consumed_at snap' = Some t)
    \<and> (normalize_ai_release_reason w = Inr w'
         \<longrightarrow> release d' b (ent_id e) w t' = (Inl AICreditStateConflictError, d'))"
proof -
  obtain a a' e' where a: "a \<in> set (credit_accounts d)" "acc_id a = ent_account_id e"
    and e': "e' = e\<lparr> ent_status := CONSUMED, ent_consumed_at := Some t, ent_released_at := None,
       ent_release_reason := None \<rparr>"
    and a': "a' = a\<lparr> acc_reserved_count := acc_reserved_count a - 1,
       acc_consumed_count := acc_consumed_count a + 1 \<rparr>"
    and run: "consume d b (ent_id e) t = (Inr (snapshot_of e' a' False), save_entry e' (save_account a' d))"
    using consume_reserved [OF assms] by metis
  let ?d = "save_entry e' (save_account a' d)"
  have "credit_inv ?d" using ledger.step_keeps [OF assms(1), of sha "Consume b (ent_id e) t"] run by simp
  then have ok: "credit_tables_ok ?d" by (simp add: credit_inv_def)
  have mem: "e' \<in> set (ledger_entries ?d)"
    using assms(2) e' by (auto simp: set_update_where)
  have b: "ent_business_id e' = b" "ent_id e' = ent_id e" using assms(3) e' by simp_all
  obtain a2 where "account_for_entry ?d b e' = Inr a2" using account_of_entry [OF ok mem b(1)] by metis
  with entry_lookup(1) [OF ok mem b(1)] b(2) e'
  have again: "consume ?d b (ent_id e) t' = (Inr (snapshot_of e' a2 True), ?d)"
    "normalize_ai_release_reason w = Inr w' \<longrightarrow> release ?d b (ent_id e) w t' = (Inl AICreditStateConflictError, ?d)"
    by (simp_all add: consume_def release_def)
  show ?thesis
    by (intro exI [of _ "snapshot_of e' a' False"] exI [of _ ?d])
      (use run a again e' a' in \<open>auto simp: snapshot_of_def\<close>)
qed

theorem consume_settles_reservation_witness:
  "\<exists>snap d'. consume sample_ledger 10 51 9 = (Inr snap, d') \<and> snap_status snap = CONSUMED"
proof -
  have e: "sample_reserved \<in> set (ledger_entries sample_ledger)" "ent_business_id sample_reserved = 10"
    "ent_status sample_reserved = RESERVED" "ent_reserved_at sample_reserved \<le> 9" "ent_id sample_reserved = 51"
    by (simp_all add: sample_ledger_defs)
  show ?thesis using consume_settles_reservation [OF sample_credit_inv(2) e(1-4)] unfolding e(5) by blast
qed

text \<open>
  Releasing a reserved entry of the tenant with a usable reason always succeeds and gives
  exactly one reserved credit back; releasing it again replays without a write, and consuming it
  then is a state conflict.
\<close>

theorem release_returns_credit:
  assumes "credit_inv d" and "e \<in> set (ledger_entries d)" and "ent_business_id e = b"
    and "ent_status e = RESERVED" and "ent_reserved_at e \<le> t"
    and "normalize_ai_release_reason w = Inr w'"
  shows "\<exists>snap d'. release d b (ent_id e) w t = (Inr snap, d') \<and> snap_status snap = RELEASED
    \<and> snap_release_reason snap = Some w' \<and> \<not> snap_replayed snap
    \<and> (\<exists>a \<in> set (credit_accounts d). acc_id a = ent_account_id e
         \<and> snap_reserved_count snap = acc_reserved_count a - 1
         \<and> snap_consumed_count snap = acc_consumed_count a)
    \<and> (\<exists>snap'. release d' b (ent_id e) w t' = (Inr snap', d') \<and> snap_replayed snap'
         \<and> snap_released_at snap' = Some t)
    \<and> consume d' b (ent_id e) t' = (Inl AICreditStateConflictError, d')"
proof -
  obtain a a' e' where a: "a \<in> set (credit_accounts d)" "acc_id a = ent_account_id e"
    and e': "e' = e\<lparr> ent_status := RELEASED, ent_consumed_at := None, ent_released_at := Some t,
       ent_release_reason := Some w' \<rparr>"
    and a': "a' = a\<lparr> acc_reserved_count := acc_reserved_count a - 1 \<rparr>"
    and run: "release d b (ent_id e) w t = (Inr (snapshot_of e' a' False), save_entry e' (save_account a' d))"
    using release_reserved [OF assms] by metis
  let ?d = "save_entry e' (save_account a' d)"
  have "credit_inv ?d" using ledger.step_keeps [OF assms(1), of sha "Release b (ent_id e) w t"] run by simp
  then have ok: "credit_tables_ok ?d" by (simp add: credit_inv_def)
  have mem: "e' \<in> set (ledger_entries ?d)"
    using assms(2) e' by (auto simp: set_update_where)
  have b: "ent_business_id e' = b" "ent_id e' = ent_id e" using assms(3) e' by simp_all
  obtain a2 where "account_for_entry ?d b e' = Inr a2" using account_of_entry [OF ok mem b(1)] by metis
  with entry_lookup(1) [OF ok mem b(1)] b(2) e' assms(6)
  have again: "release ?d b (ent_id e) w t' = (Inr (snapshot_of e' a2 True), ?d)"
    "consume ?d b (ent_id e) t' = (Inl AICreditStateConflictError, ?d)"
    by (simp_all add: consume_def release_def)
  show ?thesis
    by (intro exI [of _ "snapshot_of e' a' False"] exI [of _ ?d])
      (use run a again e' a' in \<open>auto simp: snapshot_of_def\<close>)
qed

theorem release_returns_credit_witness:
  "\<exists>snap d'. release sample_ledger 10 51 '' failed '' 9 = (Inr snap, d') \<and> snap_release_reason snap = Some ''failed''"
proof -
  have e: "sample_reserved \<in> set (ledger_entries sample_ledger)" "ent_business_id sample_reserved = 10"
    "ent_status sample_reserved = RESERVED" "ent_reserved_at sample_reserved \<le> 9" "ent_id sample_reserved = 51"
    by (simp_all add: sample_ledger_defs)
  have "normalize_ai_release_reason '' failed '' = Inr ''failed''"
    by (simp add: normalize_ai_release_reason_def py_strip_def py_isspace_def AI_RELEASE_REASON_MAX_LENGTH_def)
  from release_returns_credit [OF sample_credit_inv(2) e(1-4) this]
  show ?thesis unfolding e(5) by blast
qed

section \<open>Adjustments\<close>

lemma ensure_account_businesses:
  "ensure_account i d b s started ends limit = Some (a, d1) \<Longrightarrow> businesses d1 = businesses d"
  by (cases rule: ensure_account_cases) (auto simp: add_account_def)

lemma record_audit_event_fields:
  assumes "record_audit_event i now actor action target_type t b rq m d = Inr (ev, d')"
  shows "aud_id ev = i" "aud_actor_user_id ev = user_id actor" "aud_target_id ev = t" "aud_business_id ev = b"
    "normalize_admin_audit_label action = Inr (aud_action ev)" "validate_admin_audit_metadata m = Inr (aud_metadata ev)"
  using assms by (auto simp: record_audit_event_def Let_def split: if_splits sum.splits)

lemma validate_admin_audit_metadata_id:
  "validate_admin_audit_metadata (Some m) = Inr m' \<Longrightarrow> m' = m"
  by (auto simp: validate_admin_audit_metadata_def split: sum.splits if_splits)

lemma adjust_label: "normalize_admin_audit_label ''ai.credit.adjust'' = Inr ''ai.credit.adjust''"
  by code_simp

lemma replayed_adjustment_flag: "replayed_adjustment x delta reason = Inr res \<Longrightarrow> result_replayed res"
  by (auto simp: replayed_adjustment_def split: if_splits)

text \<open>The transitions of \<open>adjust\<close> that write.\<close>

lemma adjust_applied:
  assumes "adjust sha ids now actor d b delta reason key rq = (Inr res, d')" and "\<not> result_replayed res"
  obtains g s started ends base a d1 where "validate_adjust_actor actor" "delta \<noteq> 0" "\<bar>delta\<bar> \<le> 1000"
    "digest_ai_idempotency_key sha key = Inr g" "existing_adjustment d b g = None"
    "admin_current_subscription d b = Some s"
    "ensure_account (fresh_account_id ids) d b s started ends (Some base) = Some (a, d1)"
    "apply_adjustment ids now actor d d1 b s a base delta reason g rq = (Inr res, d')"
    "business_for_update d b \<noteq> None"
proof -
  have "validate_adjust_actor actor" "delta \<noteq> 0" "\<bar>delta\<bar> \<le> 1000"
    using assms(1) by (auto simp: adjust_def split: if_splits)
  moreover have "\<exists>g s started ends base a d1. digest_ai_idempotency_key sha key = Inr g \<and>
      existing_adjustment d b g = None \<and> admin_current_subscription d b = Some s \<and>
      ensure_account (fresh_account_id ids) d b s started ends (Some base) = Some (a, d1) \<and>
      apply_adjustment ids now actor d d1 b s a base delta reason g rq = (Inr res, d') \<and>
      business_for_update d b \<noteq> None"
    using assms unfolding adjust_def Let_def
    by (simp split: option.splits sum.splits bool.splits if_splits prod.splits)
      (auto dest: replayed_adjustment_flag; blast)+
  ultimately show ?thesis using that by blast
qed

text \<open>
  An applied adjustment comes from an active, verified super admin, appends one adjustment
  whose limits are the base limit plus the sum of all the account's adjustments before and after
  it, sets the account's limit to that sum (never below what is in use) and, in the same
  transaction, appends the one audit event that names the account and the actor; it books or
  changes no ledger entry.
\<close>

theorem adjust_moves_limit_and_audits:
  assumes "adjust sha ids now actor d b delta reason key rq = (Inr res, d')" and "\<not> result_replayed res"
    and "credit_inv d"
  defines "j \<equiv> result_adjustment res"
  shows "user_role actor = Role_SUPER_ADMIN \<and> user_is_active actor \<and> is_verified actor
    \<and> adj_delta j = delta \<and> delta \<noteq> 0 \<and> \<bar>delta\<bar> \<le> 1000
    \<and> credit_adjustments d' = insert_row j (credit_adjustments d)
    \<and> ledger_entries d' = ledger_entries d
    \<and> (\<exists>a \<in> set (credit_accounts d'). acc_id a = adj_account_id j \<and> acc_business_id a = b
         \<and> adj_effective_limit_after j = adj_base_limit_value j + adjustment_total d' b a
         \<and> acc_limit_value a = Some (adj_effective_limit_after j)
         \<and> result_remaining_after res = adj_effective_limit_after j - used a
         \<and> 0 \<le> result_remaining_after res
         \<and> (\<exists>ev. audit_events d' = insert_row ev (audit_events d) \<and> aud_action ev = ''ai.credit.adjust''
              \<and> aud_target_id ev = acc_id a \<and> aud_actor_user_id ev = user_id actor
              \<and> aud_metadata ev = adjustment_metadata j a))"
proof -
  obtain g s started ends base a d1 where actor: "validate_adjust_actor actor"
    and delta: "delta \<noteq> 0" "\<bar>delta\<bar> \<le> 1000"
    and en: "ensure_account (fresh_account_id ids) d b s started ends (Some base) = Some (a, d1)"
    and ap: "apply_adjustment ids now actor d d1 b s a base delta reason g rq = (Inr res, d')"
    using adjust_applied [OF assms(1,2)] by metis
  define before where "before = base + adjustment_total d1 b a"
  define a' where "a' = a\<lparr> acc_limit_value := Some (before + delta) \<rparr>"
  define d2 where "d2 = (save_account a' d1)\<lparr> credit_adjustments := insert_row j (credit_adjustments d1) \<rparr>"
  note row = ensure_account_row [OF en] and frame = ensure_account_frame(1-3) [OF en]
  have facts: "used a \<le> before + delta" "j = new_adjustment ids now actor b s a base before delta reason g rq"
    "result_remaining_after res = before + delta - used a"
    using apply_adjustment_cases [OF ap] row(2) by (auto simp: before_def j_def)
  obtain ev where ev: "record_audit_event (fresh_event_id ids) now actor ''ai.credit.adjust''
      ''ai_credit_account'' (acc_id a) (Some b) rq (Some (adjustment_metadata j a')) d2 = Inr (ev, d')"
    using apply_adjustment_cases(6) [OF ap] row(2)
    unfolding d2_def a'_def facts(2) before_def by auto
  have d': "d' = d2\<lparr> audit_events := insert_row ev (audit_events d) \<rparr>"
    using record_audit_event_db(1) [OF ev] by (simp add: d2_def save_account_def frame)
  have total: "adjustment_total d' b a' = adjustment_total d1 b a + delta"
    using row(3) by (simp add: d' d2_def adjustment_total_def a'_def facts(2) rows_where_def insert_row_def
        save_account_def)
  have "a' \<in> set (credit_accounts d')"
    using row(1) by (auto simp: d' d2_def a'_def save_account_def set_update_where)
  moreover have "acc_id a' = adj_account_id j" "acc_business_id a' = b"
    "adj_effective_limit_after j = adj_base_limit_value j + adjustment_total d' b a'"
    "acc_limit_value a' = Some (adj_effective_limit_after j)"
    "result_remaining_after res = adj_effective_limit_after j - used a'"
    "0 \<le> result_remaining_after res"
    using facts row(2) total by (simp_all add: a'_def before_def used_def)
  moreover have "audit_events d' = insert_row ev (audit_events d)" "aud_action ev = ''ai.credit.adjust''"
    "aud_target_id ev = acc_id a'" "aud_actor_user_id ev = user_id actor"
    "aud_metadata ev = adjustment_metadata j a'"
    using record_audit_event_fields [OF ev] adjust_label
    by (auto simp: d' a'_def dest!: validate_admin_audit_metadata_id)
  moreover have "credit_adjustments d' = insert_row j (credit_adjustments d)" "ledger_entries d' = ledger_entries d"
    "adj_delta j = delta"
    using facts(2) by (simp_all add: d' d2_def frame save_account_def)
  moreover have "user_role actor = Role_SUPER_ADMIN" "user_is_active actor" "is_verified actor"
    using actor by (simp_all add: validate_adjust_actor_def)
  ultimately show ?thesis using delta by blast
qed


definition sample_adjust_ids :: adjust_ids where
  "sample_adjust_ids = \<lparr> fresh_account_id = 41, fresh_adjustment_id = 70, fresh_event_id = 80 \<rparr>"

text \<open>Evaluating the adjustment of the sample database by 3 credits.\<close>

lemma sample_adjust_run:
  obtains res d' where "adjust sample_sha sample_adjust_ids 5 sample_admin sample_db 10 3 SUPPORT_CREDIT ''k'' None
       = (Inr res, d')" "\<not> result_replayed res" "result_remaining_after res = 5"
proof -
  have "map_sum id (\<lambda>r. (result_replayed r, result_remaining_after r))
     (fst (adjust sample_sha sample_adjust_ids 5 sample_admin sample_db 10 3 SUPPORT_CREDIT ''k'' None))
     = Inr (False, 5)" (is "map_sum id _ (fst ?r) = _")
    by code_simp
  then show ?thesis by (cases ?r; cases "fst ?r") (auto intro: that)
qed

theorem adjust_moves_limit_and_audits_witness:
  "\<exists>res d'. adjust sample_sha sample_adjust_ids 5 sample_admin sample_db 10 3 SUPPORT_CREDIT ''k'' None
       = (Inr res, d') \<and> adj_delta (result_adjustment res) = 3"
proof -
  obtain res d' where
    r: "adjust sample_sha sample_adjust_ids 5 sample_admin sample_db 10 3 SUPPORT_CREDIT ''k'' None = (Inr res, d')"
    "\<not> result_replayed res" by (rule sample_adjust_run)
  from adjust_moves_limit_and_audits [OF r sample_credit_inv(1)] r show ?thesis by blast
qed

text \<open>
  An adjustment key is applied at most once: repeating the call with the same key, change and
  reason returns the recorded adjustment and its remaining credit as a replay, with another change
  or reason it is a conflict, and neither writes anything.
\<close>

theorem adjust_key_replays:
  assumes "adjust sha ids now actor d b delta reason key rq = (Inr res, d1)" and "\<not> result_replayed res"
    and "credit_inv d" and "py_strip key' = py_strip key"
    and "validate_adjust_actor actor'" and "delta' \<noteq> 0" and "\<bar>delta'\<bar> \<le> 1000"
  shows "adjust sha ids' now' actor' d1 b delta' reason' key' rq' =
    (if delta' = delta \<and> reason' = reason
     then (Inr (res\<lparr> result_replayed := True \<rparr>), d1)
     else (Inl AdminAICreditIdempotencyConflictError, d1))"
proof -
  obtain g s started ends base a d1' where g: "digest_ai_idempotency_key sha key = Inr g"
    and none: "existing_adjustment d b g = None"
    and en: "ensure_account (fresh_account_id ids) d b s started ends (Some base) = Some (a, d1')"
    and ap: "apply_adjustment ids now actor d d1' b s a base delta reason g rq = (Inr res, d1)"
    and biz: "business_for_update d b \<noteq> None"
    using adjust_applied [OF assms(1,2)] by metis
  define before where "before = base + adjustment_total d1' (acc_business_id a) a"
  define j where "j = new_adjustment ids now actor b s a base before delta reason g rq"
  have res: "res = \<lparr> result_adjustment = j, result_remaining_after = before + delta - used a,
       result_replayed = False \<rparr>"
    using apply_adjustment_cases(5) [OF ap] by (auto simp: j_def before_def)
  obtain ev where "record_audit_event (fresh_event_id ids) now actor ''ai.credit.adjust''
      ''ai_credit_account'' (acc_id a) (Some b) rq
      (Some (adjustment_metadata j (a\<lparr> acc_limit_value := Some (before + delta) \<rparr>)))
      ((save_account (a\<lparr> acc_limit_value := Some (before + delta) \<rparr>) d1')
        \<lparr> credit_adjustments := insert_row j (credit_adjustments d1') \<rparr>) = Inr (ev, d1)"
    using apply_adjustment_cases(6) [OF ap] unfolding j_def before_def by auto
  note d1 = record_audit_event_db(1) [OF this]
  have biz1: "business_for_update d1 b = business_for_update d b"
    using ensure_account_businesses [OF en] by (simp add: d1 business_for_update_def save_account_def)
  have hit: "existing_adjustment d1 b g = Some j"
    using none ensure_account_frame(2) [OF en]
    by (simp add: d1 existing_adjustment_def row_where_insert_row j_def)
  have "digest_ai_idempotency_key sha key' = Inr g"
    using g assms(4) by (simp add: digest_ai_idempotency_key_def)
  then show ?thesis
    using biz biz1 hit assms(5-7)
    by (auto simp: adjust_def replayed_adjustment_def res j_def new_adjustment_def used_def)
qed

theorem adjust_key_replays_witness:
  "\<exists>res d1. adjust sample_sha sample_adjust_ids 5 sample_admin sample_db 10 3 SUPPORT_CREDIT ''k'' None = (Inr res, d1)
     \<and> adjust sample_sha sample_adjust_ids 6 sample_admin d1 10 4 SUPPORT_CREDIT '' k'' None
         = (Inl AdminAICreditIdempotencyConflictError, d1)"
proof -
  obtain res d1 where
    r: "adjust sample_sha sample_adjust_ids 5 sample_admin sample_db 10 3 SUPPORT_CREDIT ''k'' None = (Inr res, d1)"
    "\<not> result_replayed res" by (rule sample_adjust_run)
  have "py_strip '' k'' = py_strip ''k''" by (simp add: py_strip_def py_isspace_def)
  moreover have "validate_adjust_actor sample_admin" by (simp add: validate_adjust_actor_def sample_defs)
  ultimately show ?thesis
    using adjust_key_replays [OF r sample_credit_inv(1), of "'' k''" sample_admin 4
        sample_adjust_ids 6 SUPPORT_CREDIT None] r(1) by simp
qed
end
