(* ===== verification/Processing.thy ===== *)
theory Processing
  imports Sample Contracts
begin

text \<open>
  \<open>app/services/processing.py\<close>: the durable processing jobs, their leases and attempts.  A job is
  claimed with a lease token by one worker, and retried, failed or completed by the holder of the
  token; a job whose lease ran out can be claimed again.  Every operation locks the row of the job
  and commits once; the commit checks the constraints of the job table.
\<close>

definition REPORT_PROCESSING_LEASE_DURATION :: time where
  "REPORT_PROCESSING_LEASE_DURATION = minutes 15"
definition REPORT_PROCESSING_REDISPATCH_INTERVAL :: time where
  "REPORT_PROCESSING_REDISPATCH_INTERVAL = minutes 5"
definition REPORT_PROCESSING_ATTEMPT_LIMIT_ERROR :: string where
  "REPORT_PROCESSING_ATTEMPT_LIMIT_ERROR = ''attempt_limit_exceeded''"
definition REPORT_PROCESSING_SOURCE_INVALID_ERROR :: string where
  "REPORT_PROCESSING_SOURCE_INVALID_ERROR = ''source_state_invalid''"

text \<open>The exceptions: a conflict, an invalid argument (\<open>ValueError\<close>), a failing dispatch, and the
  \<open>SQLAlchemyError\<close> of a commit.\<close>

datatype processing_error = ReportProcessingConflictError | ProcessingValueError
  | ReportProcessingDispatchError | ProcessingCommitError

record processing_claim =
  claim_job_id :: uuid
  claim_business_id :: uuid
  claim_report_upload_id :: uuid
  claim_lease_token :: uuid
  claim_attempt_count :: int
  claim_max_attempts :: int
  claim_storage_bucket :: string
  claim_storage_key :: string
  claim_storage_version_id :: string
  claim_source_etag :: string
  claim_original_filename :: string
  claim_file_extension :: string
  claim_content_type :: string
  claim_expected_size_bytes :: int

record processing_output =
  out_storage_bucket :: string
  out_normalized_storage_key :: string
  out_normalized_storage_version_id :: string
  out_normalized_etag :: string
  out_normalized_size_bytes :: int
  out_profile_storage_key :: string
  out_profile_storage_version_id :: string
  out_profile_etag :: string
  out_record_count :: int
  out_sheet_count :: int

definition validate_processing_error_code :: "string \<Rightarrow> bool" where
  "validate_processing_error_code code \<longleftrightarrow> safe_error_code code"

definition validate_output :: "processing_output \<Rightarrow> bool" where
  "validate_output out \<longleftrightarrow>
     \<not> (\<exists>s \<in> set [out_storage_bucket out, out_normalized_storage_key out,
           out_normalized_storage_version_id out, out_normalized_etag out,
           out_profile_storage_key out, out_profile_storage_version_id out, out_profile_etag out].
         py_strip s = [])
   \<and> (3 \<le> length (out_storage_bucket out) \<and> length (out_storage_bucket out) \<le> 63)
   \<and> \<not> out_normalized_size_bytes out \<le> 0
   \<and> \<not> (out_record_count out < 0 \<or> out_sheet_count out \<le> 0)"

definition terminal_failure :: "string \<Rightarrow> time \<Rightarrow> report_processing_job \<Rightarrow> report_processing_job" where
  "terminal_failure code now j =
     j\<lparr> job_attempt_count := (if job_attempt_count j = 0 then 1 else job_attempt_count j),
        started_at := (case started_at j of None \<Rightarrow> Some now | Some t \<Rightarrow> Some t),
        job_status := FAILED, available_at := None, lease_token := None, lease_expires_at := None,
        error_code := Some code, finished_at := Some now \<rparr>"

definition job_by_id :: "db \<Rightarrow> uuid \<Rightarrow> report_processing_job option" where
  "job_by_id d i = row_where (\<lambda>j. job_id j = i) (processing_jobs d)"

definition save_job :: "report_processing_job \<Rightarrow> db \<Rightarrow> db" where
  "save_job j d = d\<lparr> processing_jobs :=
     update_where (\<lambda>x. job_id x = job_id j) (\<lambda>_. j) (processing_jobs d) \<rparr>"

definition commit_job :: "'a \<Rightarrow> report_processing_job \<Rightarrow> db \<Rightarrow> (processing_error + 'a) \<times> db" where
  "commit_job result j d =
     (if job_table_ok (save_job j d) then (Inr result, save_job j d) else (Inl ProcessingCommitError, d))"

section \<open>Creating and dispatching jobs\<close>

text \<open>A new job takes its identifier and the instants of \<open>created_at\<close> and \<open>available_at\<close> from the
  defaults of its columns.\<close>

definition new_job :: "uuid \<times> time \<times> time \<Rightarrow> uuid \<Rightarrow> report_upload \<Rightarrow> report_processing_job" where
  "new_job defaults b u =
     \<lparr> job_id = fst defaults, job_business_id = b, job_created_at = fst (snd defaults),
       report_upload_id = up_id u,
       source_storage_version_id = (case storage_version_id u of None \<Rightarrow> [] | Some v \<Rightarrow> v),
       source_etag = (case etag u of None \<Rightarrow> [] | Some e \<Rightarrow> e),
       job_status = QUEUED, job_attempt_count = 0,
       max_attempts = DEFAULT_REPORT_PROCESSING_MAX_ATTEMPTS, dispatch_attempt_count = 0,
       available_at = Some (snd (snd defaults)), last_dispatched_at = None, started_at = None,
       lease_token = None, lease_expires_at = None, finished_at = None, error_code = None,
       result_storage_bucket = None, normalized_storage_key = None,
       normalized_storage_version_id = None, normalized_etag = None, normalized_size_bytes = None,
       profile_storage_key = None, profile_storage_version_id = None, profile_etag = None,
       record_count = None, sheet_count = None \<rparr>"

text \<open>Python treats \<open>None\<close> and the empty string alike in \<open>not value\<close>.\<close>

definition falsy :: "string option \<Rightarrow> bool" where
  "falsy x = (case x of None \<Rightarrow> True | Some s \<Rightarrow> s = [])"

fun jobs_for_uploads ::
  "(nat \<Rightarrow> uuid \<times> time \<times> time) \<Rightarrow> uuid \<Rightarrow> report_processing_job list \<Rightarrow> nat \<Rightarrow> report_upload list
   \<Rightarrow> report_processing_job list \<Rightarrow> report_processing_job list
   \<Rightarrow> processing_error + (report_processing_job list \<times> report_processing_job list)" where
  "jobs_for_uploads defaults b existing n [] jobs added = Inr (jobs, added)"
| "jobs_for_uploads defaults b existing n (u # us) jobs added =
     (case row_where (\<lambda>j. report_upload_id j = up_id u) existing of
        Some j \<Rightarrow>
          if Some (source_storage_version_id j) \<noteq> storage_version_id u \<or> Some (source_etag j) \<noteq> etag u
          then Inl ReportProcessingConflictError
          else jobs_for_uploads defaults b existing (n + 1) us (jobs @ [j]) added
      | None \<Rightarrow>
          let j = new_job (defaults n) b u
          in jobs_for_uploads defaults b existing (n + 1) us (jobs @ [j]) (added @ [j]))"

definition ensure_jobs_for_uploads ::
  "(nat \<Rightarrow> uuid \<times> time \<times> time) \<Rightarrow> uuid \<Rightarrow> report_upload list \<Rightarrow> db
   \<Rightarrow> (processing_error + report_processing_job list) \<times> db" where
  "ensure_jobs_for_uploads defaults b us d =
     (let verified = filter (\<lambda>u. up_status u = UPLOADED) us
      in if verified = [] then (Inr [], d)
         else if \<exists>u \<in> set verified. up_business_id u \<noteq> b then (Inl ReportProcessingConflictError, d)
         else if \<exists>u \<in> set verified. falsy (storage_version_id u) \<or> falsy (etag u)
         then (Inl ReportProcessingConflictError, d)
         else
           let existing = scope_select job_business_id b
                 (\<lambda>j. report_upload_id j \<in> set (map up_id verified)) (processing_jobs d)
           in case jobs_for_uploads defaults b existing 0 verified [] [] of
                Inl e \<Rightarrow> (Inl e, d)
              | Inr (jobs, added) \<Rightarrow>
                  let d' = d\<lparr> processing_jobs := processing_jobs d @ added \<rparr>
                  in if job_table_ok d' then (Inr jobs, d')
                     else (Inl ReportProcessingConflictError, d))"

definition job_is_due :: "time \<Rightarrow> report_processing_job option \<Rightarrow> bool" where
  "job_is_due dispatch_time found =
     (case found of None \<Rightarrow> False
      | Some j \<Rightarrow> job_status j = QUEUED
          \<and> (case available_at j of None \<Rightarrow> False | Some t \<Rightarrow> t \<le> dispatch_time)
          \<and> (case last_dispatched_at j of None \<Rightarrow> True
             | Some t \<Rightarrow> t \<le> dispatch_time - REPORT_PROCESSING_REDISPATCH_INTERVAL))"

text \<open>
  \<open>dispatch_due_jobs\<close>: the jobs that are due are published, one after the other, each followed by a
  transaction that counts the dispatch.  \<open>dispatch\<close> is the call of the broker: \<open>None\<close> when it raises,
  otherwise the database that the transactions committed meanwhile leave; \<open>recorded i\<close> is the
  instant recorded for job \<open>i\<close>.
\<close>

definition dict_fromkeys :: "'a list \<Rightarrow> 'a list" where
  "dict_fromkeys xs = rev (remdups (rev xs))"

definition record_dispatch :: "time \<Rightarrow> report_processing_job \<Rightarrow> report_processing_job" where
  "record_dispatch t j =
     j\<lparr> dispatch_attempt_count := dispatch_attempt_count j + 1, last_dispatched_at := Some t \<rparr>"

fun dispatch_jobs ::
  "(uuid \<Rightarrow> db \<Rightarrow> db option) \<Rightarrow> (uuid \<Rightarrow> time) \<Rightarrow> time \<Rightarrow> uuid list \<Rightarrow> nat \<Rightarrow> db
   \<Rightarrow> (processing_error + nat) \<times> db" where
  "dispatch_jobs dispatch recorded now [] n d = (Inr n, d)"
| "dispatch_jobs dispatch recorded now (i # is) n d =
     (if \<not> job_is_due now (job_by_id d i) then dispatch_jobs dispatch recorded now is n d
      else case dispatch i d of
        None \<Rightarrow> (Inl ReportProcessingDispatchError, d)
      | Some d1 \<Rightarrow>
          (case job_by_id d1 i of
             None \<Rightarrow> dispatch_jobs dispatch recorded now is (n + 1) d1
           | Some j \<Rightarrow>
               let d2 = save_job (record_dispatch (recorded i) j) d1
               in if job_table_ok d2 then dispatch_jobs dispatch recorded now is (n + 1) d2
                  else (Inl ReportProcessingDispatchError, d1)))"

definition dispatch_due_jobs ::
  "(uuid \<Rightarrow> db \<Rightarrow> db option) \<Rightarrow> (uuid \<Rightarrow> time) \<Rightarrow> time \<Rightarrow> uuid list \<Rightarrow> db
   \<Rightarrow> (processing_error + nat) \<times> db" where
  "dispatch_due_jobs dispatch recorded now ids d =
     dispatch_jobs dispatch recorded now (dict_fromkeys ids) 0 d"

section \<open>Claiming\<close>

definition claim_source_ok :: "report_processing_job \<Rightarrow> report_upload option \<Rightarrow> bool" where
  "claim_source_ok j found =
     (case found of None \<Rightarrow> False
      | Some u \<Rightarrow> up_status u = UPLOADED
          \<and> storage_version_id u = Some (source_storage_version_id j)
          \<and> etag u = Some (source_etag j) \<and> \<not> is_null (actual_size_bytes u))"

definition claimed :: "uuid \<Rightarrow> time \<Rightarrow> time \<Rightarrow> report_processing_job \<Rightarrow> report_processing_job" where
  "claimed token now lease j =
     j\<lparr> job_status := PROCESSING, job_attempt_count := job_attempt_count j + 1,
        available_at := None,
        started_at := (case started_at j of None \<Rightarrow> Some now | Some t \<Rightarrow> Some t),
        lease_token := Some token, lease_expires_at := Some (now + lease),
        finished_at := None, error_code := None \<rparr>"

definition claim_of :: "uuid \<Rightarrow> report_processing_job \<Rightarrow> report_upload \<Rightarrow> processing_claim" where
  "claim_of token j u =
     \<lparr> claim_job_id = job_id j, claim_business_id = job_business_id j,
       claim_report_upload_id = report_upload_id j, claim_lease_token = token,
       claim_attempt_count = job_attempt_count j, claim_max_attempts = max_attempts j,
       claim_storage_bucket = storage_bucket u, claim_storage_key = storage_key u,
       claim_storage_version_id = source_storage_version_id j, claim_source_etag = source_etag j,
       claim_original_filename = original_filename u, claim_file_extension = file_extension u,
       claim_content_type = content_type u,
       claim_expected_size_bytes = (case actual_size_bytes u of None \<Rightarrow> 0 | Some n \<Rightarrow> n) \<rparr>"

text \<open>The reasons for which \<open>claim_job\<close> leaves the job alone.\<close>

definition claim_blocked :: "time \<Rightarrow> report_processing_job \<Rightarrow> bool" where
  "claim_blocked now j \<longleftrightarrow>
     job_status j \<in> {COMPLETED, FAILED}
   \<or> (job_status j = PROCESSING
      \<and> (case lease_expires_at j of None \<Rightarrow> False | Some t \<Rightarrow> now < t))
   \<or> (job_status j = QUEUED \<and> (case available_at j of None \<Rightarrow> False | Some t \<Rightarrow> now < t))"

definition claim_job ::
  "uuid \<Rightarrow> time \<Rightarrow> time \<Rightarrow> uuid \<Rightarrow> db \<Rightarrow> (processing_error + processing_claim option) \<times> db" where
  "claim_job token now lease i d =
     (if lease \<le> 0 then (Inl ProcessingValueError, d)
      else case job_by_id d i of
        None \<Rightarrow> (Inr None, d)
      | Some j \<Rightarrow>
          if claim_blocked now j then (Inr None, d)
          else if max_attempts j \<le> job_attempt_count j
          then commit_job None (terminal_failure REPORT_PROCESSING_ATTEMPT_LIMIT_ERROR now j) d
          else
            let found = row_where (\<lambda>u. up_id u = report_upload_id j
                  \<and> up_business_id u = job_business_id j) (uploads d)
            in case found of
                 None \<Rightarrow> commit_job None (terminal_failure REPORT_PROCESSING_SOURCE_INVALID_ERROR now j) d
               | Some u \<Rightarrow>
                   if \<not> claim_source_ok j found
                   then commit_job None (terminal_failure REPORT_PROCESSING_SOURCE_INVALID_ERROR now j) d
                   else commit_job (Some (claim_of token (claimed token now lease j) u))
                          (claimed token now lease j) d)"

definition claim_retry_delay :: "time \<Rightarrow> uuid \<Rightarrow> db \<Rightarrow> time option" where
  "claim_retry_delay now i d =
     (case job_by_id d i of
        None \<Rightarrow> None
      | Some j \<Rightarrow>
          (case job_status j of
             QUEUED \<Rightarrow> Some (max ((case available_at j of None \<Rightarrow> now | Some t \<Rightarrow> t) - now) (seconds 1))
           | PROCESSING \<Rightarrow>
               Some (max ((case lease_expires_at j of None \<Rightarrow> now | Some t \<Rightarrow> t) - now) (seconds 1))
           | _ \<Rightarrow> None))"

section \<open>Transitions of the lease holder\<close>

definition locked_processing_job :: "uuid \<Rightarrow> uuid \<Rightarrow> db \<Rightarrow> report_processing_job option" where
  "locked_processing_job i token d =
     (case job_by_id d i of
        None \<Rightarrow> None
      | Some j \<Rightarrow> if job_status j \<noteq> PROCESSING \<or> lease_token j \<noteq> Some token then None else Some j)"

definition requeued :: "string \<Rightarrow> time \<Rightarrow> report_processing_job \<Rightarrow> report_processing_job" where
  "requeued code at j =
     j\<lparr> job_status := QUEUED, available_at := Some at, lease_token := None,
        lease_expires_at := None, error_code := Some code \<rparr>"

definition retry_job ::
  "uuid \<Rightarrow> uuid \<Rightarrow> string \<Rightarrow> time \<Rightarrow> time \<Rightarrow> db \<Rightarrow> (processing_error + bool) \<times> db" where
  "retry_job i token code delay now d =
     (if \<not> validate_processing_error_code code then (Inl ProcessingValueError, d)
      else if delay < 0 then (Inl ProcessingValueError, d)
      else case locked_processing_job i token d of
        None \<Rightarrow> (Inr False, d)
      | Some j \<Rightarrow>
          if max_attempts j \<le> job_attempt_count j then commit_job True (terminal_failure code now j) d
          else commit_job True (requeued code (now + delay) j) d)"

definition fail_job ::
  "uuid \<Rightarrow> uuid \<Rightarrow> string \<Rightarrow> time \<Rightarrow> db \<Rightarrow> (processing_error + bool) \<times> db" where
  "fail_job i token code now d =
     (if \<not> validate_processing_error_code code then (Inl ProcessingValueError, d)
      else case locked_processing_job i token d of
        None \<Rightarrow> (Inr False, d)
      | Some j \<Rightarrow> commit_job True (terminal_failure code now j) d)"

definition completed :: "processing_output \<Rightarrow> time \<Rightarrow> report_processing_job \<Rightarrow> report_processing_job" where
  "completed out now j =
     j\<lparr> job_status := COMPLETED, available_at := None, lease_token := None,
        lease_expires_at := None, finished_at := Some now, error_code := None,
        result_storage_bucket := Some (out_storage_bucket out),
        normalized_storage_key := Some (out_normalized_storage_key out),
        normalized_storage_version_id := Some (out_normalized_storage_version_id out),
        normalized_etag := Some (out_normalized_etag out),
        normalized_size_bytes := Some (out_normalized_size_bytes out),
        profile_storage_key := Some (out_profile_storage_key out),
        profile_storage_version_id := Some (out_profile_storage_version_id out),
        profile_etag := Some (out_profile_etag out),
        record_count := Some (out_record_count out), sheet_count := Some (out_sheet_count out) \<rparr>"

definition complete_job ::
  "uuid \<Rightarrow> uuid \<Rightarrow> processing_output \<Rightarrow> time \<Rightarrow> db \<Rightarrow> (processing_error + bool) \<times> db" where
  "complete_job i token out now d =
     (if \<not> validate_output out then (Inl ProcessingValueError, d)
      else case locked_processing_job i token d of
        None \<Rightarrow> (Inr False, d)
      | Some j \<Rightarrow> commit_job True (completed out now j) d)"

end
