(* ===== verification/Processing_Rows.thy ===== *)
theory Processing_Rows
  imports Processing
begin

text \<open>
  What the transitions of a processing job do to its row and to the job table: each keeps the CHECK
  constraints, the identity of the job and the uniqueness of the table's keys.
\<close>

section \<open>Each new row satisfies the constraints\<close>

text \<open>A clock reading is usable for a job when it does not lie before the job's creation or start.\<close>

definition clock_ok :: "time \<Rightarrow> report_processing_job \<Rightarrow> bool" where
  "clock_ok now j \<longleftrightarrow> job_created_at j \<le> now \<and> null_or (\<lambda>t. t \<le> now) (started_at j)"

definition live_job :: "report_processing_job \<Rightarrow> bool" where
  "live_job j \<longleftrightarrow> job_status j = QUEUED \<or> job_status j = PROCESSING"

lemmas job_check_defs = report_processing_job_checks_def job_attempts_check_def job_dispatch_check_def
  job_status_fields_check_def job_output_fields_check_def job_output_values_check_def
  job_timestamps_check_def

lemma safe_error_code_nonempty: "safe_error_code s \<Longrightarrow> s \<noteq> []"
  by (cases s) (simp_all add: safe_error_code_def)

lemma terminal_failure_checks:
  assumes "report_processing_job_checks j" and "live_job j" and "clock_ok now j"
  shows "report_processing_job_checks (terminal_failure code now j)"
  using assms
  by (cases "job_status j"; cases "started_at j")
    (auto simp: job_check_defs terminal_failure_def clock_ok_def live_job_def between_def)

lemma claimed_checks:
  assumes "report_processing_job_checks j" and "live_job j" and "clock_ok now j"
    and "job_attempt_count j < max_attempts j" and "0 < lease"
  shows "report_processing_job_checks (claimed token now lease j)"
  using assms
  by (cases "job_status j"; cases "started_at j")
    (auto simp: job_check_defs claimed_def clock_ok_def live_job_def between_def)

lemma requeued_checks:
  assumes "report_processing_job_checks j" and "job_status j = PROCESSING" and "job_created_at j \<le> at"
  shows "report_processing_job_checks (requeued code at j)"
  using assms
  by (cases "job_status j"; cases "started_at j")
    (auto simp: job_check_defs requeued_def between_def)

lemma completed_checks:
  assumes "report_processing_job_checks j" and "job_status j = PROCESSING" and "clock_ok now j"
    and "validate_output out"
  shows "report_processing_job_checks (completed out now j)"
  using assms
  by (cases "job_status j"; cases "started_at j")
    (auto simp: job_check_defs completed_def clock_ok_def between_def validate_output_def py_strip_def)

lemma record_dispatch_checks:
  assumes "report_processing_job_checks j" and "job_created_at j \<le> t"
  shows "report_processing_job_checks (record_dispatch t j)"
  using assms by (auto simp: job_check_defs record_dispatch_def)

section \<open>Rows of the job table\<close>

lemma job_table_okD:
  assumes "job_table_ok d"
  shows "unique_on job_id (processing_jobs d)" "j \<in> set (processing_jobs d) \<Longrightarrow> report_processing_job_checks j"
  using assms by (auto simp: job_table_ok_def list_all_iff)

lemma job_by_id_SomeD: "job_by_id d i = Some j \<Longrightarrow> j \<in> set (processing_jobs d) \<and> job_id j = i"
  unfolding job_by_id_def by (drule row_where_SomeD) simp

lemma job_by_id_mem: "job_table_ok d \<Longrightarrow> j \<in> set (processing_jobs d) \<Longrightarrow> job_by_id d (job_id j) = Some j"
  unfolding job_by_id_def by (rule row_where_unique [OF job_table_okD(1)])

text \<open>The identity of a job, which no transition changes.\<close>

definition job_identity :: "report_processing_job \<Rightarrow> uuid \<times> uuid \<times> uuid \<times> time \<times> string \<times> string \<times> int" where
  "job_identity j = (job_id j, job_business_id j, report_upload_id j, job_created_at j,
     source_storage_version_id j, source_etag j, max_attempts j)"

lemma job_identity_steps [simp]:
  "job_identity (terminal_failure code now j) = job_identity j"
  "job_identity (claimed token now lease j) = job_identity j"
  "job_identity (requeued code now j) = job_identity j"
  "job_identity (completed out now j) = job_identity j"
  "job_identity (record_dispatch now j) = job_identity j"
  by (simp_all add: job_identity_def terminal_failure_def claimed_def requeued_def completed_def
      record_dispatch_def)

lemma job_identityD:
  assumes "job_identity j' = job_identity j"
  shows "job_id j' = job_id j" "job_business_id j' = job_business_id j"
    "report_upload_id j' = report_upload_id j" "max_attempts j' = max_attempts j"
    "job_created_at j' = job_created_at j"
  using assms by (auto simp: job_identity_def)

lemma save_job_sel [simp]:
  "processing_jobs (save_job j d) = update_where (\<lambda>x. job_id x = job_id j) (\<lambda>_. j) (processing_jobs d)"
  "uploads (save_job j d) = uploads d"
  by (simp_all add: save_job_def)

lemma set_save_job:
  assumes "job_table_ok d" and "j \<in> set (processing_jobs d)" and "job_id j' = job_id j"
  shows "set (processing_jobs (save_job j' d)) = insert j' {x \<in> set (processing_jobs d). job_id x \<noteq> job_id j}"
  using assms by (auto simp: set_update_where)

lemma job_by_id_save_job:
  assumes "j \<in> set (processing_jobs d)" and "job_id j' = job_id j"
  shows "job_by_id (save_job j' d) i = (if i = job_id j then Some j' else job_by_id d i)"
proof (cases "i = job_id j")
  case True
  obtain x where "job_by_id d i = Some x"
    using assms(1) True by (cases "job_by_id d i") (auto simp: job_by_id_def row_where_None_iff)
  with True assms(2) show ?thesis
    unfolding job_by_id_def save_job_sel
    by (subst row_where_update_where_hit [of "\<lambda>x. job_id x = job_id j'" _ "\<lambda>_. j'" _ x])
      (auto dest: row_where_SomeD)
next
  case False
  then show ?thesis
    using assms(2) unfolding job_by_id_def save_job_sel
    by (subst row_where_update_where_frame) auto
qed

lemma unique_nullable_simps [simp]:
  "unique_nullable f []"
  "unique_nullable f (x # xs) \<longleftrightarrow> unique_nullable f xs \<and> (f x = None \<or> f x \<notin> f ` set xs)"
  by (cases "f x"; auto simp: unique_nullable_def is_null_def)+

lemma unique_nullable_save:
  assumes "unique_on key t" and "j \<in> set t" and "key j' = key j"
    and "unique_nullable f t" and "f j' = f j \<or> (\<forall>x \<in> set t. f x \<noteq> f j') \<or> f j' = None"
  shows "unique_nullable f (update_where (\<lambda>x. key x = key j') (\<lambda>_. j') t)"
  using assms
proof (induction t)
  case Nil
  then show ?case by simp
next
  case (Cons x xs)
  show ?case
  proof (cases "x = j")
    case True
    with Cons.prems have "key j \<notin> key ` set xs" by (auto simp: unique_on_def)
    then have "\<And>y. y \<in> set xs \<Longrightarrow> key y \<noteq> key j" by (metis imageI)
    then have "update_where (\<lambda>x. key x = key j') (\<lambda>_. j') xs = xs"
      using Cons.prems(3) by (intro update_where_none) auto
    with True Cons.prems show ?thesis by auto
  next
    case False
    with Cons.prems have xs: "j \<in> set xs" "unique_on key xs" "key x \<noteq> key j" "unique_nullable f xs"
      by (auto simp: unique_on_def)
    with Cons have IH: "unique_nullable f (update_where (\<lambda>x. key x = key j') (\<lambda>_. j') xs)" by auto
    have "f x = None \<or> f x \<notin> f ` set (update_where (\<lambda>x. key x = key j') (\<lambda>_. j') xs)"
      using Cons.prems(4,5) xs(1) by (auto simp: set_update_where)
    with IH xs(3) Cons.prems(3) show ?thesis by simp
  qed
qed

lemma job_table_ok_save_job:
  assumes ok: "job_table_ok d" and j: "j \<in> set (processing_jobs d)"
    and same: "job_identity j' = job_identity j" and check: "report_processing_job_checks j'"
    and keys: "normalized_storage_key j' = normalized_storage_key j
      \<or> (\<forall>x \<in> set (processing_jobs d). normalized_storage_key x \<noteq> normalized_storage_key j')"
      "profile_storage_key j' = profile_storage_key j
      \<or> (\<forall>x \<in> set (processing_jobs d). profile_storage_key x \<noteq> profile_storage_key j')"
  shows "job_table_ok (save_job j' d)"
proof -
  note eq = job_identityD [OF same]
  note uniq = job_table_okD(1) [OF ok]
  have same_row: "x = j" if "x \<in> set (processing_jobs d)" "job_id x = job_id j" for x
    using unique_onD [OF uniq that(1) j that(2)] .
  have keep: "map f (processing_jobs (save_job j' d)) = map f (processing_jobs d)"
    if "f j' = f j" for f :: "report_processing_job \<Rightarrow> 'k"
    using that eq(1) by (auto simp: update_where_def dest!: same_row)
  have rows: "list_all report_processing_job_checks (processing_jobs (save_job j' d))"
    "\<forall>x \<in> set (processing_jobs (save_job j' d)). \<exists>u \<in> set (uploads d).
          up_id u = report_upload_id x \<and> up_business_id u = job_business_id x"
    using ok check j eq unfolding list_all_iff set_save_job [OF ok j eq(1)]
    by (auto simp: job_table_ok_def list_all_iff)
  have "unique_nullable normalized_storage_key (processing_jobs (save_job j' d))"
    "unique_nullable profile_storage_key (processing_jobs (save_job j' d))"
    unfolding save_job_sel using ok keys
    by (auto intro!: unique_nullable_save [OF uniq j eq(1)] simp: job_table_ok_def)
  with rows ok show ?thesis
    unfolding job_table_ok_def unique_on_def keep [of job_id, OF eq(1)] keep [of report_upload_id, OF eq(3)]
    by simp
qed

end
