(* ===== verification/Processing_System.thy ===== *)
theory Processing_System
  imports Processing_Rows
begin

text \<open>
  The transactions on the job table as one transition function, the steps of a single job they
  refine, and what every transaction keeps of a row.
\<close>

section \<open>The life of a job\<close>

inductive job_step :: "report_processing_job \<Rightarrow> report_processing_job \<Rightarrow> bool" where
  claim: "\<not> claim_blocked now j \<Longrightarrow> job_attempt_count j < max_attempts j \<Longrightarrow> 0 < lease \<Longrightarrow>
    job_step j (claimed token now lease j)"
| refuse: "\<not> claim_blocked now j \<Longrightarrow> job_step j (terminal_failure code now j)"
| requeue: "job_status j = PROCESSING \<Longrightarrow> job_attempt_count j < max_attempts j \<Longrightarrow>
    job_step j (requeued code at j)"
| fail: "job_status j = PROCESSING \<Longrightarrow> job_step j (terminal_failure code now j)"
| complete: "job_status j = PROCESSING \<Longrightarrow> validate_output out \<Longrightarrow> job_step j (completed out now j)"
| dispatch: "job_step j (record_dispatch now j)"

inductive_cases job_step_cases: "job_step j j'"

lemma job_step_identity: "job_step j j' \<Longrightarrow> job_identity j' = job_identity j"
  by (erule job_step_cases) simp_all

text \<open>The transactions on the job table.\<close>

datatype job_op =
    Claim_Job uuid time time uuid
  | Retry_Job uuid uuid string time time
  | Fail_Job uuid uuid string time
  | Complete_Job uuid uuid processing_output time
  | Record_Dispatch uuid time
  | Ensure_Jobs "nat \<Rightarrow> uuid \<times> time \<times> time" uuid "report_upload list"

definition record_dispatch_of :: "uuid \<Rightarrow> time \<Rightarrow> db \<Rightarrow> db" where
  "record_dispatch_of i t d =
     (case job_by_id d i of
        None \<Rightarrow> d
      | Some j \<Rightarrow> if job_table_ok (save_job (record_dispatch t j) d) then save_job (record_dispatch t j) d else d)"

fun job_op_step :: "job_op \<Rightarrow> db \<Rightarrow> db" where
  "job_op_step (Claim_Job token now lease i) d = snd (claim_job token now lease i d)"
| "job_op_step (Retry_Job i token code delay now) d = snd (retry_job i token code delay now d)"
| "job_op_step (Fail_Job i token code now) d = snd (fail_job i token code now d)"
| "job_op_step (Complete_Job i token out now) d = snd (complete_job i token out now d)"
| "job_op_step (Record_Dispatch i t) d = record_dispatch_of i t d"
| "job_op_step (Ensure_Jobs defaults b us) d = snd (ensure_jobs_for_uploads defaults b us d)"

definition run_jobs :: "job_op list \<Rightarrow> db \<Rightarrow> db" where
  "run_jobs xs d = fold job_op_step xs d"

text \<open>A transaction row_write one row by a step of its life, or appends new rows, or writes nothing.\<close>

definition row_write :: "uuid \<Rightarrow> db \<Rightarrow> db \<Rightarrow> bool" where
  "row_write i d d' \<longleftrightarrow> (\<exists>j j'. job_by_id d i = Some j \<and> job_step j j' \<and> d' = save_job j' d \<and> job_table_ok d')"

definition extends :: "db \<Rightarrow> db \<Rightarrow> bool" where
  "extends d d' \<longleftrightarrow> (\<exists>js. d' = d\<lparr> processing_jobs := processing_jobs d @ js \<rparr> \<and> job_table_ok d')"

lemma commit_job_cases:
  assumes "commit_job x j d = (r, d')"
  obtains "d' = d" | "d' = save_job j d" "job_table_ok d'" "r = Inr x"
  using assms by (auto simp: commit_job_def split: if_splits)

lemma row_writeI:
  "commit_job x j' d = (r, d') \<Longrightarrow> job_by_id d i = Some j \<Longrightarrow> job_step j j' \<Longrightarrow> d' = d \<or> row_write i d d'"
  by (erule commit_job_cases) (auto simp: row_write_def)

lemma claim_job_row_write:
  assumes "claim_job token now lease i d = (r, d')"
  shows "d' = d \<or> row_write i d d'"
proof (cases "job_by_id d i")
  case None
  with assms show ?thesis by (auto simp: claim_job_def split: if_splits)
next
  case (Some j)
  have "d' = d \<or> (\<exists>x j'. commit_job x j' d = (r, d') \<and> job_step j j')"
    using assms Some unfolding claim_job_def Let_def
    by (simp split: if_splits option.splits)
      (auto simp: not_le intro: job_step.refuse job_step.claim)
  with Some show ?thesis by (blast dest: row_writeI)
qed

lemma locked_processing_job_SomeD:
  "locked_processing_job i token d = Some j \<Longrightarrow>
     job_by_id d i = Some j \<and> job_status j = PROCESSING \<and> lease_token j = Some token"
  by (auto simp: locked_processing_job_def split: option.splits if_splits)

lemma locked_row_write:
  assumes "locked_processing_job i token d = Some j" and "commit_job x j' d = (r, d')"
    and "job_status j = PROCESSING \<Longrightarrow> job_step j j'"
  shows "d' = d \<or> row_write i d d'"
  using locked_processing_job_SomeD [OF assms(1)] assms(2,3) by (blast dest: row_writeI)

lemma retry_row_write:
  "retry_job i token code delay now d = (r, d') \<Longrightarrow> d' = d \<or> row_write i d d'"
  unfolding retry_job_def
  by (simp split: if_splits option.splits)
    (auto simp: not_le dest: locked_row_write intro: job_step.fail job_step.requeue)

lemma fail_row_write: "fail_job i token code now d = (r, d') \<Longrightarrow> d' = d \<or> row_write i d d'"
  unfolding fail_job_def
  by (simp split: if_splits option.splits) (auto dest: locked_row_write intro: job_step.fail)

lemma complete_row_write: "complete_job i token out now d = (r, d') \<Longrightarrow> d' = d \<or> row_write i d d'"
  unfolding complete_job_def
  by (simp split: if_splits option.splits) (auto dest: locked_row_write intro: job_step.complete)

lemma record_row_write: "record_dispatch_of i t d = d \<or> row_write i d (record_dispatch_of i t d)"
proof (cases "job_by_id d i")
  case None
  then show ?thesis by (simp add: record_dispatch_of_def)
next
  case (Some j)
  then show ?thesis
    using job_by_id_SomeD [OF Some] job_step.dispatch [of j t]
    by (auto simp: record_dispatch_of_def row_write_def)
qed

lemma ensure_extends:
  "snd (ensure_jobs_for_uploads defaults b us d) = d \<or> extends d (snd (ensure_jobs_for_uploads defaults b us d))"
proof -
  have "extends d (d\<lparr> processing_jobs := processing_jobs d @ js \<rparr>)"
    if "job_table_ok (d\<lparr> processing_jobs := processing_jobs d @ js \<rparr>)" for js
    using that by (auto simp: extends_def)
  then show ?thesis
    unfolding ensure_jobs_for_uploads_def Let_def by (simp split: sum.splits prod.splits)
qed

fun job_target :: "job_op \<Rightarrow> uuid option" where
  "job_target (Claim_Job token now lease i) = Some i"
| "job_target (Retry_Job i token code delay now) = Some i"
| "job_target (Fail_Job i token code now) = Some i"
| "job_target (Complete_Job i token out now) = Some i"
| "job_target (Record_Dispatch i t) = Some i"
| "job_target (Ensure_Jobs defaults b us) = None"

lemma job_op_step_cases:
  obtains "job_op_step x d = d" | i where "job_target x = Some i" and "row_write i d (job_op_step x d)" | "extends d (job_op_step x d)"
proof (cases x)
  case (Claim_Job token now lease i)
  then show ?thesis using claim_job_row_write [of token now lease i d] that by (metis job_op_step.simps(1) job_target.simps(1) prod.collapse)
next
  case (Retry_Job i token code delay now)
  then show ?thesis using retry_row_write [of i token code delay now d] that by (metis job_op_step.simps(2) job_target.simps(2) prod.collapse)
next
  case (Fail_Job i token code now)
  then show ?thesis using fail_row_write [of i token code now d] that by (metis job_op_step.simps(3) job_target.simps(3) prod.collapse)
next
  case (Complete_Job i token out now)
  then show ?thesis using complete_row_write [of i token out now d] that by (metis job_op_step.simps(4) job_target.simps(4) prod.collapse)
next
  case (Record_Dispatch i t)
  then show ?thesis using record_row_write [of i t d] that by (metis job_op_step.simps(5) job_target.simps(5))
next
  case (Ensure_Jobs defaults b us)
  then show ?thesis using that
    ensure_extends [of defaults b us d] by (metis job_op_step.simps(6))
qed

lemma job_op_step_other:
  assumes "job_by_id d i = Some j" and "job_target x \<noteq> Some i"
  shows "job_by_id (job_op_step x d) i = Some j"
proof (rule job_op_step_cases [of x d])
  fix t assume t: "job_target x = Some t" "row_write t d (job_op_step x d)"
  then obtain k k' where "k \<in> set (processing_jobs d)" "job_id k = t" "job_step k k'"
    "job_op_step x d = save_job k' d" by (auto simp: row_write_def dest: job_by_id_SomeD)
  with assms t(1) show ?thesis
    by (auto simp: job_by_id_save_job job_identityD(1) [OF job_step_identity])
next
  assume "extends d (job_op_step x d)"
  with assms(1) show ?thesis by (auto simp: extends_def job_by_id_def row_where_append)
qed (use assms in simp)

lemma job_op_step_ok: "job_table_ok d \<Longrightarrow> job_table_ok (job_op_step x d)"
  by (rule job_op_step_cases [of x d]) (auto simp: row_write_def extends_def)

section \<open>Facts about one row that every transaction keeps\<close>

text \<open>A property of a row that every step of its life keeps holds of the row with its id for ever.\<close>

definition row_has :: "(report_processing_job \<Rightarrow> bool) \<Rightarrow> uuid \<Rightarrow> db \<Rightarrow> bool" where
  "row_has P i d \<longleftrightarrow> (\<exists>j \<in> set (processing_jobs d). job_id j = i \<and> P j)"

lemma row_has_step:
  assumes "job_table_ok d" and "row_has P i d"
    and keep: "\<And>j j'. P j \<Longrightarrow> job_step j j' \<Longrightarrow> report_processing_job_checks j' \<Longrightarrow> P j'"
  shows "row_has P i (job_op_step x d)"
proof (rule job_op_step_cases [of x d])
  assume "job_op_step x d = d"
  with assms(2) show ?thesis by simp
next
  fix t assume "row_write t d (job_op_step x d)"
  then obtain j j' where j: "j \<in> set (processing_jobs d)" "job_step j j'" "job_op_step x d = save_job j' d"
    "job_table_ok (job_op_step x d)" by (auto simp: row_write_def dest: job_by_id_SomeD)
  obtain k where k: "k \<in> set (processing_jobs d)" "job_id k = i" "P k" using assms(2) by (auto simp: row_has_def)
  note id = job_identityD(1) [OF job_step_identity [OF j(2)]]
  have rows: "set (processing_jobs (job_op_step x d)) = insert j' {y \<in> set (processing_jobs d). job_id y \<noteq> job_id j}"
    unfolding j(3) by (rule set_save_job [OF assms(1) j(1) id])
  show ?thesis
  proof (cases "job_id j = i")
    case True
    with k j(1) have "k = j" using unique_onD [OF job_table_okD(1) [OF assms(1)]] by simp
    moreover have "report_processing_job_checks j'" using job_table_okD(2) [OF j(4)] rows by simp
    ultimately show ?thesis using keep [OF k(3)] j(2) True rows id by (auto simp: row_has_def)
  next
    case False
    with k rows show ?thesis by (auto simp: row_has_def)
  qed
next
  assume "extends d (job_op_step x d)"
  with assms(2) show ?thesis by (auto simp: extends_def row_has_def)
qed

text \<open>The result of a finished job: everything but the dispatch counters.\<close>

definition job_result :: "report_processing_job \<Rightarrow> report_processing_job" where
  "job_result j = j\<lparr> dispatch_attempt_count := 0, last_dispatched_at := None \<rparr>"

definition final_result :: "report_processing_job \<Rightarrow> report_processing_job \<Rightarrow> bool" where
  "final_result r j \<longleftrightarrow> job_result j = r \<and> (job_status j = COMPLETED \<or> job_status j = FAILED)"

lemma final_result_step: "final_result r j \<Longrightarrow> job_step j j' \<Longrightarrow> final_result r j'"
  by (erule job_step_cases)
    (auto simp: final_result_def claim_blocked_def job_result_def record_dispatch_def)

interpretation jobs: invariant_system job_op_step job_table_ok
  by unfold_locales (rule job_op_step_ok)

interpretation finished_job: stable_system job_op_step job_table_ok
    "\<lambda>(r, i) d. row_has (final_result r) i d"
  by unfold_locales (auto intro: row_has_step final_result_step)

end
