(* ===== verification/Processing_Theorems.thy ===== *)
theory Processing_Theorems
  imports Processing_System
begin

text \<open>
  Attempts, leases and progress of processing jobs over whole sequences of transactions.
\<close>


lemma job_by_id_self:
  "job_by_id d i = Some j \<Longrightarrow> job_id j' = i \<Longrightarrow> job_by_id (save_job j' d) i = Some j'"
  using job_by_id_SomeD [of d i j] by (simp add: job_by_id_save_job [of j])

lemma transition_sel [simp]:
  "job_id (terminal_failure code now j) = job_id j" "job_id (claimed t now lease j) = job_id j"
  "job_id (requeued code now j) = job_id j" "job_id (completed out now j) = job_id j"
  "job_id (record_dispatch now j) = job_id j"
  "lease_token (terminal_failure code now j) = None" "lease_token (claimed t now lease j) = Some t"
  "lease_token (requeued code now j) = None" "lease_token (completed out now j) = None"
  "lease_token (record_dispatch now j) = lease_token j"
  "lease_expires_at (record_dispatch now j) = lease_expires_at j"
  "lease_expires_at (claimed t now lease j) = Some (now + lease)"
  "job_status (record_dispatch now j) = job_status j" "job_status (claimed t now lease j) = PROCESSING"
  "job_status (terminal_failure code now j) = FAILED" "job_status (requeued code now j) = QUEUED"
  "job_status (completed out now j) = COMPLETED"
  by (simp_all add: terminal_failure_def claimed_def requeued_def completed_def record_dispatch_def)

section \<open>Attempts\<close>

fun is_claim_of :: "uuid \<Rightarrow> job_op \<Rightarrow> db \<Rightarrow> bool" where
  "is_claim_of i (Claim_Job token now lease i') d =
     (i' = i \<and> (case fst (claim_job token now lease i' d) of Inr (Some _) \<Rightarrow> True | _ \<Rightarrow> False))"
| "is_claim_of i _ d = False"

text \<open>How often a job is handed to a worker while a list of transactions runs.\<close>

fun successful_claims :: "uuid \<Rightarrow> job_op list \<Rightarrow> db \<Rightarrow> nat" where
  "successful_claims i [] d = 0"
| "successful_claims i (x # xs) d =
     (if is_claim_of i x d then 1 else 0) + successful_claims i xs (job_op_step x d)"

lemma claim_job_success:
  assumes "claim_job token now lease i d = (Inr (Some c), d')"
  obtains j where "job_by_id d i = Some j" "\<not> claim_blocked now j" "job_attempt_count j < max_attempts j"
    "0 < lease" "d' = save_job (claimed token now lease j) d" "job_table_ok d'"
    "claim_lease_token c = token" "claim_job_id c = i"
proof (cases "job_by_id d i")
  case None
  with assms show ?thesis by (auto simp: claim_job_def split: if_splits)
next
  case (Some j)
  have "\<not> claim_blocked now j \<and> \<not> max_attempts j \<le> job_attempt_count j \<and> \<not> lease \<le> 0
    \<and> (\<exists>u. commit_job (Some (claim_of token (claimed token now lease j) u)) (claimed token now lease j) d
         = (Inr (Some c), d'))"
    using assms Some unfolding claim_job_def Let_def commit_job_def
    by (simp split: if_splits option.splits) blast+
  with job_by_id_SomeD [OF Some] show ?thesis
    by (intro that [OF Some]) (auto simp: commit_job_def claim_of_def claimed_def split: if_splits)
qed

text \<open>One transaction on a row: the attempts never fall, and grow with a successful claim.\<close>

lemma job_step_attempts:
  assumes "job_step j j'" and "report_processing_job_checks j'"
  shows "job_attempt_count j \<le> job_attempt_count j'" "job_attempt_count j' \<le> max_attempts j'"
  using assms
  by (auto elim!: job_step_cases simp: terminal_failure_def claimed_def requeued_def completed_def
      record_dispatch_def report_processing_job_checks_def job_attempts_check_def between_def)

lemma job_op_step_row:
  assumes "job_table_ok d" and "job_by_id d i = Some j"
  obtains j' where "job_by_id (job_op_step x d) i = Some j'" "max_attempts j' = max_attempts j"
    "job_attempt_count j + (if is_claim_of i x d then 1 else 0) \<le> job_attempt_count j'"
proof (cases "is_claim_of i x d")
  case True
  then obtain token now lease c where x: "x = Claim_Job token now lease i"
    and "fst (claim_job token now lease i d) = Inr (Some c)"
    by (cases x) (auto split: sum.splits option.splits)
  then have "claim_job token now lease i d = (Inr (Some c), job_op_step x d)"
    by (simp add: prod_eq_iff)
  then obtain k where "job_by_id d i = Some k" "job_op_step x d = save_job (claimed token now lease k) d"
    by (rule claim_job_success)
  with assms(2) job_by_id_SomeD [OF assms(2)] True show ?thesis
    by (intro that [of "claimed token now lease j"]) (auto simp: job_by_id_save_job claimed_def)
next
  case False
  show ?thesis
  proof (rule job_op_step_cases [of x d])
    assume "job_op_step x d = d"
    with assms(2) False that show ?thesis by simp
  next
    assume "extends d (job_op_step x d)"
    with assms(2) have "job_by_id (job_op_step x d) i = Some j"
      by (auto simp: extends_def job_by_id_def row_where_append)
    with False that show ?thesis by simp
  next
    fix t assume "row_write t d (job_op_step x d)"
    then obtain k k' where k: "job_by_id d t = Some k" "job_step k k'" "job_op_step x d = save_job k' d"
      "job_table_ok (job_op_step x d)" by (auto simp: row_write_def)
    note kd = job_by_id_SomeD [OF k(1)] and id = job_identityD [OF job_step_identity [OF k(2)]]
    show ?thesis
    proof (cases "t = i")
      case True
      with k(1) assms(2) have kj: "k = j" by simp
      have now: "job_by_id (job_op_step x d) i = Some k'"
        using kd id(1) True by (simp add: k(3) job_by_id_save_job [of k])
      have "report_processing_job_checks k'"
        using job_table_okD(2) [OF k(4)] job_by_id_SomeD [OF now] by simp
      from job_step_attempts [OF k(2) this] now id(4) kj False show ?thesis
        by (intro that [of k']) simp_all
    next
      case False
      with kd id(1) assms(2) have "job_by_id (job_op_step x d) i = Some j"
        by (auto simp: k(3) job_by_id_save_job [of k])
      with \<open>\<not> is_claim_of i x d\<close> that show ?thesis by simp
    qed
  qed
qed

lemma claims_bounded:
  assumes "job_table_ok d" and "job_by_id d i = Some j"
  obtains j' where "job_by_id (fold job_op_step xs d) i = Some j'" "max_attempts j' = max_attempts j"
    "job_attempt_count j + int (successful_claims i xs d) \<le> job_attempt_count j'"
  using assms
proof (induction xs arbitrary: d j thesis)
  case Nil
  then show ?case by simp
next
  case (Cons x xs)
  obtain j1 where j1: "job_by_id (job_op_step x d) i = Some j1" "max_attempts j1 = max_attempts j"
    "job_attempt_count j + (if is_claim_of i x d then 1 else 0) \<le> job_attempt_count j1"
    using job_op_step_row [OF Cons.prems(2,3)] by metis
  obtain j2 where "job_by_id (fold job_op_step xs (job_op_step x d)) i = Some j2"
    "max_attempts j2 = max_attempts j1"
    "job_attempt_count j1 + int (successful_claims i xs (job_op_step x d)) \<le> job_attempt_count j2"
    using Cons.IH [OF _ job_op_step_ok [OF Cons.prems(2)] j1(1)] by metis
  with j1 show ?case by (intro Cons.prems(1) [of j2]) (simp_all split: if_splits)
qed

section \<open>Leases\<close>

text \<open>The transactions that respect a lease: claims before it runs out, and the calls of workers
  that hold another token.\<close>

fun respects_lease :: "uuid \<Rightarrow> uuid \<Rightarrow> time \<Rightarrow> job_op \<Rightarrow> bool" where
  "respects_lease i token expires (Claim_Job t now lease i') \<longleftrightarrow> i' \<noteq> i \<or> now < expires"
| "respects_lease i token expires (Retry_Job i' t code delay now) \<longleftrightarrow> i' \<noteq> i \<or> t \<noteq> token"
| "respects_lease i token expires (Fail_Job i' t code now) \<longleftrightarrow> i' \<noteq> i \<or> t \<noteq> token"
| "respects_lease i token expires (Complete_Job i' t out now) \<longleftrightarrow> i' \<noteq> i \<or> t \<noteq> token"
| "respects_lease i token expires _ \<longleftrightarrow> True"

definition leased :: "uuid \<Rightarrow> uuid \<Rightarrow> time \<Rightarrow> db \<Rightarrow> bool" where
  "leased i token expires d \<longleftrightarrow> (\<exists>j. job_by_id d i = Some j \<and> job_status j = PROCESSING
     \<and> lease_token j = Some token \<and> lease_expires_at j = Some expires)"

lemma leased_save:
  "job_by_id d i = Some j \<Longrightarrow> job_id j' = i \<Longrightarrow> leased i token expires (save_job j' d) \<longleftrightarrow>
     job_status j' = PROCESSING \<and> lease_token j' = Some token \<and> lease_expires_at j' = Some expires"
  by (simp add: leased_def job_by_id_self)

lemma not_holder:
  assumes "locked_processing_job i t d = None"
  shows "snd (retry_job i t code delay now d) = d" "snd (fail_job i t code now d) = d"
    "snd (complete_job i t out now d) = d"
  using assms by (simp_all add: retry_job_def fail_job_def complete_job_def)

lemma leased_other_token:
  "leased i token expires d \<Longrightarrow> t \<noteq> token \<Longrightarrow> locked_processing_job i t d = None"
  by (auto simp: leased_def locked_processing_job_def)

lemma leased_claim:
  "leased i token expires d \<Longrightarrow> now < expires \<Longrightarrow> claim_job t now lease i d =
     (if lease \<le> 0 then Inl ProcessingValueError else Inr None, d)"
  by (auto simp: leased_def claim_job_def claim_blocked_def)

lemma respects_lease_step:
  assumes "leased i token expires d" and "respects_lease i token expires x"
  shows "leased i token expires (job_op_step x d)" "\<not> is_claim_of i x d"
proof -
  obtain j where j: "job_by_id d i = Some j" using assms(1) by (auto simp: leased_def)
  show "\<not> is_claim_of i x d"
    using assms by (cases x) (auto simp: leased_claim)
  show "leased i token expires (job_op_step x d)"
  proof (cases "job_target x = Some i")
    case False
    have "job_by_id (job_op_step x d) i = job_by_id d i" using job_op_step_other [OF j False] j by simp
    with assms(1) show ?thesis by (simp add: leased_def)
  next
    case True
    show ?thesis
    proof (cases x)
      case (Record_Dispatch k t)
      have "job_status j = PROCESSING \<and> lease_token j = Some token \<and> lease_expires_at j = Some expires"
        using assms(1) j by (auto simp: leased_def)
      with Record_Dispatch True assms(1) j job_by_id_SomeD [OF j] show ?thesis
        by (simp add: record_dispatch_of_def leased_save [OF j])
    qed (use assms True leased_claim not_holder leased_other_token in auto)
  qed
qed

lemma respects_lease_run:
  assumes "leased i token expires d" and "\<forall>x \<in> set xs. respects_lease i token expires x"
  shows "leased i token expires (fold job_op_step xs d) \<and> successful_claims i xs d = 0"
  using assms
proof (induction xs arbitrary: d)
  case Nil
  then show ?case by simp
next
  case (Cons x xs)
  then show ?case using respects_lease_step [of i token expires d x] by simp
qed

section \<open>Tokens that lost their lease\<close>

fun claims_with :: "uuid \<Rightarrow> uuid \<Rightarrow> job_op \<Rightarrow> bool" where
  "claims_with i token (Claim_Job t now lease i') \<longleftrightarrow> i' = i \<and> t = token"
| "claims_with i token _ \<longleftrightarrow> False"

definition token_dead :: "uuid \<Rightarrow> uuid \<Rightarrow> db \<Rightarrow> bool" where
  "token_dead i token d \<longleftrightarrow> (\<exists>j. job_by_id d i = Some j \<and> lease_token j \<noteq> Some token)"

lemma token_dead_save:
  "job_by_id d i = Some j \<Longrightarrow> job_id j' = i \<Longrightarrow>
     token_dead i token (save_job j' d) \<longleftrightarrow> lease_token j' \<noteq> Some token"
  by (simp add: token_dead_def job_by_id_self)

lemma token_dead_locked: "token_dead i token d \<Longrightarrow> locked_processing_job i token d = None"
  by (auto simp: token_dead_def locked_processing_job_def)

lemma claim_job_other_token:
  assumes "claim_job t now lease i d = (r, d')" and "job_by_id d i = Some j" and "lease_token j \<noteq> Some token"
    and "t \<noteq> token"
  shows "token_dead i token d'"
proof -
  have "d' = d \<or> d' = save_job (terminal_failure REPORT_PROCESSING_ATTEMPT_LIMIT_ERROR now j) d
    \<or> d' = save_job (terminal_failure REPORT_PROCESSING_SOURCE_INVALID_ERROR now j) d
    \<or> d' = save_job (claimed t now lease j) d"
    using assms(1,2) unfolding claim_job_def Let_def commit_job_def
    by (simp split: if_splits option.splits)
  moreover have "token_dead i token d" using assms(2,3) by (simp add: token_dead_def)
  ultimately show ?thesis
    using assms(3,4) job_by_id_SomeD [OF assms(2)]
    by (elim disjE) (simp_all add: token_dead_save [OF assms(2)])
qed

lemma token_dead_step:
  assumes "token_dead i token d" and "\<not> claims_with i token x"
  shows "token_dead i token (job_op_step x d)"
proof (cases "job_target x = Some i")
  case False
  with assms(1) job_op_step_other show ?thesis by (fastforce simp: token_dead_def)
next
  case True
  obtain j where j: "job_by_id d i = Some j" "lease_token j \<noteq> Some token"
    using assms(1) by (auto simp: token_dead_def)
  note jd = job_by_id_SomeD [OF j(1)]
  have id: "job_id j = i" using jd by simp
  note dead = token_dead_save [OF j(1)]
  show ?thesis
  proof (cases x)
    case (Claim_Job t now lease k)
    with True assms(2) claim_job_other_token [OF _ j, of t now lease] show ?thesis
      by (simp add: prod_eq_iff)
  next
    case (Retry_Job k t code delay now)
    with True j id assms(1) show ?thesis
      by (simp add: retry_job_def locked_processing_job_def commit_job_def dead)
  next
    case (Fail_Job k t code now)
    with True j id assms(1) show ?thesis
      by (simp add: fail_job_def locked_processing_job_def commit_job_def dead)
  next
    case (Complete_Job k t out now)
    with True j id assms(1) show ?thesis
      by (simp add: complete_job_def locked_processing_job_def commit_job_def dead)
  next
    case (Record_Dispatch k t)
    with True j id assms(1) show ?thesis by (simp add: record_dispatch_of_def dead)
  next
    case (Ensure_Jobs f b us)
    with True show ?thesis by simp
  qed
qed

lemma token_dead_run:
  "token_dead i token d \<Longrightarrow> \<forall>x \<in> set xs. \<not> claims_with i token x \<Longrightarrow> token_dead i token (fold job_op_step xs d)"
proof (induction xs arbitrary: d)
  case Nil
  then show ?case by simp
next
  case (Cons x xs)
  then show ?case by (simp add: token_dead_step)
qed

section \<open>Commits that do not fail\<close>

definition job_clock_ok :: "time \<Rightarrow> uuid \<Rightarrow> db \<Rightarrow> bool" where
  "job_clock_ok now i d \<longleftrightarrow> null_or (clock_ok now) (job_by_id d i)"

definition fresh_output :: "processing_output \<Rightarrow> db \<Rightarrow> bool" where
  "fresh_output out d \<longleftrightarrow> (\<forall>x \<in> set (processing_jobs d).
     normalized_storage_key x \<noteq> Some (out_normalized_storage_key out)
   \<and> profile_storage_key x \<noteq> Some (out_profile_storage_key out))"

lemma commit_job_ok:
  assumes "job_table_ok d" and "job_by_id d i = Some j" and "job_identity j' = job_identity j"
    and "report_processing_job_checks j'"
    and "normalized_storage_key j' = normalized_storage_key j
      \<or> (\<forall>x \<in> set (processing_jobs d). normalized_storage_key x \<noteq> normalized_storage_key j')"
    and "profile_storage_key j' = profile_storage_key j
      \<or> (\<forall>x \<in> set (processing_jobs d). profile_storage_key x \<noteq> profile_storage_key j')"
  shows "commit_job x j' d = (Inr x, save_job j' d)"
proof -
  have "job_table_ok (save_job j' d)"
    using job_by_id_SomeD [OF assms(2)] by (intro job_table_ok_save_job [OF assms(1) _ assms(3-6)]) simp
  then show ?thesis by (simp add: commit_job_def)
qed

lemma not_blocked_live: "\<not> claim_blocked now j \<Longrightarrow> live_job j"
  by (cases "job_status j") (auto simp: claim_blocked_def live_job_def)

lemma row_checks:
  "job_table_ok d \<Longrightarrow> job_by_id d i = Some j \<Longrightarrow> report_processing_job_checks j"
  using job_by_id_SomeD job_table_okD(2) by blast

lemma terminal_commits:
  assumes "job_table_ok d" and "job_by_id d i = Some j" and "live_job j" and "clock_ok now j"
  shows "commit_job x (terminal_failure code now j) d = (Inr x, save_job (terminal_failure code now j) d)"
  by (rule commit_job_ok [OF assms(1,2)])
    (use row_checks [OF assms(1,2)] assms(3,4) in \<open>simp_all add: terminal_failure_checks\<close>,
      simp_all add: terminal_failure_def)

lemma claimed_commits:
  assumes "job_table_ok d" and "job_by_id d i = Some j" and "live_job j" and "clock_ok now j"
    and "job_attempt_count j < max_attempts j" and "0 < lease"
  shows "commit_job x (claimed t now lease j) d = (Inr x, save_job (claimed t now lease j) d)"
  by (rule commit_job_ok [OF assms(1,2)])
    (use row_checks [OF assms(1,2)] assms(3-6) in \<open>simp_all add: claimed_checks\<close>,
      simp_all add: claimed_def)

lemma requeued_commits:
  assumes "job_table_ok d" and "job_by_id d i = Some j" and "job_status j = PROCESSING" and "job_created_at j \<le> at"
  shows "commit_job x (requeued code at j) d = (Inr x, save_job (requeued code at j) d)"
  by (rule commit_job_ok [OF assms(1,2)])
    (use row_checks [OF assms(1,2)] assms(3,4) in \<open>simp_all add: requeued_checks\<close>,
      simp_all add: requeued_def)

lemma completed_commits:
  assumes "job_table_ok d" and "job_by_id d i = Some j" and "job_status j = PROCESSING" and "clock_ok now j"
    and "validate_output out" and "fresh_output out d"
  shows "commit_job x (completed out now j) d = (Inr x, save_job (completed out now j) d)"
  by (rule commit_job_ok [OF assms(1,2)])
    (use row_checks [OF assms(1,2)] assms(3-6) in \<open>simp_all add: completed_checks\<close>,
      simp_all add: completed_def fresh_output_def)

text \<open>What a claim does, when its clock is not behind the job.\<close>

lemma claim_outcome:
  assumes "job_table_ok d" and "job_clock_ok now i d" and "0 < lease"
  shows "(\<forall>j. job_by_id d i = Some j \<longrightarrow> claim_blocked now j) \<and> claim_job t now lease i d = (Inr None, d)
    \<or> (\<exists>j j' c. job_by_id d i = Some j \<and> \<not> claim_blocked now j \<and> claim_job t now lease i d = (Inr c, save_job j' d)
        \<and> (j' = claimed t now lease j \<and> c \<noteq> None \<or> (\<exists>code. j' = terminal_failure code now j) \<and> c = None))"
proof (cases "job_by_id d i")
  case None
  with assms(3) show ?thesis by (simp add: claim_job_def)
next
  case (Some j)
  have clock: "clock_ok now j" using assms(2) Some by (simp add: job_clock_ok_def)
  show ?thesis
  proof (cases "claim_blocked now j")
    case True
    with Some assms(3) show ?thesis by (simp add: claim_job_def)
  next
    case False
    have "claim_job t now lease i d = (Inr None, save_job (terminal_failure code now j) d)"
      if "claim_job t now lease i d = commit_job None (terminal_failure code now j) d" for code
      using that terminal_commits [OF assms(1) Some not_blocked_live [OF False] clock] by simp
    moreover have "claim_job t now lease i d = (Inr (Some c), save_job (claimed t now lease j) d)"
      if "claim_job t now lease i d = commit_job (Some c) (claimed t now lease j) d"
        "job_attempt_count j < max_attempts j" for c
      using that claimed_commits [OF assms(1) Some not_blocked_live [OF False] clock that(2) assms(3)] by simp
    moreover have "(\<exists>code. claim_job t now lease i d = commit_job None (terminal_failure code now j) d)
      \<or> (\<exists>c. claim_job t now lease i d = commit_job (Some c) (claimed t now lease j) d)
          \<and> job_attempt_count j < max_attempts j"
      using Some False assms(3) unfolding claim_job_def Let_def by (simp split: option.splits) auto
    ultimately show ?thesis using Some False by blast
  qed
qed

section \<open>A sample job table\<close>

definition sample_batch :: report_upload_batch where
  "sample_batch = \<lparr> batch_id = 60, batch_business_id = 10, batch_created_at = 0, created_by_user_id = 1,
     batch_status = BATCH_COMPLETE, file_count = 1, batch_expires_at = 900, completed_at = Some 9 \<rparr>"

definition sample_upload :: report_upload where
  "sample_upload = \<lparr> up_id = 61, up_business_id = 10, up_batch_id = 60, batch_position = 0,
     uploaded_by_user_id = 1, original_filename = ''a.csv'', file_extension = ''csv'',
     content_type = ''text/csv'', expected_size_bytes = 4, storage_bucket = ''bucket'', storage_key = ''k'',
     up_status = UPLOADED, up_expires_at = 900, actual_size_bytes = Some 4,
     storage_version_id = Some ''v'', etag = Some ''e'', uploaded_at = Some 9, rejected_at = None,
     rejection_code = None \<rparr>"

definition sample_job :: report_processing_job where
  "sample_job = new_job (62, 10, 10) 10 sample_upload"

definition sample_output :: processing_output where
  "sample_output = \<lparr> out_storage_bucket = ''bucket'', out_normalized_storage_key = ''n'',
     out_normalized_storage_version_id = ''v'', out_normalized_etag = ''e'', out_normalized_size_bytes = 1,
     out_profile_storage_key = ''p'', out_profile_storage_version_id = ''v'', out_profile_etag = ''e'',
     out_record_count = 0, out_sheet_count = 1 \<rparr>"

definition sample_jobs_db :: db where
  "sample_jobs_db = sample_db\<lparr> upload_batches := [sample_batch], uploads := [sample_upload],
     processing_jobs := [sample_job] \<rparr>"

definition sample_failed_db :: db where
  "sample_failed_db = sample_jobs_db\<lparr> processing_jobs := [terminal_failure ''x'' 20 sample_job] \<rparr>"

lemmas sample_job_defs = sample_jobs_db_def sample_failed_db_def sample_job_def new_job_def
  sample_upload_def sample_batch_def sample_output_def DEFAULT_REPORT_PROCESSING_MAX_ATTEMPTS_def
  MAX_REPORT_PROCESSING_ATTEMPTS_def

lemma sample_job_table_ok: "job_table_ok sample_jobs_db" "job_table_ok sample_failed_db"
  by (simp_all add: job_table_ok_def job_check_defs sample_job_defs terminal_failure_def between_def
      unique_on_def)

lemma sample_job_row: "job_by_id sample_jobs_db 62 = Some sample_job" "lease_token sample_job = None"
  "job_by_id sample_failed_db 62 = Some (terminal_failure ''x'' 20 sample_job)"
  by (simp_all add: job_by_id_def sample_job_defs terminal_failure_def)

lemma sample_claim_for:
  assumes "0 < lease"
  obtains c d1 where "claim_job 7 20 lease 62 sample_jobs_db = (Inr (Some c), d1)"
proof -
  have "claim_source_ok sample_job (Some sample_upload)" by (simp add: claim_source_ok_def sample_job_defs)
  moreover have "row_where (\<lambda>u. up_id u = report_upload_id sample_job \<and> up_business_id u = job_business_id sample_job)
      (uploads sample_jobs_db) = Some sample_upload" by (simp add: sample_job_defs)
  moreover have "\<not> claim_blocked 20 sample_job" "job_attempt_count sample_job < max_attempts sample_job"
    by (simp_all add: claim_blocked_def sample_job_defs)
  moreover have "clock_ok 20 sample_job" by (simp add: clock_ok_def sample_job_defs)
  ultimately show ?thesis
    using claimed_commits [OF sample_job_table_ok(1) sample_job_row(1) not_blocked_live, of 20 20 lease
        "Some (claim_of 7 (claimed 7 20 lease sample_job) sample_upload)" 7] sample_job_row(1) assms
    by (intro that) (simp add: claim_job_def)
qed

lemma sample_claim: "\<exists>c d1. claim_job 7 20 100 62 sample_jobs_db = (Inr (Some c), d1)"
  by (rule sample_claim_for [of 100]) auto

section \<open>Properties\<close>

text \<open>
  C19: a completed or failed job is final: no later claim, retry, failure, completion, dispatch
  record or job creation changes anything of its row except the dispatch counters.
\<close>

theorem finished_job_is_final:
  assumes "job_table_ok d" and "job_by_id d i = Some j"
    and "job_status j = COMPLETED \<or> job_status j = FAILED"
  shows "\<exists>j'. job_by_id (run_jobs xs d) i = Some j' \<and> job_result j' = job_result j"
proof -
  have "row_has (final_result (job_result j)) i d"
    using assms(2,3) job_by_id_SomeD [OF assms(2)] by (auto simp: row_has_def final_result_def)
  then have "row_has (final_result (job_result j)) i (run_jobs xs d)"
    using finished_job.run_stable [of d "(job_result j, i)" xs] assms(1) by (simp add: run_jobs_def)
  then obtain j' where "j' \<in> set (processing_jobs (run_jobs xs d))" "job_id j' = i" "job_result j' = job_result j"
    by (auto simp: row_has_def final_result_def)
  with job_by_id_mem [of "run_jobs xs d" j'] jobs.run_keeps [OF assms(1), of xs] show ?thesis
    by (auto simp: run_jobs_def)
qed

theorem finished_job_is_final_witness:
  "\<exists>j'. job_by_id (run_jobs [Claim_Job 7 50 100 62] sample_failed_db) 62 = Some j'
     \<and> job_result j' = job_result (terminal_failure ''x'' 20 sample_job)"
  by (rule finished_job_is_final [OF sample_job_table_ok(2) sample_job_row(3)]) simp

text \<open>
  However its transactions interleave, a job is handed to a worker at most \<open>max_attempts\<close> times
  in all, counting the attempts it already has.
\<close>

theorem claims_within_attempt_limit:
  assumes "job_table_ok d" and "job_by_id d i = Some j"
  shows "job_attempt_count j + int (successful_claims i xs d) \<le> max_attempts j"
proof -
  obtain j' where j': "job_by_id (fold job_op_step xs d) i = Some j'" "max_attempts j' = max_attempts j"
    "job_attempt_count j + int (successful_claims i xs d) \<le> job_attempt_count j'"
    using claims_bounded [OF assms] by metis
  have "job_attempt_count j' \<le> max_attempts j'"
    using row_checks [OF jobs.run_keeps [OF assms(1)] j'(1)]
    by (simp add: report_processing_job_checks_def job_attempts_check_def between_def)
  with j' show ?thesis by simp
qed

theorem claims_within_attempt_limit_witness:
  "int (successful_claims 62 [Claim_Job 7 20 100 62, Claim_Job 8 200 100 62] sample_jobs_db) \<le> 3"
  using claims_within_attempt_limit [OF sample_job_table_ok(1) sample_job_row(1),
      of "[Claim_Job 7 20 100 62, Claim_Job 8 200 100 62]"]
  by (simp add: sample_job_defs del: successful_claims.simps)

text \<open>
  C3: a lease is exclusive: after a worker has claimed a job, as long as other claims of it come
  before the lease runs out and other workers use their own tokens, nobody else is handed the job
  and the worker still holds it with the same expiry.
\<close>

theorem lease_is_exclusive:
  assumes "claim_job token now lease i d = (Inr (Some c), d1)"
    and "\<forall>x \<in> set xs. respects_lease i token (now + lease) x"
  shows "successful_claims i xs d1 = 0
    \<and> (\<exists>j. locked_processing_job i token (run_jobs xs d1) = Some j \<and> lease_expires_at j = Some (now + lease))"
proof -
  obtain j where j: "job_by_id d i = Some j" "d1 = save_job (claimed token now lease j) d"
    using assms(1) by (rule claim_job_success)
  have "leased i token (now + lease) d1"
    using j(2) job_by_id_SomeD [OF j(1)] by (simp add: leased_save [OF j(1)])
  from respects_lease_run [OF this assms(2)] show ?thesis
    by (auto simp: leased_def run_jobs_def locked_processing_job_def)
qed

theorem lease_is_exclusive_witness:
  "\<exists>c d1. claim_job 7 20 100 62 sample_jobs_db = (Inr (Some c), d1)
     \<and> successful_claims 62 [Claim_Job 8 119 100 62, Fail_Job 62 8 ''x'' 30] d1 = 0"
proof -
  obtain c d1 where r: "claim_job 7 20 100 62 sample_jobs_db = (Inr (Some c), d1)" using sample_claim by blast
  have "\<forall>x \<in> set [Claim_Job 8 119 100 62, Fail_Job 62 8 ''x'' 30]. respects_lease 62 7 (20 + 100) x" by simp
  from lease_is_exclusive [OF r this] r show ?thesis by blast
qed

text \<open>
  C17: a worker that lost its lease cannot touch the job: once the row carries another token or none,
  and nobody claims again with the old one, a retry, failure or completion with the old token
  reports no change and writes nothing, whatever happened in between.
\<close>

theorem stale_token_has_no_effect:
  assumes "job_by_id d i = Some j" and "lease_token j \<noteq> Some token"
    and "\<forall>x \<in> set xs. \<not> claims_with i token x"
    and "d' = run_jobs xs d"
  shows "(safe_error_code code \<and> 0 \<le> delay \<longrightarrow> retry_job i token code delay now d' = (Inr False, d'))
    \<and> (safe_error_code code \<longrightarrow> fail_job i token code now d' = (Inr False, d'))
    \<and> (validate_output out \<longrightarrow> complete_job i token out now d' = (Inr False, d'))"
proof -
  have "token_dead i token d" using assms(1,2) by (simp add: token_dead_def)
  from token_dead_run [OF this assms(3)] have "locked_processing_job i token d' = None"
    unfolding assms(4) run_jobs_def by (rule token_dead_locked)
  then show ?thesis
    by (simp add: retry_job_def fail_job_def complete_job_def validate_processing_error_code_def)
qed

theorem stale_token_has_no_effect_witness:
  "fail_job 62 7 ''x'' 30 (run_jobs [Claim_Job 8 20 100 62] sample_jobs_db)
     = (Inr False, run_jobs [Claim_Job 8 20 100 62] sample_jobs_db)"
proof -
  have "lease_token sample_job \<noteq> Some 7" "\<forall>x \<in> set [Claim_Job 8 20 100 62]. \<not> claims_with 62 7 x"
    by (simp_all add: sample_job_row(2))
  from stale_token_has_no_effect [OF sample_job_row(1) this refl, of "''x''" 0 30] show ?thesis
    by (simp add: safe_error_code_def lower_letter_def)
qed

text \<open>
  No transition of a job can break the table constraints: with a clock that is not behind the
  job's creation and start, and storage keys that no other job has, the commits of claim, retry,
  fail and complete all succeed.
\<close>

theorem job_transitions_commit:
  assumes "job_table_ok d" and "job_clock_ok now i d"
  shows "fst (claim_job token now lease i d) \<noteq> Inl ProcessingCommitError
    \<and> fst (retry_job i token code delay now d) \<noteq> Inl ProcessingCommitError
    \<and> fst (fail_job i token code now d) \<noteq> Inl ProcessingCommitError
    \<and> (fresh_output out d \<longrightarrow> fst (complete_job i token out now d) \<noteq> Inl ProcessingCommitError)"
proof -
  have "fst (claim_job token now lease i d) \<noteq> Inl ProcessingCommitError"
  proof (cases "0 < lease")
    case True
    from claim_outcome [OF assms this, of token] show ?thesis by auto
  qed (simp add: claim_job_def)
  moreover have "fst (retry_job i token code delay now d) \<noteq> Inl ProcessingCommitError
    \<and> fst (fail_job i token code now d) \<noteq> Inl ProcessingCommitError
    \<and> (fresh_output out d \<longrightarrow> fst (complete_job i token out now d) \<noteq> Inl ProcessingCommitError)"
  proof (cases "locked_processing_job i token d")
    case None
    then show ?thesis by (simp add: retry_job_def fail_job_def complete_job_def)
  next
    case (Some j)
    have j: "job_by_id d i = Some j" "job_status j = PROCESSING" using locked_processing_job_SomeD [OF Some] by auto
    have clock: "clock_ok now j" "live_job j" using assms(2) j by (simp_all add: job_clock_ok_def live_job_def)
    have "job_created_at j \<le> now + delay" if "\<not> delay < 0" using clock that by (simp add: clock_ok_def)
    then show ?thesis
      using Some terminal_commits [where x = True, OF assms(1) j(1) clock(2,1)]
        requeued_commits [where x = True, OF assms(1) j]
        completed_commits [where x = True, OF assms(1) j clock(1)]
      by (simp add: retry_job_def fail_job_def complete_job_def)
  qed
  ultimately show ?thesis by blast
qed

theorem job_transitions_commit_witness:
  "fst (claim_job 7 20 100 62 sample_jobs_db) \<noteq> Inl ProcessingCommitError"
proof -
  have "job_clock_ok 20 62 sample_jobs_db"
    unfolding job_clock_ok_def sample_job_row(1) by (simp add: clock_ok_def sample_job_defs)
  from job_transitions_commit [OF sample_job_table_ok(1) this, of 7 100] show ?thesis by blast
qed

text \<open>
  A deferred delivery makes progress: when a claim attempt finds the job taken or not due, the
  delay it reports is at least a second, and a claim after that delay either gets the job or fails
  it for good.
\<close>

theorem deferred_claim_makes_progress:
  assumes "job_table_ok d" and "claim_retry_delay now i d = Some delay" and "0 < lease"
    and "job_clock_ok (now + delay) i d"
  shows "seconds 1 \<le> delay \<and>
    ((\<exists>c d'. claim_job token (now + delay) lease i d = (Inr (Some c), d'))
   \<or> (\<exists>d' j. claim_job token (now + delay) lease i d = (Inr None, d') \<and> job_by_id d' i = Some j
        \<and> job_status j = FAILED))"
proof -
  obtain j where j: "job_by_id d i = Some j" "live_job j"
    using assms(2)
    by (auto simp: claim_retry_delay_def live_job_def split: option.splits job_status.splits)
  have late: "seconds 1 \<le> delay" "\<not> claim_blocked (now + delay) j"
    using assms(2) j
    by (auto simp: claim_retry_delay_def claim_blocked_def live_job_def max_def
        split: option.splits job_status.splits if_splits)
  from claim_outcome [OF assms(1,4,3), of token] j(1) late show ?thesis
    using job_by_id_SomeD [OF j(1)] by (auto simp: job_by_id_self)
qed

theorem deferred_claim_makes_progress_witness:
  "\<exists>delay. claim_retry_delay 5 62 sample_jobs_db = Some delay \<and> seconds 1 \<le> delay"
proof -
  have delay: "claim_retry_delay 5 62 sample_jobs_db = Some (seconds 1)"
    unfolding claim_retry_delay_def sample_job_row(1) by (simp add: sample_job_defs duration_defs)
  have "job_clock_ok (5 + seconds 1) 62 sample_jobs_db"
    unfolding job_clock_ok_def sample_job_row(1) by (simp add: clock_ok_def sample_job_defs duration_defs)
  from deferred_claim_makes_progress [OF sample_job_table_ok(1) delay _ this, of 100 7] delay show ?thesis
    by simp
qed

end
