(* ===== verification/Worker.thy ===== *)
theory Worker
  imports Processing_Theorems
begin

text \<open>
  \<open>app/services/processing_artifacts.py\<close> and \<open>app/workers/tasks.py\<close>: one processing attempt of a
  worker, from the claim of the job over the storage and the parser to the transaction that settles
  the claim, and the Celery task around it.

  The storage gateway and the validation and parsing of the content enter as the results of the
  calls a run makes; \<open>env\<close> stands for the transactions that commit while the attempt runs, and the
  flags \<open>claim_down\<close> and \<open>settle_down\<close> for a database that cannot be reached at the claim or at the
  end.
\<close>

section \<open>The artifact processor\<close>

datatype storage_error = S3BucketSecurityError | S3ObjectNotFoundError | S3StorageError

text \<open>\<open>MalformedReportError\<close> stands for an \<open>OSError\<close>, \<open>UnicodeError\<close> or \<open>ValueError\<close>, \<open>OtherParseError\<close>
  for any exception the processor does not catch.\<close>

datatype parse_failure = SuspiciousReportContentError | ReportParsingError string
  | MalformedReportError | OtherParseError

record stored_object =
  object_length :: int
  object_version_id :: string
  object_etag :: string

record parsed_report =
  parsed_normalized_length :: int
  parsed_profile_length :: int
  parsed_record_count :: int
  parsed_sheet_count :: int

record upload_settings =
  s3_uploads_enabled :: bool
  s3_upload_bucket :: "string option"
  s3_upload_prefix :: string

text \<open>What the calls of one run return: the bucket check, the content read, the parse of it, and the
  two writes.\<close>

record artifact_calls =
  bucket_security :: "storage_error option"
  read_object :: "storage_error + char list"
  parse_content :: "char list \<Rightarrow> parse_failure + parsed_report"
  write_normalized :: "storage_error + stored_object"
  write_profile :: "storage_error + stored_object"

datatype attempt_result = Processed processing_output | TerminalError string | RetryableError string
  | UnexpectedError

definition normalized_key :: "string \<Rightarrow> processing_claim \<Rightarrow> string" where
  "normalized_key prefix c = prefix @ ''/'' @ uuid_str (claim_business_id c) @ ''/processed/''
     @ uuid_str (claim_job_id c) @ ''/normalized.v1.jsonl.gz''"

definition profile_key :: "string \<Rightarrow> processing_claim \<Rightarrow> string" where
  "profile_key prefix c = prefix @ ''/'' @ uuid_str (claim_business_id c) @ ''/processed/''
     @ uuid_str (claim_job_id c) @ ''/profile.v1.json''"

definition write_failure :: "storage_error \<Rightarrow> attempt_result" where
  "write_failure e = (case e of
     S3BucketSecurityError \<Rightarrow> TerminalError ''processing_storage_security_invalid''
   | _ \<Rightarrow> RetryableError ''artifact_storage_unavailable'')"

text \<open>The constructors of the two errors validate their code; a \<open>ReportParsingError\<close> carries the
  parser's code, and an unsafe one is a \<open>ValueError\<close>, which the worker reports as unexpected.\<close>

definition terminal_error :: "string \<Rightarrow> attempt_result" where
  "terminal_error code = (if validate_processing_error_code code then TerminalError code else UnexpectedError)"

definition store_artifacts ::
  "upload_settings \<Rightarrow> artifact_calls \<Rightarrow> processing_claim \<Rightarrow> parsed_report \<Rightarrow> attempt_result" where
  "store_artifacts settings calls c p =
     (case write_normalized calls of
        Inl e \<Rightarrow> write_failure e
      | Inr n \<Rightarrow>
        (case write_profile calls of
           Inl e \<Rightarrow> write_failure e
         | Inr q \<Rightarrow>
             if object_length n \<noteq> parsed_normalized_length p
             then RetryableError ''artifact_storage_unavailable''
             else if object_length q \<noteq> parsed_profile_length p
             then RetryableError ''artifact_storage_unavailable''
             else Processed
               \<lparr> out_storage_bucket = claim_storage_bucket c,
                 out_normalized_storage_key = normalized_key (s3_upload_prefix settings) c,
                 out_normalized_storage_version_id = object_version_id n,
                 out_normalized_etag = object_etag n,
                 out_normalized_size_bytes = object_length n,
                 out_profile_storage_key = profile_key (s3_upload_prefix settings) c,
                 out_profile_storage_version_id = object_version_id q,
                 out_profile_etag = object_etag q,
                 out_record_count = parsed_record_count p,
                 out_sheet_count = parsed_sheet_count p \<rparr>))"

definition process_artifact ::
  "upload_settings \<Rightarrow> artifact_calls \<Rightarrow> processing_claim \<Rightarrow> attempt_result" where
  "process_artifact settings calls c =
     (if \<not> s3_uploads_enabled settings
        \<or> (case s3_upload_bucket settings of None \<Rightarrow> True
           | Some bucket \<Rightarrow> bucket = [] \<or> bucket \<noteq> claim_storage_bucket c)
      then RetryableError ''processing_storage_unavailable''
      else case bucket_security calls of
        Some S3BucketSecurityError \<Rightarrow> TerminalError ''processing_storage_security_invalid''
      | Some _ \<Rightarrow> RetryableError ''processing_storage_unavailable''
      | None \<Rightarrow>
        (case read_object calls of
           Inl S3ObjectNotFoundError \<Rightarrow> TerminalError ''source_object_missing''
         | Inl _ \<Rightarrow> RetryableError ''source_storage_unavailable''
         | Inr content \<Rightarrow>
             if int (length content) \<noteq> claim_expected_size_bytes c
             then TerminalError ''source_size_mismatch''
             else case parse_content calls content of
               Inl SuspiciousReportContentError \<Rightarrow> TerminalError ''source_content_invalid''
             | Inl (ReportParsingError code) \<Rightarrow> terminal_error code
             | Inl MalformedReportError \<Rightarrow> TerminalError ''report_malformed''
             | Inl OtherParseError \<Rightarrow> UnexpectedError
             | Inr p \<Rightarrow> store_artifacts settings calls c p))"

section \<open>One attempt\<close>

definition REPORT_PROCESSING_INFRASTRUCTURE_RETRY_DELAY :: time where
  "REPORT_PROCESSING_INFRASTRUCTURE_RETRY_DELAY = seconds 30"
definition REPORT_PROCESSING_LEASE_RETRY_BUFFER :: time where
  "REPORT_PROCESSING_LEASE_RETRY_BUFFER = seconds 5"

datatype task_status = Status_completed | Status_failed | Status_retrying | Status_deferred
  | Status_ignored

record task_outcome =
  task_status :: task_status
  retry_after_seconds :: "int option"

text \<open>\<open>max(1, math.ceil(delay.total_seconds()))\<close> over microseconds.\<close>

definition retry_seconds :: "time \<Rightarrow> int" where
  "retry_seconds delay = max 1 (- ((- delay) div microseconds_per_second))"

definition outcome :: "task_status \<Rightarrow> int option \<Rightarrow> task_outcome" where
  "outcome s r = \<lparr> task_status = s, retry_after_seconds = r \<rparr>"

definition retry_after_lease :: task_outcome where
  "retry_after_lease = outcome Status_retrying
     (Some (retry_seconds (REPORT_PROCESSING_LEASE_DURATION + REPORT_PROCESSING_LEASE_RETRY_BUFFER)))"

text \<open>\<open>_claim_job\<close>: the claim or the outcome of the delivery, and the database.  A \<open>SQLAlchemyError\<close>
  comes from the commit or from a database that is down; \<open>now'\<close> is the clock of the second query.\<close>

definition worker_claim_job ::
  "bool \<Rightarrow> uuid \<Rightarrow> time \<Rightarrow> time \<Rightarrow> uuid \<Rightarrow> db \<Rightarrow> (task_outcome + processing_claim) \<times> db" where
  "worker_claim_job claim_down token now now' i d =
     (if claim_down
      then (Inl (outcome Status_retrying
              (Some (retry_seconds REPORT_PROCESSING_INFRASTRUCTURE_RETRY_DELAY))), d)
      else case claim_job token now REPORT_PROCESSING_LEASE_DURATION i d of
        (Inl e, d') \<Rightarrow> (Inl (outcome Status_retrying
              (Some (retry_seconds REPORT_PROCESSING_INFRASTRUCTURE_RETRY_DELAY))), d')
      | (Inr (Some c), d') \<Rightarrow> (Inr c, d')
      | (Inr None, d') \<Rightarrow>
          (case claim_retry_delay now' i d' of
             None \<Rightarrow> (Inl (outcome Status_ignored None), d')
           | Some delay \<Rightarrow> (Inl (outcome Status_deferred (Some (retry_seconds delay))), d')))"

text \<open>The three ways to settle a claim; a \<open>ValueError\<close> of the service is not caught.\<close>

definition fail_claim ::
  "bool \<Rightarrow> time \<Rightarrow> string \<Rightarrow> processing_claim \<Rightarrow> db \<Rightarrow> (processing_error + task_outcome) \<times> db" where
  "fail_claim settle_down now code c d =
     (if settle_down then (Inr retry_after_lease, d)
      else case fail_job (claim_job_id c) (claim_lease_token c) code now d of
        (Inl ProcessingValueError, d') \<Rightarrow> (Inl ProcessingValueError, d')
      | (Inl e, d') \<Rightarrow> (Inr retry_after_lease, d')
      | (Inr changed, d') \<Rightarrow>
          (Inr (outcome (if changed then Status_failed else Status_ignored) None), d'))"

definition retry_claim ::
  "bool \<Rightarrow> time \<Rightarrow> string \<Rightarrow> processing_claim \<Rightarrow> db \<Rightarrow> (processing_error + task_outcome) \<times> db" where
  "retry_claim settle_down now code c d =
     (if settle_down then (Inr retry_after_lease, d)
      else case retry_job (claim_job_id c) (claim_lease_token c) code
             REPORT_PROCESSING_INFRASTRUCTURE_RETRY_DELAY now d of
        (Inl ProcessingValueError, d') \<Rightarrow> (Inl ProcessingValueError, d')
      | (Inl e, d') \<Rightarrow> (Inr retry_after_lease, d')
      | (Inr False, d') \<Rightarrow> (Inr (outcome Status_ignored None), d')
      | (Inr True, d') \<Rightarrow>
          (case job_by_id d' (claim_job_id c) of
             Some j \<Rightarrow> if job_status j = FAILED then (Inr (outcome Status_failed None), d')
                      else (Inr (outcome Status_retrying
                             (Some (retry_seconds REPORT_PROCESSING_INFRASTRUCTURE_RETRY_DELAY))), d')
           | None \<Rightarrow> (Inr (outcome Status_retrying
                             (Some (retry_seconds REPORT_PROCESSING_INFRASTRUCTURE_RETRY_DELAY))), d')))"

definition complete_claim ::
  "bool \<Rightarrow> time \<Rightarrow> processing_output \<Rightarrow> processing_claim \<Rightarrow> db
   \<Rightarrow> (processing_error + task_outcome) \<times> db" where
  "complete_claim settle_down now out c d =
     (if settle_down then (Inr retry_after_lease, d)
      else case complete_job (claim_job_id c) (claim_lease_token c) out now d of
        (Inl ProcessingValueError, d') \<Rightarrow> (Inl ProcessingValueError, d')
      | (Inl e, d') \<Rightarrow> (Inr retry_after_lease, d')
      | (Inr changed, d') \<Rightarrow>
          (Inr (outcome (if changed then Status_completed else Status_ignored) None), d'))"

definition settle_claim ::
  "bool \<Rightarrow> time \<Rightarrow> attempt_result \<Rightarrow> processing_claim \<Rightarrow> db
   \<Rightarrow> (processing_error + task_outcome) \<times> db" where
  "settle_claim settle_down now result c d =
     (case result of
        TerminalError code \<Rightarrow> fail_claim settle_down now code c d
      | RetryableError code \<Rightarrow> retry_claim settle_down now code c d
      | UnexpectedError \<Rightarrow> fail_claim settle_down now ''processing_internal_error'' c d
      | Processed out \<Rightarrow> complete_claim settle_down now out c d)"

text \<open>The instants and failures of one run.\<close>

record attempt_context =
  attempt_token :: uuid
  claimed_now :: time
  delay_now :: time
  settled_now :: time
  claim_down :: bool
  settle_down :: bool

definition execute_report_processing_job ::
  "attempt_context \<Rightarrow> (processing_claim \<Rightarrow> attempt_result) \<Rightarrow> (db \<Rightarrow> db) \<Rightarrow> uuid \<Rightarrow> db
   \<Rightarrow> (processing_error + task_outcome) \<times> db" where
  "execute_report_processing_job ctx process env i d =
     (case worker_claim_job (claim_down ctx) (attempt_token ctx) (claimed_now ctx) (delay_now ctx) i d of
        (Inl out, d1) \<Rightarrow> (Inr out, d1)
      | (Inr c, d1) \<Rightarrow> settle_claim (settle_down ctx) (settled_now ctx) (process c) c (env d1))"

section \<open>The Celery task\<close>

datatype task_result = TaskRejected | TaskReturned task_status | TaskRetried int | TaskCrashed

definition process_report_upload ::
  "(string \<Rightarrow> uuid option) \<Rightarrow> attempt_context \<Rightarrow> (processing_claim \<Rightarrow> attempt_result) \<Rightarrow> (db \<Rightarrow> db)
   \<Rightarrow> string \<Rightarrow> db \<Rightarrow> task_result \<times> db" where
  "process_report_upload parse_uuid ctx process env job d =
     (case parse_uuid job of
        None \<Rightarrow> (TaskRejected, d)
      | Some i \<Rightarrow>
          (case execute_report_processing_job ctx process env i d of
             (Inl e, d') \<Rightarrow> (TaskCrashed, d')
           | (Inr out, d') \<Rightarrow>
               (case retry_after_seconds out of
                  Some n \<Rightarrow> (TaskRetried n, d')
                | None \<Rightarrow> (TaskReturned (task_status out), d'))))"

section \<open>What an attempt leaves behind\<close>

lemma safe_internal_codes [simp]:
  "safe_error_code ''processing_internal_error''" "safe_error_code ''processing_storage_unavailable''"
  "safe_error_code ''processing_storage_security_invalid''" "safe_error_code ''source_object_missing''"
  "safe_error_code ''source_storage_unavailable''" "safe_error_code ''source_size_mismatch''"
  "safe_error_code ''source_content_invalid''" "safe_error_code ''report_malformed''"
  "safe_error_code ''artifact_storage_unavailable''"
  by (code_simp)+

definition safe_result :: "attempt_result \<Rightarrow> bool" where
  "safe_result r = (case r of TerminalError code \<Rightarrow> safe_error_code code
     | RetryableError code \<Rightarrow> safe_error_code code | _ \<Rightarrow> True)"

text \<open>Every error code that the processor raises passes the service's validation.\<close>

lemma process_artifact_safe: "safe_result (process_artifact settings calls c)"
  by (simp add: process_artifact_def safe_result_def store_artifacts_def write_failure_def terminal_error_def
      validate_processing_error_code_def
      split: option.splits storage_error.splits sum.splits parse_failure.splits)

lemma claim_job_holder:
  assumes "claim_job token now lease i d = (Inr (Some c), d1)"
  shows "locked_processing_job i token d1 \<noteq> None" "claim_job_id c = i" "claim_lease_token c = token"
proof -
  obtain j where j: "job_by_id d i = Some j" "d1 = save_job (claimed token now lease j) d"
    "claim_lease_token c = token" "claim_job_id c = i" using assms by (rule claim_job_success)
  with job_by_id_SomeD [OF j(1)] show "locked_processing_job i token d1 \<noteq> None" "claim_job_id c = i"
    "claim_lease_token c = token"
    by (simp_all add: locked_processing_job_def job_by_id_self)
qed

text \<open>The state in which an attempt that still holds its lease leaves the job.\<close>

definition settled_as :: "task_outcome \<Rightarrow> report_processing_job \<Rightarrow> bool" where
  "settled_as out j \<longleftrightarrow> lease_token j = None \<and>
     ((task_status out = Status_completed \<and> job_status j = COMPLETED \<and> retry_after_seconds out = None)
    \<or> (task_status out = Status_failed \<and> job_status j = FAILED \<and> retry_after_seconds out = None)
    \<or> (task_status out = Status_retrying \<and> job_status j = QUEUED \<and> retry_after_seconds out = Some 30))"

lemma retry_30: "retry_seconds REPORT_PROCESSING_INFRASTRUCTURE_RETRY_DELAY = 30"
  by (simp add: retry_seconds_def REPORT_PROCESSING_INFRASTRUCTURE_RETRY_DELAY_def duration_defs)

lemma settle_claim_settles:
  assumes ok: "job_table_ok d" and lock: "locked_processing_job (claim_job_id c) (claim_lease_token c) d \<noteq> None"
    and clock: "job_clock_ok now (claim_job_id c) d" and safe: "safe_result r"
    and out: "\<And>out. r = Processed out \<Longrightarrow> validate_output out \<and> fresh_output out d"
  shows "\<exists>out d' j. settle_claim False now r c d = (Inr out, d') \<and> job_by_id d' (claim_job_id c) = Some j
    \<and> settled_as out j"
proof -
  obtain j where lj: "locked_processing_job (claim_job_id c) (claim_lease_token c) d = Some j" using lock by blast
  have j: "job_by_id d (claim_job_id c) = Some j" "job_status j = PROCESSING"
    using locked_processing_job_SomeD [OF lj] by auto
  note id = job_by_id_SomeD [OF j(1)]
  have live: "live_job j" "clock_ok now j" using clock j by (simp_all add: job_clock_ok_def live_job_def)
  note term_ok = terminal_commits [where x = True, OF ok j(1) live]
  have fail: "\<exists>out d' j. fail_claim False now code c d = (Inr out, d') \<and> job_by_id d' (claim_job_id c) = Some j
      \<and> settled_as out j" if "safe_error_code code" for code
    using that lj term_ok [of code] id
    by (simp add: fail_claim_def fail_job_def validate_processing_error_code_def job_by_id_self [OF j(1)]
        settled_as_def outcome_def)
  have retry: "\<exists>out d' j. retry_claim False now code c d = (Inr out, d') \<and> job_by_id d' (claim_job_id c) = Some j
      \<and> settled_as out j" if "safe_error_code code" for code
  proof -
    have at: "job_created_at j \<le> now + REPORT_PROCESSING_INFRASTRUCTURE_RETRY_DELAY"
      "\<not> REPORT_PROCESSING_INFRASTRUCTURE_RETRY_DELAY < 0"
      using live(2) by (simp_all add: clock_ok_def REPORT_PROCESSING_INFRASTRUCTURE_RETRY_DELAY_def duration_defs)
    show ?thesis
      using that lj id at term_ok [of code] requeued_commits [where x = True, OF ok j at(1), of code]
      by (simp add: retry_claim_def retry_job_def validate_processing_error_code_def job_by_id_self [OF j(1)]
          settled_as_def outcome_def retry_30)
  qed
  show ?thesis
  proof (cases r)
    case (Processed out)
    with assms(5) [OF this] lj completed_commits [where x = True, OF ok j live(2), of out] id show ?thesis
      by (simp add: settle_claim_def complete_claim_def complete_job_def job_by_id_self [OF j(1)]
          settled_as_def outcome_def)
  next
    case (TerminalError code)
    with fail safe show ?thesis by (simp add: settle_claim_def safe_result_def)
  next
    case (RetryableError code)
    with retry safe show ?thesis by (simp add: settle_claim_def safe_result_def)
  next
    case UnexpectedError
    with fail show ?thesis by (simp add: settle_claim_def)
  qed
qed

section \<open>Properties\<close>


definition sample_ctx :: attempt_context where
  "sample_ctx = \<lparr> attempt_token = 7, claimed_now = 20, delay_now = 20, settled_now = 30,
     claim_down = False, settle_down = False \<rparr>"

definition sample_calls :: artifact_calls where
  "sample_calls = \<lparr> bucket_security = None, read_object = Inl S3ObjectNotFoundError,
     parse_content = (\<lambda>_. Inl MalformedReportError), write_normalized = Inl S3StorageError,
     write_profile = Inl S3StorageError \<rparr>"

definition sample_settings :: upload_settings where
  "sample_settings = \<lparr> s3_uploads_enabled = True, s3_upload_bucket = Some ''bucket'',
     s3_upload_prefix = ''p'' \<rparr>"

definition sample_claim_of_job :: processing_claim where
  "sample_claim_of_job = claim_of 7 sample_job sample_upload"


text \<open>
  The artifacts of different jobs never share a storage key: the keys of a claim's normalized
  and profile objects determine the job, and the two kinds are never equal.
\<close>

theorem artifact_keys_distinct:
  assumes "claim_job_id c < 2 ^ 128" and "claim_job_id c' < 2 ^ 128"
  shows "(normalized_key prefix c = normalized_key prefix c' \<longrightarrow> claim_job_id c = claim_job_id c')
    \<and> (profile_key prefix c = profile_key prefix c' \<longrightarrow> claim_job_id c = claim_job_id c')
    \<and> normalized_key prefix c \<noteq> profile_key prefix c'"
proof -
  have split: "a @ ''/processed/'' @ b @ r = a' @ ''/processed/'' @ b' @ r' \<longleftrightarrow> a = a' \<and> b = b' \<and> r = r'"
    if "length a = length a'" "length b = length b'" for a b r a' b' r' :: string
    using that by (auto simp: append_eq_append_conv)
  have "uuid_str (claim_job_id c) = uuid_str (claim_job_id c') \<Longrightarrow> claim_job_id c = claim_job_id c'"
    using uuid_str_inj assms by blast
  then show ?thesis
    by (simp add: normalized_key_def profile_key_def split)
qed

theorem artifact_keys_distinct_witness:
  "normalized_key ''p'' sample_claim_of_job \<noteq> profile_key ''p'' sample_claim_of_job"
  using artifact_keys_distinct [of sample_claim_of_job sample_claim_of_job "''p''"]
  by (simp add: sample_claim_of_job_def claim_of_def sample_job_defs)

end
