(* ===== verification/Report_Content.thy ===== *)
theory Report_Content
  imports PyStrings
begin

text \<open>
  The validation of file names and file contents in \<open>app/services/uploads.py\<close>.  Bytes are 8-bit
  words.  The containers are opened by third-party packages: \<open>open_ole\<close> stands for \<open>olefile\<close> and
  \<open>open_zip\<close> for \<open>zipfile\<close>, each \<open>None\<close> when the file is not such a container or the package raises
  one of the exceptions the code catches.  NFKC normalization, the forbidden Unicode categories
  and case folding are arguments.
\<close>

type_synonym byte = "8 word"

section \<open>File names\<close>

definition CANONICAL_CONTENT_TYPES :: "(string \<times> string) list" where
  "CANONICAL_CONTENT_TYPES =
     [(''csv'', ''text/csv''), (''xls'', ''application/vnd.ms-excel''),
      (''xlsx'', ''application/vnd.openxmlformats-officedocument.spreadsheetml.sheet'')]"

definition DANGEROUS_FILENAME_SUFFIXES :: "string list" where
  "DANGEROUS_FILENAME_SUFFIXES = [''app'', ''bat'', ''cmd'', ''com'', ''dll'', ''exe'', ''hta'', ''html'',
     ''jar'', ''js'', ''jse'', ''lnk'', ''msi'', ''php'', ''ps1'', ''py'', ''scr'', ''sh'', ''svg'', ''vbe'', ''vbs'', ''wsf'']"

record file_create =
  fc_filename :: string
  fc_content_type :: string
  fc_size_bytes :: int

record file_metadata =
  fm_original_filename :: string
  fm_extension :: string
  fm_content_type :: string
  fm_size_bytes :: int

datatype filename_rejection = NotNormalized | HiddenOrDotTerminated | PathSeparators | ControlCharacters
  | TooManyBytes | UnsupportedType | ActiveContentSuffix | WrongContentType

definition filename_suffixes :: "string \<Rightarrow> string list" where
  "filename_suffixes filename =
     map py_lower (filter (\<lambda>part. part \<noteq> []) (tl (split_on (CHR ''.'') filename)))"

definition validate_report_upload_file ::
  "(string \<Rightarrow> string) \<Rightarrow> (char \<Rightarrow> bool) \<Rightarrow> file_create \<Rightarrow> filename_rejection + file_metadata" where
  "validate_report_upload_file nfkc forbidden payload =
     (let filename = fc_filename payload in
      if filename \<noteq> py_strip filename \<or> nfkc filename \<noteq> filename then Inl NotNormalized
      else if has_prefix ''.'' filename \<or> has_suffix ''.'' filename then Inl HiddenOrDotTerminated
      else if has_infix ''/'' filename \<or> has_infix [char_of (92 :: nat)] filename \<or> has_infix ''..'' filename
      then Inl PathSeparators
      else if \<exists>c \<in> set filename. forbidden c then Inl ControlCharacters
      else if 255 < utf8_length filename then Inl TooManyBytes
      else
        let suffixes = filename_suffixes filename in
        if suffixes = [] \<or> map_of CANONICAL_CONTENT_TYPES (last suffixes) = None then Inl UnsupportedType
        else if \<exists>suffix \<in> set (butlast suffixes). suffix \<in> set DANGEROUS_FILENAME_SUFFIXES
        then Inl ActiveContentSuffix
        else case map_of CANONICAL_CONTENT_TYPES (last suffixes) of
          None \<Rightarrow> Inl UnsupportedType
        | Some expected \<Rightarrow>
            if fc_content_type payload \<noteq> expected then Inl WrongContentType
            else Inr \<lparr> fm_original_filename = filename, fm_extension = last suffixes,
                       fm_content_type = expected, fm_size_bytes = fc_size_bytes payload \<rparr>)"

section \<open>CSV\<close>

definition bytes_of :: "nat list \<Rightarrow> byte list" where
  "bytes_of ns = map word_of_nat ns"

definition XLS_MAGIC :: "byte list" where
  "XLS_MAGIC = bytes_of [208, 207, 17, 224, 161, 177, 26, 225]"

definition KNOWN_BINARY_PREFIXES :: "byte list list" where
  "KNOWN_BINARY_PREFIXES =
     [bytes_of [127, 69, 76, 70], bytes_of [37, 80, 68, 70], bytes_of [77, 90], bytes_of [80, 75, 3, 4],
      bytes_of [82, 97, 114, 33, 26, 7], bytes_of [137, 80, 78, 71, 13, 10, 26, 10],
      bytes_of [71, 73, 70, 56, 55, 97], bytes_of [71, 73, 70, 56, 57, 97], XLS_MAGIC]"

definition starts_with :: "byte list \<Rightarrow> byte list \<Rightarrow> bool" where
  "starts_with content prefix \<longleftrightarrow> take (length prefix) content = prefix"

text \<open>
  Python's strict UTF-8 decoder: the code points of the bytes, or \<open>None\<close> where it raises
  \<open>UnicodeDecodeError\<close>.  Overlong forms, surrogates, values above U+10FFFF and truncated sequences
  are errors.
\<close>

definition continuation :: "nat \<Rightarrow> bool" where
  "continuation n \<longleftrightarrow> 128 \<le> n \<and> n < 192"

fun utf8_decode :: "nat list \<Rightarrow> nat list option" where
  "utf8_decode [] = Some []"
| "utf8_decode (a # bs) =
     (if a < 128 then map_option ((#) a) (utf8_decode bs)
      else if 194 \<le> a \<and> a < 224 then
        (case bs of
           b # cs \<Rightarrow> if continuation b
             then map_option ((#) ((a - 192) * 64 + (b - 128))) (utf8_decode cs) else None
         | [] \<Rightarrow> None)
      else if 224 \<le> a \<and> a < 240 then
        (case bs of
           b # c # cs \<Rightarrow>
             if continuation b \<and> continuation c \<and> (a = 224 \<longrightarrow> 160 \<le> b) \<and> (a = 237 \<longrightarrow> b < 160)
             then map_option ((#) ((a - 224) * 4096 + (b - 128) * 64 + (c - 128))) (utf8_decode cs)
             else None
         | _ \<Rightarrow> None)
      else if 240 \<le> a \<and> a < 245 then
        (case bs of
           b # c # e # cs \<Rightarrow>
             if continuation b \<and> continuation c \<and> continuation e \<and> (a = 240 \<longrightarrow> 144 \<le> b)
               \<and> (a = 244 \<longrightarrow> b < 144)
             then map_option ((#) ((a - 240) * 262144 + (b - 128) * 4096 + (c - 128) * 64 + (e - 128)))
                    (utf8_decode cs)
             else None
         | _ \<Rightarrow> None)
      else None)"

text \<open>\<open>utf-8-sig\<close> drops one leading byte order mark.\<close>

definition decode_utf8_sig :: "byte list \<Rightarrow> nat list option" where
  "decode_utf8_sig content =
     (let ns = map unat content
      in utf8_decode (if take 3 ns = [239, 187, 191] then drop 3 ns else ns))"

datatype content_rejection = Content_signature_mismatch | Csv_not_utf8 | Csv_contains_control_bytes
  | Xls_structure_rejected | Xls_encrypted_rejected | Xls_active_content_rejected
  | Xlsx_structure_rejected | Xlsx_active_content_rejected | Xlsx_expansion_limit_exceeded
  | Xlsx_crc_failed

primrec content_rejection_code :: "content_rejection \<Rightarrow> string" where
  "content_rejection_code Content_signature_mismatch = ''content_signature_mismatch''"
| "content_rejection_code Csv_not_utf8 = ''csv_not_utf8''"
| "content_rejection_code Csv_contains_control_bytes = ''csv_contains_control_bytes''"
| "content_rejection_code Xls_structure_rejected = ''xls_structure_rejected''"
| "content_rejection_code Xls_encrypted_rejected = ''xls_encrypted_rejected''"
| "content_rejection_code Xls_active_content_rejected = ''xls_active_content_rejected''"
| "content_rejection_code Xlsx_structure_rejected = ''xlsx_structure_rejected''"
| "content_rejection_code Xlsx_active_content_rejected = ''xlsx_active_content_rejected''"
| "content_rejection_code Xlsx_expansion_limit_exceeded = ''xlsx_expansion_limit_exceeded''"
| "content_rejection_code Xlsx_crc_failed = ''xlsx_crc_failed''"

definition CSV_SAMPLE_BYTES :: nat where
  "CSV_SAMPLE_BYTES = 64 * 1024"

definition validate_csv_content :: "byte list \<Rightarrow> content_rejection option" where
  "validate_csv_content content =
     (if content = [] \<or> (\<exists>p \<in> set KNOWN_BINARY_PREFIXES. starts_with content p)
      then Some Content_signature_mismatch
      else
        let sample = take CSV_SAMPLE_BYTES content
        in if 0 \<in> set sample then Some Content_signature_mismatch
           else case decode_utf8_sig sample of
             None \<Rightarrow> Some Csv_not_utf8
           | Some decoded \<Rightarrow>
               if filter (\<lambda>n. n < 32 \<and> n \<notin> {9, 13, 10}) decoded \<noteq> []
               then Some Csv_contains_control_bytes else None)"

section \<open>XLS\<close>

definition XLS_BOF_RECORD_IDS :: "nat list" where
  "XLS_BOF_RECORD_IDS = [0x0009, 0x0209, 0x0409, 0x0809]"
definition XLS_ENCRYPTION_RECORD_ID :: nat where "XLS_ENCRYPTION_RECORD_ID = 0x002F"
definition XLS_VBA_PROJECT_RECORD_ID :: nat where "XLS_VBA_PROJECT_RECORD_ID = 0x00D3"
definition XLS_MACRO_SHEET_TYPE :: nat where "XLS_MACRO_SHEET_TYPE = 0x0040"
definition XLS_DANGEROUS_STORAGE_NAMES :: "string list" where
  "XLS_DANGEROUS_STORAGE_NAMES = [''_vba_project_cur'', ''macros'', ''objectpool'', ''vba'']"

text \<open>\<open>unpack_from("<H", workbook, offset)\<close>.\<close>

definition unpack_H :: "byte list \<Rightarrow> nat \<Rightarrow> nat" where
  "unpack_H w offset = unat (w ! offset) + 256 * unat (w ! (offset + 1))"

text \<open>The loop over the records; every record has at least its four bytes of header, so the offset
  grows.\<close>

function scan_xls_records :: "byte list \<Rightarrow> nat \<Rightarrow> content_rejection option" where
  "scan_xls_records w offset =
     (if offset + 4 \<le> length w then
        let record_id = unpack_H w offset;
            record_size = unpack_H w (offset + 2);
            record_end = offset + 4 + record_size
        in if length w < record_end then Some Xls_structure_rejected
           else if record_id = XLS_ENCRYPTION_RECORD_ID then Some Xls_encrypted_rejected
           else if record_id = XLS_VBA_PROJECT_RECORD_ID then Some Xls_active_content_rejected
           else if record_id \<in> set XLS_BOF_RECORD_IDS \<and> 4 \<le> record_size
             \<and> unpack_H w (offset + 6) = XLS_MACRO_SHEET_TYPE
           then Some Xls_active_content_rejected
           else scan_xls_records w record_end
      else None)"
  by pat_completeness auto
termination
  by (relation "measure (\<lambda>(w, offset). length w - offset)") auto

declare scan_xls_records.simps [simp del]

definition validate_xls_workbook_stream :: "byte list \<Rightarrow> content_rejection option" where
  "validate_xls_workbook_stream w =
     (if length w < 8 then Some Xls_structure_rejected
      else if unpack_H w 0 \<notin> set XLS_BOF_RECORD_IDS \<or> unpack_H w 2 < 4 then Some Xls_structure_rejected
      else if length w < 4 + unpack_H w 2 then Some Xls_structure_rejected
      else if unpack_H w 6 \<noteq> 0x0005 then Some Xls_structure_rejected
      else scan_xls_records w 0)"

text \<open>An opened compound file: its paths in order, and per path the size and the bytes read, \<open>None\<close>
  where \<open>olefile\<close> raises.\<close>

record ole_file =
  ole_paths :: "string list list"
  ole_size :: "string list \<Rightarrow> int option"
  ole_read :: "string list \<Rightarrow> byte list option"

definition validate_xls_content ::
  "(string \<Rightarrow> string) \<Rightarrow> (byte list \<Rightarrow> ole_file option) \<Rightarrow> byte list \<Rightarrow> content_rejection option" where
  "validate_xls_content casefold open_ole content =
     (if \<not> starts_with content XLS_MAGIC then Some Content_signature_mismatch
      else case open_ole content of
        None \<Rightarrow> Some Xls_structure_rejected
      | Some compound \<Rightarrow>
          if \<exists>path \<in> set (ole_paths compound). \<exists>segment \<in> set path.
               casefold segment \<in> set XLS_DANGEROUS_STORAGE_NAMES \<or> has_prefix ''mbd'' (casefold segment)
          then Some Xls_active_content_rejected
          else case find (\<lambda>path. path \<noteq> [] \<and> casefold (last path) \<in> {''book'', ''workbook''})
                      (ole_paths compound) of
            None \<Rightarrow> Some Xls_structure_rejected
          | Some workbook_path \<Rightarrow>
              (case ole_size compound workbook_path of
                 None \<Rightarrow> Some Xls_structure_rejected
               | Some workbook_size \<Rightarrow>
                   if workbook_size \<le> 0 \<or> int (length content) < workbook_size
                   then Some Xls_structure_rejected
                   else case ole_read compound workbook_path of
                     None \<Rightarrow> Some Xls_structure_rejected
                   | Some stream \<Rightarrow>
                       let workbook = take (nat workbook_size) stream
                       in if int (length workbook) \<noteq> workbook_size then Some Xls_structure_rejected
                          else validate_xls_workbook_stream workbook))"

section \<open>XLSX\<close>

definition XLSX_REQUIRED_PARTS :: "string list" where
  "XLSX_REQUIRED_PARTS = [''[Content_Types].xml'', ''_rels/.rels'', ''xl/workbook.xml'']"
definition XLSX_FORBIDDEN_PART_PREFIXES :: "string list" where
  "XLSX_FORBIDDEN_PART_PREFIXES = [''customui/'', ''xl/activex/'', ''xl/embeddings/'', ''xl/externallinks/'']"
definition XLSX_FORBIDDEN_PART_NAMES :: "string list" where
  "XLSX_FORBIDDEN_PART_NAMES = [''xl/vbaproject.bin'']"
definition XLSX_MAX_ENTRIES :: nat where "XLSX_MAX_ENTRIES = 10000"
definition XLSX_MAX_UNCOMPRESSED_BYTES :: int where
  "XLSX_MAX_UNCOMPRESSED_BYTES = 250 * 1024 * 1024"
definition XLSX_MAX_COMPRESSION_RATIO :: int where "XLSX_MAX_COMPRESSION_RATIO = 100"

record zip_entry =
  ze_filename :: string
  ze_flag_bits :: int
  ze_file_size :: int
  ze_compress_size :: int

text \<open>The members that are read: whether the content types part, read as bytes, contains the type of
  a workbook, and whether a member fails its checksum; \<open>None\<close> where \<open>zipfile\<close> raises.\<close>

record zip_file =
  zip_entries :: "zip_entry list"
  zip_workbook_type :: "bool option"
  zip_bad_member :: "bool option"

definition safe_xlsx_path :: "string \<Rightarrow> bool" where
  "safe_xlsx_path name \<longleftrightarrow>
     \<not> has_infix [char_of (92 :: nat)] name
   \<and> \<not> has_prefix ''/'' name
   \<and> ''..'' \<notin> set (filter (\<lambda>part. part \<noteq> [] \<and> part \<noteq> ''.'') (split_on (CHR ''/'') name))"

text \<open>The loop over the entries with its two running totals.\<close>

fun scan_xlsx_entries ::
  "(string \<Rightarrow> string) \<Rightarrow> zip_entry list \<Rightarrow> int \<Rightarrow> int \<Rightarrow> content_rejection + int \<times> int" where
  "scan_xlsx_entries casefold [] uncompressed compressed = Inr (uncompressed, compressed)"
| "scan_xlsx_entries casefold (e # es) uncompressed compressed =
     (if \<not> safe_xlsx_path (ze_filename e) \<or> ze_flag_bits e mod 2 = 1 then Inl Xlsx_structure_rejected
      else if casefold (ze_filename e) \<in> set XLSX_FORBIDDEN_PART_NAMES
        \<or> (\<exists>p \<in> set XLSX_FORBIDDEN_PART_PREFIXES. has_prefix p (casefold (ze_filename e)))
      then Inl Xlsx_active_content_rejected
      else scan_xlsx_entries casefold es (uncompressed + ze_file_size e)
             (compressed + max (ze_compress_size e) 1))"

text \<open>The quotient of the totals is a float; below the limit of 250 MiB it exceeds 100 exactly when
  the integers do.\<close>

definition validate_xlsx_content ::
  "(string \<Rightarrow> string) \<Rightarrow> (byte list \<Rightarrow> zip_file option) \<Rightarrow> byte list \<Rightarrow> content_rejection option" where
  "validate_xlsx_content casefold open_zip content =
     (case open_zip content of
        None \<Rightarrow> Some Content_signature_mismatch
      | Some archive \<Rightarrow>
          if zip_entries archive = [] \<or> XLSX_MAX_ENTRIES < length (zip_entries archive)
          then Some Xlsx_structure_rejected
          else if \<exists>part \<in> set XLSX_REQUIRED_PARTS. part \<notin> set (map ze_filename (zip_entries archive))
          then Some Xlsx_structure_rejected
          else case scan_xlsx_entries casefold (zip_entries archive) 0 0 of
            Inl e \<Rightarrow> Some e
          | Inr (total_uncompressed, total_compressed) \<Rightarrow>
              if XLSX_MAX_UNCOMPRESSED_BYTES < total_uncompressed then Some Xlsx_expansion_limit_exceeded
              else if int (length content) < total_uncompressed
                \<and> XLSX_MAX_COMPRESSION_RATIO * total_compressed < total_uncompressed
              then Some Xlsx_expansion_limit_exceeded
              else case zip_workbook_type archive of
                None \<Rightarrow> Some Content_signature_mismatch
              | Some False \<Rightarrow> Some Xlsx_structure_rejected
              | Some True \<Rightarrow>
                  (case zip_bad_member archive of
                     None \<Rightarrow> Some Content_signature_mismatch
                   | Some True \<Rightarrow> Some Xlsx_crc_failed
                   | Some False \<Rightarrow> None))"

text \<open>The packages and Unicode functions that the validation calls.\<close>

record content_packages =
  pk_casefold :: "string \<Rightarrow> string"
  pk_open_ole :: "byte list \<Rightarrow> ole_file option"
  pk_open_zip :: "byte list \<Rightarrow> zip_file option"

text \<open>\<open>Inr\<close> a verdict; \<open>Inl\<close> the \<open>ValueError\<close> of an unsupported extension.\<close>

definition validate_report_content ::
  "content_packages \<Rightarrow> string \<Rightarrow> byte list \<Rightarrow> unit + content_rejection option" where
  "validate_report_content pk extension content =
     (if extension = ''csv'' then Inr (validate_csv_content content)
      else if extension = ''xls'' then Inr (validate_xls_content (pk_casefold pk) (pk_open_ole pk) content)
      else if extension = ''xlsx'' then Inr (validate_xlsx_content (pk_casefold pk) (pk_open_zip pk) content)
      else Inl ())"

section \<open>The BIFF stream as a list of records\<close>

definition le16 :: "nat \<Rightarrow> byte list" where
  "le16 n = [word_of_nat (n mod 256), word_of_nat (n div 256)]"

definition encode_record :: "nat \<times> byte list \<Rightarrow> byte list" where
  "encode_record r = le16 (fst r) @ le16 (length (snd r)) @ snd r"

definition fits_16 :: "nat \<times> byte list \<Rightarrow> bool" where
  "fits_16 r \<longleftrightarrow> fst r < 65536 \<and> length (snd r) < 65536"

definition sheet_type :: "byte list \<Rightarrow> nat" where
  "sheet_type payload = unpack_H payload 2"

definition record_allowed :: "nat \<times> byte list \<Rightarrow> bool" where
  "record_allowed r \<longleftrightarrow> fst r \<noteq> XLS_ENCRYPTION_RECORD_ID \<and> fst r \<noteq> XLS_VBA_PROJECT_RECORD_ID
     \<and> \<not> (fst r \<in> set XLS_BOF_RECORD_IDS \<and> 4 \<le> length (snd r) \<and> sheet_type (snd r) = XLS_MACRO_SHEET_TYPE)"

definition is_stream :: "(nat \<times> byte list) list \<Rightarrow> byte list \<Rightarrow> byte list \<Rightarrow> bool" where
  "is_stream rs tail w \<longleftrightarrow> w = concat (map encode_record rs) @ tail \<and> length tail < 4 \<and> list_all fits_16 rs"

lemma unat_lt_256: "unat (b :: byte) < 256"
  using unsigned_less [where ?'a = nat, of b] by simp

lemma unat_word_of_nat_byte: "n < 256 \<Longrightarrow> unat (word_of_nat n :: byte) = n"
  by (simp add: unat_of_nat)

lemma le16_unpack:
  assumes "n + 1 < length w"
  shows "le16 (unpack_H w n) = [w ! n, w ! (n + 1)]" "unpack_H w n < 65536"
proof -
  have lt: "unat (w ! n) < 256" "unat (w ! (n + 1)) < 256" by (rule unat_lt_256)+
  then have "unpack_H w n mod 256 = unat (w ! n)" "unpack_H w n div 256 = unat (w ! (n + 1))"
    by (simp_all add: unpack_H_def)
  then show "le16 (unpack_H w n) = [w ! n, w ! (n + 1)]" by (simp add: le16_def)
  show "unpack_H w n < 65536" using lt by (simp add: unpack_H_def)
qed

lemma length_encode_record [simp]: "length (encode_record r) = 4 + length (snd r)"
  by (simp add: encode_record_def le16_def)

lemma unpack_drop: "unpack_H (drop k w) n = unpack_H w (k + n)" if "k \<le> length w"
  using that by (simp add: unpack_H_def add.assoc)

lemma unpack_Cons:
  "unpack_H (a # b # xs) 0 = unat a + 256 * unat b" "unpack_H (a # b # xs) 2 = unpack_H xs 0"
  "unpack_H (a # b # c # e # xs) 6 = unpack_H xs 2"
proof -
  have "6 = Suc (Suc (Suc (Suc 2)))" by simp
  then show "unpack_H (a # b # c # e # xs) 6 = unpack_H xs 2"
    unfolding unpack_H_def by (simp del: One_nat_def add_2_eq_Suc add_2_eq_Suc')
  show "unpack_H (a # b # xs) 0 = unat a + 256 * unat b" by (simp add: unpack_H_def)
  have "2 = Suc (Suc 0)" by simp
  then show "unpack_H (a # b # xs) 2 = unpack_H xs 0" by (simp add: unpack_H_def)
qed

lemma encode_record_Cons:
  "encode_record r @ w = word_of_nat (fst r mod 256) # word_of_nat (fst r div 256)
     # word_of_nat (length (snd r) mod 256) # word_of_nat (length (snd r) div 256) # snd r @ w"
  by (simp add: encode_record_def le16_def)

lemma byte_pair:
  "n < 65536 \<Longrightarrow> unat (word_of_nat (n mod 256) :: byte) + 256 * unat (word_of_nat (n div 256) :: byte) = n"
proof -
  assume "n < 65536"
  then have "n div 256 < 256" by (simp add: less_mult_imp_div_less)
  then show ?thesis by (simp add: unat_word_of_nat_byte)
qed

lemma unpack_append: "n + 1 < length xs \<Longrightarrow> unpack_H (xs @ ys) n = unpack_H xs n"
  by (simp add: unpack_H_def nth_append)

lemma unpack_encoded:
  assumes "fits_16 r"
  shows "unpack_H (encode_record r @ w) 0 = fst r" "unpack_H (encode_record r @ w) 2 = length (snd r)"
    "4 \<le> length (snd r) \<Longrightarrow> unpack_H (encode_record r @ w) 6 = sheet_type (snd r)"
proof -
  show "unpack_H (encode_record r @ w) 0 = fst r" "unpack_H (encode_record r @ w) 2 = length (snd r)"
    using assms unfolding encode_record_Cons unpack_Cons fits_16_def by (simp_all only: byte_pair)
  show "unpack_H (encode_record r @ w) 6 = sheet_type (snd r)" if "4 \<le> length (snd r)"
    using that unfolding encode_record_Cons unpack_Cons sheet_type_def by (simp add: unpack_append)
qed

text \<open>The next record of a stream long enough to hold its header and its payload.\<close>

lemma next_record:
  assumes "4 \<le> length w" and "4 + unpack_H w 2 \<le> length w"
  shows "w = encode_record (unpack_H w 0, take (unpack_H w 2) (drop 4 w)) @ drop (4 + unpack_H w 2) w"
    "fits_16 (unpack_H w 0, take (unpack_H w 2) (drop 4 w))"
proof -
  have len: "length (take (unpack_H w 2) (drop 4 w)) = unpack_H w 2" using assms by simp
  obtain a b c e rest where w: "w = a # b # c # e # rest"
    using assms(1) by (auto simp: numeral_eq_Suc Suc_le_length_iff)
  have "le16 (unpack_H w 0) = [a, b]" "le16 (unpack_H w 2) = [c, e]"
    using le16_unpack(1) [of 0 w] le16_unpack(1) [of 2 w] by (simp_all add: w numeral_eq_Suc)
  then show "w = encode_record (unpack_H w 0, take (unpack_H w 2) (drop 4 w)) @ drop (4 + unpack_H w 2) w"
    unfolding encode_record_def fst_conv snd_conv len
    by (simp add: w numeral_eq_Suc)
  show "fits_16 (unpack_H w 0, take (unpack_H w 2) (drop 4 w))"
    using le16_unpack(2) [of 0 w] le16_unpack(2) [of 2 w] assms(1) len by (simp add: fits_16_def)
qed

lemma scan_xls_step:
  assumes "offset \<le> length w" and "v = drop offset w"
  shows "scan_xls_records w offset =
    (if length v < 4 then None
     else if length v < 4 + unpack_H v 2 then Some Xls_structure_rejected
     else if unpack_H v 0 = XLS_ENCRYPTION_RECORD_ID then Some Xls_encrypted_rejected
     else if unpack_H v 0 = XLS_VBA_PROJECT_RECORD_ID then Some Xls_active_content_rejected
     else if unpack_H v 0 \<in> set XLS_BOF_RECORD_IDS \<and> 4 \<le> unpack_H v 2 \<and> unpack_H v 6 = XLS_MACRO_SHEET_TYPE
     then Some Xls_active_content_rejected
     else scan_xls_records w (offset + 4 + unpack_H v 2))"
proof -
  have u: "unpack_H v n = unpack_H w (offset + n)" for n using assms by (simp add: unpack_drop)
  have len: "length v = length w - offset" using assms by simp
  show ?thesis
    by (subst scan_xls_records.simps) (use assms(1) len in \<open>auto simp: u Let_def\<close>)
qed

lemma scan_xls_sound:
  "offset \<le> length w \<Longrightarrow> scan_xls_records w offset = None \<Longrightarrow>
     \<exists>rs tail. is_stream rs tail (drop offset w) \<and> list_all record_allowed rs"
proof (induction "length w - offset" arbitrary: offset rule: less_induct)
  case less
  define v where "v = drop offset w"
  note step = scan_xls_step [OF less.prems(1) v_def]
  show ?case
  proof (cases "length v < 4")
    case True
    then have "is_stream [] v v" by (simp add: is_stream_def)
    then show ?thesis by (intro exI [of _ "[]"] exI [of _ v]) (simp add: v_def)
  next
    case False
    have ok: "4 + unpack_H v 2 \<le> length v" "unpack_H v 0 \<noteq> XLS_ENCRYPTION_RECORD_ID"
      "unpack_H v 0 \<noteq> XLS_VBA_PROJECT_RECORD_ID"
      "\<not> (unpack_H v 0 \<in> set XLS_BOF_RECORD_IDS \<and> 4 \<le> unpack_H v 2 \<and> unpack_H v 6 = XLS_MACRO_SHEET_TYPE)"
      and rest: "scan_xls_records w (offset + 4 + unpack_H v 2) = None"
      using less.prems(2) False unfolding step by (auto split: if_splits)
    have off: "offset < length w" using False by (simp add: v_def)
    have next_ok: "offset + 4 + unpack_H v 2 \<le> length w" using ok(1) less.prems(1) by (simp add: v_def)
    let ?r = "(unpack_H v 0, take (unpack_H v 2) (drop 4 v))"
    note nr = next_record [OF _ ok(1)]
    have fits: "fits_16 ?r" and v: "v = encode_record ?r @ drop (4 + unpack_H v 2) v" using nr False by simp_all
    have smaller: "length w - (offset + 4 + unpack_H v 2) < length w - offset" using off next_ok by linarith
    obtain rs tail where rs: "is_stream rs tail (drop (offset + 4 + unpack_H v 2) w)" "list_all record_allowed rs"
      using less.hyps [OF smaller next_ok rest] by blast
    have "drop (4 + unpack_H v 2) v = drop (offset + 4 + unpack_H v 2) w" by (simp add: v_def add.assoc add.commute)
    then have "is_stream (?r # rs) tail v"
      using rs(1) v fits by (simp add: is_stream_def)
    moreover have "record_allowed ?r"
    proof -
      have "4 \<le> unpack_H v 2 \<Longrightarrow> unpack_H v 6 = sheet_type (snd ?r)"
        using unpack_encoded(3) [OF fits, of "drop (4 + unpack_H v 2) v"] v ok(1) by simp
      with ok show ?thesis by (auto simp: record_allowed_def)
    qed
    ultimately show ?thesis using rs(2) by (intro exI [of _ "?r # rs"] exI [of _ tail]) (simp add: v_def)
  qed
qed

lemma scan_xls_complete:
  "offset \<le> length w \<Longrightarrow> is_stream rs tail (drop offset w) \<Longrightarrow> list_all record_allowed rs \<Longrightarrow>
     scan_xls_records w offset = None"
proof (induction rs arbitrary: offset)
  case Nil
  then have "length (drop offset w) < 4" by (simp add: is_stream_def)
  then show ?case using scan_xls_step [OF Nil(1) refl] by simp
next
  case (Cons r rs)
  let ?v = "drop offset w"
  have v: "?v = encode_record r @ (concat (map encode_record rs) @ tail)" "fits_16 r"
    using Cons.prems(2) by (auto simp: is_stream_def)
  have u: "unpack_H ?v 0 = fst r" "unpack_H ?v 2 = length (snd r)"
    "4 \<le> length (snd r) \<Longrightarrow> unpack_H ?v 6 = sheet_type (snd r)"
    unfolding v(1) by (rule unpack_encoded [OF v(2)])+
  have len: "4 + length (snd r) \<le> length ?v" unfolding v(1) by simp
  have "drop (offset + 4 + length (snd r)) w = drop (4 + length (snd r)) ?v" by (simp add: add.commute add.left_commute)
  also have "\<dots> = concat (map encode_record rs) @ tail" unfolding v(1) by simp
  finally have "is_stream rs tail (drop (offset + 4 + length (snd r)) w)"
    using Cons.prems(2) by (simp add: is_stream_def)
  moreover have "offset + 4 + length (snd r) \<le> length w" using len Cons.prems(1) by simp
  ultimately have "scan_xls_records w (offset + 4 + length (snd r)) = None"
    using Cons.IH Cons.prems(3) by simp
  with len u Cons.prems(3) show ?case
    unfolding scan_xls_step [OF Cons.prems(1) refl] by (auto simp: record_allowed_def)
qed


text \<open>
  The BIFF scan accepts a workbook stream exactly when it is a sequence of complete records
  (identifier, length, payload) with fewer than four bytes left over, the first of which opens a
  workbook, and in which no record is an encryption header, a VBA project or the start of a macro
  sheet.
\<close>

theorem xls_stream_accepted_iff:
  "validate_xls_workbook_stream w = None \<longleftrightarrow>
     (\<exists>r rs tail. is_stream (r # rs) tail w \<and> list_all record_allowed (r # rs)
        \<and> fst r \<in> set XLS_BOF_RECORD_IDS \<and> 4 \<le> length (snd r) \<and> sheet_type (snd r) = 5)"
  (is "_ \<longleftrightarrow> (\<exists>r rs tail. ?ok r rs tail)")
proof
  assume acc: "validate_xls_workbook_stream w = None"
  then have head: "8 \<le> length w" "unpack_H w 0 \<in> set XLS_BOF_RECORD_IDS" "4 \<le> unpack_H w 2"
    "4 + unpack_H w 2 \<le> length w" "unpack_H w 6 = 5" and scan: "scan_xls_records w 0 = None"
    by (auto simp: validate_xls_workbook_stream_def split: if_splits)
  obtain rs tail where rs: "is_stream rs tail w" "list_all record_allowed rs"
    using scan_xls_sound [OF _ scan] by auto
  then obtain r rs' where Cons: "rs = r # rs'" using head(1) by (cases rs) (auto simp: is_stream_def)
  have w: "w = encode_record r @ (concat (map encode_record rs') @ tail)" and fits: "fits_16 r"
    using rs(1) by (auto simp: Cons is_stream_def)
  have "unpack_H w 0 = fst r" "unpack_H w 2 = length (snd r)"
    "4 \<le> length (snd r) \<Longrightarrow> unpack_H w 6 = sheet_type (snd r)"
    by (subst w, rule unpack_encoded [OF fits], assumption?)+
  with head rs Cons have "?ok r rs' tail" by simp
  then show "\<exists>r rs tail. ?ok r rs tail" by blast
next
  assume "\<exists>r rs tail. ?ok r rs tail"
  then obtain r rs tail where ok: "?ok r rs tail" by blast
  have w: "w = encode_record r @ (concat (map encode_record rs) @ tail)" and fits: "fits_16 r"
    using ok by (auto simp: is_stream_def)
  have len: "4 + length (snd r) \<le> length w" by (subst w) simp
  have "unpack_H w 0 = fst r" "unpack_H w 2 = length (snd r)"
    "4 \<le> length (snd r) \<Longrightarrow> unpack_H w 6 = sheet_type (snd r)"
    by (subst w, rule unpack_encoded [OF fits], assumption?)+
  moreover have "scan_xls_records w 0 = None"
    by (rule scan_xls_complete [of _ _ "r # rs" tail]) (use ok in auto)
  ultimately show "validate_xls_workbook_stream w = None"
    using ok len by (simp add: validate_xls_workbook_stream_def)
qed

section \<open>CSV samples\<close>

lemma utf8_decode_NUL: "utf8_decode ns = Some cs \<Longrightarrow> 0 \<in> set ns \<Longrightarrow> 0 \<in> set cs"
proof (induction ns arbitrary: cs rule: utf8_decode.induct)
  case 1
  then show ?case by simp
next
  case (2 a bs)
  consider (one) "a < 128" | (two) "194 \<le> a" "a < 224" | (three) "224 \<le> a" "a < 240"
    | (four) "240 \<le> a" "a < 245" | (none) "128 \<le> a" "\<not> (194 \<le> a \<and> a < 245)" by linarith
  then show ?case
  proof cases
    case one
    then show ?thesis using 2(1) [OF one] 2(5,6) by auto
  next
    case two
    then obtain b cs' where "bs = b # cs'" using 2(5) by (cases bs) auto
    with two show ?thesis using 2(2) [OF _ _ \<open>bs = b # cs'\<close>] 2(5,6)
      by (auto simp: continuation_def split: if_splits)
  next
    case three
    then obtain b c cs' where "bs = b # c # cs'" using 2(5) by (auto split: list.splits)
    with three show ?thesis using 2(3) [OF _ _ _ \<open>bs = b # c # cs'\<close> refl] 2(5,6)
      by (auto simp: continuation_def split: if_splits)
  next
    case four
    then obtain b c e cs' where "bs = b # c # e # cs'" using 2(5) by (auto split: list.splits)
    with four show ?thesis using 2(4) [OF _ _ _ _ \<open>bs = b # c # e # cs'\<close> refl refl] 2(5,6)
      by (auto simp: continuation_def split: if_splits)
  next
    case none
    then show ?thesis using 2(5) by auto
  qed
qed

lemma utf8_decode_ascii:
  "a < 128 \<Longrightarrow> utf8_decode (replicate n a @ bs) = map_option ((@) (replicate n a)) (utf8_decode bs)"
  by (induction n) (cases "utf8_decode bs", simp_all)+

definition csv_control :: "nat \<Rightarrow> bool" where
  "csv_control n \<longleftrightarrow> n < 32 \<and> n \<noteq> 9 \<and> n \<noteq> 10 \<and> n \<noteq> 13"

text \<open>
  A CSV file that fits the 64 KiB sample is accepted exactly when it is not empty, does not start
  like a known binary format, is valid UTF-8 (with an optional byte order mark) and has no control
  character, NUL included, besides tab, carriage return and line feed.
\<close>

theorem csv_accepted_iff:
  assumes "length content \<le> 64 * 1024"
  shows "validate_csv_content content = None \<longleftrightarrow>
     content \<noteq> [] \<and> (\<forall>p \<in> set KNOWN_BINARY_PREFIXES. \<not> starts_with content p)
   \<and> (\<exists>chars. decode_utf8_sig content = Some chars \<and> (\<forall>n \<in> set chars. \<not> csv_control n))"
proof -
  have sample: "take CSV_SAMPLE_BYTES content = content" using assms by (simp add: CSV_SAMPLE_BYTES_def)
  have nul: "0 \<notin> set content" if dec: "decode_utf8_sig content = Some chars" and ctl: "\<forall>n \<in> set chars. \<not> csv_control n" for chars
  proof
    assume "0 \<in> set content"
    then have "0 \<in> set (map unat content)" by force
    moreover have "0 \<in> set (drop 3 (map unat content))"
      if "0 \<in> set (map unat content)" "take 3 (map unat content) = [239, 187, 191]"
    proof -
      have "0 \<in> set (take 3 (map unat content) @ drop 3 (map unat content))" using that(1) by (simp only: append_take_drop_id)
      with that(2) show ?thesis by (simp only: set_append) auto
    qed
    ultimately have "0 \<in> set chars"
      using dec utf8_decode_NUL by (auto simp: decode_utf8_sig_def Let_def split: if_splits)
    with ctl show False by (auto simp: csv_control_def)
  qed
  have "filter (\<lambda>n. n < 32 \<and> n \<notin> {9, 13, 10}) chars = [] \<longleftrightarrow> (\<forall>n \<in> set chars. \<not> csv_control n)" for chars
    by (auto simp: filter_empty_conv csv_control_def)
  then show ?thesis
    using nul by (auto simp: validate_csv_content_def sample Let_def split: option.splits if_splits)
qed

theorem csv_accepted_iff_witness:
  "validate_csv_content (bytes_of [97, 44, 98, 10]) = None"
proof -
  have "decode_utf8_sig (bytes_of [97, 44, 98, 10]) = Some [97, 44, 98, 10]"
    by (simp add: decode_utf8_sig_def bytes_of_def)
  then show ?thesis
    using csv_accepted_iff [of "bytes_of [97, 44, 98, 10]"]
    by (simp add: bytes_of_def KNOWN_BINARY_PREFIXES_def XLS_MAGIC_def starts_with_def csv_control_def)
qed

lemma decode_ascii_start:
  assumes "3 \<le> n"
  shows "decode_utf8_sig (replicate n 97 @ bs) = map_option ((@) (replicate n 97)) (utf8_decode (map unat bs))"
proof -
  have "take 3 (map unat (replicate n (97 :: byte) @ bs)) = replicate 3 97"
    using assms by (simp add: take_append min_def)
  then have "take 3 (map unat (replicate n (97 :: byte) @ bs)) \<noteq> [239, 187, 191]"
    by (simp add: numeral_eq_Suc)
  then show ?thesis by (simp add: decode_utf8_sig_def Let_def utf8_decode_ascii)
qed

lemma known_prefix_free:
  assumes "0 < n" and "p \<in> set KNOWN_BINARY_PREFIXES"
  shows "\<not> starts_with (replicate n 97 @ bs) p"
proof -
  obtain m where n: "n = Suc m" using assms(1) by (cases n) auto
  have "\<forall>p \<in> set KNOWN_BINARY_PREFIXES. \<exists>b ps. p = b # ps \<and> b \<noteq> 97"
    by (simp add: KNOWN_BINARY_PREFIXES_def XLS_MAGIC_def bytes_of_def)
  then show ?thesis using assms(2) by (auto simp: starts_with_def n)
qed

lemma csv_cut_character:
  assumes "3 \<le> n" and "CSV_SAMPLE_BYTES = Suc n"
  shows "validate_csv_content (replicate n 97 @ [195, 169]) = Some Csv_not_utf8"
proof -
  have sample: "take CSV_SAMPLE_BYTES (replicate n 97 @ [195, 169]) = replicate n (97 :: byte) @ [195]"
    by (simp add: assms(2))
  have "decode_utf8_sig (replicate n 97 @ [195]) = None"
    by (simp add: decode_ascii_start [OF assms(1)])
  then show ?thesis
    using known_prefix_free [of n _ "[195, 169]"] assms(1)
    unfolding validate_csv_content_def Let_def sample by auto
qed

text \<open>
  C22: the sample of a longer file is cut at a byte, not at a character: a CSV file of 65535 ASCII
  letters followed by one two-byte character is valid UTF-8 without control characters, and is
  rejected as not being UTF-8.
\<close>

theorem csv_sample_splits_character:
  "decode_utf8_sig (replicate 65535 97 @ [195, 169]) = Some (replicate 65535 97 @ [233])
   \<and> validate_csv_content (replicate 65535 97 @ [195, 169]) = Some Csv_not_utf8"
proof
  have "3 \<le> (65535 :: nat)" by simp
  from decode_ascii_start [OF this, of "[195, 169]"]
  show "decode_utf8_sig (replicate 65535 97 @ [195, 169]) = Some (replicate 65535 97 @ [233])"
    by (simp add: continuation_def)
  show "validate_csv_content (replicate 65535 97 @ [195, 169]) = Some Csv_not_utf8"
    by (rule csv_cut_character) (simp_all add: CSV_SAMPLE_BYTES_def)
qed


section \<open>Accepted file names\<close>

lemma has_infix_single: "has_infix [c] s \<longleftrightarrow> c \<in> set s"
  by (induction s) auto

text \<open>
  An accepted file name has no path separator, no two dots in a row and no leading or trailing
  dot, at most 255 UTF-8 bytes and no forbidden character; the recorded extension is its last
  suffix, one of csv, xls and xlsx with the matching content type, and no earlier suffix is the
  extension of an executable, whatever its case.
\<close>

theorem accepted_filename_safe:
  assumes "validate_report_upload_file nfkc forbidden payload = Inr m"
  shows "fm_original_filename m = fc_filename payload
    \<and> CHR ''/'' \<notin> set (fc_filename payload) \<and> char_of (92 :: nat) \<notin> set (fc_filename payload)
    \<and> \<not> has_infix ''..'' (fc_filename payload)
    \<and> \<not> has_prefix ''.'' (fc_filename payload) \<and> \<not> has_suffix ''.'' (fc_filename payload)
    \<and> utf8_length (fc_filename payload) \<le> 255 \<and> list_all (\<lambda>c. \<not> forbidden c) (fc_filename payload)
    \<and> fm_extension m \<in> {''csv'', ''xls'', ''xlsx''}
    \<and> map_of CANONICAL_CONTENT_TYPES (fm_extension m) = Some (fm_content_type m)
    \<and> fm_extension m = last (filename_suffixes (fc_filename payload))
    \<and> set (butlast (filename_suffixes (fc_filename payload))) \<inter> set DANGEROUS_FILENAME_SUFFIXES = {}
    \<and> fm_size_bytes m = fc_size_bytes payload"
proof -
  have ext: "map_of CANONICAL_CONTENT_TYPES k = Some t \<Longrightarrow> k \<in> {''csv'', ''xls'', ''xlsx''}" for k t
    by (auto simp: CANONICAL_CONTENT_TYPES_def split: if_splits)
  show ?thesis
    using assms ext
    unfolding validate_report_upload_file_def Let_def has_infix_single list_all_iff
    by (simp split: if_splits option.splits) (auto, blast?)
qed

theorem accepted_filename_safe_witness:
  "\<exists>m. validate_report_upload_file (\<lambda>s. s) (\<lambda>_. False)
       \<lparr> fc_filename = ''a.CSV'', fc_content_type = ''text/csv'', fc_size_bytes = 3 \<rparr> = Inr m
     \<and> fm_extension m = ''csv''"
proof -
  have "validate_report_upload_file (\<lambda>s. s) (\<lambda>_. False)
       \<lparr> fc_filename = ''a.CSV'', fc_content_type = ''text/csv'', fc_size_bytes = 3 \<rparr>
     = Inr \<lparr> fm_original_filename = ''a.CSV'', fm_extension = ''csv'', fm_content_type = ''text/csv'',
         fm_size_bytes = 3 \<rparr>"
    by code_simp
  from accepted_filename_safe [OF this] this show ?thesis by auto
qed

end
