(* ===== verification/Uploads.thy ===== *)
theory Uploads
  imports Worker Report_Content
begin

text \<open>
  The upload service of \<open>app/services/uploads.py\<close>: creating a batch of presigned uploads, and
  completing it, which verifies every pending object in the storage, settles the batch and creates
  and dispatches the processing jobs.

  The storage gateway is a record of the results of its calls.  The exceptions it raises end the
  request without a commit.
\<close>

section \<open>Storage\<close>

definition S3_CACHE_CONTROL :: string where "S3_CACHE_CONTROL = ''no-store''"
definition S3_ENCRYPTION_ALGORITHM :: string where "S3_ENCRYPTION_ALGORITHM = ''AES256''"

text \<open>A modification time with or without a time zone.\<close>

datatype s3_instant = Naive_instant | Aware_instant time

record s3_object =
  s3_content_length :: int
  s3_content_type :: "string option"
  s3_cache_control :: "string option"
  s3_server_side_encryption :: "string option"
  s3_metadata :: "(string \<times> string) list"
  s3_etag :: "string option"
  s3_version_id :: "string option"
  s3_last_modified :: "s3_instant option"

record upload_gateway =
  gw_bucket_security :: "string \<Rightarrow> storage_error option"
  gw_presign :: "string \<Rightarrow> storage_error option"
  gw_head :: "string \<Rightarrow> string \<Rightarrow> storage_error + s3_object"
  gw_read :: "string \<Rightarrow> string \<Rightarrow> string \<Rightarrow> int \<Rightarrow> storage_error + byte list"
  gw_delete :: "string \<Rightarrow> string \<Rightarrow> string \<Rightarrow> storage_error option"

record service_settings = upload_settings +
  aws_region :: "string option"
  s3_presigned_post_expire_minutes :: int

datatype upload_error = ReportUploadsDisabledError | ReportUploadRequestRejectedError filename_rejection
  | ReportUploadConflictError | UploadStorageError storage_error | UploadValueError
  | UploadProcessingError processing_error | UploadCommitError

definition storage_configuration :: "service_settings \<Rightarrow> upload_error + string \<times> string \<times> int" where
  "storage_configuration settings =
     (if \<not> s3_uploads_enabled settings \<or> falsy (s3_upload_bucket settings) \<or> falsy (aws_region settings)
      then Inl ReportUploadsDisabledError
      else Inr (case s3_upload_bucket settings of None \<Rightarrow> [] | Some bucket \<Rightarrow> bucket,
                s3_upload_prefix settings, s3_presigned_post_expire_minutes settings * 60))"

section \<open>Verifying one object\<close>

definition expected_metadata :: "report_upload \<Rightarrow> (string \<times> string) list" where
  "expected_metadata u =
     [(''business-id'', uuid_str (up_business_id u)), (''batch-id'', uuid_str (up_batch_id u)),
      (''upload-id'', uuid_str (up_id u)), (''expected-size'', int_str (expected_size_bytes u))]"

definition object_rejection_code :: "report_upload \<Rightarrow> s3_object \<Rightarrow> string option" where
  "object_rejection_code u stored =
     (if s3_content_length stored \<noteq> expected_size_bytes u then Some ''size_mismatch''
      else if s3_content_type stored \<noteq> Some (content_type u) then Some ''content_type_mismatch''
      else if s3_cache_control stored \<noteq> Some S3_CACHE_CONTROL then Some ''storage_policy_mismatch''
      else if s3_server_side_encryption stored \<noteq> Some S3_ENCRYPTION_ALGORITHM
      then Some ''storage_encryption_mismatch''
      else if falsy (s3_etag stored) \<or> is_null (s3_last_modified stored) then Some ''storage_policy_mismatch''
      else case s3_last_modified stored of
        None \<Rightarrow> Some ''storage_policy_mismatch''
      | Some Naive_instant \<Rightarrow> Some ''storage_policy_mismatch''
      | Some (Aware_instant t) \<Rightarrow>
          if up_expires_at u < t then Some ''upload_expired''
          else if \<exists>kv \<in> set (expected_metadata u). map_of (s3_metadata stored) (fst kv) \<noteq> Some (snd kv)
          then Some ''storage_metadata_mismatch''
          else None)"

definition rejected :: "string \<Rightarrow> time \<Rightarrow> report_upload \<Rightarrow> report_upload" where
  "rejected code now u =
     u\<lparr> up_status := (if code = ''upload_expired'' then UPLOAD_EXPIRED else UPLOAD_REJECTED),
        rejection_code := Some code, rejected_at := Some now \<rparr>"

definition reject_object ::
  "upload_gateway \<Rightarrow> report_upload \<Rightarrow> string \<Rightarrow> string \<Rightarrow> time \<Rightarrow> upload_error + report_upload" where
  "reject_object gw u version code now =
     (case gw_delete gw (storage_bucket u) (storage_key u) version of
        Some e \<Rightarrow> Inl (UploadStorageError e)
      | None \<Rightarrow> Inr (rejected code now u))"

text \<open>An object that is not there yet expires with its batch.\<close>

definition missing_object :: "report_upload \<Rightarrow> report_upload_batch \<Rightarrow> time \<Rightarrow> report_upload" where
  "missing_object u b now = (if batch_expires_at b \<le> now then rejected ''upload_expired'' now u else u)"

definition accepted_upload :: "s3_object \<Rightarrow> string \<Rightarrow> time \<Rightarrow> report_upload \<Rightarrow> report_upload" where
  "accepted_upload stored version now u =
     u\<lparr> up_status := UPLOADED, actual_size_bytes := Some (s3_content_length stored),
        storage_version_id := Some version, etag := s3_etag stored, uploaded_at := Some now,
        rejection_code := None, rejected_at := None \<rparr>"

definition verify_pending_upload ::
  "upload_gateway \<Rightarrow> content_packages \<Rightarrow> report_upload_batch \<Rightarrow> time \<Rightarrow> report_upload
   \<Rightarrow> upload_error + report_upload" where
  "verify_pending_upload gw pk b now u =
     (case gw_head gw (storage_bucket u) (storage_key u) of
        Inl S3ObjectNotFoundError \<Rightarrow> Inr (missing_object u b now)
      | Inl e \<Rightarrow> Inl (UploadStorageError e)
      | Inr stored \<Rightarrow>
        (case s3_version_id stored of
           None \<Rightarrow> Inl (UploadStorageError S3BucketSecurityError)
         | Some version \<Rightarrow>
             if version = [] \<or> version = ''null'' then Inl (UploadStorageError S3BucketSecurityError)
             else case object_rejection_code u stored of
               Some code \<Rightarrow> reject_object gw u version code now
             | None \<Rightarrow>
               (case gw_read gw (storage_bucket u) (storage_key u) version (expected_size_bytes u) of
                  Inl S3ObjectNotFoundError \<Rightarrow> Inr (missing_object u b now)
                | Inl e \<Rightarrow> Inl (UploadStorageError e)
                | Inr content \<Rightarrow>
                    if int (length content) \<noteq> s3_content_length stored
                    then reject_object gw u version ''size_mismatch'' now
                    else case validate_report_content pk (file_extension u) content of
                      Inl _ \<Rightarrow> Inl UploadValueError
                    | Inr (Some r) \<Rightarrow> reject_object gw u version (content_rejection_code r) now
                    | Inr None \<Rightarrow> Inr (accepted_upload stored version now u))))"

text \<open>The loop over the uploads of a batch, which skips those that are settled.\<close>

fun verify_uploads ::
  "upload_gateway \<Rightarrow> content_packages \<Rightarrow> report_upload_batch \<Rightarrow> time \<Rightarrow> report_upload list
   \<Rightarrow> upload_error + report_upload list" where
  "verify_uploads gw pk b now [] = Inr []"
| "verify_uploads gw pk b now (u # us) =
     (case (if up_status u = UPLOAD_PENDING then verify_pending_upload gw pk b now u else Inr u) of
        Inl e \<Rightarrow> Inl e
      | Inr u' \<Rightarrow>
          (case verify_uploads gw pk b now us of
             Inl e \<Rightarrow> Inl e
           | Inr us' \<Rightarrow> Inr (u' # us')))"

definition batch_status_of :: "report_upload list \<Rightarrow> batch_status" where
  "batch_status_of us =
     (if \<exists>u \<in> set us. up_status u = UPLOAD_PENDING then BATCH_PENDING
      else if \<forall>u \<in> set us. up_status u = UPLOADED then BATCH_COMPLETE
      else if \<exists>u \<in> set us. up_status u = UPLOADED then BATCH_PARTIAL
      else if \<forall>u \<in> set us. up_status u = UPLOAD_EXPIRED then BATCH_EXPIRED
      else BATCH_REJECTED)"

section \<open>Creating a batch\<close>

fun validate_files ::
  "(string \<Rightarrow> string) \<Rightarrow> (char \<Rightarrow> bool) \<Rightarrow> file_create list \<Rightarrow> filename_rejection + file_metadata list" where
  "validate_files nfkc forbidden [] = Inr []"
| "validate_files nfkc forbidden (f # fs) =
     (case validate_report_upload_file nfkc forbidden f of
        Inl e \<Rightarrow> Inl e
      | Inr m \<Rightarrow>
          (case validate_files nfkc forbidden fs of Inl e \<Rightarrow> Inl e | Inr ms \<Rightarrow> Inr (m # ms)))"

definition upload_key :: "string \<Rightarrow> uuid \<Rightarrow> uuid \<Rightarrow> uuid \<Rightarrow> string \<Rightarrow> string" where
  "upload_key prefix b batch i extension =
     prefix @ ''/'' @ uuid_str b @ ''/'' @ uuid_str batch @ ''/'' @ uuid_str i @ ''.'' @ extension"

definition new_upload ::
  "string \<Rightarrow> string \<Rightarrow> uuid \<Rightarrow> uuid \<Rightarrow> uuid \<Rightarrow> time \<Rightarrow> uuid \<Rightarrow> nat \<Rightarrow> file_metadata \<Rightarrow> report_upload" where
  "new_upload bucket prefix b batch uploader expires i position m =
     \<lparr> up_id = i, up_business_id = b, up_batch_id = batch, batch_position = int position,
       uploaded_by_user_id = uploader, original_filename = fm_original_filename m,
       file_extension = fm_extension m, content_type = fm_content_type m,
       expected_size_bytes = fm_size_bytes m, storage_bucket = bucket,
       storage_key = upload_key prefix b batch i (fm_extension m), up_status = UPLOAD_PENDING,
       up_expires_at = expires, actual_size_bytes = None, storage_version_id = None, etag = None,
       uploaded_at = None, rejected_at = None, rejection_code = None \<rparr>"

text \<open>The identifiers and the clock of a request: \<open>cb_now\<close> is read first, \<open>cb_created\<close> is the default of
  \<open>created_at\<close>.\<close>

record create_batch_context =
  cb_batch_id :: uuid
  cb_upload_id :: "nat \<Rightarrow> uuid"
  cb_now :: time
  cb_created :: time

definition new_uploads ::
  "create_batch_context \<Rightarrow> string \<Rightarrow> string \<Rightarrow> uuid \<Rightarrow> uuid \<Rightarrow> time \<Rightarrow> file_metadata list
   \<Rightarrow> report_upload list" where
  "new_uploads ctx bucket prefix b uploader expires ms =
     map (\<lambda>(n, m). new_upload bucket prefix b (cb_batch_id ctx) uploader expires (cb_upload_id ctx n) n m)
       (zip [0..<length ms] ms)"

definition create_batch ::
  "service_settings \<Rightarrow> upload_gateway \<Rightarrow> (string \<Rightarrow> string) \<Rightarrow> (char \<Rightarrow> bool) \<Rightarrow> create_batch_context
   \<Rightarrow> uuid \<Rightarrow> uuid \<Rightarrow> file_create list \<Rightarrow> db
   \<Rightarrow> (upload_error + report_upload_batch \<times> report_upload list) \<times> db" where
  "create_batch settings gw nfkc forbidden ctx b uploader payload d =
     (case storage_configuration settings of
        Inl e \<Rightarrow> (Inl e, d)
      | Inr (bucket, prefix, expires_in) \<Rightarrow>
        (case validate_files nfkc forbidden payload of
           Inl e \<Rightarrow> (Inl (ReportUploadRequestRejectedError e), d)
         | Inr ms \<Rightarrow>
           (case gw_bucket_security gw bucket of
              Some e \<Rightarrow> (Inl (UploadStorageError e), d)
            | None \<Rightarrow>
              let expires = cb_now ctx + seconds expires_in;
                  batch = \<lparr> batch_id = cb_batch_id ctx, batch_business_id = b,
                    batch_created_at = cb_created ctx, created_by_user_id = uploader,
                    batch_status = BATCH_PENDING, file_count = int (length ms),
                    batch_expires_at = expires, completed_at = None \<rparr>;
                  records = new_uploads ctx bucket prefix b uploader expires ms
              in case find (\<lambda>u. \<not> is_null (gw_presign gw (storage_key u))) records of
                   Some u \<Rightarrow> (Inl (UploadStorageError
                     (case gw_presign gw (storage_key u) of Some e \<Rightarrow> e | None \<Rightarrow> S3StorageError)), d)
                 | None \<Rightarrow>
                     let d' = d\<lparr> upload_batches := insert_row batch (upload_batches d),
                                 uploads := uploads d @ records \<rparr>
                     in if upload_batch_table_ok d' \<and> upload_table_ok d'
                        then (Inr (batch, records), d')
                        else (Inl ReportUploadConflictError, d))))"

section \<open>Completing a batch\<close>

record batch_result =
  br_batch :: report_upload_batch
  br_uploads :: "report_upload list"
  br_jobs :: "report_processing_job list"

definition locked_batch :: "db \<Rightarrow> uuid \<Rightarrow> uuid \<Rightarrow> report_upload_batch option" where
  "locked_batch d b i = scope_one batch_business_id b (\<lambda>x. batch_id x = i) (upload_batches d)"

definition batch_uploads :: "db \<Rightarrow> uuid \<Rightarrow> uuid \<Rightarrow> report_upload list" where
  "batch_uploads d b i =
     sort_key batch_position (scope_select up_business_id b (\<lambda>u. up_batch_id u = i) (uploads d))"

definition save_batch :: "report_upload_batch \<Rightarrow> db \<Rightarrow> db" where
  "save_batch x d = d\<lparr> upload_batches :=
     update_where (\<lambda>y. batch_id y = batch_id x) (\<lambda>_. x) (upload_batches d) \<rparr>"

definition save_upload :: "report_upload \<Rightarrow> db \<Rightarrow> db" where
  "save_upload u d = d\<lparr> uploads := update_where (\<lambda>y. up_id y = up_id u) (\<lambda>_. u) (uploads d) \<rparr>"

definition settle_batch :: "report_upload_batch \<Rightarrow> report_upload list \<Rightarrow> time \<Rightarrow> report_upload_batch" where
  "settle_batch x us now =
     (let status = batch_status_of us
      in x\<lparr> batch_status := status,
            completed_at := (if status \<noteq> BATCH_PENDING then Some now else completed_at x) \<rparr>)"

text \<open>The verification of a pending batch; a settled one keeps its rows.\<close>

definition verify_batch ::
  "service_settings \<Rightarrow> upload_gateway \<Rightarrow> content_packages \<Rightarrow> time \<Rightarrow> report_upload_batch
   \<Rightarrow> report_upload list \<Rightarrow> upload_error + report_upload_batch \<times> report_upload list" where
  "verify_batch settings gw pk now x us =
     (if batch_status x \<noteq> BATCH_PENDING then Inr (x, us)
      else case storage_configuration settings of
        Inl e \<Rightarrow> Inl e
      | Inr (bucket, _, _) \<Rightarrow>
          if \<exists>u \<in> set us. storage_bucket u \<noteq> bucket then Inl ReportUploadConflictError
          else case gw_bucket_security gw bucket of
            Some e \<Rightarrow> Inl (UploadStorageError e)
          | None \<Rightarrow>
              (case verify_uploads gw pk x now us of
                 Inl e \<Rightarrow> Inl e
               | Inr us' \<Rightarrow> Inr (settle_batch x us' now, us')))"

text \<open>What the request writes before it commits: the rows, and the jobs of a settled batch.  The first
  query after the changes flushes them, so their constraints are checked before the jobs are made.\<close>

definition write_batch ::
  "(nat \<Rightarrow> uuid \<times> time \<times> time) \<Rightarrow> uuid \<Rightarrow> report_upload_batch \<Rightarrow> report_upload list \<Rightarrow> db
   \<Rightarrow> upload_error + report_processing_job list \<times> db" where
  "write_batch defaults b x us d =
     (let d1 = save_batch x (fold save_upload us d)
      in if \<not> (upload_batch_table_ok d1 \<and> upload_table_ok d1 \<and> job_table_ok d1) then Inl UploadCommitError
         else if batch_status x = BATCH_PENDING then Inr ([], d1)
         else case ensure_jobs_for_uploads defaults b us d1 of
           (Inl e, _) \<Rightarrow> Inl (UploadProcessingError e)
         | (Inr jobs, d2) \<Rightarrow> Inr (jobs, d2))"

record complete_batch_context =
  cx_now :: time
  cx_job_defaults :: "nat \<Rightarrow> uuid \<times> time \<times> time"
  cx_dispatch :: "uuid \<Rightarrow> db \<Rightarrow> db option"
  cx_recorded :: "uuid \<Rightarrow> time"
  cx_dispatch_now :: time

definition complete_batch ::
  "service_settings \<Rightarrow> upload_gateway \<Rightarrow> content_packages \<Rightarrow> complete_batch_context \<Rightarrow> uuid \<Rightarrow> uuid
   \<Rightarrow> db \<Rightarrow> (upload_error + batch_result option) \<times> db" where
  "complete_batch settings gw pk ctx b i d =
     (case locked_batch d b i of
        None \<Rightarrow> (Inr None, d)
      | Some x \<Rightarrow>
        let us = batch_uploads d b i
        in if int (length us) \<noteq> file_count x then (Inl ReportUploadConflictError, d)
           else case verify_batch settings gw pk (cx_now ctx) x us of
             Inl e \<Rightarrow> (Inl e, d)
           | Inr (x', us') \<Rightarrow>
             (case write_batch (cx_job_defaults ctx) b x' us' d of
                Inl e \<Rightarrow> (Inl e, d)
              | Inr (jobs, d2) \<Rightarrow>
                (case dispatch_due_jobs (cx_dispatch ctx) (cx_recorded ctx) (cx_dispatch_now ctx)
                        (map job_id jobs) d2 of
                   (Inl e, d3) \<Rightarrow> (Inl (UploadProcessingError e), d3)
                 | (Inr _, d3) \<Rightarrow>
                     (Inr (Some \<lparr> br_batch = x', br_uploads = us', br_jobs = jobs \<rparr>), d3))))"

section \<open>Reads\<close>

definition jobs_of_uploads :: "db \<Rightarrow> uuid \<Rightarrow> report_upload list \<Rightarrow> report_processing_job list" where
  "jobs_of_uploads d b us =
     (if us = [] then []
      else let jobs = scope_select job_business_id b
                 (\<lambda>j. report_upload_id j \<in> set (map up_id us)) (processing_jobs d)
           in List.map_filter (\<lambda>u. row_where (\<lambda>j. report_upload_id j = up_id u) jobs) us)"

definition get_batch :: "db \<Rightarrow> uuid \<Rightarrow> uuid \<Rightarrow> batch_result option" where
  "get_batch d b i =
     (case scope_one batch_business_id b (\<lambda>x. batch_id x = i) (upload_batches d) of
        None \<Rightarrow> None
      | Some x \<Rightarrow>
          let us = batch_uploads d b i
          in Some \<lparr> br_batch = x, br_uploads = us, br_jobs = jobs_of_uploads d b us \<rparr>)"

definition list_batches ::
  "db \<Rightarrow> uuid \<Rightarrow> nat \<Rightarrow> nat \<Rightarrow> batch_status option \<Rightarrow> batch_result list \<times> nat" where
  "list_batches d b limit offset status =
     (let criteria = (\<lambda>x. case status of None \<Rightarrow> True | Some s \<Rightarrow> batch_status x = s);
          found = scope_select batch_business_id b criteria (upload_batches d);
          page = take limit (drop offset
                   (sort_key (\<lambda>x. (- batch_created_at x, - int (batch_id x))) found))
      in (map (\<lambda>x. let us = batch_uploads d b (batch_id x)
                   in \<lparr> br_batch = x, br_uploads = us, br_jobs = jobs_of_uploads d b us \<rparr>) page,
          length found))"

end
