(* ===== verification/Upload_Theorems.thy ===== *)
theory Upload_Theorems
  imports Uploads
begin

text \<open>
  What the verification of an object accepts, the constraints that a completion keeps, and the jobs it
  creates.
\<close>

section \<open>What verification does to an upload\<close>

text \<open>The columns that no verification changes.\<close>

definition upload_identity :: "report_upload \<Rightarrow> uuid \<times> uuid \<times> uuid \<times> int \<times> uuid \<times> string" where
  "upload_identity u = (up_id u, up_business_id u, up_batch_id u, batch_position u, uploaded_by_user_id u, storage_key u)"

lemma upload_identityD:
  assumes "upload_identity u' = upload_identity u"
  shows "up_id u' = up_id u" "up_business_id u' = up_business_id u" "up_batch_id u' = up_batch_id u"
    "batch_position u' = batch_position u" "uploaded_by_user_id u' = uploaded_by_user_id u"
    "storage_key u' = storage_key u"
  using assms by (auto simp: upload_identity_def)

lemma verdict_identity [simp]:
  "upload_identity (rejected code now u) = upload_identity u"
  "upload_identity (missing_object u b now) = upload_identity u"
  "upload_identity (accepted_upload stored v now u) = upload_identity u"
  by (simp_all add: upload_identity_def rejected_def missing_object_def accepted_upload_def)

lemma reject_object_InrD: "reject_object gw u v code now = Inr u' \<Longrightarrow> u' = rejected code now u"
  by (auto simp: reject_object_def split: option.splits)

lemma verify_pending_cases:
  assumes "verify_pending_upload gw pk b now u = Inr u'"
  obtains "u' = missing_object u b now"
  | code where "u' = rejected code now u"
  | stored v content where "u' = accepted_upload stored v now u"
      "gw_head gw (storage_bucket u) (storage_key u) = Inr stored" "s3_version_id stored = Some v"
      "v \<noteq> []" "v \<noteq> ''null''" "object_rejection_code u stored = None"
      "gw_read gw (storage_bucket u) (storage_key u) v (expected_size_bytes u) = Inr content"
      "int (length content) = s3_content_length stored"
      "validate_report_content pk (file_extension u) content = Inr None"
  using assms unfolding verify_pending_upload_def
  by (auto split: sum.splits storage_error.splits option.splits if_splits dest!: reject_object_InrD)

lemma rejected_checks:
  "report_upload_checks u \<Longrightarrow> up_status u = UPLOAD_PENDING \<Longrightarrow> report_upload_checks (rejected code now u)"
  by (auto simp: report_upload_checks_def report_upload_status_fields_def rejected_def)

lemma object_accepted:
  assumes "object_rejection_code u stored = None"
  shows "s3_content_length stored = expected_size_bytes u" "\<not> falsy (s3_etag stored)"
    "s3_content_type stored = Some (content_type u)" "s3_cache_control stored = Some S3_CACHE_CONTROL"
    "s3_server_side_encryption stored = Some S3_ENCRYPTION_ALGORITHM"
    "\<exists>t. s3_last_modified stored = Some (Aware_instant t) \<and> t \<le> up_expires_at u"
    "\<forall>kv \<in> set (expected_metadata u). map_of (s3_metadata stored) (fst kv) = Some (snd kv)"
  using assms
  by (auto simp: object_rejection_code_def split: if_splits option.splits s3_instant.splits)

lemma accepted_checks:
  assumes "report_upload_checks u" and "up_status u = UPLOAD_PENDING" and "object_rejection_code u stored = None"
  shows "report_upload_checks (accepted_upload stored v now u)"
  using assms(1,2) object_accepted(1,2) [OF assms(3)]
  by (cases "s3_etag stored")
    (auto simp: report_upload_checks_def report_upload_status_fields_def accepted_upload_def falsy_def)

lemma verify_pending_checks:
  assumes "verify_pending_upload gw pk b now u = Inr u'" and "report_upload_checks u" and "up_status u = UPLOAD_PENDING"
  shows "report_upload_checks u'" "upload_identity u' = upload_identity u"
  using assms(1)
  by (cases rule: verify_pending_cases; use assms(2,3) in \<open>simp add: rejected_checks accepted_checks missing_object_def\<close>)+

lemma verify_uploads_checks:
  "verify_uploads gw pk b now us = Inr us' \<Longrightarrow> list_all report_upload_checks us \<Longrightarrow>
     list_all report_upload_checks us' \<and> map upload_identity us' = map upload_identity us"
proof (induction us arbitrary: us')
  case Nil
  then show ?case by simp
next
  case (Cons u us)
  then show ?case
    using verify_pending_checks [of gw pk b now u]
    by (auto split: sum.splits if_splits)
qed

section \<open>The rows a completion writes\<close>

lemma save_upload_sel [simp]:
  "uploads (save_upload u d) = update_where (\<lambda>y. up_id y = up_id u) (\<lambda>_. u) (uploads d)"
  "upload_batches (save_upload u d) = upload_batches d" "processing_jobs (save_upload u d) = processing_jobs d"
  "role_assignments (save_upload u d) = role_assignments d"
  by (simp_all add: save_upload_def)

lemma save_batch_sel [simp]:
  "upload_batches (save_batch x d) = update_where (\<lambda>y. batch_id y = batch_id x) (\<lambda>_. x) (upload_batches d)"
  "uploads (save_batch x d) = uploads d" "processing_jobs (save_batch x d) = processing_jobs d"
  "role_assignments (save_batch x d) = role_assignments d"
  by (simp_all add: save_batch_def)

lemma save_upload_ok:
  assumes ok: "report_tables_ok d" and u: "u \<in> set (uploads d)" and same: "upload_identity u' = upload_identity u"
    and check: "report_upload_checks u'"
  shows "report_tables_ok (save_upload u' d)"
    "set (map upload_identity (uploads (save_upload u' d))) = set (map upload_identity (uploads d))"
proof -
  note eq = upload_identityD [OF same]
  have uniq: "unique_on up_id (uploads d)" using ok by (simp add: report_tables_ok_def upload_table_ok_def)
  have same_row: "x = u" if "x \<in> set (uploads d)" "up_id x = up_id u" for x
    using unique_onD [OF uniq that(1) u that(2)] .
  have keep: "map f (uploads (save_upload u' d)) = map f (uploads d)" if "f u' = f u"
    for f :: "report_upload \<Rightarrow> 'k"
    using that eq(1) by (auto simp: update_where_def dest!: same_row)
  have ids: "upload_identity ` set (uploads (save_upload u' d)) = upload_identity ` set (uploads d)"
    using keep [of upload_identity, OF same] by (metis set_map)
  have transfer: "(\<exists>x \<in> set (uploads (save_upload u' d)). P (upload_identity x)) \<longleftrightarrow>
      (\<exists>x \<in> set (uploads d). P (upload_identity x))"
    "(\<forall>x \<in> set (uploads (save_upload u' d)). P (upload_identity x)) \<longleftrightarrow>
      (\<forall>x \<in> set (uploads d). P (upload_identity x))" for P
    using ids by (metis (no_types, lifting) image_iff)+
  have rows: "list_all report_upload_checks (uploads (save_upload u' d))"
    using ok check by (auto simp: report_tables_ok_def upload_table_ok_def list_all_iff set_update_where)
  have up: "upload_table_ok (save_upload u' d)"
    unfolding upload_table_ok_def unique_on_def keep [of up_id, OF eq(1)] keep [of storage_key, OF eq(6)]
    using keep [of "\<lambda>u. (up_batch_id u, batch_position u)"] eq rows ok
      transfer(2) [of "\<lambda>(i, b, batch, p, w, k). \<exists>y \<in> set (upload_batches d). batch_id y = batch \<and> batch_business_id y = b"]
      transfer(2) [of "\<lambda>(i, b, batch, p, w, k). \<exists>a \<in> set (role_assignments d). assignment_business_id a = b \<and> assignment_user_id a = w"]
    by (simp add: report_tables_ok_def upload_table_ok_def unique_on_def upload_identity_def)
  have owner: "(\<exists>x \<in> set (uploads (save_upload u' d)). up_id x = i \<and> up_business_id x = b) \<longleftrightarrow>
      (\<exists>x \<in> set (uploads d). up_id x = i \<and> up_business_id x = b)" for i b
    using transfer(1) [of "\<lambda>(i', b', batch, p, w, k). i' = i \<and> b' = b"]
    by (simp add: upload_identity_def del: save_upload_sel(1))
  have jobs: "job_table_ok (save_upload u' d)"
    using ok owner by (simp add: report_tables_ok_def job_table_ok_def del: save_upload_sel(1))
  show "report_tables_ok (save_upload u' d)"
    using ok up jobs by (simp add: report_tables_ok_def upload_batch_table_ok_def)
  show "set (map upload_identity (uploads (save_upload u' d))) = set (map upload_identity (uploads d))"
    using ids by simp
qed

lemma save_uploads_ok:
  "report_tables_ok d \<Longrightarrow> list_all report_upload_checks us \<Longrightarrow>
     upload_identity ` set us \<subseteq> upload_identity ` set (uploads d) \<Longrightarrow> report_tables_ok (fold save_upload us d)"
proof (induction us arbitrary: d)
  case Nil
  then show ?case by simp
next
  case (Cons u' us)
  then obtain u where u: "u \<in> set (uploads d)" "upload_identity u' = upload_identity u" by auto
  note ok = save_upload_ok [OF Cons.prems(1) u]
  show ?case
    using Cons ok by (simp only: fold_simps comp_apply) auto
qed

lemma fold_save_upload_batches [simp]:
  "upload_batches (fold save_upload us d) = upload_batches d"
  by (induction us arbitrary: d) simp_all

lemma save_batch_ok:
  assumes ok: "report_tables_ok d" and x: "x \<in> set (upload_batches d)" and "batch_id x' = batch_id x"
    and "batch_business_id x' = batch_business_id x" and "created_by_user_id x' = created_by_user_id x"
    and check: "report_upload_batch_checks x'"
  shows "report_tables_ok (save_batch x' d)"
proof -
  have uniq: "unique_on batch_id (upload_batches d)" using ok by (simp add: report_tables_ok_def upload_batch_table_ok_def)
  have same_row: "y = x" if "y \<in> set (upload_batches d)" "batch_id y = batch_id x" for y
    using unique_onD [OF uniq that(1) x that(2)] .
  have ids: "map batch_id (upload_batches (save_batch x' d)) = map batch_id (upload_batches d)"
    using assms(3) by (auto simp: update_where_def)
  have set': "set (upload_batches (save_batch x' d)) = insert x' {y \<in> set (upload_batches d). batch_id y \<noteq> batch_id x}"
    using x assms(3) by (auto simp: set_update_where)
  have batches: "upload_batch_table_ok (save_batch x' d)"
    unfolding upload_batch_table_ok_def unique_on_def ids
    using ok x assms(4,5) check unfolding set' list_all_iff
    by (auto simp: report_tables_ok_def upload_batch_table_ok_def unique_on_def list_all_iff)
  have "(\<exists>y \<in> set (upload_batches (save_batch x' d)). batch_id y = i \<and> batch_business_id y = b) \<longleftrightarrow>
      (\<exists>y \<in> set (upload_batches d). batch_id y = i \<and> batch_business_id y = b)" for i b
    unfolding set' using x assms(3,4) same_row by auto
  then have "upload_table_ok (save_batch x' d)"
    using ok by (simp add: report_tables_ok_def upload_table_ok_def del: save_batch_sel(1))
  with batches ok show ?thesis by (simp add: report_tables_ok_def job_table_ok_def)
qed

lemma accepted_status [simp]:
  "up_status (accepted_upload stored v now u) = UPLOADED"
  by (simp add: accepted_upload_def)

lemma rejected_status: "up_status (rejected code now u) \<noteq> UPLOADED" "up_status (rejected code now u) \<noteq> UPLOAD_PENDING"
  by (simp_all add: rejected_def)

lemma missing_status: "up_status u = UPLOAD_PENDING \<Longrightarrow> up_status (missing_object u b now) \<noteq> UPLOADED"
  by (simp add: missing_object_def rejected_def)

text \<open>The policy that a stored object has to meet.\<close>

definition object_meets_policy :: "report_upload \<Rightarrow> s3_object \<Rightarrow> bool" where
  "object_meets_policy u stored \<longleftrightarrow>
     s3_content_length stored = expected_size_bytes u
   \<and> s3_content_type stored = Some (content_type u)
   \<and> s3_cache_control stored = Some S3_CACHE_CONTROL
   \<and> s3_server_side_encryption stored = Some S3_ENCRYPTION_ALGORITHM
   \<and> \<not> falsy (s3_etag stored)
   \<and> (\<exists>t. s3_last_modified stored = Some (Aware_instant t) \<and> t \<le> up_expires_at u)
   \<and> (\<forall>kv \<in> set (expected_metadata u). map_of (s3_metadata stored) (fst kv) = Some (snd kv))"

lemma object_rejection_None_iff: "object_rejection_code u stored = None \<longleftrightarrow> object_meets_policy u stored"
  by (auto simp: object_rejection_code_def object_meets_policy_def not_less
      split: option.splits s3_instant.splits)

text \<open>
  C21: a pending upload is accepted exactly when its object exists under a real version, its length,
  content type, cache policy, encryption, modification time and metadata are those that the request
  signed, and the bytes of that version have the signed length and pass the content checks.
\<close>

theorem upload_accepted_iff:
  assumes "up_status u = UPLOAD_PENDING"
  shows "(\<exists>u'. verify_pending_upload gw pk b now u = Inr u' \<and> up_status u' = UPLOADED) \<longleftrightarrow>
     (\<exists>stored v content. gw_head gw (storage_bucket u) (storage_key u) = Inr stored
        \<and> s3_version_id stored = Some v \<and> v \<notin> {[], ''null''} \<and> object_meets_policy u stored
        \<and> gw_read gw (storage_bucket u) (storage_key u) v (expected_size_bytes u) = Inr content
        \<and> int (length content) = expected_size_bytes u
        \<and> validate_report_content pk (file_extension u) content = Inr None)" (is "?L = ?R")
proof
  assume ?L
  then obtain u' where u': "verify_pending_upload gw pk b now u = Inr u'" "up_status u' = UPLOADED" by blast
  from u'(1) show ?R
  proof (cases rule: verify_pending_cases)
    case (3 stored v content)
    then have "object_meets_policy u stored" by (simp add: object_rejection_None_iff)
    moreover from this have "s3_content_length stored = expected_size_bytes u" by (simp add: object_meets_policy_def)
    ultimately show ?thesis using 3 by auto
  qed (use u'(2) assms in \<open>auto simp: rejected_status missing_status\<close>)
next
  assume ?R
  then obtain stored v content where r: "gw_head gw (storage_bucket u) (storage_key u) = Inr stored"
      "s3_version_id stored = Some v" "v \<notin> {[], ''null''}" "object_meets_policy u stored"
      "gw_read gw (storage_bucket u) (storage_key u) v (expected_size_bytes u) = Inr content"
      "int (length content) = expected_size_bytes u"
      "validate_report_content pk (file_extension u) content = Inr None" by blast
  from r(4) have "s3_content_length stored = expected_size_bytes u" "object_rejection_code u stored = None"
    by (simp_all add: object_rejection_None_iff) (simp add: object_meets_policy_def)
  with r show ?L by (simp add: verify_pending_upload_def)
qed

definition sample_pending :: report_upload where
  "sample_pending = sample_upload\<lparr> up_status := UPLOAD_PENDING, expected_size_bytes := 4, up_expires_at := 100,
     actual_size_bytes := None, storage_version_id := None, etag := None, uploaded_at := None \<rparr>"

definition sample_object :: s3_object where
  "sample_object = \<lparr> s3_content_length = 4, s3_content_type = Some ''text/csv'',
     s3_cache_control = Some ''no-store'', s3_server_side_encryption = Some ''AES256'',
     s3_metadata = expected_metadata sample_pending, s3_etag = Some ''e'', s3_version_id = Some ''v'',
     s3_last_modified = Some (Aware_instant 50) \<rparr>"

definition sample_gateway :: upload_gateway where
  "sample_gateway = \<lparr> gw_bucket_security = (\<lambda>_. None), gw_presign = (\<lambda>_. None),
     gw_head = (\<lambda>_ _. Inr sample_object), gw_read = (\<lambda>_ _ _ _. Inr (bytes_of [97, 44, 98, 10])),
     gw_delete = (\<lambda>_ _ _. None) \<rparr>"

lemma expected_metadata_self:
  "\<forall>kv \<in> set (expected_metadata u). map_of (expected_metadata u) (fst kv) = Some (snd kv)"
  by (simp add: expected_metadata_def)

lemma sample_csv_accepted: "validate_csv_content (bytes_of [97, 44, 98, 10]) = None"
proof -
  have "decode_utf8_sig (bytes_of [97, 44, 98, 10]) = Some [97, 44, 98, 10]"
    by (simp add: decode_utf8_sig_def bytes_of_def)
  then show ?thesis
    by (simp add: validate_csv_content_def CSV_SAMPLE_BYTES_def Let_def bytes_of_def KNOWN_BINARY_PREFIXES_def
        XLS_MAGIC_def starts_with_def)
qed

lemma sample_pending_sel:
  "up_status sample_pending = UPLOAD_PENDING" "file_extension sample_pending = ''csv''"
  "expected_size_bytes sample_pending = 4"
  by (simp_all add: sample_pending_def sample_upload_def)

lemma sample_object_policy: "object_meets_policy sample_pending sample_object"
  using expected_metadata_self [of sample_pending]
  by (simp add: object_meets_policy_def sample_object_def falsy_def S3_CACHE_CONTROL_def S3_ENCRYPTION_ALGORITHM_def)
    (simp add: sample_pending_def sample_upload_def)

text \<open>The samples are CSV files, which need no package.\<close>

definition sample_packages :: content_packages where
  "sample_packages = \<lparr> pk_casefold = id, pk_open_ole = (\<lambda>_. None), pk_open_zip = (\<lambda>_. None) \<rparr>"

theorem upload_accepted_iff_witness:
  "\<exists>u'. verify_pending_upload sample_gateway sample_packages sample_batch 60 sample_pending = Inr u' \<and> up_status u' = UPLOADED"
proof -
  have "s3_version_id sample_object = Some ''v''" by (simp add: sample_object_def)
  then show ?thesis
    unfolding upload_accepted_iff [OF sample_pending_sel(1)]
    using sample_csv_accepted sample_pending_sel sample_object_policy
    by (simp add: sample_gateway_def validate_report_content_def) (simp add: bytes_of_def)
qed

section \<open>Completion\<close>

lemma settle_batch_sel [simp]:
  "batch_id (settle_batch x us now) = batch_id x" "batch_business_id (settle_batch x us now) = batch_business_id x"
  "created_by_user_id (settle_batch x us now) = created_by_user_id x"
  "batch_status (settle_batch x us now) = batch_status_of us"
  by (simp_all add: settle_batch_def Let_def)

lemma settle_batch_checks:
  "report_upload_batch_checks x \<Longrightarrow> batch_status x = BATCH_PENDING \<Longrightarrow>
     report_upload_batch_checks (settle_batch x us now)"
  by (auto simp: report_upload_batch_checks_def settle_batch_def Let_def)

lemma locked_batch_SomeD: "locked_batch d b i = Some x \<Longrightarrow> x \<in> set (upload_batches d) \<and> batch_id x = i \<and> batch_business_id x = b"
  unfolding locked_batch_def by (drule scope_one_SomeD) simp

lemma set_batch_uploads: "set (batch_uploads d b i) = {u \<in> set (uploads d). up_business_id u = b \<and> up_batch_id u = i}"
  by (auto simp: batch_uploads_def scope_select_subset)

lemma verify_batch_rows:
  assumes "verify_batch settings gw pk now x us = Inr (x', us')"
    and "report_upload_batch_checks x" and "list_all report_upload_checks us"
  shows "report_upload_batch_checks x'" "batch_id x' = batch_id x" "batch_business_id x' = batch_business_id x"
    "created_by_user_id x' = created_by_user_id x"
    "list_all report_upload_checks us'" "map upload_identity us' = map upload_identity us"
  using assms verify_uploads_checks [of gw pk x now us us']
  by (auto simp: verify_batch_def settle_batch_checks split: if_splits sum.splits option.splits prod.splits)

text \<open>The rows that a completion writes satisfy the constraints.\<close>

lemma written_rows_ok:
  assumes ok: "report_tables_ok d" and x: "locked_batch d b i = Some x"
    and v: "verify_batch settings gw pk now x (batch_uploads d b i) = Inr (x', us')"
  shows "report_tables_ok (save_batch x' (fold save_upload us' d))"
proof -
  note row = locked_batch_SomeD [OF x]
  have checks: "report_upload_batch_checks x" "list_all report_upload_checks (batch_uploads d b i)"
    using ok row by (auto simp: report_tables_ok_def upload_batch_table_ok_def upload_table_ok_def list_all_iff set_batch_uploads)
  note rows = verify_batch_rows [OF v checks]
  have "upload_identity ` set us' = upload_identity ` set (batch_uploads d b i)"
    using rows(6) by (metis set_map)
  then have "upload_identity ` set us' \<subseteq> upload_identity ` set (uploads d)"
    by (auto simp: set_batch_uploads)
  from save_uploads_ok [OF ok rows(5) this] have "report_tables_ok (fold save_upload us' d)" .
  then show ?thesis using row rows by (intro save_batch_ok [where x = x]) simp_all
qed

lemma verify_uploads_no_commit: "verify_uploads gw pk b now us \<noteq> Inl UploadCommitError"
proof (induction us)
  case Nil
  then show ?case by simp
next
  case (Cons u us)
  have "verify_pending_upload gw pk b now u \<noteq> Inl UploadCommitError"
    by (auto simp: verify_pending_upload_def reject_object_def split: sum.splits storage_error.splits option.splits)
  with Cons show ?case by (auto split: sum.splits)
qed

lemma dispatch_jobs_ok:
  assumes "\<And>i e e'. dispatch i e = Some e' \<Longrightarrow> report_tables_ok e \<Longrightarrow> report_tables_ok e'"
  shows "report_tables_ok d \<Longrightarrow> report_tables_ok (snd (dispatch_jobs dispatch recorded now is n d))"
proof (induction "is" arbitrary: n d)
  case Nil
  then show ?case by simp
next
  case (Cons i "is")
  then show ?case
    using assms
    by (auto simp: Let_def report_tables_ok_def upload_batch_table_ok_def upload_table_ok_def save_job_def
        split: option.splits)
qed

lemma ensure_jobs_ok:
  "report_tables_ok d \<Longrightarrow> report_tables_ok (snd (ensure_jobs_for_uploads defaults b us d))"
  using ensure_extends [of defaults b us d]
  by (auto simp: extends_def report_tables_ok_def upload_batch_table_ok_def upload_table_ok_def)

lemma write_batch_ok:
  assumes "report_tables_ok (save_batch x (fold save_upload us d))"
  shows "write_batch defaults b x us d \<noteq> Inl UploadCommitError"
    "write_batch defaults b x us d = Inr (jobs, d') \<Longrightarrow> report_tables_ok d'"
  using assms ensure_jobs_ok [OF assms, of defaults b us]
  by (auto simp: write_batch_def Let_def report_tables_ok_def split: if_splits sum.splits prod.splits)


definition sample_open_batch :: report_upload_batch where
  "sample_open_batch = sample_batch\<lparr> batch_status := BATCH_PENDING, completed_at := None \<rparr>"

definition sample_upload_db :: db where
  "sample_upload_db = sample_db\<lparr> upload_batches := [sample_open_batch],
     uploads := [sample_pending] \<rparr>"

definition sample_service :: service_settings where
  "sample_service = \<lparr> s3_uploads_enabled = True, s3_upload_bucket = Some ''bucket'', s3_upload_prefix = ''p'',
     aws_region = Some ''r'', s3_presigned_post_expire_minutes = 15 \<rparr>"

definition sample_completion :: complete_batch_context where
  "sample_completion = \<lparr> cx_now = 60, cx_job_defaults = (\<lambda>n. (62 + n, 60, 60)), cx_dispatch = (\<lambda>_ d. Some d),
     cx_recorded = (\<lambda>_. 61), cx_dispatch_now = 61 \<rparr>"

lemma sample_upload_db_ok: "report_tables_ok sample_upload_db"
  by (simp add: report_tables_ok_def table_ok_defs sample_upload_db_def sample_open_batch_def sample_batch_def sample_pending_def
      sample_upload_def sample_defs check_defs unique_on_def unique_nullable_def between_def
      MAX_REPORT_UPLOAD_BYTES_def MAX_REPORT_UPLOAD_FILES_PER_BATCH_def)


lemma jobs_for_uploads_made:
  assumes "jobs_for_uploads defaults b existing n us jobs added = Inr (jobs', added')"
    and "\<forall>u \<in> set us. \<not> falsy (storage_version_id u) \<and> \<not> falsy (etag u)"
    and "\<forall>j \<in> set existing. job_business_id j = b"
  shows "\<exists>js. jobs' = jobs @ js \<and> list_all2 (\<lambda>j u. report_upload_id j = up_id u \<and> job_business_id j = b
      \<and> Some (source_storage_version_id j) = storage_version_id u \<and> Some (source_etag j) = etag u) js us"
  using assms
proof (induction us arbitrary: n jobs added)
  case Nil
  then show ?case by simp
next
  case (Cons u us)
  show ?case
  proof (cases "row_where (\<lambda>j. report_upload_id j = up_id u) existing")
    case None
    let ?j = "new_job (defaults n) b u"
    from None Cons.prems(1) have "jobs_for_uploads defaults b existing (n + 1) us (jobs @ [?j]) (added @ [?j]) = Inr (jobs', added')"
      by (simp add: Let_def)
    from Cons.IH [OF this] Cons.prems(2,3) obtain js where "jobs' = jobs @ ?j # js"
        "list_all2 (\<lambda>j u. report_upload_id j = up_id u \<and> job_business_id j = b
          \<and> Some (source_storage_version_id j) = storage_version_id u \<and> Some (source_etag j) = etag u) js us" by auto
    moreover have "Some (source_storage_version_id ?j) = storage_version_id u" "Some (source_etag ?j) = etag u"
      "report_upload_id ?j = up_id u" "job_business_id ?j = b"
      using Cons.prems(2) by (auto simp: new_job_def falsy_def split: option.splits)
    ultimately show ?thesis by (intro exI [of _ "?j # js"]) simp
  next
    case (Some j)
    note row = row_where_SomeD [OF Some]
    from Some Cons.prems(1) have same: "Some (source_storage_version_id j) = storage_version_id u" "Some (source_etag j) = etag u"
      and rest: "jobs_for_uploads defaults b existing (n + 1) us (jobs @ [j]) added = Inr (jobs', added')"
      by (simp_all split: if_splits)
    from Cons.IH [OF rest] Cons.prems(2,3) obtain js where "jobs' = jobs @ j # js"
        "list_all2 (\<lambda>j u. report_upload_id j = up_id u \<and> job_business_id j = b
          \<and> Some (source_storage_version_id j) = storage_version_id u \<and> Some (source_etag j) = etag u) js us" by auto
    with same row Cons.prems(3) show ?thesis by (intro exI [of _ "j # js"]) simp
  qed
qed

text \<open>The job that belongs to an accepted upload.\<close>

definition job_of_upload :: "uuid \<Rightarrow> report_processing_job \<Rightarrow> report_upload \<Rightarrow> bool" where
  "job_of_upload b j u \<longleftrightarrow> report_upload_id j = up_id u \<and> job_business_id j = b
     \<and> Some (source_storage_version_id j) = storage_version_id u \<and> Some (source_etag j) = etag u"

lemma ensure_jobs_made:
  assumes "ensure_jobs_for_uploads defaults b us d = (Inr jobs, d')"
  shows "list_all2 (job_of_upload b) jobs (filter (\<lambda>u. up_status u = UPLOADED) us)"
proof -
  have existing: "\<forall>j \<in> set (scope_select job_business_id b P t). job_business_id j = b" for P t
    by (simp add: scope_select_subset)
  have eq: "job_of_upload b = (\<lambda>j u. report_upload_id j = up_id u \<and> job_business_id j = b
     \<and> Some (source_storage_version_id j) = storage_version_id u \<and> Some (source_etag j) = etag u)"
    by (simp add: job_of_upload_def fun_eq_iff)
  show ?thesis
    using assms unfolding ensure_jobs_for_uploads_def Let_def eq
    by (auto split: if_splits sum.splits prod.splits dest!: jobs_for_uploads_made [OF _ _ existing])
qed

lemma verify_pending_id: "verify_pending_upload gw pk b now u = Inr u' \<Longrightarrow> up_id u' = up_id u"
  by (cases rule: verify_pending_cases [of gw pk b now u u'])
    (simp_all add: rejected_def missing_object_def accepted_upload_def)

lemma verify_uploads_ids: "verify_uploads gw pk b now us = Inr us' \<Longrightarrow> map up_id us' = map up_id us"
  by (induction us arbitrary: us') (auto split: sum.splits if_splits dest: verify_pending_id)

text \<open>
  What a completion reports of a batch that it could settle: the status is the classification of
  the statuses of its uploads and none is left pending, and the jobs are one per accepted upload, in
  their order, each for the stored version that was verified; a batch with a pending upload gets no
  job and stays open.
\<close>

theorem completed_batch_jobs:
  assumes "complete_batch settings gw pk ctx b i d = (Inr (Some r), d')"
    and "locked_batch d b i = Some x" and "batch_status x = BATCH_PENDING"
  shows "batch_status (br_batch r) = batch_status_of (br_uploads r)
    \<and> (batch_status (br_batch r) = BATCH_PENDING \<longleftrightarrow> (\<exists>u \<in> set (br_uploads r). up_status u = UPLOAD_PENDING))
    \<and> map up_id (br_uploads r) = map up_id (batch_uploads d b i)
    \<and> list_all2 (job_of_upload b) (br_jobs r)
        (if batch_status (br_batch r) = BATCH_PENDING then []
         else filter (\<lambda>u. up_status u = UPLOADED) (br_uploads r))"
proof -
  obtain x' us' jobs d2 where v: "verify_batch settings gw pk (cx_now ctx) x (batch_uploads d b i) = Inr (x', us')"
    and w: "write_batch (cx_job_defaults ctx) b x' us' d = Inr (jobs, d2)"
    and r: "r = \<lparr> br_batch = x', br_uploads = us', br_jobs = jobs \<rparr>"
    using assms(1,2) by (auto simp: complete_batch_def Let_def split: if_splits sum.splits prod.splits)
  have verified: "verify_uploads gw pk x (cx_now ctx) (batch_uploads d b i) = Inr us'" "batch_status x' = batch_status_of us'"
    using v assms(3) by (auto simp: verify_batch_def split: if_splits sum.splits option.splits prod.splits)
  have ids: "map up_id us' = map up_id (batch_uploads d b i)"
    using verify_uploads_ids [OF verified(1)] .
  have pending: "batch_status_of us' = BATCH_PENDING \<longleftrightarrow> (\<exists>u \<in> set us'. up_status u = UPLOAD_PENDING)"
    by (simp add: batch_status_of_def)
  have "list_all2 (job_of_upload b) jobs
      (if batch_status x' = BATCH_PENDING then [] else filter (\<lambda>u. up_status u = UPLOADED) us')"
    using w ensure_jobs_made by (auto simp: write_batch_def Let_def split: if_splits sum.splits prod.splits)
  with verified(2) ids pending show ?thesis unfolding r by (auto split: if_splits)
qed

lemma sample_verified:
  "verify_pending_upload sample_gateway pk x 60 sample_pending = Inr (accepted_upload sample_object ''v'' 60 sample_pending)"
proof -
  have "object_rejection_code sample_pending sample_object = None"
    by (simp add: object_rejection_None_iff sample_object_policy)
  then show ?thesis
    using sample_csv_accepted sample_pending_sel
    by (simp add: verify_pending_upload_def sample_gateway_def validate_report_content_def sample_object_def bytes_of_def)
qed

definition sample_accepted :: report_upload where
  "sample_accepted = accepted_upload sample_object ''v'' 60 sample_pending"

lemma sample_verify_batch:
  "verify_batch sample_service sample_gateway pk 60 sample_open_batch [sample_pending]
     = Inr (settle_batch sample_open_batch [sample_accepted] 60, [sample_accepted])"
proof -
  have "storage_bucket sample_pending = ''bucket''" "batch_status sample_open_batch = BATCH_PENDING"
    "gw_bucket_security sample_gateway ''bucket'' = None"
    by (simp_all add: sample_pending_def sample_upload_def sample_open_batch_def sample_batch_def sample_gateway_def)
  then show ?thesis
    by (simp add: verify_batch_def storage_configuration_def sample_service_def falsy_def sample_pending_sel
        sample_verified sample_accepted_def)
qed

lemma sample_completed:
  obtains x' d2 where
    "complete_batch sample_service sample_gateway pk sample_completion 10 60 sample_upload_db
       = (Inr (Some \<lparr> br_batch = x', br_uploads = [sample_accepted],
            br_jobs = [new_job (62, 60, 60) 10 sample_accepted] \<rparr>), d2)"
    "batch_status x' = BATCH_COMPLETE"
proof -
  let ?x = "settle_batch sample_open_batch [sample_accepted] 60"
  have rows: "locked_batch sample_upload_db 10 60 = Some sample_open_batch" "batch_uploads sample_upload_db 10 60 = [sample_pending]"
    "file_count sample_open_batch = 1"
    by (simp_all add: locked_batch_def batch_uploads_def scope_one_def scope_select_def rows_where_def
        sample_upload_db_def sample_open_batch_def sample_batch_def sample_pending_def sample_upload_def)
  have status: "batch_status ?x = BATCH_COMPLETE"
    by (simp add: batch_status_of_def sample_accepted_def)
  let ?d1 = "save_batch ?x (fold save_upload [sample_accepted] sample_upload_db)"
  let ?j = "new_job (62, 60, 60) 10 sample_accepted"
  let ?d2 = "?d1\<lparr> processing_jobs := [?j] \<rparr>"
  have v: "verify_batch sample_service sample_gateway pk (cx_now sample_completion) sample_open_batch
      (batch_uploads sample_upload_db 10 60) = Inr (?x, [sample_accepted])"
    using sample_verify_batch rows(2) by (simp add: sample_completion_def)
  have ok: "report_tables_ok ?d1"
    using written_rows_ok [OF sample_upload_db_ok rows(1) v] .
  have acc: "up_status sample_accepted = UPLOADED" "up_business_id sample_accepted = 10" "up_id sample_accepted = 61"
    "storage_version_id sample_accepted = Some ''v''" "etag sample_accepted = Some ''e''"
    by (simp_all add: sample_accepted_def accepted_upload_def sample_pending_def sample_upload_def sample_object_def)
  have ups: "uploads ?d1 = [sample_accepted]" "processing_jobs ?d1 = []"
    using acc(3) by (simp_all add: sample_upload_db_def sample_pending_def sample_upload_def sample_defs)
  have job: "report_processing_job_checks ?j" "job_id ?j = 62" "report_upload_id ?j = 61" "job_business_id ?j = 10"
    "normalized_storage_key ?j = None" "profile_storage_key ?j = None" "job_created_at ?j = 60"
    "job_status ?j = QUEUED" "available_at ?j = Some 60" "last_dispatched_at ?j = None"
    using acc
    by (simp_all add: job_check_defs new_job_def between_def DEFAULT_REPORT_PROCESSING_MAX_ATTEMPTS_def
        MAX_REPORT_PROCESSING_ATTEMPTS_def)
  have jobs_ok: "job_table_ok ?d2"
    using ups acc job by (simp add: job_table_ok_def unique_on_def unique_nullable_def)
  have w: "write_batch (cx_job_defaults sample_completion) 10 ?x [sample_accepted] sample_upload_db = Inr ([?j], ?d2)"
    using ok status acc ups jobs_ok
    by (simp add: write_batch_def Let_def report_tables_ok_def ensure_jobs_for_uploads_def falsy_def
        scope_select_def rows_where_def sample_completion_def del: fold_simps)
  have "report_processing_job_checks (record_dispatch 61 ?j)" using job by (intro record_dispatch_checks) simp_all
  then have "job_table_ok (save_job (record_dispatch 61 ?j) ?d2)"
    using ups acc job by (simp add: job_table_ok_def unique_on_def unique_nullable_def save_job_def record_dispatch_def)
  then have disp: "fst (dispatch_due_jobs (cx_dispatch sample_completion) (cx_recorded sample_completion)
      (cx_dispatch_now sample_completion) [62] ?d2) = Inr 1"
    using job by (simp add: dispatch_due_jobs_def dict_fromkeys_def sample_completion_def job_by_id_def Let_def
        job_is_due_def)
  from disp obtain d3 where "dispatch_due_jobs (cx_dispatch sample_completion) (cx_recorded sample_completion)
      (cx_dispatch_now sample_completion) [62] ?d2 = (Inr 1, d3)" by (metis prod.collapse)
  then show thesis
    using rows v w job(2) status by (intro that [of ?x]) (simp_all add: complete_batch_def Let_def del: fold_simps)
qed

theorem completed_batch_jobs_witness:
  "list_all2 (job_of_upload 10) [new_job (62, 60, 60) 10 sample_accepted]
     [sample_accepted]"
proof -
  obtain x' d2 where "complete_batch sample_service sample_gateway pk sample_completion 10 60 sample_upload_db
       = (Inr (Some \<lparr> br_batch = x', br_uploads = [sample_accepted],
            br_jobs = [new_job (62, 60, 60) 10 sample_accepted] \<rparr>), d2)"
    "batch_status x' = BATCH_COMPLETE" by (rule sample_completed)
  moreover have "locked_batch sample_upload_db 10 60 = Some sample_open_batch" "batch_status sample_open_batch = BATCH_PENDING"
    "up_status sample_accepted = UPLOADED"
    by (simp_all add: locked_batch_def scope_one_def sample_upload_db_def sample_open_batch_def sample_batch_def
        sample_accepted_def)
  ultimately show ?thesis using completed_batch_jobs by fastforce
qed

end
