(* ===== verification/Security.thy ===== *)
theory Security
  imports Database
begin

text \<open>
  Passwords, one-time codes and JSON web tokens: \<open>app/core/security.py\<close> and
  \<open>app/core/password_policy.py\<close>.  The hashing and JWT packages are arguments.
\<close>

section \<open>Parsing a UUID\<close>

text \<open>\<open>s.replace(p, "")\<close> for a non-empty \<open>p\<close>.\<close>

function py_remove :: "string \<Rightarrow> string \<Rightarrow> string" where
  "py_remove p s = (case s of [] \<Rightarrow> []
     | c # cs \<Rightarrow> if p \<noteq> [] \<and> has_prefix p s then py_remove p (drop (length p) s) else c # py_remove p cs)"
  by pat_completeness auto
termination by (relation "measure (\<lambda>(p, s). length s)") auto

declare py_remove.simps [simp del]

text \<open>\<open>s.strip(chars)\<close>.\<close>

definition py_strip_chars :: "string \<Rightarrow> string \<Rightarrow> string" where
  "py_strip_chars chars s = rev (dropWhile (\<lambda>c. c \<in> set chars) (rev (dropWhile (\<lambda>c. c \<in> set chars) s)))"

definition hex_value :: "char \<Rightarrow> nat option" where
  "hex_value c = (let n = (of_char c :: nat) in
     if 48 \<le> n \<and> n \<le> 57 then Some (n - 48)
     else if 97 \<le> n \<and> n \<le> 102 then Some (n - 87)
     else if 65 \<le> n \<and> n \<le> 70 then Some (n - 55) else None)"

text \<open>\<open>int(s, 16)\<close>: surrounding white space, a sign, a \<open>0x\<close> prefix and single underscores between
  digits are accepted.\<close>

fun hex_rest :: "nat \<Rightarrow> string \<Rightarrow> nat option" where
  "hex_rest n [] = Some n"
| "hex_rest n (c # cs) =
     (if c = CHR ''_''
      then (case cs of [] \<Rightarrow> None
            | e # es \<Rightarrow> (case hex_value e of None \<Rightarrow> None | Some v \<Rightarrow> hex_rest (16 * n + v) es))
      else (case hex_value c of None \<Rightarrow> None | Some v \<Rightarrow> hex_rest (16 * n + v) cs))"

definition hex_number :: "string \<Rightarrow> nat option" where
  "hex_number s = (case s of [] \<Rightarrow> None
     | c # cs \<Rightarrow> (case hex_value c of None \<Rightarrow> None | Some v \<Rightarrow> hex_rest v cs))"

definition py_int16 :: "string \<Rightarrow> int option" where
  "py_int16 s =
     (let t = py_strip s;
          negative = has_prefix ''-'' t;
          t' = (if negative \<or> has_prefix ''+'' t then drop 1 t else t);
          n = (if has_prefix ''0x'' t' \<or> has_prefix ''0X'' t'
               then hex_number (if has_prefix ''_'' (drop 2 t') then drop 3 t' else drop 2 t')
               else hex_number t')
      in map_option (\<lambda>k. if negative then - int k else int k) n)"

text \<open>\<open>UUID(s)\<close>; \<open>None\<close> is the \<open>ValueError\<close>.\<close>

definition parse_uuid :: "string \<Rightarrow> uuid option" where
  "parse_uuid s =
     (let hex = py_remove ''-'' (py_strip_chars ''{}'' (py_remove ''uuid:'' (py_remove ''urn:'' s)))
      in if length hex \<noteq> 32 then None
         else case py_int16 hex of
           None \<Rightarrow> None
         | Some z \<Rightarrow> if 0 \<le> z \<and> z < 2 ^ 128 then Some (nat z) else None)"

lemma py_remove_Nil [simp]: "py_remove p [] = []"
  by (simp add: py_remove.simps)

lemma py_remove_absent: "p \<noteq> [] \<Longrightarrow> hd p \<notin> set s \<Longrightarrow> py_remove p s = s"
proof (induction s)
  case Nil
  then show ?case by simp
next
  case (Cons c cs)
  then obtain a ps where "p = a # ps" by (cases p) simp_all
  with Cons show ?case by (simp add: py_remove.simps [of "a # ps" "c # cs"])
qed

lemma py_remove_single: "py_remove [c] s = filter (\<lambda>x. x \<noteq> c) s"
proof (induction s)
  case Nil
  then show ?case by simp
next
  case (Cons x xs)
  then show ?case by (subst py_remove.simps) simp
qed

lemma hex_value_digit_char: "k < 16 \<Longrightarrow> hex_value (digit_char k) = Some k"
  by (auto simp: hex_value_def of_char_digit_char Let_def)

lemma hex_digit_cases:
  assumes "c \<in> set (hex_digits k n)"
  obtains d where "d < 16" "c = digit_char d"
  using assms
proof (induction k arbitrary: n thesis)
  case 0
  then show ?case by simp
next
  case (Suc k)
  from Suc.prems(2) consider "c \<in> set (hex_digits k (n div 16))" | "c = digit_char (n mod 16)" by auto
  then show ?case
  proof cases
    case 1
    then show ?thesis using Suc.IH Suc.prems(1) by blast
  next
    case 2
    then show ?thesis using Suc.prems(1) [of "n mod 16"] by simp
  qed
qed

lemma hex_digit_code:
  assumes "c \<in> set (hex_digits k n)"
  shows "(48 \<le> (of_char c :: nat) \<and> (of_char c :: nat) \<le> 57) \<or> (97 \<le> (of_char c :: nat) \<and> (of_char c :: nat) \<le> 102)"
  using assms by (rule hex_digit_cases) (auto simp: of_char_digit_char)

lemma hex_digit_plain:
  assumes "c \<in> set (hex_digits k n)"
  shows "c \<notin> {CHR ''-'', CHR ''{'', CHR ''}'', CHR ''u'', CHR ''_'', CHR ''+'', CHR ''x'', CHR ''X''}" "\<not> py_isspace c"
  using hex_digit_code [OF assms] by (auto simp: py_isspace_def Let_def)

lemma hex_rest_digits:
  "(\<forall>d \<in> set ds. d < 16) \<Longrightarrow> hex_rest n (map digit_char ds) = Some (foldl (\<lambda>a d. 16 * a + d) n ds)"
proof (induction ds arbitrary: n)
  case Nil
  then show ?case by simp
next
  case (Cons d ds)
  then have "(of_char (digit_char d) :: nat) \<noteq> of_char (CHR ''_'')" by (simp add: of_char_digit_char)
  then have "digit_char d \<noteq> CHR ''_''" by metis
  with Cons show ?case by (simp add: hex_value_digit_char)
qed

fun nibbles :: "nat \<Rightarrow> nat \<Rightarrow> nat list" where
  "nibbles 0 n = []"
| "nibbles (Suc k) n = nibbles k (n div 16) @ [n mod 16]"

lemma hex_digits_nibbles: "hex_digits k n = map digit_char (nibbles k n)"
  by (induction k arbitrary: n) simp_all

lemma nibbles_lt: "\<forall>d \<in> set (nibbles k n). d < 16"
  by (induction k arbitrary: n) auto

lemma foldl_nibbles: "n < 16 ^ k \<Longrightarrow> foldl (\<lambda>a d. 16 * a + d) 0 (nibbles k n) = n"
proof (induction k arbitrary: n)
  case 0
  then show ?case by simp
next
  case (Suc k)
  then have "n div 16 < 16 ^ k" by (simp add: less_mult_imp_div_less mult.commute)
  with Suc show ?case by simp
qed

lemma hex_number_digits:
  assumes "0 < k" and "n < 16 ^ k"
  shows "hex_number (hex_digits k n) = Some n"
proof -
  have "nibbles k n \<noteq> []" using assms(1) by (cases k) simp_all
  then obtain d ds where ds: "nibbles k n = d # ds" by (cases "nibbles k n") auto
  moreover have "d < 16" "\<forall>e \<in> set ds. e < 16" using nibbles_lt [of k n] ds by simp_all
  moreover have "foldl (\<lambda>a e. 16 * a + e) d ds = n" using foldl_nibbles [OF assms(2)] ds by simp
  ultimately show ?thesis
    unfolding hex_digits_nibbles hex_number_def by (simp add: hex_value_digit_char hex_rest_digits)
qed

lemma strip_plain: "(\<forall>c \<in> set s. \<not> P c) \<Longrightarrow> rev (dropWhile P (rev (dropWhile P s))) = s"
  by (metis dropWhile_eq_self_iff hd_in_set rev_rev_ident set_rev)

lemma parse_uuid_str:
  assumes "u < 2 ^ 128"
  shows "parse_uuid (uuid_str u) = Some u"
proof -
  let ?h = "hex_digits 32 u"
  note plain = hex_digit_plain [of _ 32 u]
  have sub: "set (uuid_str u) \<subseteq> insert (CHR ''-'') (set ?h)"
    by (auto simp: uuid_str_def uuid_hex_def Let_def dest!: in_set_takeD in_set_dropD)
  then have chars: "CHR ''u'' \<notin> set (uuid_str u)" "CHR ''{'' \<notin> set (uuid_str u)" "CHR ''}'' \<notin> set (uuid_str u)"
    using plain(1) by blast+
  have keep: "filter (\<lambda>x. x \<noteq> CHR ''-'') t = t" if "set t \<subseteq> set ?h" for t
    using that plain(1) by (intro filter_True) blast
  have sets: "set (take n (drop m ?h)) \<subseteq> set ?h" "set (drop m ?h) \<subseteq> set ?h" "set (take n ?h) \<subseteq> set ?h" for n m
    by (auto dest: in_set_takeD in_set_dropD)
  have hex: "py_remove ''-'' (uuid_str u) = ?h"
    using uuid_parts [of ?h] by (simp add: py_remove_single uuid_str_def uuid_hex_def Let_def keep sets)
  have strip: "py_strip_chars ''{}'' (uuid_str u) = uuid_str u"
    unfolding py_strip_chars_def by (rule strip_plain) (use chars in auto)
  have space: "py_strip ?h = ?h"
    unfolding py_strip_def by (rule strip_plain) (use plain(2) in blast)
  have prefixes: "\<not> has_prefix ''-'' ?h" "\<not> has_prefix ''+'' ?h" "\<not> has_prefix ''0x'' ?h" "\<not> has_prefix ''0X'' ?h"
  proof -
    have "\<not> has_prefix [c] s" if "c \<notin> set s" for c and s :: string using that by (cases s) auto
    moreover have "\<not> has_prefix [a, c] s" if "c \<notin> set s" for a c and s :: string
      using that by (cases s; cases "tl s") auto
    ultimately show "\<not> has_prefix ''-'' ?h" "\<not> has_prefix ''+'' ?h" "\<not> has_prefix ''0x'' ?h" "\<not> has_prefix ''0X'' ?h"
      using plain(1) by blast+
  qed
  have "u < 16 ^ 32" using assms by simp
  then have "py_int16 ?h = Some (int u)"
    using prefixes by (simp add: py_int16_def space Let_def hex_number_digits)
  moreover have "int u < 2 ^ 128" using assms by (metis of_nat_less_numeral_power_cancel_iff)
  ultimately show ?thesis
    using chars by (simp add: parse_uuid_def py_remove_absent strip hex Let_def)
qed

section \<open>Passwords and codes\<close>

text \<open>\<open>h_hash salt secret\<close> and \<open>h_verify secret hash\<close> are the calls of the hashing package.\<close>

record hasher =
  h_hash :: "string \<Rightarrow> string \<Rightarrow> string"
  h_verify :: "string \<Rightarrow> string \<Rightarrow> bool"

definition hasher_ok :: "hasher \<Rightarrow> bool" where
  "hasher_ok h \<longleftrightarrow> (\<forall>salt secret. h_verify h secret (h_hash h salt secret))"

text \<open>\<open>f"{n:06d}"\<close> for the random \<open>n\<close> below one million.\<close>

definition create_six_digit_otp :: "nat \<Rightarrow> string" where
  "create_six_digit_otp n = (let s = dec_str n in replicate (6 - length s) (CHR ''0'') @ s)"

text \<open>The policy of \<open>app/core/password_policy.py\<close>, on Latin-1 letters and digits.\<close>

definition py_islower :: "char \<Rightarrow> bool" where
  "py_islower c = (let n = (of_char c :: nat) in
     (97 \<le> n \<and> n \<le> 122) \<or> n = 170 \<or> n = 181 \<or> n = 186 \<or> (223 \<le> n \<and> n \<noteq> 247))"

definition py_isupper :: "char \<Rightarrow> bool" where
  "py_isupper c = (let n = (of_char c :: nat) in
     (65 \<le> n \<and> n \<le> 90) \<or> (192 \<le> n \<and> n \<le> 222 \<and> n \<noteq> 215))"

definition py_isdigit :: "char \<Rightarrow> bool" where
  "py_isdigit c = (let n = (of_char c :: nat) in
     (48 \<le> n \<and> n \<le> 57) \<or> n = 178 \<or> n = 179 \<or> n = 185)"

datatype password_rejection = Needs_lowercase | Needs_uppercase | Needs_number

definition validate_password_strength :: "string \<Rightarrow> password_rejection + string" where
  "validate_password_strength s =
     (if \<not> list_ex py_islower s then Inl Needs_lowercase
      else if \<not> list_ex py_isupper s then Inl Needs_uppercase
      else if \<not> list_ex py_isdigit s then Inl Needs_number
      else Inr s)"

section \<open>Tokens\<close>

datatype token_type = ACCESS | REFRESH

definition token_type_value :: "token_type \<Rightarrow> string" where
  "token_type_value t = (case t of ACCESS \<Rightarrow> ''access'' | REFRESH \<Rightarrow> ''refresh'')"

definition parse_token_type :: "string \<Rightarrow> token_type option" where
  "parse_token_type s =
     (if s = ''access'' then Some ACCESS else if s = ''refresh'' then Some REFRESH else None)"

text \<open>A claim as JSON has it; \<open>Claim_instant\<close> is a \<open>datetime\<close> that is encoded as whole seconds.\<close>

datatype claim = Claim_string string | Claim_int int | Claim_bool bool | Claim_instant time | Claim_other

type_synonym claims = "(string \<times> claim) list"

text \<open>The calls of the JWT package with the configured key and algorithm: \<open>jwt_decode now raw\<close> is
  \<open>None\<close> when the signature, the expiry or a required claim is refused.\<close>

record jwt =
  jwt_encode :: "claims \<Rightarrow> string"
  jwt_decode :: "time \<Rightarrow> string \<Rightarrow> claims option"

record issued_token =
  raw_token :: string
  token_id :: uuid
  token_expires_at :: time

record decoded_token =
  claim_user_id :: uuid
  claim_token_id :: uuid
  claim_token_type :: token_type
  claim_session_version :: int
  claim_expires_at :: time

definition token_claims :: "uuid \<Rightarrow> uuid \<Rightarrow> token_type \<Rightarrow> int \<Rightarrow> time \<Rightarrow> time \<Rightarrow> claims" where
  "token_claims u i kind version now expires =
     [(''sub'', Claim_string (uuid_str u)), (''jti'', Claim_string (uuid_str i)),
      (''type'', Claim_string (token_type_value kind)), (''ver'', Claim_int version),
      (''iat'', Claim_instant now), (''exp'', Claim_instant expires)]"

text \<open>\<open>Inl ()\<close> is the \<open>ValueError\<close> of a negative session version.\<close>

definition create_jwt_token ::
  "jwt \<Rightarrow> time \<Rightarrow> uuid \<Rightarrow> uuid \<Rightarrow> token_type \<Rightarrow> int \<Rightarrow> int \<Rightarrow> unit + issued_token" where
  "create_jwt_token j now i u kind expires_delta version =
     (let expires = now + expires_delta
      in if version < 0 then Inl ()
         else Inr \<lparr> raw_token = jwt_encode j (token_claims u i kind version now expires),
                    token_id = i, token_expires_at = expires \<rparr>)"

text \<open>\<open>Invalid_token\<close> is the \<open>ValueError\<close> the callers catch; a claim of another type than the code
  expects raises an error that they do not.\<close>

datatype decode_error = Invalid_token | Claim_type_error

fun claim_uuid :: "claim option \<Rightarrow> decode_error + uuid" where
  "claim_uuid None = Inl Invalid_token"
| "claim_uuid (Some (Claim_string s)) = (case parse_uuid s of None \<Rightarrow> Inl Invalid_token | Some u \<Rightarrow> Inr u)"
| "claim_uuid (Some _) = Inl Claim_type_error"

fun claim_kind :: "claim option \<Rightarrow> decode_error + token_type" where
  "claim_kind None = Inl Invalid_token"
| "claim_kind (Some (Claim_string s)) = (case parse_token_type s of None \<Rightarrow> Inl Invalid_token | Some k \<Rightarrow> Inr k)"
| "claim_kind (Some _) = Inl Invalid_token"

fun claim_version :: "claim option \<Rightarrow> decode_error + int" where
  "claim_version None = Inr 0"
| "claim_version (Some (Claim_int n)) = (if n < 0 then Inl Invalid_token else Inr n)"
| "claim_version (Some _) = Inl Invalid_token"

fun claim_instant :: "claim option \<Rightarrow> decode_error + time" where
  "claim_instant None = Inl Invalid_token"
| "claim_instant (Some (Claim_int n)) = Inr (seconds n)"
| "claim_instant (Some _) = Inl Claim_type_error"

definition decode_jwt_token :: "jwt \<Rightarrow> time \<Rightarrow> string \<Rightarrow> decode_error + decoded_token" where
  "decode_jwt_token j now raw =
     (case jwt_decode j now raw of
        None \<Rightarrow> Inl Invalid_token
      | Some payload \<Rightarrow>
        (case claim_version (map_of payload ''ver'') of
           Inl e \<Rightarrow> Inl e
         | Inr version \<Rightarrow>
           (case claim_uuid (map_of payload ''sub'') of
              Inl e \<Rightarrow> Inl e
            | Inr u \<Rightarrow>
              (case claim_uuid (map_of payload ''jti'') of
                 Inl e \<Rightarrow> Inl e
               | Inr i \<Rightarrow>
                 (case claim_kind (map_of payload ''type'') of
                    Inl e \<Rightarrow> Inl e
                  | Inr kind \<Rightarrow>
                    (case claim_instant (map_of payload ''exp'') of
                       Inl e \<Rightarrow> Inl e
                     | Inr expires \<Rightarrow>
                         Inr \<lparr> claim_user_id = u, claim_token_id = i, claim_token_type = kind,
                               claim_session_version = version, claim_expires_at = expires \<rparr>))))))"

text \<open>What the JWT package documents: a token decodes, before its expiry, to its claims with the
  instants as whole seconds.\<close>

definition whole_seconds :: "time \<Rightarrow> int" where
  "whole_seconds t = t div microseconds_per_second"

fun json_claim :: "claim \<Rightarrow> claim" where
  "json_claim (Claim_instant t) = Claim_int (whole_seconds t)"
| "json_claim c = c"

definition jwt_round_trip :: "jwt \<Rightarrow> bool" where
  "jwt_round_trip j \<longleftrightarrow> (\<forall>u i kind version now expires later.
     later < seconds (whole_seconds expires) \<longrightarrow>
     jwt_decode j later (jwt_encode j (token_claims u i kind version now expires))
       = Some (map (\<lambda>(k, c). (k, json_claim c)) (token_claims u i kind version now expires)))"

lemma decode_issued:
  assumes "jwt_round_trip j" and "u < 2 ^ 128" and "i < 2 ^ 128" and "0 \<le> version"
    and "later < seconds (whole_seconds expires)"
  shows "decode_jwt_token j later (jwt_encode j (token_claims u i kind version now expires)) =
     Inr \<lparr> claim_user_id = u, claim_token_id = i, claim_token_type = kind,
           claim_session_version = version, claim_expires_at = seconds (whole_seconds expires) \<rparr>"
proof -
  let ?p = "token_claims u i kind version now expires"
  have "jwt_decode j later (jwt_encode j ?p) = Some (map (\<lambda>(k, c). (k, json_claim c)) ?p)"
    using assms(1,5) by (simp add: jwt_round_trip_def)
  then show ?thesis
    using assms(2-4)
    by (simp add: decode_jwt_token_def token_claims_def parse_uuid_str)
      (simp add: token_type_value_def parse_token_type_def split: token_type.splits)
qed

text \<open>
  A token that \<open>create_jwt_token\<close> issues decodes, until it expires, to the user, token id, type and
  session version it was issued for, and to its expiry in whole seconds.
\<close>

theorem token_round_trip:
  assumes "jwt_round_trip j" and "create_jwt_token j now i u kind delta version = Inr t"
    and "u < 2 ^ 128" and "i < 2 ^ 128" and "later < seconds (whole_seconds (token_expires_at t))"
  shows "decode_jwt_token j later (raw_token t) =
     Inr \<lparr> claim_user_id = u, claim_token_id = i, claim_token_type = kind,
           claim_session_version = version, claim_expires_at = seconds (whole_seconds (now + delta)) \<rparr>"
proof -
  have t: "raw_token t = jwt_encode j (token_claims u i kind version now (now + delta))"
    "token_expires_at t = now + delta" "0 \<le> version"
    using assms(2) by (auto simp: create_jwt_token_def Let_def split: if_splits)
  with assms show ?thesis by (simp add: decode_issued)
qed

subsection \<open>A package that keeps what is documented\<close>

text \<open>For the witnesses: the token is the list of the claims, the numbers written in unary.\<close>

definition unary :: "int \<Rightarrow> string" where
  "unary z = (if z < 0 then CHR ''-'' else CHR ''+'') # replicate (nat \<bar>z\<bar>) (CHR ''1'')"

definition parse_unary :: "string \<Rightarrow> int" where
  "parse_unary s = (case s of [] \<Rightarrow> 0 | c # cs \<Rightarrow> if c = CHR ''-'' then - int (length cs) else int (length cs))"

definition claim_text :: "claim option \<Rightarrow> string" where
  "claim_text c = (case c of Some (Claim_string s) \<Rightarrow> s | Some (Claim_int n) \<Rightarrow> unary n
     | Some (Claim_instant t) \<Rightarrow> unary (whole_seconds t) | _ \<Rightarrow> [])"

definition sample_jwt :: jwt where
  "sample_jwt =
     \<lparr> jwt_encode = (\<lambda>p. claim_text (map_of p ''sub'') @ ''.'' @ claim_text (map_of p ''jti'') @ ''.''
         @ claim_text (map_of p ''type'') @ ''.'' @ claim_text (map_of p ''ver'') @ ''.''
         @ claim_text (map_of p ''iat'') @ ''.'' @ claim_text (map_of p ''exp'')),
       jwt_decode = (\<lambda>now raw. case split_on (CHR ''.'') raw of
           [u, i, kind, version, iat, expires] \<Rightarrow>
             if now < seconds (parse_unary expires)
             then Some [(''sub'', Claim_string u), (''jti'', Claim_string i), (''type'', Claim_string kind),
               (''ver'', Claim_int (parse_unary version)), (''iat'', Claim_int (parse_unary iat)),
               (''exp'', Claim_int (parse_unary expires))]
             else None
         | _ \<Rightarrow> None) \<rparr>"

lemma parse_unary_unary [simp]: "parse_unary (unary z) = z"
  by (simp add: parse_unary_def unary_def)

lemma split_on_part: "sep \<notin> set a \<Longrightarrow> split_on sep (a @ sep # b) = a # split_on sep b"
  by (induction a) auto

lemma split_on_last: "sep \<notin> set a \<Longrightarrow> split_on sep a = [a]"
  by (induction a) auto

lemma dot_free: "CHR ''.'' \<notin> set (unary z)" "CHR ''.'' \<notin> set (token_type_value kind)" "CHR ''.'' \<notin> set (uuid_str u)"
proof -
  have "(of_char c :: nat) \<noteq> of_char (CHR ''.'')" if "c \<in> set (hex_digits 32 u)" for c
    using hex_digit_code [OF that] by auto
  then have "CHR ''.'' \<notin> set (hex_digits 32 u)" by metis
  then show "CHR ''.'' \<notin> set (uuid_str u)"
    by (auto simp: uuid_str_def uuid_hex_def Let_def dest!: in_set_takeD in_set_dropD)
qed (simp_all add: unary_def token_type_value_def split: token_type.splits)

lemma sample_jwt_ok: "jwt_round_trip sample_jwt"
  unfolding jwt_round_trip_def sample_jwt_def
  using dot_free by (simp add: token_claims_def claim_text_def split_on_part split_on_last)

theorem token_round_trip_witness:
  "\<exists>t. create_jwt_token sample_jwt 0 7 1 ACCESS (minutes 15) 2 = Inr t
     \<and> decode_jwt_token sample_jwt (minutes 14) (raw_token t) = Inr \<lparr> claim_user_id = 1, claim_token_id = 7,
          claim_token_type = ACCESS, claim_session_version = 2, claim_expires_at = minutes 15 \<rparr>"
proof -
  obtain t where t: "create_jwt_token sample_jwt 0 7 1 ACCESS (minutes 15) 2 = Inr t" "token_expires_at t = minutes 15"
    by (simp add: create_jwt_token_def Let_def)
  then show ?thesis
    using token_round_trip [OF sample_jwt_ok t(1), of "minutes 14"]
    by (simp add: whole_seconds_def duration_defs)
qed

end
