(* ===== verification/Auth_Rows.thy ===== *)
theory Auth_Rows
  imports Security
begin

text \<open>
  The rows that the identity services share: users, refresh tokens and one-time codes, with the
  issuing and checking of a code of \<open>app/services/auth.py\<close>.
\<close>

section \<open>Settings and rows\<close>

record auth_settings =
  cfg_otp_max_attempts :: int
  cfg_otp_resend_cooldown_seconds :: int
  cfg_email_verification_expire_minutes :: int
  cfg_password_reset_expire_minutes :: int
  cfg_email_two_step_expire_minutes :: int
  cfg_access_token_expire_minutes :: int
  cfg_refresh_token_expire_days :: int
  cfg_terms_version :: string

definition normalize_email :: "string \<Rightarrow> string" where
  "normalize_email s = py_lower (py_strip s)"

definition user_by_email :: "db \<Rightarrow> string \<Rightarrow> user option" where
  "user_by_email d s = row_where (\<lambda>u. email u = normalize_email s) (users d)"

definition user_by_id :: "db \<Rightarrow> uuid \<Rightarrow> user option" where
  "user_by_id d i = row_where (\<lambda>u. user_id u = i) (users d)"

definition save_user :: "user \<Rightarrow> db \<Rightarrow> db" where
  "save_user u d = d\<lparr> users := update_where (\<lambda>x. user_id x = user_id u) (\<lambda>_. u) (users d) \<rparr>"

text \<open>The constraints of the tables that the identity services write.\<close>

definition identity_tables_ok :: "db \<Rightarrow> bool" where
  "identity_tables_ok d \<longleftrightarrow> user_table_ok d \<and> otp_tables_ok d \<and> challenge_table_ok d
     \<and> refresh_token_table_ok d"

text \<open>\<open>settle ok e r d' d\<close>: a commit of \<open>d'\<close>, after which the request returns or raises \<open>r\<close>; a refused
  commit raises \<open>e\<close> and leaves \<open>d\<close>.\<close>

definition settle :: "(db \<Rightarrow> bool) \<Rightarrow> 'e \<Rightarrow> 'e + 'a \<Rightarrow> db \<Rightarrow> db \<Rightarrow> ('e + 'a) \<times> db" where
  "settle ok e r d' d = (if ok d' then (r, d') else (Inl e, d))"

section \<open>Sessions\<close>

definition session_is_open :: "uuid \<Rightarrow> refresh_token \<Rightarrow> bool" where
  "session_is_open u t \<longleftrightarrow> rt_user_id t = u \<and> is_null (revoked_at t)"

text \<open>\<open>UPDATE refresh_tokens SET revoked_at WHERE user_id AND revoked_at IS NULL\<close>\<close>

definition revoke_sessions :: "uuid \<Rightarrow> time \<Rightarrow> db \<Rightarrow> db" where
  "revoke_sessions u now d = d\<lparr> refresh_tokens :=
     update_where (session_is_open u) (\<lambda>t. t\<lparr> revoked_at := Some now \<rparr>) (refresh_tokens d) \<rparr>"

definition sessions_to_revoke :: "uuid \<Rightarrow> db \<Rightarrow> nat" where
  "sessions_to_revoke u d = count_where (session_is_open u) (refresh_tokens d)"

section \<open>One-time codes\<close>

definition code_is_open :: "uuid \<Rightarrow> 'a otp_row_scheme \<Rightarrow> bool" where
  "code_is_open u r \<longleftrightarrow> otp_user_id r = u \<and> is_null (used_at r)"

text \<open>\<open>UPDATE ... SET used_at WHERE user_id AND used_at IS NULL\<close>\<close>

definition close_codes :: "uuid \<Rightarrow> time \<Rightarrow> 'a otp_row_scheme list \<Rightarrow> 'a otp_row_scheme list" where
  "close_codes u now t = update_where (code_is_open u) (\<lambda>r. r\<lparr> used_at := Some now \<rparr>) t"

definition save_code :: "'a otp_row_scheme \<Rightarrow> 'a otp_row_scheme list \<Rightarrow> 'a otp_row_scheme list" where
  "save_code r t = update_where (\<lambda>x. otp_id x = otp_id r) (\<lambda>_. r) t"

definition invalidate_auth_otps :: "uuid \<Rightarrow> time \<Rightarrow> db \<Rightarrow> db" where
  "invalidate_auth_otps u now d =
     d\<lparr> email_verification_otps := close_codes u now (email_verification_otps d),
        password_reset_otps := close_codes u now (password_reset_otps d),
        email_change_otps := close_codes u now (email_change_otps d),
        two_step_challenges := close_codes u now (two_step_challenges d) \<rparr>"

text \<open>What a request draws when it issues a code: the identifier, the salt and the random number, and
  the clock when it checks the cooldown, when it issues and when the row's default is taken.\<close>

record otp_context =
  oc_id :: uuid
  oc_salt :: string
  oc_number :: nat
  oc_checked :: time
  oc_now :: time
  oc_created :: time

definition resend_is_allowed :: "auth_settings \<Rightarrow> time \<Rightarrow> uuid \<Rightarrow> 'a otp_row_scheme list \<Rightarrow> bool" where
  "resend_is_allowed cfg now u t =
     (case latest_where otp_created_at (\<lambda>r. otp_user_id r = u) t of
        None \<Rightarrow> True
      | Some r \<Rightarrow> seconds (cfg_otp_resend_cooldown_seconds cfg) \<le> now - otp_created_at r)"

definition new_code :: "hasher \<Rightarrow> otp_context \<Rightarrow> uuid \<Rightarrow> int \<Rightarrow> otp_row" where
  "new_code h ctx u expires_in_minutes =
     \<lparr> otp_id = oc_id ctx, otp_user_id = u, otp_created_at = oc_created ctx,
       otp_hash = h_hash h (oc_salt ctx) (create_six_digit_otp (oc_number ctx)),
       otp_expires_at = oc_now ctx + minutes expires_in_minutes, attempt_count = 0, used_at = None \<rparr>"

text \<open>\<open>_issue_otp\<close> on a code table; \<open>extend_row\<close> adds the columns that the table has besides.\<close>

definition issue_otp ::
  "auth_settings \<Rightarrow> hasher \<Rightarrow> otp_context \<Rightarrow> (otp_row \<Rightarrow> 'a otp_row_scheme) \<Rightarrow> uuid \<Rightarrow> int \<Rightarrow> bool
   \<Rightarrow> 'a otp_row_scheme list \<Rightarrow> 'a otp_row_scheme list option" where
  "issue_otp cfg h ctx extend_row u expires_in_minutes enforce_resend_cooldown t =
     (if enforce_resend_cooldown \<and> \<not> resend_is_allowed cfg (oc_checked ctx) u t then None
      else Some (insert_row (extend_row (new_code h ctx u expires_in_minutes))
                   (close_codes u (oc_now ctx) t)))"

definition reset_row :: "otp_row \<Rightarrow> password_reset_otp" where
  "reset_row r = otp_row.extend r (password_reset_otp.fields None)"

definition get_active_otp :: "uuid \<Rightarrow> 'a otp_row_scheme list \<Rightarrow> 'a otp_row_scheme option" where
  "get_active_otp u t = latest_where otp_created_at (code_is_open u) t"

text \<open>\<open>_validate_otp\<close>: whether the code is accepted, and the row the check leaves.\<close>

definition validate_otp ::
  "auth_settings \<Rightarrow> hasher \<Rightarrow> time \<Rightarrow> 'a otp_row_scheme \<Rightarrow> string \<Rightarrow> bool \<times> 'a otp_row_scheme" where
  "validate_otp cfg h now r raw_otp =
     (if \<not> is_null (used_at r) \<or> otp_expires_at r \<le> now
      then (False, if is_null (used_at r) then r\<lparr> used_at := Some now \<rparr> else r)
      else if cfg_otp_max_attempts cfg \<le> attempt_count r then (False, r\<lparr> used_at := Some now \<rparr>)
      else if h_verify h raw_otp (otp_hash r) then (True, r)
      else (False, r\<lparr> attempt_count := attempt_count r + 1,
                      used_at := (if cfg_otp_max_attempts cfg \<le> attempt_count r + 1 then Some now
                                  else used_at r) \<rparr>))"

end
