(* ===== verification/Email_Two_Step.thy ===== *)
theory Email_Two_Step
  imports Auth_Rows
begin

text \<open>
  The emailed second step of \<open>app/services/email_two_step.py\<close>: challenges to enable, disable and log in.
\<close>

section \<open>The email code of the second step\<close>

datatype two_step_error = EmailTwoStepNotFoundError | EmailTwoStepPasswordInvalidError
  | EmailTwoStepEmailMismatchError | EmailTwoStepStateConflictError
  | EmailTwoStepChallengeInvalidError | TwoStepIndexError | TwoStepCommitError

text \<open>\<open>email.partition("@")\<close>; an empty local part would be an \<open>IndexError\<close>, \<open>None\<close> here.\<close>

definition mask_email :: "string \<Rightarrow> string option" where
  "mask_email s =
     (let local = takeWhile (\<lambda>c. c \<noteq> CHR ''@'') s;
          rest = dropWhile (\<lambda>c. c \<noteq> CHR ''@'') s;
          n = length local
      in if rest = [] then Some ''***''
         else if n = 0 then None
         else Some ((if n = 1 \<or> n = 2 then hd local # ''*''
                     else hd local # replicate (min (n - 2) 6) (CHR ''*'') @ [last local])
                    @ ''@'' @ tl rest))"

definition two_step_lock_user :: "uuid \<Rightarrow> db \<Rightarrow> two_step_error + user" where
  "two_step_lock_user i d =
     (case user_by_id d i of
        None \<Rightarrow> Inl EmailTwoStepNotFoundError
      | Some u \<Rightarrow>
          if \<not> user_is_active u \<or> \<not> is_verified u \<or> \<not> is_null (deleted_at u)
          then Inl EmailTwoStepNotFoundError else Inr u)"

record two_step_status =
  ts_enabled :: bool
  ts_enabled_at :: "time option"
  ts_masked_destination :: string
  ts_reauthentication_required :: bool

definition status_response :: "user \<Rightarrow> bool \<Rightarrow> two_step_error + two_step_status" where
  "status_response u reauthentication_required =
     (case mask_email (email u) of
        None \<Rightarrow> Inl TwoStepIndexError
      | Some masked \<Rightarrow> Inr \<lparr> ts_enabled = email_two_step_enabled u,
          ts_enabled_at = email_two_step_enabled_at u, ts_masked_destination = masked,
          ts_reauthentication_required = reauthentication_required \<rparr>)"

definition get_status :: "uuid \<Rightarrow> db \<Rightarrow> (two_step_error + two_step_status) \<times> db" where
  "get_status i d =
     (case two_step_lock_user i d of Inl e \<Rightarrow> (Inl e, d) | Inr u \<Rightarrow> (status_response u False, d))"

definition challenge_is_open :: "uuid \<Rightarrow> email_two_step_purpose \<Rightarrow> email_two_step_challenge \<Rightarrow> bool" where
  "challenge_is_open u p c \<longleftrightarrow> otp_user_id c = u \<and> purpose c = p \<and> is_null (used_at c)"

definition latest_active_challenge ::
  "db \<Rightarrow> uuid \<Rightarrow> email_two_step_purpose \<Rightarrow> email_two_step_challenge option" where
  "latest_active_challenge d u p = latest_where otp_created_at (challenge_is_open u p) (two_step_challenges d)"

record challenge_response =
  cr_challenge_id :: uuid
  cr_purpose :: email_two_step_purpose
  cr_masked_destination :: string
  cr_expires_in :: int

definition challenge_response_of ::
  "email_two_step_challenge \<Rightarrow> string \<Rightarrow> time \<Rightarrow> two_step_error + challenge_response" where
  "challenge_response_of c address now =
     (case mask_email address of
        None \<Rightarrow> Inl TwoStepIndexError
      | Some masked \<Rightarrow> Inr \<lparr> cr_challenge_id = otp_id c, cr_purpose = purpose c,
          cr_masked_destination = masked,
          cr_expires_in = max 0 ((otp_expires_at c - now) div microseconds_per_second) \<rparr>)"

text \<open>The clock when the response is built, besides what issuing a code draws.\<close>

record challenge_context = otp_context +
  cc_responded :: time

definition new_challenge ::
  "auth_settings \<Rightarrow> hasher \<Rightarrow> challenge_context \<Rightarrow> user \<Rightarrow> email_two_step_purpose \<Rightarrow> bool
   \<Rightarrow> email_two_step_challenge" where
  "new_challenge cfg h ctx u p remember =
     otp_row.extend
       (new_code h (otp_context.truncate ctx) (user_id u) (cfg_email_two_step_expire_minutes cfg))
       (email_two_step_challenge.fields p (auth_session_version u) remember)"

definition issue_locked ::
  "auth_settings \<Rightarrow> hasher \<Rightarrow> challenge_context \<Rightarrow> user \<Rightarrow> email_two_step_purpose \<Rightarrow> bool \<Rightarrow> bool
   \<Rightarrow> db \<Rightarrow> (two_step_error + challenge_response) \<times> db" where
  "issue_locked cfg h ctx u p remember reuse_during_cooldown d =
     (let now = oc_now ctx;
          reused = (case latest_active_challenge d (user_id u) p of
              None \<Rightarrow> None
            | Some c \<Rightarrow>
                if reuse_during_cooldown \<and> now < otp_expires_at c
                   \<and> session_version c = auth_session_version u
                   \<and> now - otp_created_at c < seconds (cfg_otp_resend_cooldown_seconds cfg)
                then Some c else None)
      in case reused of
           Some c \<Rightarrow> (challenge_response_of c (email u) (cc_responded ctx), d)
         | None \<Rightarrow>
             let c = new_challenge cfg h ctx u p remember;
                 d' = d\<lparr> two_step_challenges := insert_row c
                   (update_where (challenge_is_open (user_id u) p)
                      (\<lambda>r. r\<lparr> used_at := Some now \<rparr>) (two_step_challenges d)) \<rparr>
             in settle identity_tables_ok TwoStepCommitError
                  (challenge_response_of c (email u) (cc_responded ctx)) d' d)"

definition start_login ::
  "auth_settings \<Rightarrow> hasher \<Rightarrow> challenge_context \<Rightarrow> user \<Rightarrow> bool \<Rightarrow> db
   \<Rightarrow> (two_step_error + challenge_response) \<times> db" where
  "start_login cfg h ctx u remember d =
     (if \<not> email_two_step_enabled u then (Inl EmailTwoStepStateConflictError, d)
      else issue_locked cfg h ctx u LOGIN remember True d)"

definition request_enable ::
  "auth_settings \<Rightarrow> hasher \<Rightarrow> challenge_context \<Rightarrow> uuid \<Rightarrow> string \<Rightarrow> string \<Rightarrow> db
   \<Rightarrow> (two_step_error + challenge_response) \<times> db" where
  "request_enable cfg h ctx i address current_password d =
     (case two_step_lock_user i d of
        Inl e \<Rightarrow> (Inl e, d)
      | Inr u \<Rightarrow>
          if \<not> h_verify h current_password (password_hash u) then (Inl EmailTwoStepPasswordInvalidError, d)
          else if normalize_email address \<noteq> email u then (Inl EmailTwoStepEmailMismatchError, d)
          else if email_two_step_enabled u then (Inl EmailTwoStepStateConflictError, d)
          else issue_locked cfg h ctx u ENABLE False True d)"

definition request_disable ::
  "auth_settings \<Rightarrow> hasher \<Rightarrow> challenge_context \<Rightarrow> uuid \<Rightarrow> string \<Rightarrow> db
   \<Rightarrow> (two_step_error + challenge_response) \<times> db" where
  "request_disable cfg h ctx i current_password d =
     (case two_step_lock_user i d of
        Inl e \<Rightarrow> (Inl e, d)
      | Inr u \<Rightarrow>
          if \<not> h_verify h current_password (password_hash u) then (Inl EmailTwoStepPasswordInvalidError, d)
          else if \<not> email_two_step_enabled u then (Inl EmailTwoStepStateConflictError, d)
          else issue_locked cfg h ctx u DISABLE False True d)"

section \<open>Checking a challenge\<close>

text \<open>
  \<open>_lock_challenge_and_user\<close>.  \<open>probe\<close> is read before the user is locked; \<open>d1\<close> is the database when
  the lock is granted.  The second query asks for the same row again, and the session, which holds
  the row in its identity map and is not told to populate it anew, returns the object it has: the
  columns are those of \<open>probe\<close>.
\<close>

definition lock_challenge_and_user ::
  "db \<Rightarrow> uuid \<Rightarrow> email_two_step_purpose \<Rightarrow> uuid option \<Rightarrow> db
   \<Rightarrow> two_step_error + email_two_step_challenge \<times> user" where
  "lock_challenge_and_user d1 i p expected_user_id d =
     (case row_where (\<lambda>c. otp_id c = i) (two_step_challenges d) of
        None \<Rightarrow> Inl EmailTwoStepChallengeInvalidError
      | Some probe \<Rightarrow>
          if \<not> null_or (\<lambda>x. otp_user_id probe = x) expected_user_id
          then Inl EmailTwoStepChallengeInvalidError
          else case two_step_lock_user (otp_user_id probe) d1 of
            Inl e \<Rightarrow> Inl e
          | Inr u \<Rightarrow>
              (case row_where (\<lambda>c. otp_id c = i \<and> otp_user_id c = user_id u \<and> purpose c = p)
                      (two_step_challenges d1) of
                 None \<Rightarrow> Inl EmailTwoStepChallengeInvalidError
               | Some _ \<Rightarrow> Inr (probe, u)))"

text \<open>A flush of the object writes the columns that the request changed.\<close>

definition flush_challenge ::
  "email_two_step_challenge \<Rightarrow> email_two_step_challenge \<Rightarrow> db \<Rightarrow> db" where
  "flush_challenge loaded c d = d\<lparr> two_step_challenges := update_where (\<lambda>x. otp_id x = otp_id loaded)
     (\<lambda>x. x\<lparr> attempt_count := (if attempt_count c \<noteq> attempt_count loaded then attempt_count c else attempt_count x),
             used_at := (if used_at c \<noteq> used_at loaded then used_at c else used_at x) \<rparr>)
     (two_step_challenges d) \<rparr>"

definition validate_challenge ::
  "auth_settings \<Rightarrow> hasher \<Rightarrow> time \<Rightarrow> email_two_step_challenge \<Rightarrow> user \<Rightarrow> string
   \<Rightarrow> bool \<times> email_two_step_challenge" where
  "validate_challenge cfg h now c u raw_otp =
     (if \<not> is_null (used_at c) \<or> otp_expires_at c \<le> now \<or> session_version c \<noteq> auth_session_version u
      then (False, if is_null (used_at c) then c\<lparr> used_at := Some now \<rparr> else c)
      else if cfg_otp_max_attempts cfg \<le> attempt_count c then (False, c\<lparr> used_at := Some now \<rparr>)
      else if h_verify h raw_otp (otp_hash c) then (True, c)
      else (False, c\<lparr> attempt_count := attempt_count c + 1,
                      used_at := (if cfg_otp_max_attempts cfg \<le> attempt_count c + 1 then Some now
                                  else used_at c) \<rparr>))"

definition invalidate_challenges :: "uuid \<Rightarrow> time \<Rightarrow> db \<Rightarrow> db" where
  "invalidate_challenges u now d = d\<lparr> two_step_challenges := close_codes u now (two_step_challenges d) \<rparr>"

text \<open>The clock when the code is checked and when the setting changes.\<close>

record confirm_context =
  cf_checked :: time
  cf_now :: time

definition confirm_change ::
  "auth_settings \<Rightarrow> hasher \<Rightarrow> confirm_context \<Rightarrow> (db \<Rightarrow> db) \<Rightarrow> email_two_step_purpose \<Rightarrow> bool
   \<Rightarrow> (user \<Rightarrow> user) \<Rightarrow> uuid \<Rightarrow> uuid \<Rightarrow> string \<Rightarrow> db \<Rightarrow> (two_step_error + two_step_status) \<times> db" where
  "confirm_change cfg h ctx env p conflicting change i challenge raw_otp d =
     (let d1 = env d
      in case lock_challenge_and_user d1 challenge p (Some i) d of
           Inl e \<Rightarrow> (Inl e, d1)
         | Inr (c, u) \<Rightarrow>
             if email_two_step_enabled u = conflicting then (Inl EmailTwoStepStateConflictError, d1)
             else case validate_challenge cfg h (cf_checked ctx) c u raw_otp of
               (False, c') \<Rightarrow> settle identity_tables_ok TwoStepCommitError
                   (Inl EmailTwoStepChallengeInvalidError) (flush_challenge c c' d1) d1
             | (True, c') \<Rightarrow>
                 let now = cf_now ctx;
                     u' = change u;
                     d2 = invalidate_challenges (user_id u) now (revoke_sessions (user_id u) now
                       (save_user u' (flush_challenge c (c'\<lparr> used_at := Some now \<rparr>) d1)))
                 in settle identity_tables_ok TwoStepCommitError (status_response u' True) d2 d1)"

definition confirm_enable ::
  "auth_settings \<Rightarrow> hasher \<Rightarrow> confirm_context \<Rightarrow> (db \<Rightarrow> db) \<Rightarrow> uuid \<Rightarrow> uuid \<Rightarrow> string \<Rightarrow> db
   \<Rightarrow> (two_step_error + two_step_status) \<times> db" where
  "confirm_enable cfg h ctx env i challenge raw_otp d =
     confirm_change cfg h ctx env ENABLE True
       (\<lambda>u. u\<lparr> email_two_step_enabled := True, email_two_step_enabled_at := Some (cf_now ctx),
               auth_session_version := auth_session_version u + 1 \<rparr>) i challenge raw_otp d"

definition confirm_disable ::
  "auth_settings \<Rightarrow> hasher \<Rightarrow> confirm_context \<Rightarrow> (db \<Rightarrow> db) \<Rightarrow> uuid \<Rightarrow> uuid \<Rightarrow> string \<Rightarrow> db
   \<Rightarrow> (two_step_error + two_step_status) \<times> db" where
  "confirm_disable cfg h ctx env i challenge raw_otp d =
     confirm_change cfg h ctx env DISABLE False
       (\<lambda>u. u\<lparr> email_two_step_enabled := False, email_two_step_enabled_at := None,
               auth_session_version := auth_session_version u + 1 \<rparr>) i challenge raw_otp d"

text \<open>\<open>consume_login\<close> does not commit: on success the second component is the pending database of the
  request, with the challenge used.\<close>

definition consume_login ::
  "auth_settings \<Rightarrow> hasher \<Rightarrow> confirm_context \<Rightarrow> (db \<Rightarrow> db) \<Rightarrow> uuid \<Rightarrow> string \<Rightarrow> db
   \<Rightarrow> (two_step_error + user \<times> bool) \<times> db" where
  "consume_login cfg h ctx env challenge raw_otp d =
     (let d1 = env d
      in case lock_challenge_and_user d1 challenge LOGIN None d of
           Inl e \<Rightarrow> (Inl e, d1)
         | Inr (c, u) \<Rightarrow>
             if \<not> email_two_step_enabled u
             then settle identity_tables_ok TwoStepCommitError (Inl EmailTwoStepChallengeInvalidError)
                    (flush_challenge c (c\<lparr> used_at := Some (cf_checked ctx) \<rparr>) d1) d1
             else case validate_challenge cfg h (cf_checked ctx) c u raw_otp of
               (False, c') \<Rightarrow> settle identity_tables_ok TwoStepCommitError
                   (Inl EmailTwoStepChallengeInvalidError) (flush_challenge c c' d1) d1
             | (True, c') \<Rightarrow>
                 (Inr (u, remember_me c'), flush_challenge c (c'\<lparr> used_at := Some (cf_now ctx) \<rparr>) d1))"

definition resend_state_ok :: "time \<Rightarrow> email_two_step_challenge \<Rightarrow> user \<Rightarrow> bool" where
  "resend_state_ok now c u \<longleftrightarrow>
     \<not> (\<not> is_null (used_at c) \<or> otp_expires_at c \<le> now \<or> session_version c \<noteq> auth_session_version u
        \<or> (purpose c = LOGIN \<and> \<not> email_two_step_enabled u)
        \<or> (purpose c = ENABLE \<and> email_two_step_enabled u)
        \<or> (purpose c = DISABLE \<and> \<not> email_two_step_enabled u))"

definition resend ::
  "auth_settings \<Rightarrow> hasher \<Rightarrow> confirm_context \<Rightarrow> challenge_context \<Rightarrow> (db \<Rightarrow> db) \<Rightarrow> uuid
   \<Rightarrow> email_two_step_purpose list \<Rightarrow> uuid option \<Rightarrow> db \<Rightarrow> (two_step_error + challenge_response) \<times> db" where
  "resend cfg h ctx ictx env challenge allowed_purposes expected_user_id d =
     (case row_where (\<lambda>c. otp_id c = challenge) (two_step_challenges d) of
        None \<Rightarrow> (Inl EmailTwoStepChallengeInvalidError, d)
      | Some probe \<Rightarrow>
          if \<not> null_or (\<lambda>x. otp_user_id probe = x) expected_user_id
             \<or> purpose probe \<notin> set allowed_purposes
          then (Inl EmailTwoStepChallengeInvalidError, d)
          else let d1 = env d in
            case lock_challenge_and_user d1 challenge (purpose probe) expected_user_id d of
              Inl e \<Rightarrow> (Inl e, d1)
            | Inr (c, u) \<Rightarrow>
                let now = cf_checked ctx
                in if \<not> resend_state_ok now c u
                   then if is_null (used_at c)
                        then settle identity_tables_ok TwoStepCommitError
                               (Inl EmailTwoStepChallengeInvalidError)
                               (flush_challenge c (c\<lparr> used_at := Some now \<rparr>) d1) d1
                        else (Inl EmailTwoStepChallengeInvalidError, d1)
                   else if now - otp_created_at c < seconds (cfg_otp_resend_cooldown_seconds cfg)
                   then (challenge_response_of c (email u) (cf_now ctx), d1)
                   else issue_locked cfg h ictx u (purpose c) (remember_me c) False d1)"

end
