(* ===== verification/Auth.thy ===== *)
theory Auth
  imports Email_Two_Step
begin

text \<open>
  The authentication service of \<open>app/services/auth.py\<close> and the user of a request of \<open>app/api/deps.py\<close>.
\<close>

section \<open>The authentication service\<close>

datatype auth_error = AuthenticationError | EmailVerificationRequiredError | InactiveAccountError
  | TokenValidationError | DuplicateEmailError | OtpIssuanceError | SessionVersionError
  | TokenClaimTypeError | AuthTwoStepError two_step_error | AuthCommitError

record register_request =
  rq_full_name :: string
  rq_email :: string
  rq_password :: string
  rq_industry :: "industry option"
  rq_job_role :: "job_role option"

record register_context =
  rc_user_id :: uuid
  rc_salt :: string
  rc_accepted :: time
  rc_created :: time
  rc_otp :: otp_context

definition new_user :: "auth_settings \<Rightarrow> hasher \<Rightarrow> register_context \<Rightarrow> register_request \<Rightarrow> user" where
  "new_user cfg h ctx payload =
     \<lparr> user_id = rc_user_id ctx, user_created_at = rc_created ctx,
       email = normalize_email (rq_email payload), full_name = rq_full_name payload, username = None,
       phone_number = None, street_address = None, city = None, user_state = None, postal_code = None,
       bio = None, password_hash = h_hash h (rc_salt ctx) (rq_password payload), user_role = Role_USER,
       auth_session_version = 0, user_industry = rq_industry payload, user_job_role = rq_job_role payload,
       terms_accepted_at = Some (rc_accepted ctx), terms_version = Some (cfg_terms_version cfg),
       user_is_active = True, is_verified = False, email_two_step_enabled = False,
       email_two_step_enabled_at = None, last_login_at = None, deleted_at = None \<rparr>"

definition register ::
  "auth_settings \<Rightarrow> hasher \<Rightarrow> register_context \<Rightarrow> register_request \<Rightarrow> db \<Rightarrow> (auth_error + user) \<times> db" where
  "register cfg h ctx payload d =
     (case user_by_email d (rq_email payload) of
        Some _ \<Rightarrow> (Inl DuplicateEmailError, d)
      | None \<Rightarrow>
          let u = new_user cfg h ctx payload;
              d1 = d\<lparr> users := insert_row u (users d) \<rparr>
          in if \<not> user_table_ok d1 then (Inl DuplicateEmailError, d)
             else case issue_otp cfg h (rc_otp ctx) id (user_id u)
                    (cfg_email_verification_expire_minutes cfg) False (email_verification_otps d1) of
               None \<Rightarrow> (Inl OtpIssuanceError, d)
             | Some t \<Rightarrow> settle identity_tables_ok DuplicateEmailError (Inr u)
                   (d1\<lparr> email_verification_otps := t \<rparr>) d)"

definition resend_verification ::
  "auth_settings \<Rightarrow> hasher \<Rightarrow> otp_context \<Rightarrow> string \<Rightarrow> db \<Rightarrow> (auth_error + unit) \<times> db" where
  "resend_verification cfg h ctx address d =
     (case user_by_email d address of
        None \<Rightarrow> (Inr (), d)
      | Some u \<Rightarrow>
          if is_verified u \<or> \<not> user_is_active u then (Inr (), d)
          else case issue_otp cfg h ctx id (user_id u) (cfg_email_verification_expire_minutes cfg) True
                 (email_verification_otps d) of
            None \<Rightarrow> (Inr (), d)
          | Some t \<Rightarrow> settle identity_tables_ok AuthCommitError (Inr ())
                (d\<lparr> email_verification_otps := t \<rparr>) d)"

text \<open>The clock when a code is checked and when it is used.\<close>

definition verify_email ::
  "auth_settings \<Rightarrow> hasher \<Rightarrow> confirm_context \<Rightarrow> string \<Rightarrow> string \<Rightarrow> db \<Rightarrow> (auth_error + unit) \<times> db" where
  "verify_email cfg h ctx address otp d =
     (case user_by_email d address of
        None \<Rightarrow> (Inl TokenValidationError, d)
      | Some u \<Rightarrow>
          if \<not> user_is_active u \<or> is_verified u then (Inl TokenValidationError, d)
          else case get_active_otp (user_id u) (email_verification_otps d) of
            None \<Rightarrow> (Inl TokenValidationError, d)
          | Some r \<Rightarrow>
            (case validate_otp cfg h (cf_checked ctx) r otp of
               (False, r') \<Rightarrow> settle identity_tables_ok AuthCommitError (Inl TokenValidationError)
                 (d\<lparr> email_verification_otps := save_code r' (email_verification_otps d) \<rparr>) d
             | (True, r') \<Rightarrow> settle identity_tables_ok AuthCommitError (Inr ())
                 ((save_user (u\<lparr> is_verified := True \<rparr>) d)\<lparr> email_verification_otps :=
                    save_code (r'\<lparr> used_at := Some (cf_now ctx) \<rparr>) (email_verification_otps d) \<rparr>) d))"

definition authenticate :: "hasher \<Rightarrow> string \<Rightarrow> string \<Rightarrow> db \<Rightarrow> auth_error + user" where
  "authenticate h address password d =
     (case user_by_email d address of
        None \<Rightarrow> Inl AuthenticationError
      | Some u \<Rightarrow>
          if \<not> h_verify h password (password_hash u) then Inl AuthenticationError
          else if \<not> user_is_active u then Inl InactiveAccountError
          else if \<not> is_verified u then Inl EmailVerificationRequiredError
          else Inr u)"

record session_tokens =
  st_access_token :: string
  st_access_token_expires_in :: int
  st_refresh_token :: string
  st_remember_me :: bool

text \<open>The identifiers of a pair and of its row, and the clock at each token.\<close>

record pair_context =
  pc_access_id :: uuid
  pc_refresh_id :: uuid
  pc_row_id :: uuid
  pc_access_now :: time
  pc_refresh_now :: time

definition create_token_pair ::
  "auth_settings \<Rightarrow> jwt \<Rightarrow> (string \<Rightarrow> string) \<Rightarrow> pair_context \<Rightarrow> user \<Rightarrow> bool \<Rightarrow> db \<Rightarrow> db
   \<Rightarrow> (auth_error + session_tokens) \<times> db" where
  "create_token_pair cfg j sha ctx u remember d1 d =
     (case create_jwt_token j (pc_access_now ctx) (pc_access_id ctx) (user_id u) ACCESS
             (minutes (cfg_access_token_expire_minutes cfg)) (auth_session_version u) of
        Inl _ \<Rightarrow> (Inl SessionVersionError, d)
      | Inr access \<Rightarrow>
        (case create_jwt_token j (pc_refresh_now ctx) (pc_refresh_id ctx) (user_id u) REFRESH
                (days (cfg_refresh_token_expire_days cfg)) (auth_session_version u) of
           Inl _ \<Rightarrow> (Inl SessionVersionError, d)
         | Inr refresh \<Rightarrow>
             let row = \<lparr> rt_id = pc_row_id ctx, rt_user_id = user_id u, rt_token_id = token_id refresh,
                   rt_token_hash = sha (raw_token refresh), rt_expires_at = token_expires_at refresh,
                   is_persistent = remember, revoked_at = None \<rparr>
             in settle identity_tables_ok AuthCommitError
                  (Inr \<lparr> st_access_token = raw_token access,
                         st_access_token_expires_in = cfg_access_token_expire_minutes cfg * 60,
                         st_refresh_token = raw_token refresh, st_remember_me = remember \<rparr>)
                  (d1\<lparr> refresh_tokens := insert_row row (refresh_tokens d1) \<rparr>) d))"

datatype login_result = Session session_tokens | Challenge challenge_response

record login_context =
  lc_now :: time
  lc_pair :: pair_context
  lc_challenge :: challenge_context

definition login ::
  "auth_settings \<Rightarrow> hasher \<Rightarrow> jwt \<Rightarrow> (string \<Rightarrow> string) \<Rightarrow> login_context \<Rightarrow> string \<Rightarrow> string \<Rightarrow> bool \<Rightarrow> db
   \<Rightarrow> (auth_error + login_result) \<times> db" where
  "login cfg h j sha ctx address password remember d =
     (case authenticate h address password d of
        Inl e \<Rightarrow> (Inl e, d)
      | Inr u \<Rightarrow>
          if email_two_step_enabled u
          then (case start_login cfg h (lc_challenge ctx) u remember d of
                  (Inl e, d') \<Rightarrow> (Inl (AuthTwoStepError e), d')
                | (Inr c, d') \<Rightarrow> (Inr (Challenge c), d'))
          else let u' = u\<lparr> last_login_at := Some (lc_now ctx) \<rparr> in
               case create_token_pair cfg j sha (lc_pair ctx) u' remember (save_user u' d) d of
                 (Inl e, d') \<Rightarrow> (Inl e, d')
               | (Inr s, d') \<Rightarrow> (Inr (Session s), d'))"

definition verify_email_two_step_login ::
  "auth_settings \<Rightarrow> hasher \<Rightarrow> jwt \<Rightarrow> (string \<Rightarrow> string) \<Rightarrow> login_context \<Rightarrow> confirm_context \<Rightarrow> (db \<Rightarrow> db)
   \<Rightarrow> uuid \<Rightarrow> string \<Rightarrow> db \<Rightarrow> (auth_error + session_tokens) \<times> db" where
  "verify_email_two_step_login cfg h j sha ctx cctx env challenge otp d =
     (case consume_login cfg h cctx env challenge otp d of
        (Inl e, d') \<Rightarrow> (Inl (AuthTwoStepError e), d')
      | (Inr (u, remember), pending) \<Rightarrow>
          let u' = u\<lparr> last_login_at := Some (lc_now ctx) \<rparr>
          in create_token_pair cfg j sha (lc_pair ctx) u' remember (save_user u' pending) (env d))"

definition resend_email_two_step_login ::
  "auth_settings \<Rightarrow> hasher \<Rightarrow> confirm_context \<Rightarrow> challenge_context \<Rightarrow> (db \<Rightarrow> db) \<Rightarrow> uuid \<Rightarrow> db
   \<Rightarrow> (two_step_error + challenge_response) \<times> db" where
  "resend_email_two_step_login cfg h ctx ictx env challenge d =
     resend cfg h ctx ictx env challenge [LOGIN] None d"

text \<open>The errors that decoding a token raises, as the callers turn them.\<close>

fun token_error :: "decode_error \<Rightarrow> auth_error" where
  "token_error Invalid_token = TokenValidationError"
| "token_error Claim_type_error = TokenClaimTypeError"

definition stored_token :: "db \<Rightarrow> uuid \<Rightarrow> refresh_token option" where
  "stored_token d i = row_where (\<lambda>t. rt_token_id t = i) (refresh_tokens d)"

definition revoke_token :: "refresh_token \<Rightarrow> time \<Rightarrow> db \<Rightarrow> db" where
  "revoke_token t now d = d\<lparr> refresh_tokens :=
     update_where (\<lambda>x. rt_id x = rt_id t) (\<lambda>x. x\<lparr> revoked_at := Some now \<rparr>) (refresh_tokens d) \<rparr>"

text \<open>The clock when the token is decoded, when its row is checked and when it is revoked.\<close>

record refresh_context =
  fc_decoded :: time
  fc_checked :: time
  fc_revoked :: time
  fc_pair :: pair_context

definition refresh ::
  "auth_settings \<Rightarrow> jwt \<Rightarrow> (string \<Rightarrow> string) \<Rightarrow> refresh_context \<Rightarrow> string \<Rightarrow> db
   \<Rightarrow> (auth_error + session_tokens) \<times> db" where
  "refresh cfg j sha ctx raw d =
     (case decode_jwt_token j (fc_decoded ctx) raw of
        Inl e \<Rightarrow> (Inl (token_error e), d)
      | Inr claims \<Rightarrow>
          if claim_token_type claims \<noteq> REFRESH then (Inl TokenValidationError, d)
          else case stored_token d (claim_token_id claims) of
            None \<Rightarrow> (Inl TokenValidationError, d)
          | Some t \<Rightarrow>
              if \<not> is_null (revoked_at t) \<or> rt_expires_at t \<le> fc_checked ctx \<or> rt_token_hash t \<noteq> sha raw
              then (Inl TokenValidationError, d)
              else case user_by_id d (claim_user_id claims) of
                None \<Rightarrow> (Inl TokenValidationError, d)
              | Some u \<Rightarrow>
                  if \<not> user_is_active u \<or> \<not> is_verified u
                     \<or> claim_session_version claims \<noteq> auth_session_version u
                  then (Inl TokenValidationError, d)
                  else create_token_pair cfg j sha (fc_pair ctx) u (is_persistent t)
                         (revoke_token t (fc_revoked ctx) d) d)"

definition logout :: "jwt \<Rightarrow> time \<Rightarrow> time \<Rightarrow> string \<Rightarrow> db \<Rightarrow> (auth_error + unit) \<times> db" where
  "logout j decoded now raw d =
     (case decode_jwt_token j decoded raw of
        Inl Invalid_token \<Rightarrow> (Inr (), d)
      | Inl Claim_type_error \<Rightarrow> (Inl TokenClaimTypeError, d)
      | Inr claims \<Rightarrow>
          if claim_token_type claims \<noteq> REFRESH then (Inr (), d)
          else case stored_token d (claim_token_id claims) of
            None \<Rightarrow> (Inr (), d)
          | Some t \<Rightarrow>
              if is_null (revoked_at t)
              then settle identity_tables_ok AuthCommitError (Inr ()) (revoke_token t now d) d
              else (Inr (), d))"

section \<open>Password reset\<close>

definition request_password_reset ::
  "auth_settings \<Rightarrow> hasher \<Rightarrow> otp_context \<Rightarrow> string \<Rightarrow> db \<Rightarrow> (auth_error + unit) \<times> db" where
  "request_password_reset cfg h ctx address d =
     (case user_by_email d address of
        None \<Rightarrow> (Inr (), d)
      | Some u \<Rightarrow>
          if \<not> user_is_active u \<or> \<not> is_verified u then (Inr (), d)
          else case issue_otp cfg h ctx reset_row (user_id u) (cfg_password_reset_expire_minutes cfg) True
                 (password_reset_otps d) of
            None \<Rightarrow> (Inr (), d)
          | Some t \<Rightarrow> settle identity_tables_ok AuthCommitError (Inr ()) (d\<lparr> password_reset_otps := t \<rparr>) d)"

text \<open>The start of the two steps of a reset: the user and the checked code.  \<open>Inl\<close> is the outcome of
  a refused code.\<close>

definition checked_reset_otp ::
  "auth_settings \<Rightarrow> hasher \<Rightarrow> time \<Rightarrow> string \<Rightarrow> string \<Rightarrow> db
   \<Rightarrow> (auth_error + unit) \<times> db + user \<times> password_reset_otp" where
  "checked_reset_otp cfg h now address otp d =
     (case user_by_email d address of
        None \<Rightarrow> Inl (Inl TokenValidationError, d)
      | Some u \<Rightarrow>
          if \<not> user_is_active u \<or> \<not> is_verified u then Inl (Inl TokenValidationError, d)
          else case get_active_otp (user_id u) (password_reset_otps d) of
            None \<Rightarrow> Inl (Inl TokenValidationError, d)
          | Some r \<Rightarrow>
            (case validate_otp cfg h now r otp of
               (False, r') \<Rightarrow> Inl (settle identity_tables_ok AuthCommitError (Inl TokenValidationError)
                 (d\<lparr> password_reset_otps := save_code r' (password_reset_otps d) \<rparr>) d)
             | (True, r') \<Rightarrow> Inr (u, r')))"

definition verify_password_reset_otp ::
  "auth_settings \<Rightarrow> hasher \<Rightarrow> confirm_context \<Rightarrow> string \<Rightarrow> string \<Rightarrow> db \<Rightarrow> (auth_error + unit) \<times> db" where
  "verify_password_reset_otp cfg h ctx address otp d =
     (case checked_reset_otp cfg h (cf_checked ctx) address otp d of
        Inl outcome \<Rightarrow> outcome
      | Inr (u, r) \<Rightarrow> settle identity_tables_ok AuthCommitError (Inr ())
          (d\<lparr> password_reset_otps := save_code (r\<lparr> verified_at := Some (cf_now ctx) \<rparr>)
             (password_reset_otps d) \<rparr>) d)"

text \<open>\<open>reset_password\<close>: the new password, the version bump, the used code, and every other open code
  of the changes of address and of the second step, and every session, closed.\<close>

definition reset_password ::
  "auth_settings \<Rightarrow> hasher \<Rightarrow> confirm_context \<Rightarrow> string \<Rightarrow> string \<Rightarrow> string \<Rightarrow> string \<Rightarrow> db
   \<Rightarrow> (auth_error + unit) \<times> db" where
  "reset_password cfg h ctx salt address otp new_password d =
     (case checked_reset_otp cfg h (cf_checked ctx) address otp d of
        Inl outcome \<Rightarrow> outcome
      | Inr (u, r) \<Rightarrow>
          if is_null (verified_at r) then (Inl TokenValidationError, d)
          else let now = cf_now ctx;
                   u' = u\<lparr> password_hash := h_hash h salt new_password,
                           auth_session_version := auth_session_version u + 1 \<rparr>;
                   d1 = (save_user u' d)
                     \<lparr> password_reset_otps := save_code (r\<lparr> used_at := Some now \<rparr>) (password_reset_otps d),
                        email_change_otps := close_codes (user_id u) now (email_change_otps d),
                        two_step_challenges := close_codes (user_id u) now (two_step_challenges d) \<rparr>
               in settle identity_tables_ok AuthCommitError (Inr ()) (revoke_sessions (user_id u) now d1) d)"

section \<open>The user of a request\<close>

text \<open>\<open>get_current_user\<close> of \<open>app/api/deps.py\<close>; \<open>None\<close> is the 401 response.\<close>

definition get_current_user :: "jwt \<Rightarrow> time \<Rightarrow> (string \<times> string) option \<Rightarrow> db \<Rightarrow> decode_error + user option" where
  "get_current_user j now credentials d =
     (case credentials of
        None \<Rightarrow> Inr None
      | Some (scheme, raw) \<Rightarrow>
          if py_lower scheme \<noteq> ''bearer'' then Inr None
          else case decode_jwt_token j now raw of
            Inl Invalid_token \<Rightarrow> Inr None
          | Inl Claim_type_error \<Rightarrow> Inl Claim_type_error
          | Inr claims \<Rightarrow>
              if claim_token_type claims \<noteq> ACCESS then Inr None
              else case user_by_id d (claim_user_id claims) of
                None \<Rightarrow> Inr None
              | Some u \<Rightarrow>
                  if \<not> user_is_active u \<or> claim_session_version claims \<noteq> auth_session_version u
                  then Inr None else Inr (Some u))"

end
