(* ===== verification/Account_Security.thy ===== *)
theory Account_Security
  imports Auth
begin

text \<open>
  Changes of address and password and the closing of an account: \<open>app/services/account_security.py\<close>.
\<close>

section \<open>Account security\<close>

datatype security_error = AccountSecurityNotFoundError | CurrentPasswordInvalidError
  | CurrentEmailMismatchError | EmailChangeConflictError | EmailChangeOTPInvalidError
  | PasswordReuseError | AccountDeletionBillingConflictError | LastSuperAdminDeletionError
  | SecurityCommitError

definition security_lock_user :: "uuid \<Rightarrow> db \<Rightarrow> security_error + user" where
  "security_lock_user i d =
     (case user_by_id d i of
        None \<Rightarrow> Inl AccountSecurityNotFoundError
      | Some u \<Rightarrow>
          if \<not> user_is_active u \<or> \<not> is_null (deleted_at u) then Inl AccountSecurityNotFoundError else Inr u)"

definition verify_current_password :: "hasher \<Rightarrow> user \<Rightarrow> string \<Rightarrow> bool" where
  "verify_current_password h u password = h_verify h password (password_hash u)"

definition email_change_row :: "string \<Rightarrow> otp_row \<Rightarrow> email_change_otp" where
  "email_change_row address r = otp_row.extend r (email_change_otp.fields address)"

text \<open>The result says whether a new code was sent.\<close>

definition request_email_change ::
  "auth_settings \<Rightarrow> hasher \<Rightarrow> otp_context \<Rightarrow> uuid \<Rightarrow> string \<Rightarrow> string \<Rightarrow> string \<Rightarrow> db
   \<Rightarrow> (security_error + bool) \<times> db" where
  "request_email_change cfg h ctx i current_password old_address new_address d =
     (case security_lock_user i d of
        Inl e \<Rightarrow> (Inl e, d)
      | Inr u \<Rightarrow>
          if \<not> verify_current_password h u current_password then (Inl CurrentPasswordInvalidError, d)
          else if normalize_email old_address \<noteq> email u then (Inl CurrentEmailMismatchError, d)
          else if normalize_email new_address = email u then (Inl EmailChangeConflictError, d)
          else if \<not> is_null (user_by_email d new_address) then (Inl EmailChangeConflictError, d)
          else if \<not> resend_is_allowed cfg (oc_checked ctx) (user_id u) (email_change_otps d)
          then (Inr False, d)
          else let r = email_change_row (normalize_email new_address)
                     (new_code h ctx (user_id u) (cfg_email_verification_expire_minutes cfg));
                   d' = d\<lparr> email_change_otps :=
                     insert_row r (close_codes (user_id u) (oc_now ctx) (email_change_otps d)) \<rparr>
               in settle identity_tables_ok EmailChangeConflictError (Inr True) d' d)"

definition active_email_change ::
  "uuid \<Rightarrow> string \<Rightarrow> email_change_otp list \<Rightarrow> email_change_otp option" where
  "active_email_change u address t =
     latest_where otp_created_at (\<lambda>r. code_is_open u r \<and> new_email r = address) t"

text \<open>\<open>_validate_email_change_otp\<close> on a row that was found.\<close>

definition validate_email_change_otp ::
  "auth_settings \<Rightarrow> hasher \<Rightarrow> time \<Rightarrow> email_change_otp \<Rightarrow> string \<Rightarrow> bool \<times> email_change_otp" where
  "validate_email_change_otp cfg h now r raw_otp =
     (if \<not> is_null (used_at r) \<or> otp_expires_at r \<le> now
      then (False, if is_null (used_at r) then r\<lparr> used_at := Some now \<rparr> else r)
      else if cfg_otp_max_attempts cfg \<le> attempt_count r then (False, r\<lparr> used_at := Some now \<rparr>)
      else if h_verify h raw_otp (otp_hash r) then (True, r)
      else (False, r\<lparr> attempt_count := attempt_count r + 1,
                      used_at := (if cfg_otp_max_attempts cfg \<le> attempt_count r + 1 then Some now
                                  else used_at r) \<rparr>))"

text \<open>The end of every change of credentials: the sessions of the user are revoked, the open codes
  closed, and the number of revoked sessions is the result.\<close>

definition end_sessions ::
  "'e \<Rightarrow> (db \<Rightarrow> bool) \<Rightarrow> uuid \<Rightarrow> time \<Rightarrow> db \<Rightarrow> db \<Rightarrow> ('e + nat) \<times> db" where
  "end_sessions e ok u now d1 d =
     settle ok e (Inr (sessions_to_revoke u d1)) (invalidate_auth_otps u now (revoke_sessions u now d1)) d"

definition confirm_email_change ::
  "auth_settings \<Rightarrow> hasher \<Rightarrow> confirm_context \<Rightarrow> uuid \<Rightarrow> string \<Rightarrow> string \<Rightarrow> db
   \<Rightarrow> (security_error + nat) \<times> db" where
  "confirm_email_change cfg h ctx i new_address otp d =
     (case security_lock_user i d of
        Inl e \<Rightarrow> (Inl e, d)
      | Inr u \<Rightarrow>
        let address = normalize_email new_address in
        (case active_email_change (user_id u) address (email_change_otps d) of
           None \<Rightarrow> (Inl EmailChangeOTPInvalidError, d)
         | Some r \<Rightarrow>
           (case validate_email_change_otp cfg h (cf_checked ctx) r otp of
              (False, r') \<Rightarrow> settle identity_tables_ok SecurityCommitError (Inl EmailChangeOTPInvalidError)
                (d\<lparr> email_change_otps := save_code r' (email_change_otps d) \<rparr>) d
            | (True, r') \<Rightarrow>
                if row_where (\<lambda>x. email x = address \<and> user_id x \<noteq> user_id u) (users d) \<noteq> None
                then (Inl EmailChangeConflictError, d)
                else let now = cf_now ctx;
                         u' = u\<lparr> email := address, is_verified := True,
                                 auth_session_version := auth_session_version u + 1 \<rparr>;
                         d1 = (save_user u' d)\<lparr> email_change_otps :=
                           save_code (r'\<lparr> used_at := Some now \<rparr>) (email_change_otps d) \<rparr>
                     in end_sessions EmailChangeConflictError identity_tables_ok (user_id u) now d1 d)))"

definition change_password ::
  "hasher \<Rightarrow> time \<Rightarrow> string \<Rightarrow> uuid \<Rightarrow> string \<Rightarrow> string \<Rightarrow> db \<Rightarrow> (security_error + nat) \<times> db" where
  "change_password h now salt i current_password new_password d =
     (case security_lock_user i d of
        Inl e \<Rightarrow> (Inl e, d)
      | Inr u \<Rightarrow>
          if \<not> verify_current_password h u current_password then (Inl CurrentPasswordInvalidError, d)
          else if h_verify h new_password (password_hash u) then (Inl PasswordReuseError, d)
          else let u' = u\<lparr> password_hash := h_hash h salt new_password,
                          auth_session_version := auth_session_version u + 1 \<rparr>
               in end_sessions SecurityCommitError identity_tables_ok (user_id u) now (save_user u' d) d)"

definition live_super_admin :: "user \<Rightarrow> bool" where
  "live_super_admin u \<longleftrightarrow> user_role u = Role_SUPER_ADMIN \<and> user_is_active u \<and> is_null (deleted_at u)"

definition is_last_super_admin :: "user \<Rightarrow> db \<Rightarrow> bool" where
  "is_last_super_admin u d \<longleftrightarrow>
     user_role u = Role_SUPER_ADMIN \<and> count_where live_super_admin (users d) \<le> 1"

definition current_subscription_of :: "uuid \<Rightarrow> db \<Rightarrow> subscription option" where
  "current_subscription_of b d =
     latest_where sub_created_at (\<lambda>s. sub_business_id s = b \<and> is_current s) (subscriptions d)"

definition open_checkout_of :: "uuid \<Rightarrow> db \<Rightarrow> billing_checkout_session option" where
  "open_checkout_of b d = row_where
     (\<lambda>c. co_business_id c = b \<and> (co_status c = CHECKOUT_PENDING \<or> co_status c = CHECKOUT_OPEN))
     (checkout_sessions d)"

definition completed_checkout_of :: "uuid \<Rightarrow> subscription \<Rightarrow> db \<Rightarrow> billing_checkout_session option" where
  "completed_checkout_of b s d = row_where
     (\<lambda>c. co_business_id c = b \<and> co_subscription_id c = sub_id s \<and> co_status c = CHECKOUT_COMPLETE
          \<and> \<not> is_null (co_stripe_subscription_id c)) (checkout_sessions d)"

text \<open>Whether billing refuses the deletion of the account.\<close>

definition deletion_billing_conflict :: "business option \<Rightarrow> subscription option \<Rightarrow> db \<Rightarrow> bool" where
  "deletion_billing_conflict b current d =
     (case b of
        None \<Rightarrow> False
      | Some x \<Rightarrow> \<not> is_null (open_checkout_of (business_id x) d)
          \<or> (case current of
               None \<Rightarrow> False
             | Some s \<Rightarrow> \<not> is_null (completed_checkout_of (business_id x) s d)
                 \<or> \<not> is_null (sub_stripe_subscription_id s)))"

definition canceled_subscription :: "time \<Rightarrow> subscription \<Rightarrow> subscription" where
  "canceled_subscription now s =
     s\<lparr> sub_status := CANCELED, cancel_at_period_end := False, canceled_at := Some now,
        ended_at := Some now \<rparr>"

definition deleted_user :: "string \<Rightarrow> string \<Rightarrow> time \<Rightarrow> user \<Rightarrow> user" where
  "deleted_user nonce hash now u =
     u\<lparr> email := ''deleted-'' @ uuid_hex (user_id u) @ ''-'' @ nonce @ ''@deleted.invalid'',
        full_name := ''Deleted User'', username := None, phone_number := None, street_address := None,
        city := None, user_state := None, postal_code := None, bio := None, user_industry := None,
        user_job_role := None, password_hash := hash, user_is_active := False, is_verified := False,
        email_two_step_enabled := False, email_two_step_enabled_at := None, last_login_at := None,
        deleted_at := Some now, auth_session_version := auth_session_version u + 1 \<rparr>"

definition save_subscription :: "subscription \<Rightarrow> db \<Rightarrow> db" where
  "save_subscription s d = d\<lparr> subscriptions :=
     update_where (\<lambda>x. sub_id x = sub_id s) (\<lambda>_. s) (subscriptions d) \<rparr>"

definition deactivate_assignment :: "uuid \<Rightarrow> db \<Rightarrow> db" where
  "deactivate_assignment u d = d\<lparr> role_assignments :=
     update_where (\<lambda>a. assignment_user_id a = u) (\<lambda>a. a\<lparr> assignment_is_active := False \<rparr>)
       (role_assignments d) \<rparr>"

text \<open>The salts and secrets of a deletion: the nonce of the address and the random password.\<close>

record deletion_context =
  dc_now :: time
  dc_nonce :: string
  dc_salt :: string
  dc_secret :: string

definition deletion_tables_ok :: "db \<Rightarrow> bool" where
  "deletion_tables_ok d \<longleftrightarrow> identity_tables_ok d \<and> subscription_table_ok d \<and> role_assignment_table_ok d"

definition delete_account ::
  "hasher \<Rightarrow> deletion_context \<Rightarrow> uuid \<Rightarrow> string \<Rightarrow> db \<Rightarrow> (security_error + nat) \<times> db" where
  "delete_account h ctx i current_password d =
     (case security_lock_user i d of
        Inl e \<Rightarrow> (Inl e, d)
      | Inr u \<Rightarrow>
          if \<not> verify_current_password h u current_password then (Inl CurrentPasswordInvalidError, d)
          else if is_last_super_admin u d then (Inl LastSuperAdminDeletionError, d)
          else
            let b = row_where (\<lambda>x. owner_user_id x = user_id u) (businesses d);
                current = (case b of None \<Rightarrow> None | Some x \<Rightarrow> current_subscription_of (business_id x) d)
            in if deletion_billing_conflict b current d
               then (Inl AccountDeletionBillingConflictError, d)
               else
                 let now = dc_now ctx;
                     d1 = (case current of None \<Rightarrow> d
                           | Some s \<Rightarrow> save_subscription (canceled_subscription now s) d);
                     d2 = (if is_null b then d1 else deactivate_assignment (user_id u) d1);
                     u' = deleted_user (dc_nonce ctx) (h_hash h (dc_salt ctx) (dc_secret ctx)) now u
                 in end_sessions SecurityCommitError deletion_tables_ok (user_id u) now (save_user u' d2) d)"

end
