(* ===== verification/Accounts.thy ===== *)
theory Accounts
  imports Account_Security Admin_Audit
begin

text \<open>
  Administrative suspension, profiles, onboarding, tenant resolution and rate limits:
  \<open>app/services/admin_accounts.py\<close>, \<open>user_profiles.py\<close>, \<open>business.py\<close>, \<open>tenant.py\<close> and \<open>rate_limit.py\<close>.
\<close>

section \<open>Suspension and reactivation\<close>

datatype account_action_reason = SECURITY_REVIEW | TERMS_VIOLATION | ABUSE_PREVENTION
  | ADMINISTRATIVE_HOLD | SUPPORT_RESOLUTION

fun account_action_reason_value :: "account_action_reason \<Rightarrow> string" where
  "account_action_reason_value SECURITY_REVIEW = ''security_review''"
| "account_action_reason_value TERMS_VIOLATION = ''terms_violation''"
| "account_action_reason_value ABUSE_PREVENTION = ''abuse_prevention''"
| "account_action_reason_value ADMINISTRATIVE_HOLD = ''administrative_hold''"
| "account_action_reason_value SUPPORT_RESOLUTION = ''support_resolution''"

datatype account_error = AdminAccountActorForbiddenError | AdminAccountTargetNotFoundError
  | AdminAccountTargetForbiddenError | AdminAccountAuditError audit_error | AdminAccountCommitError

record account_result =
  ar_user :: user
  ar_changed :: bool
  ar_sessions_revoked :: nat

definition account_actor_ok :: "user \<Rightarrow> bool" where
  "account_actor_ok actor \<longleftrightarrow> user_role actor = Role_SUPER_ADMIN \<and> user_is_active actor \<and> is_verified actor"

record account_context =
  ax_event_id :: uuid
  ax_revoked :: time
  ax_recorded :: time

definition account_metadata :: "account_action_reason \<Rightarrow> bool \<Rightarrow> bool \<Rightarrow> bool \<Rightarrow> nat \<Rightarrow> (string \<times> json) list" where
  "account_metadata reason previous desired changed revoked =
     [(''reason_code'', JStr (account_action_reason_value reason)),
      (''previous_is_active'', JBool previous), (''current_is_active'', JBool desired),
      (''changed'', JBool changed), (''sessions_revoked'', JInt (int revoked))]"

text \<open>The user after the change: a suspension that changes the state also bumps the session version.\<close>

definition activated_user :: "bool \<Rightarrow> user \<Rightarrow> user" where
  "activated_user desired u =
     (if user_is_active u = desired then u
      else u\<lparr> user_is_active := desired,
              auth_session_version := (if desired then auth_session_version u
                                       else auth_session_version u + 1) \<rparr>)"

definition change_active_state ::
  "account_context \<Rightarrow> user \<Rightarrow> uuid \<Rightarrow> bool \<Rightarrow> account_action_reason \<Rightarrow> string option \<Rightarrow> db
   \<Rightarrow> (account_error + account_result) \<times> db" where
  "change_active_state ctx actor target_id desired reason request_id d =
     (if \<not> account_actor_ok actor then (Inl AdminAccountActorForbiddenError, d)
      else case user_by_id d target_id of
        None \<Rightarrow> (Inl AdminAccountTargetNotFoundError, d)
      | Some target \<Rightarrow>
          if user_id target = user_id actor \<or> user_role target \<noteq> Role_USER
          then (Inl AdminAccountTargetForbiddenError, d)
          else
            let b = map_option business_id (row_where (\<lambda>x. owner_user_id x = user_id target) (businesses d));
                changed = (user_is_active target \<noteq> desired);
                target' = activated_user desired target;
                revoked = (if desired then 0 else sessions_to_revoke (user_id target) d);
                d1 = save_user target' d;
                d2 = (if desired then d1 else revoke_sessions (user_id target) (ax_revoked ctx) d1)
            in if \<not> identity_tables_ok d2 then (Inl AdminAccountCommitError, d)
               else case record_audit_event (ax_event_id ctx) (ax_recorded ctx) actor
                      (if desired then ''user.reactivate'' else ''user.suspend'') ''user'' (user_id target)
                      b request_id
                      (Some (account_metadata reason (user_is_active target) desired changed revoked)) d2 of
                 Inl e \<Rightarrow> (Inl (AdminAccountAuditError e), d)
               | Inr (_, d3) \<Rightarrow>
                   (Inr \<lparr> ar_user = target', ar_changed = changed, ar_sessions_revoked = revoked \<rparr>, d3))"

definition suspend_user ::
  "account_context \<Rightarrow> user \<Rightarrow> uuid \<Rightarrow> account_action_reason \<Rightarrow> string option \<Rightarrow> db
   \<Rightarrow> (account_error + account_result) \<times> db" where
  "suspend_user ctx actor target reason request_id d =
     change_active_state ctx actor target False reason request_id d"

definition reactivate_user ::
  "account_context \<Rightarrow> user \<Rightarrow> uuid \<Rightarrow> account_action_reason \<Rightarrow> string option \<Rightarrow> db
   \<Rightarrow> (account_error + account_result) \<times> db" where
  "reactivate_user ctx actor target reason request_id d =
     change_active_state ctx actor target True reason request_id d"

section \<open>Profile updates\<close>

text \<open>The fields of a request; the outer option tells whether the field was set.\<close>

record profile_update =
  pu_full_name :: "string option"
  pu_username :: "string option option"
  pu_phone_number :: "string option option"
  pu_industry :: "industry option option"
  pu_job_role :: "job_role option option"
  pu_street_address :: "string option option"
  pu_city :: "string option option"
  pu_state :: "string option option"
  pu_postal_code :: "string option option"
  pu_bio :: "string option option"

datatype profile_error = UserProfileNotFoundError | UserProfileConflictError

definition set_or :: "'a option \<Rightarrow> 'a \<Rightarrow> 'a" where
  "set_or x old = (case x of None \<Rightarrow> old | Some v \<Rightarrow> v)"

definition updated_profile :: "profile_update \<Rightarrow> user \<Rightarrow> user" where
  "updated_profile p u =
     u\<lparr> full_name := set_or (pu_full_name p) (full_name u), username := set_or (pu_username p) (username u),
        phone_number := set_or (pu_phone_number p) (phone_number u),
        user_industry := set_or (pu_industry p) (user_industry u),
        user_job_role := set_or (pu_job_role p) (user_job_role u),
        street_address := set_or (pu_street_address p) (street_address u),
        city := set_or (pu_city p) (city u), user_state := set_or (pu_state p) (user_state u),
        postal_code := set_or (pu_postal_code p) (postal_code u), bio := set_or (pu_bio p) (bio u) \<rparr>"

definition update_profile :: "uuid \<Rightarrow> profile_update \<Rightarrow> db \<Rightarrow> (profile_error + user) \<times> db" where
  "update_profile i payload d =
     (case user_by_id d i of
        None \<Rightarrow> (Inl UserProfileNotFoundError, d)
      | Some u \<Rightarrow>
          let u' = updated_profile payload u;
              d1 = save_user u' d;
              d2 = (case pu_industry payload of
                  None \<Rightarrow> d1
                | Some ind \<Rightarrow> d1\<lparr> businesses := update_where (\<lambda>b. owner_user_id b = user_id u)
                      (\<lambda>b. b\<lparr> business_industry := ind \<rparr>) (businesses d1) \<rparr>)
          in settle (\<lambda>x. identity_tables_ok x \<and> business_table_ok x) UserProfileConflictError (Inr u') d2 d)"

section \<open>Onboarding of a business\<close>

datatype onboarding_error = BusinessAlreadyExistsError | BusinessOnboardingForbiddenError

definition may_onboard :: "user \<Rightarrow> bool" where
  "may_onboard u \<longleftrightarrow> user_role u = Role_USER \<and> user_is_active u \<and> is_verified u"

record onboarding_context =
  bc_business_id :: uuid
  bc_assignment_id :: uuid
  bc_subscription_id :: uuid
  bc_ai_entitlement_id :: uuid
  bc_dashboard_entitlement_id :: uuid
  bc_now :: time
  bc_created :: time

record onboarding_result =
  ob_business :: business
  ob_assignment :: role_assignment
  ob_subscription :: subscription

definition trial_subscription :: "onboarding_context \<Rightarrow> subscription" where
  "trial_subscription ctx =
     (let now = bc_now ctx; ends = now + days TRIAL_DAYS
      in \<lparr> sub_id = bc_subscription_id ctx, sub_business_id = bc_business_id ctx, sub_created_at = bc_created ctx,
           sub_plan_id = None, sub_status = TRIALING, trial_started_at = Some now, trial_ends_at = Some ends,
           current_period_started_at = Some now, current_period_ends_at = Some ends,
           cancel_at_period_end = False, canceled_at = None, ended_at = None, sub_stripe_customer_id = None,
           sub_stripe_subscription_id = None, stripe_price_id = None, sub_last_stripe_event_created_at = None,
           sub_last_stripe_event_id = None, last_stripe_synced_at = None \<rparr>)"

definition trial_entitlement :: "onboarding_context \<Rightarrow> uuid \<Rightarrow> entitlement_key \<Rightarrow> int \<Rightarrow> subscription_entitlement" where
  "trial_entitlement ctx i key limit =
     \<lparr> se_id = i, se_business_id = bc_business_id ctx, se_subscription_id = bc_subscription_id ctx,
       se_key = key, se_source = SRC_TRIAL, se_is_enabled = True, se_limit_value = Some limit \<rparr>"

definition tenancy_tables_ok :: "db \<Rightarrow> bool" where
  "tenancy_tables_ok d \<longleftrightarrow> business_table_ok d \<and> role_assignment_table_ok d \<and> subscription_table_ok d
     \<and> subscription_entitlement_table_ok d"

text \<open>\<open>u\<close> is the user of the request as it was loaded; the row is read again under its lock.\<close>

definition onboard ::
  "onboarding_context \<Rightarrow> user \<Rightarrow> string \<Rightarrow> industry option \<Rightarrow> db \<Rightarrow> (onboarding_error + onboarding_result) \<times> db" where
  "onboard ctx u name ind d =
     (if \<not> may_onboard u then (Inl BusinessOnboardingForbiddenError, d)
      else case user_by_id d (user_id u) of
        None \<Rightarrow> (Inl BusinessOnboardingForbiddenError, d)
      | Some locked \<Rightarrow>
          if \<not> may_onboard locked then (Inl BusinessOnboardingForbiddenError, d)
          else if row_where (\<lambda>a. assignment_user_id a = user_id u) (role_assignments d) \<noteq> None
             \<or> row_where (\<lambda>b. owner_user_id b = user_id u) (businesses d) \<noteq> None
          then (Inl BusinessAlreadyExistsError, d)
          else
            let b = \<lparr> business_id = bc_business_id ctx, business_created_at = bc_created ctx,
                  owner_user_id = user_id u, business_name = name,
                  business_industry = (if is_null ind then user_industry u else ind) \<rparr>;
                a = \<lparr> assignment_id = bc_assignment_id ctx, assignment_business_id = bc_business_id ctx,
                  assignment_user_id = user_id u, tenant_role = OWNER, assignment_is_active = True \<rparr>;
                s = trial_subscription ctx;
                d' = d\<lparr> businesses := insert_row b (businesses d),
                       role_assignments := insert_row a (role_assignments d),
                       subscriptions := insert_row s (subscriptions d),
                       subscription_entitlements := subscription_entitlements d
                         @ [trial_entitlement ctx (bc_ai_entitlement_id ctx) AI_FULL_RESPONSES
                              TRIAL_AI_FULL_RESPONSES_PER_PERIOD,
                            trial_entitlement ctx (bc_dashboard_entitlement_id ctx) DASHBOARDS
                              TRIAL_DASHBOARD_LIMIT] \<rparr>
            in settle tenancy_tables_ok BusinessAlreadyExistsError
                 (Inr \<lparr> ob_business = b, ob_assignment = a, ob_subscription = s \<rparr>) d' d)"

section \<open>The tenant of a user\<close>

datatype tenant_context_error = TenantAccessForbiddenError | TenantContextMissingError
  | TenantIntegrityError | MultipleAssignmentsError

record tenant_context =
  tc_business :: business
  tc_role_assignment :: role_assignment

definition assignment_rows :: "uuid \<Rightarrow> db \<Rightarrow> (role_assignment \<times> business) list" where
  "assignment_rows u d =
     concat (map (\<lambda>a. map (Pair a) (filter (\<lambda>b. business_id b = assignment_business_id a) (businesses d)))
       (filter (\<lambda>a. assignment_user_id a = u \<and> assignment_is_active a) (role_assignments d)))"

definition load_tenant_context :: "user \<Rightarrow> db \<Rightarrow> tenant_context_error + tenant_context" where
  "load_tenant_context u d =
     (if user_role u \<noteq> Role_USER then Inl TenantAccessForbiddenError
      else case assignment_rows (user_id u) d of
        [] \<Rightarrow> Inl TenantContextMissingError
      | [(a, b)] \<Rightarrow>
          if assignment_business_id a \<noteq> business_id b \<or> assignment_user_id a \<noteq> user_id u
             \<or> tenant_role a \<noteq> OWNER \<or> owner_user_id b \<noteq> user_id u
          then Inl TenantIntegrityError
          else Inr \<lparr> tc_business = b, tc_role_assignment = a \<rparr>
      | _ \<Rightarrow> Inl MultipleAssignmentsError)"

section \<open>Rate limits\<close>

text \<open>The store is Redis: \<open>rs_incr\<close> returns the counter of a key after its increment, \<open>rs_expire\<close> sets
  its time to live; \<open>None\<close> is a \<open>RedisError\<close>.\<close>

record 'r redis_ops =
  rs_incr :: "string \<Rightarrow> 'r \<Rightarrow> (int \<times> 'r) option"
  rs_expire :: "string \<Rightarrow> int \<Rightarrow> 'r \<Rightarrow> 'r option"

datatype rate_limit_result = Admitted | Too_many_requests int | Redis_unavailable

definition fixed_window ::
  "'r redis_ops \<Rightarrow> string \<Rightarrow> int \<Rightarrow> int \<Rightarrow> 'r \<Rightarrow> rate_limit_result \<times> 'r" where
  "fixed_window ops key limit window r =
     (case rs_incr ops key r of
        None \<Rightarrow> (Redis_unavailable, r)
      | Some (n, r1) \<Rightarrow>
        (case (if n = 1 then rs_expire ops key window r1 else Some r1) of
           None \<Rightarrow> (Redis_unavailable, r1)
         | Some r2 \<Rightarrow> (if limit < n then Too_many_requests window else Admitted, r2)))"

record rate_settings =
  auth_rate_limit_requests :: int
  auth_rate_limit_window_seconds :: int
  ai_rate_limit_requests :: int
  ai_rate_limit_window_seconds :: int

definition enforce_auth_rate_limit ::
  "(string \<Rightarrow> string) \<Rightarrow> rate_settings \<Rightarrow> 'r redis_ops \<Rightarrow> string option \<Rightarrow> 'r \<Rightarrow> rate_limit_result \<times> 'r" where
  "enforce_auth_rate_limit sha settings ops client r =
     fixed_window ops (''spike:rate-limit:auth:'' @ sha (case client of None \<Rightarrow> ''unknown'' | Some host \<Rightarrow> host))
       (auth_rate_limit_requests settings) (auth_rate_limit_window_seconds settings) r"

definition enforce_ai_rate_limit ::
  "(string \<Rightarrow> string) \<Rightarrow> rate_settings \<Rightarrow> 'r redis_ops \<Rightarrow> uuid \<Rightarrow> uuid \<Rightarrow> 'r \<Rightarrow> rate_limit_result \<times> 'r" where
  "enforce_ai_rate_limit sha settings ops b u r =
     fixed_window ops (''spike:rate-limit:ai:'' @ sha (uuid_str b @ '':'' @ uuid_str u))
       (ai_rate_limit_requests settings) (ai_rate_limit_window_seconds settings) r"

end
