(* ===== verification/Identity_System.thy ===== *)
theory Identity_System
  imports Accounts
begin

text \<open>
  The identity services as a transition system: \<open>auth_step\<close> is one committed or refused call of a service of
  \<open>auth.py\<close>, \<open>email_two_step.py\<close>, \<open>account_security.py\<close>, \<open>admin_accounts.py\<close>, \<open>user_profiles.py\<close> or
  \<open>business.py\<close>. Rows are never lost, session versions never fall, revoked tokens stay revoked, and a change
  of credentials raises the user's session version.
\<close>

section \<open>Rows that are kept\<close>

text \<open>\<open>rows_kept key P t t'\<close>: every row that \<open>t\<close> has under a key is still there in \<open>t'\<close>, related by \<open>P\<close>.\<close>

definition rows_kept :: "('r \<Rightarrow> 'k) \<Rightarrow> ('r \<Rightarrow> 'r \<Rightarrow> bool) \<Rightarrow> 'r list \<Rightarrow> 'r list \<Rightarrow> bool" where
  "rows_kept key P t t' \<longleftrightarrow> (\<forall>i r. row_where (\<lambda>x. key x = i) t = Some r \<longrightarrow>
     (\<exists>r'. row_where (\<lambda>x. key x = i) t' = Some r' \<and> P r r'))"

lemma rows_kept_refl [simp]: "(\<And>r. P r r) \<Longrightarrow> rows_kept key P t t"
  by (simp add: rows_kept_def)

lemma rows_kept_trans:
  "rows_kept key P t t' \<Longrightarrow> rows_kept key P t' t'' \<Longrightarrow> (\<And>x y z. P x y \<Longrightarrow> P y z \<Longrightarrow> P x z)
     \<Longrightarrow> rows_kept key P t t''"
  unfolding rows_kept_def by meson

lemma row_where_update_keeps:
  "(\<And>r. Q r \<Longrightarrow> key (f r) = key r) \<Longrightarrow>
     row_where (\<lambda>x. key x = i) (update_where Q f t)
       = map_option (\<lambda>r. if Q r then f r else r) (row_where (\<lambda>x. key x = i) t)"
  by (induction t) auto

lemma rows_kept_update:
  "(\<And>r. Q r \<Longrightarrow> key (f r) = key r) \<Longrightarrow> (\<And>r. Q r \<Longrightarrow> P r (f r)) \<Longrightarrow> (\<And>r. P r r)
     \<Longrightarrow> rows_kept key P t (update_where Q f t)"
  by (simp add: rows_kept_def row_where_update_keeps)

lemma rows_kept_insert: "(\<And>r. P r r) \<Longrightarrow> rows_kept key P t (insert_row x t)"
  by (auto simp: rows_kept_def row_where_insert_row)

text \<open>The flush of one object.\<close>

lemma rows_kept_save:
  assumes "row_where (\<lambda>x. key x = key r') t = Some r" and "P r r'" and "\<And>x. P x x"
  shows "rows_kept key P t (update_where (\<lambda>x. key x = key r') (\<lambda>_. r') t)"
proof -
  have "row_where (\<lambda>x. key x = i) (update_where (\<lambda>x. key x = key r') (\<lambda>_. r') t)
      = (case row_where (\<lambda>x. key x = i) t of None \<Rightarrow> None | Some x \<Rightarrow> Some (if key x = key r' then r' else x))" for i
    by (subst row_where_update_keeps) (auto split: option.splits)
  moreover have "P x r'" if "row_where (\<lambda>x. key x = i) t = Some x" "key x = key r'" for i x
  proof -
    have "key x = i" using row_where_SomeD [OF that(1)] by simp
    with that assms(1) have "x = r" by simp
    with assms(2) show ?thesis by simp
  qed
  ultimately show ?thesis
    using assms(3) by (auto simp: rows_kept_def split: option.splits)
qed

section \<open>Sessions and codes only close\<close>

definition version_kept :: "user \<Rightarrow> user \<Rightarrow> bool" where
  "version_kept u u' \<longleftrightarrow> auth_session_version u \<le> auth_session_version u'"

definition token_kept :: "refresh_token \<Rightarrow> refresh_token \<Rightarrow> bool" where
  "token_kept t t' \<longleftrightarrow> rt_user_id t' = rt_user_id t \<and> rt_token_hash t' = rt_token_hash t
     \<and> (is_null (revoked_at t') \<longrightarrow> is_null (revoked_at t))"

definition code_kept :: "'a otp_row_scheme \<Rightarrow> 'a otp_row_scheme \<Rightarrow> bool" where
  "code_kept r r' \<longleftrightarrow> otp_user_id r' = otp_user_id r \<and> otp_hash r' = otp_hash r
     \<and> (is_null (used_at r') \<longrightarrow> is_null (used_at r))"

lemma kept_refl [simp]: "version_kept u u" "token_kept t t" "code_kept r r"
  by (simp_all add: version_kept_def token_kept_def code_kept_def)

lemma kept_trans:
  "version_kept u v \<Longrightarrow> version_kept v w \<Longrightarrow> version_kept u w"
  "token_kept t t' \<Longrightarrow> token_kept t' t'' \<Longrightarrow> token_kept t t''"
  "code_kept r r' \<Longrightarrow> code_kept r' r'' \<Longrightarrow> code_kept r r''"
  by (auto simp: version_kept_def token_kept_def code_kept_def)

definition session_le :: "db \<Rightarrow> db \<Rightarrow> bool" where
  "session_le d d' \<longleftrightarrow> rows_kept user_id version_kept (users d) (users d')
     \<and> rows_kept rt_token_id token_kept (refresh_tokens d) (refresh_tokens d')
     \<and> rows_kept otp_id code_kept (email_verification_otps d) (email_verification_otps d')
     \<and> rows_kept otp_id code_kept (password_reset_otps d) (password_reset_otps d')
     \<and> rows_kept otp_id code_kept (email_change_otps d) (email_change_otps d')
     \<and> rows_kept otp_id code_kept (two_step_challenges d) (two_step_challenges d')"

lemma session_le_refl [simp]: "session_le d d"
  by (simp add: session_le_def)

lemma session_le_trans: "session_le d d' \<Longrightarrow> session_le d' d'' \<Longrightarrow> session_le d d''"
  unfolding session_le_def using rows_kept_trans kept_trans by meson

lemma session_le_users:
  "rows_kept user_id version_kept (users d) t \<Longrightarrow> session_le d (d\<lparr> users := t \<rparr>)"
  by (simp add: session_le_def)

lemma session_le_tokens:
  "rows_kept rt_token_id token_kept (refresh_tokens d) t \<Longrightarrow> session_le d (d\<lparr> refresh_tokens := t \<rparr>)"
  by (simp add: session_le_def)

lemma session_le_codes:
  "rows_kept otp_id code_kept (email_verification_otps d) t1 \<Longrightarrow> session_le d (d\<lparr> email_verification_otps := t1 \<rparr>)"
  "rows_kept otp_id code_kept (password_reset_otps d) t2 \<Longrightarrow> session_le d (d\<lparr> password_reset_otps := t2 \<rparr>)"
  "rows_kept otp_id code_kept (email_change_otps d) t3 \<Longrightarrow> session_le d (d\<lparr> email_change_otps := t3 \<rparr>)"
  "rows_kept otp_id code_kept (two_step_challenges d) t4 \<Longrightarrow> session_le d (d\<lparr> two_step_challenges := t4 \<rparr>)"
  by (simp_all add: session_le_def)

section \<open>The writes of the services\<close>

lemma close_codes_kept: "rows_kept otp_id code_kept t (close_codes u now t)"
  unfolding close_codes_def by (rule rows_kept_update) (simp_all add: code_kept_def code_is_open_def)

lemma save_code_kept:
  assumes "row_where (\<lambda>x. otp_id x = otp_id r') t = Some r" and "code_kept r r'"
  shows "rows_kept otp_id code_kept t (save_code r' t)"
  unfolding save_code_def using assms by (intro rows_kept_save) simp_all

lemma revoke_sessions_le: "session_le d (revoke_sessions u now d)"
  unfolding revoke_sessions_def
  by (intro session_le_tokens rows_kept_update) (simp_all add: token_kept_def)

lemma revoke_token_le: "session_le d (revoke_token t now d)"
  unfolding revoke_token_def
  by (intro session_le_tokens rows_kept_update) (simp_all add: token_kept_def)

lemma insert_token_le: "session_le d (d\<lparr> refresh_tokens := insert_row t (refresh_tokens d) \<rparr>)"
  by (intro session_le_tokens rows_kept_insert) simp

lemma invalidate_le: "session_le d (invalidate_auth_otps u now d)" "session_le d (invalidate_challenges u now d)"
  by (simp_all add: session_le_def invalidate_auth_otps_def invalidate_challenges_def close_codes_kept)

lemma save_user_le:
  assumes "user_by_id d (user_id u') = Some u" and "auth_session_version u \<le> auth_session_version u'"
  shows "session_le d (save_user u' d)"
  unfolding save_user_def using assms
  by (intro session_le_users rows_kept_save [where r = u]) (simp_all add: user_by_id_def version_kept_def)

lemma flush_challenge_le:
  assumes "is_null (used_at loaded) \<or> used_at c = used_at loaded \<or> \<not> is_null (used_at c)"
  shows "session_le d (flush_challenge loaded c d)"
  unfolding flush_challenge_def using assms
  by (intro session_le_codes rows_kept_update) (auto simp: code_kept_def is_null_iff)

text \<open>What a transaction may do: keep the constraints, and close sessions and codes only.\<close>

definition safe :: "db \<Rightarrow> db \<Rightarrow> bool" where
  "safe d d' \<longleftrightarrow> (identity_tables_ok d \<longrightarrow> identity_tables_ok d' \<and> session_le d d')"

lemma safe_refl [simp]: "safe d d"
  by (simp add: safe_def)

lemma safe_trans: "safe d d' \<Longrightarrow> safe d' d'' \<Longrightarrow> safe d d''"
  using session_le_trans by (auto simp: safe_def)

lemma settle_safe:
  assumes "\<And>x. ok x \<Longrightarrow> identity_tables_ok x" and "identity_tables_ok d \<Longrightarrow> session_le d d'"
  shows "safe d (snd (settle ok e r d' d))"
  using assms by (simp add: safe_def settle_def)

lemma user_by_id_SomeD: "user_by_id d i = Some u \<Longrightarrow> u \<in> set (users d) \<and> user_id u = i"
  unfolding user_by_id_def by (drule row_where_SomeD) simp

lemma user_by_email_SomeD: "user_by_email d s = Some u \<Longrightarrow> u \<in> set (users d) \<and> email u = normalize_email s"
  unfolding user_by_email_def by (drule row_where_SomeD) simp

lemma user_by_id_self [simp]:
  "identity_tables_ok d \<Longrightarrow> u \<in> set (users d) \<Longrightarrow> user_by_id d (user_id u) = Some u"
  unfolding user_by_id_def identity_tables_ok_def user_table_ok_def by (auto intro: row_where_unique)

lemma code_tables_unique:
  assumes "identity_tables_ok d"
  shows "unique_on otp_id (email_verification_otps d)" "unique_on otp_id (password_reset_otps d)"
    "unique_on otp_id (email_change_otps d)" "unique_on otp_id (two_step_challenges d)"
  using assms by (simp_all add: identity_tables_ok_def otp_tables_ok_def challenge_table_ok_def)

text \<open>The flush of a code that a query returned.\<close>

lemma save_found_code:
  assumes "unique_on otp_id t" and "r \<in> set t" and "otp_id r' = otp_id r" and "code_kept r r'"
  shows "rows_kept otp_id code_kept t (save_code r' t)"
proof (rule save_code_kept)
  show "row_where (\<lambda>x. otp_id x = otp_id r') t = Some r"
    unfolding assms(3) by (rule row_where_unique [OF assms(1,2)])
qed (rule assms(4))

lemma get_active_otp_SomeD: "get_active_otp u t = Some r \<Longrightarrow> r \<in> set t \<and> otp_user_id r = u \<and> used_at r = None"
  unfolding get_active_otp_def by (drule latest_where_SomeD) (simp add: code_is_open_def is_null_iff)

lemma validate_otp_row:
  assumes "validate_otp cfg h now r s = (b, r')"
  shows "otp_id r' = otp_id r" "code_kept r r'" "b \<Longrightarrow> r' = r"
  using assms by (auto simp: validate_otp_def code_kept_def is_null_iff split: if_splits)

lemma validate_email_change_otp_row:
  assumes "validate_email_change_otp cfg h now r s = (b, r')"
  shows "otp_id r' = otp_id r" "code_kept r r'" "b \<Longrightarrow> r' = r"
  using assms by (auto simp: validate_email_change_otp_def code_kept_def is_null_iff split: if_splits)

lemma validate_challenge_row:
  assumes "validate_challenge cfg h now c u s = (b, c')"
  shows "otp_id c' = otp_id c" "is_null (used_at c) \<or> used_at c' = used_at c" "b \<Longrightarrow> c' = c"
  using assms by (auto simp: validate_challenge_def is_null_iff split: if_splits)

section \<open>Every operation is safe\<close>

lemma settle_identity:
  "(identity_tables_ok d \<Longrightarrow> session_le d d') \<Longrightarrow> safe d (snd (settle identity_tables_ok e r d' d))"
  by (rule settle_safe) simp_all

lemma insert_user_le: "session_le d (d\<lparr> users := insert_row u (users d) \<rparr>)"
  by (intro session_le_users rows_kept_insert) simp

lemma close_insert_kept: "rows_kept otp_id code_kept t (insert_row x (close_codes u now t))"
  by (rule rows_kept_trans [OF close_codes_kept rows_kept_insert]) (simp, erule (1) kept_trans(3))

lemma issue_otp_kept:
  "issue_otp cfg h ctx ext u m enforce t = Some t' \<Longrightarrow> rows_kept otp_id code_kept t t'"
  by (auto simp: issue_otp_def close_insert_kept split: if_splits)

lemma register_safe: "safe d (snd (register cfg h ctx payload d))"
proof -
  have "session_le d (d\<lparr> users := insert_row u (users d), email_verification_otps := t \<rparr>)"
    if "issue_otp cfg h octx id i m False (email_verification_otps d) = Some t" for u octx i m t
    by (rule session_le_trans [OF insert_user_le [of d u]])
      (use session_le_codes(1) [of "d\<lparr> users := insert_row u (users d) \<rparr>" t] issue_otp_kept [OF that] in simp)
  then show ?thesis
    unfolding register_def Let_def by (auto split: option.splits intro!: settle_identity)
qed

lemma resend_verification_safe: "safe d (snd (resend_verification cfg h ctx address d))"
  unfolding resend_verification_def
  by (auto split: option.splits intro!: settle_identity session_le_codes dest: issue_otp_kept)

lemma verify_email_safe: "safe d (snd (verify_email cfg h ctx address otp d))"
proof (cases "user_by_email d address")
  case None
  then show ?thesis by (simp add: verify_email_def)
next
  case (Some u)
  note u = user_by_email_SomeD [OF Some]
  show ?thesis
  proof (cases "get_active_otp (user_id u) (email_verification_otps d)")
    case None
    with Some show ?thesis by (simp add: verify_email_def)
  next
    case r: (Some r)
    obtain b r' where v: "validate_otp cfg h (cf_checked ctx) r otp = (b, r')" by (cases "validate_otp cfg h (cf_checked ctx) r otp")
    note row = validate_otp_row [OF v] and found = get_active_otp_SomeD [OF r]
    have failed: "session_le d (d\<lparr> email_verification_otps := save_code r' (email_verification_otps d) \<rparr>)"
      if "identity_tables_ok d"
      using that found row by (intro session_le_codes save_found_code [OF code_tables_unique(1)]) auto
    have passed: "session_le d ((save_user (u\<lparr> is_verified := True \<rparr>) d)
        \<lparr> email_verification_otps := save_code (r'\<lparr> used_at := Some t \<rparr>) (email_verification_otps d) \<rparr>)"
      if "identity_tables_ok d" for t
    proof (rule session_le_trans)
      show "session_le d (save_user (u\<lparr> is_verified := True \<rparr>) d)"
        using that u by (intro save_user_le [where u = u]) simp_all
      have "rows_kept otp_id code_kept (email_verification_otps d)
          (save_code (r'\<lparr> used_at := Some t \<rparr>) (email_verification_otps d))"
        using that found row by (intro save_found_code [OF code_tables_unique(1)]) (auto simp: code_kept_def)
      then show "session_le (save_user (u\<lparr> is_verified := True \<rparr>) d) ((save_user (u\<lparr> is_verified := True \<rparr>) d)
        \<lparr> email_verification_otps := save_code (r'\<lparr> used_at := Some t \<rparr>) (email_verification_otps d) \<rparr>)"
        by (intro session_le_codes) (simp add: save_user_def)
    qed
    show ?thesis
      using Some r v failed passed
      by (cases b) (auto simp: verify_email_def intro!: settle_identity)
  qed
qed

lemma create_token_pair_safe:
  assumes "identity_tables_ok d \<Longrightarrow> session_le d d1"
  shows "safe d (snd (create_token_pair cfg j sha ctx u remember d1 d))"
  unfolding create_token_pair_def Let_def
  using session_le_trans [OF assms insert_token_le]
  by (auto split: sum.splits intro!: settle_identity)

lemma open_challenge_kept:
  "rows_kept otp_id code_kept t (insert_row c (update_where (challenge_is_open u p) (\<lambda>r. r\<lparr> used_at := Some now \<rparr>) t))"
proof (rule rows_kept_trans)
  show "rows_kept otp_id code_kept t (update_where (challenge_is_open u p) (\<lambda>r. r\<lparr> used_at := Some now \<rparr>) t)"
    by (rule rows_kept_update) (simp_all add: code_kept_def challenge_is_open_def)
qed (rule rows_kept_insert, simp, erule (1) kept_trans(3))

lemma issue_locked_safe: "safe d (snd (issue_locked cfg h ctx u p remember reuse d))"
  unfolding issue_locked_def Let_def
  by (auto split: option.splits intro!: settle_identity session_le_codes open_challenge_kept)

lemma start_login_safe: "safe d (snd (start_login cfg h ctx u remember d))"
  by (simp add: start_login_def issue_locked_safe)

lemma authenticate_InrD:
  "authenticate h address password d = Inr u \<Longrightarrow> user_by_email d address = Some u \<and> user_is_active u \<and> is_verified u"
  by (auto simp: authenticate_def split: option.splits if_splits)

lemma login_safe: "safe d (snd (login cfg h j sha ctx address password remember d))"
proof (cases "authenticate h address password d")
  case (Inl e)
  then show ?thesis by (simp add: login_def)
next
  case (Inr u)
  note u = user_by_email_SomeD [OF conjunct1 [OF authenticate_InrD [OF Inr]]]
  have "session_le d (save_user (u\<lparr> last_login_at := Some t \<rparr>) d)" if "identity_tables_ok d" for t
    using that u by (intro save_user_le [where u = u]) simp_all
  then show ?thesis
    using Inr start_login_safe [of d cfg h "lc_challenge ctx" u remember]
      create_token_pair_safe [of d "save_user (u\<lparr> last_login_at := Some (lc_now ctx) \<rparr>) d" cfg j sha "lc_pair ctx"
        "u\<lparr> last_login_at := Some (lc_now ctx) \<rparr>" remember]
    by (auto simp: login_def Let_def split: sum.splits prod.splits)
qed

lemma refresh_safe: "safe d (snd (refresh cfg j sha ctx raw d))"
  unfolding refresh_def
  by (auto split: sum.splits option.splits intro!: create_token_pair_safe revoke_token_le)

lemma logout_safe: "safe d (snd (logout j decoded now raw d))"
  unfolding logout_def
  by (auto split: sum.splits option.splits decode_error.splits intro!: settle_identity revoke_token_le)

lemma request_password_reset_safe: "safe d (snd (request_password_reset cfg h ctx address d))"
  unfolding request_password_reset_def
  by (auto split: option.splits intro!: settle_identity session_le_codes dest: issue_otp_kept)

lemma checked_reset_otp_InrD:
  assumes "checked_reset_otp cfg h now address otp d = Inr (u, r)"
  shows "user_by_email d address = Some u" "get_active_otp (user_id u) (password_reset_otps d) = Some r"
    "h_verify h otp (otp_hash r)" "now < otp_expires_at r" "attempt_count r < cfg_otp_max_attempts cfg"
    "user_is_active u" "is_verified u"
  using assms
  by (auto simp: checked_reset_otp_def validate_otp_def split: option.splits if_splits prod.splits bool.splits)

lemma checked_reset_otp_InlD:
  assumes "checked_reset_otp cfg h now address otp d = Inl outcome"
  shows "safe d (snd outcome)" "isl (fst outcome)"
proof -
  have le: "session_le d (d\<lparr> password_reset_otps := save_code r' (password_reset_otps d) \<rparr>)"
    if "identity_tables_ok d" "get_active_otp u (password_reset_otps d) = Some r"
      "validate_otp cfg h now r otp = (b, r')" for u r r' b
    using get_active_otp_SomeD [OF that(2)] validate_otp_row [OF that(3)] that(1)
    by (intro session_le_codes save_found_code [OF code_tables_unique(2)]) auto
  show "safe d (snd outcome)" "isl (fst outcome)"
    using assms
    by (auto simp: checked_reset_otp_def split: option.splits if_splits prod.splits bool.splits
        intro!: settle_identity le) (auto simp: settle_def)
qed

lemma verify_password_reset_otp_safe: "safe d (snd (verify_password_reset_otp cfg h ctx address otp d))"
proof (cases "checked_reset_otp cfg h (cf_checked ctx) address otp d")
  case (Inl outcome)
  then show ?thesis using checked_reset_otp_InlD(1) [OF Inl] by (simp add: verify_password_reset_otp_def)
next
  case (Inr x)
  obtain u r where x: "x = (u, r)" by (cases x)
  note found = get_active_otp_SomeD [OF checked_reset_otp_InrD(2) [OF Inr [unfolded x]]]
  have "session_le d (d\<lparr> password_reset_otps := save_code (r\<lparr> verified_at := t \<rparr>) (password_reset_otps d) \<rparr>)"
    if "identity_tables_ok d" for t
    using that found by (intro session_le_codes save_found_code [OF code_tables_unique(2)]) (auto simp: code_kept_def)
  then show ?thesis using Inr x by (auto simp: verify_password_reset_otp_def intro!: settle_identity)
qed

lemma save_user_tables [simp]:
  "refresh_tokens (save_user u d) = refresh_tokens d" "email_verification_otps (save_user u d) = email_verification_otps d"
  "password_reset_otps (save_user u d) = password_reset_otps d" "email_change_otps (save_user u d) = email_change_otps d"
  "two_step_challenges (save_user u d) = two_step_challenges d" "businesses (save_user u d) = businesses d"
  by (simp_all add: save_user_def)

lemma reset_password_safe: "safe d (snd (reset_password cfg h ctx salt address otp new_password d))"
proof (cases "checked_reset_otp cfg h (cf_checked ctx) address otp d")
  case (Inl outcome)
  then show ?thesis using checked_reset_otp_InlD(1) [OF Inl] by (simp add: reset_password_def)
next
  case (Inr x)
  obtain u r where x: "x = (u, r)" by (cases x)
  note ok = checked_reset_otp_InrD [OF Inr [unfolded x]]
  note u = user_by_email_SomeD [OF ok(1)] and found = get_active_otp_SomeD [OF ok(2)]
  let ?u = "u\<lparr> password_hash := h_hash h salt new_password, auth_session_version := auth_session_version u + 1 \<rparr>"
  let ?now = "cf_now ctx"
  let ?d1 = "(save_user ?u d)
     \<lparr> password_reset_otps := save_code (r\<lparr> used_at := Some ?now \<rparr>) (password_reset_otps d),
        email_change_otps := close_codes (user_id u) ?now (email_change_otps d),
        two_step_challenges := close_codes (user_id u) ?now (two_step_challenges d) \<rparr>"
  have "session_le d (revoke_sessions (user_id u) ?now ?d1)" if i: "identity_tables_ok d"
  proof (rule session_le_trans [OF _ revoke_sessions_le])
    have "session_le d (save_user ?u d)" using i u by (intro save_user_le [where u = u]) simp_all
    moreover have "rows_kept otp_id code_kept (password_reset_otps d)
        (save_code (r\<lparr> used_at := Some ?now \<rparr>) (password_reset_otps d))"
      using i found by (intro save_found_code [OF code_tables_unique(2)]) (auto simp: code_kept_def)
    ultimately show "session_le d ?d1"
      by (simp add: session_le_def close_codes_kept)
  qed
  then show ?thesis using Inr x by (auto simp: reset_password_def Let_def intro!: settle_identity)
qed

section \<open>The second step\<close>

lemma two_step_lock_user_InrD:
  "two_step_lock_user i d = Inr u \<Longrightarrow> user_by_id d i = Some u \<and> user_is_active u \<and> is_verified u \<and> deleted_at u = None"
  by (auto simp: two_step_lock_user_def is_null_iff split: option.splits if_splits)

lemma lock_challenge_InrD:
  assumes "lock_challenge_and_user d1 i p expected d = Inr (c, u)"
  shows "row_where (\<lambda>c. otp_id c = i) (two_step_challenges d) = Some c" "user_by_id d1 (otp_user_id c) = Some u"
    "user_is_active u" "is_verified u" "null_or (\<lambda>x. otp_user_id c = x) expected"
  using assms
  by (auto simp: lock_challenge_and_user_def split: option.splits if_splits sum.splits dest: two_step_lock_user_InrD)

lemma flush_challenge_users [simp]: "users (flush_challenge c c' d) = users d"
  by (simp add: flush_challenge_def)

lemma flush_found_challenge:
  assumes "is_null (used_at c) \<or> used_at c' = used_at c \<or> \<not> is_null (used_at c')"
  shows "safe d (snd (settle identity_tables_ok e r (flush_challenge c c' d) d))"
  by (intro settle_identity flush_challenge_le assms)

lemma confirm_change_safe:
  assumes "safe d (env d)" and "\<And>u. user_id (change u) = user_id u"
    and "\<And>u. auth_session_version u \<le> auth_session_version (change u)"
  shows "safe d (snd (confirm_change cfg h ctx env p conflicting change i challenge raw_otp d))"
proof (cases "lock_challenge_and_user (env d) challenge p (Some i) d")
  case (Inl e)
  then show ?thesis using assms(1) by (simp add: confirm_change_def Let_def)
next
  case (Inr x)
  obtain c u where x: "x = (c, u)" by (cases x)
  obtain b c' where v: "validate_challenge cfg h (cf_checked ctx) c u raw_otp = (b, c')"
    by (cases "validate_challenge cfg h (cf_checked ctx) c u raw_otp")
  note row = validate_challenge_row [OF v]
  note u = lock_challenge_InrD(2) [OF Inr [unfolded x]]
  let ?now = "cf_now ctx"
  let ?d2 = "flush_challenge c (c'\<lparr> used_at := Some ?now \<rparr>) (env d)"
  have "session_le (env d) (invalidate_challenges (user_id u) ?now (revoke_sessions (user_id u) ?now (save_user (change u) ?d2)))"
  proof (intro session_le_trans [OF _ invalidate_le(2)] session_le_trans [OF _ revoke_sessions_le])
    have "session_le (env d) ?d2" by (intro flush_challenge_le) simp
    moreover have "user_by_id ?d2 (user_id (change u)) = Some u"
      using u user_by_id_SomeD [OF u] assms(2) by (simp add: user_by_id_def)
    then have "session_le ?d2 (save_user (change u) ?d2)" using assms(3) by (intro save_user_le) simp_all
    ultimately show "session_le (env d) (save_user (change u) ?d2)" by (rule session_le_trans)
  qed
  then have "safe (env d) (snd (confirm_change cfg h ctx env p conflicting change i challenge raw_otp d))"
    using Inr x v row(2) flush_found_challenge [of c c' "env d"]
    by (cases b) (auto simp: confirm_change_def Let_def intro!: settle_identity flush_challenge_le)
  with assms(1) show ?thesis by (rule safe_trans)
qed

lemma confirm_enable_safe: "safe d (env d) \<Longrightarrow> safe d (snd (confirm_enable cfg h ctx env i challenge raw_otp d))"
  and confirm_disable_safe: "safe d (env d) \<Longrightarrow> safe d (snd (confirm_disable cfg h ctx env i challenge raw_otp d))"
  unfolding confirm_enable_def confirm_disable_def by (simp_all add: confirm_change_safe)

lemma settle_not_Inr [simp]: "settle ok e (Inl e') d' d \<noteq> (Inr x, d'')"
  by (simp add: settle_def)

lemma consume_login_isl:
  assumes "isl (fst (consume_login cfg h ctx env challenge raw_otp d))"
  shows "safe (env d) (snd (consume_login cfg h ctx env challenge raw_otp d))"
proof (cases "lock_challenge_and_user (env d) challenge LOGIN None d")
  case (Inl e)
  then show ?thesis by (simp add: consume_login_def Let_def)
next
  case (Inr x)
  obtain c u where x: "x = (c, u)" by (cases x)
  obtain b c' where v: "validate_challenge cfg h (cf_checked ctx) c u raw_otp = (b, c')"
    by (cases "validate_challenge cfg h (cf_checked ctx) c u raw_otp")
  show ?thesis
    using Inr x v assms validate_challenge_row(2) [OF v]
    by (cases b) (auto simp: consume_login_def Let_def intro!: settle_identity flush_challenge_le)
qed

lemma consume_login_InrD:
  assumes "consume_login cfg h ctx env challenge raw_otp d = (Inr (u, remember), d')"
  obtains c where "lock_challenge_and_user (env d) challenge LOGIN None d = Inr (c, u)" "email_two_step_enabled u"
    "validate_challenge cfg h (cf_checked ctx) c u raw_otp = (True, c)" "remember = remember_me c"
    "d' = flush_challenge c (c\<lparr> used_at := Some (cf_now ctx) \<rparr>) (env d)"
proof (cases "lock_challenge_and_user (env d) challenge LOGIN None d")
  case (Inl e)
  then show ?thesis using assms by (simp add: consume_login_def Let_def)
next
  case (Inr x)
  obtain c w where x: "x = (c, w)" by (cases x)
  obtain b c' where v: "validate_challenge cfg h (cf_checked ctx) c w raw_otp = (b, c')"
    by (cases "validate_challenge cfg h (cf_checked ctx) c w raw_otp")
  show ?thesis
    using Inr x v assms validate_challenge_row(3) [OF v] that
    by (cases b) (auto simp: consume_login_def Let_def split: if_splits)
qed

lemma verify_email_two_step_login_safe:
  assumes "safe d (env d)"
  shows "safe d (snd (verify_email_two_step_login cfg h j sha ctx cctx env challenge otp d))"
proof (cases "consume_login cfg h cctx env challenge otp d")
  case (Pair r d')
  show ?thesis
  proof (cases r)
    case (Inl e)
    then show ?thesis
      using Pair consume_login_isl [of cfg h cctx env challenge otp d] assms
      by (auto simp: verify_email_two_step_login_def intro: safe_trans)
  next
    case (Inr x)
    obtain u remember where x: "x = (u, remember)" by (cases x)
    obtain c where c: "lock_challenge_and_user (env d) challenge LOGIN None d = Inr (c, u)"
        "d' = flush_challenge c (c\<lparr> used_at := Some (cf_now cctx) \<rparr>) (env d)"
      using consume_login_InrD [OF Pair [unfolded Inr x]] by blast
    let ?u = "u\<lparr> last_login_at := Some (lc_now ctx) \<rparr>"
    note u = lock_challenge_InrD(2) [OF c(1)]
    have "session_le (env d) (save_user ?u d')"
    proof (rule session_le_trans)
      show "session_le (env d) d'" unfolding c(2) by (intro flush_challenge_le) simp
      have "user_by_id d' (user_id ?u) = Some u" using u user_by_id_SomeD [OF u] c(2) by (simp add: user_by_id_def)
      then show "session_le d' (save_user ?u d')" by (intro save_user_le [where u = u]) simp_all
    qed
    then have "safe (env d) (snd (create_token_pair cfg j sha (lc_pair ctx) ?u remember (save_user ?u d') (env d)))"
      by (intro create_token_pair_safe)
    with Pair Inr x assms show ?thesis
      by (auto simp: verify_email_two_step_login_def Let_def intro: safe_trans)
  qed
qed

lemma resend_safe:
  assumes "safe d (env d)"
  shows "safe d (snd (resend cfg h ctx ictx env challenge allowed expected d))"
proof (cases "row_where (\<lambda>c. otp_id c = challenge) (two_step_challenges d)")
  case None
  then show ?thesis by (simp add: resend_def)
next
  case (Some probe)
  show ?thesis
  proof (cases "lock_challenge_and_user (env d) challenge (purpose probe) expected d")
    case (Inl e)
    then show ?thesis using Some assms by (simp add: resend_def Let_def)
  next
    case (Inr x)
    obtain c u where x: "x = (c, u)" by (cases x)
    show ?thesis
      using Some Inr x assms
      by (auto simp: resend_def Let_def intro!: safe_trans [OF assms] flush_found_challenge issue_locked_safe)
  qed
qed

lemma request_enable_safe: "safe d (snd (request_enable cfg h ctx i address password d))"
  and request_disable_safe: "safe d (snd (request_disable cfg h ctx i password d))"
  unfolding request_enable_def request_disable_def
  by (simp_all add: issue_locked_safe split: sum.splits)

section \<open>Account security\<close>

lemma security_lock_user_InrD:
  "security_lock_user i d = Inr u \<Longrightarrow> user_by_id d i = Some u \<and> user_is_active u \<and> deleted_at u = None"
  by (auto simp: security_lock_user_def is_null_iff split: option.splits if_splits)

lemma request_email_change_safe: "safe d (snd (request_email_change cfg h ctx i password old new d))"
  unfolding request_email_change_def Let_def
  by (auto split: sum.splits intro!: settle_identity session_le_codes close_insert_kept)

lemma end_sessions_safe:
  assumes "\<And>x. ok x \<Longrightarrow> identity_tables_ok x" and "identity_tables_ok d \<Longrightarrow> session_le d d1"
  shows "safe d (snd (end_sessions e ok u now d1 d))"
  unfolding end_sessions_def
  using assms session_le_trans [OF assms(2) session_le_trans [OF revoke_sessions_le invalidate_le(1)]]
  by (intro settle_safe) blast+

lemma save_user_bump_le:
  assumes "user_by_id d i = Some u" and "user_id u' = user_id u" and "auth_session_version u \<le> auth_session_version u'"
  shows "session_le d (save_user u' d)"
  using assms user_by_id_SomeD [OF assms(1)] by (intro save_user_le [where u = u]) simp_all

lemma active_email_change_SomeD:
  "active_email_change u a t = Some r \<Longrightarrow> r \<in> set t \<and> otp_user_id r = u \<and> used_at r = None \<and> new_email r = a"
  unfolding active_email_change_def by (drule latest_where_SomeD) (simp add: code_is_open_def is_null_iff)

lemma confirm_email_change_safe: "safe d (snd (confirm_email_change cfg h ctx i new otp d))"
proof (cases "security_lock_user i d")
  case (Inl e)
  then show ?thesis by (simp add: confirm_email_change_def)
next
  case (Inr u)
  note u = conjunct1 [OF security_lock_user_InrD [OF Inr]]
  show ?thesis
  proof (cases "active_email_change (user_id u) (normalize_email new) (email_change_otps d)")
    case None
    with Inr show ?thesis by (simp add: confirm_email_change_def)
  next
    case r: (Some r)
    obtain b r' where v: "validate_email_change_otp cfg h (cf_checked ctx) r otp = (b, r')"
      by (cases "validate_email_change_otp cfg h (cf_checked ctx) r otp")
    note found = active_email_change_SomeD [OF r] and row = validate_email_change_otp_row [OF v]
    let ?u = "u\<lparr> email := normalize_email new, is_verified := True, auth_session_version := auth_session_version u + 1 \<rparr>"
    have failed: "session_le d (d\<lparr> email_change_otps := save_code r' (email_change_otps d) \<rparr>)"
      if "identity_tables_ok d"
      using that found row by (intro session_le_codes save_found_code [OF code_tables_unique(3)]) auto
    have passed: "session_le d ((save_user ?u d)\<lparr> email_change_otps := save_code (r'\<lparr> used_at := Some t \<rparr>) (email_change_otps d) \<rparr>)"
      if "identity_tables_ok d" for t
    proof (rule session_le_trans)
      show "session_le d (save_user ?u d)" using u by (intro save_user_bump_le [where u = u]) simp_all
      have "rows_kept otp_id code_kept (email_change_otps d) (save_code (r'\<lparr> used_at := Some t \<rparr>) (email_change_otps d))"
        using that found row by (intro save_found_code [OF code_tables_unique(3)]) (auto simp: code_kept_def)
      then show "session_le (save_user ?u d) ((save_user ?u d)\<lparr> email_change_otps := save_code (r'\<lparr> used_at := Some t \<rparr>) (email_change_otps d) \<rparr>)"
        by (intro session_le_codes) simp
    qed
    show ?thesis
      using Inr r v failed passed
      by (cases b) (auto simp: confirm_email_change_def Let_def intro!: settle_identity end_sessions_safe)
  qed
qed

lemma change_password_safe: "safe d (snd (change_password h now salt i old new d))"
proof (cases "security_lock_user i d")
  case (Inl e)
  then show ?thesis by (simp add: change_password_def)
next
  case (Inr u)
  let ?u = "u\<lparr> password_hash := h_hash h salt new, auth_session_version := auth_session_version u + 1 \<rparr>"
  have "session_le d (save_user ?u d)"
    using security_lock_user_InrD [OF Inr] by (intro save_user_bump_le [where u = u and i = i]) simp_all
  with Inr show ?thesis by (auto simp: change_password_def Let_def intro!: end_sessions_safe)
qed

lemma save_subscription_identity [simp]:
  "users (save_subscription s d) = users d" "refresh_tokens (save_subscription s d) = refresh_tokens d"
  "email_verification_otps (save_subscription s d) = email_verification_otps d"
  "password_reset_otps (save_subscription s d) = password_reset_otps d"
  "email_change_otps (save_subscription s d) = email_change_otps d"
  "two_step_challenges (save_subscription s d) = two_step_challenges d"
  "users (deactivate_assignment i d) = users d" "refresh_tokens (deactivate_assignment i d) = refresh_tokens d"
  "email_verification_otps (deactivate_assignment i d) = email_verification_otps d"
  "password_reset_otps (deactivate_assignment i d) = password_reset_otps d"
  "email_change_otps (deactivate_assignment i d) = email_change_otps d"
  "two_step_challenges (deactivate_assignment i d) = two_step_challenges d"
  by (simp_all add: save_subscription_def deactivate_assignment_def)

lemma delete_account_safe: "safe d (snd (delete_account h ctx i password d))"
proof (cases "security_lock_user i d")
  case (Inl e)
  then show ?thesis by (simp add: delete_account_def)
next
  case (Inr u)
  note u = conjunct1 [OF security_lock_user_InrD [OF Inr]]
  have le: "session_le d (save_user (deleted_user nonce hash now u) d2)" if "session_le d d2" "users d2 = users d" for nonce hash now d2
  proof (rule session_le_trans [OF that(1)])
    show "session_le d2 (save_user (deleted_user nonce hash now u) d2)"
      using u that(2) by (intro save_user_bump_le [where u = u and i = i]) (simp_all add: user_by_id_def deleted_user_def)
  qed
  have other: "session_le d (save_subscription s d)" "session_le d (deactivate_assignment k d)"
    "session_le d (deactivate_assignment k (save_subscription s d))" for s k
    by (simp_all add: session_le_def)
  show ?thesis
    using Inr unfolding delete_account_def Let_def
    by (auto simp: deletion_tables_ok_def split: option.splits intro!: end_sessions_safe le other)
qed

lemma audit_event_tables:
  assumes "record_audit_event i now actor action target_type target_id b request_id md d = Inr (e, d')"
  shows "\<exists>t. d' = d\<lparr> audit_events := t \<rparr>"
  using assms by (auto simp: record_audit_event_def Let_def split: sum.splits if_splits)

lemma identity_audit [simp]:
  "identity_tables_ok (d\<lparr> audit_events := t \<rparr>) = identity_tables_ok d" "session_le d (d\<lparr> audit_events := t \<rparr>)"
  by (simp_all add: identity_tables_ok_def user_table_ok_def otp_tables_ok_def challenge_table_ok_def
      refresh_token_table_ok_def session_le_def)

lemma change_active_state_safe: "safe d (snd (change_active_state ctx actor target desired reason request_id d))"
proof (cases "user_by_id d target")
  case None
  then show ?thesis by (simp add: change_active_state_def)
next
  case (Some u)
  have u': "user_id (activated_user desired u) = user_id u" "auth_session_version u \<le> auth_session_version (activated_user desired u)"
    by (simp_all add: activated_user_def)
  have le: "session_le d (save_user (activated_user desired u) d)"
    "session_le d (revoke_sessions (user_id u) now (save_user (activated_user desired u) d))" for now
    using save_user_bump_le [OF Some u'] session_le_trans [OF save_user_bump_le [OF Some u'] revoke_sessions_le] by auto
  then show ?thesis
    using Some session_le_trans [OF le(1) identity_audit(2)] session_le_trans [OF le(2) identity_audit(2)]
    unfolding change_active_state_def Let_def safe_def
    by (auto split: sum.splits prod.splits dest!: audit_event_tables)
qed

lemma update_profile_safe: "safe d (snd (update_profile i payload d))"
proof (cases "user_by_id d i")
  case None
  then show ?thesis by (simp add: update_profile_def)
next
  case (Some u)
  have le: "session_le d (save_user (updated_profile payload u) d)"
    using Some by (intro save_user_bump_le [where u = u]) (simp_all add: updated_profile_def)
  then have "session_le d ((save_user (updated_profile payload u) d)\<lparr> businesses := t \<rparr>)" for t
    by (simp add: session_le_def)
  with le Some show ?thesis
    unfolding update_profile_def Let_def by (auto split: option.splits intro!: settle_safe)
qed

section \<open>The identity services as a transition system\<close>

text \<open>One transaction of any service that writes users, sessions or codes.  An operation that first
  probes a challenge and then waits for the lock of its user sees the transactions that commit
  meanwhile.\<close>

inductive auth_step :: "auth_settings \<Rightarrow> hasher \<Rightarrow> jwt \<Rightarrow> (string \<Rightarrow> string) \<Rightarrow> db \<Rightarrow> db \<Rightarrow> bool"
  for cfg h j sha where
  register: "auth_step cfg h j sha d (snd (register cfg h rctx payload d))"
| resend_verification: "auth_step cfg h j sha d (snd (resend_verification cfg h octx address d))"
| verify_email: "auth_step cfg h j sha d (snd (verify_email cfg h cctx address otp d))"
| login: "auth_step cfg h j sha d (snd (login cfg h j sha lctx address password remember d))"
| two_step_login: "(auth_step cfg h j sha)\<^sup>*\<^sup>* d d1 \<Longrightarrow>
    auth_step cfg h j sha d (snd (verify_email_two_step_login cfg h j sha lctx cctx (\<lambda>_. d1) challenge otp d))"
| resend: "(auth_step cfg h j sha)\<^sup>*\<^sup>* d d1 \<Longrightarrow>
    auth_step cfg h j sha d (snd (resend cfg h cctx ictx (\<lambda>_. d1) challenge purposes expected d))"
| refresh: "auth_step cfg h j sha d (snd (refresh cfg j sha fctx raw d))"
| logout: "auth_step cfg h j sha d (snd (logout j t t' raw d))"
| request_password_reset: "auth_step cfg h j sha d (snd (request_password_reset cfg h octx address d))"
| verify_password_reset_otp: "auth_step cfg h j sha d (snd (verify_password_reset_otp cfg h cctx address otp d))"
| reset_password: "auth_step cfg h j sha d (snd (reset_password cfg h cctx salt address otp new_password d))"
| request_enable: "auth_step cfg h j sha d (snd (request_enable cfg h ictx i address password d))"
| request_disable: "auth_step cfg h j sha d (snd (request_disable cfg h ictx i password d))"
| confirm_enable: "(auth_step cfg h j sha)\<^sup>*\<^sup>* d d1 \<Longrightarrow>
    auth_step cfg h j sha d (snd (confirm_enable cfg h cctx (\<lambda>_. d1) i challenge otp d))"
| confirm_disable: "(auth_step cfg h j sha)\<^sup>*\<^sup>* d d1 \<Longrightarrow>
    auth_step cfg h j sha d (snd (confirm_disable cfg h cctx (\<lambda>_. d1) i challenge otp d))"
| request_email_change: "auth_step cfg h j sha d (snd (request_email_change cfg h octx i password old_address address d))"
| confirm_email_change: "auth_step cfg h j sha d (snd (confirm_email_change cfg h cctx i address otp d))"
| change_password: "auth_step cfg h j sha d (snd (change_password h t salt i password new_password d))"
| delete_account: "auth_step cfg h j sha d (snd (delete_account h dctx i password d))"
| suspend_user: "auth_step cfg h j sha d (snd (suspend_user actx actor i reason request_id d))"
| reactivate_user: "auth_step cfg h j sha d (snd (reactivate_user actx actor i reason request_id d))"
| update_profile: "auth_step cfg h j sha d (snd (update_profile i profile d))"

lemma safe_run:
  assumes "(\<lambda>x y. auth_step cfg h j sha x y \<and> safe x y)\<^sup>*\<^sup>* d d'"
  shows "safe d d'"
  using assms by (induction rule: rtranclp_induct) (auto intro: safe_trans)

lemma auth_step_safe: "auth_step cfg h j sha d d' \<Longrightarrow> safe d d'"
proof (induction rule: auth_step.induct)
  case (two_step_login d d1 lctx cctx challenge otp)
  then show ?case by (intro verify_email_two_step_login_safe safe_run)
next
  case (resend d d1 cctx ictx challenge purposes expected)
  then show ?case by (intro resend_safe safe_run)
next
  case (confirm_enable d d1 cctx i challenge otp)
  then show ?case by (intro confirm_enable_safe safe_run)
next
  case (confirm_disable d d1 cctx i challenge otp)
  then show ?case by (intro confirm_disable_safe safe_run)
qed (simp_all add: register_safe resend_verification_safe verify_email_safe login_safe refresh_safe
      logout_safe request_password_reset_safe verify_password_reset_otp_safe reset_password_safe
      request_enable_safe request_disable_safe request_email_change_safe confirm_email_change_safe
      change_password_safe delete_account_safe suspend_user_def reactivate_user_def
      change_active_state_safe update_profile_safe)

lemma auth_run_safe: "(auth_step cfg h j sha)\<^sup>*\<^sup>* d d' \<Longrightarrow> safe d d'"
  by (induction rule: rtranclp_induct) (auto intro: safe_trans auth_step_safe)

lemma rows_keptD:
  "rows_kept key P t t' \<Longrightarrow> row_where (\<lambda>x. key x = i) t = Some r \<Longrightarrow>
     \<exists>r'. row_where (\<lambda>x. key x = i) t' = Some r' \<and> P r r'"
  by (simp add: rows_kept_def)

lemma auth_run_ok: "(auth_step cfg h j sha)\<^sup>*\<^sup>* d d' \<Longrightarrow> identity_tables_ok d \<Longrightarrow> identity_tables_ok d'"
  using auth_run_safe by (simp add: safe_def)

lemma auth_run_user:
  assumes "(auth_step cfg h j sha)\<^sup>*\<^sup>* d d'" and "identity_tables_ok d" and "user_by_id d i = Some u"
  obtains u' where "user_by_id d' i = Some u'" "auth_session_version u \<le> auth_session_version u'"
proof -
  have "rows_kept user_id version_kept (users d) (users d')"
    using auth_run_safe [OF assms(1)] assms(2) by (simp add: safe_def session_le_def)
  from rows_keptD [OF this assms(3) [unfolded user_by_id_def]] that show thesis
    by (auto simp: user_by_id_def version_kept_def)
qed

lemma auth_run_token:
  assumes "(auth_step cfg h j sha)\<^sup>*\<^sup>* d d'" and "identity_tables_ok d" and "stored_token d i = Some t"
  obtains t' where "stored_token d' i = Some t'" "token_kept t t'"
proof -
  have "rows_kept rt_token_id token_kept (refresh_tokens d) (refresh_tokens d')"
    using auth_run_safe [OF assms(1)] assms(2) by (simp add: safe_def session_le_def)
  from rows_keptD [OF this assms(3) [unfolded stored_token_def]] that show thesis
    by (auto simp: stored_token_def)
qed

section \<open>Sessions that are over\<close>

text \<open>Neither token of a session of user \<open>i\<close> with version \<open>v\<close> is accepted.\<close>

definition session_is_dead :: "auth_settings \<Rightarrow> jwt \<Rightarrow> (string \<Rightarrow> string) \<Rightarrow> uuid \<Rightarrow> int \<Rightarrow> db \<Rightarrow> bool" where
  "session_is_dead cfg j sha i v d \<longleftrightarrow>
     (\<forall>now raw claims scheme ctx. decode_jwt_token j now raw = Inr claims \<longrightarrow> claim_user_id claims = i \<longrightarrow>
        claim_session_version claims \<le> v \<longrightarrow>
        get_current_user j now (Some (scheme, raw)) d = Inr None
        \<and> (fc_decoded ctx = now \<longrightarrow> refresh cfg j sha ctx raw d = (Inl TokenValidationError, d)))"

lemma newer_version_kills:
  assumes "user_by_id d i = Some u" and "v < auth_session_version u"
  shows "session_is_dead cfg j sha i v d"
  using assms
  by (auto simp: session_is_dead_def get_current_user_def refresh_def split: option.splits)

text \<open>A successful change of credentials leaves a user with a newer version.\<close>

definition bumps_session :: "db \<Rightarrow> uuid \<Rightarrow> db \<Rightarrow> bool" where
  "bumps_session d i d' \<longleftrightarrow> (\<exists>u u'. user_by_id d i = Some u \<and> user_by_id d' i = Some u'
     \<and> auth_session_version u < auth_session_version u')"

lemma bumped_dead_forever:
  assumes "bumps_session d i d'" and "identity_tables_ok d'" and "(auth_step cfg h j sha)\<^sup>*\<^sup>* d' d''"
    and "user_by_id d i = Some u"
  shows "session_is_dead cfg j sha i (auth_session_version u) d''"
proof -
  obtain u' where u': "user_by_id d' i = Some u'" "auth_session_version u < auth_session_version u'"
    using assms(1,4) by (auto simp: bumps_session_def)
  obtain w where "user_by_id d'' i = Some w" "auth_session_version u' \<le> auth_session_version w"
    by (rule auth_run_user [OF assms(3,2) u'(1)])
  with u'(2) show ?thesis by (intro newer_version_kills [where u = w]) simp_all
qed

section \<open>Changes of credentials\<close>

lemma settle_InrD: "settle ok e (Inr x) d' d = (Inr y, d'') \<Longrightarrow> y = x \<and> d'' = d' \<and> ok d'"
  by (auto simp: settle_def split: if_splits)

lemma settle_any_InrD: "settle ok e r d' d = (Inr y, d'') \<Longrightarrow> r = Inr y \<and> d'' = d' \<and> ok d'"
  by (auto simp: settle_def split: if_splits)

lemma user_by_id_save:
  assumes "user_by_id d i = Some u" and "user_id u' = i"
  shows "user_by_id (save_user u' d) i = Some u'"
  using assms user_by_id_SomeD [OF assms(1)] unfolding user_by_id_def save_user_def
  by (simp, subst row_where_update_keeps) auto

lemma user_by_id_other_tables [simp]:
  "user_by_id (revoke_sessions k now d) i = user_by_id d i"
  "user_by_id (invalidate_auth_otps k now d) i = user_by_id d i"
  "user_by_id (invalidate_challenges k now d) i = user_by_id d i"
  "user_by_id (flush_challenge c c' d) i = user_by_id d i"
  "user_by_id (save_subscription s d) i = user_by_id d i"
  "user_by_id (deactivate_assignment k d) i = user_by_id d i"
  by (simp_all add: user_by_id_def revoke_sessions_def invalidate_auth_otps_def invalidate_challenges_def
      flush_challenge_def)

lemma revoke_sessions_all:
  assumes "t \<in> set (refresh_tokens (revoke_sessions u now d))" and "rt_user_id t = u"
  shows "\<not> is_null (revoked_at t)"
proof -
  obtain x where "x \<in> set (refresh_tokens d)" "t = (if session_is_open u x then x\<lparr> revoked_at := Some now \<rparr> else x)"
    using assms(1) by (auto simp: revoke_sessions_def update_where_def)
  with assms(2) show ?thesis by (cases "rt_user_id x = u \<and> is_null (revoked_at x)") (auto simp: session_is_open_def)
qed

definition no_open_session :: "uuid \<Rightarrow> db \<Rightarrow> bool" where
  "no_open_session u d \<longleftrightarrow> (\<forall>t \<in> set (refresh_tokens d). rt_user_id t = u \<longrightarrow> \<not> is_null (revoked_at t))"

lemma no_open_session_simps [simp]:
  "no_open_session u (revoke_sessions u now d)"
  "no_open_session u (invalidate_auth_otps k now d) = no_open_session u d"
  "no_open_session u (invalidate_challenges k now d) = no_open_session u d"
  "no_open_session u (d\<lparr> audit_events := t \<rparr>) = no_open_session u d"
  using revoke_sessions_all by (simp_all add: no_open_session_def invalidate_auth_otps_def invalidate_challenges_def)

text \<open>The operations that end the sessions of user \<open>i\<close>, from the database of the lock to the commit.\<close>

inductive credential_change :: "auth_settings \<Rightarrow> hasher \<Rightarrow> uuid \<Rightarrow> db \<Rightarrow> db \<Rightarrow> bool" for cfg h i where
  reset: "reset_password cfg h cctx salt address otp new_password d = (Inr (), d') \<Longrightarrow>
    user_by_email d address = Some u \<Longrightarrow> i = user_id u \<Longrightarrow> credential_change cfg h i d d'"
| password: "change_password h t salt i password new_password d = (Inr n, d') \<Longrightarrow> credential_change cfg h i d d'"
| email: "confirm_email_change cfg h cctx i address otp d = (Inr n, d') \<Longrightarrow> credential_change cfg h i d d'"
| enable: "confirm_enable cfg h cctx (\<lambda>_. d) i challenge otp d0 = (Inr s, d') \<Longrightarrow> credential_change cfg h i d d'"
| disable: "confirm_disable cfg h cctx (\<lambda>_. d) i challenge otp d0 = (Inr s, d') \<Longrightarrow> credential_change cfg h i d d'"
| delete: "delete_account h dctx i password d = (Inr n, d') \<Longrightarrow> credential_change cfg h i d d'"
| suspend: "suspend_user actx actor i reason request_id d = (Inr r, d') \<Longrightarrow> ar_changed r \<Longrightarrow> credential_change cfg h i d d'"

lemma bumpI:
  assumes "user_by_id d i = Some u" and "user_by_id d' i = Some u'" and "auth_session_version u < auth_session_version u'"
  shows "bumps_session d i d'"
  using assms by (auto simp: bumps_session_def)

lemma end_sessions_InrD:
  assumes "end_sessions e ok u now d1 d = (Inr n, d')"
  shows "d' = invalidate_auth_otps u now (revoke_sessions u now d1)" "ok d'" "n = sessions_to_revoke u d1"
  using assms unfolding end_sessions_def by (auto dest: settle_InrD)

lemma end_sessions_bump:
  assumes "end_sessions e ok i now d1 d = (Inr n, d')" and "user_by_id d i = Some u"
    and "user_by_id d1 i = Some u'" and "auth_session_version u < auth_session_version u'"
    and "\<And>x. ok x \<Longrightarrow> identity_tables_ok x"
  shows "bumps_session d i d' \<and> no_open_session i d' \<and> identity_tables_ok d'"
  using bumpI [OF assms(2) _ assms(4), of d'] assms(3) end_sessions_InrD(1) [OF assms(1)]
    assms(5) [OF end_sessions_InrD(2) [OF assms(1)]] by simp

lemma reset_password_bump:
  assumes "reset_password cfg h ctx salt address otp new_password d = (Inr (), d')" and "identity_tables_ok d"
    and "user_by_email d address = Some u"
  shows "bumps_session d (user_id u) d' \<and> no_open_session (user_id u) d' \<and> identity_tables_ok d'"
proof -
  obtain w r where c: "checked_reset_otp cfg h (cf_checked ctx) address otp d = Inr (w, r)"
    using assms(1) checked_reset_otp_InlD(2)
    by (cases "checked_reset_otp cfg h (cf_checked ctx) address otp d") (fastforce simp: reset_password_def)+
  have w: "w = u" using checked_reset_otp_InrD(1) [OF c] assms(3) by simp
  have row: "user_by_id d (user_id u) = Some u" using assms(2) user_by_email_SomeD [OF assms(3)] by simp
  let ?u = "u\<lparr> password_hash := h_hash h salt new_password, auth_session_version := auth_session_version u + 1 \<rparr>"
  have "user_by_id d' (user_id u) = user_by_id (save_user ?u d) (user_id u) \<and> no_open_session (user_id u) d'
      \<and> identity_tables_ok d'"
    using assms(1) c w
    by (auto simp: reset_password_def Let_def split: if_splits dest!: settle_InrD) (simp add: user_by_id_def)
  with bumpI [OF row, of d' ?u] user_by_id_save [OF row, of ?u] show ?thesis by simp
qed

lemma confirm_change_bump:
  assumes "confirm_change cfg h ctx (\<lambda>_. d) p conflicting change i challenge otp d0 = (Inr s, d')"
    and "\<And>u. user_id (change u) = user_id u" and "\<And>u. auth_session_version u < auth_session_version (change u)"
  shows "bumps_session d i d' \<and> no_open_session i d' \<and> identity_tables_ok d'"
proof -
  obtain c u where l: "lock_challenge_and_user d challenge p (Some i) d0 = Inr (c, u)"
    using assms(1) by (auto simp: confirm_change_def split: sum.splits)
  obtain b c' where v: "validate_challenge cfg h (cf_checked ctx) c u otp = (b, c')"
    by (cases "validate_challenge cfg h (cf_checked ctx) c u otp")
  let ?d2 = "flush_challenge c (c'\<lparr> used_at := Some (cf_now ctx) \<rparr>) d"
  have u: "user_by_id d i = Some u" "user_id u = i"
    using lock_challenge_InrD(2,5) [OF l] by (auto dest: user_by_id_SomeD)
  have row: "user_by_id (save_user (change u) ?d2) i = Some (change u)"
    using u assms(2) by (intro user_by_id_save [where u = u]) simp_all
  have "d' = invalidate_challenges i (cf_now ctx) (revoke_sessions i (cf_now ctx) (save_user (change u) ?d2))"
    "identity_tables_ok d'"
    using assms(1) l v u(2)
    by (cases b; auto simp: confirm_change_def Let_def split: if_splits dest!: settle_any_InrD)+
  with row bumpI [OF u(1) _ assms(3), of d'] show ?thesis by simp
qed

lemma change_password_bump:
  assumes "change_password h now salt i old new d = (Inr n, d')"
  shows "bumps_session d i d' \<and> no_open_session i d' \<and> identity_tables_ok d'"
proof -
  obtain u where l: "security_lock_user i d = Inr u"
    using assms by (auto simp: change_password_def split: sum.splits)
  note u = conjunct1 [OF security_lock_user_InrD [OF l]]
  let ?u = "u\<lparr> password_hash := h_hash h salt new, auth_session_version := auth_session_version u + 1 \<rparr>"
  have "end_sessions SecurityCommitError identity_tables_ok i now (save_user ?u d) d = (Inr n, d')"
    using assms l user_by_id_SomeD [OF u] by (auto simp: change_password_def Let_def split: if_splits)
  then show ?thesis
    using user_by_id_SomeD [OF u] user_by_id_save [OF u, of ?u]
    by (elim end_sessions_bump [OF _ u, where u' = ?u]) simp_all
qed

lemma confirm_email_change_bump:
  assumes "confirm_email_change cfg h ctx i address otp d = (Inr n, d')"
  shows "bumps_session d i d' \<and> no_open_session i d' \<and> identity_tables_ok d'"
proof -
  obtain u where l: "security_lock_user i d = Inr u"
    using assms by (auto simp: confirm_email_change_def split: sum.splits)
  note u = conjunct1 [OF security_lock_user_InrD [OF l]]
  let ?a = "normalize_email address"
  let ?u = "u\<lparr> email := ?a, is_verified := True, auth_session_version := auth_session_version u + 1 \<rparr>"
  obtain t where "end_sessions EmailChangeConflictError identity_tables_ok i (cf_now ctx)
      ((save_user ?u d)\<lparr> email_change_otps := t \<rparr>) d = (Inr n, d')"
    using assms l user_by_id_SomeD [OF u]
    by (auto simp: confirm_email_change_def Let_def split: option.splits prod.splits bool.splits if_splits)
  then show ?thesis
    by (rule end_sessions_bump [OF _ u, where u' = ?u])
      (use user_by_id_SomeD [OF u] user_by_id_save [OF u, of ?u] in \<open>simp_all add: user_by_id_def\<close>)
qed

lemma delete_account_bump:
  assumes "delete_account h ctx i password d = (Inr n, d')"
  shows "bumps_session d i d' \<and> no_open_session i d' \<and> identity_tables_ok d'"
proof -
  obtain u where l: "security_lock_user i d = Inr u"
    using assms by (auto simp: delete_account_def split: sum.splits)
  note u = conjunct1 [OF security_lock_user_InrD [OF l]]
  let ?u = "deleted_user (dc_nonce ctx) (h_hash h (dc_salt ctx) (dc_secret ctx)) (dc_now ctx) u"
  obtain d2 where "end_sessions SecurityCommitError deletion_tables_ok i (dc_now ctx) (save_user ?u d2) d = (Inr n, d')"
      "user_by_id d2 i = user_by_id d i"
    using assms l user_by_id_SomeD [OF u]
    by (auto simp: delete_account_def Let_def split: if_splits option.splits)
  then show ?thesis
    using u user_by_id_SomeD [OF u] user_by_id_save [of d2 i u ?u]
    by (elim end_sessions_bump [OF _ u, where u' = ?u]) (simp_all add: deleted_user_def deletion_tables_ok_def)
qed

lemma suspend_user_bump:
  assumes "suspend_user ctx actor i reason request_id d = (Inr r, d')" and "ar_changed r"
  shows "bumps_session d i d' \<and> no_open_session i d' \<and> identity_tables_ok d'"
proof -
  obtain u where u: "user_by_id d i = Some u"
    using assms(1) by (auto simp: suspend_user_def change_active_state_def split: option.splits if_splits)
  note id = user_by_id_SomeD [OF u]
  have d': "\<exists>t. d' = (revoke_sessions i (ax_revoked ctx) (save_user (activated_user False u) d))\<lparr> audit_events := t \<rparr>"
    and active: "user_is_active u" and ok: "identity_tables_ok d'"
    using assms u id
    by (auto simp: suspend_user_def change_active_state_def Let_def split: if_splits sum.splits prod.splits
        dest!: audit_event_tables)
  have "user_by_id (save_user (activated_user False u) d) i = Some (activated_user False u)"
    using u id by (intro user_by_id_save) (simp_all add: activated_user_def)
  moreover have "user_by_id (x\<lparr> audit_events := t \<rparr>) i = user_by_id x i" for x t by (simp add: user_by_id_def)
  moreover have "auth_session_version u < auth_session_version (activated_user False u)"
    using active by (simp add: activated_user_def)
  ultimately show ?thesis
    using d' ok by (auto intro!: bumpI [OF u, where u' = "activated_user False u"])
qed

lemma credential_change_bump:
  assumes "credential_change cfg h i d d'" and "identity_tables_ok d"
  shows "bumps_session d i d' \<and> no_open_session i d' \<and> identity_tables_ok d'"
  using assms
  by cases (auto simp: confirm_enable_def confirm_disable_def change_password_bump confirm_email_change_bump
      delete_account_bump suspend_user_bump reset_password_bump
      dest!: confirm_change_bump)

end
