(* ===== verification/Identity_Theorems.thy ===== *)
theory Identity_Theorems
  imports Identity_System Contracts Subscriptions Sample
begin

text \<open>
  The properties of the identity services: sessions, refresh tokens, bounded codes, challenges, account
  deletion, onboarding and rate limits, each with the concrete run that shows it is not empty.
\<close>

section \<open>Properties of sessions\<close>


text \<open>The claims of a token do not depend on when it is decoded.\<close>

definition claims_stable :: "jwt \<Rightarrow> string \<Rightarrow> bool" where
  "claims_stable j raw \<longleftrightarrow> (\<forall>now now' c c'. decode_jwt_token j now raw = Inr c \<longrightarrow>
     decode_jwt_token j now' raw = Inr c' \<longrightarrow> c = c')"

lemma create_token_pair_InrD:
  assumes "create_token_pair cfg j sha ctx u remember d1 d = (Inr s, d')"
  obtains row where "d' = d1\<lparr> refresh_tokens := insert_row row (refresh_tokens d1) \<rparr>" "identity_tables_ok d'"
    "rt_user_id row = user_id u" "revoked_at row = None" "is_persistent row = remember" "st_remember_me s = remember"
    "rt_token_hash row = sha (st_refresh_token s)" "rt_token_id row = pc_refresh_id ctx"
  using assms
  by (auto simp: create_token_pair_def create_jwt_token_def Let_def split: sum.splits if_splits dest!: settle_InrD)

lemma refresh_InrD:
  assumes "refresh cfg j sha ctx raw d = (Inr s, d')"
  obtains claims t u where "decode_jwt_token j (fc_decoded ctx) raw = Inr claims" "claim_token_type claims = REFRESH"
    "stored_token d (claim_token_id claims) = Some t" "revoked_at t = None" "rt_token_hash t = sha raw"
    "user_by_id d (claim_user_id claims) = Some u" "user_is_active u" "is_verified u"
    "claim_session_version claims = auth_session_version u"
    "create_token_pair cfg j sha (fc_pair ctx) u (is_persistent t) (revoke_token t (fc_revoked ctx) d) d = (Inr s, d')"
  using assms
  by (auto simp: refresh_def is_null_iff split: sum.splits option.splits if_splits)

text \<open>
  C15: a refresh token is used at most once: after it was exchanged, no later exchange of the same token
  succeeds or changes the database, in any state that the services reach.
\<close>

theorem refresh_token_used_once:
  assumes "refresh cfg j sha ctx raw d = (Inr s, d')" and "identity_tables_ok d" and "claims_stable j raw"
    and "(auth_step cfg h j sha)\<^sup>*\<^sup>* d' d''"
  shows "\<exists>e. refresh cfg j sha ctx' raw d'' = (Inl e, d'')"
proof -
  obtain claims t u where r: "decode_jwt_token j (fc_decoded ctx) raw = Inr claims"
      "stored_token d (claim_token_id claims) = Some t"
      "create_token_pair cfg j sha (fc_pair ctx) u (is_persistent t) (revoke_token t (fc_revoked ctx) d) d = (Inr s, d')"
    by (rule refresh_InrD [OF assms(1)])
  obtain row where d': "d' = (revoke_token t (fc_revoked ctx) d)\<lparr> refresh_tokens :=
      insert_row row (refresh_tokens (revoke_token t (fc_revoked ctx) d)) \<rparr>" "identity_tables_ok d'"
    by (rule create_token_pair_InrD [OF r(3)])
  have t: "t \<in> set (refresh_tokens d)" "rt_token_id t = claim_token_id claims"
    using row_where_SomeD [OF r(2) [unfolded stored_token_def]] by auto
  have "stored_token d' (claim_token_id claims) = Some (t\<lparr> revoked_at := Some (fc_revoked ctx) \<rparr>)"
    using r(2) unfolding d'(1) stored_token_def revoke_token_def
    by (simp add: row_where_insert_row row_where_update_keeps split: option.splits)
  then obtain t' where t': "stored_token d'' (claim_token_id claims) = Some t'" "\<not> is_null (revoked_at t')"
    by (rule auth_run_token [OF assms(4) d'(2)]) (auto simp: token_kept_def)
  show ?thesis
  proof (cases "decode_jwt_token j (fc_decoded ctx') raw")
    case (Inl e)
    then show ?thesis by (simp add: refresh_def)
  next
    case (Inr c)
    then have "c = claims" using assms(3) r(1) unfolding claims_stable_def by blast
    with Inr t' show ?thesis by (simp add: refresh_def)
  qed
qed

section \<open>Bounded codes\<close>

interpretation email_code: bounded_code
  "\<lambda>r (now, s). validate_otp cfg h now r s" "\<lambda>r. \<not> is_null (used_at r)" attempt_count
  "cfg_otp_max_attempts cfg" "\<lambda>r (now, s). h_verify h s (otp_hash r)" for cfg h
  by unfold_locales (auto simp: validate_otp_def split: if_splits)

interpretation address_code: bounded_code
  "\<lambda>r (now, s). validate_email_change_otp cfg h now r s" "\<lambda>r. \<not> is_null (used_at r)" attempt_count
  "cfg_otp_max_attempts cfg" "\<lambda>r (now, s). h_verify h s (otp_hash r)" for cfg h
  by unfold_locales (auto simp: validate_email_change_otp_def split: if_splits)

interpretation challenge_code: bounded_code
  "\<lambda>c (now, u, s). validate_challenge cfg h now c u s" "\<lambda>c. \<not> is_null (used_at c)" attempt_count
  "cfg_otp_max_attempts cfg" "\<lambda>c (now, u, s). h_verify h s (otp_hash c)" for cfg h
  by unfold_locales (auto simp: validate_challenge_def split: if_splits)

text \<open>The rows after a sequence of guesses, each with the clock of its check.\<close>

fun otp_after :: "auth_settings \<Rightarrow> hasher \<Rightarrow> 'a otp_row_scheme \<Rightarrow> (time \<times> string) list \<Rightarrow> 'a otp_row_scheme" where
  "otp_after cfg h r [] = r"
| "otp_after cfg h r ((now, s) # gs) = otp_after cfg h (snd (validate_otp cfg h now r s)) gs"

fun address_after :: "auth_settings \<Rightarrow> hasher \<Rightarrow> email_change_otp \<Rightarrow> (time \<times> string) list \<Rightarrow> email_change_otp" where
  "address_after cfg h r [] = r"
| "address_after cfg h r ((now, s) # gs) = address_after cfg h (snd (validate_email_change_otp cfg h now r s)) gs"

fun challenge_after ::
  "auth_settings \<Rightarrow> hasher \<Rightarrow> user \<Rightarrow> email_two_step_challenge \<Rightarrow> (time \<times> string) list \<Rightarrow> email_two_step_challenge" where
  "challenge_after cfg h u c [] = c"
| "challenge_after cfg h u c ((now, s) # gs) = challenge_after cfg h u (snd (validate_challenge cfg h now c u s)) gs"

lemma after_eq:
  "otp_after cfg h r gs = email_code.after cfg h r gs"
  "address_after cfg h r' gs = address_code.after cfg h r' gs"
  "challenge_after cfg h u c gs = challenge_code.after cfg h c (map (\<lambda>(now, s). (now, u, s)) gs)"
  by (induction gs arbitrary: r r' c) auto


section \<open>A challenge under concurrent requests\<close>


section \<open>Closing an account\<close>


lemma onboard_InrD:
  assumes "onboard ctx u name ind d = (Inr r, d')"
  shows "ob_subscription r = trial_subscription ctx"
    "ob_assignment r = \<lparr> assignment_id = bc_assignment_id ctx, assignment_business_id = bc_business_id ctx,
       assignment_user_id = user_id u, tenant_role = OWNER, assignment_is_active = True \<rparr>"
    "business_id (ob_business r) = bc_business_id ctx" "owner_user_id (ob_business r) = user_id u"
    "businesses d' = insert_row (ob_business r) (businesses d)"
    "role_assignments d' = insert_row (ob_assignment r) (role_assignments d)"
    "subscriptions d' = insert_row (ob_subscription r) (subscriptions d)"
    "subscription_entitlements d' = subscription_entitlements d
       @ [trial_entitlement ctx (bc_ai_entitlement_id ctx) AI_FULL_RESPONSES TRIAL_AI_FULL_RESPONSES_PER_PERIOD,
          trial_entitlement ctx (bc_dashboard_entitlement_id ctx) DASHBOARDS TRIAL_DASHBOARD_LIMIT]"
    "users d' = users d" "tenancy_tables_ok d'" "may_onboard u"
    "\<forall>a \<in> set (role_assignments d). assignment_user_id a \<noteq> user_id u"
    "\<exists>w. user_by_id d (user_id u) = Some w \<and> may_onboard w"
    "plan_entitlements d' = plan_entitlements d"
  using assms
  by (auto simp: onboard_def Let_def row_where_None_iff split: if_splits option.splits dest!: settle_InrD)

lemma onboard_tenant:
  assumes "onboard ctx u name ind d = (Inr r, d')"
  shows "load_tenant_context u d' = Inr \<lparr> tc_business = ob_business r, tc_role_assignment = ob_assignment r \<rparr>"
proof -
  note o = onboard_InrD [OF assms]
  have "unique_on business_id (businesses d')" using o(10) by (simp add: tenancy_tables_ok_def business_table_ok_def)
  then have fresh: "\<forall>b \<in> set (businesses d). business_id b \<noteq> bc_business_id ctx"
    unfolding o(5) unique_on_insert_row o(3) by (metis imageI)
  have "filter (\<lambda>b. business_id b = bc_business_id ctx) (businesses d') = [ob_business r]"
    using fresh o(3) by (simp add: o(5) insert_row_def)
  moreover have "filter (\<lambda>a. assignment_user_id a = user_id u \<and> assignment_is_active a) (role_assignments d') = [ob_assignment r]"
    using o(2,12) by (simp add: o(6) insert_row_def)
  ultimately have "assignment_rows (user_id u) d' = [(ob_assignment r, ob_business r)]"
    using o(2) by (simp add: assignment_rows_def)
  then show ?thesis
    using o(2,3,4,11) by (simp add: load_tenant_context_def may_onboard_def)
qed

lemma onboard_entitlement:
  assumes "onboard ctx u name ind d = (Inr r, d')" and "tenancy_tables_ok d" and "plan_entitlement_table_ok d"
  shows "find_entitlement k (effective_entitlements d' (bc_business_id ctx) (ob_subscription r)) =
     (case k of
        AI_FULL_RESPONSES \<Rightarrow> Some (entitlement_of_subscription
          (trial_entitlement ctx (bc_ai_entitlement_id ctx) k TRIAL_AI_FULL_RESPONSES_PER_PERIOD))
      | DASHBOARDS \<Rightarrow> Some (entitlement_of_subscription
          (trial_entitlement ctx (bc_dashboard_entitlement_id ctx) k TRIAL_DASHBOARD_LIMIT)))"
proof -
  note o = onboard_InrD [OF assms(1)]
  have s: "sub_id (ob_subscription r) = bc_subscription_id ctx" "sub_plan_id (ob_subscription r) = None"
    by (simp_all add: o(1) trial_subscription_def Let_def)
  have "unique_on sub_id (subscriptions d')"
    using o(10) by (simp add: tenancy_tables_ok_def subscription_table_ok_def)
  then have "\<forall>x \<in> set (subscriptions d). sub_id x \<noteq> bc_subscription_id ctx"
    using s(1) unfolding o(7) unique_on_insert_row by (metis imageI)
  then have fresh: "\<forall>e \<in> set (subscription_entitlements d). se_subscription_id e \<noteq> bc_subscription_id ctx"
    using assms(2) unfolding tenancy_tables_ok_def subscription_entitlement_table_ok_def by metis
  have none: "row_where (\<lambda>e. se_business_id e = bc_business_id ctx \<and> se_subscription_id e = bc_subscription_id ctx \<and> se_key e = k)
      (subscription_entitlements d) = None"
    using fresh by (simp add: row_where_None_iff)
  have "plan_entitlement_table_ok d'" "subscription_entitlement_table_ok d'"
    using assms(3) o(10,14) by (simp_all add: tenancy_tables_ok_def plan_entitlement_table_ok_def)
  from effective_lookup [OF this] show ?thesis
    by (simp add: s scope_one_def o(8) row_where_append none trial_entitlement_def split: entitlement_key.splits)
qed

text \<open>
  Onboarding gives a verified user exactly one tenant with a running trial: the user's tenant context
  is the new business, its current subscription is the trial, which gives access from the onboarding on
  for fourteen days and grants fifteen full AI responses and one dashboard, and a second onboarding is
  refused.
\<close>

theorem onboarding_opens_trial:
  assumes "onboard ctx u name ind d = (Inr r, d')" and "tenancy_tables_ok d" and "plan_entitlement_table_ok d"
  shows "load_tenant_context u d' = Inr \<lparr> tc_business = ob_business r, tc_role_assignment = ob_assignment r \<rparr>
    \<and> get_current (business_id (ob_business r)) d' = Some (ob_subscription r)
    \<and> (\<forall>t. access_active (evaluate_access (ob_subscription r) t) \<longleftrightarrow> bc_now ctx \<le> t \<and> t < bc_now ctx + days 14)
    \<and> (\<forall>k. map_option ee_limit_value
          (find_entitlement k (effective_entitlements d' (business_id (ob_business r)) (ob_subscription r)))
         = (case k of AI_FULL_RESPONSES \<Rightarrow> Some (Some 15) | DASHBOARDS \<Rightarrow> Some (Some 1)))
    \<and> onboard ctx' u name' ind' d' = (Inl BusinessAlreadyExistsError, d')"
proof (intro conjI allI)
  note o = onboard_InrD [OF assms(1)]
  show "load_tenant_context u d' = Inr \<lparr> tc_business = ob_business r, tc_role_assignment = ob_assignment r \<rparr>"
    by (rule onboard_tenant [OF assms(1)])
  have "subscription_table_ok d'" using o(10) by (simp add: tenancy_tables_ok_def)
  from get_current_iff [OF this] show "get_current (business_id (ob_business r)) d' = Some (ob_subscription r)"
    by (simp add: o(1,3,7) trial_subscription_def is_current_def CURRENT_SUBSCRIPTION_STATUSES_def Let_def)
  show "access_active (evaluate_access (ob_subscription r) t) \<longleftrightarrow> bc_now ctx \<le> t \<and> t < bc_now ctx + days 14" for t
    by (auto simp: o(1) evaluate_access_def trial_subscription_def Let_def TRIAL_DAYS_def)
  show "map_option ee_limit_value
          (find_entitlement k (effective_entitlements d' (business_id (ob_business r)) (ob_subscription r)))
         = (case k of AI_FULL_RESPONSES \<Rightarrow> Some (Some 15) | DASHBOARDS \<Rightarrow> Some (Some 1))" for k
    using onboard_entitlement [OF assms, of k]
    by (simp add: o(3) entitlement_of_subscription_def trial_entitlement_def
        TRIAL_AI_FULL_RESPONSES_PER_PERIOD_def TRIAL_DASHBOARD_LIMIT_def split: entitlement_key.splits)
  have "row_where (\<lambda>a. assignment_user_id a = user_id u) (role_assignments d') \<noteq> None"
    using o(2,6) by (auto simp: row_where_None_iff)
  moreover have "user_by_id d' = user_by_id d" using o(9) by (simp add: user_by_id_def fun_eq_iff)
  ultimately show "onboard ctx' u name' ind' d' = (Inl BusinessAlreadyExistsError, d')"
    using o(11,13) by (auto simp: onboard_def)
qed

section \<open>Rate limits\<close>

text \<open>What Redis documents of the two commands while the key lives: INCR adds one to the counter of its key
  alone, EXPIRE leaves the counters.\<close>

definition counts :: "'r redis_ops \<Rightarrow> ('r \<Rightarrow> string \<Rightarrow> int) \<Rightarrow> bool" where
  "counts ops val \<longleftrightarrow>
     (\<forall>r key. \<exists>r1. rs_incr ops key r = Some (val r key + 1, r1)
        \<and> (\<forall>k. val r1 k = (if k = key then val r key + 1 else val r k)))
   \<and> (\<forall>r key window. \<exists>r1. rs_expire ops key window r = Some r1 \<and> (\<forall>k. val r1 k = val r k))"

lemma fixed_window_step:
  assumes "counts ops val" and "0 \<le> val r key"
  shows "\<exists>r2. fixed_window ops key limit window r
      = (if limit < val r key + 1 then Too_many_requests window else Admitted, r2) \<and> val r2 key = val r key + 1"
proof -
  obtain r1 where r1: "rs_incr ops key r = Some (val r key + 1, r1)" "val r1 key = val r key + 1"
    using assms(1) unfolding counts_def by metis
  obtain r2 where "rs_expire ops key window r1 = Some r2" "val r2 key = val r1 key"
    using assms(1) unfolding counts_def by metis
  with r1 show ?thesis by (auto simp: fixed_window_def)
qed

text \<open>The store after \<open>n\<close> requests of a client.\<close>

fun auth_requests ::
  "(string \<Rightarrow> string) \<Rightarrow> rate_settings \<Rightarrow> 'r redis_ops \<Rightarrow> string option \<Rightarrow> nat \<Rightarrow> 'r \<Rightarrow> 'r" where
  "auth_requests sha settings ops client 0 r = r"
| "auth_requests sha settings ops client (Suc n) r =
     snd (enforce_auth_rate_limit sha settings ops client (auth_requests sha settings ops client n r))"

text \<open>
  Of the authentication requests of one client in one window, the first ones up to the configured
  number are admitted and every further one is refused with the length of the window.
\<close>

theorem rate_limit_admits_first:
  assumes "counts ops val" and "val r (''spike:rate-limit:auth:'' @ sha host) = 0"
  shows "fst (enforce_auth_rate_limit sha settings ops (Some host)
           (auth_requests sha settings ops (Some host) n r))
     = (if int n < auth_rate_limit_requests settings then Admitted
        else Too_many_requests (auth_rate_limit_window_seconds settings))"
proof -
  let ?key = "''spike:rate-limit:auth:'' @ sha host"
  have "val (auth_requests sha settings ops (Some host) n r) ?key = int n" for n
  proof (induction n)
    case 0
    then show ?case using assms(2) by simp
  next
    case (Suc n)
    then show ?case
      using fixed_window_step [OF assms(1), of "auth_requests sha settings ops (Some host) n r" ?key
          "auth_rate_limit_requests settings" "auth_rate_limit_window_seconds settings"]
      by (auto simp: enforce_auth_rate_limit_def)
  qed
  then show ?thesis
    using fixed_window_step [OF assms(1), of "auth_requests sha settings ops (Some host) n r" ?key
        "auth_rate_limit_requests settings" "auth_rate_limit_window_seconds settings"]
    by (auto simp: enforce_auth_rate_limit_def)
qed

section \<open>Witnesses\<close>

definition sample_hasher :: hasher where
  "sample_hasher = \<lparr> h_hash = (\<lambda>_ s. s), h_verify = (\<lambda>s h. s = h) \<rparr>"

definition sample_auth :: auth_settings where
  "sample_auth = \<lparr> cfg_otp_max_attempts = 5, cfg_otp_resend_cooldown_seconds = 60,
     cfg_email_verification_expire_minutes = 10, cfg_password_reset_expire_minutes = 10,
     cfg_email_two_step_expire_minutes = 10, cfg_access_token_expire_minutes = 15,
     cfg_refresh_token_expire_days = 30, cfg_terms_version = ''1'' \<rparr>"

lemma identity_tables_okI:
  "user_table_ok d \<Longrightarrow> otp_tables_ok d \<Longrightarrow> challenge_table_ok d \<Longrightarrow> refresh_token_table_ok d \<Longrightarrow> identity_tables_ok d"
  by (simp add: identity_tables_ok_def)

lemma sample_identity_ok: "identity_tables_ok sample_db"
  by (simp add: identity_tables_ok_def table_ok_defs sample_defs check_defs unique_on_def)

lemma sample_user_row: "user_by_id sample_db 1 = Some sample_user"
  by (simp add: user_by_id_def sample_defs)

lemma sample_password_change:
  obtains n d' where "change_password sample_hasher 5 ''s'' 1 ''h'' ''n'' sample_db = (Inr n, d')"
proof -
  let ?u = "sample_user\<lparr> password_hash := ''n'', auth_session_version := 1 \<rparr>"
  have u: "security_lock_user 1 sample_db = Inr sample_user" "user_id sample_user = 1" "password_hash sample_user = ''h''"
    "auth_session_version sample_user = 0"
    unfolding security_lock_user_def sample_user_row by (simp_all add: sample_user_def)
  let ?d = "invalidate_auth_otps 1 5 (revoke_sessions 1 5 (save_user ?u sample_db))"
  have "identity_tables_ok ?d"
    by (simp add: identity_tables_ok_def table_ok_defs sample_defs check_defs unique_on_def
        invalidate_auth_otps_def revoke_sessions_def save_user_def close_codes_def)
  with u that show thesis
    by (simp add: change_password_def verify_current_password_def sample_hasher_def Let_def end_sessions_def settle_def)
qed


text \<open>A session of the sample user.\<close>

definition sample_raw :: string where
  "sample_raw = jwt_encode sample_jwt (token_claims 1 7 REFRESH 0 0 (days 30))"

definition sample_token :: refresh_token where
  "sample_token = \<lparr> rt_id = 70, rt_user_id = 1, rt_token_id = 7, rt_token_hash = sample_raw,
     rt_expires_at = days 30, is_persistent = True, revoked_at = None \<rparr>"

definition sample_session_db :: db where
  "sample_session_db = sample_db\<lparr> refresh_tokens := [sample_token] \<rparr>"

definition sample_refresh :: refresh_context where
  "sample_refresh = \<lparr> fc_decoded = 5, fc_checked = 5, fc_revoked = 5,
     fc_pair = \<lparr> pc_access_id = 71, pc_refresh_id = 72, pc_row_id = 73, pc_access_now = 5, pc_refresh_now = 5 \<rparr> \<rparr>"

lemma sample_claims_stable: "claims_stable sample_jwt raw"
proof -
  have same: "p = p'" if "jwt_decode sample_jwt now raw = Some p" "jwt_decode sample_jwt now' raw = Some p'" for now now' p p'
    using that unfolding sample_jwt_def by (simp split: list.splits if_splits)
  show ?thesis
    unfolding claims_stable_def
  proof (intro allI impI)
    fix now now' c c'
    assume d: "decode_jwt_token sample_jwt now raw = Inr c" "decode_jwt_token sample_jwt now' raw = Inr c'"
    then obtain p p' where p: "jwt_decode sample_jwt now raw = Some p" "jwt_decode sample_jwt now' raw = Some p'"
      by (auto simp: decode_jwt_token_def split: option.splits)
    then have "p' = p" using same by blast
    with d p show "c = c'" by (simp add: decode_jwt_token_def)
  qed
qed

lemma sample_session_ok: "identity_tables_ok sample_session_db"
  by (simp add: identity_tables_ok_def table_ok_defs sample_session_db_def sample_defs check_defs unique_on_def)

lemma sample_refreshed:
  obtains s d' where "refresh sample_auth sample_jwt id sample_refresh sample_raw sample_session_db = (Inr s, d')"
proof -
  have claims: "decode_jwt_token sample_jwt 5 sample_raw = Inr \<lparr> claim_user_id = 1, claim_token_id = 7,
      claim_token_type = REFRESH, claim_session_version = 0, claim_expires_at = days 30 \<rparr>"
    unfolding sample_raw_def
    by (subst decode_issued [OF sample_jwt_ok]) (simp_all add: whole_seconds_def duration_defs)
  have rows: "stored_token sample_session_db 7 = Some sample_token" "user_by_id sample_session_db 1 = Some sample_user"
    by (simp_all add: stored_token_def sample_session_db_def sample_token_def user_by_id_def sample_defs)
  have u: "user_is_active sample_user" "is_verified sample_user" "auth_session_version sample_user = 0" "user_id sample_user = 1"
    by (simp_all add: sample_user_def)
  have t: "revoked_at sample_token = None" "rt_expires_at sample_token = days 30" "rt_token_hash sample_token = sample_raw"
    "(5::int) < days 30"
    by (simp_all add: sample_token_def duration_defs)
  have ok: "identity_tables_ok ((revoke_token sample_token 5 sample_session_db)\<lparr> refresh_tokens :=
      insert_row row (refresh_tokens (revoke_token sample_token 5 sample_session_db)) \<rparr>)"
    if "rt_id row = 73" "rt_token_id row = 72" for row
    using that by (simp add: identity_tables_ok_def table_ok_defs sample_session_db_def sample_defs check_defs unique_on_def
        revoke_token_def sample_token_def insert_row_def)
  show thesis
    using that claims rows u t ok
    by (simp add: refresh_def sample_refresh_def create_token_pair_def create_jwt_token_def Let_def settle_def not_le)
qed

theorem refresh_token_used_once_witness:
  "\<exists>s d'. refresh sample_auth sample_jwt id sample_refresh sample_raw sample_session_db = (Inr s, d')
     \<and> (\<exists>e. refresh sample_auth sample_jwt id sample_refresh sample_raw d' = (Inl e, d'))"
proof -
  obtain s d' where r: "refresh sample_auth sample_jwt id sample_refresh sample_raw sample_session_db = (Inr s, d')"
    by (rule sample_refreshed)
  show ?thesis
    using refresh_token_used_once [OF r sample_session_ok sample_claims_stable rtranclp.rtrancl_refl, where ctx' = sample_refresh] r
    by blast
qed

definition sample_code :: otp_row where
  "sample_code = \<lparr> otp_id = 80, otp_user_id = 1, otp_created_at = 0, otp_hash = ''123456'',
     otp_expires_at = minutes 10, attempt_count = 0, used_at = None \<rparr>"


definition sample_counter :: "(string \<Rightarrow> int) redis_ops" where
  "sample_counter = \<lparr> rs_incr = (\<lambda>k r. Some (r k + 1, r(k := r k + 1))), rs_expire = (\<lambda>_ _ r. Some r) \<rparr>"

theorem rate_limit_admits_first_witness:
  "fst (enforce_auth_rate_limit id \<lparr> auth_rate_limit_requests = 3, auth_rate_limit_window_seconds = 60,
       ai_rate_limit_requests = 3, ai_rate_limit_window_seconds = 60 \<rparr> sample_counter (Some ''h'')
     (auth_requests id \<lparr> auth_rate_limit_requests = 3, auth_rate_limit_window_seconds = 60,
       ai_rate_limit_requests = 3, ai_rate_limit_window_seconds = 60 \<rparr> sample_counter (Some ''h'') 3 (\<lambda>_. 0)))
   = Too_many_requests 60"
proof -
  have "counts sample_counter (\<lambda>r k. r k)" by (simp add: counts_def sample_counter_def)
  then show ?thesis by (subst rate_limit_admits_first) simp_all
qed

section \<open>A deleted account\<close>

definition sample_deletion :: deletion_context where
  "sample_deletion = \<lparr> dc_now = 5, dc_nonce = ''n'', dc_salt = ''s'', dc_secret = ''x'' \<rparr>"

lemma deleted_address: "''deleted-'' @ uuid_hex i @ ''-'' @ nonce @ ''@deleted.invalid'' \<noteq> ''a@b.co''"
  "''deleted-'' @ uuid_hex i @ ''-'' @ nonce @ ''@deleted.invalid'' \<noteq> ''r@b.co''"
  by simp_all

lemma sample_deleted:
  obtains n d' where "delete_account sample_hasher sample_deletion 1 ''h'' sample_db = (Inr n, d')"
proof -
  let ?s = "canceled_subscription 5 sample_subscription"
  let ?d2 = "deactivate_assignment 1 (save_subscription ?s sample_db)"
  let ?u = "deleted_user ''n'' ''x'' 5 sample_user"
  let ?d = "invalidate_auth_otps 1 5 (revoke_sessions 1 5 (save_user ?u ?d2))"
  have u: "security_lock_user 1 sample_db = Inr sample_user" "user_id sample_user = 1" "password_hash sample_user = ''h''"
    "user_role sample_user = Role_USER"
    unfolding security_lock_user_def sample_user_row by (simp_all add: sample_user_def)
  have b: "row_where (\<lambda>x. owner_user_id x = 1) (businesses sample_db) = Some sample_business" "business_id sample_business = 10"
    by (simp_all add: sample_defs)
  have s: "current_subscription_of 10 sample_db = Some sample_subscription"
    by (simp add: current_subscription_of_def sample_defs is_current_def CURRENT_SUBSCRIPTION_STATUSES_def latest_where_single)
  have conflict: "\<not> deletion_billing_conflict (Some sample_business) (Some sample_subscription) sample_db"
    by (simp add: deletion_billing_conflict_def open_checkout_of_def completed_checkout_of_def sample_defs)
  have "user_table_ok ?d"
    by (simp add: user_table_ok_def sample_defs check_defs unique_on_def invalidate_auth_otps_def revoke_sessions_def
        save_user_def deleted_user_def save_subscription_def deactivate_assignment_def)
  moreover have "otp_tables_ok ?d" "challenge_table_ok ?d" "refresh_token_table_ok ?d" "subscription_table_ok ?d"
    "role_assignment_table_ok ?d"
    by (simp_all add: table_ok_defs sample_defs check_defs unique_on_def unique_where_def unique_nullable_def
        invalidate_auth_otps_def revoke_sessions_def save_user_def save_subscription_def deactivate_assignment_def
        close_codes_def canceled_subscription_def is_current_def CURRENT_SUBSCRIPTION_STATUSES_def)
  ultimately have ok: "deletion_tables_ok ?d" by (simp add: deletion_tables_ok_def identity_tables_ok_def)
  show thesis
    using that u b s conflict ok
    by (simp add: delete_account_def verify_current_password_def sample_hasher_def sample_deletion_def Let_def
        is_last_super_admin_def end_sessions_def settle_def)
qed


section \<open>A new tenant\<close>

definition sample_onboarding :: onboarding_context where
  "sample_onboarding = \<lparr> bc_business_id = 90, bc_assignment_id = 91, bc_subscription_id = 92,
     bc_ai_entitlement_id = 93, bc_dashboard_entitlement_id = 94, bc_now = 100, bc_created = 100 \<rparr>"

definition sample_new_user :: user where
  "sample_new_user = sample_user\<lparr> user_id := 3, email := ''c@b.co'' \<rparr>"

definition sample_new_user_db :: db where
  "sample_new_user_db = sample_db\<lparr> users := [sample_user, sample_new_user] \<rparr>"

lemma sample_tenancy_ok: "tenancy_tables_ok sample_new_user_db" "plan_entitlement_table_ok sample_new_user_db"
  by (simp_all add: tenancy_tables_ok_def table_ok_defs sample_new_user_db_def sample_defs check_defs unique_on_def
      unique_where_def unique_nullable_def is_current_def CURRENT_SUBSCRIPTION_STATUSES_def)

lemma sample_onboarded:
  obtains r d' where "onboard sample_onboarding sample_new_user ''N'' None sample_new_user_db = (Inr r, d')"
proof -
  let ?r = "\<lparr> ob_business = \<lparr> business_id = 90, business_created_at = 100, owner_user_id = 3, business_name = ''N'',
        business_industry = None \<rparr>, ob_assignment = \<lparr> assignment_id = 91, assignment_business_id = 90,
        assignment_user_id = 3, tenant_role = OWNER, assignment_is_active = True \<rparr>,
      ob_subscription = trial_subscription sample_onboarding \<rparr>"
  let ?d = "sample_new_user_db\<lparr> businesses := insert_row (ob_business ?r) (businesses sample_new_user_db),
      role_assignments := insert_row (ob_assignment ?r) (role_assignments sample_new_user_db),
      subscriptions := insert_row (ob_subscription ?r) (subscriptions sample_new_user_db),
      subscription_entitlements := subscription_entitlements sample_new_user_db
        @ [trial_entitlement sample_onboarding 93 AI_FULL_RESPONSES TRIAL_AI_FULL_RESPONSES_PER_PERIOD,
           trial_entitlement sample_onboarding 94 DASHBOARDS TRIAL_DASHBOARD_LIMIT] \<rparr>"
  have "business_table_ok ?d" "role_assignment_table_ok ?d" "subscription_table_ok ?d" "subscription_entitlement_table_ok ?d"
    by (simp_all add: table_ok_defs sample_new_user_db_def sample_defs check_defs unique_on_def
      unique_where_def unique_nullable_def is_current_def CURRENT_SUBSCRIPTION_STATUSES_def insert_row_def
      trial_subscription_def sample_onboarding_def trial_entitlement_def Let_def TRIAL_DAYS_def
      TRIAL_AI_FULL_RESPONSES_PER_PERIOD_def TRIAL_DASHBOARD_LIMIT_def)
  then have "tenancy_tables_ok ?d" by (simp add: tenancy_tables_ok_def)
  then have "onboard sample_onboarding sample_new_user ''N'' None sample_new_user_db = (Inr ?r, ?d)"
    by (simp add: onboard_def may_onboard_def user_by_id_def settle_def Let_def sample_new_user_db_def sample_new_user_def
        sample_onboarding_def sample_user_def sample_db_def sample_business_def sample_assignment_def empty_db_def)
  then show thesis by (rule that)
qed

theorem onboarding_opens_trial_witness:
  "\<exists>r d'. onboard sample_onboarding sample_new_user ''N'' None sample_new_user_db = (Inr r, d')
     \<and> get_current (business_id (ob_business r)) d' = Some (ob_subscription r)"
proof -
  obtain r d' where r: "onboard sample_onboarding sample_new_user ''N'' None sample_new_user_db = (Inr r, d')"
    by (rule sample_onboarded)
  show ?thesis using onboarding_opens_trial [OF r sample_tenancy_ok] r by blast
qed

section \<open>An overlapping login\<close>

definition sample_two_step_user :: user where
  "sample_two_step_user = sample_user\<lparr> email_two_step_enabled := True, email_two_step_enabled_at := Some 0 \<rparr>"

definition sample_challenge :: email_two_step_challenge where
  "sample_challenge = otp_row.extend sample_code (email_two_step_challenge.fields LOGIN 0 False)"

definition sample_challenge_db :: db where
  "sample_challenge_db = sample_db\<lparr> users := [sample_two_step_user], two_step_challenges := [sample_challenge] \<rparr>"

definition sample_login :: login_context where
  "sample_login = \<lparr> lc_now = 9, lc_pair = fc_pair sample_refresh,
     lc_challenge = \<lparr> oc_id = 0, oc_salt = [], oc_number = 0, oc_checked = 9, oc_now = 9, oc_created = 9, cc_responded = 9 \<rparr> \<rparr>"

definition sample_confirm :: confirm_context where
  "sample_confirm = \<lparr> cf_checked = 9, cf_now = 9 \<rparr>"

lemma sample_challenge_ok: "identity_tables_ok sample_challenge_db"
  by (simp add: identity_tables_ok_def table_ok_defs sample_challenge_db_def sample_two_step_user_def sample_challenge_def
      sample_code_def otp_row.defs email_two_step_challenge.defs sample_defs check_defs unique_on_def)

lemma sample_two_step_login:
  obtains s d1 where "verify_email_two_step_login sample_auth sample_hasher sample_jwt id sample_login sample_confirm
    (\<lambda>_. sample_challenge_db) 80 ''123456'' sample_challenge_db = (Inr s, d1)"
proof -
  let ?c = sample_challenge
  have c: "otp_id ?c = 80" "otp_user_id ?c = 1" "purpose ?c = LOGIN" "used_at ?c = None" "otp_expires_at ?c = minutes 10"
    "session_version ?c = 0" "attempt_count ?c = 0" "otp_hash ?c = ''123456''" "remember_me ?c = False"
    by (simp_all add: sample_challenge_def sample_code_def otp_row.defs email_two_step_challenge.defs)
  have u: "user_by_id sample_challenge_db 1 = Some sample_two_step_user" "user_id sample_two_step_user = 1"
    "user_is_active sample_two_step_user" "is_verified sample_two_step_user" "deleted_at sample_two_step_user = None"
    "auth_session_version sample_two_step_user = 0" "email_two_step_enabled sample_two_step_user"
    by (simp_all add: user_by_id_def sample_challenge_db_def sample_two_step_user_def sample_user_def)
  have rows: "two_step_challenges sample_challenge_db = [?c]" by (simp add: sample_challenge_db_def)
  have lock: "lock_challenge_and_user sample_challenge_db 80 LOGIN None sample_challenge_db = Inr (?c, sample_two_step_user)"
    using c u by (simp add: lock_challenge_and_user_def rows two_step_lock_user_def)
  have check: "validate_challenge sample_auth sample_hasher 9 ?c sample_two_step_user ''123456'' = (True, ?c)"
    using c u by (simp add: validate_challenge_def sample_auth_def sample_hasher_def duration_defs)
  let ?u = "sample_two_step_user\<lparr> last_login_at := Some 9 \<rparr>"
  let ?p = "save_user ?u (flush_challenge ?c (?c\<lparr> used_at := Some 9 \<rparr>) sample_challenge_db)"
  have "identity_tables_ok (?p\<lparr> refresh_tokens := insert_row row (refresh_tokens ?p) \<rparr>)"
    if "rt_id row = 73" "rt_token_id row = 72" for row
    using that by (simp add: identity_tables_ok_def table_ok_defs save_user_def flush_challenge_def sample_challenge_db_def
        sample_two_step_user_def sample_challenge_def sample_code_def otp_row.defs email_two_step_challenge.defs
        sample_defs check_defs unique_on_def insert_row_def)
  then show thesis
    using that lock check u c
    by (simp add: verify_email_two_step_login_def consume_login_def sample_confirm_def sample_login_def sample_refresh_def
        create_token_pair_def create_jwt_token_def Let_def settle_def)
qed


end
