(* ===== verification/Stripe_Values.thy ===== *)
theory Stripe_Values
  imports Security Admin_Audit
begin

text \<open>
  Results, JSON objects of Stripe and the readers of their fields: the helpers of \<open>app/services/billing.py\<close>.
\<close>

section \<open>Results\<close>

definition and_then :: "'e + 'a \<Rightarrow> ('a \<Rightarrow> 'e + 'b) \<Rightarrow> 'e + 'b" where
  "and_then r f = (case r of Inl e \<Rightarrow> Inl e | Inr x \<Rightarrow> f x)"

lemma and_then_simps [simp]: "and_then (Inl e) f = Inl e" "and_then (Inr x) f = f x"
  by (simp_all add: and_then_def)

lemma and_then_InrE:
  assumes "and_then r f = Inr y"
  obtains x where "r = Inr x" "f x = Inr y"
  using assms by (cases r) auto

lemma and_then_Inr_iff: "and_then r f = Inr y \<longleftrightarrow> (\<exists>x. r = Inr x \<and> f x = Inr y)"
  by (cases r) auto

text \<open>An operation on every element of a list, and one that passes a state through them; the first error ends both.\<close>

fun map_result :: "('a \<Rightarrow> 'e + 'b) \<Rightarrow> 'a list \<Rightarrow> 'e + 'b list" where
  "map_result f [] = Inr []"
| "map_result f (x # xs) = and_then (f x) (\<lambda>y. and_then (map_result f xs) (\<lambda>ys. Inr (y # ys)))"

fun fold_result :: "('x \<Rightarrow> 's \<Rightarrow> 'e + 's) \<Rightarrow> 'x list \<Rightarrow> 's \<Rightarrow> 'e + 's" where
  "fold_result f [] s = Inr s"
| "fold_result f (x # xs) s = and_then (f x s) (fold_result f xs)"

lemma map_result_Inr_iff: "map_result f xs = Inr ys \<longleftrightarrow> list_all2 (\<lambda>x y. f x = Inr y) xs ys"
  by (induction xs arbitrary: ys) (auto simp: and_then_Inr_iff list_all2_Cons1)

lemma fold_result_append:
  "fold_result f (xs @ ys) s = and_then (fold_result f xs s) (fold_result f ys)"
proof (induction xs arbitrary: s)
  case (Cons x xs)
  then show ?case by (cases "f x s") auto
qed simp

lemma fold_result_invariant:
  assumes "fold_result f xs s = Inr t" "P s" "\<And>x a b. x \<in> set xs \<Longrightarrow> P a \<Longrightarrow> f x a = Inr b \<Longrightarrow> P b"
  shows "P t"
  using assms
proof (induction xs arbitrary: s)
  case (Cons x xs)
  from Cons.prems(1) obtain u where "f x s = Inr u" "fold_result f xs u = Inr t"
    by (auto elim: and_then_InrE)
  moreover have "P u" by (rule Cons.prems(3)) (use Cons.prems(2) \<open>f x s = Inr u\<close> in auto)
  ultimately show ?case by (intro Cons.IH [of u]) (auto intro: Cons.prems(3))
qed simp

section \<open>Stripe objects\<close>

text \<open>\<open>StripeObject\<close> is a dictionary of JSON values; \<open>get k o\<close> is \<open>o.get(k)\<close>, whose \<open>None\<close> for an absent key is
  the \<open>None\<close> of a JSON null.\<close>

type_synonym stripe_object = "(string \<times> json) list"

definition get :: "string \<Rightarrow> stripe_object \<Rightarrow> json" where
  "get k o' = (case map_of o' k of None \<Rightarrow> JNull | Some v \<Rightarrow> v)"

definition get_default :: "string \<Rightarrow> json \<Rightarrow> stripe_object \<Rightarrow> json" where
  "get_default k v o' = (case map_of o' k of None \<Rightarrow> v | Some w \<Rightarrow> w)"

datatype billing_error = BillingNotConfiguredError | BillingPlanNotFoundError
  | BillingPlanNotCheckoutEligibleError | BillingPriceConfigurationError | BillingCheckoutConflictError
  | BillingCheckoutInProgressError billing_checkout_session | StripeSubscriptionRequiredError
  | StripeWebhookDataError | StripeWebhookEnvironmentError | StripeGatewayError
  | StripeCheckoutRejectedError | BillingIntegrityError | BillingTypeError | BillingNoResultFound

text \<open>\<open>str(value)\<close> of a JSON value.  A string inside a container is printed by \<open>repr\<close>: single quotes unless
  it holds only a single quote, and escapes for what is not printable.  JSON has no infinity or NaN.\<close>

definition py_isprintable :: "char \<Rightarrow> bool" where
  "py_isprintable c = (let n = (of_char c :: nat) in (32 \<le> n \<and> n \<le> 126) \<or> (161 \<le> n \<and> n \<noteq> 173))"

definition py_repr_char :: "char \<Rightarrow> char \<Rightarrow> string" where
  "py_repr_char quote c =
     (if c = quote \<or> c = CHR 0x5C then [CHR 0x5C, c]
      else if c = CHR 0x0A then [CHR 0x5C, CHR ''n'']
      else if c = CHR 0x0D then [CHR 0x5C, CHR ''r'']
      else if c = CHR 0x09 then [CHR 0x5C, CHR ''t'']
      else if py_isprintable c then [c]
      else [CHR 0x5C, CHR ''x''] @ hex_digits 2 (of_char c))"

definition py_repr_string :: "string \<Rightarrow> string" where
  "py_repr_string s =
     (let quote = (if CHR 0x27 \<in> set s \<and> CHR 0x22 \<notin> set s then CHR 0x22 else CHR 0x27)
      in [quote] @ concat (map (py_repr_char quote) s) @ [quote])"

fun py_repr :: "json \<Rightarrow> string" where
  "py_repr JNull = ''None''"
| "py_repr (JBool b) = (if b then ''True'' else ''False'')"
| "py_repr (JInt n) = int_str n"
| "py_repr (JFloat None) = ''nan''"
| "py_repr (JFloat (Some s)) = s"
| "py_repr (JStr s) = py_repr_string s"
| "py_repr (JList xs) = ''['' @ join_with '', '' (map py_repr xs) @ '']''"
| "py_repr (JDict kvs) =
     ''{'' @ join_with '', '' (map (\<lambda>(k, v). py_repr_string k @ '': '' @ py_repr v) kvs) @ ''}''"

definition py_str :: "json \<Rightarrow> string" where
  "py_str j = (case j of JStr s \<Rightarrow> s | _ \<Rightarrow> py_repr j)"

text \<open>\<open>bool(value)\<close>.\<close>

fun truthy :: "json \<Rightarrow> bool" where
  "truthy JNull = False"
| "truthy (JBool b) = b"
| "truthy (JInt n) = (n \<noteq> 0)"
| "truthy (JFloat s) = (s \<noteq> Some ''0.0'' \<and> s \<noteq> Some ''-0.0'')"
| "truthy (JStr s) = (s \<noteq> [])"
| "truthy (JList xs) = (xs \<noteq> [])"
| "truthy (JDict kvs) = (kvs \<noteq> [])"

section \<open>Fields of Stripe objects\<close>

definition required_string :: "string \<Rightarrow> stripe_object \<Rightarrow> billing_error + string" where
  "required_string k data =
     (case get k data of JStr s \<Rightarrow> if s = [] then Inl StripeWebhookDataError else Inr s
      | _ \<Rightarrow> Inl StripeWebhookDataError)"

definition optional_string :: "json \<Rightarrow> billing_error + string option" where
  "optional_string v =
     (case v of
        JNull \<Rightarrow> Inr None
      | JStr s \<Rightarrow> if s = [] then Inl StripeWebhookDataError else Inr (Some s)
      | JDict kvs \<Rightarrow> (case get ''id'' kvs of
            JStr s \<Rightarrow> if s = [] then Inl StripeWebhookDataError else Inr (Some s)
          | _ \<Rightarrow> Inl StripeWebhookDataError)
      | _ \<Rightarrow> Inl StripeWebhookDataError)"

text \<open>\<open>datetime.fromtimestamp(value, tz=UTC)\<close>: the years 1 to 9999.  How a float becomes an instant is the
  argument \<open>fl\<close>.\<close>

definition stripe_datetime :: "(string \<Rightarrow> time option) \<Rightarrow> json \<Rightarrow> billing_error + time option" where
  "stripe_datetime fl v =
     (case v of
        JNull \<Rightarrow> Inr None
      | JInt n \<Rightarrow> if - 62135596800 \<le> n \<and> n \<le> 253402300799 then Inr (Some (seconds n))
          else Inl StripeWebhookDataError
      | JFloat (Some s) \<Rightarrow> (case fl s of None \<Rightarrow> Inl StripeWebhookDataError | Some t \<Rightarrow> Inr (Some t))
      | _ \<Rightarrow> Inl StripeWebhookDataError)"

definition stripe_integer :: "string \<Rightarrow> stripe_object \<Rightarrow> billing_error + int" where
  "stripe_integer k data = (case get k data of JInt n \<Rightarrow> Inr n | _ \<Rightarrow> Inl StripeWebhookDataError)"

definition metadata_of :: "stripe_object \<Rightarrow> billing_error + (string \<times> string) list" where
  "metadata_of data =
     (case get ''metadata'' data of
        JNull \<Rightarrow> Inr []
      | JDict kvs \<Rightarrow> Inr (map (\<lambda>(k, v). (k, py_str v)) (filter (\<lambda>(k, v). v \<noteq> JNull) kvs))
      | _ \<Rightarrow> Inl StripeWebhookDataError)"

definition metadata_uuid :: "(string \<times> string) list \<Rightarrow> string \<Rightarrow> billing_error + uuid" where
  "metadata_uuid m k =
     (case map_of m k of
        None \<Rightarrow> Inl StripeWebhookDataError
      | Some v \<Rightarrow> (case parse_uuid v of None \<Rightarrow> Inl StripeWebhookDataError | Some u \<Rightarrow> Inr u))"

definition subscription_item_details ::
  "(string \<Rightarrow> time option) \<Rightarrow> stripe_object \<Rightarrow> billing_error + string \<times> time option \<times> time option" where
  "subscription_item_details fl snapshot =
     (case get ''items'' snapshot of
        JDict items \<Rightarrow>
          (case get ''data'' items of
             JList [JDict item] \<Rightarrow>
               and_then (optional_string (get ''price'' item)) (\<lambda>price.
                 case price of
                   None \<Rightarrow> Inl StripeWebhookDataError
                 | Some p \<Rightarrow>
                     and_then (stripe_datetime fl (get_default ''current_period_start''
                                 (get ''current_period_start'' snapshot) item)) (\<lambda>started.
                     and_then (stripe_datetime fl (get_default ''current_period_end''
                                 (get ''current_period_end'' snapshot) item)) (\<lambda>ends.
                       Inr (p, started, ends))))
           | _ \<Rightarrow> Inl StripeWebhookDataError)
      | _ \<Rightarrow> Inl StripeWebhookDataError)"

definition invoice_subscription_id :: "stripe_object \<Rightarrow> billing_error + string option" where
  "invoice_subscription_id invoice =
     and_then (optional_string (get ''subscription'' invoice)) (\<lambda>legacy.
       case legacy of
         Some s \<Rightarrow> Inr (Some s)
       | None \<Rightarrow>
         (case get ''parent'' invoice of
            JDict parent \<Rightarrow>
              (case get ''subscription_details'' parent of
                 JDict details \<Rightarrow> optional_string (get ''subscription'' details)
               | _ \<Rightarrow> Inr None)
          | _ \<Rightarrow> Inr None))"

end
