(* ===== verification/Billing_Checkout.thy ===== *)
theory Billing_Checkout
  imports Stripe_Values Auth_Rows
begin

text \<open>
  \<open>CheckoutService\<close> of \<open>app/services/billing.py\<close>: the price check, the preparation of an attempt under its idempotency
  key, the request to Stripe and the record of its answer.
\<close>

section \<open>Plans and prices\<close>

datatype app_environment = DEVELOPMENT | TEST | STAGING | PRODUCTION

primrec app_environment_value :: "app_environment \<Rightarrow> string" where
  "app_environment_value DEVELOPMENT = ''development''"
| "app_environment_value TEST = ''test''"
| "app_environment_value STAGING = ''staging''"
| "app_environment_value PRODUCTION = ''production''"

record billing_settings =
  cfg_app_env :: app_environment
  cfg_stripe_enabled :: bool
  cfg_premium_price :: "string option"
  cfg_pro_price :: "string option"
  cfg_success_url :: string
  cfg_cancel_url :: string
  cfg_checkout_session_minutes :: int

text \<open>The calls of the Stripe gateway: a result, or one of its two errors.\<close>

record stripe_gateway =
  gw_retrieve_price :: "string \<Rightarrow> billing_error + stripe_object"
  gw_create_checkout_session :: "stripe_object \<Rightarrow> string \<Rightarrow> billing_error + stripe_object"
  gw_update_subscription :: "string \<Rightarrow> bool \<Rightarrow> string \<Rightarrow> billing_error + stripe_object"
  gw_retrieve_subscription :: "string \<Rightarrow> billing_error + stripe_object"

definition STRIPE_MINIMUM_ABSOLUTE_TRIAL_LEAD :: int where
  "STRIPE_MINIMUM_ABSOLUTE_TRIAL_LEAD = minutes (60 * 49)"
definition STRIPE_METADATA_BUSINESS_ID :: string where "STRIPE_METADATA_BUSINESS_ID = ''spike_business_id''"
definition STRIPE_METADATA_SUBSCRIPTION_ID :: string where
  "STRIPE_METADATA_SUBSCRIPTION_ID = ''spike_subscription_id''"
definition STRIPE_METADATA_PLAN_CODE :: string where "STRIPE_METADATA_PLAN_CODE = ''spike_plan_code''"
definition STRIPE_METADATA_CHECKOUT_ID :: string where "STRIPE_METADATA_CHECKOUT_ID = ''spike_checkout_id''"
definition STRIPE_METADATA_ENVIRONMENT :: string where "STRIPE_METADATA_ENVIRONMENT = ''spike_environment''"

definition APP_SUBSCRIPTION_METADATA_KEYS :: "string list" where
  "APP_SUBSCRIPTION_METADATA_KEYS = [STRIPE_METADATA_BUSINESS_ID, STRIPE_METADATA_SUBSCRIPTION_ID,
     STRIPE_METADATA_PLAN_CODE, STRIPE_METADATA_CHECKOUT_ID, STRIPE_METADATA_ENVIRONMENT]"

lemmas metadata_key_defs = STRIPE_METADATA_BUSINESS_ID_def STRIPE_METADATA_SUBSCRIPTION_ID_def
  STRIPE_METADATA_PLAN_CODE_def STRIPE_METADATA_CHECKOUT_ID_def STRIPE_METADATA_ENVIRONMENT_def

definition configured_price_id :: "billing_settings \<Rightarrow> seeded_plan_code \<Rightarrow> string option" where
  "configured_price_id cfg code =
     (case code of PREMIUM \<Rightarrow> cfg_premium_price cfg | PRO \<Rightarrow> cfg_pro_price cfg | ENTERPRISE \<Rightarrow> None)"

definition configured_plan_code_for_price :: "billing_settings \<Rightarrow> string \<Rightarrow> seeded_plan_code option" where
  "configured_plan_code_for_price cfg price =
     find (\<lambda>code. configured_price_id cfg code = Some price) [PREMIUM, PRO]"

text \<open>\<open>str.upper\<close>: the two Latin-1 letters whose capital is beyond Latin-1 stay as they are, which keeps
  comparisons of capitals the same.\<close>

definition py_upper :: "string \<Rightarrow> string" where
  "py_upper s = concat (map (\<lambda>c. let n = (of_char c :: nat) in
     if (97 \<le> n \<and> n \<le> 122) \<or> (224 \<le> n \<and> n \<le> 254 \<and> n \<noteq> 247) then [char_of (n - 32)]
     else if n = 223 then ''SS'' else [c]) s)"

text \<open>\<open>value == 1\<close> holds for the integer, the float and \<open>True\<close>.\<close>

definition equals_one :: "json \<Rightarrow> bool" where
  "equals_one v \<longleftrightarrow> v = JInt 1 \<or> v = JBool True \<or> v = JFloat (Some ''1.0'')"

definition validate_checkout_price :: "stripe_object \<Rightarrow> string \<Rightarrow> plan \<Rightarrow> bool" where
  "validate_checkout_price remote expected_price_id p \<longleftrightarrow>
     get ''id'' remote = JStr expected_price_id
   \<and> get ''object'' remote = JStr ''price''
   \<and> get ''active'' remote = JBool True
   \<and> get ''type'' remote = JStr ''recurring''
   \<and> get ''billing_scheme'' remote = JStr ''per_unit''
   \<and> (case get ''currency'' remote of JStr c \<Rightarrow> py_upper c = py_upper (plan_currency p) | _ \<Rightarrow> False)
   \<and> (case get ''unit_amount'' remote of JInt n \<Rightarrow> monthly_price_cents p = Some n | _ \<Rightarrow> False)
   \<and> (case get ''recurring'' remote of
        JDict recurring \<Rightarrow> get ''interval'' recurring = JStr ''month''
          \<and> equals_one (get ''interval_count'' recurring) \<and> get ''usage_type'' recurring = JStr ''licensed''
      | _ \<Rightarrow> False)"

section \<open>The request to Stripe\<close>

text \<open>\<open>int(instant.timestamp())\<close> truncates towards zero.\<close>

definition unix_seconds :: "time \<Rightarrow> int" where
  "unix_seconds t = (if 0 \<le> t then t div microseconds_per_second else - (- t div microseconds_per_second))"

definition remaining_trial_end :: "subscription \<Rightarrow> time \<Rightarrow> int option" where
  "remaining_trial_end s now =
     (case trial_ends_at s of
        None \<Rightarrow> None
      | Some ends \<Rightarrow>
          if sub_status s \<noteq> TRIALING \<or> \<not> is_null (sub_stripe_subscription_id s)
             \<or> ends < now + STRIPE_MINIMUM_ABSOLUTE_TRIAL_LEAD
          then None else Some (unix_seconds ends))"

definition build_checkout_params ::
  "billing_settings \<Rightarrow> billing_checkout_session \<Rightarrow> subscription \<Rightarrow> seeded_plan_code \<Rightarrow> string \<Rightarrow> string
   \<Rightarrow> string option \<Rightarrow> time \<Rightarrow> stripe_object" where
  "build_checkout_params cfg c s code price_id customer_email customer now =
     (let metadata = JDict
            [(STRIPE_METADATA_BUSINESS_ID, JStr (uuid_str (co_business_id c))),
             (STRIPE_METADATA_SUBSCRIPTION_ID, JStr (uuid_str (co_subscription_id c))),
             (STRIPE_METADATA_PLAN_CODE, JStr (seeded_plan_code_value code)),
             (STRIPE_METADATA_CHECKOUT_ID, JStr (uuid_str (co_id c))),
             (STRIPE_METADATA_ENVIRONMENT, JStr (app_environment_value (cfg_app_env cfg)))];
          subscription_data = [(''metadata'', metadata)]
            @ (case remaining_trial_end s now of
                 None \<Rightarrow> []
               | Some trial_end \<Rightarrow>
                   [(''trial_end'', JInt trial_end),
                    (''trial_settings'', JDict [(''end_behavior'',
                       JDict [(''missing_payment_method'', JStr ''cancel'')])])])
      in [(''mode'', JStr ''subscription''),
          (''line_items'', JList [JDict [(''price'', JStr price_id), (''quantity'', JInt 1)]]),
          (''client_reference_id'', JStr (uuid_str (co_id c))),
          (''metadata'', metadata),
          (''subscription_data'', JDict subscription_data),
          (''payment_method_collection'', JStr ''always''),
          (''success_url'', JStr (cfg_success_url cfg)),
          (''cancel_url'', JStr (cfg_cancel_url cfg)),
          (''expires_at'', JInt (unix_seconds (now + minutes (cfg_checkout_session_minutes cfg))))]
         @ (case customer of
              Some k \<Rightarrow> [(''customer'', JStr k)]
            | None \<Rightarrow> [(''customer_email'', JStr customer_email)]))"

section \<open>CheckoutService\<close>

definition checkout_plan :: "billing_settings \<Rightarrow> seeded_plan_code \<Rightarrow> db \<Rightarrow> billing_error + plan" where
  "checkout_plan cfg code d =
     (case row_where (\<lambda>p. plan_code p = seeded_plan_code_value code \<and> plan_is_active p \<and> plan_is_public p)
             (plans d) of
        None \<Rightarrow> Inl BillingPlanNotFoundError
      | Some p \<Rightarrow>
          if is_custom_pricing p \<or> is_null (configured_price_id cfg code)
          then Inl BillingPlanNotCheckoutEligibleError else Inr p)"

definition lock_active_user :: "uuid \<Rightarrow> db \<Rightarrow> billing_error + user" where
  "lock_active_user i d =
     (case row_where (\<lambda>u. user_id u = i) (users d) of
        None \<Rightarrow> Inl BillingCheckoutConflictError
      | Some u \<Rightarrow>
          if \<not> user_is_active u \<or> \<not> is_verified u \<or> \<not> is_null (deleted_at u)
          then Inl BillingCheckoutConflictError else Inr u)"

definition stale_attempts :: "uuid \<Rightarrow> time \<Rightarrow> db \<Rightarrow> uuid list" where
  "stale_attempts b now d = map co_id (scope_select co_business_id b
     (\<lambda>c. checkout_is_open c \<and> (case co_expires_at c of None \<Rightarrow> False | Some t \<Rightarrow> t \<le> now))
     (checkout_sessions d))"

definition expire_attempts :: "uuid list \<Rightarrow> db \<Rightarrow> db" where
  "expire_attempts ids d = d\<lparr> checkout_sessions := update_where (\<lambda>c. co_id c \<in> set ids)
     (\<lambda>c. c\<lparr> co_status := CHECKOUT_EXPIRED \<rparr>) (checkout_sessions d) \<rparr>"

definition latest_customer_id :: "uuid \<Rightarrow> db \<Rightarrow> string option" where
  "latest_customer_id b d =
     (case scope_latest sub_business_id b sub_created_at (\<lambda>s. \<not> is_null (sub_stripe_customer_id s))
             (subscriptions d) of
        None \<Rightarrow> None
      | Some s \<Rightarrow> sub_stripe_customer_id s)"

definition current_paid_subscription :: "uuid \<Rightarrow> db \<Rightarrow> subscription option" where
  "current_paid_subscription b d =
     scope_latest sub_business_id b sub_created_at is_current (subscriptions d)"

definition attempt_of_key :: "uuid \<Rightarrow> string \<Rightarrow> db \<Rightarrow> billing_checkout_session option" where
  "attempt_of_key b digest d =
     scope_one co_business_id b (\<lambda>c. co_idempotency_key_digest c = digest) (checkout_sessions d)"

definition open_attempt :: "uuid \<Rightarrow> db \<Rightarrow> billing_checkout_session option" where
  "open_attempt b d =
     scope_latest co_business_id b co_created_at checkout_is_open (checkout_sessions d)"

definition paid_attempt :: "uuid \<Rightarrow> subscription \<Rightarrow> db \<Rightarrow> billing_checkout_session option" where
  "paid_attempt b s d = scope_one co_business_id b
     (\<lambda>c. co_subscription_id c = sub_id s \<and> co_status c = CHECKOUT_COMPLETE
        \<and> \<not> is_null (co_stripe_subscription_id c)) (checkout_sessions d)"

definition subscription_by_id :: "uuid \<Rightarrow> uuid \<Rightarrow> db \<Rightarrow> subscription option" where
  "subscription_by_id b i d = scope_one sub_business_id b (\<lambda>s. sub_id s = i) (subscriptions d)"

definition billing_tables_ok :: "db \<Rightarrow> bool" where
  "billing_tables_ok d \<longleftrightarrow> subscription_table_ok d \<and> subscription_entitlement_table_ok d
     \<and> checkout_table_ok d \<and> invoice_table_ok d \<and> webhook_event_table_ok d"

text \<open>Fresh row ids and instants of a checkout; \<open>ck_now\<close> is read before the rows.\<close>

record checkout_context =
  ck_now :: time
  ck_subscription_id :: uuid
  ck_checkout_id :: uuid
  ck_created :: time
  ck_rejected_now :: time

definition incomplete_subscription :: "checkout_context \<Rightarrow> uuid \<Rightarrow> subscription" where
  "incomplete_subscription ctx b = \<lparr> sub_id = ck_subscription_id ctx, sub_business_id = b,
     sub_created_at = ck_created ctx, sub_plan_id = None, sub_status = INCOMPLETE,
     trial_started_at = None, trial_ends_at = None, current_period_started_at = None,
     current_period_ends_at = None, cancel_at_period_end = False, canceled_at = None, ended_at = None,
     sub_stripe_customer_id = None, sub_stripe_subscription_id = None, stripe_price_id = None,
     sub_last_stripe_event_created_at = None, sub_last_stripe_event_id = None,
     last_stripe_synced_at = None \<rparr>"

definition pending_checkout ::
  "billing_settings \<Rightarrow> checkout_context \<Rightarrow> uuid \<Rightarrow> subscription \<Rightarrow> plan \<Rightarrow> string \<Rightarrow> billing_checkout_session" where
  "pending_checkout cfg ctx b s p digest = \<lparr> co_id = ck_checkout_id ctx, co_business_id = b,
     co_created_at = ck_created ctx, co_subscription_id = sub_id s, co_plan_id = plan_id p,
     co_status = CHECKOUT_PENDING, co_idempotency_key_digest = digest,
     stripe_checkout_session_id = None, checkout_url = None,
     co_expires_at = Some (ck_now ctx + minutes (cfg_checkout_session_minutes cfg)),
     co_completed_at = None, co_stripe_customer_id = None, co_stripe_subscription_id = None \<rparr>"

type_synonym prepared_attempt = "billing_checkout_session \<times> subscription \<times> string option"

text \<open>After a failed commit the transaction is gone and the queries see what others committed.\<close>

definition duplicate_attempt ::
  "uuid \<Rightarrow> plan \<Rightarrow> string \<Rightarrow> db \<Rightarrow> (billing_error + prepared_attempt) \<times> db" where
  "duplicate_attempt b p digest d =
     (case attempt_of_key b digest d of
        Some c \<Rightarrow>
          if co_plan_id c = plan_id p
          then (case subscription_by_id b (co_subscription_id c) d of
                  None \<Rightarrow> (Inl BillingCheckoutConflictError, d)
                | Some s \<Rightarrow> (Inr (c, s, latest_customer_id b d), d))
          else (case open_attempt b d of
                  Some c' \<Rightarrow> (Inl (BillingCheckoutInProgressError c'), d)
                | None \<Rightarrow> (Inl BillingIntegrityError, d))
      | None \<Rightarrow>
          (case open_attempt b d of
             Some c' \<Rightarrow> (Inl (BillingCheckoutInProgressError c'), d)
           | None \<Rightarrow> (Inl BillingIntegrityError, d)))"

text \<open>\<open>env\<close> is what other transactions commit before the new rows are flushed.\<close>

definition insert_attempt ::
  "billing_settings \<Rightarrow> checkout_context \<Rightarrow> (db \<Rightarrow> db) \<Rightarrow> uuid \<Rightarrow> plan \<Rightarrow> string \<Rightarrow> subscription option
   \<Rightarrow> db \<Rightarrow> (billing_error + prepared_attempt) \<times> db" where
  "insert_attempt cfg ctx env b p digest current d =
     (let stale = stale_attempts b (ck_now ctx) d;
          d1 = expire_attempts stale (env d);
          s = (case current of Some s \<Rightarrow> s | None \<Rightarrow> incomplete_subscription ctx b);
          d2 = (case current of Some _ \<Rightarrow> d1
                | None \<Rightarrow> d1\<lparr> subscriptions := insert_row s (subscriptions d1) \<rparr>)
      in if \<not> subscription_table_ok d2 then (Inl BillingIntegrityError, env d)
         else
           let c = pending_checkout cfg ctx b s p digest;
               d3 = d2\<lparr> checkout_sessions := insert_row c (checkout_sessions d2) \<rparr>
           in if checkout_table_ok d3 then (Inr (c, s, latest_customer_id b d2), d3)
              else duplicate_attempt b p digest (env d))"

definition prepare_attempt ::
  "billing_settings \<Rightarrow> checkout_context \<Rightarrow> (db \<Rightarrow> db) \<Rightarrow> uuid \<Rightarrow> plan \<Rightarrow> string \<Rightarrow> db
   \<Rightarrow> (billing_error + prepared_attempt) \<times> db" where
  "prepare_attempt cfg ctx env b p digest d =
     (let d0 = expire_attempts (stale_attempts b (ck_now ctx) d) d
      in case attempt_of_key b digest d0 of
           Some existing \<Rightarrow>
             if co_plan_id existing \<noteq> plan_id p then (Inl BillingCheckoutConflictError, d)
             else (case subscription_by_id b (co_subscription_id existing) d0 of
                 None \<Rightarrow> (Inl BillingCheckoutConflictError, d)
               | Some s \<Rightarrow> settle checkout_table_ok BillingIntegrityError
                   (Inr (existing, s, latest_customer_id b d0)) d0 d)
         | None \<Rightarrow>
             (case open_attempt b d0 of
                Some c \<Rightarrow> (Inl (BillingCheckoutInProgressError c), d)
              | None \<Rightarrow>
                  (case current_paid_subscription b d0 of
                     None \<Rightarrow> insert_attempt cfg ctx env b p digest None d
                   | Some s \<Rightarrow>
                       if \<not> is_null (sub_stripe_subscription_id s) then (Inl BillingCheckoutConflictError, d)
                       else if \<not> is_null (paid_attempt b s d0) then (Inl BillingCheckoutConflictError, d)
                       else insert_attempt cfg ctx env b p digest (Some s) d)))"

text \<open>
  The session holds the object of the prepared row, and a later select of the same row, even with
  \<open>FOR UPDATE\<close>, returns that object with the columns it has: the sessions do not expire objects at a
  commit and the query does not ask to populate them anew.  A flush writes the columns that changed
  on the object.
\<close>

definition flush_checkout ::
  "billing_checkout_session \<Rightarrow> billing_checkout_session \<Rightarrow> db \<Rightarrow> db" where
  "flush_checkout loaded c d = d\<lparr> checkout_sessions := update_where (\<lambda>x. co_id x = co_id loaded)
     (\<lambda>x. x\<lparr> co_status := (if co_status c \<noteq> co_status loaded then co_status c else co_status x),
             stripe_checkout_session_id :=
               (if stripe_checkout_session_id c \<noteq> stripe_checkout_session_id loaded
                then stripe_checkout_session_id c else stripe_checkout_session_id x),
             checkout_url := (if checkout_url c \<noteq> checkout_url loaded then checkout_url c else checkout_url x),
             co_expires_at := (if co_expires_at c \<noteq> co_expires_at loaded then co_expires_at c
                               else co_expires_at x) \<rparr>)
     (checkout_sessions d) \<rparr>"

definition rejected_attempt :: "time \<Rightarrow> billing_checkout_session \<Rightarrow> billing_checkout_session" where
  "rejected_attempt now c =
     (if co_status c = CHECKOUT_PENDING \<and> is_null (stripe_checkout_session_id c) \<and> is_null (checkout_url c)
      then c\<lparr> co_status := CHECKOUT_EXPIRED, co_expires_at := Some now \<rparr> else c)"

definition expire_rejected_attempt ::
  "uuid \<Rightarrow> billing_checkout_session \<Rightarrow> time \<Rightarrow> db \<Rightarrow> (billing_error + unit) \<times> db" where
  "expire_rejected_attempt b c now d =
     (case scope_one co_business_id b (\<lambda>x. co_id x = co_id c) (checkout_sessions d) of
        None \<Rightarrow> (Inl BillingNoResultFound, d)
      | Some _ \<Rightarrow> settle checkout_table_ok BillingIntegrityError (Inr ())
          (flush_checkout c (rejected_attempt now c) d) d)"

text \<open>What the code reads from the answer of Stripe.  \<open>value not in {None, "subscription"}\<close> raises for a
  value that has no hash.\<close>

definition checkout_answer ::
  "(string \<Rightarrow> time option) \<Rightarrow> stripe_object \<Rightarrow> billing_error + string \<times> string \<times> time" where
  "checkout_answer fl remote =
     and_then (required_string ''id'' remote) (\<lambda>remote_id.
     and_then (required_string ''url'' remote) (\<lambda>url.
     and_then (stripe_datetime fl (get ''expires_at'' remote)) (\<lambda>expires_at.
       case expires_at of
         None \<Rightarrow> Inl StripeGatewayError
       | Some t \<Rightarrow>
         (case get ''mode'' remote of
            JNull \<Rightarrow> Inr (remote_id, url, t)
          | JStr m \<Rightarrow> if m = ''subscription'' then Inr (remote_id, url, t) else Inl StripeGatewayError
          | JList _ \<Rightarrow> Inl BillingTypeError
          | JDict _ \<Rightarrow> Inl BillingTypeError
          | _ \<Rightarrow> Inl StripeGatewayError))))"

definition opened_attempt ::
  "string \<Rightarrow> string \<Rightarrow> time \<Rightarrow> billing_checkout_session \<Rightarrow> billing_checkout_session" where
  "opened_attempt remote_id url expires_at c =
     c\<lparr> stripe_checkout_session_id := Some remote_id, checkout_url := Some url,
        co_expires_at := Some expires_at,
        co_status := (if co_status c = CHECKOUT_PENDING then CHECKOUT_OPEN else co_status c) \<rparr>"

definition record_answer ::
  "(string \<Rightarrow> time option) \<Rightarrow> uuid \<Rightarrow> billing_checkout_session \<Rightarrow> stripe_object \<Rightarrow> db
   \<Rightarrow> (billing_error + billing_checkout_session) \<times> db" where
  "record_answer fl b c remote d =
     (case checkout_answer fl remote of
        Inl e \<Rightarrow> (Inl e, d)
      | Inr (remote_id, url, expires_at) \<Rightarrow>
          (case scope_one co_business_id b (\<lambda>x. co_id x = co_id c) (checkout_sessions d) of
             None \<Rightarrow> (Inl BillingNoResultFound, d)
           | Some _ \<Rightarrow>
               let c' = opened_attempt remote_id url expires_at c
               in settle checkout_table_ok BillingIntegrityError (Inr c') (flush_checkout c c' d) d))"

text \<open>\<open>create\<close>: \<open>env\<close> acts before the flush of a new attempt and \<open>answered\<close> while Stripe is asked.\<close>

definition create_checkout ::
  "billing_settings \<Rightarrow> (string \<Rightarrow> time option) \<Rightarrow> (string \<Rightarrow> string) \<Rightarrow> stripe_gateway \<Rightarrow> checkout_context
   \<Rightarrow> (db \<Rightarrow> db) \<Rightarrow> (db \<Rightarrow> db) \<Rightarrow> uuid \<Rightarrow> uuid \<Rightarrow> seeded_plan_code \<Rightarrow> string \<Rightarrow> db
   \<Rightarrow> (billing_error + billing_checkout_session) \<times> db" where
  "create_checkout cfg fl sha gw ctx env answered b u code key d =
     (if \<not> cfg_stripe_enabled cfg then (Inl BillingNotConfiguredError, d)
      else case checkout_plan cfg code d of
        Inl e \<Rightarrow> (Inl e, d)
      | Inr p \<Rightarrow>
        (case configured_price_id cfg code of
           None \<Rightarrow> (Inl BillingPlanNotCheckoutEligibleError, d)
         | Some price_id \<Rightarrow>
           (case gw_retrieve_price gw price_id of
              Inl e \<Rightarrow> (Inl e, d)
            | Inr remote_price \<Rightarrow>
                if \<not> validate_checkout_price remote_price price_id p
                then (Inl BillingPriceConfigurationError, d)
                else case lock_active_user u d of
                  Inl e \<Rightarrow> (Inl e, d)
                | Inr owner \<Rightarrow>
                  (case prepare_attempt cfg ctx env b p (sha key) d of
                     (Inl e, d') \<Rightarrow> (Inl e, d')
                   | (Inr (c, s, customer), d') \<Rightarrow>
                       if co_status c \<noteq> CHECKOUT_PENDING then (Inr c, d')
                       else case gw_create_checkout_session gw
                           (build_checkout_params cfg c s code price_id (email owner) customer (ck_now ctx))
                           (''spike_checkout_'' @ uuid_str (co_id c)) of
                         Inl e \<Rightarrow>
                           if e = StripeCheckoutRejectedError
                           then (case expire_rejected_attempt b c (ck_rejected_now ctx) (answered d') of
                               (Inl e', d'') \<Rightarrow> (Inl e', d'')
                             | (Inr _, d'') \<Rightarrow> (Inl e, d''))
                           else (Inl e, answered d')
                       | Inr remote \<Rightarrow> record_answer fl b c remote (answered d')))))"

end
