(* ===== verification/Billing_Sync.thy ===== *)
theory Billing_Sync
  imports Billing_Checkout Account_Security
begin

text \<open>
  \<open>SubscriptionSynchronizer\<close>, \<open>BillingHistoryService\<close> and \<open>SubscriptionLifecycleService\<close> of \<open>app/services/billing.py\<close>.
\<close>

section \<open>SubscriptionSynchronizer\<close>

text \<open>The event that a synchronization belongs to, and the clock.\<close>

record sync_context =
  sy_event_id :: "string option"
  sy_event_created_at :: "time option"
  sy_synced :: time
  sy_completed :: time

definition plan_for_price :: "billing_settings \<Rightarrow> string \<Rightarrow> db \<Rightarrow> billing_error + plan \<times> seeded_plan_code" where
  "plan_for_price cfg price d =
     (case configured_plan_code_for_price cfg price of
        None \<Rightarrow> Inl StripeWebhookDataError
      | Some code \<Rightarrow>
        (case row_where (\<lambda>p. plan_code p = seeded_plan_code_value code) (plans d) of
           None \<Rightarrow> Inl StripeWebhookDataError
         | Some p \<Rightarrow> Inr (p, code)))"

definition validate_existing_metadata ::
  "billing_settings \<Rightarrow> subscription \<Rightarrow> (string \<times> string) list \<Rightarrow> billing_error + unit" where
  "validate_existing_metadata cfg s m =
     and_then
       (case map_of m STRIPE_METADATA_BUSINESS_ID of
          None \<Rightarrow> Inr ()
        | Some v \<Rightarrow>
          (case parse_uuid v of
             None \<Rightarrow> Inl StripeWebhookDataError
           | Some b \<Rightarrow> if b \<noteq> sub_business_id s then Inl StripeWebhookDataError else Inr ()))
       (\<lambda>_. case map_of m STRIPE_METADATA_ENVIRONMENT of
          None \<Rightarrow> Inr ()
        | Some e \<Rightarrow> if e \<noteq> app_environment_value (cfg_app_env cfg) then Inl StripeWebhookEnvironmentError
                    else Inr ())"

definition mark_event :: "sync_context \<Rightarrow> subscription \<Rightarrow> subscription" where
  "mark_event ctx s =
     (case (sy_event_id ctx, sy_event_created_at ctx) of
        (Some i, Some t) \<Rightarrow>
          if (case sub_last_stripe_event_created_at s of None \<Rightarrow> True | Some t' \<Rightarrow> t' \<le> t)
          then s\<lparr> sub_last_stripe_event_id := Some i, sub_last_stripe_event_created_at := Some t \<rparr> else s
      | _ \<Rightarrow> s)"

definition delete_trial_entitlements :: "subscription \<Rightarrow> db \<Rightarrow> db" where
  "delete_trial_entitlements s d = d\<lparr> subscription_entitlements :=
     filter (\<lambda>e. \<not> (se_subscription_id e = sub_id s \<and> se_business_id e = sub_business_id s
               \<and> se_source e = SRC_TRIAL)) (subscription_entitlements d) \<rparr>"

definition closed_subscription ::
  "(string \<Rightarrow> time option) \<Rightarrow> sync_context \<Rightarrow> string \<Rightarrow> string \<Rightarrow> string \<Rightarrow> stripe_object \<Rightarrow> subscription
   \<Rightarrow> billing_error + subscription" where
  "closed_subscription fl ctx stripe_id customer price snapshot s =
     and_then (stripe_datetime fl (get ''canceled_at'' snapshot)) (\<lambda>canceled.
     and_then (stripe_datetime fl (get ''ended_at'' snapshot)) (\<lambda>ended.
       Inr (mark_event ctx (s\<lparr> sub_plan_id := None, sub_status := INCOMPLETE,
         sub_stripe_customer_id := Some customer, sub_stripe_subscription_id := Some stripe_id,
         stripe_price_id := Some price, trial_ends_at := None, current_period_started_at := None,
         current_period_ends_at := None,
         cancel_at_period_end := truthy (get_default ''cancel_at_period_end'' (JBool False) snapshot),
         canceled_at := canceled, ended_at := ended, last_stripe_synced_at := Some (sy_synced ctx) \<rparr>))))"

definition fail_closed ::
  "(string \<Rightarrow> time option) \<Rightarrow> sync_context \<Rightarrow> string \<Rightarrow> string \<Rightarrow> string \<Rightarrow> stripe_object \<Rightarrow> subscription
   \<Rightarrow> db \<Rightarrow> billing_error + subscription option \<times> db" where
  "fail_closed fl ctx stripe_id customer price snapshot s d =
     and_then (closed_subscription fl ctx stripe_id customer price snapshot s) (\<lambda>s'.
       Inr (Some s', delete_trial_entitlements s' (save_subscription s' d)))"

definition checkout_by_id :: "uuid \<Rightarrow> uuid \<Rightarrow> db \<Rightarrow> billing_checkout_session option" where
  "checkout_by_id b i d = scope_one co_business_id b (\<lambda>c. co_id c = i) (checkout_sessions d)"

definition has_key :: "(string \<times> string) list \<Rightarrow> string \<Rightarrow> bool" where
  "has_key m k = (\<not> is_null (map_of m k))"

definition find_local_subscription ::
  "billing_settings \<Rightarrow> subscription option \<Rightarrow> (string \<times> string) list \<Rightarrow> plan \<Rightarrow> seeded_plan_code \<Rightarrow> db
   \<Rightarrow> billing_error + subscription option" where
  "find_local_subscription cfg existing m p code d =
     (case existing of
        Some s \<Rightarrow>
          and_then (validate_existing_metadata cfg s m) (\<lambda>_.
            case map_of m STRIPE_METADATA_PLAN_CODE of
              None \<Rightarrow> Inr (Some s)
            | Some c \<Rightarrow> if c \<noteq> seeded_plan_code_value code then Inl StripeWebhookDataError else Inr (Some s))
      | None \<Rightarrow>
          if \<not> list_ex (has_key m) APP_SUBSCRIPTION_METADATA_KEYS then Inr None
          else if \<not> list_all (has_key m) APP_SUBSCRIPTION_METADATA_KEYS then Inl StripeWebhookDataError
          else if map_of m STRIPE_METADATA_ENVIRONMENT \<noteq> Some (app_environment_value (cfg_app_env cfg))
          then Inl StripeWebhookEnvironmentError
          else if map_of m STRIPE_METADATA_PLAN_CODE \<noteq> Some (seeded_plan_code_value code)
          then Inl StripeWebhookDataError
          else
            and_then (metadata_uuid m STRIPE_METADATA_BUSINESS_ID) (\<lambda>b.
            and_then (metadata_uuid m STRIPE_METADATA_SUBSCRIPTION_ID) (\<lambda>i.
            and_then (metadata_uuid m STRIPE_METADATA_CHECKOUT_ID) (\<lambda>k.
              case (subscription_by_id b i d, checkout_by_id b k d) of
                (Some s, Some c) \<Rightarrow>
                  if co_subscription_id c \<noteq> sub_id s \<or> co_plan_id c \<noteq> plan_id p
                  then Inl StripeWebhookDataError else Inr (Some s)
              | _ \<Rightarrow> Inl StripeWebhookDataError))))"

definition parse_subscription_status :: "string \<Rightarrow> subscription_status option" where
  "parse_subscription_status v = find (\<lambda>st. subscription_status_value st = v)
     [TRIALING, ACTIVE, PAST_DUE, UNPAID, PAUSED, INCOMPLETE, INCOMPLETE_EXPIRED, CANCELED]"

definition mirrored_subscription ::
  "(string \<Rightarrow> time option) \<Rightarrow> sync_context \<Rightarrow> plan \<Rightarrow> subscription_status \<Rightarrow> string \<Rightarrow> string \<Rightarrow> string
   \<Rightarrow> time option \<Rightarrow> time option \<Rightarrow> stripe_object \<Rightarrow> subscription \<Rightarrow> billing_error + subscription" where
  "mirrored_subscription fl ctx p status stripe_id customer price started ends snapshot s =
     and_then (stripe_datetime fl (get ''trial_start'' snapshot)) (\<lambda>trial_start.
     and_then (stripe_datetime fl (get ''trial_end'' snapshot)) (\<lambda>trial_end.
     and_then (stripe_datetime fl (get ''canceled_at'' snapshot)) (\<lambda>canceled.
     and_then (stripe_datetime fl (get ''ended_at'' snapshot)) (\<lambda>ended.
       Inr (mark_event ctx (s\<lparr> sub_plan_id := Some (plan_id p), sub_status := status,
         sub_stripe_customer_id := Some customer, sub_stripe_subscription_id := Some stripe_id,
         stripe_price_id := Some price,
         trial_started_at := (case trial_start of
             None \<Rightarrow> trial_started_at s
           | Some t \<Rightarrow> (case trial_started_at s of
                 None \<Rightarrow> Some t
               | Some t' \<Rightarrow> if t < t' then Some t else Some t')),
         trial_ends_at := trial_end, current_period_started_at := started, current_period_ends_at := ends,
         cancel_at_period_end := truthy (get_default ''cancel_at_period_end'' (JBool False) snapshot),
         canceled_at := canceled, ended_at := ended, last_stripe_synced_at := Some (sy_synced ctx) \<rparr>))))))"

definition completed_checkout ::
  "time \<Rightarrow> string \<Rightarrow> string \<Rightarrow> billing_checkout_session \<Rightarrow> billing_checkout_session" where
  "completed_checkout now customer stripe_id c =
     c\<lparr> co_status := CHECKOUT_COMPLETE,
        co_completed_at := (case co_completed_at c of None \<Rightarrow> Some now | Some t \<Rightarrow> Some t),
        co_stripe_customer_id := Some customer, co_stripe_subscription_id := Some stripe_id \<rparr>"

definition save_checkout :: "billing_checkout_session \<Rightarrow> db \<Rightarrow> db" where
  "save_checkout c d = d\<lparr> checkout_sessions :=
     update_where (\<lambda>x. co_id x = co_id c) (\<lambda>_. c) (checkout_sessions d) \<rparr>"

definition sync_checkout ::
  "sync_context \<Rightarrow> (string \<times> string) list \<Rightarrow> subscription \<Rightarrow> string \<Rightarrow> string \<Rightarrow> db \<Rightarrow> billing_error + db" where
  "sync_checkout ctx m s customer stripe_id d =
     (case map_of m STRIPE_METADATA_CHECKOUT_ID of
        None \<Rightarrow> Inr d
      | Some _ \<Rightarrow>
          and_then (metadata_uuid m STRIPE_METADATA_CHECKOUT_ID) (\<lambda>k.
            case checkout_by_id (sub_business_id s) k d of
              None \<Rightarrow> Inl StripeWebhookDataError
            | Some c \<Rightarrow>
                if co_subscription_id c \<noteq> sub_id s then Inl StripeWebhookDataError
                else Inr (save_checkout (completed_checkout (sy_completed ctx) customer stripe_id c) d)))"

definition mirror_subscription ::
  "(string \<Rightarrow> time option) \<Rightarrow> sync_context \<Rightarrow> plan \<Rightarrow> subscription_status \<Rightarrow> string \<Rightarrow> string \<Rightarrow> string
   \<Rightarrow> time option \<Rightarrow> time option \<Rightarrow> (string \<times> string) list \<Rightarrow> stripe_object \<Rightarrow> subscription \<Rightarrow> db
   \<Rightarrow> billing_error + subscription option \<times> db" where
  "mirror_subscription fl ctx p status stripe_id customer price started ends m snapshot s d =
     and_then (mirrored_subscription fl ctx p status stripe_id customer price started ends snapshot s) (\<lambda>s'.
     and_then (sync_checkout ctx m s' customer stripe_id (save_subscription s' d)) (\<lambda>d'.
       Inr (Some s', if status \<noteq> TRIALING then delete_trial_entitlements s' d' else d')))"

text \<open>The part of \<open>sync\<close> for a configured price.\<close>

definition sync_configured_price ::
  "billing_settings \<Rightarrow> (string \<Rightarrow> time option) \<Rightarrow> sync_context \<Rightarrow> subscription option \<Rightarrow> (string \<times> string) list
   \<Rightarrow> string \<Rightarrow> string \<Rightarrow> string \<Rightarrow> time option \<Rightarrow> time option \<Rightarrow> stripe_object \<Rightarrow> db
   \<Rightarrow> billing_error + subscription option \<times> db" where
  "sync_configured_price cfg fl ctx existing m stripe_id customer price started ends snapshot d =
     and_then (plan_for_price cfg price d) (\<lambda>(p, code).
     and_then (find_local_subscription cfg existing m p code d) (\<lambda>found.
     case found of None \<Rightarrow> Inr (None, d) | Some s \<Rightarrow>
     if \<not> null_or (\<lambda>k. k = customer) (sub_stripe_customer_id s) then Inl StripeWebhookDataError
     else if \<not> null_or (\<lambda>k. k = stripe_id) (sub_stripe_subscription_id s) then Inl StripeWebhookDataError
     else
       and_then (required_string ''status'' snapshot) (\<lambda>v.
       case parse_subscription_status v of
         None \<Rightarrow> (case existing of
             Some s' \<Rightarrow> fail_closed fl ctx stripe_id customer price snapshot s' d
           | None \<Rightarrow> Inl StripeWebhookDataError)
       | Some status \<Rightarrow>
           mirror_subscription fl ctx p status stripe_id customer price started ends m snapshot s d)))"

definition sync_subscription ::
  "billing_settings \<Rightarrow> (string \<Rightarrow> time option) \<Rightarrow> sync_context \<Rightarrow> stripe_object \<Rightarrow> db
   \<Rightarrow> billing_error + subscription option \<times> db" where
  "sync_subscription cfg fl ctx snapshot d =
     and_then (required_string ''id'' snapshot) (\<lambda>stripe_id.
     and_then (optional_string (get ''customer'' snapshot)) (\<lambda>customer'.
     case customer' of None \<Rightarrow> Inl StripeWebhookDataError | Some customer \<Rightarrow>
     and_then (metadata_of snapshot) (\<lambda>m.
     let existing = row_where (\<lambda>s. sub_stripe_subscription_id s = Some stripe_id) (subscriptions d)
     in if is_null existing \<and> \<not> list_ex (has_key m) APP_SUBSCRIPTION_METADATA_KEYS then Inr (None, d)
     else
       and_then (subscription_item_details fl snapshot) (\<lambda>(price, started, ends).
       and_then (case existing of None \<Rightarrow> Inr () | Some s \<Rightarrow> validate_existing_metadata cfg s m) (\<lambda>_.
       if is_null (configured_plan_code_for_price cfg price)
       then (case existing of
               None \<Rightarrow> Inl StripeWebhookDataError
             | Some s \<Rightarrow> fail_closed fl ctx stripe_id customer price snapshot s d)
       else sync_configured_price cfg fl ctx existing m stripe_id customer price started ends snapshot d)))))"

section \<open>BillingHistoryService and SubscriptionLifecycleService\<close>

text \<open>Rows are read with \<open>ORDER BY stripe_created_at DESC, id DESC\<close>.\<close>

definition billing_history :: "uuid \<Rightarrow> nat \<Rightarrow> nat \<Rightarrow> db \<Rightarrow> billing_invoice list \<times> nat" where
  "billing_history b limit offset d =
     (let rows = scope_select inv_business_id b (\<lambda>_. True) (invoices d)
      in (take limit (drop offset (sort_key (\<lambda>i. (- inv_stripe_created_at i, - int (inv_id i))) rows)),
          length rows))"

definition set_cancel_at_period_end ::
  "billing_settings \<Rightarrow> (string \<Rightarrow> time option) \<Rightarrow> stripe_gateway \<Rightarrow> sync_context \<Rightarrow> uuid \<Rightarrow> uuid \<Rightarrow> bool \<Rightarrow> db
   \<Rightarrow> (billing_error + subscription) \<times> db" where
  "set_cancel_at_period_end cfg fl gw ctx update_id b cancel d =
     (if \<not> cfg_stripe_enabled cfg then (Inl BillingNotConfiguredError, d)
      else case current_paid_subscription b d of
        None \<Rightarrow> (Inl StripeSubscriptionRequiredError, d)
      | Some s \<Rightarrow>
        (case sub_stripe_subscription_id s of
           None \<Rightarrow> (Inl StripeSubscriptionRequiredError, d)
         | Some stripe_id \<Rightarrow>
             if cancel_at_period_end s = cancel then (Inr s, d)
             else case gw_update_subscription gw stripe_id cancel
                 (''spike_subscription_update_'' @ uuid_str update_id) of
               Inl e \<Rightarrow> (Inl e, d)
             | Inr snapshot \<Rightarrow>
               (case sync_subscription cfg fl
                   (ctx\<lparr> sy_event_id := None, sy_event_created_at := None \<rparr>) snapshot d of
                  Inl e \<Rightarrow> (Inl e, d)
                | Inr (None, _) \<Rightarrow> (Inl StripeWebhookDataError, d)
                | Inr (Some s', d') \<Rightarrow>
                    if sub_id s' \<noteq> sub_id s then (Inl StripeWebhookDataError, d)
                    else settle billing_tables_ok BillingIntegrityError (Inr s') d' d)))"

end
