(* ===== verification/Billing_Webhook.thy ===== *)
theory Billing_Webhook
  imports Billing_Sync
begin

text \<open>
  \<open>StripeWebhookService\<close> of \<open>app/services/billing.py\<close>: the claim of an event, its dispatch, the completion of a
  Checkout session and the invoice mirror.  An error rolls back to the database before the request; what
  \<open>env\<close> commits besides is only followed where the request succeeds.
\<close>

section \<open>StripeWebhookService\<close>

definition SUBSCRIPTION_EVENTS :: "string list" where
  "SUBSCRIPTION_EVENTS = [''customer.subscription.created'', ''customer.subscription.updated'',
     ''customer.subscription.deleted'', ''customer.subscription.paused'', ''customer.subscription.resumed'']"

definition CHECKOUT_COMPLETE_EVENTS :: "string list" where
  "CHECKOUT_COMPLETE_EVENTS = [''checkout.session.completed'', ''checkout.session.async_payment_succeeded'']"

definition INVOICE_EVENTS :: "string list" where
  "INVOICE_EVENTS = [''invoice.created'', ''invoice.updated'', ''invoice.finalized'', ''invoice.paid'',
     ''invoice.payment_failed'', ''invoice.payment_action_required'', ''invoice.voided'',
     ''invoice.marked_uncollectible'']"

primrec INVOICE_STATUS_RANK :: "invoice_status \<Rightarrow> nat" where
  "INVOICE_STATUS_RANK INVOICE_DRAFT = 0"
| "INVOICE_STATUS_RANK INVOICE_OPEN = 1"
| "INVOICE_STATUS_RANK INVOICE_PAID = 2"
| "INVOICE_STATUS_RANK INVOICE_UNCOLLECTIBLE = 2"
| "INVOICE_STATUS_RANK INVOICE_VOID = 2"

primrec invoice_status_value :: "invoice_status \<Rightarrow> string" where
  "invoice_status_value INVOICE_DRAFT = ''draft''"
| "invoice_status_value INVOICE_OPEN = ''open''"
| "invoice_status_value INVOICE_PAID = ''paid''"
| "invoice_status_value INVOICE_UNCOLLECTIBLE = ''uncollectible''"
| "invoice_status_value INVOICE_VOID = ''void''"

definition parse_invoice_status :: "string \<Rightarrow> invoice_status option" where
  "parse_invoice_status v = find (\<lambda>st. invoice_status_value st = v)
     [INVOICE_DRAFT, INVOICE_OPEN, INVOICE_PAID, INVOICE_UNCOLLECTIBLE, INVOICE_VOID]"

text \<open>Fresh ids and instants of one delivery.\<close>

record webhook_context =
  wh_row_id :: uuid
  wh_claimed :: time
  wh_invoice_id :: uuid
  wh_synced :: time
  wh_completed :: time
  wh_processed :: time

definition complete_checkout ::
  "billing_settings \<Rightarrow> time \<Rightarrow> stripe_object \<Rightarrow> bool \<Rightarrow> db \<Rightarrow> billing_error + webhook_result \<times> db" where
  "complete_checkout cfg now snapshot expired d =
     and_then (metadata_of snapshot) (\<lambda>m.
     if \<not> has_key m STRIPE_METADATA_CHECKOUT_ID then Inr (WEBHOOK_IGNORED, d)
     else if map_of m STRIPE_METADATA_ENVIRONMENT \<noteq> Some (app_environment_value (cfg_app_env cfg))
     then Inl StripeWebhookEnvironmentError
     else
       and_then (metadata_uuid m STRIPE_METADATA_CHECKOUT_ID) (\<lambda>k.
       and_then (metadata_uuid m STRIPE_METADATA_BUSINESS_ID) (\<lambda>b.
       and_then (metadata_uuid m STRIPE_METADATA_SUBSCRIPTION_ID) (\<lambda>i.
       case checkout_by_id b k d of None \<Rightarrow> Inl StripeWebhookDataError | Some c \<Rightarrow>
       if co_subscription_id c \<noteq> i \<or> \<not> has_key m STRIPE_METADATA_PLAN_CODE then Inl StripeWebhookDataError
       else
         and_then (required_string ''id'' snapshot) (\<lambda>stripe_session.
         if \<not> null_or (\<lambda>x. x = stripe_session) (stripe_checkout_session_id c) then Inl StripeWebhookDataError
         else
           let c' = c\<lparr> stripe_checkout_session_id := Some stripe_session \<rparr>
           in if expired
              then Inr (WEBHOOK_PROCESSED, save_checkout
                     (if co_status c' \<noteq> CHECKOUT_COMPLETE then c'\<lparr> co_status := CHECKOUT_EXPIRED \<rparr> else c') d)
              else
                and_then (optional_string (get ''customer'' snapshot)) (\<lambda>customer.
                and_then (optional_string (get ''subscription'' snapshot)) (\<lambda>subscription.
                  case (customer, subscription) of
                    (Some x, Some y) \<Rightarrow>
                      Inr (WEBHOOK_PROCESSED, save_checkout (completed_checkout now x y c') d)
                  | _ \<Rightarrow> Inl StripeWebhookDataError)))))))"

text \<open>The values of a mirrored invoice, besides its own id and the Stripe invoice id.\<close>

record invoice_values =
  iv_subscription_id :: uuid
  iv_business_id :: uuid
  iv_customer :: string
  iv_number :: "string option"
  iv_status :: invoice_status
  iv_currency :: string
  iv_subtotal :: int
  iv_total :: int
  iv_amount_due :: int
  iv_amount_paid :: int
  iv_amount_remaining :: int
  iv_created :: time
  iv_period_start :: "time option"
  iv_period_end :: "time option"
  iv_paid_at :: "time option"
  iv_hosted_url :: "string option"
  iv_pdf_url :: "string option"
  iv_event_created_at :: time
  iv_event_id :: string

definition write_values :: "invoice_values \<Rightarrow> billing_invoice \<Rightarrow> billing_invoice" where
  "write_values v i = i\<lparr> inv_subscription_id := iv_subscription_id v, inv_business_id := iv_business_id v,
     inv_stripe_customer_id := iv_customer v, invoice_number := iv_number v, inv_status := iv_status v,
     inv_currency := iv_currency v, subtotal_cents := iv_subtotal v, total_cents := iv_total v,
     amount_due_cents := iv_amount_due v, amount_paid_cents := iv_amount_paid v,
     amount_remaining_cents := iv_amount_remaining v, inv_stripe_created_at := iv_created v,
     period_started_at := iv_period_start v, period_ends_at := iv_period_end v, paid_at := iv_paid_at v,
     hosted_invoice_url := iv_hosted_url v, invoice_pdf_url := iv_pdf_url v,
     inv_last_stripe_event_created_at := iv_event_created_at v, inv_last_stripe_event_id := iv_event_id v \<rparr>"

definition invoice_row :: "uuid \<Rightarrow> string \<Rightarrow> invoice_values \<Rightarrow> billing_invoice" where
  "invoice_row i stripe_id v = \<lparr> inv_id = i, inv_business_id = iv_business_id v,
     inv_subscription_id = iv_subscription_id v, stripe_invoice_id = stripe_id,
     inv_stripe_customer_id = iv_customer v, invoice_number = iv_number v, inv_status = iv_status v,
     inv_currency = iv_currency v, subtotal_cents = iv_subtotal v, total_cents = iv_total v,
     amount_due_cents = iv_amount_due v, amount_paid_cents = iv_amount_paid v,
     amount_remaining_cents = iv_amount_remaining v, inv_stripe_created_at = iv_created v,
     period_started_at = iv_period_start v, period_ends_at = iv_period_end v, paid_at = iv_paid_at v,
     hosted_invoice_url = iv_hosted_url v, invoice_pdf_url = iv_pdf_url v,
     inv_last_stripe_event_created_at = iv_event_created_at v, inv_last_stripe_event_id = iv_event_id v \<rparr>"

definition invoice_status_of :: "stripe_object \<Rightarrow> subscription \<Rightarrow> billing_error + string \<times> invoice_status" where
  "invoice_status_of invoice s =
     and_then (optional_string (get ''customer'' invoice)) (\<lambda>customer.
     case customer of None \<Rightarrow> Inl StripeWebhookDataError | Some x \<Rightarrow>
     if Some x \<noteq> sub_stripe_customer_id s then Inl StripeWebhookDataError
     else
       and_then (required_string ''status'' invoice) (\<lambda>v.
       case parse_invoice_status v of None \<Rightarrow> Inl StripeWebhookDataError | Some status \<Rightarrow> Inr (x, status)))"

definition invoice_values_of ::
  "(string \<Rightarrow> time option) \<Rightarrow> stripe_object \<Rightarrow> subscription \<Rightarrow> string \<Rightarrow> invoice_status \<Rightarrow> string \<Rightarrow> time
   \<Rightarrow> billing_error + invoice_values" where
  "invoice_values_of fl invoice s customer status event_id event_created_at =
     and_then (required_string ''currency'' invoice) (\<lambda>currency'.
     let currency = py_upper currency'
     in if length currency \<noteq> 3 then Inl StripeWebhookDataError
     else
       and_then (case get ''status_transitions'' invoice of
                   JDict ts \<Rightarrow> stripe_datetime fl (get ''paid_at'' ts) | _ \<Rightarrow> Inr None) (\<lambda>paid.
       and_then (optional_string (get ''number'' invoice)) (\<lambda>number.
       and_then (stripe_integer ''subtotal'' invoice) (\<lambda>subtotal.
       and_then (stripe_integer ''total'' invoice) (\<lambda>total.
       and_then (stripe_integer ''amount_due'' invoice) (\<lambda>amount_due.
       and_then (stripe_integer ''amount_paid'' invoice) (\<lambda>amount_paid.
       and_then (stripe_integer ''amount_remaining'' invoice) (\<lambda>amount_remaining.
       and_then (stripe_datetime fl (get ''created'' invoice)) (\<lambda>created.
       and_then (stripe_datetime fl (get ''period_start'' invoice)) (\<lambda>period_start.
       and_then (stripe_datetime fl (get ''period_end'' invoice)) (\<lambda>period_end.
       and_then (optional_string (get ''hosted_invoice_url'' invoice)) (\<lambda>hosted.
       and_then (optional_string (get ''invoice_pdf'' invoice)) (\<lambda>pdf.
       case created of None \<Rightarrow> Inl StripeWebhookDataError | Some t \<Rightarrow>
         Inr \<lparr> iv_subscription_id = sub_id s, iv_business_id = sub_business_id s, iv_customer = customer,
           iv_number = number, iv_status = status, iv_currency = currency, iv_subtotal = subtotal,
           iv_total = total, iv_amount_due = amount_due, iv_amount_paid = amount_paid,
           iv_amount_remaining = amount_remaining, iv_created = t, iv_period_start = period_start,
           iv_period_end = period_end, iv_paid_at = paid, iv_hosted_url = hosted, iv_pdf_url = pdf,
           iv_event_created_at = event_created_at, iv_event_id = event_id \<rparr>)))))))))))))"

definition invoice_by_stripe_id :: "string \<Rightarrow> db \<Rightarrow> billing_invoice option" where
  "invoice_by_stripe_id i d = row_where (\<lambda>x. stripe_invoice_id x = i) (invoices d)"

definition is_older_event :: "time \<Rightarrow> billing_invoice \<Rightarrow> bool" where
  "is_older_event t i \<longleftrightarrow> t < inv_last_stripe_event_created_at i"

definition is_lower_status :: "time \<Rightarrow> invoice_status \<Rightarrow> billing_invoice \<Rightarrow> bool" where
  "is_lower_status t status i \<longleftrightarrow> t = inv_last_stripe_event_created_at i
     \<and> INVOICE_STATUS_RANK status < INVOICE_STATUS_RANK (inv_status i)"

definition update_invoice ::
  "subscription \<Rightarrow> invoice_values \<Rightarrow> billing_invoice \<Rightarrow> db \<Rightarrow> billing_error + webhook_result \<times> db" where
  "update_invoice s v local d =
     (if inv_subscription_id local \<noteq> sub_id s \<or> inv_business_id local \<noteq> sub_business_id s
      then Inl StripeWebhookDataError
      else Inr (WEBHOOK_PROCESSED, d\<lparr> invoices := update_where (\<lambda>x. inv_id x = inv_id local)
             (\<lambda>_. write_values v local) (invoices d) \<rparr>))"

text \<open>\<open>env\<close> is what other transactions commit between the query for the invoice and its insert, which
  does nothing when the Stripe invoice id is taken.\<close>

definition upsert_invoice ::
  "(string \<Rightarrow> time option) \<Rightarrow> (db \<Rightarrow> db) \<Rightarrow> uuid \<Rightarrow> stripe_object \<Rightarrow> subscription \<Rightarrow> string \<Rightarrow> time \<Rightarrow> db
   \<Rightarrow> billing_error + webhook_result \<times> db" where
  "upsert_invoice fl env row_id invoice s event_id event_created_at d =
     and_then (required_string ''id'' invoice) (\<lambda>stripe_id.
     let local = invoice_by_stripe_id stripe_id d
     in if \<not> null_or (\<lambda>i. \<not> is_older_event event_created_at i) local then Inr (WEBHOOK_IGNORED, d)
     else
       and_then (invoice_status_of invoice s) (\<lambda>(customer, status).
       if \<not> null_or (\<lambda>i. \<not> is_lower_status event_created_at status i) local then Inr (WEBHOOK_IGNORED, d)
       else
         and_then (invoice_values_of fl invoice s customer status event_id event_created_at) (\<lambda>v.
         case local of
           Some i \<Rightarrow> update_invoice s v i d
         | None \<Rightarrow>
             let d' = env d
             in case invoice_by_stripe_id stripe_id d' of
                  None \<Rightarrow> Inr (WEBHOOK_PROCESSED,
                    d'\<lparr> invoices := insert_row (invoice_row row_id stripe_id v) (invoices d') \<rparr>)
                | Some i \<Rightarrow>
                    if is_older_event event_created_at i \<or> is_lower_status event_created_at status i
                    then Inr (WEBHOOK_IGNORED, d')
                    else update_invoice s v i d')))"

definition process_invoice ::
  "billing_settings \<Rightarrow> (string \<Rightarrow> time option) \<Rightarrow> stripe_gateway \<Rightarrow> (db \<Rightarrow> db) \<Rightarrow> webhook_context \<Rightarrow> stripe_object
   \<Rightarrow> string \<Rightarrow> time \<Rightarrow> db \<Rightarrow> billing_error + webhook_result \<times> db" where
  "process_invoice cfg fl gw env ctx invoice event_id event_created_at d =
     and_then (invoice_subscription_id invoice) (\<lambda>stripe_id'.
     case stripe_id' of None \<Rightarrow> Inr (WEBHOOK_IGNORED, d) | Some stripe_id \<Rightarrow>
     let existing = row_where (\<lambda>s. sub_stripe_subscription_id s = Some stripe_id) (subscriptions d)
     in and_then
          (case gw_retrieve_subscription gw stripe_id of
             Inl e \<Rightarrow> if is_null existing then Inl e else Inr []
           | Inr snapshot \<Rightarrow> Inr snapshot)
          (\<lambda>snapshot.
        and_then
          (if snapshot \<noteq> []
           then sync_subscription cfg fl \<lparr> sy_event_id = Some event_id,
                  sy_event_created_at = Some event_created_at, sy_synced = wh_synced ctx,
                  sy_completed = wh_completed ctx \<rparr> snapshot d
           else Inr (existing, d))
          (\<lambda>(found, d').
        case found of
          None \<Rightarrow> Inr (WEBHOOK_IGNORED, d')
        | Some s \<Rightarrow> upsert_invoice fl env (wh_invoice_id ctx) invoice s event_id event_created_at d')))"

text \<open>A deleted subscription is taken from the event, any other is read from Stripe.\<close>

definition event_snapshot ::
  "stripe_gateway \<Rightarrow> string \<Rightarrow> stripe_object \<Rightarrow> billing_error + stripe_object" where
  "event_snapshot gw kind stripe_object =
     (if kind = ''customer.subscription.deleted'' then Inr stripe_object
      else and_then (required_string ''id'' stripe_object) (gw_retrieve_subscription gw))"

definition run_event ::
  "billing_settings \<Rightarrow> (string \<Rightarrow> time option) \<Rightarrow> stripe_gateway \<Rightarrow> (db \<Rightarrow> db) \<Rightarrow> webhook_context \<Rightarrow> string
   \<Rightarrow> string \<Rightarrow> time \<Rightarrow> stripe_object \<Rightarrow> db \<Rightarrow> billing_error + webhook_result \<times> db" where
  "run_event cfg fl gw env ctx kind event_id event_created_at stripe_object d =
     (if kind \<in> set SUBSCRIPTION_EVENTS
      then
        and_then (event_snapshot gw kind stripe_object) (\<lambda>snapshot.
        and_then
          (sync_subscription cfg fl \<lparr> sy_event_id = Some event_id,
             sy_event_created_at = Some event_created_at, sy_synced = wh_synced ctx,
             sy_completed = wh_completed ctx \<rparr> snapshot d)
          (\<lambda>(found, d').
          Inr (if is_null found then WEBHOOK_IGNORED else WEBHOOK_PROCESSED, d')))
      else if kind \<in> set CHECKOUT_COMPLETE_EVENTS
      then complete_checkout cfg (wh_completed ctx) stripe_object False d
      else if kind = ''checkout.session.expired''
      then complete_checkout cfg (wh_completed ctx) stripe_object True d
      else if kind \<in> set INVOICE_EVENTS
      then process_invoice cfg fl gw env ctx stripe_object event_id event_created_at d
      else Inr (WEBHOOK_IGNORED, d))"

record event_header =
  eh_id :: string
  eh_type :: string
  eh_created :: time
  eh_livemode :: bool
  eh_object_id :: "string option"
  eh_object :: stripe_object

definition event_header_of ::
  "billing_settings \<Rightarrow> (string \<Rightarrow> time option) \<Rightarrow> stripe_object \<Rightarrow> billing_error + event_header" where
  "event_header_of cfg fl event =
     and_then (required_string ''id'' event) (\<lambda>i.
     and_then (required_string ''type'' event) (\<lambda>kind.
     and_then (stripe_datetime fl (get ''created'' event)) (\<lambda>created.
     case created of None \<Rightarrow> Inl StripeWebhookDataError | Some t \<Rightarrow>
     (case get ''livemode'' event of
        JBool live \<Rightarrow>
          if live \<noteq> (cfg_app_env cfg = PRODUCTION) then Inl StripeWebhookEnvironmentError
          else (case get ''data'' event of
              JDict data \<Rightarrow>
                (case get ''object'' data of
                   JDict obj \<Rightarrow>
                     and_then (optional_string (get ''id'' obj)) (\<lambda>object_id.
                       Inr \<lparr> eh_id = i, eh_type = kind, eh_created = t, eh_livemode = live,
                              eh_object_id = object_id, eh_object = obj \<rparr>)
                 | _ \<Rightarrow> Inl StripeWebhookDataError)
            | _ \<Rightarrow> Inl StripeWebhookDataError)
      | _ \<Rightarrow> Inl StripeWebhookDataError))))"

definition claim_event :: "webhook_context \<Rightarrow> event_header \<Rightarrow> db \<Rightarrow> db option" where
  "claim_event ctx h d =
     (if \<not> is_null (row_where (\<lambda>e. stripe_event_id e = eh_id h) (webhook_events d)) then None
      else Some (d\<lparr> webhook_events := insert_row
             \<lparr> ev_id = wh_row_id ctx, stripe_event_id = eh_id h, event_type = eh_type h,
               object_id = eh_object_id h, ev_stripe_created_at = eh_created h, livemode = eh_livemode h,
               ev_result = WEBHOOK_IGNORED, processed_at = wh_claimed ctx \<rparr> (webhook_events d) \<rparr>))"

definition finish_event :: "webhook_context \<Rightarrow> webhook_result \<Rightarrow> db \<Rightarrow> db" where
  "finish_event ctx r d = d\<lparr> webhook_events := update_where (\<lambda>e. ev_id e = wh_row_id ctx)
     (\<lambda>e. e\<lparr> ev_result := r, processed_at := wh_processed ctx \<rparr>) (webhook_events d) \<rparr>"

text \<open>\<open>process\<close>: whether the event was a duplicate, and the result.  An error rolls back, the claim
  included.\<close>

definition process_webhook ::
  "billing_settings \<Rightarrow> (string \<Rightarrow> time option) \<Rightarrow> stripe_gateway \<Rightarrow> (db \<Rightarrow> db) \<Rightarrow> webhook_context
   \<Rightarrow> stripe_object \<Rightarrow> db \<Rightarrow> (billing_error + bool \<times> webhook_result) \<times> db" where
  "process_webhook cfg fl gw env ctx event d =
     (case event_header_of cfg fl event of
        Inl e \<Rightarrow> (Inl e, d)
      | Inr h \<Rightarrow>
        (case claim_event ctx h d of
           None \<Rightarrow> (Inr (True, WEBHOOK_IGNORED), d)
         | Some d1 \<Rightarrow>
           (case run_event cfg fl gw env ctx (eh_type h) (eh_id h) (eh_created h) (eh_object h) d1 of
              Inl e \<Rightarrow> (Inl e, d)
            | Inr (r, d2) \<Rightarrow>
                if is_null (row_where (\<lambda>e. ev_id e = wh_row_id ctx) (webhook_events d2))
                then (Inl StripeWebhookDataError, d)
                else settle billing_tables_ok BillingIntegrityError (Inr (False, r))
                       (finish_event ctx r d2) d)))"

end
