(* ===== verification/Billing_Theorems.thy ===== *)
theory Billing_Theorems
  imports Billing_Webhook Contracts Subscriptions Sample
begin

text \<open>
  The properties of billing, each with a concrete run.
\<close>

section \<open>The invoice mirror\<close>

definition row_values :: "billing_invoice \<Rightarrow> invoice_values" where
  "row_values i = \<lparr> iv_subscription_id = inv_subscription_id i, iv_business_id = inv_business_id i,
     iv_customer = inv_stripe_customer_id i, iv_number = invoice_number i, iv_status = inv_status i,
     iv_currency = inv_currency i, iv_subtotal = subtotal_cents i, iv_total = total_cents i,
     iv_amount_due = amount_due_cents i, iv_amount_paid = amount_paid_cents i,
     iv_amount_remaining = amount_remaining_cents i, iv_created = inv_stripe_created_at i,
     iv_period_start = period_started_at i, iv_period_end = period_ends_at i, iv_paid_at = paid_at i,
     iv_hosted_url = hosted_invoice_url i, iv_pdf_url = invoice_pdf_url i,
     iv_event_created_at = inv_last_stripe_event_created_at i, iv_event_id = inv_last_stripe_event_id i \<rparr>"

lemma row_values_written [simp]:
  "row_values (write_values v i) = v" "row_values (invoice_row r k v) = v"
  "stripe_invoice_id (write_values v i) = stripe_invoice_id i" "stripe_invoice_id (invoice_row r k v) = k"
  "inv_id (write_values v i) = inv_id i"
  by (simp_all add: row_values_def write_values_def invoice_row_def)

definition mirrored :: "string \<Rightarrow> db \<Rightarrow> invoice_values option" where
  "mirrored k d = map_option row_values (invoice_by_stripe_id k d)"

text \<open>The order of the mirror: the time of the event, then the rank of the status.\<close>

definition invoice_version :: "invoice_values \<Rightarrow> time \<times> nat" where
  "invoice_version v = (iv_event_created_at v, INVOICE_STATUS_RANK (iv_status v))"

definition belongs_to :: "subscription \<Rightarrow> string \<Rightarrow> db \<Rightarrow> bool" where
  "belongs_to s k d \<longleftrightarrow> (\<forall>v. mirrored k d = Some v \<longrightarrow>
     iv_subscription_id v = sub_id s \<and> iv_business_id v = sub_business_id s)"

definition invoice_event_values ::
  "(string \<Rightarrow> time option) \<Rightarrow> subscription \<Rightarrow> stripe_object \<Rightarrow> string \<Rightarrow> time \<Rightarrow> billing_error + invoice_values" where
  "invoice_event_values fl s invoice event_id t =
     and_then (invoice_status_of invoice s) (\<lambda>(customer, status).
       invoice_values_of fl invoice s customer status event_id t)"

lemma invoice_values_of_fields:
  "invoice_values_of fl invoice s x status event_id t = Inr v \<Longrightarrow>
    iv_status v = status \<and> iv_event_created_at v = t \<and> iv_event_id v = event_id
    \<and> iv_subscription_id v = sub_id s \<and> iv_business_id v = sub_business_id s"
  unfolding invoice_values_of_def Let_def
  apply (erule and_then_InrE)
  apply (simp only: split: if_splits)
   apply simp
  apply (elim and_then_InrE)
  apply (auto split: option.splits)
  done

lemma version_less_iff:
  "iv_event_created_at v = t \<Longrightarrow> iv_status v = st \<Longrightarrow>
     invoice_version v < invoice_version (row_values i) \<longleftrightarrow> is_older_event t i \<or> is_lower_status t st i"
  by (auto simp: invoice_version_def row_values_def is_older_event_def is_lower_status_def less_prod_def')

lemma mirrored_update:
  assumes "invoice_by_stripe_id k d = Some i"
  shows "mirrored k (d\<lparr> invoices := update_where (\<lambda>x. inv_id x = inv_id i) (\<lambda>_. write_values v i) (invoices d) \<rparr>)
    = Some v"
proof -
  have "stripe_invoice_id i = k"
    using assms row_where_SomeD unfolding invoice_by_stripe_id_def by fast
  then have "row_where (\<lambda>x. stripe_invoice_id x = k) t = Some i \<Longrightarrow>
      row_where (\<lambda>x. stripe_invoice_id x = k) (update_where (\<lambda>x. inv_id x = inv_id i) (\<lambda>_. write_values v i) t)
      = Some (write_values v i)" for t
    by (induction t) (auto split: if_splits)
  with assms show ?thesis by (simp add: mirrored_def invoice_by_stripe_id_def)
qed

lemma mirrored_insert:
  assumes "invoice_by_stripe_id k d = None"
  shows "mirrored k (d\<lparr> invoices := insert_row (invoice_row r k v) (invoices d) \<rparr>) = Some v"
  using assms by (simp add: mirrored_def invoice_by_stripe_id_def row_where_insert_row)

lemma update_invoice_belongs:
  assumes "invoice_by_stripe_id k d = Some i" and "belongs_to s k d"
  shows "\<exists>d'. update_invoice s v i d = Inr (WEBHOOK_PROCESSED, d') \<and> mirrored k d' = Some v"
proof -
  have "inv_subscription_id i = sub_id s" "inv_business_id i = sub_business_id s"
    using assms by (auto simp: belongs_to_def mirrored_def row_values_def)
  then show ?thesis using mirrored_update [OF assms(1)] by (simp add: update_invoice_def)
qed

lemma upsert_mirrors:
  assumes k: "required_string ''id'' invoice = Inr k" and v: "invoice_event_values fl s invoice event_id t = Inr v"
    and here: "belongs_to s k d" and there: "belongs_to s k (env d)"
  shows "\<exists>r d'. upsert_invoice fl env row_id invoice s event_id t d = Inr (r, d')
    \<and> mirrored k d' = keep_latest invoice_version v (if is_null (mirrored k d) then mirrored k (env d) else mirrored k d)"
proof -
  obtain x st where st: "invoice_status_of invoice s = Inr (x, st)"
      "invoice_values_of fl invoice s x st event_id t = Inr v"
    using v unfolding invoice_event_values_def and_then_Inr_iff by auto
  note f = invoice_values_of_fields [OF st(2)]
  have less: "invoice_version v < invoice_version (row_values i) \<longleftrightarrow> is_older_event t i \<or> is_lower_status t st i" for i
    by (rule version_less_iff) (simp_all add: f)
  show ?thesis
  proof (cases "invoice_by_stripe_id k d")
    case (Some i)
    then have m: "mirrored k d = Some (row_values i)" by (simp add: mirrored_def)
    show ?thesis
    proof (cases "is_older_event t i \<or> is_lower_status t st i")
      case True
      with Some m less k st show ?thesis by (auto simp: upsert_invoice_def Let_def)
    next
      case False
      obtain d' where "update_invoice s v i d = Inr (WEBHOOK_PROCESSED, d')" "mirrored k d' = Some v"
        using update_invoice_belongs [OF Some here] by blast
      with False Some m less k st show ?thesis by (auto simp: upsert_invoice_def Let_def)
    qed
  next
    case None
    then have n: "mirrored k d = None" by (simp add: mirrored_def)
    show ?thesis
    proof (cases "invoice_by_stripe_id k (env d)")
      case (Some i)
      then have m: "mirrored k (env d) = Some (row_values i)" by (simp add: mirrored_def)
      show ?thesis
      proof (cases "is_older_event t i \<or> is_lower_status t st i")
        case True
        with Some m n None less k st show ?thesis by (auto simp: upsert_invoice_def Let_def)
      next
        case False
        obtain d' where "update_invoice s v i (env d) = Inr (WEBHOOK_PROCESSED, d')" "mirrored k d' = Some v"
          using update_invoice_belongs [OF Some there] by blast
        with False Some m n None less k st show ?thesis by (auto simp: upsert_invoice_def Let_def)
      qed
    next
      case none': None
      then have "mirrored k (env d) = None" by (simp add: mirrored_def)
      with none' n None k st mirrored_insert [OF none'] show ?thesis
        by (auto simp: upsert_invoice_def Let_def)
    qed
  qed
qed

text \<open>
  C8: the invoice mirror refines a register that keeps the latest version: a delivery for a well-formed
  invoice always returns, and leaves the later of its own values and the mirrored ones, ordered by the
  time of the event and then by the rank of the status -- also when another delivery inserts the invoice
  between the query and the insert.
\<close>

theorem invoice_mirror_refines_register:
  assumes "required_string ''id'' invoice = Inr k" and "invoice_event_values fl s invoice event_id t = Inr v"
    and "belongs_to s k d" and "belongs_to s k (env d)"
  shows "\<exists>r d'. upsert_invoice fl env row_id invoice s event_id t d = Inr (r, d')
    \<and> mirrored k d' = keep_latest invoice_version v (if is_null (mirrored k d) then mirrored k (env d) else mirrored k d)"
  by (rule upsert_mirrors [where env = env and d = d]) (rule assms)+

section \<open>Deliveries in any order\<close>

record invoice_event =
  ie_row_id :: uuid
  ie_invoice :: stripe_object
  ie_event_id :: string
  ie_created :: time

definition deliver_invoice :: "(string \<Rightarrow> time option) \<Rightarrow> subscription \<Rightarrow> invoice_event \<Rightarrow> db \<Rightarrow> db" where
  "deliver_invoice fl s e d =
     (case upsert_invoice fl (\<lambda>d. d) (ie_row_id e) (ie_invoice e) s (ie_event_id e) (ie_created e) d of
        Inl _ \<Rightarrow> d | Inr (_, d') \<Rightarrow> d')"

definition event_values :: "(string \<Rightarrow> time option) \<Rightarrow> subscription \<Rightarrow> invoice_event \<Rightarrow> billing_error + invoice_values" where
  "event_values fl s e = invoice_event_values fl s (ie_invoice e) (ie_event_id e) (ie_created e)"

definition value_of :: "'e + 'v \<Rightarrow> 'v" where
  "value_of r = (case r of Inr v \<Rightarrow> v | Inl _ \<Rightarrow> undefined)"

definition is_event_of :: "(string \<Rightarrow> time option) \<Rightarrow> subscription \<Rightarrow> string \<Rightarrow> invoice_event \<Rightarrow> bool" where
  "is_event_of fl s k e \<longleftrightarrow> required_string ''id'' (ie_invoice e) = Inr k \<and> (\<exists>v. event_values fl s e = Inr v)"

lemma deliver_mirrors:
  assumes "is_event_of fl s k e" and "belongs_to s k d"
  shows "mirrored k (deliver_invoice fl s e d)
    = keep_latest invoice_version (value_of (event_values fl s e)) (mirrored k d)"
proof -
  obtain v where v: "required_string ''id'' (ie_invoice e) = Inr k" "event_values fl s e = Inr v"
    using assms(1) by (auto simp: is_event_of_def)
  obtain r d' where "upsert_invoice fl (\<lambda>d. d) (ie_row_id e) (ie_invoice e) s (ie_event_id e) (ie_created e) d = Inr (r, d')"
      "mirrored k d' = keep_latest invoice_version v (mirrored k d)"
    using upsert_mirrors [where env = "\<lambda>d. d" and row_id = "ie_row_id e",
        OF v(1) v(2) [unfolded event_values_def] assms(2,2)] by auto
  with v(2) show ?thesis by (simp add: deliver_invoice_def value_of_def)
qed

lemma event_values_tenant:
  "event_values fl s e = Inr v \<Longrightarrow> iv_subscription_id v = sub_id s \<and> iv_business_id v = sub_business_id s"
  unfolding event_values_def invoice_event_values_def and_then_Inr_iff
  by (auto dest!: invoice_values_of_fields)

lemma deliver_belongs:
  assumes "is_event_of fl s k e" and "belongs_to s k d"
  shows "belongs_to s k (deliver_invoice fl s e d)"
proof -
  have "iv_subscription_id v = sub_id s \<and> iv_business_id v = sub_business_id s"
    if "mirrored k (deliver_invoice fl s e d) = Some v" for v
    using that assms event_values_tenant [of fl s e] unfolding deliver_mirrors [OF assms] is_event_of_def belongs_to_def
    by (cases "mirrored k d") (auto simp: value_of_def split: if_splits)
  then show ?thesis by (simp add: belongs_to_def)
qed

interpretation invoice_mirror: versioned_store "deliver_invoice fl s" "mirrored k"
  "\<lambda>e. value_of (event_values fl s e)" invoice_version "\<lambda>e d. is_event_of fl s k e \<and> belongs_to s k d" for fl s k
  by unfold_locales (auto simp: deliver_mirrors deliver_belongs)


section \<open>What a synchronization writes\<close>

text \<open>The tables that a synchronization leaves alone.\<close>

definition billing_frame :: "db \<Rightarrow> db \<Rightarrow> bool" where
  "billing_frame d d' \<longleftrightarrow> webhook_events d' = webhook_events d \<and> invoices d' = invoices d
     \<and> users d' = users d \<and> plans d' = plans d \<and> businesses d' = businesses d"

lemma billing_frame_refl [simp]: "billing_frame d d"
  by (simp add: billing_frame_def)

lemma billing_frame_writes [simp]:
  "billing_frame d (save_subscription s d') = billing_frame d d'"
  "billing_frame d (save_checkout c d') = billing_frame d d'"
  "billing_frame d (delete_trial_entitlements s d') = billing_frame d d'"
  by (simp_all add: billing_frame_def save_subscription_def save_checkout_def delete_trial_entitlements_def)

lemma fail_closed_frame: "fail_closed fl ctx i k p snap s d = Inr (r, d') \<Longrightarrow> billing_frame d d'"
  unfolding fail_closed_def by (elim and_then_InrE) auto

lemma sync_checkout_frame: "sync_checkout ctx m s k i d = Inr d' \<Longrightarrow> billing_frame d0 d \<Longrightarrow> billing_frame d0 d'"
  by (auto simp: sync_checkout_def split: option.splits if_splits elim!: and_then_InrE)

lemma mirror_subscription_frame:
  "mirror_subscription fl ctx p st i k pr a b m snap s d = Inr (r, d') \<Longrightarrow> billing_frame d d'"
  unfolding mirror_subscription_def
  by (elim and_then_InrE) (auto split: if_splits elim!: sync_checkout_frame)

lemma sync_configured_price_frame:
  assumes "sync_configured_price cfg fl ctx existing m i k pr a b snapshot d = Inr (r, d')"
  shows "billing_frame d d'"
  using assms unfolding sync_configured_price_def
  by (auto split: option.splits if_splits elim!: and_then_InrE)
    (erule fail_closed_frame mirror_subscription_frame)+

lemma sync_subscription_frame:
  assumes "sync_subscription cfg fl ctx snapshot d = Inr (r, d')"
  shows "billing_frame d d'"
  using assms unfolding sync_subscription_def Let_def
  by (auto split: option.splits if_splits elim!: and_then_InrE)
    (erule fail_closed_frame sync_configured_price_frame)+

section \<open>Deliveries of one event\<close>

definition event_seen :: "string \<Rightarrow> db \<Rightarrow> bool" where
  "event_seen i d \<longleftrightarrow> (\<exists>e \<in> set (webhook_events d). stripe_event_id e = i)"

lemma event_seen_iff: "event_seen i d \<longleftrightarrow> i \<in> set (map stripe_event_id (webhook_events d))"
  by (auto simp: event_seen_def)

lemma complete_checkout_frame:
  "complete_checkout cfg now snapshot expired d = Inr (r, d') \<Longrightarrow> billing_frame d d'"
  by (auto simp: complete_checkout_def Let_def split: option.splits if_splits elim!: and_then_InrE)

definition keeps_events :: "(db \<Rightarrow> db) \<Rightarrow> bool" where
  "keeps_events env \<longleftrightarrow> (\<forall>d. webhook_events (env d) = webhook_events d)"

lemma update_invoice_events:
  "update_invoice s v i d = Inr (r, d') \<Longrightarrow> webhook_events d' = webhook_events d"
  by (auto simp: update_invoice_def split: if_splits)

lemma upsert_invoice_events:
  assumes "upsert_invoice fl env row_id invoice s i t d = Inr (r, d')" and "keeps_events env"
  shows "webhook_events d' = webhook_events d"
  using assms unfolding upsert_invoice_def Let_def keeps_events_def
  by (auto split: option.splits if_splits elim!: and_then_InrE simp: update_invoice_events)

lemma process_invoice_events:
  assumes "process_invoice cfg fl gw env ctx invoice i t d = Inr (r, d')" and "keeps_events env"
  shows "webhook_events d' = webhook_events d"
proof -
  have sync: "webhook_events d2 = webhook_events d"
    if "(if snapshot \<noteq> [] then sync_subscription cfg fl c snapshot d else Inr (existing, d)) = Inr (f, d2)"
    for snapshot c existing f d2
    using that by (auto split: if_splits dest!: sync_subscription_frame simp: billing_frame_def)
  show ?thesis
    using assms unfolding process_invoice_def Let_def
    by (auto split: option.splits elim!: and_then_InrE dest!: sync simp: upsert_invoice_events)
qed

lemma run_event_events:
  assumes "run_event cfg fl gw env ctx kind i t obj d = Inr (r, d')" and "keeps_events env"
  shows "webhook_events d' = webhook_events d"
proof -
  have "webhook_events d2 = webhook_events d" if "sync_subscription cfg fl c snapshot d = Inr (f, d2)" for c snapshot f d2
    using sync_subscription_frame [OF that] by (simp add: billing_frame_def)
  moreover have "webhook_events d2 = webhook_events d" if "complete_checkout cfg now obj b d = Inr (f, d2)" for now b f d2
    using complete_checkout_frame [OF that] by (simp add: billing_frame_def)
  ultimately show ?thesis
    using assms process_invoice_events [OF _ assms(2)] unfolding run_event_def
    by (auto split: if_splits elim!: and_then_InrE)
qed

lemma process_webhook_applied:
  assumes "process_webhook cfg fl gw env ctx event d = (Inr (False, r), d')" and "keeps_events env"
  obtains h d2 where "event_header_of cfg fl event = Inr h" "\<not> event_seen (eh_id h) d"
    "run_event cfg fl gw env ctx (eh_type h) (eh_id h) (eh_created h) (eh_object h)
       (the (claim_event ctx h d)) = Inr (r, d2)" "d' = finish_event ctx r d2" "billing_tables_ok d'"
    "event_seen (eh_id h) d'" "map stripe_event_id (webhook_events d') = map stripe_event_id (webhook_events d) @ [eh_id h]"
proof -
  obtain h d1 d2 where h: "event_header_of cfg fl event = Inr h" "claim_event ctx h d = Some d1"
    "run_event cfg fl gw env ctx (eh_type h) (eh_id h) (eh_created h) (eh_object h) d1 = Inr (r, d2)"
    "d' = finish_event ctx r d2" "billing_tables_ok d'"
    using assms(1) by (auto simp: process_webhook_def settle_def split: sum.splits option.splits if_splits)
  have new: "\<not> event_seen (eh_id h) d" and d1: "map stripe_event_id (webhook_events d1)
      = map stripe_event_id (webhook_events d) @ [eh_id h]"
    using h(2) by (auto simp: claim_event_def event_seen_def is_null_iff row_where_None_iff insert_row_def split: if_splits)
  have "map stripe_event_id (webhook_events d') = map stripe_event_id (webhook_events d1)"
    using run_event_events [OF h(3) assms(2)] by (simp add: h(4) finish_event_def map_update_where)
  then have ids: "map stripe_event_id (webhook_events d') = map stripe_event_id (webhook_events d) @ [eh_id h]"
    using d1 by simp
  then have "eh_id h \<in> set (map stripe_event_id (webhook_events d'))" by simp
  then have "event_seen (eh_id h) d'" unfolding event_seen_def by auto
  with h new ids show thesis by (intro that [of h d2]) simp_all
qed

lemma process_webhook_unapplied:
  assumes "process_webhook cfg fl gw env ctx event d = (r, d')" and "\<forall>x. r \<noteq> Inr (False, x)"
  shows "d' = d"
  using assms by (auto simp: process_webhook_def settle_def split: sum.splits option.splits if_splits)

text \<open>The requests that write billing rows, as steps.\<close>

inductive billing_step :: "billing_settings \<Rightarrow> (string \<Rightarrow> time option) \<Rightarrow> db \<Rightarrow> db \<Rightarrow> bool"
  for cfg :: billing_settings and fl :: "string \<Rightarrow> time option" where
  webhook: "process_webhook cfg fl gw env ctx event d = (r, d') \<Longrightarrow> keeps_events env \<Longrightarrow> billing_step cfg fl d d'"
| checkout: "create_checkout cfg fl sha gw ctx env answered b u code key d = (r', d') \<Longrightarrow> keeps_events env
    \<Longrightarrow> keeps_events answered \<Longrightarrow> billing_step cfg fl d d'"
| lifecycle: "set_cancel_at_period_end cfg fl gw ctx i b cancel d = (r'', d') \<Longrightarrow> billing_step cfg fl d d'"

inductive_cases billing_stepE: "billing_step cfg fl d d'"

lemma settle_cases: "settle ok e r d' d = (x, d'') \<Longrightarrow> d'' = d \<or> d'' = d'"
  by (auto simp: settle_def split: if_splits)

lemma prepare_attempt_events:
  assumes "prepare_attempt cfg ctx env b p digest d = (r, d')" and "keeps_events env"
  shows "webhook_events d' = webhook_events d"
  using assms
  by (auto simp: prepare_attempt_def insert_attempt_def duplicate_attempt_def keeps_events_def expire_attempts_def
      Let_def split: option.splits if_splits dest!: settle_cases)

lemma expire_rejected_attempt_events:
  "expire_rejected_attempt b c now d = (r, d') \<Longrightarrow> webhook_events d' = webhook_events d"
  by (auto simp: expire_rejected_attempt_def flush_checkout_def split: option.splits dest!: settle_cases)

lemma record_answer_events:
  "record_answer fl b c remote d = (r, d') \<Longrightarrow> webhook_events d' = webhook_events d"
  by (auto simp: record_answer_def flush_checkout_def Let_def split: option.splits sum.splits dest!: settle_cases)

lemma create_checkout_events:
  assumes "create_checkout cfg fl sha gw ctx env answered b u code key d = (r, d')"
    and "keeps_events env" and "keeps_events answered"
  shows "webhook_events d' = webhook_events d"
  using assms(1,3) unfolding create_checkout_def keeps_events_def
  by (auto split: option.splits sum.splits if_splits prod.splits
      dest!: prepare_attempt_events [OF _ assms(2)] expire_rejected_attempt_events record_answer_events)

lemma set_cancel_events:
  assumes "set_cancel_at_period_end cfg fl gw ctx i b cancel d = (r, d')"
  shows "webhook_events d' = webhook_events d"
  using assms unfolding set_cancel_at_period_end_def
  by (auto split: option.splits sum.splits if_splits prod.splits dest!: settle_cases sync_subscription_frame
      simp: billing_frame_def)

lemma billing_step_seen:
  assumes "billing_step cfg fl d d'" and "event_seen i d"
  shows "event_seen i d'"
  using assms(1)
proof cases
  case (webhook gw env ctx event r)
  show ?thesis
  proof (cases "\<exists>x. r = Inr (False, x)")
    case True
    then obtain x where "r = Inr (False, x)" by blast
    with webhook obtain h where "map stripe_event_id (webhook_events d') = map stripe_event_id (webhook_events d) @ [h]"
      by (auto elim: process_webhook_applied)
    with assms(2) show ?thesis by (simp add: event_seen_iff del: set_map)
  next
    case False
    with webhook process_webhook_unapplied assms(2) show ?thesis by blast
  qed
next
  case (checkout sha gw ctx env answered b u code key r')
  with assms(2) show ?thesis using create_checkout_events by (simp add: event_seen_def)
next
  case (lifecycle gw ctx i b cancel r'')
  with assms(2) show ?thesis using set_cancel_events by (simp add: event_seen_def)
qed

lemma billing_run_seen: "(billing_step cfg fl)\<^sup>*\<^sup>* d d' \<Longrightarrow> event_seen i d \<Longrightarrow> event_seen i d'"
  by (induction rule: rtranclp_induct) (auto intro: billing_step_seen)

text \<open>
  C5: a webhook event is applied at most once: when a delivery was applied its event is recorded, and in
  every state that billing requests reach from there, any later delivery of the same event is answered
  as a duplicate and changes nothing; a delivery that fails leaves the database as it was, the claim
  included, so that a retry can apply it.
\<close>

theorem webhook_event_applied_once:
  assumes "process_webhook cfg fl gw env ctx event d = (r, d')" and "keeps_events env"
  shows "(\<forall>e. r = Inl e \<longrightarrow> d' = d)
    \<and> (\<forall>x. r = Inr (False, x) \<longrightarrow> (\<forall>d'' gw' env' ctx'. (billing_step cfg fl)\<^sup>*\<^sup>* d' d''
         \<longrightarrow> process_webhook cfg fl gw' env' ctx' event d'' = (Inr (True, WEBHOOK_IGNORED), d'')))"
proof (intro conjI allI impI)
  fix e
  assume "r = Inl e"
  then show "d' = d" using process_webhook_unapplied [OF assms(1)] by simp
next
  fix x d'' gw' env' ctx'
  assume r: "r = Inr (False, x)" and run: "(billing_step cfg fl)\<^sup>*\<^sup>* d' d''"
  obtain h where h: "event_header_of cfg fl event = Inr h" "event_seen (eh_id h) d'"
    using process_webhook_applied [OF assms(1) [unfolded r] assms(2)] by blast
  have "event_seen (eh_id h) d''" using run h(2) by (rule billing_run_seen)
  then have "claim_event ctx' h d'' = None"
    by (auto simp: claim_event_def event_seen_def is_null_iff row_where_None_iff)
  with h(1) show "process_webhook cfg fl gw' env' ctx' event d'' = (Inr (True, WEBHOOK_IGNORED), d'')"
    by (simp add: process_webhook_def)
qed

section \<open>An unknown price\<close>

lemma current_after_save:
  assumes ok: "subscription_table_ok d'" and subs: "subscriptions d' = update_where (\<lambda>x. sub_id x = sub_id s) (\<lambda>_. s') t"
    and s: "s \<in> set t" and s': "sub_business_id s' = b" "is_current s'"
  shows "get_current b d' = Some s'"
proof -
  have in': "s' \<in> set (subscriptions d')" using s by (auto simp: subs set_update_where image_iff)
  have "unique_where is_current sub_business_id (subscriptions d')" using ok by (simp add: subscription_table_ok_def)
  then have "\<forall>x \<in> set (subscriptions d'). sub_business_id x = b \<and> is_current x \<longrightarrow> x = s'"
    using in' s' by (auto simp: unique_where_def distinct_map inj_on_def)
  moreover have "get_current b d' \<noteq> None"
    using in' s' by (auto simp: get_current_def scope_latest_def latest_where_None_iff)
  ultimately show ?thesis
    unfolding get_current_def using scope_latest_SomeD by fastforce
qed

lemma closed_subscription_fields:
  "closed_subscription fl ctx i k p snapshot s = Inr s' \<Longrightarrow> sub_id s' = sub_id s \<and> sub_business_id s' = sub_business_id s
    \<and> sub_status s' = INCOMPLETE \<and> sub_plan_id s' = None \<and> trial_started_at s' = trial_started_at s"
  unfolding closed_subscription_def
  by (elim and_then_InrE) (auto simp: mark_event_def split: option.splits)

text \<open>
  A synchronization fails closed: when Stripe reports a price that is not configured for a
  subscription of the platform, an applied subscription event leaves the business with that
  subscription as its current one, without a plan and without trial entitlements, and every
  entitlement check of the business is refused as inactive.
\<close>

theorem unknown_price_fails_closed:
  assumes "process_webhook cfg fl gw env ctx event d = (Inr (False, r), d')"
    and "event_header_of cfg fl event = Inr h" and "eh_type h \<in> set SUBSCRIPTION_EVENTS"
    and "event_snapshot gw (eh_type h) (eh_object h) = Inr snapshot" and "required_string ''id'' snapshot = Inr i"
    and "row_where (\<lambda>x. sub_stripe_subscription_id x = Some i) (subscriptions d) = Some s"
    and "subscription_item_details fl snapshot = Inr (price, a, b)"
    and "configured_plan_code_for_price cfg price = None" and "0 \<le> usage"
  shows "require d' (sub_business_id s) k usage now = Inl (SubscriptionInactiveError ''subscription_incomplete'')
    \<and> (\<exists>s'. get_current (sub_business_id s) d' = Some s' \<and> sub_id s' = sub_id s \<and> sub_plan_id s' = None)
    \<and> (\<forall>e \<in> set (subscription_entitlements d'). se_subscription_id e = sub_id s
         \<and> se_business_id e = sub_business_id s \<longrightarrow> se_source e \<noteq> SRC_TRIAL)"
proof -
  obtain d1 d2 where c: "claim_event ctx h d = Some d1"
    and run: "run_event cfg fl gw env ctx (eh_type h) (eh_id h) (eh_created h) (eh_object h) d1 = Inr (r, d2)"
    and d': "d' = finish_event ctx r d2" "billing_tables_ok d'"
    using assms(1,2) by (auto simp: process_webhook_def settle_def split: option.splits sum.splits if_splits)
  have d1: "subscriptions d1 = subscriptions d" using c by (auto simp: claim_event_def split: if_splits)
  obtain sc k' x where "fail_closed fl sc i k' price snapshot s d1 = Inr (x, d2)"
    using run assms(3-8)
    by (auto simp: run_event_def sync_subscription_def d1 elim!: and_then_InrE split: option.splits if_splits)
  then obtain s' where s': "closed_subscription fl sc i k' price snapshot s = Inr s'"
      "d2 = delete_trial_entitlements s' (save_subscription s' d1)"
    by (auto simp: fail_closed_def elim!: and_then_InrE)
  note f = closed_subscription_fields [OF s'(1)]
  have subs: "subscriptions d' = update_where (\<lambda>x. sub_id x = sub_id s) (\<lambda>_. s') (subscriptions d)"
    by (simp add: d'(1) s'(2) finish_event_def delete_trial_entitlements_def save_subscription_def d1 f)
  have cur: "get_current (sub_business_id s) d' = Some s'"
    by (rule current_after_save [OF _ subs])
      (use d'(2) row_where_SomeD [OF assms(6)] f in
        \<open>auto simp: billing_tables_ok_def is_current_def CURRENT_SUBSCRIPTION_STATUSES_def\<close>)
  have "require d' (sub_business_id s) k usage now = Inl (SubscriptionInactiveError ''subscription_incomplete'')"
    using assms(9) cur f by (simp add: require_def summarize_def evaluate_access_def)
  moreover have "\<forall>e \<in> set (subscription_entitlements d'). se_subscription_id e = sub_id s
         \<and> se_business_id e = sub_business_id s \<longrightarrow> se_source e \<noteq> SRC_TRIAL"
    by (simp add: d'(1) s'(2) finish_event_def delete_trial_entitlements_def f)
  ultimately show ?thesis using cur f by blast
qed

section \<open>Checkout\<close>

text \<open>The idempotency key and the parameters of the request that a prepared attempt sends to Stripe.\<close>

definition checkout_request ::
  "billing_settings \<Rightarrow> (string \<Rightarrow> string) \<Rightarrow> stripe_gateway \<Rightarrow> checkout_context \<Rightarrow> (db \<Rightarrow> db) \<Rightarrow> uuid \<Rightarrow> uuid
   \<Rightarrow> seeded_plan_code \<Rightarrow> string \<Rightarrow> db \<Rightarrow> (string \<times> stripe_object) option" where
  "checkout_request cfg sha gw ctx env b u code key d =
     (case (checkout_plan cfg code d, configured_price_id cfg code, lock_active_user u d) of
        (Inr p, Some price_id, Inr owner) \<Rightarrow>
          (case (gw_retrieve_price gw price_id, prepare_attempt cfg ctx env b p (sha key) d) of
             (Inr price, Inr (c, s, customer), _) \<Rightarrow>
               if cfg_stripe_enabled cfg \<and> validate_checkout_price price price_id p \<and> co_status c = CHECKOUT_PENDING
               then Some (''spike_checkout_'' @ uuid_str (co_id c),
                      build_checkout_params cfg c s code price_id (email owner) customer (ck_now ctx))
               else None
           | _ \<Rightarrow> None)
      | _ \<Rightarrow> None)"

text \<open>Stripe keeps the parameters of the first request of a key and refuses the key with others.\<close>

definition refuses_other_parameters :: "stripe_gateway \<Rightarrow> string \<Rightarrow> stripe_object \<Rightarrow> bool" where
  "refuses_other_parameters gw k params \<longleftrightarrow>
     (\<forall>params'. params' \<noteq> params \<longrightarrow> gw_create_checkout_session gw params' k = Inl StripeGatewayError)"

lemma map_of_expires:
  "map_of (build_checkout_params cfg c s code price mail customer now) ''expires_at''
   = Some (JInt (unix_seconds (now + minutes (cfg_checkout_session_minutes cfg))))"
  by (simp add: build_checkout_params_def Let_def)

lemma params_differ:
  "unix_seconds (now + minutes (cfg_checkout_session_minutes cfg)) \<noteq> unix_seconds (now' + minutes (cfg_checkout_session_minutes cfg))
   \<Longrightarrow> build_checkout_params cfg c s code price mail customer now \<noteq> build_checkout_params cfg c' s' code' price' mail' customer' now'"
  using map_of_expires by (metis json.inject(2) option.inject)

lemma prepare_attempt_new:
  assumes "prepare_attempt cfg ctx env b p digest d = (Inr (c, s, customer), d')"
    and "attempt_of_key b digest (expire_attempts (stale_attempts b (ck_now ctx) d) d) = None"
    and "attempt_of_key b digest (env d) = None"
  obtains current where "insert_attempt cfg ctx env b p digest current d = (Inr (c, s, customer), d')"
    "c = pending_checkout cfg ctx b s p digest" "c \<in> set (checkout_sessions d')" "subscription_by_id b (sub_id s) d' \<noteq> None"
    "sub_business_id s = b" "checkout_table_ok d'" "subscription_table_ok d'"
    "users d' = users (env d)" "plans d' = plans (env d)" "customer = latest_customer_id b d'"
    "\<And>s0. current = Some s0 \<Longrightarrow> s = s0 \<and> sub_stripe_subscription_id s0 = None"
    "\<And>s0. current = Some s0 \<Longrightarrow> paid_attempt b s0 (expire_attempts (stale_attempts b (ck_now ctx) d) d) = None"
    "current = current_paid_subscription b (expire_attempts (stale_attempts b (ck_now ctx) d) d)"
proof -
  let ?d0 = "expire_attempts (stale_attempts b (ck_now ctx) d) d"
  obtain current where i: "insert_attempt cfg ctx env b p digest current d = (Inr (c, s, customer), d')"
    and cur: "current = current_paid_subscription b ?d0"
    and paid: "\<And>s0. current = Some s0 \<Longrightarrow> sub_stripe_subscription_id s0 = None"
       "\<And>s0. current = Some s0 \<Longrightarrow> paid_attempt b s0 ?d0 = None"
    using assms(1,2) by (auto simp: prepare_attempt_def Let_def is_null_iff split: option.splits if_splits)
  have dup: "duplicate_attempt b p digest (env d) \<noteq> (Inr (c, s, customer), d')"
    using assms(3) by (auto simp: duplicate_attempt_def split: option.splits)
  let ?d1 = "expire_attempts (stale_attempts b (ck_now ctx) d) (env d)"
  let ?s = "case current of Some s \<Rightarrow> s | None \<Rightarrow> incomplete_subscription ctx b"
  let ?d2 = "case current of Some _ \<Rightarrow> ?d1 | None \<Rightarrow> ?d1\<lparr> subscriptions := insert_row ?s (subscriptions ?d1) \<rparr>"
  let ?c = "pending_checkout cfg ctx b ?s p digest"
  let ?d3 = "?d2\<lparr> checkout_sessions := insert_row ?c (checkout_sessions ?d2) \<rparr>"
  have r: "c = ?c" "s = ?s" "customer = latest_customer_id b ?d2" "d' = ?d3" "checkout_table_ok ?d3" "subscription_table_ok ?d2"
    using i dup by (auto simp: insert_attempt_def Let_def split: if_splits)
  have tables: "users ?d2 = users (env d)" "plans ?d2 = plans (env d)"
    by (simp_all add: expire_attempts_def split: option.splits)
  have row: "subscription_by_id b (sub_id s) ?d3 \<noteq> None"
    using r(1,2,5) by (auto simp: checkout_table_ok_def pending_checkout_def subscription_by_id_def scope_one_def
        row_where_None_iff)
  have same: "users ?d3 = users ?d2" "plans ?d3 = plans ?d2" "subscriptions ?d3 = subscriptions ?d2"
      "checkout_sessions ?d3 = insert_row ?c (checkout_sessions ?d2)"
    by simp_all
  have b: "sub_business_id s = b"
    using r(2) cur scope_latest_SomeD [of sub_business_id b sub_created_at is_current "subscriptions ?d0"]
    by (auto simp: current_paid_subscription_def incomplete_subscription_def split: option.splits)
  show thesis
  proof (rule that [OF i])
    show "c = pending_checkout cfg ctx b s p digest" using r(1,2) by simp
    show "c \<in> set (checkout_sessions d')" using r(1,4) by simp
    show "subscription_by_id b (sub_id s) d' \<noteq> None" using row r(4) by simp
    show "checkout_table_ok d'" using r(4,5) by simp
    show "subscription_table_ok d'" using r(4,6) by (simp add: subscription_table_ok_def)
    show "users d' = users (env d)" "plans d' = plans (env d)" using tables r(4) by simp_all
    show "customer = latest_customer_id b d'" using r(3,4) by (simp add: latest_customer_id_def)
  qed (use b paid cur r(2) in auto)
qed

lemma new_attempt_found:
  assumes "checkout_table_ok d'" and "c \<in> set (checkout_sessions d')" and "co_business_id c = b"
  shows "attempt_of_key b (co_idempotency_key_digest c) d' = Some c"
    and "checkout_is_open c \<Longrightarrow> c' \<in> set (checkout_sessions d') \<Longrightarrow> co_business_id c' = b \<Longrightarrow> checkout_is_open c' \<Longrightarrow> c' = c"
proof -
  have u: "unique_on (\<lambda>c. (co_business_id c, co_idempotency_key_digest c)) (checkout_sessions d')"
      "unique_where checkout_is_open co_business_id (checkout_sessions d')"
    using assms(1) by (simp_all add: checkout_table_ok_def)
  show "attempt_of_key b (co_idempotency_key_digest c) d' = Some c"
    unfolding attempt_of_key_def scope_one_def
    by (rule row_where_unique2 [OF u(1) assms(2)]) (use assms(3) in auto)
  show "checkout_is_open c \<Longrightarrow> c' \<in> set (checkout_sessions d') \<Longrightarrow> co_business_id c' = b \<Longrightarrow> checkout_is_open c' \<Longrightarrow> c' = c"
    using u(2) assms(2,3) by (auto simp: unique_where_def distinct_map inj_on_def)
qed

lemma expire_none [simp]: "expire_attempts [] d = d"
proof -
  have "update_where (\<lambda>_. False) f t = t" for f and t :: "billing_checkout_session list"
    by (rule update_where_none) simp
  then show ?thesis by (simp add: expire_attempts_def)
qed

lemma prepare_attempt_again:
  assumes "prepare_attempt cfg ctx (\<lambda>d. d) b p digest d = (Inr (c, s, customer), d')"
    and "attempt_of_key b digest d = None" and "ck_now ctx' < ck_now ctx + minutes (cfg_checkout_session_minutes cfg)"
  shows "\<exists>s' customer'. prepare_attempt cfg ctx' env b p digest d' = (Inr (c, s', customer'), d')"
proof -
  have none: "attempt_of_key b digest (expire_attempts xs d) = None" for xs
    using assms(2) by (auto simp: attempt_of_key_def scope_one_def row_where_None_iff expire_attempts_def set_update_where)
  note f = prepare_attempt_new [OF assms(1) none assms(2)]
  have c: "c = pending_checkout cfg ctx b s p digest" "c \<in> set (checkout_sessions d')" "checkout_table_ok d'"
      "subscription_by_id b (sub_id s) d' \<noteq> None"
    by (rule f, assumption)+
  note p = c(1) [unfolded pending_checkout_def]
  have "stale_attempts b (ck_now ctx') d' = []"
  proof -
    have "\<not> (checkout_is_open x \<and> (case co_expires_at x of None \<Rightarrow> False | Some t \<Rightarrow> t \<le> ck_now ctx'))"
      if "x \<in> set (checkout_sessions d')" "co_business_id x = b" for x
    proof
      assume x: "checkout_is_open x \<and> (case co_expires_at x of None \<Rightarrow> False | Some t \<Rightarrow> t \<le> ck_now ctx')"
      then have "x = c" using new_attempt_found(2) [OF c(3,2), of b x] that by (simp add: p checkout_is_open_def)
      then have "co_expires_at x = Some (ck_now ctx + minutes (cfg_checkout_session_minutes cfg))" using p by simp
      with x assms(3) show False by simp
    qed
    then show ?thesis by (auto simp: stale_attempts_def scope_select_def rows_where_def filter_empty_conv)
  qed
  moreover have "attempt_of_key b digest d' = Some c"
    using new_attempt_found(1) [OF c(3,2), of b] by (simp add: p)
  ultimately show ?thesis
    using c(3,4) by (auto simp: prepare_attempt_def p settle_def)
qed

text \<open>
  C26: a retry after a lost answer cannot succeed: the request of a retried attempt has the same Stripe
  idempotency key but, as soon as the clock has moved by a second, another expiry; so with a gateway
  that refuses other parameters for a used key, the retry fails and changes nothing, for as long as the
  attempt has not expired.
\<close>

theorem lost_answer_blocks_retry:
  assumes "create_checkout cfg fl sha gw ctx (\<lambda>d. d) (\<lambda>d. d) b u code key d = (Inl StripeGatewayError, d1)"
    and "checkout_request cfg sha gw ctx (\<lambda>d. d) b u code key d = Some (k, params)"
    and "attempt_of_key b (sha key) d = None"
    and "gw_create_checkout_session gw params k = Inl StripeGatewayError"
    and "gw_retrieve_price gw' = gw_retrieve_price gw" and "refuses_other_parameters gw' k params"
    and "ck_now ctx' < ck_now ctx + minutes (cfg_checkout_session_minutes cfg)"
    and "unix_seconds (ck_now ctx' + minutes (cfg_checkout_session_minutes cfg))
       \<noteq> unix_seconds (ck_now ctx + minutes (cfg_checkout_session_minutes cfg))"
  shows "create_checkout cfg fl sha gw' ctx' env answered b u code key d1 = (Inl StripeGatewayError, answered d1)"
proof -
  obtain p price owner c s customer d' remote where q: "checkout_plan cfg code d = Inr p"
      "configured_price_id cfg code = Some price" "lock_active_user u d = Inr owner"
      "prepare_attempt cfg ctx (\<lambda>d. d) b p (sha key) d = (Inr (c, s, customer), d')"
      "co_status c = CHECKOUT_PENDING" "k = ''spike_checkout_'' @ uuid_str (co_id c)"
      "params = build_checkout_params cfg c s code price (email owner) customer (ck_now ctx)"
    and r: "cfg_stripe_enabled cfg" "gw_retrieve_price gw price = Inr remote" "validate_checkout_price remote price p"
    using assms(2) by (auto simp: checkout_request_def split: sum.splits option.splits prod.splits if_splits)
  have "gw_create_checkout_session gw (build_checkout_params cfg c s code price (email owner) customer (ck_now ctx))
      (''spike_checkout_'' @ uuid_str (co_id c)) = Inl StripeGatewayError"
    using assms(4) q(6,7) by simp
  then have d1: "d1 = d'"
    using assms(1) q(1-5) r by (auto simp: create_checkout_def)
  have none: "attempt_of_key b (sha key) (expire_attempts xs d) = None" for xs
    using assms(3) by (auto simp: attempt_of_key_def scope_one_def row_where_None_iff expire_attempts_def set_update_where)
  have "users d1 = users d" "plans d1 = plans d"
    unfolding d1 by (rule prepare_attempt_new [OF q(4) none assms(3)], assumption)+
  then have "checkout_plan cfg code d1 = Inr p" "lock_active_user u d1 = Inr owner"
    using q(1,3) by (simp_all add: checkout_plan_def lock_active_user_def)
  moreover obtain s' customer' where "prepare_attempt cfg ctx' env b p (sha key) d1 = (Inr (c, s', customer'), d1)"
    using prepare_attempt_again [OF q(4) assms(3,7), of env] d1 by auto
  moreover have "build_checkout_params cfg c s' code price (email owner) customer' (ck_now ctx') \<noteq> params"
    unfolding q(7) by (rule params_differ [OF assms(8)])
  ultimately show ?thesis
    using q(2,5,6) r assms(5,6) by (auto simp: create_checkout_def refuses_other_parameters_def)
qed

lemma bex_update_where:
  "(\<exists>x \<in> set (update_where P f t). Q x) \<longleftrightarrow> (\<exists>x \<in> set t. Q (if P x then f x else x))"
  by (induction t) auto

lemma record_answer_InrD:
  assumes "record_answer fl b c remote d = (Inr c', d')" and "co_status c = CHECKOUT_PENDING"
  shows "co_id c' = co_id c" and "co_status c' = CHECKOUT_OPEN" and "checkout_table_ok d'"
    and "\<forall>x \<in> set (checkout_sessions d'). co_id x = co_id c \<longrightarrow> co_status x = CHECKOUT_OPEN"
    and "\<exists>x \<in> set (checkout_sessions d'). co_id x = co_id c \<and> co_business_id x = b"
proof -
  obtain i url t x0 where r: "c' = opened_attempt i url t c" "d' = flush_checkout c c' d" "checkout_table_ok d'"
    and x0: "scope_one co_business_id b (\<lambda>x. co_id x = co_id c) (checkout_sessions d) = Some x0"
    using assms(1) by (auto simp: record_answer_def Let_def settle_def split: sum.splits option.splits if_splits)
  show "co_id c' = co_id c" "co_status c' = CHECKOUT_OPEN" "checkout_table_ok d'"
    using r assms(2) by (simp_all add: opened_attempt_def)
  then show "\<forall>x \<in> set (checkout_sessions d'). co_id x = co_id c \<longrightarrow> co_status x = CHECKOUT_OPEN"
    using assms(2) by (auto simp: r(2) flush_checkout_def set_update_where)
  have "co_id x0 = co_id c" "co_business_id x0 = b" "x0 \<in> set (checkout_sessions d)"
    using scope_one_SomeD [OF x0] by simp_all
  then show "\<exists>x \<in> set (checkout_sessions d'). co_id x = co_id c \<and> co_business_id x = b"
    unfolding r(2) flush_checkout_def by (auto simp: bex_update_where)
qed

lemma create_checkout_sent:
  assumes "create_checkout cfg fl sha gw ctx env answered b u code key d = (Inr c', d')"
  obtains p price owner c s customer d1 where "checkout_plan cfg code d = Inr p" "configured_price_id cfg code = Some price"
    "lock_active_user u d = Inr owner" "\<exists>remote. gw_retrieve_price gw price = Inr remote \<and> validate_checkout_price remote price p"
    "prepare_attempt cfg ctx env b p (sha key) d = (Inr (c, s, customer), d1)"
    "co_status c = CHECKOUT_PENDING \<Longrightarrow> \<exists>remote. record_answer fl b c remote (answered d1) = (Inr c', d')"
    "co_status c \<noteq> CHECKOUT_PENDING \<Longrightarrow> c' = c \<and> d' = d1"
  using assms
  by (auto simp: create_checkout_def split: sum.splits option.splits prod.splits if_splits intro: that)

text \<open>
  A Checkout session is opened only for what the platform sells and only once: the Stripe price is
  the one of the public plan, the current subscription of the business is not paid by Stripe and has no
  completed attempt with a Stripe subscription, and afterwards the new attempt is the only open one of
  the business.
\<close>

theorem checkout_opens_once:
  assumes "create_checkout cfg fl sha gw ctx (\<lambda>d. d) (\<lambda>d. d) b u code key d = (Inr c, d')"
    and "attempt_of_key b (sha key) d = None" and "checkout_table_ok d"
  shows "(\<exists>p price remote. checkout_plan cfg code d = Inr p \<and> configured_price_id cfg code = Some price
        \<and> gw_retrieve_price gw price = Inr remote \<and> validate_checkout_price remote price p)
    \<and> (\<forall>s. current_paid_subscription b d = Some s \<longrightarrow> sub_stripe_subscription_id s = None
         \<and> (\<forall>x \<in> set (checkout_sessions d). co_business_id x = b \<and> co_subscription_id x = sub_id s
              \<and> co_status x = CHECKOUT_COMPLETE \<longrightarrow> co_stripe_subscription_id x = None))
    \<and> (\<forall>x \<in> set (checkout_sessions d'). co_business_id x = b \<and> checkout_is_open x \<longrightarrow> co_id x = co_id c)"
proof -
  obtain p price c0 s customer d1 where p: "checkout_plan cfg code d = Inr p" "configured_price_id cfg code = Some price"
      "\<exists>remote. gw_retrieve_price gw price = Inr remote \<and> validate_checkout_price remote price p"
    and prep: "prepare_attempt cfg ctx (\<lambda>d. d) b p (sha key) d = (Inr (c0, s, customer), d1)"
    and sent: "co_status c0 = CHECKOUT_PENDING \<Longrightarrow> \<exists>remote. record_answer fl b c0 remote d1 = (Inr c, d')"
    by (rule create_checkout_sent [OF assms(1)]) blast
  have none: "attempt_of_key b (sha key) (expire_attempts xs d) = None" for xs
    using assms(2) by (auto simp: attempt_of_key_def scope_one_def row_where_None_iff expire_attempts_def set_update_where)
  let ?stale = "stale_attempts b (ck_now ctx) d"
  obtain current where new: "c0 = pending_checkout cfg ctx b s p (sha key)"
    and cur: "current = current_paid_subscription b (expire_attempts ?stale d)"
      "\<And>s0. current = Some s0 \<Longrightarrow> sub_stripe_subscription_id s0 = None"
      "\<And>s0. current = Some s0 \<Longrightarrow> paid_attempt b s0 (expire_attempts ?stale d) = None"
    by (rule prepare_attempt_new [OF prep none assms(2)]) blast
  have pending: "co_status c0 = CHECKOUT_PENDING" by (simp add: new pending_checkout_def)
  then obtain remote where r: "record_answer fl b c0 remote d1 = (Inr c, d')" using sent by blast
  note a = record_answer_InrD [OF r pending]
  have only: "co_id x = co_id c" if "x \<in> set (checkout_sessions d')" "co_business_id x = b" "checkout_is_open x" for x
  proof -
    obtain y where y: "y \<in> set (checkout_sessions d')" "co_id y = co_id c0" "co_business_id y = b" using a(5) by blast
    then have "checkout_is_open y" using a(4) by (simp add: checkout_is_open_def)
    with y that have "x = y" using new_attempt_found(2) [OF a(3) y(1,3), of x] by blast
    with y a(1) show ?thesis by simp
  qed
  have unpaid: "co_stripe_subscription_id x = None"
    if "current_paid_subscription b d = Some s0" "x \<in> set (checkout_sessions d)" "co_business_id x = b"
      "co_subscription_id x = sub_id s0" "co_status x = CHECKOUT_COMPLETE" for s0 x
  proof -
    have "co_id x \<notin> set ?stale"
    proof
      assume "co_id x \<in> set ?stale"
      then obtain y where y: "y \<in> set (checkout_sessions d)" "co_id y = co_id x" "checkout_is_open y"
        by (auto simp: stale_attempts_def scope_select_def)
      then have "y = x" using assms(3) that(2) unique_onD unfolding checkout_table_ok_def by metis
      with y(3) that(5) show False by (simp add: checkout_is_open_def)
    qed
    then have "x \<in> set (checkout_sessions (expire_attempts ?stale d))"
      using that(2) by (auto simp: expire_attempts_def set_update_where)
    moreover have "paid_attempt b s0 (expire_attempts ?stale d) = None"
      using cur that(1) by (simp add: current_paid_subscription_def expire_attempts_def)
    ultimately show ?thesis
      using that by (auto simp: paid_attempt_def scope_one_def row_where_None_iff is_null_iff)
  qed
  have "sub_stripe_subscription_id s0 = None" if "current_paid_subscription b d = Some s0" for s0
    using cur that by (simp add: current_paid_subscription_def expire_attempts_def)
  with p only unpaid show ?thesis by blast
qed

text \<open>
  C27: a late answer overwrites a completed attempt: the request that asked Stripe holds the attempt as it
  was before, so when its answer is recorded the row ends open, also where a webhook has completed it in
  the meantime.
\<close>

theorem late_answer_reopens_checkout:
  assumes "create_checkout cfg fl sha gw ctx env answered b u code key d = (Inr c', d')"
    and "checkout_request cfg sha gw ctx env b u code key d = Some (k, params)"
  shows "co_status c' = CHECKOUT_OPEN \<and> (\<forall>x \<in> set (checkout_sessions d'). co_id x = co_id c' \<longrightarrow> co_status x = CHECKOUT_OPEN)"
proof -
  obtain p price owner c s customer d1 where q: "checkout_plan cfg code d = Inr p" "configured_price_id cfg code = Some price"
    "lock_active_user u d = Inr owner" "prepare_attempt cfg ctx env b p (sha key) d = (Inr (c, s, customer), d1)"
    "co_status c = CHECKOUT_PENDING \<Longrightarrow> \<exists>remote. record_answer fl b c remote (answered d1) = (Inr c', d')"
    by (rule create_checkout_sent [OF assms(1)]) blast
  have "co_status c = CHECKOUT_PENDING"
    using assms(2) q(1-4) by (auto simp: checkout_request_def split: sum.splits if_splits)
  then show ?thesis using q(5) record_answer_InrD by metis
qed

section \<open>Concrete runs\<close>

definition sample_paid :: subscription where
  "sample_paid = sample_subscription\<lparr> sub_stripe_customer_id := Some ''cus'', sub_stripe_subscription_id := Some ''sub'' \<rparr>"

definition sample_paid_db :: db where
  "sample_paid_db = sample_db\<lparr> subscriptions := [sample_paid] \<rparr>"

definition sample_invoice :: "string \<Rightarrow> stripe_object" where
  "sample_invoice status = [(''id'', JStr ''in''), (''customer'', JStr ''cus''), (''status'', JStr status),
     (''currency'', JStr ''usd''), (''subtotal'', JInt 5), (''total'', JInt 5), (''amount_due'', JInt 5),
     (''amount_paid'', JInt 0), (''amount_remaining'', JInt 5), (''created'', JInt 100)]"

definition sample_values :: "invoice_status \<Rightarrow> time \<Rightarrow> invoice_values" where
  "sample_values st t = \<lparr> iv_subscription_id = 20, iv_business_id = 10, iv_customer = ''cus'', iv_number = None,
     iv_status = st, iv_currency = ''USD'', iv_subtotal = 5, iv_total = 5, iv_amount_due = 5,
     iv_amount_paid = 0, iv_amount_remaining = 5, iv_created = seconds 100, iv_period_start = None,
     iv_period_end = None, iv_paid_at = None, iv_hosted_url = None, iv_pdf_url = None,
     iv_event_created_at = t, iv_event_id = ''e'' \<rparr>"

lemma sample_upper: "py_upper ''usd'' = ''USD''"
  by code_simp

lemma sample_invoice_values:
  "invoice_event_values fl sample_paid (sample_invoice ''open'') ''e'' t = Inr (sample_values INVOICE_OPEN t)"
  "invoice_event_values fl sample_paid (sample_invoice ''paid'') ''e'' t = Inr (sample_values INVOICE_PAID t)"
  "required_string ''id'' (sample_invoice st) = Inr ''in''"
  by (simp_all add: invoice_event_values_def invoice_status_of_def invoice_values_of_def sample_invoice_def sample_paid_def
      sample_values_def sample_subscription_def optional_string_def required_string_def get_def parse_invoice_status_def
      sample_upper stripe_integer_def stripe_datetime_def)

lemma sample_unmirrored: "mirrored ''in'' sample_paid_db = None" "belongs_to sample_paid ''in'' sample_paid_db"
  by (simp_all add: belongs_to_def mirrored_def invoice_by_stripe_id_def sample_paid_db_def sample_db_def empty_db_def)

theorem invoice_mirror_refines_register_witness:
  "\<exists>r d'. upsert_invoice (\<lambda>_. None) (\<lambda>d. d) 70 (sample_invoice ''open'') sample_paid ''e'' 7 sample_paid_db = Inr (r, d')
     \<and> mirrored ''in'' d' = Some (sample_values INVOICE_OPEN 7)"
  using invoice_mirror_refines_register [where env = "\<lambda>d. d" and row_id = 70, OF sample_invoice_values(3)
      sample_invoice_values(1) [of "\<lambda>_. None" 7] sample_unmirrored(2) sample_unmirrored(2)] sample_unmirrored(1)
  by simp

definition sample_open_event :: invoice_event where
  "sample_open_event = \<lparr> ie_row_id = 70, ie_invoice = sample_invoice ''open'', ie_event_id = ''e'', ie_created = 7 \<rparr>"

definition sample_paid_event :: invoice_event where
  "sample_paid_event = \<lparr> ie_row_id = 71, ie_invoice = sample_invoice ''paid'', ie_event_id = ''e'', ie_created = 7 \<rparr>"

lemma sample_events:
  "event_values fl sample_paid sample_open_event = Inr (sample_values INVOICE_OPEN 7)"
  "event_values fl sample_paid sample_paid_event = Inr (sample_values INVOICE_PAID 7)"
  "is_event_of fl sample_paid ''in'' sample_open_event" "is_event_of fl sample_paid ''in'' sample_paid_event"
  by (simp_all add: event_values_def is_event_of_def sample_open_event_def sample_paid_event_def sample_invoice_values)


section \<open>A deleted subscription with an unknown price\<close>

definition sample_billing :: billing_settings where
  "sample_billing = \<lparr> cfg_app_env = TEST, cfg_stripe_enabled = True, cfg_premium_price = Some ''price'',
     cfg_pro_price = Some ''price_pro'', cfg_success_url = ''s'', cfg_cancel_url = ''c'',
     cfg_checkout_session_minutes = 60 \<rparr>"

definition sample_snapshot :: stripe_object where
  "sample_snapshot = [(''id'', JStr ''sub''), (''customer'', JStr ''cus''),
     (''items'', JDict [(''data'', JList [JDict [(''price'', JStr ''old'')]])])]"

definition sample_deleted :: stripe_object where
  "sample_deleted = [(''id'', JStr ''e''), (''type'', JStr ''customer.subscription.deleted''), (''created'', JInt 7),
     (''livemode'', JBool False), (''data'', JDict [(''object'', JDict sample_snapshot)])]"

definition sample_header :: event_header where
  "sample_header = \<lparr> eh_id = ''e'', eh_type = ''customer.subscription.deleted'', eh_created = seconds 7,
     eh_livemode = False, eh_object_id = Some ''sub'', eh_object = sample_snapshot \<rparr>"

definition sample_delivery :: webhook_context where
  "sample_delivery = \<lparr> wh_row_id = 80, wh_claimed = 1, wh_invoice_id = 81, wh_synced = 2, wh_completed = 3,
     wh_processed = 4 \<rparr>"

lemma sample_header_read: "event_header_of sample_billing fl sample_deleted = Inr sample_header"
  by (simp add: event_header_of_def sample_deleted_def sample_header_def sample_billing_def sample_snapshot_def
      required_string_def get_def stripe_datetime_def optional_string_def)

lemma sample_item: "subscription_item_details fl sample_snapshot = Inr (''old'', None, None)"
  by (simp add: subscription_item_details_def sample_snapshot_def get_def get_default_def optional_string_def stripe_datetime_def)

lemma sample_delivered:
  obtains d' where "process_webhook sample_billing fl gw env sample_delivery sample_deleted sample_paid_db
    = (Inr (False, WEBHOOK_PROCESSED), d')"
proof -
  have sync: "sync_subscription sample_billing fl ctx sample_snapshot d = Inr (Some s', delete_trial_entitlements s' (save_subscription s' d))"
    if "row_where (\<lambda>s. sub_stripe_subscription_id s = Some ''sub'') (subscriptions d) = Some s"
      "closed_subscription fl ctx ''sub'' ''cus'' ''old'' sample_snapshot s = Inr s'" for d s s' ctx
    using that by (simp add: sync_subscription_def sample_snapshot_def required_string_def get_def optional_string_def metadata_of_def
      subscription_item_details_def get_default_def stripe_datetime_def validate_existing_metadata_def
      configured_plan_code_for_price_def configured_price_id_def sample_billing_def fail_closed_def)
  let ?c = "\<lparr> sy_event_id = Some ''e'', sy_event_created_at = Some (seconds 7), sy_synced = 2, sy_completed = 3 \<rparr>"
  obtain s' where s': "closed_subscription fl ?c ''sub'' ''cus'' ''old'' sample_snapshot sample_paid = Inr s'"
    by (simp add: closed_subscription_def sample_snapshot_def get_def stripe_datetime_def)
  let ?d1 = "sample_paid_db\<lparr> webhook_events := [\<lparr> ev_id = 80, stripe_event_id = ''e'',
      event_type = ''customer.subscription.deleted'', object_id = Some ''sub'', ev_stripe_created_at = seconds 7,
      livemode = False, ev_result = WEBHOOK_IGNORED, processed_at = 1 \<rparr>] \<rparr>"
  have claim: "claim_event sample_delivery sample_header sample_paid_db = Some ?d1"
    by (simp add: claim_event_def sample_delivery_def sample_header_def sample_paid_db_def sample_db_def empty_db_def insert_row_def)
  let ?d2 = "delete_trial_entitlements s' (save_subscription s' ?d1)"
  have "sync_subscription sample_billing fl ?c sample_snapshot ?d1 = Inr (Some s', ?d2)"
    by (rule sync [OF _ s']) (simp add: sample_paid_db_def sample_paid_def)
  then have run: "run_event sample_billing fl gw env sample_delivery (eh_type sample_header) (eh_id sample_header)
      (eh_created sample_header) (eh_object sample_header) ?d1 = Inr (WEBHOOK_PROCESSED, ?d2)"
    by (simp add: run_event_def event_snapshot_def sample_header_def SUBSCRIPTION_EVENTS_def sample_delivery_def)
  note f = closed_subscription_fields [OF s']
  have "trial_ends_at s' = None" "current_period_ends_at s' = None" "sub_stripe_subscription_id s' = Some ''sub''"
    using s' by (auto simp: closed_subscription_def mark_event_def sample_snapshot_def get_def stripe_datetime_def
        split: option.splits)
  then have "billing_tables_ok (finish_event sample_delivery WEBHOOK_PROCESSED ?d2)"
    using f by (simp add: billing_tables_ok_def finish_event_def delete_trial_entitlements_def save_subscription_def
        sample_paid_db_def sample_db_def empty_db_def table_ok_defs check_defs unique_on_def unique_where_def
        unique_nullable_def sample_paid_def sample_subscription_def sample_entitlement_def)
  with claim run sample_header_read show thesis
    by (intro that [of "finish_event sample_delivery WEBHOOK_PROCESSED ?d2"])
      (simp add: process_webhook_def settle_def sample_delivery_def delete_trial_entitlements_def save_subscription_def)
qed

definition sample_stripe :: stripe_gateway where
  "sample_stripe = \<lparr> gw_retrieve_price = (\<lambda>p. Inr [(''id'', JStr p), (''object'', JStr ''price''), (''active'', JBool True),
       (''type'', JStr ''recurring''), (''billing_scheme'', JStr ''per_unit''), (''currency'', JStr ''usd''),
       (''unit_amount'', JInt 900), (''recurring'', JDict [(''interval'', JStr ''month''),
         (''interval_count'', JInt 1), (''usage_type'', JStr ''licensed'')])]),
     gw_create_checkout_session = (\<lambda>_ _. Inr [(''id'', JStr ''cs''), (''url'', JStr ''u''), (''expires_at'', JInt 9)]),
     gw_update_subscription = (\<lambda>_ _ _. Inl StripeGatewayError),
     gw_retrieve_subscription = (\<lambda>_. Inl StripeGatewayError) \<rparr>"

theorem webhook_event_applied_once_witness:
  "\<exists>d'. process_webhook sample_billing (\<lambda>_. None) sample_stripe (\<lambda>d. d) sample_delivery sample_deleted sample_paid_db
        = (Inr (False, WEBHOOK_PROCESSED), d')
     \<and> process_webhook sample_billing (\<lambda>_. None) sample_stripe (\<lambda>d. d) sample_delivery sample_deleted d'
        = (Inr (True, WEBHOOK_IGNORED), d')"
proof -
  obtain d' where p: "process_webhook sample_billing (\<lambda>_. None) sample_stripe (\<lambda>d. d) sample_delivery sample_deleted sample_paid_db
        = (Inr (False, WEBHOOK_PROCESSED), d')"
    by (rule sample_delivered)
  have "keeps_events (\<lambda>d. d)" by (simp add: keeps_events_def)
  with webhook_event_applied_once [OF p] p show ?thesis by blast
qed

theorem unknown_price_fails_closed_witness:
  "\<exists>d'. process_webhook sample_billing (\<lambda>_. None) sample_stripe (\<lambda>d. d) sample_delivery sample_deleted sample_paid_db
        = (Inr (False, WEBHOOK_PROCESSED), d')
     \<and> require d' 10 DASHBOARDS 0 5 = Inl (SubscriptionInactiveError ''subscription_incomplete'')"
proof -
  obtain d' where p: "process_webhook sample_billing (\<lambda>_. None) sample_stripe (\<lambda>d. d) sample_delivery sample_deleted sample_paid_db
        = (Inr (False, WEBHOOK_PROCESSED), d')"
    by (rule sample_delivered)
  have row: "row_where (\<lambda>x. sub_stripe_subscription_id x = Some ''sub'') (subscriptions sample_paid_db) = Some sample_paid"
    and price: "configured_plan_code_for_price sample_billing ''old'' = None"
    and snap: "event_snapshot sample_stripe (eh_type sample_header) (eh_object sample_header) = Inr sample_snapshot"
      "eh_type sample_header \<in> set SUBSCRIPTION_EVENTS" "required_string ''id'' sample_snapshot = Inr ''sub''"
    by (simp_all add: sample_paid_db_def sample_paid_def configured_plan_code_for_price_def configured_price_id_def
        sample_billing_def event_snapshot_def sample_header_def SUBSCRIPTION_EVENTS_def sample_snapshot_def
        required_string_def get_def)
  have "sub_business_id sample_paid = 10" by (simp add: sample_paid_def sample_subscription_def)
  with unknown_price_fails_closed [OF p sample_header_read snap(2,1,3) row sample_item price, of 0 DASHBOARDS 5] p
  show ?thesis by auto
qed

section \<open>A Checkout session\<close>

definition sample_plan :: plan where
  "sample_plan = \<lparr> plan_id = 90, plan_code = ''premium'', plan_name = ''P'', plan_description = None,
     monthly_price_cents = Some 900, plan_currency = ''USD'', is_custom_pricing = False, plan_is_active = True,
     plan_is_public = True, sort_order = 1 \<rparr>"

definition sample_shop :: db where
  "sample_shop = sample_db\<lparr> plans := [sample_plan] \<rparr>"

definition sample_checkout :: checkout_context where
  "sample_checkout = \<lparr> ck_now = 0, ck_subscription_id = 95, ck_checkout_id = 96, ck_created = 0, ck_rejected_now = 0 \<rparr>"

definition sample_attempt :: billing_checkout_session where
  "sample_attempt = pending_checkout sample_billing sample_checkout 10 sample_subscription sample_plan ''key''"

definition sample_attempted :: db where
  "sample_attempted = sample_shop\<lparr> checkout_sessions := [sample_attempt] \<rparr>"

lemma sample_prepared:
  "prepare_attempt sample_billing sample_checkout (\<lambda>d. d) 10 sample_plan ''key'' sample_shop
     = (Inr (sample_attempt, sample_subscription, None), sample_attempted)"
proof -
  have cur: "current_paid_subscription 10 sample_shop = Some sample_subscription"
    unfolding current_paid_subscription_def scope_latest_def
    by (rule latest_where_single)
      (simp add: sample_shop_def sample_db_def sample_subscription_def is_current_def CURRENT_SUBSCRIPTION_STATUSES_def)
  have stale: "stale_attempts 10 0 sample_shop = []"
    by (simp add: stale_attempts_def scope_select_def rows_where_def sample_shop_def sample_db_def empty_db_def)
  have none: "attempt_of_key 10 k sample_shop = None" "open_attempt 10 sample_shop = None" "paid_attempt 10 s sample_shop = None"
      "latest_customer_id 10 sample_shop = None" for k s
    by (simp_all add: attempt_of_key_def open_attempt_def paid_attempt_def scope_one_def scope_latest_def latest_customer_id_def
        latest_where_def sample_shop_def sample_db_def empty_db_def sample_subscription_def)
  have ok: "subscription_table_ok sample_shop" "checkout_table_ok sample_attempted"
    by (simp_all add: sample_attempted_def sample_attempt_def pending_checkout_def sample_shop_def sample_db_def empty_db_def
        table_ok_defs check_defs unique_on_def unique_where_def unique_nullable_def sample_subscription_def)
  have ins: "insert_row sample_attempt (checkout_sessions sample_shop) = [sample_attempt]"
    by (simp add: sample_shop_def sample_db_def empty_db_def insert_row_def)
  show ?thesis
    using ok ins unfolding prepare_attempt_def insert_attempt_def
    by (simp add: cur stale none sample_checkout_def [THEN arg_cong, of ck_now] sample_subscription_def [THEN arg_cong, of sub_stripe_subscription_id]
        sample_attempt_def [symmetric] sample_attempted_def)
qed

lemma sample_shop_facts:
  "checkout_plan sample_billing PREMIUM sample_shop = Inr sample_plan"
  "configured_price_id sample_billing PREMIUM = Some ''price''"
  "lock_active_user 1 sample_shop = Inr sample_user"
  "attempt_of_key 10 (id ''key'') sample_shop = None" "checkout_table_ok sample_shop"
  "co_status sample_attempt = CHECKOUT_PENDING"
  by (simp_all add: checkout_plan_def sample_shop_def sample_plan_def configured_price_id_def sample_billing_def
      lock_active_user_def sample_db_def sample_user_def attempt_of_key_def scope_one_def empty_db_def checkout_table_ok_def
      unique_on_def unique_where_def unique_nullable_def sample_attempt_def pending_checkout_def)

lemma sample_price: "\<exists>remote. gw_retrieve_price sample_stripe ''price'' = Inr remote \<and> validate_checkout_price remote ''price'' sample_plan"
proof -
  have "py_upper ''USD'' = ''USD''" by code_simp
  then show ?thesis
    by (simp add: sample_stripe_def validate_checkout_price_def get_def sample_plan_def sample_upper equals_one_def)
qed

definition sample_opened :: "billing_checkout_session" where
  "sample_opened = opened_attempt ''cs'' ''u'' (seconds 9) sample_attempt"

lemma sample_answer:
  assumes "checkout_sessions d = [x]" and "co_id x = 96" and "co_business_id x = 10"
    and "checkout_table_ok (flush_checkout sample_attempt sample_opened d)"
  shows "record_answer fl 10 sample_attempt [(''id'', JStr ''cs''), (''url'', JStr ''u''), (''expires_at'', JInt 9)] d
    = (Inr sample_opened, flush_checkout sample_attempt sample_opened d)"
  using assms by (simp add: record_answer_def checkout_answer_def required_string_def get_def stripe_datetime_def
      scope_one_def sample_attempt_def pending_checkout_def sample_checkout_def sample_opened_def settle_def Let_def)

lemma sample_flush_ok:
  "checkout_table_ok (flush_checkout sample_attempt sample_opened
     (sample_attempted\<lparr> checkout_sessions := [sample_attempt\<lparr> co_status := st \<rparr>] \<rparr>))"
  by (simp add: flush_checkout_def sample_attempted_def sample_shop_def sample_db_def empty_db_def sample_opened_def
      opened_attempt_def sample_attempt_def pending_checkout_def checkout_table_ok_def unique_on_def unique_where_def
      unique_nullable_def sample_subscription_def)

lemma sample_created:
  assumes "answered = (\<lambda>d. d\<lparr> checkout_sessions := [sample_attempt\<lparr> co_status := st \<rparr>] \<rparr>)"
  obtains d' where "create_checkout sample_billing fl id sample_stripe sample_checkout (\<lambda>d. d) answered 10 1 PREMIUM ''key''
    sample_shop = (Inr sample_opened, d')"
proof -
  have "record_answer fl 10 sample_attempt [(''id'', JStr ''cs''), (''url'', JStr ''u''), (''expires_at'', JInt 9)]
      (answered sample_attempted) = (Inr sample_opened, flush_checkout sample_attempt sample_opened (answered sample_attempted))"
    by (rule sample_answer) (simp_all add: assms sample_flush_ok, simp_all add: sample_attempt_def pending_checkout_def sample_checkout_def)
  moreover obtain remote where "gw_retrieve_price sample_stripe ''price'' = Inr remote" "validate_checkout_price remote ''price'' sample_plan"
    using sample_price by blast
  ultimately show thesis
    using that sample_shop_facts sample_prepared
    by (simp add: create_checkout_def sample_stripe_def [THEN arg_cong, of gw_create_checkout_session]
        sample_billing_def [THEN arg_cong, of cfg_stripe_enabled])
qed

lemma sample_request:
  "\<exists>k params. checkout_request sample_billing id sample_stripe sample_checkout (\<lambda>d. d) 10 1 PREMIUM ''key'' sample_shop = Some (k, params)"
proof -
  obtain remote where "gw_retrieve_price sample_stripe ''price'' = Inr remote" "validate_checkout_price remote ''price'' sample_plan"
    using sample_price by blast
  then show ?thesis
    using sample_shop_facts sample_prepared
    by (simp add: checkout_request_def sample_billing_def [THEN arg_cong, of cfg_stripe_enabled])
qed

theorem late_answer_reopens_checkout_witness:
  "\<exists>d'. create_checkout sample_billing (\<lambda>_. None) id sample_stripe sample_checkout (\<lambda>d. d)
       (\<lambda>d. d\<lparr> checkout_sessions := [sample_attempt\<lparr> co_status := CHECKOUT_COMPLETE \<rparr>] \<rparr>) 10 1 PREMIUM ''key'' sample_shop
       = (Inr sample_opened, d') \<and> co_status sample_opened = CHECKOUT_OPEN"
proof -
  obtain d' where c: "create_checkout sample_billing (\<lambda>_. None) id sample_stripe sample_checkout (\<lambda>d. d)
       (\<lambda>d. d\<lparr> checkout_sessions := [sample_attempt\<lparr> co_status := CHECKOUT_COMPLETE \<rparr>] \<rparr>) 10 1 PREMIUM ''key'' sample_shop
       = (Inr sample_opened, d')"
    by (rule sample_created [OF refl])
  obtain k params where "checkout_request sample_billing id sample_stripe sample_checkout (\<lambda>d. d) 10 1 PREMIUM ''key'' sample_shop
      = Some (k, params)"
    using sample_request by blast
  from late_answer_reopens_checkout [OF c this] c show ?thesis by blast
qed

theorem checkout_opens_once_witness:
  "\<exists>d'. create_checkout sample_billing (\<lambda>_. None) id sample_stripe sample_checkout (\<lambda>d. d) (\<lambda>d. d) 10 1 PREMIUM ''key'' sample_shop
       = (Inr sample_opened, d')
     \<and> (\<forall>x \<in> set (checkout_sessions d'). co_business_id x = 10 \<and> checkout_is_open x \<longrightarrow> co_id x = co_id sample_opened)"
proof -
  have "record_answer (\<lambda>_. None) 10 sample_attempt [(''id'', JStr ''cs''), (''url'', JStr ''u''), (''expires_at'', JInt 9)]
      sample_attempted = (Inr sample_opened, flush_checkout sample_attempt sample_opened sample_attempted)"
    using sample_flush_ok [of CHECKOUT_PENDING]
    by (intro sample_answer [of _ sample_attempt]) (simp_all add: sample_attempted_def sample_attempt_def pending_checkout_def sample_checkout_def)
  moreover obtain remote where "gw_retrieve_price sample_stripe ''price'' = Inr remote" "validate_checkout_price remote ''price'' sample_plan"
    using sample_price by blast
  ultimately obtain d' where c: "create_checkout sample_billing (\<lambda>_. None) id sample_stripe sample_checkout (\<lambda>d. d) (\<lambda>d. d)
      10 1 PREMIUM ''key'' sample_shop = (Inr sample_opened, d')"
    using sample_shop_facts sample_prepared
    by (simp add: create_checkout_def sample_stripe_def [THEN arg_cong, of gw_create_checkout_session]
        sample_billing_def [THEN arg_cong, of cfg_stripe_enabled])
  from checkout_opens_once [OF c sample_shop_facts(4,5)] c show ?thesis by blast
qed

definition sample_down :: stripe_gateway where
  "sample_down = sample_stripe\<lparr> gw_create_checkout_session := \<lambda>_ _. Inl StripeGatewayError \<rparr>"

definition sample_strict :: "stripe_object \<Rightarrow> stripe_gateway" where
  "sample_strict params = sample_stripe\<lparr> gw_create_checkout_session := \<lambda>params' k. if params' = params
     then Inr [(''id'', JStr ''cs''), (''url'', JStr ''u''), (''expires_at'', JInt 9)] else Inl StripeGatewayError \<rparr>"

theorem lost_answer_blocks_retry_witness:
  "\<exists>k params. checkout_request sample_billing id sample_down sample_checkout (\<lambda>d. d) 10 1 PREMIUM ''key'' sample_shop = Some (k, params)
     \<and> create_checkout sample_billing (\<lambda>_. None) id sample_down sample_checkout (\<lambda>d. d) (\<lambda>d. d) 10 1 PREMIUM ''key'' sample_shop
         = (Inl StripeGatewayError, sample_attempted)
     \<and> create_checkout sample_billing (\<lambda>_. None) id (sample_strict params) (sample_checkout\<lparr> ck_now := seconds 5 \<rparr>)
         (\<lambda>d. d) (\<lambda>d. d) 10 1 PREMIUM ''key'' sample_attempted = (Inl StripeGatewayError, sample_attempted)"
proof -
  obtain remote where price: "gw_retrieve_price sample_stripe ''price'' = Inr remote" "validate_checkout_price remote ''price'' sample_plan"
    using sample_price by blast
  then obtain k params where req: "checkout_request sample_billing id sample_down sample_checkout (\<lambda>d. d) 10 1 PREMIUM ''key'' sample_shop
      = Some (k, params)"
    using sample_shop_facts sample_prepared
    by (simp add: checkout_request_def sample_down_def sample_billing_def [THEN arg_cong, of cfg_stripe_enabled])
  have first: "create_checkout sample_billing (\<lambda>_. None) id sample_down sample_checkout (\<lambda>d. d) (\<lambda>d. d) 10 1 PREMIUM ''key'' sample_shop
      = (Inl StripeGatewayError, sample_attempted)"
    using price sample_shop_facts sample_prepared
    by (simp add: create_checkout_def sample_down_def sample_billing_def [THEN arg_cong, of cfg_stripe_enabled])
  have "create_checkout sample_billing (\<lambda>_. None) id (sample_strict params) (sample_checkout\<lparr> ck_now := seconds 5 \<rparr>)
         (\<lambda>d. d) (\<lambda>d. d) 10 1 PREMIUM ''key'' sample_attempted = (Inl StripeGatewayError, sample_attempted)"
    by (rule lost_answer_blocks_retry [OF first req sample_shop_facts(4)])
      (simp_all add: sample_down_def sample_strict_def refuses_other_parameters_def sample_checkout_def sample_billing_def
        duration_defs unix_seconds_def)
  with req first show ?thesis by blast
qed

end
