(* ===== verification/Json_Text.thy ===== *)
theory Json_Text
  imports Stripe_Values
begin

text \<open>
  JSON text as the code writes it: \<open>json.dumps(value, ensure_ascii=False, allow_nan=False, separators=(",", ":"),
  sort_keys=True)\<close>, and the reading and writing of keys.
\<close>

section \<open>Rendering\<close>

definition json_escape :: "char \<Rightarrow> string" where
  "json_escape c =
     (if c = CHR 0x22 \<or> c = CHR 0x5C then [CHR 0x5C, c]
      else if c = CHR 0x0A then [CHR 0x5C, CHR ''n'']
      else if c = CHR 0x0D then [CHR 0x5C, CHR ''r'']
      else if c = CHR 0x09 then [CHR 0x5C, CHR ''t'']
      else if c = CHR 0x0C then [CHR 0x5C, CHR ''f'']
      else if c = CHR 0x08 then [CHR 0x5C, CHR ''b'']
      else if (of_char c :: nat) < 32 then [CHR 0x5C, CHR ''u''] @ hex_digits 4 (of_char c)
      else [c])"

definition json_text_string :: "string \<Rightarrow> string" where
  "json_text_string s = [CHR 0x22] @ concat (map json_escape s) @ [CHR 0x22]"

fun all_some :: "'a option list \<Rightarrow> 'a list option" where
  "all_some [] = Some []"
| "all_some (None # xs) = None"
| "all_some (Some x # xs) = map_option (\<lambda>ys. x # ys) (all_some xs)"

text \<open>\<open>None\<close> is the \<open>ValueError\<close> of an infinity or NaN.\<close>

fun json_render :: "json \<Rightarrow> string option" where
  "json_render JNull = Some ''null''"
| "json_render (JBool b) = Some (if b then ''true'' else ''false'')"
| "json_render (JInt n) = Some (int_str n)"
| "json_render (JFloat s) = s"
| "json_render (JStr s) = Some (json_text_string s)"
| "json_render (JList xs) =
     map_option (\<lambda>rs. ''['' @ join_with '','' rs @ '']'') (all_some (map json_render xs))"
| "json_render (JDict kvs) =
     map_option (\<lambda>rs. ''{'' @ join_with '',''
         (map (\<lambda>(k, r). json_text_string k @ '':'' @ r) (sort_key fst rs)) @ ''}'')
       (all_some (map (\<lambda>(k, v). map_option (\<lambda>r. (k, r)) (json_render v)) kvs))"

section \<open>Values\<close>

definition json_get :: "string \<Rightarrow> json \<Rightarrow> json" where
  "json_get k j = (case j of JDict kvs \<Rightarrow> get k kvs | _ \<Rightarrow> JNull)"

definition is_dict :: "json \<Rightarrow> bool" where
  "is_dict j = (case j of JDict _ \<Rightarrow> True | _ \<Rightarrow> False)"

definition json_items :: "json \<Rightarrow> json list" where
  "json_items j = (case j of JList xs \<Rightarrow> xs | _ \<Rightarrow> [])"

text \<open>\<open>d[k] = v\<close>: an existing key keeps its place.\<close>

definition json_put :: "string \<Rightarrow> json \<Rightarrow> stripe_object \<Rightarrow> stripe_object" where
  "json_put k v kvs =
     (if k \<in> set (map fst kvs) then map (\<lambda>(x, w). (x, if x = k then v else w)) kvs else kvs @ [(k, v)])"

text \<open>\<open>{k: d.get(k) for k in ks}\<close> and \<open>xs[-n:]\<close> for a positive \<open>n\<close>.\<close>

definition json_pick :: "string list \<Rightarrow> json \<Rightarrow> json" where
  "json_pick ks j = JDict (map (\<lambda>k. (k, json_get k j)) ks)"

definition last_n :: "nat \<Rightarrow> 'a list \<Rightarrow> 'a list" where
  "last_n n xs = drop (length xs - n) xs"

lemma length_last_n [simp]: "length (last_n n xs) = min n (length xs)"
  by (simp add: last_n_def)

lemma last_n_all [simp]: "length xs \<le> n \<Longrightarrow> last_n n xs = xs"
  by (simp add: last_n_def)

section \<open>Hashes of canonical JSON\<close>

definition canonical_json :: "json \<Rightarrow> string option" where
  "canonical_json j = json_render j"

definition dashboard_snapshot_content_hash :: "(string \<Rightarrow> string) \<Rightarrow> json \<Rightarrow> string option" where
  "dashboard_snapshot_content_hash sha payload = map_option sha (canonical_json payload)"

end
