(* ===== verification/AI_Conversations.thy ===== *)
theory AI_Conversations
  imports Credits Auth_Rows Json_Text
begin

text \<open>
  \<open>app/services/ai_conversations.py\<close>: conversations, the dashboard analysis of a snapshot, and the submission of a
  user's message under an idempotency key.

  Whether the payload of a snapshot is accepted by the pydantic model \<open>DashboardSnapshotPayloadRead\<close> is the
  argument \<open>typed\<close>.  \<open>env\<close> is what other transactions commit while an operation waits for a row lock,
  \<open>env'\<close> what they commit while its INSERT waits for a conflicting one.
\<close>

datatype conversation_error = AIConversationNotFoundError | AIConversationIntegrityError
  | AIConversationSourceNotFoundError | AIConversationSourceNotReadyError | AIConversationTitleError
  | AIMessageContentError | AIMessageIdempotencyConflictError | ConversationCreditError credit_error

record ai_conversation_page =
  cpage_items :: "ai_conversation list"
  cpage_total :: nat
  cpage_limit :: nat
  cpage_offset :: nat

record ai_message_page =
  mpage_items :: "ai_message list"
  mpage_total :: nat
  mpage_limit :: nat
  mpage_offset :: nat

record ai_message_submission =
  subm_conversation :: ai_conversation
  subm_user_message :: ai_message
  subm_replayed :: bool

record dashboard_analysis_state =
  das_conversation :: ai_conversation
  das_user_message :: "ai_message option"
  das_assistant_message :: "ai_message option"

text \<open>The fresh id and the two defaults of \<open>utc_now\<close> of a new conversation.\<close>

record new_conversation_context =
  nc_id :: uuid
  nc_created_at :: time
  nc_updated_at :: time

definition normalize_ai_conversation_title ::
  "string option \<Rightarrow> conversation_error + string option" where
  "normalize_ai_conversation_title title =
     (case title of
        None \<Rightarrow> Inr None
      | Some t \<Rightarrow>
          let normalized = py_strip t
          in if normalized = [] then Inr None
             else if AI_CONVERSATION_TITLE_MAX_LENGTH < length normalized then Inl AIConversationTitleError
             else Inr (Some normalized))"

definition normalize_ai_message_content :: "string \<Rightarrow> conversation_error + string" where
  "normalize_ai_message_content content =
     (let normalized = py_strip content
      in if normalized = [] \<or> AI_MESSAGE_CONTENT_MAX_LENGTH < length normalized
         then Inl AIMessageContentError
         else Inr normalized)"

section \<open>Conversations\<close>

definition snapshot_by_id :: "db \<Rightarrow> uuid \<Rightarrow> uuid \<Rightarrow> dashboard_snapshot option" where
  "snapshot_by_id d b i = scope_one ds_business_id b (\<lambda>s. ds_id s = i) (dashboard_snapshots d)"

definition conversation_by_id :: "db \<Rightarrow> uuid \<Rightarrow> uuid \<Rightarrow> ai_conversation option" where
  "conversation_by_id d b i = scope_one conv_business_id b (\<lambda>c. conv_id c = i) (ai_conversations d)"

definition validate_analysis_snapshot ::
  "(json \<Rightarrow> bool) \<Rightarrow> dashboard_snapshot \<Rightarrow> conversation_error + unit" where
  "validate_analysis_snapshot typed s =
     (if \<not> typed (ds_payload s) \<or> json_get ''insight'' (ds_payload s) = JNull
      then Inl AIConversationSourceNotReadyError else Inr ())"

definition new_conversation ::
  "new_conversation_context \<Rightarrow> uuid \<Rightarrow> uuid \<Rightarrow> ai_conversation_purpose \<Rightarrow> uuid option \<Rightarrow> string option
   \<Rightarrow> ai_conversation" where
  "new_conversation ctx b u kind snapshot title =
     \<lparr> conv_id = nc_id ctx, conv_business_id = b, conv_created_at = nc_created_at ctx,
       conv_updated_at = nc_updated_at ctx, conv_created_by_user_id = u, conv_purpose = kind,
       conv_dashboard_snapshot_id = snapshot, conv_title = title, conv_last_message_at = None \<rparr>"

definition add_conversation :: "ai_conversation \<Rightarrow> db \<Rightarrow> db" where
  "add_conversation c d = d\<lparr> ai_conversations := insert_row c (ai_conversations d) \<rparr>"

definition create_conversation ::
  "(json \<Rightarrow> bool) \<Rightarrow> new_conversation_context \<Rightarrow> db \<Rightarrow> uuid \<Rightarrow> uuid \<Rightarrow> string option
   \<Rightarrow> ai_conversation_purpose \<Rightarrow> uuid option \<Rightarrow> (conversation_error + ai_conversation) \<times> db" where
  "create_conversation typed ctx d b u title kind snapshot_id =
     (case and_then
        (case snapshot_id of
           None \<Rightarrow> if kind = DASHBOARD_ANALYSIS then Inl AIConversationSourceNotFoundError else Inr ()
         | Some i \<Rightarrow>
             (case snapshot_by_id d b i of
                None \<Rightarrow> Inl AIConversationSourceNotFoundError
              | Some s \<Rightarrow> if kind = DASHBOARD_ANALYSIS then validate_analysis_snapshot typed s
                  else Inr ()))
        (\<lambda>_. normalize_ai_conversation_title title) of
        Inl e \<Rightarrow> (Inl e, d)
      | Inr normalized \<Rightarrow>
          let c = new_conversation ctx b u kind snapshot_id normalized
          in settle ai_tables_ok AIConversationIntegrityError (Inr c) (add_conversation c d) d)"

definition get_conversation :: "db \<Rightarrow> uuid \<Rightarrow> uuid \<Rightarrow> conversation_error + ai_conversation" where
  "get_conversation d b i =
     (case conversation_by_id d b i of None \<Rightarrow> Inl AIConversationNotFoundError | Some c \<Rightarrow> Inr c)"

definition dashboard_analysis_conversation :: "db \<Rightarrow> uuid \<Rightarrow> uuid \<Rightarrow> ai_conversation option" where
  "dashboard_analysis_conversation d b snapshot_id =
     scope_one conv_business_id b
       (\<lambda>c. conv_dashboard_snapshot_id c = Some snapshot_id \<and> conv_purpose c = DASHBOARD_ANALYSIS)
       (ai_conversations d)"

definition get_or_create_dashboard_analysis ::
  "(json \<Rightarrow> bool) \<Rightarrow> new_conversation_context \<Rightarrow> (db \<Rightarrow> db) \<Rightarrow> db \<Rightarrow> uuid \<Rightarrow> uuid \<Rightarrow> uuid \<Rightarrow> string
   \<Rightarrow> (conversation_error + ai_conversation) \<times> db" where
  "get_or_create_dashboard_analysis typed ctx env' d b u snapshot_id title =
     (case snapshot_by_id d b snapshot_id of
        None \<Rightarrow> (Inl AIConversationSourceNotFoundError, d)
      | Some s \<Rightarrow>
        (case validate_analysis_snapshot typed s of
           Inl e \<Rightarrow> (Inl e, d)
         | Inr _ \<Rightarrow>
           (case dashboard_analysis_conversation d b snapshot_id of
              Some existing \<Rightarrow> (Inr existing, d)
            | None \<Rightarrow>
              (case normalize_ai_conversation_title (Some title) of
                 Inl e \<Rightarrow> (Inl e, d)
               | Inr normalized \<Rightarrow>
                   let c = new_conversation ctx b u DASHBOARD_ANALYSIS (Some snapshot_id) normalized;
                       d1 = env' d;
                       d2 = add_conversation c d1
                   in if ai_tables_ok d2 then (Inr c, d2)
                      else (case dashboard_analysis_conversation d1 b snapshot_id of
                              None \<Rightarrow> (Inl AIConversationIntegrityError, d1)
                            | Some duplicate \<Rightarrow> (Inr duplicate, d1))))))"

definition dashboard_analysis_state_of :: "db \<Rightarrow> uuid \<Rightarrow> uuid \<Rightarrow> dashboard_analysis_state option" where
  "dashboard_analysis_state_of d b snapshot_id =
     (case dashboard_analysis_conversation d b snapshot_id of
        None \<Rightarrow> None
      | Some c \<Rightarrow>
          let user_message =
                (case sort_key (\<lambda>m. (- msg_created_at m, - int (msg_id m)))
                        (scope_select msg_business_id b
                          (\<lambda>m. msg_conversation_id m = conv_id c \<and> msg_role m = MSG_USER) (ai_messages d)) of
                   [] \<Rightarrow> None | m # _ \<Rightarrow> Some m);
              assistant_message =
                (case user_message of
                   None \<Rightarrow> None
                 | Some q \<Rightarrow> scope_one msg_business_id b
                     (\<lambda>m. msg_conversation_id m = conv_id c \<and> msg_reply_to_message_id m = Some (msg_id q)
                        \<and> msg_role m = MSG_ASSISTANT) (ai_messages d))
          in Some \<lparr> das_conversation = c, das_user_message = user_message,
                    das_assistant_message = assistant_message \<rparr>)"

section \<open>Pages\<close>

definition list_conversations :: "db \<Rightarrow> uuid \<Rightarrow> nat \<Rightarrow> nat \<Rightarrow> ai_conversation_page" where
  "list_conversations d b limit offset =
     \<lparr> cpage_items = take limit (drop offset
         (sort_key (\<lambda>c. (- conv_updated_at c, - int (conv_id c)))
           (scope_select conv_business_id b (\<lambda>_. True) (ai_conversations d)))),
       cpage_total = count_where (\<lambda>c. conv_business_id c = b) (ai_conversations d),
       cpage_limit = limit, cpage_offset = offset \<rparr>"

definition list_messages ::
  "db \<Rightarrow> uuid \<Rightarrow> uuid \<Rightarrow> nat \<Rightarrow> nat \<Rightarrow> conversation_error + ai_message_page" where
  "list_messages d b conversation_id limit offset =
     and_then (get_conversation d b conversation_id) (\<lambda>_. Inr
       \<lparr> mpage_items = take limit (drop offset
           (sort_key (\<lambda>m. (msg_created_at m, int (msg_id m)))
             (scope_select msg_business_id b (\<lambda>m. msg_conversation_id m = conversation_id) (ai_messages d)))),
         mpage_total = count_where (\<lambda>m. msg_business_id m = b \<and> msg_conversation_id m = conversation_id)
           (ai_messages d),
         mpage_limit = limit, mpage_offset = offset \<rparr>)"

section \<open>Submitting a message\<close>

definition message_by_digest :: "db \<Rightarrow> uuid \<Rightarrow> string \<Rightarrow> ai_message option" where
  "message_by_digest d b digest =
     scope_one msg_business_id b (\<lambda>m. msg_idempotency_key_digest m = Some digest) (ai_messages d)"

definition replay_matches :: "ai_message \<Rightarrow> uuid \<Rightarrow> uuid \<Rightarrow> string \<Rightarrow> bool" where
  "replay_matches m conversation_id u content \<longleftrightarrow>
     msg_role m = MSG_USER \<and> msg_conversation_id m = conversation_id
   \<and> msg_created_by_user_id m = Some u \<and> msg_content m = content"

definition submission_for_existing ::
  "db \<Rightarrow> uuid \<Rightarrow> ai_message \<Rightarrow> uuid \<Rightarrow> uuid \<Rightarrow> string \<Rightarrow> conversation_error + ai_message_submission" where
  "submission_for_existing d b m conversation_id u content =
     (if \<not> replay_matches m conversation_id u content then Inl AIMessageIdempotencyConflictError
      else case conversation_by_id d b (msg_conversation_id m) of
        None \<Rightarrow> Inl AIConversationIntegrityError
      | Some c \<Rightarrow> Inr \<lparr> subm_conversation = c, subm_user_message = m, subm_replayed = True \<rparr>)"

definition new_user_message ::
  "uuid \<Rightarrow> uuid \<Rightarrow> uuid \<Rightarrow> uuid \<Rightarrow> string \<Rightarrow> string \<Rightarrow> time \<Rightarrow> ai_message" where
  "new_user_message i b conversation_id u content digest created_at =
     \<lparr> msg_id = i, msg_business_id = b, msg_created_at = created_at,
       msg_conversation_id = conversation_id, msg_role = MSG_USER, msg_status = MSG_PENDING,
       msg_content = content, msg_created_by_user_id = Some u, msg_reply_to_message_id = None,
       msg_idempotency_key_digest = Some digest, msg_credit_ledger_entry_id = None,
       msg_processing_token = None, msg_processing_lease_expires_at = None,
       msg_provider_response_id = None, msg_provider_model = None, msg_provider_finish_reason = None,
       msg_prompt_token_count = None, msg_response_token_count = None, msg_thoughts_token_count = None,
       msg_total_token_count = None, msg_completed_at = None, msg_error_code = None \<rparr>"

definition touch_conversation :: "uuid \<Rightarrow> time \<Rightarrow> db \<Rightarrow> db" where
  "touch_conversation i now d = d\<lparr> ai_conversations := update_where (\<lambda>c. conv_id c = i)
     (\<lambda>c. c\<lparr> conv_last_message_at := Some now, conv_updated_at := now \<rparr>) (ai_conversations d) \<rparr>"

definition add_message :: "ai_message \<Rightarrow> db \<Rightarrow> db" where
  "add_message m d = d\<lparr> ai_messages := insert_row m (ai_messages d) \<rparr>"

text \<open>The part after the lock of the conversation; \<open>d\<close> is the database that the lock was granted on.\<close>

definition submit_locked ::
  "(db \<Rightarrow> db) \<Rightarrow> uuid \<Rightarrow> db \<Rightarrow> uuid \<Rightarrow> uuid \<Rightarrow> uuid \<Rightarrow> string \<Rightarrow> string \<Rightarrow> time
   \<Rightarrow> (conversation_error + ai_message_submission) \<times> db" where
  "submit_locked env' i d b u conversation_id content digest now =
     (case conversation_by_id d b conversation_id of
        None \<Rightarrow> (Inl AIConversationNotFoundError, d)
      | Some c \<Rightarrow>
        (case message_by_digest d b digest of
           Some existing \<Rightarrow> (submission_for_existing d b existing conversation_id u content, d)
         | None \<Rightarrow>
             let m = new_user_message i b (conv_id c) u content digest now;
                 d1 = env' d;
                 d2 = add_message m (touch_conversation (conv_id c) now d1)
             in if ai_tables_ok d2
                then (Inr \<lparr> subm_conversation = c\<lparr> conv_last_message_at := Some now, conv_updated_at := now \<rparr>,
                            subm_user_message = m, subm_replayed = False \<rparr>, d2)
                else (case message_by_digest d1 b digest of
                        Some duplicate \<Rightarrow> (submission_for_existing d1 b duplicate conversation_id u content, d1)
                      | None \<Rightarrow> (Inl AIConversationIntegrityError, d1))))"

definition submit_user_message ::
  "(string \<Rightarrow> string) \<Rightarrow> (db \<Rightarrow> db) \<Rightarrow> (db \<Rightarrow> db) \<Rightarrow> uuid \<Rightarrow> db \<Rightarrow> uuid \<Rightarrow> uuid \<Rightarrow> uuid \<Rightarrow> string
   \<Rightarrow> string \<Rightarrow> time \<Rightarrow> (conversation_error + ai_message_submission) \<times> db" where
  "submit_user_message sha env env' i d b u conversation_id content idempotency_key now =
     (case normalize_ai_message_content content of
        Inl e \<Rightarrow> (Inl e, d)
      | Inr normalized \<Rightarrow>
        (case digest_ai_idempotency_key sha idempotency_key of
           Inl e \<Rightarrow> (Inl (ConversationCreditError e), d)
         | Inr digest \<Rightarrow>
           (case message_by_digest d b digest of
              Some existing \<Rightarrow> (submission_for_existing d b existing conversation_id u normalized, d)
            | None \<Rightarrow> submit_locked env' i (env d) b u conversation_id normalized digest now)))"

end
