(* ===== verification/Gemini_Gateway.thy ===== *)
theory Gemini_Gateway
  imports PyStrings
begin

text \<open>
  \<open>app/services/gemini_gateway.py\<close>: the request to Gemini and the reading of its response.  The Google SDK is the
  argument \<open>sdk\<close>: from the prompt and the system instruction to a response or one of the exceptions that
  the adapter catches.
\<close>

definition GEMINI_RETRYABLE_CLIENT_CODES :: "int list" where
  "GEMINI_RETRYABLE_CLIENT_CODES = [408, 409, 425, 429]"
definition GEMINI_CONFIGURATION_CLIENT_CODES :: "int list" where
  "GEMINI_CONFIGURATION_CLIENT_CODES = [401, 403]"
definition GEMINI_BLOCKED_FINISH_REASONS :: "string list" where
  "GEMINI_BLOCKED_FINISH_REASONS = [''SAFETY'', ''RECITATION'', ''BLOCKLIST'', ''PROHIBITED_CONTENT'', ''SPII'',
     ''IMAGE_SAFETY'', ''IMAGE_PROHIBITED_CONTENT'', ''IMAGE_RECITATION'']"

datatype gemini_error = GeminiConfigurationError | GeminiRequestValidationError | GeminiTemporaryError
  | GeminiRequestRejectedError | GeminiBlockedError string | GeminiIncompleteResponseError string
  | GeminiInvalidResponseError

record gemini_generation =
  gen_text :: string
  gen_provider_response_id :: "string option"
  gen_model_version :: string
  gen_finish_reason :: string
  gen_prompt_token_count :: "int option"
  gen_response_token_count :: "int option"
  gen_thoughts_token_count :: "int option"
  gen_total_token_count :: "int option"

text \<open>The response of the SDK, as far as it is read: \<open>None\<close> for an absent object or attribute.\<close>

record gemini_candidate =
  cand_parts :: "string option list option"
  cand_finish_reason :: "string option"

record gemini_usage =
  usage_prompt_tokens :: "int option"
  usage_response_tokens :: "int option"
  usage_candidates_tokens :: "int option"
  usage_thoughts_tokens :: "int option"
  usage_total_tokens :: "int option"

record gemini_response =
  resp_block_reason :: "string option"
  resp_candidates :: "gemini_candidate list option"
  resp_id :: "string option"
  resp_model_version :: "string option"
  resp_usage :: "gemini_usage option"

datatype sdk_outcome = SdkResponse gemini_response | SdkTimeout | SdkServerError | SdkClientError int
  | SdkAPIError | SdkUnknownApiResponse | SdkOSError

record gemini_settings =
  gemini_enabled :: bool
  gemini_api_key :: "string option"
  gemini_model :: string

text \<open>Whether there is a client to call: one passed to the constructor, or one made from the settings.\<close>

definition gateway_client :: "bool \<Rightarrow> gemini_settings \<Rightarrow> bool" where
  "gateway_client injected settings =
     (injected \<or> (gemini_enabled settings
        \<and> (case gemini_api_key settings of None \<Rightarrow> False | Some k \<Rightarrow> py_strip k \<noteq> [])))"

definition response_text :: "gemini_candidate \<Rightarrow> string" where
  "response_text candidate =
     (case cand_parts candidate of
        None \<Rightarrow> []
      | Some parts \<Rightarrow>
          if parts = [] then []
          else py_strip (concat (map (\<lambda>p. case p of None \<Rightarrow> [] | Some t \<Rightarrow> t) parts)))"

definition token_count :: "(gemini_usage \<Rightarrow> int option) list \<Rightarrow> gemini_usage option \<Rightarrow> int option" where
  "token_count names usage =
     (case usage of
        None \<Rightarrow> None
      | Some u \<Rightarrow> (case filter (\<lambda>v. v \<noteq> None) (map (\<lambda>f. f u) names) of [] \<Rightarrow> None | v # _ \<Rightarrow> v))"

definition parse_candidate ::
  "gemini_settings \<Rightarrow> gemini_response \<Rightarrow> gemini_candidate \<Rightarrow> gemini_error + gemini_generation" where
  "parse_candidate settings response candidate =
     (case cand_finish_reason candidate of
        None \<Rightarrow> Inl GeminiInvalidResponseError
      | Some finish_reason \<Rightarrow>
          if finish_reason = ''FINISH_REASON_UNSPECIFIED'' then Inl GeminiInvalidResponseError
          else if finish_reason \<in> set GEMINI_BLOCKED_FINISH_REASONS then Inl (GeminiBlockedError finish_reason)
          else if finish_reason \<noteq> ''STOP'' then Inl (GeminiIncompleteResponseError finish_reason)
          else if response_text candidate = [] then Inl GeminiInvalidResponseError
          else Inr \<lparr> gen_text = response_text candidate, gen_provider_response_id = resp_id response,
                 gen_model_version = (case resp_model_version response of
                     None \<Rightarrow> gemini_model settings
                   | Some v \<Rightarrow> if v = [] then gemini_model settings else v),
                 gen_finish_reason = finish_reason,
                 gen_prompt_token_count = token_count [usage_prompt_tokens] (resp_usage response),
                 gen_response_token_count =
                   token_count [usage_response_tokens, usage_candidates_tokens] (resp_usage response),
                 gen_thoughts_token_count = token_count [usage_thoughts_tokens] (resp_usage response),
                 gen_total_token_count = token_count [usage_total_tokens] (resp_usage response) \<rparr>)"

definition is_block_reason :: "string option \<Rightarrow> bool" where
  "is_block_reason reason =
     (case reason of None \<Rightarrow> False | Some r \<Rightarrow> r \<noteq> [] \<and> r \<noteq> ''BLOCKED_REASON_UNSPECIFIED'')"

definition parse_response :: "gemini_settings \<Rightarrow> gemini_response \<Rightarrow> gemini_error + gemini_generation" where
  "parse_response settings response =
     (if is_block_reason (resp_block_reason response)
      then Inl (GeminiBlockedError (the (resp_block_reason response)))
      else case resp_candidates response of
        None \<Rightarrow> Inl GeminiInvalidResponseError
      | Some [] \<Rightarrow> Inl GeminiInvalidResponseError
      | Some (candidate # _) \<Rightarrow> parse_candidate settings response candidate)"

text \<open>The exceptions of the SDK call.\<close>

definition sdk_result :: "gemini_settings \<Rightarrow> sdk_outcome \<Rightarrow> gemini_error + gemini_generation" where
  "sdk_result settings outcome =
     (case outcome of
        SdkResponse response \<Rightarrow> parse_response settings response
      | SdkTimeout \<Rightarrow> Inl GeminiTemporaryError
      | SdkServerError \<Rightarrow> Inl GeminiTemporaryError
      | SdkClientError code \<Rightarrow>
          if code \<in> set GEMINI_CONFIGURATION_CLIENT_CODES then Inl GeminiConfigurationError
          else if code \<in> set GEMINI_RETRYABLE_CLIENT_CODES then Inl GeminiTemporaryError
          else Inl GeminiRequestRejectedError
      | SdkAPIError \<Rightarrow> Inl GeminiTemporaryError
      | SdkUnknownApiResponse \<Rightarrow> Inl GeminiInvalidResponseError
      | SdkOSError \<Rightarrow> Inl GeminiTemporaryError)"

definition normalize_system_instruction :: "string option \<Rightarrow> string option" where
  "normalize_system_instruction value =
     (case value of
        None \<Rightarrow> None
      | Some v \<Rightarrow> if py_strip v = [] then None else Some (py_strip v))"

definition gateway_generate ::
  "bool \<Rightarrow> gemini_settings \<Rightarrow> (string \<Rightarrow> string option \<Rightarrow> sdk_outcome) \<Rightarrow> string \<Rightarrow> string option
   \<Rightarrow> gemini_error + gemini_generation" where
  "gateway_generate injected settings sdk prompt instruction =
     (if py_strip prompt = [] then Inl GeminiRequestValidationError
      else if \<not> gateway_client injected settings then Inl GeminiConfigurationError
      else sdk_result settings (sdk (py_strip prompt) (normalize_system_instruction instruction)))"

end
