(* ===== verification/AI_Execution.thy ===== *)
theory AI_Execution
  imports AI_Prompt Gemini_Gateway
begin

text \<open>
  \<open>AIExecutionService\<close> of \<open>app/services/ai_execution.py\<close>: one request for an answer, from the submission of the
  message over the reserved credit and the claim with its lease to the settled message and credit.

  \<open>expire_on_commit\<close> is off, so the session keeps the rows it has loaded, and a later SELECT of such a row, with
  or without a lock, does not refresh its attributes until a rollback has expired them.  \<open>orm_session\<close> is what
  the session holds of the message and the conversation; a flush writes the attributes that differ from what was
  loaded.  The credit rows are not kept between calls and are always read anew.
\<close>

datatype execution_code = SUBSCRIPTION_REQUIRED | SUBSCRIPTION_INACTIVE | ENTITLEMENT_DENIED
  | CREDIT_LIMIT_REACHED | PROVIDER_CONFIGURATION | PROVIDER_TEMPORARY | PROVIDER_REJECTED
  | PROVIDER_BLOCKED | PROVIDER_INCOMPLETE | PROVIDER_INVALID | RESPONSE_TOO_LARGE
  | PERSISTENCE_FAILURE | EXECUTION_INTEGRITY

primrec execution_code_value :: "execution_code \<Rightarrow> string" where
  "execution_code_value SUBSCRIPTION_REQUIRED = ''subscription_required''"
| "execution_code_value SUBSCRIPTION_INACTIVE = ''subscription_inactive''"
| "execution_code_value ENTITLEMENT_DENIED = ''entitlement_denied''"
| "execution_code_value CREDIT_LIMIT_REACHED = ''credit_limit_reached''"
| "execution_code_value PROVIDER_CONFIGURATION = ''provider_configuration''"
| "execution_code_value PROVIDER_TEMPORARY = ''provider_temporary''"
| "execution_code_value PROVIDER_REJECTED = ''provider_rejected''"
| "execution_code_value PROVIDER_BLOCKED = ''provider_blocked''"
| "execution_code_value PROVIDER_INCOMPLETE = ''provider_incomplete''"
| "execution_code_value PROVIDER_INVALID = ''provider_invalid''"
| "execution_code_value RESPONSE_TOO_LARGE = ''response_too_large''"
| "execution_code_value PERSISTENCE_FAILURE = ''persistence_failure''"
| "execution_code_value EXECUTION_INTEGRITY = ''execution_integrity''"

definition execution_codes :: "execution_code list" where
  "execution_codes = [SUBSCRIPTION_REQUIRED, SUBSCRIPTION_INACTIVE, ENTITLEMENT_DENIED,
     CREDIT_LIMIT_REACHED, PROVIDER_CONFIGURATION, PROVIDER_TEMPORARY, PROVIDER_REJECTED,
     PROVIDER_BLOCKED, PROVIDER_INCOMPLETE, PROVIDER_INVALID, RESPONSE_TOO_LARGE,
     PERSISTENCE_FAILURE, EXECUTION_INTEGRITY]"

text \<open>\<open>AIExecutionErrorCode(value)\<close>; \<open>None\<close> is its \<open>ValueError\<close>.\<close>

definition execution_code_of :: "string \<Rightarrow> execution_code option" where
  "execution_code_of value = find (\<lambda>c. execution_code_value c = value) execution_codes"

datatype execution_error = AIExecutionFailedError execution_code | AIExecutionIntegrityError
  | ExecutionConversationError conversation_error | ExecutionCreditError credit_error
  | ExecutionDatabaseIntegrityError

record ai_execution_result =
  res_conversation :: ai_conversation
  res_user_message :: ai_message
  res_assistant_message :: "ai_message option"
  res_usage :: "usage_summary option"
  res_replayed :: bool
  res_in_progress :: bool

record ai_execution_claim =
  claim_conversation :: ai_conversation
  claim_user_message :: ai_message
  claim_assistant_message :: "ai_message option"
  claim_prompt :: "string option"
  claim_token :: "uuid option"
  claim_usage :: usage_summary
  claim_in_progress :: bool
  claim_completed :: bool

definition usage_from_snapshot :: "ledger_snapshot \<Rightarrow> usage_summary" where
  "usage_from_snapshot s =
     \<lparr> usage_account_id = Some (snap_account_id s), usage_subscription_id = snap_subscription_id s,
       usage_business_id = snap_business_id s, usage_limit_value = snap_limit_value s,
       usage_reserved_count = snap_reserved_count s, usage_consumed_count = snap_consumed_count s,
       usage_remaining = snap_remaining s, usage_period_started_at = snap_period_started_at s,
       usage_period_ends_at = snap_period_ends_at s \<rparr>"

definition provider_error_code :: "gemini_error \<Rightarrow> execution_code" where
  "provider_error_code e =
     (case e of
        GeminiConfigurationError \<Rightarrow> PROVIDER_CONFIGURATION
      | GeminiTemporaryError \<Rightarrow> PROVIDER_TEMPORARY
      | GeminiBlockedError _ \<Rightarrow> PROVIDER_BLOCKED
      | GeminiRequestRejectedError \<Rightarrow> PROVIDER_REJECTED
      | GeminiIncompleteResponseError _ \<Rightarrow> PROVIDER_INCOMPLETE
      | GeminiInvalidResponseError \<Rightarrow> PROVIDER_INVALID
      | GeminiRequestValidationError \<Rightarrow> PROVIDER_INVALID)"

text \<open>The errors of \<open>reserve\<close> that \<open>execute\<close> catches, and the code it gives them.\<close>

definition reservation_error_code :: "credit_error \<Rightarrow> execution_code option" where
  "reservation_error_code e =
     (case e of
        CreditSubscriptionError SubscriptionRequiredError \<Rightarrow> Some SUBSCRIPTION_REQUIRED
      | CreditSubscriptionError (SubscriptionInactiveError _) \<Rightarrow> Some SUBSCRIPTION_INACTIVE
      | CreditSubscriptionError EntitlementDeniedError \<Rightarrow> Some ENTITLEMENT_DENIED
      | CreditSubscriptionError EntitlementLimitReachedError \<Rightarrow> Some CREDIT_LIMIT_REACHED
      | AICreditIntegrityError \<Rightarrow> Some EXECUTION_INTEGRITY
      | _ \<Rightarrow> None)"

definition lease_duration :: "int \<Rightarrow> int" where
  "lease_duration gemini_request_timeout_seconds = seconds (max (gemini_request_timeout_seconds + 30) 90)"

section \<open>What the session holds\<close>

record orm_session =
  orm_message :: "ai_message option"
  orm_conversation :: "ai_conversation option"

definition expired_session :: orm_session where
  "expired_session = \<lparr> orm_message = None, orm_conversation = None \<rparr>"

definition held :: "'r option \<Rightarrow> 'r \<Rightarrow> 'r" where
  "held object row = (case object of None \<Rightarrow> row | Some r \<Rightarrow> r)"

definition select_message :: "db \<Rightarrow> orm_session \<Rightarrow> uuid \<Rightarrow> uuid \<Rightarrow> ai_message option" where
  "select_message d s b i =
     map_option (held (orm_message s)) (scope_one msg_business_id b (\<lambda>m. msg_id m = i) (ai_messages d))"

definition select_conversation :: "db \<Rightarrow> orm_session \<Rightarrow> uuid \<Rightarrow> uuid \<Rightarrow> ai_conversation option" where
  "select_conversation d s b i = map_option (held (orm_conversation s)) (conversation_by_id d b i)"

definition written :: "('r \<Rightarrow> 'f) \<Rightarrow> 'r \<Rightarrow> 'r \<Rightarrow> 'r \<Rightarrow> 'f" where
  "written f loaded object row = (if f object = f loaded then f row else f object)"

definition flushed_message :: "ai_message \<Rightarrow> ai_message \<Rightarrow> ai_message \<Rightarrow> ai_message" where
  "flushed_message loaded object row =
     row\<lparr> msg_status := written msg_status loaded object row,
          msg_credit_ledger_entry_id := written msg_credit_ledger_entry_id loaded object row,
          msg_processing_token := written msg_processing_token loaded object row,
          msg_processing_lease_expires_at := written msg_processing_lease_expires_at loaded object row,
          msg_completed_at := written msg_completed_at loaded object row,
          msg_error_code := written msg_error_code loaded object row \<rparr>"

definition flush_message :: "ai_message \<Rightarrow> ai_message \<Rightarrow> db \<Rightarrow> db" where
  "flush_message loaded object d = d\<lparr> ai_messages :=
     update_where (\<lambda>m. msg_id m = msg_id loaded) (flushed_message loaded object) (ai_messages d) \<rparr>"

definition flush_conversation :: "ai_conversation \<Rightarrow> ai_conversation \<Rightarrow> db \<Rightarrow> db" where
  "flush_conversation loaded object d = d\<lparr> ai_conversations :=
     update_where (\<lambda>c. conv_id c = conv_id loaded)
       (\<lambda>row. row\<lparr> conv_last_message_at := written conv_last_message_at loaded object row,
                   conv_updated_at := written conv_updated_at loaded object row \<rparr>)
       (ai_conversations d) \<rparr>"

definition execution_tables_ok :: "db \<Rightarrow> bool" where
  "execution_tables_ok d \<longleftrightarrow> ai_tables_ok d \<and> credit_tables_ok d"

section \<open>Queries\<close>

definition assistant_for_user :: "db \<Rightarrow> uuid \<Rightarrow> ai_message \<Rightarrow> ai_message option" where
  "assistant_for_user d b q =
     scope_one msg_business_id b
       (\<lambda>m. msg_conversation_id m = msg_conversation_id q \<and> msg_reply_to_message_id m = Some (msg_id q)
          \<and> msg_role m = MSG_ASSISTANT) (ai_messages d)"

definition credit_usage :: "db \<Rightarrow> uuid \<Rightarrow> uuid \<Rightarrow> execution_error + usage_summary" where
  "credit_usage d b entry_id =
     (case credit_snapshot d b entry_id True of
        Inl e \<Rightarrow> Inl (ExecutionCreditError e)
      | Inr s \<Rightarrow> Inr (usage_from_snapshot s))"

definition stored_failure :: "ai_message \<Rightarrow> execution_error" where
  "stored_failure m =
     (case msg_error_code m of
        None \<Rightarrow> AIExecutionIntegrityError
      | Some value \<Rightarrow>
          (case execution_code_of value of
             None \<Rightarrow> AIExecutionIntegrityError
           | Some code \<Rightarrow> AIExecutionFailedError code))"

definition existing_result ::
  "db \<Rightarrow> uuid \<Rightarrow> ai_message_submission \<Rightarrow> execution_error + ai_execution_result option" where
  "existing_result d b subm =
     (let m = subm_user_message subm
      in case msg_status m of
           MSG_PENDING \<Rightarrow> Inr None
         | MSG_FAILED \<Rightarrow> Inl (stored_failure m)
         | MSG_COMPLETED \<Rightarrow>
             (case (assistant_for_user d b m, msg_credit_ledger_entry_id m) of
                (Some assistant, Some entry_id) \<Rightarrow>
                  and_then (credit_usage d b entry_id) (\<lambda>usage. Inr (Some
                    \<lparr> res_conversation = subm_conversation subm, res_user_message = m,
                      res_assistant_message = Some assistant, res_usage = Some usage,
                      res_replayed = True, res_in_progress = False \<rparr>))
              | _ \<Rightarrow> Inl AIExecutionIntegrityError))"

definition history_for_claim :: "db \<Rightarrow> uuid \<Rightarrow> uuid \<Rightarrow> uuid \<Rightarrow> ai_message list" where
  "history_for_claim d b conversation_id message_id =
     rev (take AI_PROMPT_HISTORY_MESSAGE_LIMIT
       (sort_key (\<lambda>m. (- msg_created_at m, - int (msg_id m)))
         (scope_select msg_business_id b
           (\<lambda>m. msg_conversation_id m = conversation_id
              \<and> (msg_status m = MSG_COMPLETED \<or> msg_id m = message_id)) (ai_messages d))))"

text \<open>The grounding context of a claim: \<open>Some None\<close> for a conversation without a snapshot.\<close>

definition claim_grounding ::
  "(string \<Rightarrow> string) \<Rightarrow> db \<Rightarrow> uuid \<Rightarrow> ai_conversation \<Rightarrow> string option option" where
  "claim_grounding sha d b c =
     (case conv_dashboard_snapshot_id c of
        None \<Rightarrow> Some None
      | Some i \<Rightarrow>
        (case snapshot_by_id d b i of
           None \<Rightarrow> None
         | Some s \<Rightarrow>
             if conv_purpose c = DASHBOARD_ANALYSIS \<and> \<not> is_dict (json_get ''insight'' (ds_payload s)) then None
             else map_option Some (dashboard_grounding_context sha s)))"

section \<open>The transactions of one execution\<close>

text \<open>Every transaction works on the database \<open>d\<close> that its row locks were granted on.\<close>

definition lease_active :: "ai_message \<Rightarrow> time \<Rightarrow> bool" where
  "lease_active m now \<longleftrightarrow> msg_processing_token m \<noteq> None
     \<and> (case msg_processing_lease_expires_at m of None \<Rightarrow> False | Some t \<Rightarrow> now < t)"

definition claim_pending ::
  "int \<Rightarrow> uuid \<Rightarrow> db \<Rightarrow> uuid \<Rightarrow> ai_message \<Rightarrow> ai_conversation \<Rightarrow> string option \<Rightarrow> ledger_snapshot
   \<Rightarrow> time \<Rightarrow> (execution_error + ai_execution_claim) \<times> db" where
  "claim_pending lease token d b m c context' reservation now =
     (if snap_status reservation \<noteq> RESERVED then (Inl AIExecutionIntegrityError, d)
      else if msg_credit_ledger_entry_id m \<notin> {None, Some (snap_entry_id reservation)}
      then (Inl AIExecutionIntegrityError, d)
      else if lease_active m now
      then (Inr \<lparr> claim_conversation = c, claim_user_message = m, claim_assistant_message = None,
              claim_prompt = None, claim_token = None, claim_usage = usage_from_snapshot reservation,
              claim_in_progress = True, claim_completed = False \<rparr>, d)
      else
        let m' = m\<lparr> msg_credit_ledger_entry_id := Some (snap_entry_id reservation),
                    msg_processing_token := Some token,
                    msg_processing_lease_expires_at := Some (now + lease) \<rparr>;
            d' = flush_message m m' d;
            history = (if conv_purpose c = DASHBOARD_ANALYSIS then [m']
              else history_for_claim d' b (msg_conversation_id m) (msg_id m))
        in case bounded_prompt history context' of
             None \<Rightarrow> (Inl AIExecutionIntegrityError, d)
           | Some prompt \<Rightarrow>
               if prompt = [] then (Inl AIExecutionIntegrityError, d)
               else settle ai_tables_ok ExecutionDatabaseIntegrityError
                 (Inr \<lparr> claim_conversation = c, claim_user_message = m', claim_assistant_message = None,
                    claim_prompt = Some prompt, claim_token = Some token,
                    claim_usage = usage_from_snapshot reservation, claim_in_progress = False,
                    claim_completed = False \<rparr>) d' d)"

definition claim_message ::
  "(string \<Rightarrow> string) \<Rightarrow> int \<Rightarrow> uuid \<Rightarrow> orm_session \<Rightarrow> db \<Rightarrow> uuid \<Rightarrow> uuid \<Rightarrow> ledger_snapshot \<Rightarrow> time
   \<Rightarrow> (execution_error + ai_execution_claim) \<times> db" where
  "claim_message sha lease token s d b message_id reservation now =
     (case select_message d s b message_id of
        None \<Rightarrow> (Inl AIExecutionIntegrityError, d)
      | Some m \<Rightarrow>
        (case select_conversation d s b (msg_conversation_id m) of
           None \<Rightarrow> (Inl AIExecutionIntegrityError, d)
         | Some c \<Rightarrow>
           (case claim_grounding sha d b c of
              None \<Rightarrow> (Inl AIExecutionIntegrityError, d)
            | Some context' \<Rightarrow>
              (case msg_status m of
                 MSG_COMPLETED \<Rightarrow>
                   (case assistant_for_user d b m of
                      None \<Rightarrow> (Inl AIExecutionIntegrityError, d)
                    | Some assistant \<Rightarrow>
                        (and_then (credit_usage d b (snap_entry_id reservation)) (\<lambda>usage. Inr
                           \<lparr> claim_conversation = c, claim_user_message = m,
                             claim_assistant_message = Some assistant, claim_prompt = None,
                             claim_token = None, claim_usage = usage, claim_in_progress = False,
                             claim_completed = True \<rparr>), d))
               | MSG_FAILED \<Rightarrow> (Inl (stored_failure m), d)
               | MSG_PENDING \<Rightarrow> claim_pending lease token d b m c context' reservation now))))"

definition lock_ledger ::
  "db \<Rightarrow> uuid \<Rightarrow> uuid \<Rightarrow> (ai_credit_ledger_entry \<times> ai_credit_account) option" where
  "lock_ledger d b entry_id =
     (case entry_by_id d b entry_id of
        None \<Rightarrow> None
      | Some entry \<Rightarrow>
        (case account_for_entry d b entry of
           Inl _ \<Rightarrow> None
         | Inr account \<Rightarrow> Some (entry, account)))"

definition failed_message :: "execution_code \<Rightarrow> time \<Rightarrow> ai_message \<Rightarrow> ai_message" where
  "failed_message code now m =
     m\<lparr> msg_status := MSG_FAILED, msg_completed_at := Some now,
        msg_error_code := Some (execution_code_value code), msg_processing_token := None,
        msg_processing_lease_expires_at := None \<rparr>"

definition mark_pre_reservation_failure ::
  "orm_session \<Rightarrow> db \<Rightarrow> uuid \<Rightarrow> uuid \<Rightarrow> execution_code \<Rightarrow> time \<Rightarrow> (execution_error + unit) \<times> db" where
  "mark_pre_reservation_failure s d b message_id code now =
     (case select_message d s b message_id of
        None \<Rightarrow> (Inl AIExecutionIntegrityError, d)
      | Some m \<Rightarrow>
          if msg_status m \<noteq> MSG_PENDING then (Inr (), d)
          else if msg_credit_ledger_entry_id m \<noteq> None then (Inr (), d)
          else settle ai_tables_ok ExecutionDatabaseIntegrityError (Inr ())
                 (flush_message m (failed_message code now m) d) d)"

definition released_entry :: "string \<Rightarrow> time \<Rightarrow> ai_credit_ledger_entry \<Rightarrow> ai_credit_ledger_entry" where
  "released_entry reason now e =
     e\<lparr> ent_status := RELEASED, ent_consumed_at := None, ent_released_at := Some now,
        ent_release_reason := Some reason \<rparr>"

definition consumed_entry :: "time \<Rightarrow> ai_credit_ledger_entry \<Rightarrow> ai_credit_ledger_entry" where
  "consumed_entry now e =
     e\<lparr> ent_status := CONSUMED, ent_consumed_at := Some now, ent_released_at := None,
        ent_release_reason := None \<rparr>"

definition fail_message_claim ::
  "orm_session \<Rightarrow> db \<Rightarrow> uuid \<Rightarrow> uuid \<Rightarrow> uuid \<Rightarrow> uuid \<Rightarrow> execution_code \<Rightarrow> time
   \<Rightarrow> (execution_error + bool) \<times> db" where
  "fail_message_claim s d b message_id entry_id token code now =
     (case select_message d s b message_id of
        None \<Rightarrow> (Inl AIExecutionIntegrityError, d)
      | Some m \<Rightarrow>
          if msg_status m \<noteq> MSG_PENDING then (Inr False, d)
          else if msg_processing_token m \<noteq> Some token then (Inr False, d)
          else if msg_credit_ledger_entry_id m \<noteq> Some entry_id then (Inl AIExecutionIntegrityError, d)
          else
            (case lock_ledger d b entry_id of
               None \<Rightarrow> (Inl AIExecutionIntegrityError, d)
             | Some (entry, account) \<Rightarrow>
                 let failed = flush_message m (failed_message code now m)
                 in case ent_status entry of
                      RESERVED \<Rightarrow>
                        if acc_reserved_count account < 1 then (Inl AIExecutionIntegrityError, d)
                        else settle execution_tables_ok ExecutionDatabaseIntegrityError (Inr True)
                          (failed (save_entry (released_entry (execution_code_value code) now entry)
                            (save_account (account\<lparr> acc_reserved_count := acc_reserved_count account - 1 \<rparr>) d))) d
                    | RELEASED \<Rightarrow>
                        settle execution_tables_ok ExecutionDatabaseIntegrityError (Inr True) (failed d) d
                    | CONSUMED \<Rightarrow> (Inl AIExecutionIntegrityError, d)))"

definition assistant_message :: "uuid \<Rightarrow> uuid \<Rightarrow> ai_message \<Rightarrow> uuid \<Rightarrow> gemini_generation \<Rightarrow> time \<Rightarrow> ai_message" where
  "assistant_message i b q entry_id g now =
     \<lparr> msg_id = i, msg_business_id = b, msg_created_at = now,
       msg_conversation_id = msg_conversation_id q, msg_role = MSG_ASSISTANT,
       msg_status = MSG_COMPLETED, msg_content = gen_text g, msg_created_by_user_id = None,
       msg_reply_to_message_id = Some (msg_id q), msg_idempotency_key_digest = None,
       msg_credit_ledger_entry_id = Some entry_id, msg_processing_token = None,
       msg_processing_lease_expires_at = None,
       msg_provider_response_id = gen_provider_response_id g,
       msg_provider_model = Some (gen_model_version g),
       msg_provider_finish_reason = Some (gen_finish_reason g),
       msg_prompt_token_count = gen_prompt_token_count g,
       msg_response_token_count = gen_response_token_count g,
       msg_thoughts_token_count = gen_thoughts_token_count g,
       msg_total_token_count = gen_total_token_count g, msg_completed_at = Some now,
       msg_error_code = None \<rparr>"

definition completed_message :: "time \<Rightarrow> ai_message \<Rightarrow> ai_message" where
  "completed_message now m =
     m\<lparr> msg_status := MSG_COMPLETED, msg_completed_at := Some now, msg_error_code := None,
        msg_processing_token := None, msg_processing_lease_expires_at := None \<rparr>"

definition complete_message_claim ::
  "uuid \<Rightarrow> orm_session \<Rightarrow> db \<Rightarrow> uuid \<Rightarrow> uuid \<Rightarrow> uuid \<Rightarrow> uuid \<Rightarrow> gemini_generation \<Rightarrow> time
   \<Rightarrow> (execution_error + ai_execution_result) \<times> db" where
  "complete_message_claim assistant_id s d b message_id entry_id token generation now =
     (case select_message d s b message_id of
        None \<Rightarrow> (Inl AIExecutionIntegrityError, d)
      | Some m \<Rightarrow>
        (case select_conversation d s b (msg_conversation_id m) of
           None \<Rightarrow> (Inl AIExecutionIntegrityError, d)
         | Some c \<Rightarrow>
           if msg_status m = MSG_COMPLETED
           then (case assistant_for_user d b m of
                   None \<Rightarrow> (Inl AIExecutionIntegrityError, d)
                 | Some assistant \<Rightarrow>
                     (and_then (credit_usage d b entry_id) (\<lambda>usage. Inr
                        \<lparr> res_conversation = c, res_user_message = m, res_assistant_message = Some assistant,
                          res_usage = Some usage, res_replayed = True, res_in_progress = False \<rparr>), d))
           else if msg_status m = MSG_FAILED then (Inl (stored_failure m), d)
           else if msg_processing_token m \<noteq> Some token \<or> msg_credit_ledger_entry_id m \<noteq> Some entry_id
           then (Inr \<lparr> res_conversation = c, res_user_message = m, res_assistant_message = None,
                       res_usage = None, res_replayed = True, res_in_progress = True \<rparr>, d)
           else
             (case lock_ledger d b entry_id of
                None \<Rightarrow> (Inl AIExecutionIntegrityError, d)
              | Some (entry, account) \<Rightarrow>
                  if ent_status entry \<noteq> RESERVED \<or> acc_reserved_count account < 1
                  then (Inl AIExecutionIntegrityError, d)
                  else
                    let assistant = assistant_message assistant_id b m (ent_id entry) generation now;
                        account' = account\<lparr> acc_reserved_count := acc_reserved_count account - 1,
                                            acc_consumed_count := acc_consumed_count account + 1 \<rparr>;
                        entry' = consumed_entry now entry;
                        c' = c\<lparr> conv_last_message_at := Some now, conv_updated_at := now \<rparr>;
                        d' = flush_conversation c c' (add_message assistant
                               (flush_message m (completed_message now m)
                                 (save_entry entry' (save_account account' d))))
                    in settle execution_tables_ok AIExecutionIntegrityError
                         (Inr \<lparr> res_conversation = c', res_user_message = completed_message now m,
                            res_assistant_message = Some assistant,
                            res_usage = Some (usage_from_snapshot (snapshot_of entry' account' False)),
                            res_replayed = False, res_in_progress = False \<rparr>) d' d)))"

section \<open>Executing a request\<close>

text \<open>Fresh ids, the instants of the clock, and the duration of a lease.\<close>

record execution_context =
  x_message_id :: uuid
  x_account_id :: uuid
  x_entry_id :: uuid
  x_token :: uuid
  x_assistant_id :: uuid
  x_checked_at :: time
  x_released_at :: time
  x_marked_at :: time
  x_finished_at :: time
  x_recovered_at :: time
  x_lease :: int

text \<open>\<open>env n\<close> is what other transactions commit before the n-th step of this execution.\<close>

definition session_after :: "ai_message \<Rightarrow> ai_conversation \<Rightarrow> orm_session" where
  "session_after m c = \<lparr> orm_message = Some m, orm_conversation = Some c \<rparr>"

definition provider_answer ::
  "(string \<Rightarrow> string \<Rightarrow> gemini_error + gemini_generation) \<Rightarrow> ai_conversation \<Rightarrow> string
   \<Rightarrow> execution_code + gemini_generation" where
  "provider_answer generate c prompt =
     (case generate prompt (system_instruction c) of
        Inl e \<Rightarrow> Inl (provider_error_code e)
      | Inr g \<Rightarrow>
          if AI_MESSAGE_CONTENT_MAX_LENGTH < length (gen_text g) then Inl RESPONSE_TOO_LARGE
          else if conv_purpose c = DASHBOARD_ANALYSIS \<and> \<not> valid_dashboard_analysis (gen_text g)
          then Inl PROVIDER_INVALID
          else Inr g)"

definition execute_claimed ::
  "(string \<Rightarrow> string \<Rightarrow> gemini_error + gemini_generation) \<Rightarrow> execution_context \<Rightarrow> (nat \<Rightarrow> db \<Rightarrow> db)
   \<Rightarrow> db \<Rightarrow> uuid \<Rightarrow> uuid \<Rightarrow> uuid \<Rightarrow> bool \<Rightarrow> ai_execution_claim \<Rightarrow> string \<Rightarrow> uuid
   \<Rightarrow> (execution_error + ai_execution_result) \<times> db" where
  "execute_claimed generate ctx env d b message_id entry_id replayed cl prompt token =
     (let s = session_after (claim_user_message cl) (claim_conversation cl)
      in case provider_answer generate (claim_conversation cl) prompt of
           Inl code \<Rightarrow>
             (case fail_message_claim s (env 8 d) b message_id entry_id token code (x_finished_at ctx) of
                (Inl e, d1) \<Rightarrow> (Inl e, d1)
              | (Inr _, d1) \<Rightarrow> (Inl (AIExecutionFailedError code), d1))
         | Inr g \<Rightarrow>
             (case complete_message_claim (x_assistant_id ctx) s (env 8 d) b message_id entry_id token g
                     (x_finished_at ctx) of
                (Inl AIExecutionIntegrityError, d1) \<Rightarrow>
                  (Inl (AIExecutionFailedError PERSISTENCE_FAILURE),
                   snd (fail_message_claim expired_session (env 9 d1) b message_id entry_id token
                     PERSISTENCE_FAILURE (x_recovered_at ctx)))
              | (Inl e, d1) \<Rightarrow> (Inl e, d1)
              | (Inr r, d1) \<Rightarrow> (Inr (r\<lparr> res_replayed := replayed \<or> res_replayed r \<rparr>), d1)))"

definition recover_claim ::
  "execution_context \<Rightarrow> (nat \<Rightarrow> db \<Rightarrow> db) \<Rightarrow> db \<Rightarrow> uuid \<Rightarrow> uuid \<Rightarrow> uuid \<Rightarrow> db" where
  "recover_claim ctx env d b message_id entry_id =
     (case release (env 6 d) b entry_id (execution_code_value EXECUTION_INTEGRITY) (x_released_at ctx) of
        (Inl _, d1) \<Rightarrow> d1
      | (Inr _, d1) \<Rightarrow>
          snd (mark_pre_reservation_failure expired_session (env 7 d1) b message_id EXECUTION_INTEGRITY
            (x_marked_at ctx)))"

definition execute_reserved ::
  "(string \<Rightarrow> string) \<Rightarrow> (string \<Rightarrow> string \<Rightarrow> gemini_error + gemini_generation) \<Rightarrow> execution_context
   \<Rightarrow> (nat \<Rightarrow> db \<Rightarrow> db) \<Rightarrow> db \<Rightarrow> uuid \<Rightarrow> ai_message_submission \<Rightarrow> ledger_snapshot
   \<Rightarrow> (execution_error + ai_execution_result) \<times> db" where
  "execute_reserved sha generate ctx env d b subm reservation =
     (let message_id = msg_id (subm_user_message subm);
          entry_id = snap_entry_id reservation
      in case claim_message sha (x_lease ctx) (x_token ctx)
                (session_after (subm_user_message subm) (subm_conversation subm)) (env 5 d) b message_id
                reservation (x_checked_at ctx) of
           (Inl AIExecutionIntegrityError, d1) \<Rightarrow>
             (Inl (AIExecutionFailedError EXECUTION_INTEGRITY),
              recover_claim ctx env d1 b message_id entry_id)
         | (Inl e, d1) \<Rightarrow> (Inl e, d1)
         | (Inr cl, d1) \<Rightarrow>
             if claim_completed cl
             then (Inr \<lparr> res_conversation = claim_conversation cl, res_user_message = claim_user_message cl,
                     res_assistant_message = claim_assistant_message cl, res_usage = Some (claim_usage cl),
                     res_replayed = True, res_in_progress = False \<rparr>, d1)
             else (case (claim_in_progress cl, claim_token cl, claim_prompt cl) of
                     (False, Some token, Some prompt) \<Rightarrow>
                       execute_claimed generate ctx env d1 b message_id entry_id (subm_replayed subm) cl
                         prompt token
                   | _ \<Rightarrow>
                       (Inr \<lparr> res_conversation = claim_conversation cl,
                          res_user_message = claim_user_message cl, res_assistant_message = None,
                          res_usage = Some (claim_usage cl), res_replayed = subm_replayed subm,
                          res_in_progress = True \<rparr>, d1)))"

definition execute ::
  "(string \<Rightarrow> string) \<Rightarrow> (string \<Rightarrow> string \<Rightarrow> gemini_error + gemini_generation) \<Rightarrow> execution_context
   \<Rightarrow> (nat \<Rightarrow> db \<Rightarrow> db) \<Rightarrow> db \<Rightarrow> uuid \<Rightarrow> uuid \<Rightarrow> uuid \<Rightarrow> string \<Rightarrow> string
   \<Rightarrow> (execution_error + ai_execution_result) \<times> db" where
  "execute sha generate ctx env d b u conversation_id content idempotency_key =
     (case submit_user_message sha (env 0) (env 1) (x_message_id ctx) d b u conversation_id content
             idempotency_key (x_checked_at ctx) of
        (Inl e, d1) \<Rightarrow> (Inl (ExecutionConversationError e), d1)
      | (Inr subm, d1) \<Rightarrow>
          let d2 = env 2 d1
          in case (if subm_replayed subm then existing_result d2 b subm else Inr None) of
               Inl e \<Rightarrow> (Inl e, d2)
             | Inr (Some r) \<Rightarrow> (Inr r, d2)
             | Inr None \<Rightarrow>
                 (case reserve sha (env 3) (x_account_id ctx) (x_entry_id ctx) d2 b idempotency_key
                         (x_checked_at ctx) of
                    (Inl e, d3) \<Rightarrow>
                      (case reservation_error_code e of
                         None \<Rightarrow> (Inl (ExecutionCreditError e), d3)
                       | Some code \<Rightarrow>
                           (case mark_pre_reservation_failure expired_session (env 4 d3) b
                                   (msg_id (subm_user_message subm)) code (x_checked_at ctx) of
                              (Inl e', d4) \<Rightarrow> (Inl e', d4)
                            | (Inr _, d4) \<Rightarrow> (Inl (AIExecutionFailedError code), d4)))
                  | (Inr reservation, d3) \<Rightarrow>
                      execute_reserved sha generate ctx env d3 b subm reservation))"

end
