(* ===== verification/AI_System.thy ===== *)
theory AI_System
  imports Credit_Theorems AI_Execution Contracts
begin

text \<open>
  The requests of the AI routes as a system: what every transaction of an execution guarantees to the sessions that
  run beside it (\<open>ai_evolves\<close>), the invariant that ties messages to ledger entries (\<open>ai_inv\<close>), and the runs of
  interleaved requests.
\<close>

section \<open>Credit operations and the chat tables\<close>

definition same_chat :: "db \<Rightarrow> db \<Rightarrow> bool" where
  "same_chat d d' \<longleftrightarrow> ai_messages d' = ai_messages d \<and> ai_conversations d' = ai_conversations d
     \<and> role_assignments d' = role_assignments d \<and> dashboard_snapshots d' = dashboard_snapshots d"

lemma same_chat_refl [simp]: "same_chat d d"
  by (simp add: same_chat_def)

lemma same_chat_trans: "same_chat d d' \<Longrightarrow> same_chat d' d'' \<Longrightarrow> same_chat d d''"
  by (simp add: same_chat_def)

lemma credit_writes_same_chat [simp]:
  "same_chat d (save_account a d') \<longleftrightarrow> same_chat d d'" "same_chat d (save_entry e d') \<longleftrightarrow> same_chat d d'"
  "same_chat d (add_account a d') \<longleftrightarrow> same_chat d d'" "same_chat d (add_entry e d') \<longleftrightarrow> same_chat d d'"
  by (simp_all add: same_chat_def save_account_def save_entry_def add_account_def add_entry_def)

lemma ensure_account_same_chat:
  "ensure_account i d b s started ends limit = Some (a, d1) \<Longrightarrow> same_chat d d1"
  by (auto simp: ensure_account_def Let_def split: option.splits if_splits)

lemma ledger_step_same_chat: "ledger_step b d d' \<Longrightarrow> same_chat d d'"
proof (induction rule: ledger_step.induct)
  case (reserved i d b s started ends limit a d1 a' e g t)
  then show ?case by (simp add: ensure_account_same_chat)
next
  case (settled d b i d')
  then show ?case by (auto elim!: settledD)
next
  case (adjusted ids d b d')
  then obtain s started ends limit a d1 l j ev where
    en: "ensure_account (fresh_account_id ids) d b s started ends limit = Some (a, d1)"
    and d': "d' = (save_account (a\<lparr> acc_limit_value := Some l \<rparr>) d1)
          \<lparr> credit_adjustments := insert_row j (credit_adjustments d1),
            audit_events := insert_row ev (audit_events d1) \<rparr>" by (auto simp: adjusted_write_def)
  with ensure_account_same_chat [OF en] show ?case by (simp add: same_chat_def save_account_def)
qed

text \<open>A step of the ledger that consumes nothing.\<close>

definition quiet_step :: "uuid \<Rightarrow> db \<Rightarrow> db \<Rightarrow> bool" where
  "quiet_step b d d' \<longleftrightarrow> d' = d \<or> ledger_step b d d'
     \<and> (\<forall>e \<in> set (ledger_entries d'). ent_status e = CONSUMED \<longrightarrow> e \<in> set (ledger_entries d))"

lemma reserve_quiet: "quiet_step b (env d) (snd (reserve sha env i e d b key now))
    \<or> snd (reserve sha env i e d b key now) = d"
proof (cases "\<exists>g. digest_ai_idempotency_key sha key = Inr g \<and> existing_snapshot d b g = Inr None")
  case False
  then show ?thesis by (auto simp: reserve_def split: sum.splits option.splits)
next
  case True
  then obtain g where g: "digest_ai_idempotency_key sha key = Inr g" "existing_snapshot d b g = Inr None" by blast
  obtain r d' where locked: "reserve_locked i e (env d) b g now = (r, d')" by fastforce
  then have d': "snd (reserve sha env i e d b key now) = d'" using g by (simp add: reserve_def)
  from locked have "quiet_step b (env d) d'"
  proof (cases rule: reserve_locked_cases)
    case 1
    then show ?thesis by (simp add: quiet_step_def)
  next
    case (2 s a a' d1 limit started ends)
    then have "ledger_step b (env d) d'" by (auto intro: ledger_step.reserved)
    moreover have "ledger_entries d1 = ledger_entries (env d)" by (rule ensure_account_frame(1) [OF 2(1)])
    ultimately show ?thesis using 2(3) by (auto simp: quiet_step_def)
  qed
  with d' show ?thesis by simp
qed

lemma release_quiet: "quiet_step b d (snd (release d b i w t))"
proof -
  obtain r d' where rel: "release d b i w t = (r, d')" by fastforce
  have "\<forall>e \<in> set (ledger_entries d'). ent_status e = CONSUMED \<longrightarrow> e \<in> set (ledger_entries d)"
    using rel unfolding release_def Let_def
    by (simp split: option.splits sum.splits ai_credit_ledger_status.splits if_splits)
      (drule commit_credits_cases, fastforce simp: set_update_where)
  with release_cases [OF rel] rel show ?thesis
    by (auto simp: quiet_step_def intro: ledger_step.settled)
qed

lemma adjust_quiet: "quiet_step b d (snd (adjust sha ids now actor d b delta reason key rq))"
proof -
  obtain r d' where adj: "adjust sha ids now actor d b delta reason key rq = (r, d')" by fastforce
  have "ledger_entries d' = ledger_entries d" if "adjusted_write ids d b d'"
  proof -
    from that obtain s started ends limit a d1 l j ev where
      en: "ensure_account (fresh_account_id ids) d b s started ends limit = Some (a, d1)"
      and d': "d' = (save_account (a\<lparr> acc_limit_value := Some l \<rparr>) d1)
          \<lparr> credit_adjustments := insert_row j (credit_adjustments d1),
            audit_events := insert_row ev (audit_events d1) \<rparr>" by (auto simp: adjusted_write_def)
    then show ?thesis using ensure_account_frame(1) [OF en] by simp
  qed
  with adjust_cases [OF adj] adj show ?thesis
    by (auto simp: quiet_step_def intro: ledger_step.adjusted)
qed

section \<open>Messages and their credits\<close>

text \<open>
  A user message refers to the ledger entry of its own idempotency key; a completed one is answered and its
  entry consumed, a failed one has its entry released; an answer refers to a consumed entry, and every
  consumed entry has an answer.
\<close>

definition answered :: "db \<Rightarrow> ai_message \<Rightarrow> uuid \<Rightarrow> bool" where
  "answered d q i \<longleftrightarrow> (\<exists>m \<in> set (ai_messages d). msg_role m = MSG_ASSISTANT
     \<and> msg_business_id m = msg_business_id q \<and> msg_conversation_id m = msg_conversation_id q
     \<and> msg_reply_to_message_id m = Some (msg_id q) \<and> msg_credit_ledger_entry_id m = Some i)"

definition charge_ok :: "db \<Rightarrow> ai_message \<Rightarrow> ai_credit_ledger_entry \<Rightarrow> bool" where
  "charge_ok d m e \<longleftrightarrow>
     (msg_role m = MSG_ASSISTANT \<longrightarrow> ent_status e = CONSUMED)
   \<and> (msg_role m = MSG_USER \<longrightarrow> msg_idempotency_key_digest m = Some (ent_idempotency_key_digest e)
       \<and> (msg_status m = MSG_COMPLETED \<longrightarrow> ent_status e = CONSUMED \<and> answered d m (ent_id e))
       \<and> (msg_status m = MSG_FAILED \<longrightarrow> ent_status e = RELEASED))"

definition entry_of :: "ai_message \<Rightarrow> ai_credit_ledger_entry \<Rightarrow> bool" where
  "entry_of m e \<longleftrightarrow> msg_credit_ledger_entry_id m = Some (ent_id e) \<and> ent_business_id e = msg_business_id m"

definition chat_consistent :: "db \<Rightarrow> bool" where
  "chat_consistent d \<longleftrightarrow>
     (\<forall>m \<in> set (ai_messages d). \<forall>e \<in> set (ledger_entries d). entry_of m e \<longrightarrow> charge_ok d m e)
   \<and> (\<forall>e \<in> set (ledger_entries d). ent_status e = CONSUMED \<longrightarrow>
       (\<exists>m \<in> set (ai_messages d). msg_role m = MSG_ASSISTANT \<and> entry_of m e))"

definition ai_inv :: "db \<Rightarrow> bool" where
  "ai_inv d \<longleftrightarrow> credit_inv d \<and> ai_tables_ok d \<and> chat_consistent d"

text \<open>What another session may rely on about a message that it has loaded before.\<close>

definition held_ok :: "ai_message \<Rightarrow> db \<Rightarrow> bool" where
  "held_ok m d \<longleftrightarrow> (\<exists>row \<in> set (ai_messages d). msg_id row = msg_id m
     \<and> msg_business_id row = msg_business_id m \<and> msg_conversation_id row = msg_conversation_id m
     \<and> msg_role row = msg_role m \<and> msg_idempotency_key_digest row = msg_idempotency_key_digest m
     \<and> msg_content row = msg_content m \<and> msg_created_by_user_id row = msg_created_by_user_id m
     \<and> (msg_credit_ledger_entry_id m = None \<or> msg_credit_ledger_entry_id row = msg_credit_ledger_entry_id m))"

definition ai_evolves :: "db \<Rightarrow> db \<Rightarrow> bool" where
  "ai_evolves d d' \<longleftrightarrow> (ai_inv d \<longrightarrow> ai_inv d' \<and> (\<forall>m. held_ok m d \<longrightarrow> held_ok m d')
     \<and> (\<forall>e. final_entry e d \<longrightarrow> final_entry e d') \<and> (\<forall>k. known_entry k d \<longrightarrow> known_entry k d'))"

lemma ai_evolves_refl [simp]: "ai_evolves d d"
  by (simp add: ai_evolves_def)

lemma ai_evolves_trans [trans]: "ai_evolves d d' \<Longrightarrow> ai_evolves d' d'' \<Longrightarrow> ai_evolves d d''"
  by (simp add: ai_evolves_def)

lemma held_ok_row: "m \<in> set (ai_messages d) \<Longrightarrow> held_ok m d"
  by (auto simp: held_ok_def)

lemma message_table_okD:
  assumes "ai_tables_ok d"
  shows "unique_on msg_id (ai_messages d)" "list_all ai_message_checks (ai_messages d)"
    "unique_nullable (\<lambda>m. map_option (\<lambda>e. (msg_business_id m, e, msg_role m)) (msg_credit_ledger_entry_id m))
       (ai_messages d)"
  using assms unfolding ai_tables_ok_def message_table_ok_def by blast+

lemma message_entry_exists:
  assumes "ai_tables_ok d" and "m \<in> set (ai_messages d)" and "msg_credit_ledger_entry_id m = Some i"
  shows "\<exists>e \<in> set (ledger_entries d). ent_id e = i \<and> ent_business_id e = msg_business_id m"
proof -
  have "null_or (\<lambda>i. \<exists>e \<in> set (ledger_entries d). ent_id e = i \<and> ent_business_id e = msg_business_id m)
      (msg_credit_ledger_entry_id m)"
    using assms(1,2) unfolding ai_tables_ok_def message_table_ok_def by blast
  with assms(3) show ?thesis by simp
qed

lemma entry_exists:
  assumes "ai_tables_ok d" and "m \<in> set (ai_messages d)" and "msg_credit_ledger_entry_id m = Some i"
  obtains e where "e \<in> set (ledger_entries d)" "ent_id e = i" "entry_of m e"
  using message_entry_exists [OF assms] assms(3) by (auto simp: entry_of_def)

lemma entry_unique:
  assumes "credit_inv d" and "e \<in> set (ledger_entries d)" and "e' \<in> set (ledger_entries d)" and "ent_id e = ent_id e'"
  shows "e = e'"
  by (rule unique_onD [OF credit_tables_okD(2) assms(2-4)]) (use assms(1) in \<open>simp add: credit_inv_def\<close>)

lemma answered_same: "ai_messages d' = ai_messages d \<Longrightarrow> answered d' = answered d"
  by (simp add: fun_eq_iff answered_def)

lemma charge_ok_same: "ai_messages d' = ai_messages d \<Longrightarrow> charge_ok d' = charge_ok d"
  using answered_same [of d' d] by (intro ext) (simp add: charge_ok_def)

section \<open>Credit operations keep the chat consistent\<close>

lemma known_entryI: "e \<in> set (ledger_entries d) \<Longrightarrow> known_entry (entry_identity e) d"
  by (simp add: known_entry_def)

lemma ledger_step_entry_id:
  assumes "ledger_step b d d'" and "credit_inv d" and "e \<in> set (ledger_entries d)"
  obtains e' where "e' \<in> set (ledger_entries d')" "entry_identity e' = entry_identity e"
  using ledger_step_known [OF assms(1,2) known_entryI [OF assms(3)]] by (auto simp: known_entry_def)

lemma ledger_step_ai_tables:
  assumes step: "ledger_step b d d'" and inv: "credit_inv d" and ok: "ai_tables_ok d"
  shows "ai_tables_ok d'"
proof -
  have same: "ai_messages d' = ai_messages d" "ai_conversations d' = ai_conversations d"
    "role_assignments d' = role_assignments d" "dashboard_snapshots d' = dashboard_snapshots d"
    using ledger_step_same_chat [OF step] by (simp_all add: same_chat_def)
  have "\<exists>e \<in> set (ledger_entries d'). ent_id e = i \<and> ent_business_id e = msg_business_id m"
    if mi: "m \<in> set (ai_messages d)" "msg_credit_ledger_entry_id m = Some i" for m i
  proof -
    obtain e where e: "e \<in> set (ledger_entries d)" "ent_id e = i" "ent_business_id e = msg_business_id m"
      using message_entry_exists [OF ok mi] by blast
    from ledger_step_entry_id [OF step inv e(1)] e(2,3) show ?thesis
      by (auto simp: entry_identity_def)
  qed
  then have fk: "\<forall>m \<in> set (ai_messages d). null_or (\<lambda>i. \<exists>e \<in> set (ledger_entries d').
      ent_id e = i \<and> ent_business_id e = msg_business_id m) (msg_credit_ledger_entry_id m)"
    by (auto simp: null_or_def split: option.splits)
  from ok show ?thesis
    unfolding ai_tables_ok_def conversation_table_ok_def message_table_ok_def same using fk by blast
qed

lemma quiet_step_evolves: "quiet_step b d d' \<Longrightarrow> ai_evolves d d'"
  unfolding ai_evolves_def
proof (intro impI)
  assume q: "quiet_step b d d'" and inv: "ai_inv d"
  show "ai_inv d' \<and> (\<forall>m. held_ok m d \<longrightarrow> held_ok m d') \<and> (\<forall>e. final_entry e d \<longrightarrow> final_entry e d')
      \<and> (\<forall>k. known_entry k d \<longrightarrow> known_entry k d')"
  proof (cases "d' = d")
    case True
    with inv show ?thesis by simp
  next
    case False
    with q have step: "ledger_step b d d'"
      and old: "\<forall>e \<in> set (ledger_entries d'). ent_status e = CONSUMED \<longrightarrow> e \<in> set (ledger_entries d)"
      by (simp_all add: quiet_step_def)
    from inv have ci: "credit_inv d" and ok: "ai_tables_ok d" and cc: "chat_consistent d"
      by (simp_all add: ai_inv_def)
    have same: "ai_messages d' = ai_messages d"
      using ledger_step_same_chat [OF step] by (simp add: same_chat_def)
    have ci': "credit_inv d'" by (rule ledger_step_inv [OF step ci])
    have final: "\<forall>e. final_entry e d \<longrightarrow> final_entry e d'"
      using ledger_step_final [OF step ci] by blast
    have charge: "charge_ok d' m e'" if m: "m \<in> set (ai_messages d)" and e': "e' \<in> set (ledger_entries d')"
      and of': "entry_of m e'" for m e'
    proof -
      obtain e where e: "e \<in> set (ledger_entries d)" "ent_id e = ent_id e'" "entry_of m e"
        using of' by (auto simp: entry_of_def elim: entry_exists [OF ok m])
      have ch: "charge_ok d m e" using cc m e(1,3) by (simp add: chat_consistent_def)
      have id: "entry_identity e' = entry_identity e"
        using ledger_step_entry_id [OF step ci e(1)] entry_unique [OF ci' e'] e(2)
        by (metis entry_identity_def prod.inject)
      have st: "e' = e" if "ent_status e \<noteq> RESERVED"
        using final e(1,2) that entry_unique [OF ci' e'] by (auto simp: final_entry_def)
      from ch id st show ?thesis
        unfolding charge_ok_same [OF same] by (auto simp: charge_ok_def entry_identity_def)
    qed
    have "chat_consistent d'"
      using cc charge old unfolding chat_consistent_def same by blast
    moreover have "ai_tables_ok d'" by (rule ledger_step_ai_tables [OF step ci ok])
    ultimately show ?thesis
      using ci' final ledger_step_known [OF step ci] same by (auto simp: ai_inv_def held_ok_def)
  qed
qed

section \<open>Writes of the chat tables\<close>

lemma chat_write_sel [simp]:
  "ai_messages (add_message m d) = insert_row m (ai_messages d)"
  "ai_messages (touch_conversation i t d) = ai_messages d"
  "ai_messages (flush_conversation c c' d) = ai_messages d"
  "ai_messages (save_entry e d) = ai_messages d" "ai_messages (save_account a d) = ai_messages d"
  "ledger_entries (add_message m d) = ledger_entries d"
  "ledger_entries (touch_conversation i t d) = ledger_entries d"
  "ledger_entries (flush_conversation c c' d) = ledger_entries d"
  "ledger_entries (flush_message m m' d) = ledger_entries d"
  "ledger_entries (add_conversation c d) = ledger_entries d"
  "ai_messages (add_conversation c d) = ai_messages d"
  by (simp_all add: add_message_def touch_conversation_def flush_conversation_def flush_message_def
      save_entry_def save_account_def add_conversation_def)

lemma credit_tables_ok_chat [simp]:
  "credit_tables_ok (add_message m d) = credit_tables_ok d"
  "credit_tables_ok (touch_conversation i t d) = credit_tables_ok d"
  "credit_tables_ok (flush_conversation c c' d) = credit_tables_ok d"
  "credit_tables_ok (flush_message m m' d) = credit_tables_ok d"
  "credit_tables_ok (add_conversation c d) = credit_tables_ok d"
  by (simp_all add: credit_tables_ok_def credit_account_table_ok_def ledger_table_ok_def adjustment_table_ok_def
      audit_table_ok_def add_message_def touch_conversation_def flush_conversation_def flush_message_def
      add_conversation_def)

lemma ledger_consistent_chat [simp]:
  "ledger_consistent (add_message m d) = ledger_consistent d"
  "ledger_consistent (touch_conversation i t d) = ledger_consistent d"
  "ledger_consistent (flush_conversation c c' d) = ledger_consistent d"
  "ledger_consistent (flush_message m m' d) = ledger_consistent d"
  "ledger_consistent (add_conversation c d) = ledger_consistent d"
  by (simp_all add: ledger_consistent_def add_message_def touch_conversation_def flush_conversation_def
      flush_message_def add_conversation_def)

lemma credit_inv_chat [simp]:
  "credit_inv (add_message m d) = credit_inv d" "credit_inv (touch_conversation i t d) = credit_inv d"
  "credit_inv (flush_conversation c c' d) = credit_inv d" "credit_inv (flush_message m m' d) = credit_inv d"
  "credit_inv (add_conversation c d) = credit_inv d"
  by (simp_all add: credit_inv_def)

lemma set_flush_message:
  assumes "unique_on msg_id (ai_messages d)" and "row \<in> set (ai_messages d)" and "msg_id row = msg_id m"
  shows "set (ai_messages (flush_message m m' d))
       = insert (flushed_message m m' row) {x \<in> set (ai_messages d). msg_id x \<noteq> msg_id m}"
proof -
  have one: "{x \<in> set (ai_messages d). msg_id x = msg_id m} = {row}"
  proof (intro equalityI subsetI)
    fix x assume "x \<in> {x \<in> set (ai_messages d). msg_id x = msg_id m}"
    then have "x \<in> set (ai_messages d)" "msg_id x = msg_id row" using assms(3) by simp_all
    then have "x = row" using unique_onD [OF assms(1) _ assms(2)] by blast
    then show "x \<in> {row}" by simp
  qed (use assms(2,3) in simp)
  have "ai_messages (flush_message m m' d)
      = update_where (\<lambda>x. msg_id x = msg_id m) (flushed_message m m') (ai_messages d)"
    by (simp add: flush_message_def)
  then show ?thesis by (simp only: set_update_where one image_insert image_empty insert_is_Un [symmetric])
qed

lemma flushed_message_sel [simp]:
  "msg_id (flushed_message m m' row) = msg_id row" "msg_business_id (flushed_message m m' row) = msg_business_id row"
  "msg_conversation_id (flushed_message m m' row) = msg_conversation_id row"
  "msg_role (flushed_message m m' row) = msg_role row"
  "msg_reply_to_message_id (flushed_message m m' row) = msg_reply_to_message_id row"
  "msg_idempotency_key_digest (flushed_message m m' row) = msg_idempotency_key_digest row"
  "msg_content (flushed_message m m' row) = msg_content row"
  "msg_created_by_user_id (flushed_message m m' row) = msg_created_by_user_id row"
  by (simp_all add: flushed_message_def)

definition held_row :: "ai_message \<Rightarrow> ai_message \<Rightarrow> bool" where
  "held_row m row \<longleftrightarrow> msg_id row = msg_id m
     \<and> msg_business_id row = msg_business_id m \<and> msg_conversation_id row = msg_conversation_id m
     \<and> msg_role row = msg_role m \<and> msg_idempotency_key_digest row = msg_idempotency_key_digest m
     \<and> msg_content row = msg_content m \<and> msg_created_by_user_id row = msg_created_by_user_id m
     \<and> (msg_credit_ledger_entry_id m = None \<or> msg_credit_ledger_entry_id row = msg_credit_ledger_entry_id m)"

lemma held_ok_iff: "held_ok m d \<longleftrightarrow> (\<exists>row \<in> set (ai_messages d). held_row m row)"
  by (simp add: held_ok_def held_row_def)

lemma held_row_trans: "held_row m row \<Longrightarrow> held_row row row' \<Longrightarrow> held_row m row'"
  by (auto simp: held_row_def)

lemma held_okE:
  assumes "held_ok m d"
  obtains row where "row \<in> set (ai_messages d)" "held_row m row"
  using assms by (auto simp: held_ok_iff)

text \<open>A write that keeps the rows of all messages, up to fields that a holder does not rely on.\<close>

lemma held_ok_mono:
  assumes "\<And>row. row \<in> set (ai_messages d) \<Longrightarrow> \<exists>row' \<in> set (ai_messages d'). held_row row row'"
    and "held_ok m d"
  shows "held_ok m d'"
  using assms held_row_trans by (meson held_ok_iff)

lemma held_row_refl [simp]: "held_row m m"
  by (simp add: held_row_def)

lemma answered_insert:
  "answered d q i \<Longrightarrow> set (ai_messages d) \<subseteq> set (ai_messages d') \<Longrightarrow> answered d' q i"
  by (auto simp: answered_def)

subsection \<open>A new user message\<close>

lemma add_user_message_evolves:
  assumes ok: "ai_tables_ok (add_message m (touch_conversation i t d))" (is "ai_tables_ok ?d")
    and m: "msg_role m = MSG_USER" "msg_credit_ledger_entry_id m = None"
  shows "ai_evolves d ?d"
  unfolding ai_evolves_def
proof (intro impI)
  assume inv: "ai_inv d"
  have sub: "set (ai_messages d) \<subseteq> set (ai_messages ?d)" by auto
  have "chat_consistent ?d"
    unfolding chat_consistent_def
  proof (intro conjI ballI impI)
    fix x e assume x: "x \<in> set (ai_messages ?d)" and e: "e \<in> set (ledger_entries ?d)" and of': "entry_of x e"
    show "charge_ok ?d x e"
    proof (cases "x = m")
      case True
      with of' m show ?thesis by (simp add: entry_of_def)
    next
      case False
      with x e of' inv have "charge_ok d x e" by (simp add: ai_inv_def chat_consistent_def)
      then show ?thesis using answered_insert [OF _ sub] by (simp add: charge_ok_def)
    qed
  next
    fix e assume "e \<in> set (ledger_entries ?d)" "ent_status e = CONSUMED"
    with inv obtain x where "x \<in> set (ai_messages d)" "msg_role x = MSG_ASSISTANT" "entry_of x e"
      by (auto simp: ai_inv_def chat_consistent_def)
    with sub show "\<exists>x \<in> set (ai_messages ?d). msg_role x = MSG_ASSISTANT \<and> entry_of x e" by blast
  qed
  then show "ai_inv ?d \<and> (\<forall>m. held_ok m d \<longrightarrow> held_ok m ?d) \<and> (\<forall>e. final_entry e d \<longrightarrow> final_entry e ?d)
      \<and> (\<forall>k. known_entry k d \<longrightarrow> known_entry k ?d)"
    using ok inv by (auto simp: ai_inv_def held_ok_iff final_entry_def known_entry_def)
qed

lemma add_conversation_evolves:
  assumes "ai_tables_ok (add_conversation c d)"
  shows "ai_evolves d (add_conversation c d)"
  unfolding ai_evolves_def
  using assms charge_ok_same [of "add_conversation c d" d]
  by (auto simp: ai_inv_def chat_consistent_def held_ok_def final_entry_def known_entry_def)

subsection \<open>The claim of a message\<close>

lemma entry_of_known:
  assumes inv: "credit_inv d" and "e \<in> set (ledger_entries d)" and "ent_business_id e = b"
    and "ent_idempotency_key_digest e = g" and "known_entry (i, b, g, acc, sub) d"
  shows "ent_id e = i"
proof -
  obtain e' where e': "e' \<in> set (ledger_entries d)" "ent_id e' = i" "ent_business_id e' = b"
    "ent_idempotency_key_digest e' = g" using assms(5) by (auto simp: known_entry_def entry_identity_def)
  have "unique_on (\<lambda>e. (ent_business_id e, ent_idempotency_key_digest e)) (ledger_entries d)"
    using inv by (simp add: credit_inv_def credit_tables_ok_def ledger_table_ok_def)
  from unique_onD [OF this assms(2) e'(1)] e' assms(3,4) show ?thesis by simp
qed

lemma answered_update:
  assumes "answered d q i" and "\<And>x. x \<in> set (ai_messages d) \<Longrightarrow> msg_role x = MSG_ASSISTANT \<Longrightarrow> x \<in> set (ai_messages d')"
  shows "answered d' q i"
  using assms by (auto simp: answered_def)

lemma answered_cong:
  "msg_id q' = msg_id q \<Longrightarrow> msg_business_id q' = msg_business_id q \<Longrightarrow> msg_conversation_id q' = msg_conversation_id q
   \<Longrightarrow> answered d q' i = answered d q i"
  by (simp add: answered_def)

lemma chat_consistentD:
  assumes "chat_consistent d"
  shows "\<And>m e. m \<in> set (ai_messages d) \<Longrightarrow> e \<in> set (ledger_entries d) \<Longrightarrow> entry_of m e \<Longrightarrow> charge_ok d m e"
    "\<And>e. e \<in> set (ledger_entries d) \<Longrightarrow> ent_status e = CONSUMED \<Longrightarrow>
       \<exists>m \<in> set (ai_messages d). msg_role m = MSG_ASSISTANT \<and> entry_of m e"
  using assms by (auto simp: chat_consistent_def)

text \<open>A flush of a user message: it is enough to look at the row it writes.\<close>

lemma flush_user_evolves:
  assumes ok: "ai_tables_ok (flush_message m m' d)" (is "ai_tables_ok ?d")
    and row: "row \<in> set (ai_messages d)" "held_row m row" "msg_role m = MSG_USER"
    and keep: "ai_inv d \<Longrightarrow> held_row row (flushed_message m m' row)"
    and charge: "\<And>e. ai_inv d \<Longrightarrow> e \<in> set (ledger_entries d) \<Longrightarrow> entry_of (flushed_message m m' row) e \<Longrightarrow>
      charge_ok d (flushed_message m m' row) e"
  shows "ai_evolves d ?d"
  unfolding ai_evolves_def
proof (intro impI)
  assume inv: "ai_inv d"
  then have cc: "chat_consistent d" and u: "unique_on msg_id (ai_messages d)"
    using message_table_okD(1) by (simp_all add: ai_inv_def)
  let ?r = "flushed_message m m' row"
  have id: "msg_id row = msg_id m" "msg_role row = MSG_USER" using row(2,3) by (simp_all add: held_row_def)
  note set' = set_flush_message [OF u row(1) id(1), of m']
  have same: "x \<in> set (ai_messages ?d)" if "x \<in> set (ai_messages d)" "msg_role x = MSG_ASSISTANT" for x
    using that set' unique_onD [OF u _ row(1)] id by auto
  have up: "charge_ok ?d x e" if "charge_ok d x e" for x e
    using that answered_update [of d x "ent_id e" ?d] same unfolding charge_ok_def by blast
  have "chat_consistent ?d"
    unfolding chat_consistent_def
  proof (intro conjI ballI impI)
    fix x e assume x: "x \<in> set (ai_messages ?d)" and e: "e \<in> set (ledger_entries ?d)" and of': "entry_of x e"
    show "charge_ok ?d x e"
    proof (cases "x = ?r")
      case True
      then show ?thesis using charge [OF inv, of e] e of' up by simp
    next
      case False
      with x set' have "x \<in> set (ai_messages d)" by auto
      with chat_consistentD(1) [OF cc] e of' up show ?thesis by simp
    qed
  next
    fix e assume "e \<in> set (ledger_entries ?d)" "ent_status e = CONSUMED"
    with chat_consistentD(2) [OF cc] same
    show "\<exists>x \<in> set (ai_messages ?d). msg_role x = MSG_ASSISTANT \<and> entry_of x e" by fastforce
  qed
  moreover have "held_ok x ?d" if "held_ok x d" for x
  proof (rule held_ok_mono [OF _ that])
    fix y assume y: "y \<in> set (ai_messages d)"
    show "\<exists>y' \<in> set (ai_messages ?d). held_row y y'"
    proof (cases "y = row")
      case True
      with keep [OF inv] set' show ?thesis by auto
    next
      case False
      with y u row(1) id have "y \<in> set (ai_messages ?d)" using set' unique_onD [OF u y row(1)] by auto
      then show ?thesis by (auto intro: held_row_refl)
    qed
  qed
  ultimately show "ai_inv ?d \<and> (\<forall>m. held_ok m d \<longrightarrow> held_ok m ?d) \<and> (\<forall>e. final_entry e d \<longrightarrow> final_entry e ?d)
      \<and> (\<forall>k. known_entry k d \<longrightarrow> known_entry k ?d)"
    using ok inv by (auto simp: ai_inv_def final_entry_def known_entry_def)
qed

lemma flushed_status: "msg_status m' = msg_status m \<Longrightarrow> msg_status (flushed_message m m' row) = msg_status row"
  by (simp add: flushed_message_def written_def)

lemma flushed_entry: "held_row m row \<Longrightarrow> msg_credit_ledger_entry_id m' = msg_credit_ledger_entry_id m \<Longrightarrow>
    msg_credit_ledger_entry_id (flushed_message m m' row) = msg_credit_ledger_entry_id row"
  by (simp add: flushed_message_def written_def)

lemma flushed_row_checks:
  assumes "ai_tables_ok (flush_message m m' d)" and "ai_inv d" and "row \<in> set (ai_messages d)" and "held_row m row"
  shows "ai_message_checks (flushed_message m m' row)"
proof -
  have "unique_on msg_id (ai_messages d)" using assms(2) message_table_okD(1) by (simp add: ai_inv_def)
  from set_flush_message [OF this assms(3), of m m'] assms(4)
  have "flushed_message m m' row \<in> set (ai_messages (flush_message m m' d))" by (simp add: held_row_def)
  with message_table_okD(2) [OF assms(1)] show ?thesis by (auto simp: list_all_iff)
qed

definition claimed_with_entry :: "ai_message \<Rightarrow> bool" where
  "claimed_with_entry m \<longleftrightarrow> msg_processing_token m = None \<or> msg_credit_ledger_entry_id m \<noteq> None"

lemma checks_claimed_with_entry: "ai_message_checks m \<Longrightarrow> msg_role m = MSG_USER \<Longrightarrow> claimed_with_entry m"
  by (auto simp: ai_message_checks_def message_status_fields_check_def is_null_iff claimed_with_entry_def)

lemma failed_no_token:
  "ai_message_checks m \<Longrightarrow> msg_status m = MSG_FAILED \<Longrightarrow> msg_role m = MSG_USER \<Longrightarrow> msg_processing_token m = None"
  by (auto simp: ai_message_checks_def message_status_fields_check_def is_null_iff)

lemma completed_entry:
  "ai_message_checks m \<Longrightarrow> msg_status m = MSG_COMPLETED \<Longrightarrow> msg_role m = MSG_USER \<Longrightarrow>
     msg_credit_ledger_entry_id m \<noteq> None"
  by (auto simp: ai_message_checks_def message_status_fields_check_def is_null_iff)

lemma message_row_checks: "ai_inv d \<Longrightarrow> m \<in> set (ai_messages d) \<Longrightarrow> ai_message_checks m"
  using message_table_okD(2) by (auto simp: ai_inv_def list_all_iff)

lemma charge_ok_cong:
  "charge_ok d m e \<Longrightarrow> msg_id m' = msg_id m \<Longrightarrow> msg_business_id m' = msg_business_id m \<Longrightarrow>
   msg_conversation_id m' = msg_conversation_id m \<Longrightarrow> msg_role m' = msg_role m \<Longrightarrow>
   msg_idempotency_key_digest m' = msg_idempotency_key_digest m \<Longrightarrow> msg_status m' = msg_status m \<Longrightarrow>
   charge_ok d m' e"
  using answered_cong [of m' m d "ent_id e"] by (simp add: charge_ok_def)

text \<open>The entry that a row refers to is the one of its key.\<close>

lemma row_entry_of_key:
  assumes inv: "ai_inv d" and row: "row \<in> set (ai_messages d)" "msg_role row = MSG_USER"
    "msg_idempotency_key_digest row = Some g" "msg_credit_ledger_entry_id row = Some j"
    and known: "known_entry (i, msg_business_id row, g, acc, sub) d"
  shows "j = i"
proof -
  have ci: "credit_inv d" and ok: "ai_tables_ok d" and cc: "chat_consistent d"
    using inv by (simp_all add: ai_inv_def)
  obtain e where e: "e \<in> set (ledger_entries d)" "ent_id e = j" "entry_of row e"
    by (rule entry_exists [OF ok row(1,4)])
  have "charge_ok d row e" by (rule chat_consistentD(1) [OF cc row(1) e(1,3)])
  with row have "ent_idempotency_key_digest e = g" by (simp add: charge_ok_def)
  with entry_of_known [OF ci e(1) _ _ known] e show ?thesis by (simp add: entry_of_def)
qed

lemma claim_flush_evolves:
  assumes ok: "ai_tables_ok (flush_message m m' d)"
    and m': "m' = m\<lparr> msg_credit_ledger_entry_id := Some i, msg_processing_token := Some t,
                   msg_processing_lease_expires_at := Some l \<rparr>"
    and row: "row \<in> set (ai_messages d)" "held_row m row"
    and m: "msg_role m = MSG_USER" "msg_status m = MSG_PENDING" "claimed_with_entry m"
      "msg_credit_ledger_entry_id m \<in> {None, Some i}" "msg_idempotency_key_digest m = Some g"
    and known: "known_entry (i, msg_business_id m, g, acc, sub) d"
  shows "ai_evolves d (flush_message m m' d) \<and> (ai_inv d \<longrightarrow> held_ok m' (flush_message m m' d))"
proof
  let ?r = "flushed_message m m' row"
  have eq: "msg_id row = msg_id m" "msg_business_id row = msg_business_id m" "msg_role row = MSG_USER"
    "msg_idempotency_key_digest row = Some g" "msg_conversation_id row = msg_conversation_id m"
    "msg_content row = msg_content m" "msg_created_by_user_id row = msg_created_by_user_id m"
    using row(2) m(1,5) by (simp_all add: held_row_def)
  have own: "j = i" if "ai_inv d" "msg_credit_ledger_entry_id row = Some j" for j
    using row_entry_of_key [OF that(1) row(1) eq(3,4) that(2)] known eq(2) by simp
  have entry: "msg_credit_ledger_entry_id ?r = Some i"
    using m(4) row(2) by (auto simp: flushed_message_def written_def m' held_row_def)
  have status: "msg_status ?r = msg_status row" by (rule flushed_status) (simp add: m')
  have keep: "held_row row ?r" if "ai_inv d"
    using own [OF that] entry by (cases "msg_credit_ledger_entry_id row") (auto simp: held_row_def)
  have charge: "charge_ok d ?r e"
    if inv: "ai_inv d" and e: "e \<in> set (ledger_entries d)" and of': "entry_of ?r e" for e
  proof -
    have ci: "credit_inv d" and cc: "chat_consistent d" using inv by (simp_all add: ai_inv_def)
    have ei: "ent_id e = i" "ent_business_id e = msg_business_id m"
      using of' entry eq(2) by (simp_all add: entry_of_def)
    have key: "ent_idempotency_key_digest e = g"
      using known ei(1) entry_unique [OF ci e] by (auto simp: known_entry_def entry_identity_def)
    have old: "charge_ok d ?r e" if "msg_credit_ledger_entry_id row \<noteq> None"
    proof -
      have "msg_credit_ledger_entry_id row = Some i" using that own [OF inv] by auto
      then have "entry_of row e" using ei eq(2) by (simp add: entry_of_def)
      from chat_consistentD(1) [OF cc row(1) e this] show ?thesis
        by (rule charge_ok_cong) (simp_all add: status)
    qed
    show ?thesis
    proof (cases "msg_status row")
      case MSG_PENDING
      then show ?thesis using key status eq by (simp add: charge_ok_def)
    next
      case MSG_COMPLETED
      with completed_entry [OF message_row_checks [OF inv row(1)]] eq(3) old show ?thesis by blast
    next
      case MSG_FAILED
      have none: "msg_processing_token ?r = None"
        using failed_no_token [OF flushed_row_checks [OF ok inv row]] status MSG_FAILED eq(3) by simp
      then have "msg_processing_token m \<noteq> None"
        by (cases "msg_processing_token m") (simp_all add: flushed_message_def written_def m')
      with m(3) row(2) have "msg_credit_ledger_entry_id row \<noteq> None"
        by (auto simp: held_row_def claimed_with_entry_def)
      then show ?thesis by (rule old)
    qed
  qed
  show "ai_evolves d (flush_message m m' d)"
    by (rule flush_user_evolves [OF ok row m(1) keep charge])
  show "ai_inv d \<longrightarrow> held_ok m' (flush_message m m' d)"
  proof
    assume inv: "ai_inv d"
    have "unique_on msg_id (ai_messages d)" using inv message_table_okD(1) by (simp add: ai_inv_def)
    from set_flush_message [OF this row(1) eq(1), of m']
    have "?r \<in> set (ai_messages (flush_message m m' d))" by simp
    moreover have "held_row m' ?r" using entry eq m by (simp add: held_row_def m')
    ultimately show "held_ok m' (flush_message m m' d)" by (auto simp: held_ok_iff)
  qed
qed

text \<open>Failing a message: its entry, if it has one, is released.\<close>

lemma fail_flush_evolves:
  assumes ok: "ai_tables_ok (flush_message m (failed_message code now m) d)"
    and row: "row \<in> set (ai_messages d)" "held_row m row"
    and m: "msg_role m = MSG_USER" "msg_status m = MSG_PENDING"
    and released: "\<And>e. e \<in> set (ledger_entries d) \<Longrightarrow> entry_of row e \<Longrightarrow> ent_status e = RELEASED"
  shows "ai_evolves d (flush_message m (failed_message code now m) d)"
proof (rule flush_user_evolves [OF ok row m(1)])
  let ?r = "flushed_message m (failed_message code now m) row"
  have entry: "msg_credit_ledger_entry_id ?r = msg_credit_ledger_entry_id row"
    using row(2) by (rule flushed_entry) (simp add: failed_message_def)
  have status: "msg_status ?r = MSG_FAILED"
    using m(2) by (simp add: flushed_message_def written_def failed_message_def)
  show "held_row row ?r" using entry by (simp add: held_row_def)
  fix e assume inv: "ai_inv d" and e: "e \<in> set (ledger_entries d)" and of': "entry_of ?r e"
  then have of_row: "entry_of row e" using entry by (simp add: entry_of_def)
  have "charge_ok d row e"
    using inv chat_consistentD(1) [OF _ row(1) e of_row] by (simp add: ai_inv_def)
  with status released [OF e of_row] show "charge_ok d ?r e" by (simp add: charge_ok_def)
qed

subsection \<open>The completion of a message\<close>

lemma lock_ledgerD:
  assumes "lock_ledger d b i = Some (e, a)"
  shows "entry_by_id d b i = Some e" "account_for_entry d b e = Inr a"
  using assms by (auto simp: lock_ledger_def split: option.splits sum.splits)

lemma complete_evolves:
  fixes assistant_id b entry_id g now and d :: db and entry account m c c'
  defines "assistant \<equiv> assistant_message assistant_id b m (ent_id entry) g now"
    and "d1 \<equiv> save_entry (consumed_entry now entry) (save_account
           (account\<lparr> acc_reserved_count := acc_reserved_count account - 1,
                     acc_consumed_count := acc_consumed_count account + 1 \<rparr>) d)"
  defines "d' \<equiv> flush_conversation c c' (add_message assistant (flush_message m (completed_message now m) d1))"
  assumes ok: "execution_tables_ok d'"
    and lock: "lock_ledger d b entry_id = Some (entry, account)"
    and reserved: "ent_status entry = RESERVED" "1 \<le> acc_reserved_count account"
    and row: "row \<in> set (ai_messages d)" "held_row m row"
    and m: "msg_role m = MSG_USER" "msg_status m = MSG_PENDING" "msg_business_id m = b"
      "msg_credit_ledger_entry_id m = Some entry_id"
  shows "ai_evolves d d'"
  unfolding ai_evolves_def
proof (intro impI)
  assume inv: "ai_inv d"
  then have ci: "credit_inv d" and ok0: "ai_tables_ok d" and cc: "chat_consistent d" by (simp_all add: ai_inv_def)
  note entry = entry_by_id_SomeD [OF lock_ledgerD(1) [OF lock]]
  let ?e = "consumed_entry now entry"
  let ?a = "account\<lparr> acc_reserved_count := acc_reserved_count account - 1,
                     acc_consumed_count := acc_consumed_count account + 1 \<rparr>"
  have st: "settles account ?a entry ?e"
    unfolding settles_def consumed_entry_def using reserved by simp blast
  have step: "ledger_step b d d1"
    using lock_ledgerD [OF lock] st ok unfolding d'_def d1_def
    by (intro ledger_step.settled [where i = entry_id]) (auto simp: settled_write_def execution_tables_ok_def)
  have ci1: "credit_inv d1" by (rule ledger_step_inv [OF step ci])
  have same1: "ai_messages d1 = ai_messages d" by (simp add: d1_def)
  have led: "ledger_entries d' = ledger_entries d1" by (simp add: d'_def)
  have entries: "x \<in> set (ledger_entries d1) \<longleftrightarrow> x = ?e \<or> x \<in> set (ledger_entries d) \<and> ent_id x \<noteq> entry_id" for x
    using entry unfolding d1_def by (auto simp: set_update_where consumed_entry_def)
  have uniq: "unique_on msg_id (ai_messages d)" by (rule message_table_okD(1) [OF ok0])
  let ?m = "completed_message now m" and ?r = "flushed_message m (completed_message now m) row"
  have id: "msg_id row = msg_id m" "msg_role row = MSG_USER" "msg_business_id row = b"
    "msg_credit_ledger_entry_id row = Some entry_id" "msg_conversation_id row = msg_conversation_id m"
    using row(2) m by (simp_all add: held_row_def)
  have msgs: "set (ai_messages d') = insert assistant (insert ?r {x \<in> set (ai_messages d). msg_id x \<noteq> msg_id m})"
    using set_flush_message [of d1 row m ?m] uniq row(1) id(1) by (simp add: d'_def same1)
  have r: "msg_credit_ledger_entry_id ?r = Some entry_id" "msg_status ?r = MSG_COMPLETED"
    using id(4) m(2) by (simp_all add: flushed_message_def written_def completed_message_def)
  have a: "msg_role assistant = MSG_ASSISTANT" "msg_credit_ledger_entry_id assistant = Some entry_id"
    "msg_business_id assistant = b" "msg_reply_to_message_id assistant = Some (msg_id m)"
    "msg_conversation_id assistant = msg_conversation_id m"
    using entry by (simp_all add: assistant_def assistant_message_def)
  have ee: "ent_id ?e = entry_id" "ent_business_id ?e = b" "ent_status ?e = CONSUMED"
    "ent_idempotency_key_digest ?e = ent_idempotency_key_digest entry"
    using entry by (simp_all add: consumed_entry_def)
  have old: "charge_ok d x entry" if "x \<in> set (ai_messages d)" "entry_of x entry" for x
    by (rule chat_consistentD(1) [OF cc that(1) _ that(2)]) (use entry in simp)
  have keep: "x \<in> set (ai_messages d')" if "x \<in> set (ai_messages d)" "x \<noteq> row" for x
    using that unique_onD [OF uniq that(1) row(1)] id(1) msgs by auto
  have same: "x \<in> set (ai_messages d')" if "x \<in> set (ai_messages d)" "msg_role x = MSG_ASSISTANT" for x
    using keep [OF that(1)] that(2) id(2) by (cases "x = row") auto
  have up: "charge_ok d' x e" if "charge_ok d x e" for x e
    using that answered_update [of d x "ent_id e" d'] same unfolding charge_ok_def by blast
  have digest: "msg_idempotency_key_digest row = Some (ent_idempotency_key_digest entry)"
    using old [OF row(1)] id entry by (simp add: entry_of_def charge_ok_def)
  have "chat_consistent d'"
    unfolding chat_consistent_def
  proof (intro conjI ballI impI)
    fix x e assume x: "x \<in> set (ai_messages d')" and e: "e \<in> set (ledger_entries d')" and of': "entry_of x e"
    have e_cases: "e = ?e \<or> e \<in> set (ledger_entries d) \<and> ent_id e \<noteq> entry_id"
      using e unfolding led entries .
    consider (new) "x = assistant" | (row) "x = ?r" | (old) "x \<in> set (ai_messages d)" "msg_id x \<noteq> msg_id m"
      using x msgs by auto
    then show "charge_ok d' x e"
    proof cases
      case new
      then have "e = ?e" using of' a(2) e_cases by (auto simp: entry_of_def)
      with new a ee show ?thesis by (simp add: charge_ok_def)
    next
      case row
      then have "e = ?e" using of' r(1) e_cases by (auto simp: entry_of_def)
      moreover have "answered d' ?r entry_id" using a id msgs by (auto simp: answered_def)
      ultimately show ?thesis using row r ee digest id by (simp add: charge_ok_def)
    next
      case old': old
      show ?thesis
      proof (cases "e = ?e")
        case False
        with e_cases chat_consistentD(1) [OF cc old'(1) _ of'] up show ?thesis by blast
      next
        case True
        then have "entry_of x entry" using of' ee entry by (simp add: entry_of_def)
        from old [OF old'(1) this] True ee reserved(1) show ?thesis by (auto simp: charge_ok_def)
      qed
    qed
  next
    fix e assume "e \<in> set (ledger_entries d')" "ent_status e = CONSUMED"
    then consider "e = ?e" | "e \<in> set (ledger_entries d)" "ent_status e = CONSUMED" using led entries by auto
    then show "\<exists>x \<in> set (ai_messages d'). msg_role x = MSG_ASSISTANT \<and> entry_of x e"
    proof cases
      case 1
      then show ?thesis using a ee msgs by (auto simp: entry_of_def)
    next
      case 2
      with chat_consistentD(2) [OF cc] same show ?thesis by blast
    qed
  qed
  moreover have "credit_inv d'" using ci1 by (simp add: d'_def)
  moreover have "ai_tables_ok d'" using ok by (simp add: execution_tables_ok_def)
  moreover have "held_ok x d'" if "held_ok x d" for x
  proof (rule held_ok_mono [OF _ that])
    fix y assume y: "y \<in> set (ai_messages d)"
    show "\<exists>y' \<in> set (ai_messages d'). held_row y y'"
    proof (cases "y = row")
      case True
      then have "held_row y ?r" using r id by (simp add: held_row_def)
      with msgs show ?thesis by auto
    next
      case False
      with keep [OF y] show ?thesis by (auto intro: held_row_refl)
    qed
  qed
  moreover have "final_entry e d'" if "final_entry e d" for e
    using ledger_step_final [OF step ci that] led by (simp add: final_entry_def)
  moreover have "known_entry k d'" if "known_entry k d" for k
    using ledger_step_known [OF step ci that] led by (simp add: known_entry_def)
  ultimately show "ai_inv d' \<and> (\<forall>m. held_ok m d \<longrightarrow> held_ok m d')
      \<and> (\<forall>e. final_entry e d \<longrightarrow> final_entry e d') \<and> (\<forall>k. known_entry k d \<longrightarrow> known_entry k d')"
    by (simp add: ai_inv_def)
qed

section \<open>The transactions of an execution\<close>

lemma ai_evolvesD:
  assumes "ai_evolves d d'" and "ai_inv d"
  shows "ai_inv d'" "held_ok m d \<Longrightarrow> held_ok m d'" "final_entry e d \<Longrightarrow> final_entry e d'"
    "known_entry k d \<Longrightarrow> known_entry k d'"
  using assms unfolding ai_evolves_def by blast+

lemma ai_evolvesI: "(ai_inv d \<Longrightarrow> ai_evolves d d') \<Longrightarrow> ai_evolves d d'"
  by (auto simp: ai_evolves_def)

text \<open>A message of tenant \<open>b\<close> with key digest \<open>g\<close> that a session has loaded.\<close>

definition holds_message :: "ai_message \<Rightarrow> uuid \<Rightarrow> string \<Rightarrow> db \<Rightarrow> bool" where
  "holds_message m b g d \<longleftrightarrow> held_ok m d \<and> msg_role m = MSG_USER \<and> msg_business_id m = b
     \<and> msg_idempotency_key_digest m = Some g \<and> claimed_with_entry m"

lemma holds_message_evolves: "ai_evolves d d' \<Longrightarrow> ai_inv d \<Longrightarrow> holds_message m b g d \<Longrightarrow> holds_message m b g d'"
  by (simp add: holds_message_def ai_evolvesD)

subsection \<open>Submission\<close>

lemma message_by_digest_holds:
  assumes "message_by_digest d b g = Some m" and "ai_inv d" and "msg_role m = MSG_USER"
  shows "holds_message m b g d"
proof -
  have "m \<in> set (ai_messages d) \<and> msg_business_id m = b \<and> msg_idempotency_key_digest m = Some g"
    using assms(1) unfolding message_by_digest_def by (drule_tac scope_one_SomeD) simp
  with assms(2,3) message_row_checks [OF assms(2)] checks_claimed_with_entry show ?thesis
    by (auto simp: holds_message_def held_ok_row)
qed

lemma existing_submission:
  assumes "submission_for_existing d b m cid u content = Inr subm"
  shows "subm_user_message subm = m" "msg_role m = MSG_USER" "subm_replayed subm"
    "msg_content m = content" "msg_conversation_id m = cid"
  using assms by (auto simp: submission_for_existing_def replay_matches_def split: if_splits option.splits)

lemma existing_submission_holds:
  "submission_for_existing d b m cid u content = Inr subm \<Longrightarrow> message_by_digest d b g = Some m \<Longrightarrow> ai_inv d
   \<Longrightarrow> holds_message (subm_user_message subm) b g d"
  using existing_submission(1,2) message_by_digest_holds by metis

lemma submit_locked_evolves:
  assumes res: "submit_locked env' i d b u cid content g now = (r, d')" and env: "\<And>d. ai_evolves d (env' d)"
  shows "ai_evolves d d' \<and> (ai_inv d \<longrightarrow> (\<forall>subm. r = Inr subm \<longrightarrow> holds_message (subm_user_message subm) b g d'
      \<and> (\<not> subm_replayed subm \<longrightarrow> msg_status (subm_user_message subm) = MSG_PENDING)))"
proof (cases "conversation_by_id d b cid")
  case None
  with res show ?thesis by (auto simp: submit_locked_def)
next
  case (Some c)
  show ?thesis
  proof (cases "message_by_digest d b g")
    case (Some m)
    with res \<open>conversation_by_id d b cid = Some c\<close> show ?thesis
      by (auto simp: submit_locked_def dest: existing_submission(3) intro: existing_submission_holds)
  next
    case None
    let ?m = "new_user_message i b (conv_id c) u content g now"
    let ?d = "add_message ?m (touch_conversation (conv_id c) now (env' d))"
    show ?thesis
    proof (cases "ai_tables_ok ?d")
      case True
      then have d': "d' = ?d" and r: "\<And>subm. r = Inr subm \<Longrightarrow> subm_user_message subm = ?m"
        using res None \<open>conversation_by_id d b cid = Some c\<close> by (auto simp: submit_locked_def Let_def)
      have "ai_evolves (env' d) ?d"
        by (rule add_user_message_evolves [OF True]) (simp_all add: new_user_message_def)
      with env [of d] have ev: "ai_evolves d ?d" by (rule ai_evolves_trans)
      have "holds_message ?m b g ?d"
        by (auto simp: holds_message_def held_ok_row new_user_message_def claimed_with_entry_def)
      with ev d' r show ?thesis by (auto simp: new_user_message_def)
    next
      case False
      then have d': "d' = env' d" and r: "r = (case message_by_digest (env' d) b g of
            Some m \<Rightarrow> submission_for_existing (env' d) b m cid u content
          | None \<Rightarrow> Inl AIConversationIntegrityError)"
        using res None \<open>conversation_by_id d b cid = Some c\<close>
        by (auto simp: submit_locked_def Let_def split: option.splits)
      show ?thesis
        using env [of d] unfolding d' r
        by (auto split: option.splits dest: existing_submission(3) intro: existing_submission_holds ai_evolvesD(1))
    qed
  qed
qed

lemma submit_evolves:
  assumes res: "submit_user_message sha env env' i d b u cid content key now = (r, d')"
    and env: "\<And>d. ai_evolves d (env d)" "\<And>d. ai_evolves d (env' d)"
  shows "ai_evolves d d' \<and> (ai_inv d \<longrightarrow> (\<forall>subm. r = Inr subm \<longrightarrow>
    (\<exists>g. digest_ai_idempotency_key sha key = Inr g \<and> holds_message (subm_user_message subm) b g d'
      \<and> (\<not> subm_replayed subm \<longrightarrow> msg_status (subm_user_message subm) = MSG_PENDING))))"
proof (cases "normalize_ai_message_content content")
  case (Inl e)
  with res show ?thesis by (auto simp: submit_user_message_def)
next
  case content: (Inr body)
  show ?thesis
  proof (cases "digest_ai_idempotency_key sha key")
    case (Inl e)
    with res content show ?thesis by (auto simp: submit_user_message_def)
  next
    case key: (Inr g)
    show ?thesis
    proof (cases "message_by_digest d b g")
      case (Some m)
      with res content key show ?thesis
        by (auto simp: submit_user_message_def dest: existing_submission(3) intro: existing_submission_holds)
    next
      case None
      then have "submit_locked env' i (env d) b u cid body g now = (r, d')"
        using res content key by (simp add: submit_user_message_def)
      from submit_locked_evolves [OF this env(2)] env(1) [of d] key show ?thesis
        using ai_evolves_trans ai_evolvesD(1) by blast
    qed
  qed
qed

subsection \<open>Selecting the message again\<close>

lemma select_message_cases:
  assumes sel: "select_message d s b (msg_id m0) = Some m" and s: "orm_message s = None \<or> orm_message s = Some m0"
    and inv: "ai_inv d" and m0: "holds_message m0 b g d"
  obtains row where "row \<in> set (ai_messages d)" "held_row m row" "holds_message m b g d" "msg_id m = msg_id m0"
    "orm_message s = None \<longrightarrow> m = row"
proof -
  obtain x where x: "scope_one msg_business_id b (\<lambda>m. msg_id m = msg_id m0) (ai_messages d) = Some x"
    "m = held (orm_message s) x" using sel by (auto simp: select_message_def)
  have xr: "x \<in> set (ai_messages d)" "msg_business_id x = b" "msg_id x = msg_id m0"
    using scope_one_SomeD [OF x(1)] by auto
  obtain row where row: "row \<in> set (ai_messages d)" "held_row m0 row"
    using m0 by (auto simp: holds_message_def elim: held_okE)
  show ?thesis
  proof (cases "orm_message s")
    case None
    then have "m = x" using x(2) by (simp add: held_def)
    moreover have "x = row"
    proof (rule unique_onD)
      show "unique_on msg_id (ai_messages d)" using inv message_table_okD(1) by (simp add: ai_inv_def)
      show "msg_id x = msg_id row" using xr(3) row(2) by (simp add: held_row_def)
    qed (use xr row in auto)
    ultimately show ?thesis
      using that [of row] row m0 None checks_claimed_with_entry [OF message_row_checks [OF inv row(1)]]
      by (auto simp: holds_message_def held_row_def held_ok_row)
  next
    case (Some y)
    with s x(2) have "m = m0" by (simp add: held_def)
    with that [of row] row m0 Some show ?thesis by auto
  qed
qed

subsection \<open>Failing\<close>

lemma mark_evolves:
  assumes inv: "ai_inv d" and m0: "holds_message m0 b g d"
  shows "ai_evolves d (snd (mark_pre_reservation_failure expired_session d b (msg_id m0) code now))"
proof (cases "select_message d expired_session b (msg_id m0)")
  case None
  then show ?thesis by (simp add: mark_pre_reservation_failure_def)
next
  case (Some m)
  obtain row where row: "row \<in> set (ai_messages d)" "held_row m row" "holds_message m b g d" "m = row"
    by (rule select_message_cases [OF Some _ inv m0]) (auto simp: expired_session_def)
  have "ai_evolves d (flush_message m (failed_message code now m) d)"
    if "ai_tables_ok (flush_message m (failed_message code now m) d)" "msg_status m = MSG_PENDING"
      "msg_credit_ledger_entry_id m = None"
    by (rule fail_flush_evolves [OF that(1) row(1,2) _ that(2)])
      (use row that(3) in \<open>auto simp: holds_message_def entry_of_def\<close>)
  with Some show ?thesis by (auto simp: mark_pre_reservation_failure_def settle_def)
qed

lemma fail_message_claim_evolves:
  assumes inv: "ai_inv d" and m0: "holds_message m0 b g d" and s: "orm_message s = None \<or> orm_message s = Some m0"
  shows "ai_evolves d (snd (fail_message_claim s d b (msg_id m0) i token code now))"
proof (cases "select_message d s b (msg_id m0)")
  case None
  then show ?thesis by (simp add: fail_message_claim_def)
next
  case (Some m)
  obtain row where row: "row \<in> set (ai_messages d)" "held_row m row" "holds_message m b g d"
    by (rule select_message_cases [OF Some s inv m0])
  have role: "msg_role m = MSG_USER" using row(3) by (simp add: holds_message_def)
  have ci: "credit_inv d" using inv by (simp add: ai_inv_def)
  show ?thesis
  proof (cases "msg_status m = MSG_PENDING \<and> msg_processing_token m = Some token
      \<and> msg_credit_ledger_entry_id m = Some i")
    case False
    with Some show ?thesis by (auto simp: fail_message_claim_def)
  next
    case mine: True
    then have entry_row: "msg_credit_ledger_entry_id row = Some i" using row(2) by (simp add: held_row_def)
    show ?thesis
    proof (cases "lock_ledger d b i")
      case None
      with Some mine show ?thesis by (simp add: fail_message_claim_def)
    next
      case lock: (Some ea)
      obtain e a where ea: "ea = (e, a)" by fastforce
      note look = lock_ledgerD [OF lock [unfolded ea]]
      note e = entry_by_id_SomeD [OF look(1)]
      let ?flush = "flush_message m (failed_message code now m)"
      show ?thesis
      proof (cases "ent_status e")
        case RELEASED
        have "ai_evolves d (?flush d)" if "execution_tables_ok (?flush d)"
        proof (rule fail_flush_evolves [OF _ row(1,2) role])
          fix x assume "x \<in> set (ledger_entries d)" "entry_of row x"
          with e entry_row entry_unique [OF ci] have "x = e" by (auto simp: entry_of_def)
          with RELEASED show "ent_status x = RELEASED" by simp
        qed (use that mine in \<open>simp_all add: execution_tables_ok_def\<close>)
        with Some mine lock ea RELEASED show ?thesis by (simp add: fail_message_claim_def Let_def settle_def)
      next
        case CONSUMED
        with Some mine lock ea show ?thesis by (simp add: fail_message_claim_def)
      next
        case RESERVED
        let ?e = "released_entry (execution_code_value code) now e"
        let ?a = "a\<lparr> acc_reserved_count := acc_reserved_count a - 1 \<rparr>"
        let ?d = "save_entry ?e (save_account ?a d)"
        have "ai_evolves d (?flush ?d)" if ok: "execution_tables_ok (?flush ?d)" and pos: "1 \<le> acc_reserved_count a"
        proof -
          have "settles a ?a e ?e"
            unfolding settles_def released_entry_def using RESERVED pos by (cases e) simp
          moreover have "credit_tables_ok ?d" using ok by (simp add: execution_tables_ok_def)
          ultimately have "ledger_step b d ?d"
            using look by (intro ledger_step.settled [where i = i]) (auto simp: settled_write_def)
          then have "quiet_step b d ?d"
            by (auto simp: quiet_step_def set_update_where released_entry_def)
          then have q: "ai_evolves d ?d" by (rule quiet_step_evolves)
          have "ai_evolves ?d (?flush ?d)"
          proof (rule fail_flush_evolves [OF _ _ row(2) role])
            fix x assume x: "x \<in> set (ledger_entries ?d)" "entry_of row x"
            have "ent_id ?e = i" using e by (simp add: released_entry_def)
            with x(1) have "x = ?e \<or> ent_id x \<noteq> i" by (auto simp: set_update_where)
            with x(2) entry_row show "ent_status x = RELEASED" by (auto simp: entry_of_def released_entry_def)
          qed (use ok mine row(1) in \<open>simp_all add: execution_tables_ok_def\<close>)
          with q show ?thesis by (rule ai_evolves_trans)
        qed
        with Some mine lock ea RESERVED show ?thesis by (auto simp: fail_message_claim_def Let_def settle_def)
      qed
    qed
  qed
qed

subsection \<open>Claiming and completing\<close>

definition holds_claim :: "ai_message \<Rightarrow> uuid \<Rightarrow> string \<Rightarrow> uuid \<Rightarrow> uuid \<Rightarrow> db \<Rightarrow> bool" where
  "holds_claim m b g i token d \<longleftrightarrow> holds_message m b g d \<and> msg_status m = MSG_PENDING
     \<and> msg_credit_ledger_entry_id m = Some i \<and> msg_processing_token m = Some token"

lemma holds_claim_evolves: "ai_evolves d d' \<Longrightarrow> ai_inv d \<Longrightarrow> holds_claim m b g i t d \<Longrightarrow> holds_claim m b g i t d'"
  by (simp add: holds_claim_def holds_message_evolves)

lemma claim_pending_evolves:
  assumes res: "claim_pending lease token d b m c context' reservation now = (r, d')"
    and m: "holds_message m b g d" "msg_status m = MSG_PENDING"
    and known: "known_entry (snap_entry_id reservation, b, g, acc, sub) d"
  shows "ai_evolves d d' \<and> (ai_inv d \<longrightarrow> (\<forall>cl t. r = Inr cl \<longrightarrow> claim_token cl = Some t \<longrightarrow>
    msg_id (claim_user_message cl) = msg_id m
    \<and> holds_claim (claim_user_message cl) b g (snap_entry_id reservation) t d'))"
proof -
  let ?m = "m\<lparr> msg_credit_ledger_entry_id := Some (snap_entry_id reservation),
       msg_processing_token := Some token, msg_processing_lease_expires_at := Some (now + lease) \<rparr>"
  have ev: "ai_evolves d (flush_message m ?m d) \<and> (ai_inv d \<longrightarrow>
      holds_claim ?m b g (snap_entry_id reservation) token (flush_message m ?m d))"
    if ok: "ai_tables_ok (flush_message m ?m d)"
      and entry: "msg_credit_ledger_entry_id m \<in> {None, Some (snap_entry_id reservation)}"
  proof -
    obtain row where row: "row \<in> set (ai_messages d)" "held_row m row"
      using m(1) by (auto simp: holds_message_def elim: held_okE)
    have mm: "msg_role m = MSG_USER" "claimed_with_entry m" "msg_idempotency_key_digest m = Some g"
      "msg_business_id m = b" using m(1) by (simp_all add: holds_message_def)
    from claim_flush_evolves [OF ok refl row mm(1) m(2) mm(2) entry mm(3)] known mm(4)
    show ?thesis using m mm by (auto simp: holds_claim_def holds_message_def claimed_with_entry_def)
  qed
  from res show ?thesis
    unfolding claim_pending_def Let_def settle_def
    by (auto simp: ev split: if_splits option.splits)
qed

lemma claim_message_evolves:
  assumes res: "claim_message sha lease token s d b (msg_id m0) reservation now = (r, d')"
    and inv: "ai_inv d" and m0: "holds_message m0 b g d" and s: "orm_message s = None \<or> orm_message s = Some m0"
    and known: "known_entry (snap_entry_id reservation, b, g, acc, sub) d"
  shows "ai_evolves d d' \<and> (\<forall>cl t. r = Inr cl \<longrightarrow> claim_token cl = Some t \<longrightarrow>
    msg_id (claim_user_message cl) = msg_id m0
    \<and> holds_claim (claim_user_message cl) b g (snap_entry_id reservation) t d')"
proof (cases "select_message d s b (msg_id m0)")
  case None
  with res show ?thesis by (auto simp: claim_message_def)
next
  case (Some m)
  obtain row where row: "holds_message m b g d" "msg_id m = msg_id m0"
    by (rule select_message_cases [OF Some s inv m0])
  consider (pending) c x where "claim_pending lease token d b m c x reservation now = (r, d')" "msg_status m = MSG_PENDING"
    | (other) "d' = d" "\<forall>cl t. r = Inr cl \<longrightarrow> claim_token cl \<noteq> Some t"
    using res Some unfolding claim_message_def
    by (auto simp: and_then_def split: option.splits ai_message_status.splits sum.splits)
  then show ?thesis
  proof cases
    case pending
    from claim_pending_evolves [OF pending(1) row(1) pending(2) known] inv row(2) show ?thesis by auto
  qed auto
qed

lemma complete_message_claim_evolves:
  assumes inv: "ai_inv d" and m0: "holds_message m0 b g d" and s: "orm_message s = None \<or> orm_message s = Some m0"
  shows "ai_evolves d (snd (complete_message_claim a s d b (msg_id m0) i token gen now))"
proof (cases "select_message d s b (msg_id m0)")
  case None
  then show ?thesis by (simp add: complete_message_claim_def)
next
  case (Some m)
  obtain row where row: "row \<in> set (ai_messages d)" "held_row m row" "holds_message m b g d"
    by (rule select_message_cases [OF Some s inv m0])
  have mm: "msg_role m = MSG_USER" "msg_business_id m = b" using row(3) by (simp_all add: holds_message_def)
  show ?thesis
  proof (cases "snd (complete_message_claim a s d b (msg_id m0) i token gen now) = d")
    case True
    then show ?thesis by simp
  next
    case False
    define D where "D c entry account = flush_conversation c (c\<lparr> conv_last_message_at := Some now, conv_updated_at := now \<rparr>)
            (add_message (assistant_message a b m (ent_id entry) gen now)
              (flush_message m (completed_message now m)
                (save_entry (consumed_entry now entry) (save_account
                  (account\<lparr> acc_reserved_count := acc_reserved_count account - 1,
                            acc_consumed_count := acc_consumed_count account + 1 \<rparr>) d))))" for c entry account
    have "\<exists>c entry account. msg_status m = MSG_PENDING \<and> msg_credit_ledger_entry_id m = Some i
        \<and> lock_ledger d b i = Some (entry, account) \<and> ent_status entry = RESERVED
        \<and> 1 \<le> acc_reserved_count account \<and> execution_tables_ok (D c entry account)
        \<and> snd (complete_message_claim a s d b (msg_id m0) i token gen now) = D c entry account"
      using False Some unfolding complete_message_claim_def settle_def D_def
      by (cases "msg_status m") (auto simp: Let_def split: option.splits if_splits)
    then obtain c entry account where
      m: "msg_status m = MSG_PENDING" "msg_credit_ledger_entry_id m = Some i"
      and lock: "lock_ledger d b i = Some (entry, account)"
        "ent_status entry = RESERVED" "1 \<le> acc_reserved_count account"
      and res: "execution_tables_ok (D c entry account)"
        "snd (complete_message_claim a s d b (msg_id m0) i token gen now) = D c entry account" by blast
    show ?thesis
      using complete_evolves [OF res(1) [unfolded D_def] lock row(1,2) mm(1) m(1) mm(2) m(2)]
      unfolding res(2) D_def .
  qed
qed

section \<open>A whole execution\<close>

lemma quiet_reserve_evolves:
  assumes "\<And>d. ai_evolves d (env d)"
  shows "ai_evolves d (snd (reserve sha env i e d b key now))"
  using reserve_quiet [of b env d sha i e key now] quiet_step_evolves ai_evolves_trans [OF assms] by auto

lemma execute_claimed_evolves:
  assumes env: "\<And>n d. ai_evolves d (env n d)" and inv: "ai_inv d"
    and cl: "holds_claim (claim_user_message cl) b g i token d" "msg_id (claim_user_message cl) = mid"
  shows "ai_evolves d (snd (execute_claimed generate ctx env d b mid i replayed cl prompt token))"
proof -
  let ?m = "claim_user_message cl" and ?s = "session_after (claim_user_message cl) (claim_conversation cl)"
  have s: "orm_message ?s = None \<or> orm_message ?s = Some ?m" by (simp add: session_after_def)
  have inv8: "ai_inv (env 8 d)" and m8: "holds_message ?m b g (env 8 d)"
    using ai_evolvesD(1) [OF env inv] holds_message_evolves [OF env inv] cl(1) by (simp_all add: holds_claim_def)
  show ?thesis
  proof (cases "provider_answer generate (claim_conversation cl) prompt")
    case (Inl code)
    have "ai_evolves (env 8 d) (snd (fail_message_claim ?s (env 8 d) b mid i token code (x_finished_at ctx)))"
      using fail_message_claim_evolves [OF inv8 m8 s] cl(2) by simp
    then have ev: "ai_evolves d (snd (fail_message_claim ?s (env 8 d) b mid i token code (x_finished_at ctx)))"
      using env ai_evolves_trans by blast
    show ?thesis
      using ev Inl by (auto simp: execute_claimed_def Let_def split: prod.splits sum.splits)
  next
    case (Inr gen)
    obtain r d1 where cc: "complete_message_claim (x_assistant_id ctx) ?s (env 8 d) b mid i token gen (x_finished_at ctx)
      = (r, d1)" by fastforce
    have ev8: "ai_evolves (env 8 d) d1"
      using complete_message_claim_evolves [OF inv8 m8 s, of "x_assistant_id ctx" i token gen "x_finished_at ctx"] cc cl(2)
      by simp
    then have ev: "ai_evolves d d1" using env ai_evolves_trans by blast
    have "holds_message ?m b g d1" "ai_inv d1"
      using ev8 inv8 m8 ai_evolvesD(1) holds_message_evolves by auto
    then have inv9: "ai_inv (env 9 d1)" and m9: "holds_message ?m b g (env 9 d1)"
      using ai_evolvesD(1) [OF env] holds_message_evolves [OF env] by blast+
    have "ai_evolves (env 9 d1) (snd (fail_message_claim expired_session (env 9 d1) b mid i token
        PERSISTENCE_FAILURE (x_recovered_at ctx)))"
      using fail_message_claim_evolves [OF inv9 m9, of expired_session] cl(2) by (simp add: expired_session_def)
    then have "ai_evolves d (snd (fail_message_claim expired_session (env 9 d1) b mid i token
        PERSISTENCE_FAILURE (x_recovered_at ctx)))"
      using ev env ai_evolves_trans by blast
    with ev Inr cc show ?thesis
      by (auto simp: execute_claimed_def Let_def split: sum.splits execution_error.splits)
  qed
qed

lemma recover_claim_evolves:
  assumes env: "\<And>n d. ai_evolves d (env n d)" and inv: "ai_inv d" and m: "holds_message m b g d"
  shows "ai_evolves d (recover_claim ctx env d b (msg_id m) i)"
proof -
  let ?rel = "release (env 6 d) b i (execution_code_value EXECUTION_INTEGRITY) (x_released_at ctx)"
  obtain r d1 where rel: "?rel = (r, d1)" by fastforce
  have "ai_evolves (env 6 d) d1"
    using quiet_step_evolves [OF release_quiet [of b "env 6 d" i "execution_code_value EXECUTION_INTEGRITY"
      "x_released_at ctx"]] rel by simp
  then have ev: "ai_evolves d d1" using env ai_evolves_trans by blast
  then have ev7: "ai_evolves d (env 7 d1)" using env ai_evolves_trans by blast
  have "ai_evolves (env 7 d1) (snd (mark_pre_reservation_failure expired_session (env 7 d1) b (msg_id m)
      EXECUTION_INTEGRITY (x_marked_at ctx)))"
    by (rule mark_evolves [where g = g]) (use ev7 inv m ai_evolvesD(1) holds_message_evolves in blast)+
  with ev ev7 rel show ?thesis
    using ai_evolves_trans by (auto simp: recover_claim_def split: sum.splits)
qed

lemma execute_reserved_evolves:
  assumes env: "\<And>n d. ai_evolves d (env n d)" and inv: "ai_inv d"
    and m: "holds_message (subm_user_message subm) b g d"
    and known: "known_entry (snap_entry_id reservation, b, g, acc, sub) d"
  shows "ai_evolves d (snd (execute_reserved sha generate ctx env d b subm reservation))"
proof -
  let ?m = "subm_user_message subm"
  let ?s = "session_after ?m (subm_conversation subm)"
  obtain r d1 where cl: "claim_message sha (x_lease ctx) (x_token ctx) ?s (env 5 d) b (msg_id ?m) reservation
      (x_checked_at ctx) = (r, d1)" by fastforce
  have inv5: "ai_inv (env 5 d)" and m5: "holds_message ?m b g (env 5 d)"
    and known5: "known_entry (snap_entry_id reservation, b, g, acc, sub) (env 5 d)"
    using env inv m known ai_evolvesD(1,4) holds_message_evolves by blast+
  have s: "orm_message ?s = None \<or> orm_message ?s = Some ?m" by (simp add: session_after_def)
  note claimed = claim_message_evolves [OF cl inv5 m5 s known5]
  have ev: "ai_evolves d d1" using claimed env ai_evolves_trans by blast
  have inv1: "ai_inv d1" and m1: "holds_message ?m b g d1"
    using ev inv m ai_evolvesD(1) holds_message_evolves by blast+
  have recover: "ai_evolves d (recover_claim ctx env d1 b (msg_id ?m) (snap_entry_id reservation))"
    using recover_claim_evolves [where env = env, OF env inv1 m1] ev ai_evolves_trans by blast
  show ?thesis
  proof (cases r)
    case (Inl e)
    with cl ev recover show ?thesis
      by (cases e) (simp_all add: execute_reserved_def Let_def)
  next
    case (Inr c)
    show ?thesis
    proof (cases "\<not> claim_completed c \<and> \<not> claim_in_progress c \<and> claim_token c \<noteq> None \<and> claim_prompt c \<noteq> None")
      case False
      with cl Inr ev show ?thesis
        by (auto simp: execute_reserved_def Let_def split: option.splits bool.splits)
    next
      case True
      then obtain t p where tp: "claim_token c = Some t" "claim_prompt c = Some p" by auto
      have "ai_evolves d1 (snd (execute_claimed generate ctx env d1 b (msg_id ?m) (snap_entry_id reservation)
          (subm_replayed subm) c p t))"
        by (rule execute_claimed_evolves [where env = env, OF env inv1]) (use claimed Inr tp in auto)
      with ev have "ai_evolves d (snd (execute_claimed generate ctx env d1 b (msg_id ?m)
          (snap_entry_id reservation) (subm_replayed subm) c p t))" by (rule ai_evolves_trans)
      with cl Inr True tp show ?thesis by (simp add: execute_reserved_def Let_def)
    qed
  qed
qed

lemma execute_evolves:
  assumes env: "\<And>n d. ai_evolves d (env n d)"
  shows "ai_evolves d (snd (execute sha generate ctx env d b u cid content key))"
proof (rule ai_evolvesI)
  assume inv: "ai_inv d"
  obtain r d1 where sub: "submit_user_message sha (env 0) (env 1) (x_message_id ctx) d b u cid content key
      (x_checked_at ctx) = (r, d1)" by fastforce
  note submitted = submit_evolves [OF sub env env]
  then have ev: "ai_evolves d d1" by blast
  then have ev2: "ai_evolves d (env 2 d1)" using env ai_evolves_trans by blast
  show ?thesis
  proof (cases r)
    case (Inl e)
    with sub ev show ?thesis by (simp add: execute_def)
  next
    case (Inr subm)
    let ?m = "subm_user_message subm"
    obtain g where key: "digest_ai_idempotency_key sha key = Inr g" and "holds_message ?m b g d1"
      using submitted inv Inr by blast
    then have m2: "holds_message ?m b g (env 2 d1)" and inv2: "ai_inv (env 2 d1)"
      using env ev inv ai_evolvesD(1) holds_message_evolves by blast+
    show ?thesis
    proof (cases "(if subm_replayed subm then existing_result (env 2 d1) b subm else Inr None) = Inr None")
      case False
      with sub Inr ev2 show ?thesis
        by (auto simp: execute_def Let_def split: sum.splits option.splits if_splits)
    next
      case True
      obtain q d3 where res: "reserve sha (env 3) (x_account_id ctx) (x_entry_id ctx) (env 2 d1) b key
          (x_checked_at ctx) = (q, d3)" by fastforce
      have "ai_evolves (env 2 d1) d3"
        using quiet_reserve_evolves [where env = "env 3" and d = "env 2 d1", OF env] res by (metis snd_conv)
      then have ev3: "ai_evolves d d3" and m3: "holds_message ?m b g d3" and inv3: "ai_inv d3"
        using ev2 inv2 m2 ai_evolves_trans ai_evolvesD(1) holds_message_evolves by blast+
      show ?thesis
      proof (cases q)
        case Inl': (Inl e)
        have "ai_evolves (env 4 d3) (snd (mark_pre_reservation_failure expired_session (env 4 d3) b (msg_id ?m)
            code (x_checked_at ctx)))" for code
          by (rule mark_evolves [where g = g]) (use env inv3 m3 ai_evolvesD(1) holds_message_evolves in blast)+
        then have marked: "ai_evolves d (snd (mark_pre_reservation_failure expired_session (env 4 d3) b (msg_id ?m)
            code (x_checked_at ctx)))" for code
          using ev3 env ai_evolves_trans by blast
        show ?thesis
        proof (cases "reservation_error_code e")
          case None
          with sub Inr True res Inl' ev3 show ?thesis by (simp add: execute_def Let_def)
        next
          case (Some code)
          obtain q4 d4 where mark: "mark_pre_reservation_failure expired_session (env 4 d3) b (msg_id ?m)
              code (x_checked_at ctx) = (q4, d4)" by fastforce
          with marked [of code] have "ai_evolves d d4" by simp
          with sub Inr True res Inl' Some mark show ?thesis
            by (cases q4) (simp_all add: execute_def Let_def)
        qed
      next
        case Inr': (Inr reservation)
        obtain acc sub' where "known_entry (snap_entry_id reservation, b, g, acc, sub') d3"
          using reserve_known res Inr' key by fastforce
        from execute_reserved_evolves [where env = env, OF env inv3 m3 this] ev3
        have "ai_evolves d (snd (execute_reserved sha generate ctx env d3 b subm reservation))"
          using ai_evolves_trans by blast
        with sub Inr True res Inr' show ?thesis by (simp add: execute_def Let_def)
      qed
    qed
  qed
qed

section \<open>Sequences of requests\<close>

text \<open>
  The requests of the AI routes and the adjustment of credits.  A request carries, for each of its steps, the
  requests that commit before that step, so that a list of requests covers their interleavings.
\<close>

datatype ai_request =
    Ask "ai_request list list" execution_context "string \<Rightarrow> string \<Rightarrow> gemini_error + gemini_generation"
      uuid uuid uuid string string
  | OpenConversation new_conversation_context uuid uuid "string option" ai_conversation_purpose "uuid option"
  | OpenAnalysis "ai_request list" new_conversation_context uuid uuid uuid string
  | AdjustCredits adjust_ids time user uuid int ai_credit_adjustment_reason string "string option"

definition run_all :: "(db \<Rightarrow> db) list \<Rightarrow> db \<Rightarrow> db" where
  "run_all fs = fold (\<lambda>f. f) fs"

definition before_step :: "(db \<Rightarrow> db) list list \<Rightarrow> nat \<Rightarrow> db \<Rightarrow> db" where
  "before_step fss n = run_all (if n < length fss then fss ! n else [])"

fun ai_step :: "(string \<Rightarrow> string) \<Rightarrow> (json \<Rightarrow> bool) \<Rightarrow> ai_request \<Rightarrow> db \<Rightarrow> db" where
  "ai_step sha typed (Ask meanwhile ctx generate b u cid content key) = (\<lambda>d.
     snd (execute sha generate ctx (before_step (map (map (ai_step sha typed)) meanwhile)) d b u cid content key))"
| "ai_step sha typed (OpenConversation ctx b u title kind snapshot_id) = (\<lambda>d.
     snd (create_conversation typed ctx d b u title kind snapshot_id))"
| "ai_step sha typed (OpenAnalysis meanwhile ctx b u snapshot_id title) = (\<lambda>d.
     snd (get_or_create_dashboard_analysis typed ctx (run_all (map (ai_step sha typed) meanwhile)) d b u
       snapshot_id title))"
| "ai_step sha typed (AdjustCredits ids now actor b delta reason key rq) = (\<lambda>d.
     snd (adjust sha ids now actor d b delta reason key rq))"

definition run_ai :: "(string \<Rightarrow> string) \<Rightarrow> (json \<Rightarrow> bool) \<Rightarrow> ai_request list \<Rightarrow> db \<Rightarrow> db" where
  "run_ai sha typed xs d = fold (ai_step sha typed) xs d"

lemma run_all_evolves: "(\<And>f d. f \<in> set fs \<Longrightarrow> ai_evolves d (f d)) \<Longrightarrow> ai_evolves d (run_all fs d)"
  unfolding run_all_def
proof (induction fs arbitrary: d)
  case Nil
  then show ?case by simp
next
  case (Cons f fs)
  have "ai_evolves d (f d)" using Cons.prems by simp
  moreover have "ai_evolves (f d) (fold (\<lambda>f. f) fs (f d))" using Cons by simp
  ultimately show ?case by (auto intro: ai_evolves_trans)
qed

lemma create_evolves: "ai_evolves d (snd (create_conversation typed ctx d b u title kind snapshot_id))"
  using add_conversation_evolves
  by (auto simp: create_conversation_def settle_def Let_def split: sum.splits)

lemma get_or_create_evolves:
  assumes "ai_evolves d (env' d)"
  shows "ai_evolves d (snd (get_or_create_dashboard_analysis typed ctx env' d b u snapshot_id title))"
  using assms add_conversation_evolves [THEN ai_evolves_trans [OF assms]]
  by (auto simp: get_or_create_dashboard_analysis_def Let_def split: sum.splits option.splits)

lemma ai_step_evolves: "ai_evolves d (ai_step sha typed x d)"
proof (induction sha typed x arbitrary: d rule: ai_step.induct)
  case (1 sha typed meanwhile ctx generate b u cid content key)
  have "ai_evolves d (before_step (map (map (ai_step sha typed)) meanwhile) n d)" for n d
    unfolding before_step_def by (rule run_all_evolves) (use 1 nth_mem in \<open>fastforce split: if_splits\<close>)
  then show ?case by (simp add: execute_evolves)
next
  case (2 sha typed ctx b u title kind snapshot_id)
  then show ?case by (simp add: create_evolves)
next
  case (3 sha typed meanwhile ctx b u snapshot_id title)
  have "ai_evolves d (run_all (map (ai_step sha typed) meanwhile) d)"
    by (rule run_all_evolves) (use 3 in auto)
  then show ?case by (simp add: get_or_create_evolves)
next
  case (4 sha typed ids now actor b delta reason key rq)
  then show ?case using quiet_step_evolves [OF adjust_quiet] by simp
qed

interpretation chat: evolving_system "ai_step sha typed" ai_evolves
  by unfold_locales (auto intro: ai_evolves_trans ai_step_evolves)

lemma run_ai_evolves: "ai_evolves d (run_ai sha typed xs d)"
  unfolding run_ai_def by (rule chat.run_evolves)

lemma run_ai_inv: "ai_inv d \<Longrightarrow> ai_inv (run_ai sha typed xs d)"
  using ai_evolvesD(1) run_ai_evolves by blast

section \<open>The two sides of a charge\<close>

lemma unique_nullableD:
  assumes "unique_nullable key t" and "r \<in> set t" and "s \<in> set t" and "key r = key s" and "key r \<noteq> None"
  shows "r = s"
  using assms
proof (induction t)
  case Nil
  then show ?case by simp
next
  case (Cons x xs)
  have dist: "unique_nullable key xs" "key x \<noteq> None \<Longrightarrow> key x \<notin> key ` set xs"
    using Cons.prems(1) by (auto simp: unique_nullable_def is_null_iff split: if_splits)
  from Cons.prems(2,3) consider "r = x" "s = x" | "r = x" "s \<in> set xs" | "r \<in> set xs" "s = x"
    | "r \<in> set xs" "s \<in> set xs" by auto
  then show ?case
    by cases (use Cons dist in \<open>auto simp: image_iff dest: sym\<close>)
qed

lemma answer_unique:
  assumes "ai_inv d" and "m \<in> set (ai_messages d)" "m' \<in> set (ai_messages d)"
    and "msg_role m = MSG_ASSISTANT" "msg_role m' = MSG_ASSISTANT" and "entry_of m e" "entry_of m' e"
  shows "m = m'"
proof (rule unique_nullableD)
  show "unique_nullable (\<lambda>m. map_option (\<lambda>e. (msg_business_id m, e, msg_role m)) (msg_credit_ledger_entry_id m))
      (ai_messages d)"
    using assms(1) message_table_okD(3) by (simp add: ai_inv_def)
qed (use assms in \<open>auto simp: entry_of_def\<close>)

lemma charged_iff_answered:
  assumes "ai_inv d" and "e \<in> set (ledger_entries d)"
  shows "ent_status e = CONSUMED \<longleftrightarrow>
    (\<exists>!m. m \<in> set (ai_messages d) \<and> msg_role m = MSG_ASSISTANT \<and> entry_of m e)"
proof -
  have cc: "chat_consistent d" using assms(1) by (simp add: ai_inv_def)
  show ?thesis
  proof
    assume "ent_status e = CONSUMED"
    then show "\<exists>!m. m \<in> set (ai_messages d) \<and> msg_role m = MSG_ASSISTANT \<and> entry_of m e"
      using chat_consistentD(2) [OF cc assms(2)] answer_unique [OF assms(1)] by blast
  next
    assume "\<exists>!m. m \<in> set (ai_messages d) \<and> msg_role m = MSG_ASSISTANT \<and> entry_of m e"
    then obtain m where "m \<in> set (ai_messages d)" "msg_role m = MSG_ASSISTANT" "entry_of m e" by blast
    with chat_consistentD(1) [OF cc _ assms(2)] show "ent_status e = CONSUMED" by (auto simp: charge_ok_def)
  qed
qed

end
