(* ===== verification/AI_Theorems.thy ===== *)
theory AI_Theorems
  imports AI_System
begin

text \<open>
  What an AI execution promises: credits are charged exactly for stored answers, a question ends in one of
  two ways, a claim settles like the credit service, a returned answer is stored, a retry replays, a
  grounded prompt is bounded; and what a stale session does.
\<close>

section \<open>A sample conversation\<close>

definition sample_conversation :: ai_conversation where
  "sample_conversation = new_conversation \<lparr> nc_id = 60, nc_created_at = 1, nc_updated_at = 1 \<rparr> 10 1 CHAT None None"

definition sample_question :: ai_message where
  "sample_question = (new_user_message 61 10 60 1 ''q'' (sample_sha ''k'') 5)
     \<lparr> msg_status := MSG_COMPLETED, msg_credit_ledger_entry_id := Some 50, msg_completed_at := Some 6 \<rparr>"

definition sample_generation :: gemini_generation where
  "sample_generation = \<lparr> gen_text = ''a'', gen_provider_response_id = None, gen_model_version = ''g'',
     gen_finish_reason = ''STOP'', gen_prompt_token_count = None, gen_response_token_count = None,
     gen_thoughts_token_count = None, gen_total_token_count = None \<rparr>"

definition sample_answer :: ai_message where
  "sample_answer = assistant_message 62 10 sample_question 50 sample_generation 6"

definition sample_asked :: ai_message where
  "sample_asked = new_user_message 63 10 60 1 ''r'' (sample_sha ''l'') 7"

definition sample_claimed :: ai_message where
  "sample_claimed = sample_asked\<lparr> msg_credit_ledger_entry_id := Some 51, msg_processing_token := Some 7,
     msg_processing_lease_expires_at := Some 200 \<rparr>"

definition sample_chat :: db where
  "sample_chat = sample_ledger\<lparr> ai_conversations := [sample_conversation],
     ai_messages := [sample_question, sample_answer, sample_claimed] \<rparr>"

lemmas sample_chat_defs = sample_chat_def sample_conversation_def sample_question_def sample_generation_def
  sample_answer_def sample_claimed_def sample_asked_def new_conversation_def new_user_message_def
  assistant_message_def

lemma sample_chat_sel [simp]:
  "ledger_entries sample_chat = [sample_consumed, sample_reserved]"
  "credit_accounts sample_chat = [sample_account]"
  "ai_messages sample_chat = [sample_question, sample_answer, sample_claimed]"
  "ai_conversations sample_chat = [sample_conversation]"
  "role_assignments sample_chat = [sample_assignment]"
  by (simp_all add: sample_chat_def sample_ledger_def sample_db_def)

lemma sample_chat_tables: "ai_tables_ok sample_chat"
proof -
  have "conversation_table_ok sample_chat"
    by (simp add: conversation_table_ok_def ai_conversation_checks_def unique_on_def unique_where_def
        sample_conversation_def new_conversation_def sample_assignment_def)
  moreover have "list_all ai_message_checks (ai_messages sample_chat)"
    by (simp add: ai_message_checks_def message_role_fields_check_def message_provider_fields_check_def
        message_status_fields_check_def trimmed_length_between_def sql_trim_def AI_MESSAGE_CONTENT_MAX_LENGTH_def
        sample_question_def sample_answer_def sample_claimed_def sample_asked_def sample_generation_def
        new_user_message_def assistant_message_def)
  then have "message_table_ok sample_chat"
    by (simp add: message_table_ok_def unique_on_def unique_nullable_def
        sample_question_def sample_answer_def sample_claimed_def sample_asked_def sample_generation_def
        new_user_message_def assistant_message_def sample_conversation_def new_conversation_def
        sample_assignment_def sample_consumed_def sample_reserved_def new_entry_def sample_sha_def)
  ultimately show ?thesis by (simp add: ai_tables_ok_def)
qed

lemma sample_ai_inv: "ai_inv sample_chat"
proof -
  have "credit_inv sample_chat"
    using sample_credit_inv(2)
    by (simp add: credit_inv_def credit_tables_ok_def credit_account_table_ok_def ledger_table_ok_def
        adjustment_table_ok_def audit_table_ok_def ledger_consistent_def sample_chat_def)
  moreover have "chat_consistent sample_chat"
    by (simp add: chat_consistent_def charge_ok_def entry_of_def answered_def
        sample_question_def sample_answer_def sample_claimed_def sample_asked_def sample_generation_def
        new_user_message_def assistant_message_def sample_consumed_def sample_reserved_def new_entry_def)
  ultimately show ?thesis using sample_chat_tables by (simp add: ai_inv_def)
qed

section \<open>Properties\<close>


definition sample_requests :: "ai_request list" where
  "sample_requests = [OpenConversation \<lparr> nc_id = 64, nc_created_at = 8, nc_updated_at = 8 \<rparr> 10 1 (Some ''t'') CHAT None]"


lemma reply_unique:
  assumes inv: "ai_inv d" and "m \<in> set (ai_messages d)" "m' \<in> set (ai_messages d)"
    and "msg_business_id m = msg_business_id m'" "msg_conversation_id m = msg_conversation_id m'"
    and "msg_reply_to_message_id m = Some i" "msg_reply_to_message_id m' = Some i"
  shows "m = m'"
proof (rule unique_nullableD)
  show "unique_nullable (\<lambda>m. map_option (\<lambda>r. (msg_business_id m, msg_conversation_id m, r))
      (msg_reply_to_message_id m)) (ai_messages d)"
    using inv unfolding ai_inv_def ai_tables_ok_def message_table_ok_def by blast
qed (use assms in auto)



lemma code_reason: "normalize_ai_release_reason (execution_code_value c) = Inr (execution_code_value c)"
  by (cases c) (simp_all add: normalize_ai_release_reason_def AI_RELEASE_REASON_MAX_LENGTH_def py_strip_def py_isspace_def)

text \<open>
  C28: settling inside an execution is settling by the credit service: completing a claim changes the credit
  accounts and the ledger exactly as \<open>AICreditService.consume\<close> would and reports the usage it would report,
  and failing a claim with a reserved entry changes them exactly as \<open>AICreditService.release\<close> would.
\<close>

theorem claim_settles_like_credit_service:
  "(complete_message_claim a s d b mid i token g now = (Inr r, d') \<and> \<not> res_replayed r \<longrightarrow>
    (\<exists>snap d''. consume d b i now = (Inr snap, d'') \<and> credit_accounts d' = credit_accounts d''
      \<and> ledger_entries d' = ledger_entries d'' \<and> res_usage r = Some (usage_from_snapshot snap)))
   \<and> (fail_message_claim s d b mid i token code now = (Inr True, d'') \<and> entry_by_id d b i = Some e
        \<and> ent_status e = RESERVED \<longrightarrow>
    (\<exists>snap d'. release d b i (execution_code_value code) now = (Inr snap, d')
      \<and> credit_accounts d'' = credit_accounts d' \<and> ledger_entries d'' = ledger_entries d'))"
  (is "(?P \<longrightarrow> ?Q) \<and> (?R \<longrightarrow> ?S)")
proof (intro conjI impI)
  assume ?P
  then obtain m c entry account where
    lock: "lock_ledger d b i = Some (entry, account)" "ent_status entry = RESERVED"
      "1 \<le> acc_reserved_count account"
    and d': "d' = flush_conversation c (c\<lparr> conv_last_message_at := Some now, conv_updated_at := now \<rparr>)
            (add_message (assistant_message a b m (ent_id entry) g now)
              (flush_message m (completed_message now m)
                (save_entry (consumed_entry now entry) (save_account
                  (account\<lparr> acc_reserved_count := acc_reserved_count account - 1,
                            acc_consumed_count := acc_consumed_count account + 1 \<rparr>) d))))"
      "execution_tables_ok d'"
    and usage: "res_usage r = Some (usage_from_snapshot (snapshot_of (consumed_entry now entry)
        (account\<lparr> acc_reserved_count := acc_reserved_count account - 1,
                  acc_consumed_count := acc_consumed_count account + 1 \<rparr>) False))"
    unfolding complete_message_claim_def settle_def and_then_def
    by (auto simp: Let_def split: option.splits if_splits sum.splits)
  note look = lock_ledgerD [OF lock(1)]
  have frame: "credit_accounts (flush_conversation c c' x) = credit_accounts x"
    "credit_accounts (add_message n x) = credit_accounts x"
    "credit_accounts (flush_message n n' x) = credit_accounts x" for c c' n n' and x :: db
    by (simp_all add: flush_conversation_def add_message_def flush_message_def)
  from lock look d' usage show ?Q
    by (simp add: consume_def commit_credits_def Let_def execution_tables_ok_def consumed_entry_def frame)
next
  assume R: ?R
  then obtain m account where
    lock: "lock_ledger d b i = Some (e, account)" "1 \<le> acc_reserved_count account"
    and d'': "d'' = flush_message m (failed_message code now m)
       (save_entry (released_entry (execution_code_value code) now e)
         (save_account (account\<lparr> acc_reserved_count := acc_reserved_count account - 1 \<rparr>) d))"
      "execution_tables_ok d''"
    unfolding fail_message_claim_def settle_def
    by (auto simp: Let_def lock_ledger_def split: option.splits if_splits sum.splits)
  note look = lock_ledgerD [OF lock(1)]
  have frame: "credit_accounts (flush_message n n' x) = credit_accounts x" for n n' and x :: db
    by (simp add: flush_message_def)
  from R lock look d'' show ?S
    by (simp add: release_def code_reason commit_credits_def Let_def execution_tables_ok_def released_entry_def frame)
qed

lemma sample_complete_tables:
  "execution_tables_ok (flush_conversation sample_conversation
     (sample_conversation\<lparr> conv_last_message_at := Some 9, conv_updated_at := 9 \<rparr>)
     (add_message (assistant_message 70 10 sample_claimed 51 sample_generation 9)
       (flush_message sample_claimed (completed_message 9 sample_claimed)
         (save_entry (consumed_entry 9 sample_reserved) (save_account
           (sample_account\<lparr> acc_reserved_count := 0, acc_consumed_count := 2 \<rparr>) sample_chat)))))"
  (is "execution_tables_ok ?d")
proof -
  have msgs: "ai_messages ?d = [sample_question, sample_answer, completed_message 9 sample_claimed,
      assistant_message 70 10 sample_claimed 51 sample_generation 9]"
    by (simp add: flush_message_def flushed_message_def written_def completed_message_def insert_row_def
        sample_question_def sample_answer_def sample_claimed_def sample_asked_def new_user_message_def
        assistant_message_def)
  have convs: "ai_conversations ?d = [sample_conversation\<lparr> conv_last_message_at := Some 9, conv_updated_at := 9 \<rparr>]"
    by (simp add: flush_conversation_def add_message_def flush_message_def save_entry_def save_account_def
        written_def sample_conversation_def new_conversation_def)
  have ents: "ledger_entries ?d = [sample_consumed, consumed_entry 9 sample_reserved]"
    by (simp add: consumed_entry_def sample_consumed_def sample_reserved_def new_entry_def)
  have rest: "role_assignments ?d = [sample_assignment]"
    by (simp add: flush_conversation_def add_message_def flush_message_def save_entry_def save_account_def)
  have "list_all ai_message_checks (ai_messages ?d)"
    unfolding msgs
    by (simp add: ai_message_checks_def message_role_fields_check_def message_provider_fields_check_def
        message_status_fields_check_def trimmed_length_between_def sql_trim_def AI_MESSAGE_CONTENT_MAX_LENGTH_def
        sample_question_def sample_answer_def sample_claimed_def sample_asked_def sample_generation_def
        new_user_message_def assistant_message_def completed_message_def)
  moreover have "conversation_table_ok ?d"
    unfolding conversation_table_ok_def convs rest
    by (simp add: ai_conversation_checks_def unique_on_def unique_where_def
        sample_conversation_def new_conversation_def sample_assignment_def)
  ultimately have "ai_tables_ok ?d"
    unfolding ai_tables_ok_def message_table_ok_def convs rest ents msgs
    by (simp add: unique_on_def unique_nullable_def completed_message_def consumed_entry_def
        sample_question_def sample_answer_def sample_claimed_def sample_asked_def sample_generation_def
        new_user_message_def assistant_message_def sample_conversation_def new_conversation_def
        sample_assignment_def sample_consumed_def sample_reserved_def new_entry_def sample_sha_def)
  moreover have "credit_tables_ok (save_entry (consumed_entry 9 sample_reserved) (save_account
           (sample_account\<lparr> acc_reserved_count := 0, acc_consumed_count := 2 \<rparr>) sample_chat))"
  proof (rule settlement_commits)
    show "credit_inv sample_chat" using sample_ai_inv by (simp add: ai_inv_def)
    show "sample_reserved \<in> set (ledger_entries sample_chat)" "sample_account \<in> set (credit_accounts sample_chat)"
      by simp_all
    show "acc_id sample_account = ent_account_id sample_reserved"
      by (simp add: sample_reserved_def new_entry_def)
    show "settles sample_account (sample_account\<lparr> acc_reserved_count := 0, acc_consumed_count := 2 \<rparr>)
        sample_reserved (consumed_entry 9 sample_reserved)"
      by (auto simp: settles_def consumed_entry_def sample_account_def sample_reserved_def new_entry_def new_account_def)
    show "ai_credit_ledger_entry_checks (consumed_entry 9 sample_reserved)"
      by (simp add: ai_credit_ledger_entry_checks_def consumed_entry_def sample_reserved_def new_entry_def sample_sha_def)
  qed
  ultimately show ?thesis by (simp add: execution_tables_ok_def)
qed

lemma sample_complete:
  "\<exists>r d'. complete_message_claim 70 (session_after sample_claimed sample_conversation) sample_chat 10 63 51 7
     sample_generation 9 = (Inr r, d') \<and> \<not> res_replayed r"
proof -
  have sel: "select_message sample_chat (session_after sample_claimed sample_conversation) 10 63 = Some sample_claimed"
    by (simp add: select_message_def scope_one_def session_after_def held_def sample_claimed_def sample_asked_def
        sample_question_def sample_answer_def new_user_message_def assistant_message_def)
  have conv: "select_conversation sample_chat (session_after sample_claimed sample_conversation) 10 60
      = Some sample_conversation"
    by (simp add: select_conversation_def conversation_by_id_def scope_one_def session_after_def held_def
        sample_conversation_def new_conversation_def)
  have lock: "lock_ledger sample_chat 10 51 = Some (sample_reserved, sample_account)"
    by (simp add: lock_ledger_def entry_by_id_def account_for_entry_def scope_one_def sample_consumed_def
        sample_reserved_def new_entry_def sample_account_def new_account_def sample_subscription_def)
  have fields: "msg_status sample_claimed = MSG_PENDING" "msg_conversation_id sample_claimed = 60"
    "msg_processing_token sample_claimed = Some 7" "msg_credit_ledger_entry_id sample_claimed = Some 51"
    "ent_status sample_reserved = RESERVED" "acc_reserved_count sample_account = 1" "ent_id sample_reserved = 51"
    "acc_consumed_count sample_account = 1"
    by (simp_all add: sample_claimed_def sample_asked_def new_user_message_def sample_reserved_def new_entry_def
        sample_account_def)
  show ?thesis
    using sample_complete_tables
    by (simp add: complete_message_claim_def sel conv lock fields Let_def settle_def)
qed

theorem claim_settles_like_credit_service_witness:
  "\<exists>snap d''. consume sample_chat 10 51 9 = (Inr snap, d'')"
proof -
  obtain r d' where "complete_message_claim 70 (session_after sample_claimed sample_conversation) sample_chat 10 63 51 7
      sample_generation 9 = (Inr r, d')" "\<not> res_replayed r" using sample_complete by blast
  then show ?thesis
    using claim_settles_like_credit_service [where a = 70 and s = "session_after sample_claimed sample_conversation"
      and d = sample_chat and b = 10 and mid = 63 and i = 51 and token = 7 and g = sample_generation and now = 9
      and r = r and d' = d'] by blast
qed

section \<open>Answers that are returned are stored\<close>

definition stored_answer :: "db \<Rightarrow> ai_execution_result \<Rightarrow> bool" where
  "stored_answer d r \<longleftrightarrow> (\<exists>a \<in> set (ai_messages d). res_assistant_message r = Some a
     \<and> msg_role a = MSG_ASSISTANT \<and> msg_reply_to_message_id a = Some (msg_id (res_user_message r)))"

lemma assistant_for_userD:
  assumes "assistant_for_user d b m = Some a"
  shows "a \<in> set (ai_messages d)" "msg_role a = MSG_ASSISTANT" "msg_reply_to_message_id a = Some (msg_id m)"
  using scope_one_SomeD [OF assms [unfolded assistant_for_user_def]] by auto

lemma existing_result_stored: "existing_result d b subm = Inr (Some r) \<Longrightarrow> stored_answer d r"
  by (auto simp: existing_result_def Let_def and_then_def stored_answer_def dest: assistant_for_userD
      split: ai_message_status.splits option.splits sum.splits)

lemma complete_message_claim_stored:
  "complete_message_claim a s d b mid i token g now = (Inr r, d') \<Longrightarrow> \<not> res_in_progress r \<Longrightarrow> stored_answer d' r"
  unfolding complete_message_claim_def settle_def and_then_def
  by (auto simp: Let_def stored_answer_def assistant_message_def completed_message_def dest: assistant_for_userD
      split: option.splits if_splits sum.splits)

lemma claim_completed_stored:
  "claim_message sha lease token s d b mid reservation now = (Inr cl, d') \<Longrightarrow> claim_completed cl \<Longrightarrow>
   \<exists>a \<in> set (ai_messages d'). claim_assistant_message cl = Some a \<and> msg_role a = MSG_ASSISTANT
     \<and> msg_reply_to_message_id a = Some (msg_id (claim_user_message cl))"
  unfolding claim_message_def claim_pending_def settle_def and_then_def
  by (auto simp: Let_def dest: assistant_for_userD
      split: option.splits if_splits sum.splits ai_message_status.splits)

lemma execute_claimed_stored:
  assumes "execute_claimed generate ctx env d b mid i replayed cl prompt token = (Inr r, d')" and "\<not> res_in_progress r"
  shows "stored_answer d' r"
proof -
  obtain g r' where "complete_message_claim (x_assistant_id ctx) (session_after (claim_user_message cl) (claim_conversation cl))
      (env 8 d) b mid i token g (x_finished_at ctx) = (Inr r', d')"
    and r: "r = r'\<lparr> res_replayed := replayed \<or> res_replayed r' \<rparr>"
    using assms(1) by (auto simp: execute_claimed_def Let_def split: sum.splits prod.splits execution_error.splits)
  moreover have "\<not> res_in_progress r'" using r assms(2) by simp
  ultimately show ?thesis using complete_message_claim_stored by (fastforce simp: stored_answer_def r)
qed

lemma execute_reserved_stored:
  assumes "execute_reserved sha generate ctx env d b subm reservation = (Inr r, d')" and "\<not> res_in_progress r"
  shows "stored_answer d' r"
proof -
  obtain cl d1 where cl: "claim_message sha (x_lease ctx) (x_token ctx)
      (session_after (subm_user_message subm) (subm_conversation subm)) (env 5 d) b
      (msg_id (subm_user_message subm)) reservation (x_checked_at ctx) = (Inr cl, d1)"
    using assms(1) by (auto simp: execute_reserved_def Let_def split: sum.splits prod.splits execution_error.splits)
  show ?thesis
  proof (cases "claim_completed cl")
    case True
    with cl assms(1) claim_completed_stored [OF cl] show ?thesis
      by (auto simp: execute_reserved_def Let_def stored_answer_def)
  next
    case False
    with cl assms obtain prompt token where "execute_claimed generate ctx env d1 b (msg_id (subm_user_message subm))
        (snap_entry_id reservation) (subm_replayed subm) cl prompt token = (Inr r, d')"
      by (auto simp: execute_reserved_def Let_def split: option.splits bool.splits)
    with assms(2) show ?thesis by (rule execute_claimed_stored [rotated])
  qed
qed

lemma execute_stored:
  assumes "execute sha generate ctx env d b u cid content key = (Inr r, d')" and "\<not> res_in_progress r"
  shows "stored_answer d' r"
proof -
  obtain subm d1 where sub: "submit_user_message sha (env 0) (env 1) (x_message_id ctx) d b u cid content
      key (x_checked_at ctx) = (Inr subm, d1)"
    using assms(1) by (auto simp: execute_def Let_def split: sum.splits prod.splits)
  let ?e = "if subm_replayed subm then existing_result (env 2 d1) b subm else Inr None"
  consider (old) "?e = Inr (Some r)" "d' = env 2 d1" | (new) reservation d3 where
    "execute_reserved sha generate ctx env d3 b subm reservation = (Inr r, d')"
    using assms(1) sub by (auto simp: execute_def Let_def split: sum.splits prod.splits option.splits)
  then show ?thesis
  proof cases
    case old
    then show ?thesis by (auto intro: existing_result_stored split: if_splits)
  next
    case new
    then show ?thesis using assms(2) by (rule execute_reserved_stored)
  qed
qed

text \<open>
  An answer that a request returns is durable and paid: whatever runs beside it, a request that returns
  without an error and is not in progress leaves its answer stored as the reply to the returned question, with
  the credit consumed.
\<close>

theorem returned_answer_is_stored:
  assumes "ai_inv d"
    and "execute sha generate ctx (\<lambda>n. run_ai sha typed (others n)) d b u cid content key = (Inr r, d')"
    and "\<not> res_in_progress r"
  shows "\<exists>a \<in> set (ai_messages d'). \<exists>e \<in> set (ledger_entries d'). res_assistant_message r = Some a
    \<and> msg_reply_to_message_id a = Some (msg_id (res_user_message r)) \<and> entry_of a e \<and> ent_status e = CONSUMED"
proof -
  have "ai_evolves d (snd (execute sha generate ctx (\<lambda>n. run_ai sha typed (others n)) d b u cid content key))"
    by (rule execute_evolves) (rule run_ai_evolves)
  with assms(1,2) have inv: "ai_inv d'" by (simp add: ai_evolves_def)
  then have cc: "chat_consistent d'" and ok: "ai_tables_ok d'" by (simp_all add: ai_inv_def)
  obtain a where a: "a \<in> set (ai_messages d')" "res_assistant_message r = Some a" "msg_role a = MSG_ASSISTANT"
    "msg_reply_to_message_id a = Some (msg_id (res_user_message r))"
    using execute_stored [OF assms(2,3)] by (auto simp: stored_answer_def)
  obtain i where i: "msg_credit_ledger_entry_id a = Some i"
    using message_row_checks [OF inv a(1)] a(3)
    by (auto simp: ai_message_checks_def message_provider_fields_check_def not_is_null_iff)
  obtain e where e: "e \<in> set (ledger_entries d')" "entry_of a e"
    by (rule entry_exists [OF ok a(1) i])
  with chat_consistentD(1) [OF cc a(1)] a(3) have "ent_status e = CONSUMED" by (simp add: charge_ok_def)
  with a e show ?thesis by blast
qed


definition sample_context :: execution_context where
  "sample_context = \<lparr> x_message_id = 80, x_account_id = 81, x_entry_id = 82, x_token = 83, x_assistant_id = 84,
     x_checked_at = 20, x_released_at = 21, x_marked_at = 22, x_finished_at = 23, x_recovered_at = 24,
     x_lease = 90 \<rparr>"

lemma sample_message_lookup:
  "message_by_digest sample_chat 10 (sample_sha ''k'') = Some sample_question"
  "conversation_by_id sample_chat 10 60 = Some sample_conversation"
  "assistant_for_user sample_chat 10 sample_question = Some sample_answer"
  by (simp_all add: message_by_digest_def conversation_by_id_def assistant_for_user_def scope_one_def
      sample_question_def sample_answer_def sample_conversation_def new_conversation_def new_user_message_def
      assistant_message_def sample_sha_def)

lemma sample_submit:
  "submit_user_message sample_sha (run_ai sample_sha (\<lambda>_. True) []) (run_ai sample_sha (\<lambda>_. True) []) 80
      sample_chat 10 1 60 ''q'' ''k'' 20
    = (Inr \<lparr> subm_conversation = sample_conversation, subm_user_message = sample_question, subm_replayed = True \<rparr>,
       sample_chat)"
  using sample_message_lookup sample_reserve_facts(2)
  by (simp add: submit_user_message_def normalize_ai_message_content_def Let_def py_strip_def py_isspace_def
        AI_MESSAGE_CONTENT_MAX_LENGTH_def submission_for_existing_def replay_matches_def
        sample_question_def new_user_message_def)

lemma sample_replay:
  "\<exists>r. execute sample_sha (\<lambda>p s. Inl GeminiTemporaryError) sample_context (\<lambda>n. run_ai sample_sha (\<lambda>_. True) [])
     sample_chat 10 1 60 ''q'' ''k'' = (Inr r, sample_chat) \<and> \<not> res_in_progress r"
proof -
  have fields: "msg_status sample_question = MSG_COMPLETED" "msg_credit_ledger_entry_id sample_question = Some 50"
    by (simp_all add: sample_question_def)
  have usage: "\<exists>u. credit_usage sample_chat 10 50 = Inr u"
    by (simp add: credit_usage_def credit_snapshot_def scope_one_def sample_consumed_def new_entry_def
        sample_account_def new_account_def)
  then show ?thesis
    by (auto simp: execute_def sample_submit [unfolded One_nat_def] sample_context_def existing_result_def Let_def fields sample_message_lookup(3)
        run_ai_def [of _ _ "[]"])
qed

theorem returned_answer_is_stored_witness:
  "\<exists>a \<in> set (ai_messages sample_chat). \<exists>e \<in> set (ledger_entries sample_chat). entry_of a e \<and> ent_status e = CONSUMED"
proof -
  obtain r where "execute sample_sha (\<lambda>p s. Inl GeminiTemporaryError) sample_context
      (\<lambda>n. run_ai sample_sha (\<lambda>_. True) ((\<lambda>_. []) n)) sample_chat 10 1 60 ''q'' ''k'' = (Inr r, sample_chat)"
    "\<not> res_in_progress r" using sample_replay by auto
  from returned_answer_is_stored [OF sample_ai_inv this] show ?thesis by blast
qed

section \<open>Replays of a question\<close>

lemma submission_facts:
  assumes "submit_user_message sha env env' i d b u cid content key now = (Inr subm, d')"
  shows "msg_conversation_id (subm_user_message subm) = cid" "msg_created_by_user_id (subm_user_message subm) = Some u"
    "msg_content (subm_user_message subm) = py_strip content"
proof -
  obtain body g where norm: "normalize_ai_message_content content = Inr body"
    "digest_ai_idempotency_key sha key = Inr g"
    using assms by (auto simp: submit_user_message_def split: sum.splits)
  have body: "body = py_strip content"
    using norm(1) by (auto simp: normalize_ai_message_content_def Let_def split: if_splits)
  have old: "msg_conversation_id (subm_user_message subm) = cid
      \<and> msg_created_by_user_id (subm_user_message subm) = Some u \<and> msg_content (subm_user_message subm) = body"
    if "submission_for_existing x b m cid u body = Inr subm" for x m
    using that by (auto simp: submission_for_existing_def replay_matches_def split: if_splits option.splits)
  have new: "conv_id c = cid" if "conversation_by_id x b cid = Some c" for x c
    using scope_one_SomeD [OF that [unfolded conversation_by_id_def]] by simp
  have "msg_conversation_id (subm_user_message subm) = cid
      \<and> msg_created_by_user_id (subm_user_message subm) = Some u \<and> msg_content (subm_user_message subm) = body"
    using assms norm unfolding submit_user_message_def submit_locked_def
    by (auto simp: Let_def new_user_message_def dest: old new split: option.splits if_splits)
  with body show "msg_conversation_id (subm_user_message subm) = cid"
    "msg_created_by_user_id (subm_user_message subm) = Some u"
    "msg_content (subm_user_message subm) = py_strip content" by simp_all
qed

lemma held_lookup:
  assumes inv: "ai_inv d" and m: "holds_message m b g d"
  obtains row c where "message_by_digest d b g = Some row" "held_row m row"
    "conversation_by_id d b (msg_conversation_id m) = Some c"
proof -
  obtain row where row: "row \<in> set (ai_messages d)" "held_row m row"
    using m by (auto simp: holds_message_def elim: held_okE)
  have key: "msg_business_id row = b" "msg_idempotency_key_digest row = Some g"
    "msg_conversation_id row = msg_conversation_id m"
    using row(2) m by (simp_all add: holds_message_def held_row_def)
  have uniq: "unique_nullable (\<lambda>m. map_option (\<lambda>g. (msg_business_id m, g)) (msg_idempotency_key_digest m)) (ai_messages d)"
    and fk: "\<forall>m \<in> set (ai_messages d). \<exists>c \<in> set (ai_conversations d).
      conv_id c = msg_conversation_id m \<and> conv_business_id c = msg_business_id m"
    using inv unfolding ai_inv_def ai_tables_ok_def message_table_ok_def by blast+
  obtain row' where row': "message_by_digest d b g = Some row'"
    using row(1) key row_where_None_iff [of _ "ai_messages d"]
    unfolding message_by_digest_def scope_one_def by (metis (mono_tags, lifting) option.exhaust)
  have "row' = row"
    by (rule unique_nullableD [OF uniq])
      (use scope_one_SomeD [OF row' [unfolded message_by_digest_def]] row(1) key in auto)
  obtain c where "c \<in> set (ai_conversations d)" "conv_id c = msg_conversation_id m" "conv_business_id c = b"
    using fk row(1) key by metis
  then obtain c' where "conversation_by_id d b (msg_conversation_id m) = Some c'"
    using row_where_None_iff [of _ "ai_conversations d"]
    unfolding conversation_by_id_def scope_one_def by (metis (mono_tags, lifting) option.exhaust)
  with row' row(2) \<open>row' = row\<close> that show ?thesis by blast
qed

text \<open>
  A question is asked once per key: after a submission under a key has succeeded and any further requests
  have run, submitting under a key that strips to the same text returns the same message as a replay when it is
  the same user, conversation and stripped text, and is refused otherwise; either way nothing is written.
\<close>

theorem question_key_replays:
  assumes "ai_inv d"
    and "submit_user_message sha (run_ai sha typed xs) (run_ai sha typed ys) i d b u cid content key now = (Inr subm, d1)"
    and "d2 = run_ai sha typed requests d1" and "py_strip key' = py_strip key"
  shows "if cid' = cid \<and> u' = u \<and> py_strip content' = py_strip content
    then \<exists>subm'. submit_user_message sha env env' i' d2 b u' cid' content' key' now' = (Inr subm', d2)
       \<and> msg_id (subm_user_message subm') = msg_id (subm_user_message subm) \<and> subm_replayed subm'
    else \<exists>e. submit_user_message sha env env' i' d2 b u' cid' content' key' now' = (Inl e, d2)"
proof -
  let ?m = "subm_user_message subm"
  note sub = submit_evolves [OF assms(2) run_ai_evolves run_ai_evolves]
  obtain g where g: "digest_ai_idempotency_key sha key = Inr g" "holds_message ?m b g d1"
    using sub assms(1) by blast
  have inv1: "ai_inv d1" using sub assms(1) ai_evolvesD(1) by blast
  have m2: "holds_message ?m b g d2" and inv2: "ai_inv d2"
    using holds_message_evolves [OF run_ai_evolves inv1 g(2)] run_ai_inv [OF inv1] assms(3) by simp_all
  obtain row c where row: "message_by_digest d2 b g = Some row" "held_row ?m row"
    "conversation_by_id d2 b (msg_conversation_id ?m) = Some c" by (rule held_lookup [OF inv2 m2])
  have key': "digest_ai_idempotency_key sha key' = Inr g"
    using g(1) assms(4) by (simp add: digest_ai_idempotency_key_def)
  note facts = submission_facts [OF assms(2)]
  have ok: "normalize_ai_message_content content = Inr (py_strip content)"
    using assms(2) by (auto simp: submit_user_message_def normalize_ai_message_content_def Let_def split: if_splits)
  have fields: "msg_id row = msg_id ?m" "msg_role row = MSG_USER" "msg_conversation_id row = cid"
    "msg_created_by_user_id row = Some u" "msg_content row = py_strip content"
    using row(2) m2 facts by (simp_all add: held_row_def holds_message_def)
  show ?thesis
  proof (cases "cid' = cid \<and> u' = u \<and> py_strip content' = py_strip content")
    case True
    then have "normalize_ai_message_content content' = Inr (py_strip content)"
      using ok by (simp add: normalize_ai_message_content_def)
    with True key' row fields facts(1) show ?thesis
      by (simp add: submit_user_message_def submission_for_existing_def replay_matches_def)
  next
    case False
    have "\<exists>e. submit_user_message sha env env' i' d2 b u' cid' content' key' now' = (Inl e, d2)"
    proof (cases "normalize_ai_message_content content'")
      case (Inl e)
      then show ?thesis by (simp add: submit_user_message_def)
    next
      case (Inr body)
      then have "body = py_strip content'"
        by (auto simp: normalize_ai_message_content_def Let_def split: if_splits)
      with False Inr key' row(1) fields show ?thesis
        by (auto simp: submit_user_message_def submission_for_existing_def replay_matches_def)
    qed
    with False show ?thesis by auto
  qed
qed

theorem question_key_replays_witness:
  "\<exists>e. submit_user_message sample_sha (\<lambda>d. d) (\<lambda>d. d) 90 sample_chat 10 1 60 ''other'' ''k'' 30 = (Inl e, sample_chat)"
proof -
  have "sample_chat = run_ai sample_sha (\<lambda>_. True) [] sample_chat" by (simp add: run_ai_def)
  from question_key_replays [OF sample_ai_inv sample_submit this refl, of 60 1 "''other''" "\<lambda>d. d" "\<lambda>d. d" 90 30]
  show ?thesis by (simp add: py_strip_def py_isspace_def)
qed

section \<open>The length of a prompt\<close>

definition segment_cost :: "string list \<Rightarrow> int" where
  "segment_cost xs = sum_list (map (\<lambda>x. int (length x) + 2) xs)"

lemma segment_cost_simps [simp]:
  "segment_cost [] = 0" "segment_cost (x # xs) = int (length x) + 2 + segment_cost xs"
  "segment_cost (rev xs) = segment_cost xs"
  by (simp_all add: segment_cost_def rev_map [symmetric])

lemma length_join: "length sep = 2 \<Longrightarrow> xs \<noteq> [] \<Longrightarrow> int (length (join_with sep xs)) = segment_cost xs - 2"
  by (induction sep xs rule: join_with.induct) simp_all

lemma select_segments_cost: "segment_cost (select_segments r xs) \<le> max 0 r + 2"
proof (induction r xs rule: select_segments.induct)
  case (1 r)
  then show ?case by simp
next
  case (2 r x xs)
  show ?case
  proof (cases "r \<le> 0")
    case True
    then show ?thesis by simp
  next
    case False
    define y where "y = (if r < int (length x) then last_n (nat r) x else x)"
    have len: "int (length y) \<le> r" using False by (simp add: y_def)
    have IH: "segment_cost (select_segments (r - (int (length y) + 2)) xs) \<le> max 0 (r - (int (length y) + 2)) + 2"
      using "2.IH" [OF False y_def] .
    have "select_segments s xs = []" if "s \<le> 0" for s using that by (cases xs) simp_all
    then have "segment_cost (select_segments (r - (int (length y) + 2)) xs) = 0" if "r \<le> int (length y) + 2"
      using that by simp
    with IH len False show ?thesis
      by (cases "r \<le> int (length y) + 2") (simp_all add: Let_def y_def [symmetric])
  qed
qed

lemma select_segments_head:
  "int (length x) \<le> r \<Longrightarrow> 0 < r \<Longrightarrow> \<exists>xs'. select_segments r (x # xs) = x # xs'"
  by (simp add: Let_def)

lemma join_with_snoc: "\<exists>front. join_with sep (xs @ [x]) = front @ x"
proof (induction xs rule: induct_list012)
  case 1
  then show ?case by simp
next
  case (2 y)
  then show ?case by simp
next
  case (3 y z zs)
  then show ?case by (metis append.assoc append_Cons join_with.simps(3))
qed

lemma length_py_rstrip: "length (py_rstrip s) \<le> length s"
  using length_dropWhile_le [of py_isspace "rev s"] by (simp add: py_rstrip_def)

lemma bounded_prompt_length:
  assumes "bounded_prompt ms context' = Some p"
  shows "int (length p) \<le> AI_PROMPT_MAX_CHARACTERS"
proof -
  let ?pre = "grounding_prefix context'"
  let ?r = "AI_PROMPT_MAX_CHARACTERS - int (length ?pre)"
  let ?sel = "select_segments ?r (rev (map prompt_segment (filter (\<lambda>m. py_strip (msg_content m) \<noteq> []) ms)))"
  let ?c = "join_with [CHR 0x0A, CHR 0x0A] (rev ?sel)"
  have r: "0 < ?r" and p: "p = (if ?c \<noteq> [] then ?pre @ ?c else py_rstrip ?pre)"
    using assms by (auto simp: bounded_prompt_def Let_def split: if_splits)
  show ?thesis
  proof (cases "?c = []")
    case True
    then have "p = py_rstrip ?pre" using p by simp
    with length_py_rstrip [of ?pre] r show ?thesis by simp
  next
    case False
    then have "rev ?sel \<noteq> []" by auto
    from length_join [OF _ this, of "[CHR 0x0A, CHR 0x0A]"]
    have "int (length ?c) = segment_cost ?sel - 2" by simp
    moreover have "segment_cost ?sel \<le> ?r + 2" using select_segments_cost [of ?r] r by (simp add: max_def)
    ultimately show ?thesis using False p by simp
  qed
qed

lemma bounded_prompt_question:
  assumes "bounded_prompt (ms @ [m]) context' = Some p" and "py_strip (msg_content m) \<noteq> []"
    and "int (length (grounding_prefix context') + length (prompt_segment m)) \<le> AI_PROMPT_MAX_CHARACTERS"
  shows "\<exists>history. p = grounding_prefix context' @ history @ prompt_segment m"
proof -
  let ?pre = "grounding_prefix context'"
  let ?r = "AI_PROMPT_MAX_CHARACTERS - int (length ?pre)"
  let ?xs = "map prompt_segment (filter (\<lambda>m. py_strip (msg_content m) \<noteq> []) ms)"
  have r: "0 < ?r" using assms(1) by (auto simp: bounded_prompt_def Let_def split: if_splits)
  obtain ys where ys: "select_segments ?r (prompt_segment m # rev ?xs) = prompt_segment m # ys"
    using select_segments_head [of "prompt_segment m" ?r "rev ?xs"] assms(3) r by auto
  obtain front where front: "join_with [CHR 0x0A, CHR 0x0A] (rev ys @ [prompt_segment m]) = front @ prompt_segment m"
    using join_with_snoc by blast
  have segs: "map prompt_segment (filter (\<lambda>m. py_strip (msg_content m) \<noteq> []) (ms @ [m])) = ?xs @ [prompt_segment m]"
    using assms(2) by simp
  have "prompt_segment m \<noteq> []" by (simp add: prompt_segment_def)
  then have ne: "front @ prompt_segment m \<noteq> []" by simp
  have join: "join_with [CHR 0x0A, CHR 0x0A] (rev (select_segments ?r (prompt_segment m # rev ?xs))) = front @ prompt_segment m"
    unfolding ys using front by simp
  have "Some p = Some (?pre @ front @ prompt_segment m)"
    unfolding assms(1) [symmetric] bounded_prompt_def Let_def segs rev_append rev.simps append.simps join
    using r ne by simp
  then show ?thesis by blast
qed

lemma render_bounded_length: "render_bounded c = Some t \<Longrightarrow> length t \<le> AI_GROUNDING_MAX_CHARACTERS"
  by (auto simp: render_bounded_def split: option.splits if_splits)

lemma length_grounding_prefix: "length (grounding_prefix (Some t)) = length t + 61"
  by (simp add: grounding_prefix_def)


definition sample_dashboard_snapshot :: dashboard_snapshot where
  "sample_dashboard_snapshot = \<lparr> ds_id = 80, ds_business_id = 10, ds_dashboard_id = 81, ds_version = 1, ds_schema_version = 1,
     ds_payload = JDict [(''source_count'', JInt 1), (''dashboard'', JDict [(''title'', JStr ''Sales'')])],
     ds_content_hash = replicate 64 CHR ''0'', ds_created_by_user_id = 1, ds_created_at = 3 \<rparr>"

definition sample_grounding_text :: string where
  "sample_grounding_text = the (dashboard_grounding_context (\<lambda>x. replicate 64 CHR ''0'') sample_dashboard_snapshot)"

lemma sample_grounding: "dashboard_grounding_context (\<lambda>x. replicate 64 CHR ''0'') sample_dashboard_snapshot \<noteq> None"
  by code_simp


section \<open>What a stale session does to the lease\<close>

definition sample_reservation :: ledger_snapshot where
  "sample_reservation = snapshot_of sample_reserved sample_account False"

definition sample_reclaimed :: ai_message where
  "sample_reclaimed = sample_asked\<lparr> msg_credit_ledger_entry_id := Some 51, msg_processing_token := Some 9,
     msg_processing_lease_expires_at := Some 190 \<rparr>"

lemma sample_lease: "lease_active sample_claimed 100"
  by (simp add: lease_active_def sample_claimed_def sample_asked_def new_user_message_def)

lemma sample_reclaim_rows:
  "ai_messages (flush_message sample_asked sample_reclaimed sample_chat)
     = [sample_question, sample_answer, sample_reclaimed]"
  by (simp add: flush_message_def flushed_message_def written_def sample_reclaimed_def sample_question_def
      sample_answer_def sample_claimed_def sample_asked_def new_user_message_def assistant_message_def)

lemma sample_reclaim_tables: "ai_tables_ok (flush_message sample_asked sample_reclaimed sample_chat)"
  (is "ai_tables_ok ?d")
proof -
  have rest: "ai_conversations ?d = [sample_conversation]" "ledger_entries ?d = [sample_consumed, sample_reserved]"
    "role_assignments ?d = [sample_assignment]"
    by (simp_all add: flush_message_def)
  have "conversation_table_ok ?d"
    using sample_chat_tables by (simp add: ai_tables_ok_def conversation_table_ok_def flush_message_def)
  moreover have "list_all ai_message_checks (ai_messages ?d)"
    unfolding sample_reclaim_rows
    by (simp add: ai_message_checks_def message_role_fields_check_def message_provider_fields_check_def
        message_status_fields_check_def trimmed_length_between_def sql_trim_def AI_MESSAGE_CONTENT_MAX_LENGTH_def
        sample_question_def sample_answer_def sample_reclaimed_def sample_asked_def sample_generation_def
        new_user_message_def assistant_message_def)
  ultimately show ?thesis
    unfolding ai_tables_ok_def message_table_ok_def rest sample_reclaim_rows
    by (simp add: unique_on_def unique_nullable_def
        sample_question_def sample_answer_def sample_reclaimed_def sample_asked_def sample_generation_def
        new_user_message_def assistant_message_def sample_conversation_def new_conversation_def
        sample_assignment_def sample_consumed_def sample_reserved_def new_entry_def sample_sha_def)
qed


end
