(* ===== verification/Decimals.thy ===== *)
theory Decimals
  imports PyStrings Complex_Main
begin

text \<open>
  Python's \<open>Decimal\<close> as the code uses it: exact numbers with a finite number of places, arithmetic rounded
  to the precision of the context, and the text that the snapshots store and read back.
\<close>

section \<open>Decimal numbers\<close>

text \<open>\<open>Dec c s\<close> is the number \<open>c / 10 ^ s\<close>.\<close>

datatype decimal = Dec int nat

definition dec_val :: "decimal \<Rightarrow> rat" where
  "dec_val x = (case x of Dec c s \<Rightarrow> of_int c / 10 ^ s)"

text \<open>The coefficient of \<open>x\<close> at \<open>n\<close> decimal places, and a coefficient with any exponent as a decimal.\<close>

definition dec_at :: "nat \<Rightarrow> decimal \<Rightarrow> int" where
  "dec_at n x = (case x of Dec c s \<Rightarrow> c * 10 ^ (n - s))"

definition dec_scale :: "decimal \<Rightarrow> nat" where
  "dec_scale x = (case x of Dec c s \<Rightarrow> s)"

definition dec_exp :: "int \<Rightarrow> int \<Rightarrow> decimal" where
  "dec_exp c e = (if e \<le> 0 then Dec c (nat (- e)) else Dec (c * 10 ^ nat e) 0)"

definition dec_of_int :: "int \<Rightarrow> decimal" where
  "dec_of_int n = Dec n 0"

definition dec_le :: "decimal \<Rightarrow> decimal \<Rightarrow> bool" where
  "dec_le x y \<longleftrightarrow> dec_at (max (dec_scale x) (dec_scale y)) x \<le> dec_at (max (dec_scale x) (dec_scale y)) y"

definition dec_less :: "decimal \<Rightarrow> decimal \<Rightarrow> bool" where
  "dec_less x y \<longleftrightarrow> \<not> dec_le y x"

definition dec_eq :: "decimal \<Rightarrow> decimal \<Rightarrow> bool" where
  "dec_eq x y \<longleftrightarrow> dec_le x y \<and> dec_le y x"

definition dec_is_zero :: "decimal \<Rightarrow> bool" where
  "dec_is_zero x = (case x of Dec c s \<Rightarrow> c = 0)"

definition dec_neg :: "decimal \<Rightarrow> decimal" where
  "dec_neg x = (case x of Dec c s \<Rightarrow> Dec (- c) s)"

definition dec_abs :: "decimal \<Rightarrow> decimal" where
  "dec_abs x = (case x of Dec c s \<Rightarrow> Dec \<bar>c\<bar> s)"

section \<open>Arithmetic with a precision\<close>

definition num_digits :: "nat \<Rightarrow> nat" where
  "num_digits n = length (dec_str n)"

text \<open>Rounding to \<open>prec\<close> significant digits, half to even.\<close>

definition round_half_even :: "nat \<Rightarrow> nat \<Rightarrow> nat" where
  "round_half_even n m =
     (if 2 * (n mod m) > m \<or> (2 * (n mod m) = m \<and> odd (n div m)) then n div m + 1 else n div m)"

definition dec_round :: "nat \<Rightarrow> int \<Rightarrow> int \<Rightarrow> decimal" where
  "dec_round prec c e =
     (let n = nat \<bar>c\<bar>; excess = num_digits n - prec
      in if excess = 0 then dec_exp c e
         else dec_exp (sgn c * int (round_half_even n (10 ^ excess))) (e + int excess))"

definition dec_add :: "nat \<Rightarrow> decimal \<Rightarrow> decimal \<Rightarrow> decimal" where
  "dec_add prec x y =
     (let s = max (dec_scale x) (dec_scale y) in dec_round prec (dec_at s x + dec_at s y) (- int s))"

definition dec_sub :: "nat \<Rightarrow> decimal \<Rightarrow> decimal \<Rightarrow> decimal" where
  "dec_sub prec x y = dec_add prec x (dec_neg y)"

definition dec_mul :: "nat \<Rightarrow> decimal \<Rightarrow> decimal \<Rightarrow> decimal" where
  "dec_mul prec x y =
     (case (x, y) of (Dec a s, Dec b t) \<Rightarrow> dec_round prec (a * b) (- int (s + t)))"

text \<open>
  Division by a number that is not zero: \<open>prec + 1\<close> digits or more of the quotient, and a last digit that is
  not 0 or 5 when the division leaves a remainder, so that the rounding sees it.
\<close>

definition dec_div :: "nat \<Rightarrow> decimal \<Rightarrow> decimal \<Rightarrow> decimal" where
  "dec_div prec x y =
     (case (x, y) of (Dec a s, Dec b t) \<Rightarrow>
        let m = nat \<bar>a\<bar>; n = nat \<bar>b\<bar>;
            shift = int (num_digits n) - int (num_digits m) + int prec + 1;
            p = (if 0 \<le> shift then m * 10 ^ nat shift else m);
            q = (if 0 \<le> shift then n else n * 10 ^ nat (- shift));
            c = p div q;
            c' = (if p mod q \<noteq> 0 \<and> c mod 5 = 0 then c + 1 else c)
        in dec_round prec (sgn a * sgn b * int c') (int t - int s - shift))"

section \<open>Text\<close>

text \<open>\<open>format(value, "f")\<close>\<close>

definition dec_format :: "decimal \<Rightarrow> string" where
  "dec_format x =
     (case x of Dec c s \<Rightarrow>
        let n = nat \<bar>c\<bar>; places = dec_str (n mod 10 ^ s)
        in (if c < 0 then ''-'' else []) @ dec_str (n div 10 ^ s)
           @ (if s = 0 then [] else ''.'' @ replicate (s - length places) (CHR ''0'') @ places))"

definition rstrip_char :: "char \<Rightarrow> string \<Rightarrow> string" where
  "rstrip_char x s = rev (dropWhile (\<lambda>c. c = x) (rev s))"

definition decimal_text :: "decimal \<Rightarrow> string" where
  "decimal_text x =
     (if dec_is_zero x then ''0''
      else
        let rendered = dec_format x;
            rendered' = (if CHR ''.'' \<in> set rendered
              then rstrip_char (CHR ''.'') (rstrip_char (CHR ''0'') rendered) else rendered)
        in if rendered' = ''-0'' then ''0'' else rendered')"

definition digits_value :: "string \<Rightarrow> nat" where
  "digits_value ds = foldl (\<lambda>n c. 10 * n + (of_char c - 48)) 0 ds"

text \<open>The pattern \<open>[+-]?\d{1,40}(\.\d{1,20})?\<close>, matched in full, and the number it stands for.\<close>

definition unsigned_decimal :: "string \<Rightarrow> decimal option" where
  "unsigned_decimal s =
     (let whole = takeWhile digit s; rest = drop (length whole) s
      in if whole = [] \<or> 40 < length whole then None
         else case rest of
           [] \<Rightarrow> Some (Dec (int (digits_value whole)) 0)
         | c # places \<Rightarrow>
             if c = CHR ''.'' \<and> places \<noteq> [] \<and> length places \<le> 20 \<and> list_all digit places
             then Some (Dec (int (digits_value (whole @ places))) (length places)) else None)"

definition strict_decimal_text :: "string \<Rightarrow> decimal option" where
  "strict_decimal_text s =
     (case s of
        [] \<Rightarrow> None
      | c # cs \<Rightarrow>
          if c = CHR ''-'' then map_option dec_neg (unsigned_decimal cs)
          else if c = CHR ''+'' then unsigned_decimal cs
          else unsigned_decimal (c # cs))"

text \<open>\<open>Decimal(str(value))\<close> of a finite float: digits, an optional fraction and an optional exponent.\<close>

definition unsigned_float :: "string \<Rightarrow> decimal option" where
  "unsigned_float s =
     (let mantissa = takeWhile (\<lambda>c. c \<noteq> CHR ''e'') s; rest = drop (length mantissa) s;
          whole = takeWhile digit mantissa; places = drop (length whole + 1) mantissa;
          sign = (case rest of _ # c # _ \<Rightarrow> if c = CHR ''-'' then - 1 else 1 | _ \<Rightarrow> 1);
          power = filter digit rest
      in if whole = [] \<or> \<not> list_all digit places then None
         else Some (dec_exp (int (digits_value (whole @ places)))
                      (sign * int (digits_value power) - int (length places))))"

definition float_decimal :: "string \<Rightarrow> decimal option" where
  "float_decimal s =
     (case s of
        [] \<Rightarrow> None
      | c # cs \<Rightarrow> if c = CHR ''-'' then map_option dec_neg (unsigned_float cs) else unsigned_float (c # cs))"

section \<open>Exact arithmetic\<close>

lemma num_digits_le:
  assumes "n < 10 ^ p" and "0 < p"
  shows "num_digits n \<le> p"
  using assms
proof (induction n arbitrary: p rule: dec_str.induct)
  case (1 n)
  show ?case
  proof (cases "n < 10")
    case True
    with 1(3) show ?thesis by (simp add: num_digits_def dec_str.simps [of n])
  next
    case False
    then have "1 < p" using 1(2,3) by (metis One_nat_def Suc_lessI not_gr_zero power_one_right)
    then obtain q where q: "p = Suc q" "0 < q" by (cases p) auto
    then have "n div 10 < 10 ^ q" using 1(2) by (simp add: less_mult_imp_div_less mult.commute)
    from 1(1) [OF False this q(2)] have "num_digits (n div 10) \<le> q" .
    with False q(1) show ?thesis by (simp add: num_digits_def dec_str.simps [of n])
  qed
qed

lemma dec_round_exact:
  assumes "\<bar>c\<bar> < 10 ^ prec" and "0 < prec"
  shows "dec_round prec c e = dec_exp c e"
proof -
  have "nat \<bar>c\<bar> < 10 ^ prec" using assms(1) by (simp add: nat_less_iff)
  then have "num_digits (nat \<bar>c\<bar>) \<le> prec" using assms(2) by (rule num_digits_le)
  then show ?thesis by (simp add: dec_round_def Let_def)
qed

lemma dec_val_at: "dec_scale x \<le> n \<Longrightarrow> dec_val x = of_int (dec_at n x) / 10 ^ n"
proof (cases x)
  case (Dec c s)
  assume "dec_scale x \<le> n"
  then have "(10 :: rat) ^ n = 10 ^ (n - s) * 10 ^ s" by (simp add: Dec dec_scale_def power_add [symmetric])
  then show ?thesis by (simp add: Dec dec_val_def dec_at_def)
qed

lemma dec_add_exact:
  assumes "\<bar>dec_at s x + dec_at s y\<bar> < 10 ^ prec" and "0 < prec" and s: "s = max (dec_scale x) (dec_scale y)"
  shows "dec_add prec x y = Dec (dec_at s x + dec_at s y) s"
  using dec_round_exact [OF assms(1,2), of "- int s"] by (simp add: dec_add_def Let_def s [symmetric] dec_exp_def)

lemma dec_val_le: "dec_le x y \<longleftrightarrow> dec_val x \<le> dec_val y"
proof -
  let ?s = "max (dec_scale x) (dec_scale y)"
  have "dec_val x = of_int (dec_at ?s x) / 10 ^ ?s" "dec_val y = of_int (dec_at ?s y) / 10 ^ ?s"
    by (simp_all add: dec_val_at)
  then show ?thesis by (simp add: dec_le_def divide_le_cancel)
qed

lemma dec_val_eq: "dec_eq x y \<longleftrightarrow> dec_val x = dec_val y"
  by (auto simp: dec_eq_def dec_val_le)

lemma dec_val_less: "dec_less x y \<longleftrightarrow> dec_val x < dec_val y"
  by (auto simp: dec_less_def dec_val_le)

text \<open>
  A decimal is \<open>fitting n m x\<close> when it has at most \<open>m\<close> places and less than \<open>n\<close> units of the last of them.
  Sums of fitting decimals are exact as long as the bound stays below the precision.
\<close>

definition fitting :: "int \<Rightarrow> nat \<Rightarrow> decimal \<Rightarrow> bool" where
  "fitting n m x \<longleftrightarrow> dec_scale x \<le> m \<and> \<bar>dec_at m x\<bar> \<le> n"

lemma dec_at_mono:
  assumes "dec_scale x \<le> s" "s \<le> m"
  shows "dec_at m x = dec_at s x * 10 ^ (m - s)"
  using assms by (cases x) (simp add: dec_at_def dec_scale_def power_add [symmetric])

lemma fitting_add:
  assumes "fitting a m x" "fitting b m y" and "a + b < 10 ^ prec" and "0 < prec"
  shows "fitting (a + b) m (dec_add prec x y)" "dec_val (dec_add prec x y) = dec_val x + dec_val y"
proof -
  let ?s = "max (dec_scale x) (dec_scale y)"
  have s: "?s \<le> m" using assms(1,2) by (simp add: fitting_def)
  have at: "dec_at m x = dec_at ?s x * 10 ^ (m - ?s)" "dec_at m y = dec_at ?s y * 10 ^ (m - ?s)"
    using s by (intro dec_at_mono; simp)+
  have sum: "\<bar>dec_at m x + dec_at m y\<bar> \<le> a + b" using assms(1,2) by (auto simp: fitting_def)
  have "\<bar>dec_at ?s x + dec_at ?s y\<bar> \<le> \<bar>dec_at ?s x + dec_at ?s y\<bar> * 10 ^ (m - ?s)"
    by (simp add: mult_le_cancel_left1)
  also have "\<dots> = \<bar>dec_at m x + dec_at m y\<bar>" by (simp add: at abs_mult distrib_right [symmetric])
  finally have "\<bar>dec_at ?s x + dec_at ?s y\<bar> < 10 ^ prec" using sum assms(3) by linarith
  from dec_add_exact [OF this assms(4) refl]
  have add: "dec_add prec x y = Dec (dec_at ?s x + dec_at ?s y) ?s" .
  have "dec_at m (dec_add prec x y) = dec_at m x + dec_at m y"
    unfolding add at by (simp add: dec_at_def distrib_right)
  with sum s show "fitting (a + b) m (dec_add prec x y)"
    by (simp add: fitting_def add dec_scale_def)
  show "dec_val (dec_add prec x y) = dec_val x + dec_val y"
    unfolding add using dec_val_at [of x ?s] dec_val_at [of y ?s]
    by (simp add: dec_val_def [of "Dec _ _"] add_divide_distrib)
qed

lemma fitting_mono: "fitting a m x \<Longrightarrow> a \<le> b \<Longrightarrow> fitting b m x"
  by (simp add: fitting_def)

lemma fitting_zero [simp]: "fitting 0 m (Dec 0 0)"
  by (simp add: fitting_def dec_scale_def dec_at_def)

lemma dec_val_zero [simp]: "dec_val (Dec 0 s) = 0"
  by (simp add: dec_val_def)

lemma fitting_sum:
  assumes "\<forall>x \<in> set xs. fitting a m x" and "fitting b m t" and "b + int (length xs) * a < 10 ^ prec" and "0 \<le> a" and "0 < prec"
  shows "dec_val (foldl (dec_add prec) t xs) = dec_val t + sum_list (map dec_val xs)
    \<and> fitting (b + int (length xs) * a) m (foldl (dec_add prec) t xs)"
  using assms
proof (induction xs arbitrary: t b)
  case Nil
  then show ?case by simp
next
  case (Cons x xs)
  have x: "fitting a m x" using Cons.prems(1) by simp
  have "0 \<le> int (length xs) * a" using Cons.prems(4) by simp
  then have "b + a < 10 ^ prec" using Cons.prems(3) by (simp add: distrib_right)
  note add = fitting_add [OF Cons.prems(2) x this Cons.prems(5)]
  have "b + a + int (length xs) * a < 10 ^ prec" using Cons.prems(3) by (simp add: distrib_right algebra_simps)
  from Cons.IH [OF _ add(1) this Cons.prems(4,5)] Cons.prems(1) add(2) show ?case
    by (simp add: algebra_simps)
qed

section \<open>Reading what was written\<close>

lemma digits_value_append: "digits_value (xs @ [digit_char k]) = 10 * digits_value xs + k" if "k < 10"
  using that by (simp add: digits_value_def of_char_digit_char)

lemma digits_value_Nil [simp]: "digits_value [] = 0"
  by (simp add: digits_value_def)

lemma digits_value_dec_str: "digits_value (dec_str n) = n"
proof (induction n rule: dec_str.induct)
  case (1 n)
  show ?case
  proof (cases "n < 10")
    case True
    then have "dec_str n = [] @ [digit_char n]" by (simp add: dec_str.simps [of n])
    with True show ?thesis by (metis digits_value_append digits_value_Nil mult_0_right add_0)
  next
    case False
    then have "dec_str n = dec_str (n div 10) @ [digit_char (n mod 10)]" by (simp add: dec_str.simps [of n])
    with 1 [OF False] show ?thesis by (simp add: digits_value_append)
  qed
qed

lemma digits_value_foldl:
  "foldl (\<lambda>n c. 10 * n + (of_char c - 48 :: nat)) a ds = a * 10 ^ length ds + digits_value ds"
proof (induction ds arbitrary: a)
  case Nil
  then show ?case by simp
next
  case (Cons d ds)
  from Cons [of "10 * a + (of_char d - 48)"] Cons [of "of_char d - 48"] show ?case
    by (simp add: digits_value_def algebra_simps)
qed

lemma digits_value_app: "digits_value (xs @ ys) = digits_value xs * 10 ^ length ys + digits_value ys"
  using digits_value_foldl [of "digits_value xs" ys] by (simp add: digits_value_def)

lemma digits_value_zeros [simp]: "digits_value (replicate k (CHR ''0'')) = 0"
  by (induction k) (simp_all add: digits_value_app [of "[_]", simplified] digits_value_def)

text \<open>The digits before and after the point.\<close>

definition whole_text :: "nat \<Rightarrow> nat \<Rightarrow> string" where
  "whole_text n s = dec_str (n div 10 ^ s)"

definition place_text :: "nat \<Rightarrow> nat \<Rightarrow> string" where
  "place_text n s = (let places = dec_str (n mod 10 ^ s)
     in replicate (s - length places) (CHR ''0'') @ places)"

lemma length_place_text: "0 < s \<Longrightarrow> length (place_text n s) = s"
  using num_digits_le [of "n mod 10 ^ s" s] by (simp add: place_text_def num_digits_def Let_def)

lemma texts_value: "0 < s \<Longrightarrow> digits_value (whole_text n s @ place_text n s) = n"
proof -
  assume s: "0 < s"
  have "digits_value (place_text n s) = n mod 10 ^ s"
    by (simp add: place_text_def Let_def digits_value_app digits_value_dec_str)
  then show ?thesis
    using div_mult_mod_eq [of n "10 ^ s"]
    by (simp only: digits_value_app whole_text_def digits_value_dec_str length_place_text [OF s])
qed

lemma digit_zero [simp]: "digit (CHR ''0'')" "\<not> digit (CHR ''.'')" "\<not> digit (CHR ''-'')" "\<not> digit (CHR ''+'')"
  by (simp_all add: digit_def)

lemma digits_texts: "list_all digit (whole_text n s)" "list_all digit (place_text n s)"
  using digits_dec_str(1) by (auto simp: whole_text_def place_text_def Let_def list_all_iff)

lemma dec_format_texts:
  "dec_format (Dec c s) = (if c < 0 then ''-'' else []) @ whole_text (nat \<bar>c\<bar>) s
     @ (if s = 0 then [] else ''.'' @ place_text (nat \<bar>c\<bar>) s)"
  by (simp add: dec_format_def whole_text_def place_text_def Let_def)

lemma strip_zeros:
  obtains kept k where "ds = kept @ replicate k (CHR ''0'')" "kept = [] \<or> last kept \<noteq> CHR ''0''"
proof -
  let ?z = "takeWhile (\<lambda>c. c = CHR ''0'') (rev ds)"
  let ?r = "dropWhile (\<lambda>c. c = CHR ''0'') (rev ds)"
  have "rev ds = ?z @ ?r" by simp
  then have "ds = rev ?r @ rev ?z" by (metis rev_append rev_rev_ident)
  moreover have "\<forall>x \<in> set (rev ?z). x = CHR ''0''" by (auto dest: set_takeWhileD)
  then have "rev ?z = replicate (length (rev ?z)) (CHR ''0'')" using replicate_length_same [of "rev ?z" "CHR ''0''"] by metis
  moreover have "rev ?r = [] \<or> last (rev ?r) \<noteq> CHR ''0''"
    using hd_dropWhile [of "\<lambda>c. c = CHR ''0''" "rev ds"] by (auto simp: last_rev)
  ultimately show ?thesis using that by metis
qed

lemma dropWhile_replicate: "dropWhile (\<lambda>c. c = x) (replicate k x @ xs) = dropWhile (\<lambda>c. c = x) xs"
  by (induction k) simp_all

lemma rstrip_char_app: "rstrip_char x (s @ replicate k x) = rstrip_char x s"
  by (simp add: rstrip_char_def dropWhile_replicate)

lemma rstrip_char_last: "s = [] \<or> last s \<noteq> x \<Longrightarrow> rstrip_char x s = s"
  by (cases s rule: rev_cases) (simp_all add: rstrip_char_def)

lemma no_point: "CHR ''.'' \<notin> set ds" if "list_all digit ds" for ds
  using that by (auto simp: list_all_iff)

lemma takeWhile_digits:
  assumes "list_all digit ds" and "rest = [] \<or> \<not> digit (hd rest)"
  shows "takeWhile digit (ds @ rest) = ds"
  using assms by (cases rest) (auto simp: list_all_iff takeWhile_append2)

text \<open>The text of a number other than zero: its whole digits and the kept places.\<close>

lemma decimal_text_shape:
  assumes "c \<noteq> 0"
  obtains kept k where "decimal_text (Dec c s) = (if c < 0 then ''-'' else []) @ whole_text (nat \<bar>c\<bar>) s
      @ (if kept = [] then [] else ''.'' @ kept)"
    and "list_all digit kept" "length kept + k = s"
    and "digits_value (whole_text (nat \<bar>c\<bar>) s @ kept) * 10 ^ k = nat \<bar>c\<bar>"
proof (cases "s = 0")
  case True
  let ?w = "whole_text (nat \<bar>c\<bar>) 0"
  have "dec_format (Dec c s) = (if c < 0 then ''-'' else []) @ ?w" by (simp add: True dec_format_texts)
  moreover have "CHR ''.'' \<notin> set ((if c < 0 then ''-'' else []) @ ?w)"
    using no_point [OF digits_texts(1)] by simp
  moreover have "digits_value ?w = nat \<bar>c\<bar>" by (simp add: whole_text_def digits_value_dec_str)
  moreover from this have "?w \<noteq> ''0''" using assms by (auto simp: digits_value_def)
  moreover have "CHR ''-'' \<notin> set ?w" using digits_texts(1) [of "nat \<bar>c\<bar>" 0] by (auto simp: list_all_iff)
  then have "?w \<noteq> ''-0''" by auto
  ultimately have "decimal_text (Dec c s) = (if c < 0 then ''-'' else []) @ ?w"
    using assms by (auto simp: decimal_text_def dec_is_zero_def Let_def split: if_splits)
  then show ?thesis using that [of "[]" 0] True \<open>digits_value ?w = nat \<bar>c\<bar>\<close> by simp
next
  case False
  let ?n = "nat \<bar>c\<bar>"
  let ?sg = "if c < 0 then ''-'' else []"
  obtain kept k where kept: "place_text ?n s = kept @ replicate k (CHR ''0'')" "kept = [] \<or> last kept \<noteq> CHR ''0''"
    by (rule strip_zeros)
  have len: "length kept + k = s" using length_place_text [of s ?n] False kept(1) by simp
  have dk: "list_all digit kept" using digits_texts(2) [of ?n s] kept(1) by simp
  have val: "digits_value (whole_text ?n s @ kept) * 10 ^ k = ?n"
    using texts_value [of s ?n] False kept(1)
    by (metis add.right_neutral append.assoc digits_value_app digits_value_zeros length_replicate neq0_conv)
  have fmt: "dec_format (Dec c s) = (?sg @ whole_text ?n s @ ''.'' @ kept) @ replicate k (CHR ''0'')"
    using False kept(1) by (simp add: dec_format_texts)
  have zeros: "rstrip_char (CHR ''0'') (dec_format (Dec c s)) = ?sg @ whole_text ?n s @ ''.'' @ kept"
    unfolding fmt rstrip_char_app using kept(2) by (intro rstrip_char_last) (auto simp: last_append split: if_splits)
  have wne: "whole_text ?n s \<noteq> []" using digits_dec_str(2) by (simp add: whole_text_def)
  have "digit (last (whole_text ?n s))"
    using digits_texts(1) [of ?n s] last_in_set [OF wne] by (simp add: list_all_iff)
  then have wlast: "last (whole_text ?n s) \<noteq> CHR ''.''" by auto
  have kept_last: "kept \<noteq> [] \<Longrightarrow> last kept \<noteq> CHR ''.''"
    using dk last_in_set [of kept] by (metis digit_zero(2) list_all_iff)
  have "rstrip_char (CHR ''.'') (?sg @ whole_text ?n s @ ''.'' @ kept)
      = ?sg @ whole_text ?n s @ (if kept = [] then [] else ''.'' @ kept)"
  proof (cases "kept = []")
    case True
    have "rstrip_char (CHR ''.'') ((?sg @ whole_text ?n s) @ replicate 1 (CHR ''.'')) = ?sg @ whole_text ?n s"
      unfolding rstrip_char_app using wne wlast by (intro rstrip_char_last) simp
    with True show ?thesis by simp
  next
    case False
    with kept_last show ?thesis by (simp add: rstrip_char_last)
  qed
  moreover have "?sg @ whole_text ?n s @ (if kept = [] then [] else ''.'' @ kept) \<noteq> ''-0''"
  proof
    assume eq: "?sg @ whole_text ?n s @ (if kept = [] then [] else ''.'' @ kept) = ''-0''"
    have "hd (whole_text ?n s) \<noteq> CHR ''-''"
      using wne digits_texts(1) [of ?n s] by (cases "whole_text ?n s") auto
    with eq wne have "c < 0" by (auto simp: append_eq_Cons_conv split: if_splits)
    with eq wne have "whole_text ?n s = ''0''" "kept = []"
      by (auto simp: append_eq_Cons_conv split: if_splits)
    with val assms show False by (simp add: digits_value_def)
  qed
  moreover have "CHR ''.'' \<in> set (dec_format (Dec c s))" by (simp add: fmt)
  ultimately have "decimal_text (Dec c s) = ?sg @ whole_text ?n s @ (if kept = [] then [] else ''.'' @ kept)"
    using assms by (simp add: decimal_text_def dec_is_zero_def Let_def zeros)
  then show ?thesis using that dk len val by blast
qed


lemma unsigned_decimal_whole:
  assumes "list_all digit ds" "ds \<noteq> []" "length ds \<le> 40"
  shows "unsigned_decimal ds = Some (Dec (int (digits_value ds)) 0)"
proof -
  have "takeWhile digit ds = ds" using takeWhile_digits [OF assms(1), of "[]"] by simp
  with assms show ?thesis by (simp only: unsigned_decimal_def Let_def) simp
qed

lemma unsigned_decimal_point:
  assumes "list_all digit ds" "ds \<noteq> []" "length ds \<le> 40" "list_all digit ps" "ps \<noteq> []" "length ps \<le> 20"
  shows "unsigned_decimal (ds @ ''.'' @ ps) = Some (Dec (int (digits_value (ds @ ps))) (length ps))"
  using assms takeWhile_digits [OF assms(1), of "''.'' @ ps"] by (simp add: unsigned_decimal_def Let_def)

lemma strict_decimal_signed:
  assumes "ds \<noteq> []" and "list_all digit ds"
  shows "strict_decimal_text ((if c < (0 :: int) then ''-'' else []) @ ds @ rest)
    = (if c < 0 then map_option dec_neg (unsigned_decimal (ds @ rest)) else unsigned_decimal (ds @ rest))"
  using assms by (cases ds) (auto simp: strict_decimal_text_def)

lemma whole_text_length: "nat \<bar>c\<bar> < 10 ^ (40 + s) \<Longrightarrow> length (whole_text (nat \<bar>c\<bar>) s) \<le> 40"
  using num_digits_le [of "nat \<bar>c\<bar> div 10 ^ s" 40]
  by (simp add: whole_text_def num_digits_def less_mult_imp_div_less power_add)

lemma scaled_value: "n * 10 ^ k = m \<Longrightarrow> s = l + k \<Longrightarrow> (of_nat n :: rat) / 10 ^ l = of_nat m / 10 ^ s"
  by (auto simp: power_add field_simps)

text \<open>
  What is written for a number is read back as the same number: the text that the snapshots store for a
  decimal of at most 40 whole digits and 20 places is accepted by the strict reader, with the same value.
\<close>

theorem decimal_text_round_trip:
  assumes "\<bar>dec_val x\<bar> < 10 ^ 40" and "dec_scale x \<le> 20"
  shows "\<exists>y. strict_decimal_text (decimal_text x) = Some y \<and> dec_val y = dec_val x"
proof (cases x)
  case (Dec c s)
  show ?thesis
  proof (cases "c = 0")
    case True
    have "strict_decimal_text ''0'' = Some (Dec 0 0)" by code_simp
    with True Dec show ?thesis by (simp add: decimal_text_def dec_is_zero_def)
  next
    case False
    let ?n = "nat \<bar>c\<bar>"
    let ?w = "whole_text ?n s"
    have "(of_int \<bar>c\<bar> :: rat) < 10 ^ 40 * 10 ^ s"
      using assms(1) Dec by (simp add: dec_val_def abs_divide divide_less_eq)
    then have "of_int \<bar>c\<bar> < (of_int (10 ^ (40 + s)) :: rat)" by (simp add: power_add)
    then have "\<bar>c\<bar> < 10 ^ (40 + s)" by (simp only: of_int_less_iff)
    then have "?n < 10 ^ (40 + s)" by (simp add: nat_less_iff)
    then have len: "length ?w \<le> 40" by (rule whole_text_length)
    note w = digits_texts(1) [of ?n s] digits_dec_str(2) [of "?n div 10 ^ s", folded whole_text_def] len
    obtain kept k where kept: "decimal_text (Dec c s) = (if c < 0 then ''-'' else []) @ ?w
        @ (if kept = [] then [] else ''.'' @ kept)" "list_all digit kept" "length kept + k = s"
      "digits_value (?w @ kept) * 10 ^ k = ?n"
      using decimal_text_shape [OF False] by blast
    have "unsigned_decimal (?w @ (if kept = [] then [] else ''.'' @ kept))
        = Some (Dec (int (digits_value (?w @ kept))) (length kept))"
      using w kept(2,3) assms(2) Dec
      by (simp add: unsigned_decimal_whole unsigned_decimal_point [simplified] dec_scale_def)
    then have "strict_decimal_text (decimal_text x)
        = Some (Dec (sgn c * int (digits_value (?w @ kept))) (length kept))"
      using False unfolding Dec kept(1) strict_decimal_signed [OF w(2,1)]
      by (simp only: option.map dec_neg_def decimal.case) simp
    moreover have "dec_val (Dec (sgn c * int (digits_value (?w @ kept))) (length kept)) = dec_val x"
    proof -
      have "(of_nat (digits_value (?w @ kept)) :: rat) / 10 ^ length kept = of_nat ?n / 10 ^ s"
        using kept(3) by (intro scaled_value [OF kept(4)]) simp
      then show ?thesis
        using False by (cases "c < 0") (simp_all add: Dec dec_val_def of_nat_nat)
    qed
    ultimately show ?thesis by blast
  qed
qed

theorem decimal_text_round_trip_witness:
  "\<exists>y. strict_decimal_text (decimal_text (Dec (- 12340) 3)) = Some y \<and> dec_val y = dec_val (Dec (- 12340) 3)"
proof -
  have "\<bar>dec_val (Dec (- 12340) 3)\<bar> < 10 ^ 40" by (simp add: dec_val_def)
  moreover have "dec_scale (Dec (- 12340) 3) \<le> 20" by (simp add: dec_scale_def)
  ultimately show ?thesis by (rule decimal_text_round_trip)
qed

end
