(* ===== verification/Report_Parser.thy ===== *)
theory Report_Parser
  imports Decimals Report_Content Json_Text
begin

text \<open>
  \<open>app/services/report_parser.py\<close>: the cells of a report become JSON values, a header row becomes columns with
  distinct names, and the rows become bounded JSON lines with a profile of every column.

  The readers of the three formats are arguments: a sheet is the sequence of rows that \<open>csv\<close>, \<open>openpyxl\<close> or
  \<open>xlrd\<close> yields.  So are \<open>nfc\<close> (Unicode normalization) and \<open>gz\<close> (the gzip bytes of the lines written so far,
  and whether they are flushed); errors are the codes of \<open>ReportParsingError\<close>.
\<close>

definition REPORT_ARTIFACT_FORMAT_VERSION :: int where "REPORT_ARTIFACT_FORMAT_VERSION = 1"
definition REPORT_MAX_SHEETS :: nat where "REPORT_MAX_SHEETS = 20"
definition REPORT_MAX_ROWS_PER_SHEET :: nat where "REPORT_MAX_ROWS_PER_SHEET = 100000"
definition REPORT_MAX_COLUMNS_PER_SHEET :: nat where "REPORT_MAX_COLUMNS_PER_SHEET = 256"
definition REPORT_MAX_TOTAL_CELLS :: nat where "REPORT_MAX_TOTAL_CELLS = 2000000"
definition REPORT_MAX_LEADING_EMPTY_ROWS :: nat where "REPORT_MAX_LEADING_EMPTY_ROWS = 100"

definition REPORT_MAX_SCANNED_ROWS_PER_SHEET :: nat where
  "REPORT_MAX_SCANNED_ROWS_PER_SHEET = REPORT_MAX_ROWS_PER_SHEET + REPORT_MAX_LEADING_EMPTY_ROWS + 1"

definition REPORT_MAX_CELL_CHARACTERS :: nat where "REPORT_MAX_CELL_CHARACTERS = 32767"
definition REPORT_MAX_HEADER_CHARACTERS :: nat where "REPORT_MAX_HEADER_CHARACTERS = 255"

definition REPORT_MAX_XLSX_UNCOMPRESSED_BYTES :: nat where
  "REPORT_MAX_XLSX_UNCOMPRESSED_BYTES = 128 * 1024 * 1024"

definition REPORT_MAX_XLSX_SHARED_STRINGS_BYTES :: nat where
  "REPORT_MAX_XLSX_SHARED_STRINGS_BYTES = 32 * 1024 * 1024"

definition REPORT_MAX_XLSX_STYLES_BYTES :: nat where "REPORT_MAX_XLSX_STYLES_BYTES = 8 * 1024 * 1024"

definition REPORT_MAX_NORMALIZED_UNCOMPRESSED_BYTES :: nat where
  "REPORT_MAX_NORMALIZED_UNCOMPRESSED_BYTES = 100 * 1024 * 1024"

definition REPORT_MAX_NORMALIZED_COMPRESSED_BYTES :: nat where
  "REPORT_MAX_NORMALIZED_COMPRESSED_BYTES = 50 * 1024 * 1024"

definition REPORT_MAX_PROFILE_BYTES :: nat where "REPORT_MAX_PROFILE_BYTES = 2 * 1024 * 1024"

type_synonym parse_error = string

section \<open>Cells\<close>

text \<open>
  The value of a cell: a float is infinite or NaN, integral, or has a \<open>repr\<close>; a \<open>Decimal\<close> that is not integral
  comes with the float nearest to it (\<open>None\<close> when that is not finite); dates and times come with their ISO
  text, bytes with their UTF-8 decoding, and any other object with its \<open>str\<close>.
\<close>

datatype float_cell = Float_not_finite | Float_integral int | Float_fraction string
datatype decimal_cell = Decimal_not_finite | Decimal_integral int | Decimal_fraction "string option"

datatype cell = Cell_none | Cell_bool bool | Cell_int int | Cell_decimal decimal_cell
  | Cell_float float_cell | Cell_datetime string | Cell_date string | Cell_time string
  | Cell_bytes "string option" | Cell_str string | Cell_object string

datatype value_type = T_null | T_boolean | T_integer | T_number | T_date | T_datetime | T_time | T_string

primrec value_type_text :: "value_type \<Rightarrow> string" where
  "value_type_text T_null = ''null''"
| "value_type_text T_boolean = ''boolean''"
| "value_type_text T_integer = ''integer''"
| "value_type_text T_number = ''number''"
| "value_type_text T_date = ''date''"
| "value_type_text T_datetime = ''datetime''"
| "value_type_text T_time = ''time''"
| "value_type_text T_string = ''string''"

definition VALUE_TYPE_ORDER :: "value_type list" where
  "VALUE_TYPE_ORDER = [T_null, T_boolean, T_integer, T_number, T_date, T_datetime, T_time, T_string]"

text \<open>Latin-1 text has no lone surrogates, so \<open>value.encode("utf-8")\<close> never fails.\<close>

definition normalize_text :: "string \<Rightarrow> parse_error + json \<times> value_type" where
  "normalize_text s =
     (if py_strip s = [] then Inr (JNull, T_null)
      else if REPORT_MAX_CELL_CHARACTERS < length s then Inl ''cell_text_limit_exceeded''
      else Inr (JStr s, T_string))"

definition normalize_value :: "cell \<Rightarrow> parse_error + json \<times> value_type" where
  "normalize_value c =
     (case c of
        Cell_none \<Rightarrow> Inr (JNull, T_null)
      | Cell_bool b \<Rightarrow> Inr (JBool b, T_boolean)
      | Cell_int n \<Rightarrow> Inr (JInt n, T_integer)
      | Cell_decimal x \<Rightarrow>
          (case x of
             Decimal_not_finite \<Rightarrow> Inl ''non_finite_number''
           | Decimal_integral n \<Rightarrow> Inr (JInt n, T_integer)
           | Decimal_fraction None \<Rightarrow> Inl ''non_finite_number''
           | Decimal_fraction (Some s) \<Rightarrow> Inr (JFloat (Some s), T_number))
      | Cell_float x \<Rightarrow>
          (case x of
             Float_not_finite \<Rightarrow> Inl ''non_finite_number''
           | Float_integral n \<Rightarrow> Inr (JInt n, T_integer)
           | Float_fraction s \<Rightarrow> Inr (JFloat (Some s), T_number))
      | Cell_datetime s \<Rightarrow> Inr (JStr s, T_datetime)
      | Cell_date s \<Rightarrow> Inr (JStr s, T_date)
      | Cell_time s \<Rightarrow> Inr (JStr s, T_time)
      | Cell_bytes None \<Rightarrow> Inl ''cell_text_invalid''
      | Cell_bytes (Some s) \<Rightarrow> normalize_text s
      | Cell_str s \<Rightarrow> normalize_text s
      | Cell_object s \<Rightarrow> normalize_text s)"

section \<open>Columns\<close>

text \<open>The categories Cc, Cf and Cs of Latin-1: the control characters and the soft hyphen.\<close>

definition control_or_format :: "char \<Rightarrow> bool" where
  "control_or_format c = (let n = (of_char c :: nat) in n < 32 \<or> (127 \<le> n \<and> n < 160) \<or> n = 173)"

text \<open>The byte order mark, which \<open>removeprefix\<close> takes off the first column, is no Latin-1 character.\<close>

definition header_text :: "(string \<Rightarrow> string) \<Rightarrow> cell \<Rightarrow> parse_error + string option" where
  "header_text nfc c =
     and_then (normalize_value c) (\<lambda>(value, _).
       if value = JNull then Inr None
       else
         let text = py_strip (nfc (join_with '' '' (py_words (py_str value))))
         in if text = [] then Inr None
            else if REPORT_MAX_HEADER_CHARACTERS < length text then Inl ''header_text_limit_exceeded''
            else if list_ex control_or_format text then Inl ''header_text_invalid''
            else Inr (Some text))"

record column_profile =
  col_index :: nat
  col_name :: string
  col_source_name :: "string option"
  col_generated :: bool
  col_type_counts :: "value_type \<Rightarrow> nat"

definition suffixed :: "string \<Rightarrow> nat \<Rightarrow> string" where
  "suffixed base n = base @ ''__'' @ dec_str n"

lemma casefold_append: "py_casefold (xs @ ys) = py_casefold xs @ py_casefold ys"
  by (simp add: py_casefold_def)

lemma casefold_digits: "list_all digit ds \<Longrightarrow> py_casefold ds = ds"
proof (induction ds)
  case (Cons d ds)
  then have "d \<noteq> CHR 0xDF" "py_lower_char d = d"
    by (auto simp: digit_def py_lower_char_def Let_def less_eq_char_def)
  with Cons show ?case by (simp add: py_casefold_def)
qed (simp add: py_casefold_def)

lemma casefold_suffixed: "py_casefold (suffixed base n) = py_casefold base @ py_casefold ''__'' @ dec_str n"
proof -
  have "py_casefold (dec_str n) = dec_str n" by (rule casefold_digits [OF digits_dec_str(1)])
  then show ?thesis unfolding suffixed_def casefold_append by (rule arg_cong)
qed

lemma suffixed_inj: "py_casefold (suffixed base m) = py_casefold (suffixed base n) \<Longrightarrow> m = n"
  unfolding casefold_suffixed same_append_eq by (rule dec_str_inj)

lemma finite_taken: "finite {n. py_casefold (suffixed base n) \<in> set used}"
proof (rule inj_on_finite [where f = "\<lambda>n. py_casefold (suffixed base n)" and B = "set used"])
  show "inj_on (\<lambda>n. py_casefold (suffixed base n)) {n. py_casefold (suffixed base n) \<in> set used}"
    by (intro inj_onI suffixed_inj)
qed auto

text \<open>The suffixes from \<open>k\<close> on that are taken.\<close>

definition taken :: "string \<Rightarrow> string list \<Rightarrow> nat \<Rightarrow> nat set" where
  "taken base used k = {n. k \<le> n \<and> py_casefold (suffixed base n) \<in> set used}"

lemma finite_taken_from: "finite (taken base used k)"
  unfolding taken_def by (rule finite_subset [OF _ finite_taken]) auto

lemma card_taken:
  "card (taken base used k)
     = card (taken base used (Suc k)) + (if py_casefold (suffixed base k) \<in> set used then 1 else 0)"
proof (cases "py_casefold (suffixed base k) \<in> set used")
  case True
  then have "taken base used k = insert k (taken base used (Suc k))"
    by (auto simp: taken_def Suc_le_eq order_le_less)
  moreover have "k \<notin> taken base used (Suc k)" by (simp add: taken_def)
  ultimately show ?thesis using True finite_taken_from by simp
next
  case False
  then have "taken base used k = taken base used (Suc k)"
    by (auto simp: taken_def Suc_le_eq order_le_less)
  with False show ?thesis by simp
qed

text \<open>The loop \<open>while candidate.casefold() in used_names\<close>: the suffixes are tried in turn.\<close>

function free_name :: "string \<Rightarrow> string list \<Rightarrow> string \<Rightarrow> nat \<Rightarrow> string" where
  "free_name base used candidate suffix =
     (if py_casefold candidate \<in> set used
      then free_name base used (suffixed base suffix) (Suc suffix) else candidate)"
  by pat_completeness auto
termination
proof (relation "measure (\<lambda>(base, used, candidate, k).
    2 * card (taken base used k) + (if py_casefold candidate \<in> set used then 1 else 0))")
  fix base used candidate k
  assume "py_casefold candidate \<in> set used"
  with card_taken [of base used k]
  show "((base, used, suffixed base k, Suc k), (base, used, candidate, k)) \<in> measure (\<lambda>(base, used, candidate, k).
    2 * card (taken base used k) + (if py_casefold candidate \<in> set used then 1 else 0))"
    by simp
qed simp

declare free_name.simps [simp del]

lemma free_name_fresh: "py_casefold (free_name base used candidate k) \<notin> set used"
  by (induction base used candidate k rule: free_name.induct) (subst free_name.simps, simp)

definition new_column :: "nat \<Rightarrow> string option \<Rightarrow> string list \<Rightarrow> column_profile" where
  "new_column i source_name used =
     \<lparr> col_index = i,
       col_name = (let base = (case source_name of None \<Rightarrow> ''column_'' @ dec_str (i + 1) | Some s \<Rightarrow> s)
         in free_name base used base 2),
       col_source_name = source_name, col_generated = is_null source_name,
       col_type_counts = (\<lambda>_. 0) \<rparr>"

fun build_columns_from ::
  "(string \<Rightarrow> string) \<Rightarrow> nat \<Rightarrow> string list \<Rightarrow> cell list \<Rightarrow> parse_error + column_profile list" where
  "build_columns_from nfc i used [] = Inr []"
| "build_columns_from nfc i used (value # rest) =
     and_then (header_text nfc value) (\<lambda>source_name.
       let column = new_column i source_name used
       in and_then (build_columns_from nfc (Suc i) (py_casefold (col_name column) # used) rest)
            (\<lambda>columns. Inr (column # columns)))"

definition build_columns :: "(string \<Rightarrow> string) \<Rightarrow> cell list \<Rightarrow> parse_error + column_profile list" where
  "build_columns nfc header_values = build_columns_from nfc 0 [] header_values"

definition observe_type :: "value_type \<Rightarrow> column_profile \<Rightarrow> column_profile" where
  "observe_type t c = c\<lparr> col_type_counts := (col_type_counts c)(t := col_type_counts c t + 1) \<rparr>"

definition json_nat :: "nat \<Rightarrow> json" where
  "json_nat n = JInt (int n)"

definition json_option :: "string option \<Rightarrow> json" where
  "json_option s = (case s of None \<Rightarrow> JNull | Some t \<Rightarrow> JStr t)"

definition render_column :: "column_profile \<Rightarrow> json" where
  "render_column c =
     (let null_count = col_type_counts c T_null;
          total_count = sum_list (map (col_type_counts c) VALUE_TYPE_ORDER)
      in JDict [(''index'', json_nat (col_index c)), (''name'', JStr (col_name c)),
           (''source_name'', json_option (col_source_name c)),
           (''generated'', JBool (col_generated c)),
           (''null_count'', json_nat null_count),
           (''non_null_count'', json_nat (total_count - null_count)),
           (''type_counts'', JDict (map (\<lambda>t. (value_type_text t, json_nat (col_type_counts c t)))
              (filter (\<lambda>t. col_type_counts c t \<noteq> 0) VALUE_TYPE_ORDER)))])"

section \<open>JSON lines\<close>

text \<open>\<open>json.dumps(payload, ensure_ascii=False, allow_nan=False, separators=(",", ":"))\<close>: the keys keep their order.\<close>

fun json_compact :: "json \<Rightarrow> string option" where
  "json_compact JNull = Some ''null''"
| "json_compact (JBool b) = Some (if b then ''true'' else ''false'')"
| "json_compact (JInt n) = Some (int_str n)"
| "json_compact (JFloat s) = s"
| "json_compact (JStr s) = Some (json_text_string s)"
| "json_compact (JList xs) =
     map_option (\<lambda>rs. ''['' @ join_with '','' rs @ '']'') (all_some (map json_compact xs))"
| "json_compact (JDict kvs) =
     map_option (\<lambda>rs. ''{'' @ join_with '','' (map (\<lambda>(k, r). json_text_string k @ '':'' @ r) rs) @ ''}'')
       (all_some (map (\<lambda>(k, v). map_option (\<lambda>r. (k, r)) (json_compact v)) kvs))"

text \<open>
  \<open>gzip_content ls\<close> is what a gzip stream holds after the lines \<open>ls\<close> and its close, \<open>gzip_written ls\<close> the number of
  bytes in its buffer before the close.
\<close>

record gzip =
  gzip_content :: "string list \<Rightarrow> string"
  gzip_written :: "string list \<Rightarrow> nat"

record normalizer =
  nz_lines :: "string list"
  nz_uncompressed :: nat
  nz_sheets :: "json list"
  nz_record_count :: nat
  nz_total_cells :: nat

definition empty_normalizer :: normalizer where
  "empty_normalizer = \<lparr> nz_lines = [], nz_uncompressed = 0, nz_sheets = [], nz_record_count = 0, nz_total_cells = 0 \<rparr>"

definition encode_line :: "string \<Rightarrow> string" where
  "encode_line text = utf8_encode text @ [CHR 0x0A]"

definition write_line :: "gzip \<Rightarrow> json \<Rightarrow> normalizer \<Rightarrow> parse_error + normalizer" where
  "write_line gz payload nz =
     (case json_compact payload of
        None \<Rightarrow> Inl ''cell_value_invalid''
      | Some text \<Rightarrow>
          let encoded = encode_line text; next_size = nz_uncompressed nz + length encoded
          in if REPORT_MAX_NORMALIZED_UNCOMPRESSED_BYTES < next_size
             then Inl ''normalized_output_limit_exceeded''
             else if REPORT_MAX_NORMALIZED_COMPRESSED_BYTES < gzip_written gz (nz_lines nz @ [encoded])
             then Inl ''normalized_output_limit_exceeded''
             else Inr (nz\<lparr> nz_lines := nz_lines nz @ [encoded], nz_uncompressed := next_size \<rparr>))"

section \<open>Sheets\<close>

fun row_is_empty :: "cell list \<Rightarrow> parse_error + bool" where
  "row_is_empty [] = Inr True"
| "row_is_empty (c # cs) =
     and_then (normalize_value c) (\<lambda>(value, _). if value = JNull then row_is_empty cs else Inr False)"

fun drop_null :: "cell list \<Rightarrow> parse_error + cell list" where
  "drop_null [] = Inr []"
| "drop_null (c # cs) =
     and_then (normalize_value c) (\<lambda>(value, _). if value = JNull then drop_null cs else Inr (c # cs))"

definition trim_header :: "cell list \<Rightarrow> parse_error + cell list" where
  "trim_header values = and_then (drop_null (rev values)) (\<lambda>kept. Inr (rev kept))"

text \<open>A row as the reader yields it: its number, and its cells or the error that producing it raises.\<close>

type_synonym sheet_row = "nat \<times> (parse_error + cell list)"

record sheet_state =
  sh_scanned :: nat
  sh_header :: "(nat \<times> column_profile list) option"
  sh_records :: nat

definition start_sheet :: sheet_state where
  "start_sheet = \<lparr> sh_scanned = 0, sh_header = None, sh_records = 0 \<rparr>"

definition header_row ::
  "(string \<Rightarrow> string) \<Rightarrow> nat \<Rightarrow> cell list \<Rightarrow> sheet_state \<Rightarrow> parse_error + sheet_state" where
  "header_row nfc row_number raw sh =
     and_then (row_is_empty raw) (\<lambda>empty.
       if empty
       then (if REPORT_MAX_LEADING_EMPTY_ROWS < sh_scanned sh then Inl ''header_not_found'' else Inr sh)
       else and_then (trim_header raw) (\<lambda>trimmed.
         if trimmed = [] then Inr sh
         else and_then (build_columns nfc trimmed) (\<lambda>columns.
           Inr (sh\<lparr> sh_header := Some (row_number, columns) \<rparr>))))"

definition row_payload :: "nat \<Rightarrow> string \<Rightarrow> nat \<Rightarrow> (string \<times> json) list \<Rightarrow> json" where
  "row_payload sheet_index sheet_name row_number values = JDict
     [(''sheet_index'', json_nat sheet_index), (''sheet_name'', JStr sheet_name),
      (''row_number'', json_nat row_number), (''values'', JDict values)]"

text \<open>The cells of a row, cut or filled to the width of the header.\<close>

definition fit_row ::
  "nat \<Rightarrow> (json \<times> value_type) list \<Rightarrow> parse_error + (json \<times> value_type) list" where
  "fit_row width normalized =
     (if list_ex (\<lambda>(value, _). value \<noteq> JNull) (drop width normalized) then Inl ''row_width_exceeded''
      else Inr (take width normalized @ replicate (width - length normalized) (JNull, T_null)))"

definition data_row ::
  "gzip \<Rightarrow> nat \<Rightarrow> string \<Rightarrow> nat \<Rightarrow> column_profile list \<Rightarrow> nat \<Rightarrow> cell list \<Rightarrow> sheet_state \<Rightarrow> normalizer
   \<Rightarrow> parse_error + sheet_state \<times> normalizer" where
  "data_row gz sheet_index sheet_name header_number columns row_number raw sh nz =
     and_then (map_result normalize_value raw) (\<lambda>normalized.
     and_then (fit_row (length columns) normalized) (\<lambda>fitted.
       if list_all (\<lambda>(value, _). value = JNull) fitted then Inr (sh, nz)
       else if REPORT_MAX_ROWS_PER_SHEET \<le> sh_records sh then Inl ''row_limit_exceeded''
       else
         let next_total_cells = nz_total_cells nz + length columns
         in if REPORT_MAX_TOTAL_CELLS < next_total_cells then Inl ''cell_limit_exceeded''
            else
              let observed = map2 (\<lambda>c (_, t). observe_type t c) columns fitted;
                  values = map2 (\<lambda>c (value, _). (col_name c, value)) columns fitted
              in and_then (write_line gz (row_payload sheet_index sheet_name row_number values) nz)
                   (\<lambda>nz'. Inr
                     (sh\<lparr> sh_header := Some (header_number, observed), sh_records := sh_records sh + 1 \<rparr>,
                      nz'\<lparr> nz_record_count := nz_record_count nz + 1,
                           nz_total_cells := next_total_cells \<rparr>))))"

fun add_rows ::
  "(string \<Rightarrow> string) \<Rightarrow> gzip \<Rightarrow> nat \<Rightarrow> string \<Rightarrow> sheet_row list \<Rightarrow> sheet_state \<Rightarrow> normalizer
   \<Rightarrow> parse_error + sheet_state \<times> normalizer" where
  "add_rows nfc gz sheet_index sheet_name [] sh nz = Inr (sh, nz)"
| "add_rows nfc gz sheet_index sheet_name ((row_number, row) # rows) sh nz =
     and_then row (\<lambda>raw.
       let sh1 = sh\<lparr> sh_scanned := sh_scanned sh + 1 \<rparr>
       in if REPORT_MAX_SCANNED_ROWS_PER_SHEET < sh_scanned sh1 then Inl ''row_limit_exceeded''
          else if REPORT_MAX_COLUMNS_PER_SHEET < length raw then Inl ''column_limit_exceeded''
          else case sh_header sh1 of
            None \<Rightarrow> and_then (header_row nfc row_number raw sh1) (\<lambda>sh2.
                add_rows nfc gz sheet_index sheet_name rows sh2 nz)
          | Some (header_number, columns) \<Rightarrow>
              and_then (data_row gz sheet_index sheet_name header_number columns row_number raw sh1 nz)
                (\<lambda>(sh2, nz2). add_rows nfc gz sheet_index sheet_name rows sh2 nz2))"

definition render_sheet :: "nat \<Rightarrow> string \<Rightarrow> nat \<Rightarrow> nat \<Rightarrow> column_profile list \<Rightarrow> json" where
  "render_sheet sheet_index sheet_name header_number records columns = JDict
     [(''index'', json_nat sheet_index), (''name'', JStr sheet_name),
      (''header_row_number'', json_nat header_number), (''record_count'', json_nat records),
      (''columns'', JList (map render_column columns))]"

definition add_sheet ::
  "(string \<Rightarrow> string) \<Rightarrow> gzip \<Rightarrow> nat \<Rightarrow> string \<Rightarrow> sheet_row list \<Rightarrow> normalizer \<Rightarrow> parse_error + normalizer" where
  "add_sheet nfc gz sheet_index sheet_name rows nz =
     (if REPORT_MAX_SHEETS \<le> length (nz_sheets nz) then Inl ''sheet_limit_exceeded''
      else and_then (add_rows nfc gz sheet_index sheet_name rows start_sheet nz) (\<lambda>(sh, nz').
        case sh_header sh of
          None \<Rightarrow> Inr nz'
        | Some (header_number, columns) \<Rightarrow> Inr (nz'\<lparr> nz_sheets := nz_sheets nz' @
            [render_sheet sheet_index sheet_name header_number (sh_records sh) columns] \<rparr>)))"

definition finish_report :: "gzip \<Rightarrow> normalizer \<Rightarrow> parse_error + string" where
  "finish_report gz nz =
     (if nz_sheets nz = [] then Inl ''workbook_has_no_data_sheets''
      else if REPORT_MAX_NORMALIZED_COMPRESSED_BYTES < length (gzip_content gz (nz_lines nz))
      then Inl ''normalized_output_limit_exceeded''
      else Inr (gzip_content gz (nz_lines nz)))"

section \<open>The three formats\<close>

text \<open>
  \<open>csv.reader(..., strict=True)\<close>: fields separated by commas, quoted with a doubled quote inside; a record
  ends with a line feed, a carriage return or both; \<open>None\<close> after the rows is the \<open>csv.Error\<close> of a quoted
  field that goes on after its quote, that never ends, or of a field that is too long.
\<close>

datatype csv_state = Start_record | Start_field | In_field | In_quoted | Quote_in_quoted

definition CSV_FIELD_LIMIT :: nat where "CSV_FIELD_LIMIT = 131072"

definition after_newline :: "char \<Rightarrow> string \<Rightarrow> string" where
  "after_newline c cs = (case cs of [] \<Rightarrow> [] | x # xs \<Rightarrow> if c = CHR 0x0D \<and> x = CHR 0x0A then xs else cs)"

lemma length_after_newline: "length (after_newline c cs) \<le> length cs"
  by (simp add: after_newline_def split: list.splits)

function csv_rows :: "csv_state \<Rightarrow> string \<Rightarrow> string list \<Rightarrow> string \<Rightarrow> string list option list" where
  "csv_rows state field row [] =
     (case state of
        Start_record \<Rightarrow> []
      | In_quoted \<Rightarrow> [None]
      | _ \<Rightarrow> [Some (rev (rev field # row))])"
| "csv_rows state field row (c # cs) =
     (if state = In_quoted then
        (if c = CHR 0x22 then csv_rows Quote_in_quoted field row cs
         else if CSV_FIELD_LIMIT \<le> length field then [None]
         else csv_rows In_quoted (c # field) row cs)
      else if state = Quote_in_quoted \<and> c = CHR 0x22 then
        (if CSV_FIELD_LIMIT \<le> length field then [None] else csv_rows In_quoted (c # field) row cs)
      else if c = CHR 0x0A \<or> c = CHR 0x0D then
        Some (if state = Start_record then [] else rev (rev field # row))
          # csv_rows Start_record [] [] (after_newline c cs)
      else if c = CHR '','' then csv_rows Start_field [] (rev field # row) cs
      else if state = Quote_in_quoted then [None]
      else if state \<noteq> In_field \<and> c = CHR 0x22 then csv_rows In_quoted [] row cs
      else if CSV_FIELD_LIMIT \<le> length field then [None]
      else csv_rows In_field (c # field) row cs)"
  by pat_completeness auto
termination
  by (relation "measure (\<lambda>(_, _, _, cs). length cs)") (auto simp: less_Suc_eq_le length_after_newline)

declare csv_rows.simps [simp del]

definition csv_sheet :: "string list option list \<Rightarrow> sheet_row list" where
  "csv_sheet rows = map (\<lambda>(i, r). (i, case r of None \<Rightarrow> Inl ''csv_malformed'' | Some texts \<Rightarrow>
     Inr (map Cell_str texts))) (enumerate 1 rows)"

text \<open>
  What \<open>openpyxl\<close> and \<open>xlrd\<close> make of a workbook: the sheets in their order, with the dimensions that they
  announce.  A sheet that \<open>xlrd\<close> cannot open is \<open>None\<close>.
\<close>

record worksheet =
  ws_title :: string
  ws_max_column :: nat
  ws_max_row :: nat
  ws_rows :: "sheet_row list"

datatype xls_cell = Xls_empty | Xls_blank | Xls_boolean int | Xls_date "string option" | Xls_error "string option"
  | Xls_number float_cell | Xls_text string

record xls_sheet =
  xs_name :: string
  xs_ncols :: nat
  xs_nrows :: nat
  xs_rows :: "xls_cell list option list"

text \<open>A date is the ISO text of what \<open>xldate_as_datetime\<close> returns, an error the text of its code.\<close>

definition xls_cell_value :: "xls_cell \<Rightarrow> parse_error + cell" where
  "xls_cell_value c =
     (case c of
        Xls_empty \<Rightarrow> Inr Cell_none
      | Xls_blank \<Rightarrow> Inr Cell_none
      | Xls_boolean n \<Rightarrow> Inr (Cell_bool (n \<noteq> 0))
      | Xls_date None \<Rightarrow> Inl ''cell_value_invalid''
      | Xls_date (Some s) \<Rightarrow> Inr (Cell_datetime s)
      | Xls_error None \<Rightarrow> Inr (Cell_str ''#ERROR'')
      | Xls_error (Some s) \<Rightarrow> Inr (Cell_str s)
      | Xls_number x \<Rightarrow> Inr (Cell_float x)
      | Xls_text s \<Rightarrow> Inr (Cell_str s))"

definition xls_sheet_rows :: "xls_sheet \<Rightarrow> sheet_row list" where
  "xls_sheet_rows sheet = map (\<lambda>(i, r). (i, case r of
     None \<Rightarrow> Inl ''xls_malformed'' | Some cells \<Rightarrow> map_result xls_cell_value cells))
     (enumerate 1 (xs_rows sheet))"

record report_packages =
  rp_nfc :: "string \<Rightarrow> string"
  rp_gzip :: gzip
  rp_sha256 :: "string \<Rightarrow> string"
  rp_decode :: "string \<Rightarrow> string option"
  rp_casefold :: "string \<Rightarrow> string"
  rp_zip_entries :: "string \<Rightarrow> zip_entry list option"
  rp_open_xlsx :: "string \<Rightarrow> worksheet list option"
  rp_open_xls :: "string \<Rightarrow> xls_sheet option list option"

definition parse_csv :: "report_packages \<Rightarrow> string \<Rightarrow> normalizer \<Rightarrow> parse_error + normalizer" where
  "parse_csv pk content nz =
     (case rp_decode pk content of
        None \<Rightarrow> Inl ''csv_malformed''
      | Some decoded \<Rightarrow>
          add_sheet (rp_nfc pk) (rp_gzip pk) 0 ''data'' (csv_sheet (csv_rows Start_record [] [] decoded)) nz)"

text \<open>\<open>entry_sizes.get(name, 0)\<close>: a later entry of the same folded name replaces an earlier one.\<close>

definition entry_size :: "(string \<Rightarrow> string) \<Rightarrow> zip_entry list \<Rightarrow> string \<Rightarrow> int" where
  "entry_size casefold entries name =
     (case find (\<lambda>e. casefold (ze_filename e) = name) (rev entries) of None \<Rightarrow> 0 | Some e \<Rightarrow> ze_file_size e)"

definition xlsx_preflight :: "report_packages \<Rightarrow> string \<Rightarrow> parse_error option" where
  "xlsx_preflight pk content =
     (case rp_zip_entries pk content of
        None \<Rightarrow> Some ''xlsx_malformed''
      | Some entries \<Rightarrow>
          if int REPORT_MAX_XLSX_UNCOMPRESSED_BYTES < sum_list (map ze_file_size entries)
          then Some ''workbook_expansion_limit_exceeded''
          else if int REPORT_MAX_XLSX_SHARED_STRINGS_BYTES
              < entry_size (rp_casefold pk) entries ''xl/sharedstrings.xml''
          then Some ''workbook_metadata_limit_exceeded''
          else if int REPORT_MAX_XLSX_STYLES_BYTES < entry_size (rp_casefold pk) entries ''xl/styles.xml''
          then Some ''workbook_metadata_limit_exceeded''
          else None)"

fun add_worksheets ::
  "report_packages \<Rightarrow> nat \<Rightarrow> worksheet list \<Rightarrow> normalizer \<Rightarrow> parse_error + normalizer" where
  "add_worksheets pk i [] nz = Inr nz"
| "add_worksheets pk i (w # ws) nz =
     (if REPORT_MAX_COLUMNS_PER_SHEET < ws_max_column w then Inl ''column_limit_exceeded''
      else if REPORT_MAX_SCANNED_ROWS_PER_SHEET < ws_max_row w then Inl ''row_limit_exceeded''
      else and_then (add_sheet (rp_nfc pk) (rp_gzip pk) i (ws_title w) (ws_rows w) nz)
        (add_worksheets pk (Suc i) ws))"

definition parse_xlsx :: "report_packages \<Rightarrow> string \<Rightarrow> normalizer \<Rightarrow> parse_error + normalizer" where
  "parse_xlsx pk content nz =
     (case xlsx_preflight pk content of
        Some e \<Rightarrow> Inl e
      | None \<Rightarrow>
        (case rp_open_xlsx pk content of
           None \<Rightarrow> Inl ''xlsx_malformed''
         | Some worksheets \<Rightarrow>
             if REPORT_MAX_SHEETS < length worksheets then Inl ''sheet_limit_exceeded''
             else add_worksheets pk 0 worksheets nz))"

fun add_xls_sheets ::
  "report_packages \<Rightarrow> nat \<Rightarrow> xls_sheet option list \<Rightarrow> normalizer \<Rightarrow> parse_error + normalizer" where
  "add_xls_sheets pk i [] nz = Inr nz"
| "add_xls_sheets pk i (None # ws) nz = Inl ''xls_malformed''"
| "add_xls_sheets pk i (Some w # ws) nz =
     (if REPORT_MAX_COLUMNS_PER_SHEET < xs_ncols w then Inl ''column_limit_exceeded''
      else if REPORT_MAX_SCANNED_ROWS_PER_SHEET < xs_nrows w then Inl ''row_limit_exceeded''
      else and_then (add_sheet (rp_nfc pk) (rp_gzip pk) i (xs_name w) (xls_sheet_rows w) nz)
        (add_xls_sheets pk (Suc i) ws))"

definition parse_xls :: "report_packages \<Rightarrow> string \<Rightarrow> normalizer \<Rightarrow> parse_error + normalizer" where
  "parse_xls pk content nz =
     (case rp_open_xls pk content of
        None \<Rightarrow> Inl ''xls_malformed''
      | Some sheets \<Rightarrow>
          if REPORT_MAX_SHEETS < length sheets then Inl ''sheet_limit_exceeded''
          else add_xls_sheets pk 0 sheets nz)"

section \<open>The artifacts\<close>

record parsing_context =
  pc_job_id :: uuid
  pc_business_id :: uuid
  pc_report_upload_id :: uuid
  pc_original_filename :: string
  pc_file_extension :: string
  pc_content_type :: string

record report_artifacts =
  art_normalized_content :: string
  art_normalized_sha256 :: string
  art_profile_content :: string
  art_profile_sha256 :: string
  art_record_count :: nat
  art_sheet_count :: nat

definition report_profile :: "parsing_context \<Rightarrow> string \<Rightarrow> normalizer \<Rightarrow> json" where
  "report_profile ctx digest nz = JDict
     [(''format'', JStr ''spike.report-profile''), (''version'', JInt REPORT_ARTIFACT_FORMAT_VERSION),
      (''job_id'', JStr (uuid_str (pc_job_id ctx))), (''business_id'', JStr (uuid_str (pc_business_id ctx))),
      (''source'', JDict
         [(''report_upload_id'', JStr (uuid_str (pc_report_upload_id ctx))),
          (''filename'', JStr (pc_original_filename ctx)), (''extension'', JStr (pc_file_extension ctx)),
          (''content_type'', JStr (pc_content_type ctx))]),
      (''normalized'', JDict
         [(''format'', JStr ''jsonl''), (''compression'', JStr ''gzip''), (''sha256'', JStr digest)]),
      (''record_count'', json_nat (nz_record_count nz)),
      (''sheet_count'', json_nat (length (nz_sheets nz))),
      (''sheets'', JList (nz_sheets nz))]"

definition normalize_report ::
  "report_packages \<Rightarrow> parsing_context \<Rightarrow> string \<Rightarrow> parse_error + normalizer" where
  "normalize_report pk ctx content =
     (if pc_file_extension ctx = ''csv'' then parse_csv pk content empty_normalizer
      else if pc_file_extension ctx = ''xlsx'' then parse_xlsx pk content empty_normalizer
      else if pc_file_extension ctx = ''xls'' then parse_xls pk content empty_normalizer
      else Inl ''unsupported_report_format'')"

definition parse_report_content ::
  "report_packages \<Rightarrow> parsing_context \<Rightarrow> string \<Rightarrow> parse_error + report_artifacts" where
  "parse_report_content pk ctx content =
     and_then (normalize_report pk ctx content) (\<lambda>nz.
     and_then (finish_report (rp_gzip pk) nz) (\<lambda>normalized.
       let digest = rp_sha256 pk normalized
       in case json_render (report_profile ctx digest nz) of
            None \<Rightarrow> Inl ''profile_output_invalid''
          | Some text \<Rightarrow>
              let profile = encode_line text
              in if REPORT_MAX_PROFILE_BYTES < length profile then Inl ''profile_output_limit_exceeded''
                 else Inr \<lparr> art_normalized_content = normalized, art_normalized_sha256 = digest,
                        art_profile_content = profile, art_profile_sha256 = rp_sha256 pk profile,
                        art_record_count = nz_record_count nz, art_sheet_count = length (nz_sheets nz) \<rparr>))"

end
