(* ===== verification/Json_Loads.thy ===== *)
theory Json_Loads
  imports Report_Parser
begin

text \<open>
  \<open>json.loads\<close> of the standard library, on UTF-8 bytes: the reader of the artifacts that the report parser wrote.
  \<open>float_repr\<close> is \<open>repr(float(text))\<close>, \<open>None\<close> for an infinity.  A character beyond Latin-1 is none of the
  model, and a text that has one is not read (\<open>None\<close>, as for a text that is no JSON).  \<open>fuel\<close> bounds the nesting
  of calls; one more than the length of the text is enough for every text that the renderers write.
\<close>

section \<open>UTF-8\<close>

fun utf8_text :: "string \<Rightarrow> string option" where
  "utf8_text [] = Some []"
| "utf8_text (c # cs) =
     (let n = (of_char c :: nat)
      in if n < 128 then map_option (\<lambda>s. c # s) (utf8_text cs)
         else if n \<noteq> 194 \<and> n \<noteq> 195 then None
         else case cs of
           [] \<Rightarrow> None
         | x # xs \<Rightarrow>
             let m = (of_char x :: nat)
             in if 128 \<le> m \<and> m < 192
                then map_option (\<lambda>s. char_of ((n - 192) * 64 + (m - 128)) # s) (utf8_text xs) else None)"

lemma utf8_decode_encode_char:
  "utf8_text ((let n = (of_char c :: nat) in
     if n < 128 then [c] else [char_of (192 + n div 64), char_of (128 + n mod 64)]) @ s)
   = map_option (\<lambda>t. c # t) (utf8_text s)"
proof (cases "(of_char c :: nat) < 128")
  case False
  define n where "n = (of_char c :: nat)"
  have n: "128 \<le> n" "n < 256" using False by (simp_all add: n_def)
  then have d: "n div 64 = 2 \<or> n div 64 = 3" by auto
  have m: "n mod 64 < 64" by simp
  have "(of_char (char_of (192 + n div 64) :: char) :: nat) = 192 + n div 64"
    "(of_char (char_of (128 + n mod 64) :: char) :: nat) = 128 + n mod 64"
    using d m by (auto simp: of_char_of)
  moreover have "char_of (n div 64 * 64 + n mod 64) = c" by (simp add: n_def)
  ultimately show ?thesis using False d by (auto simp: Let_def n_def [symmetric])
qed simp

lemma utf8_decode_encode [simp]: "utf8_text (utf8_encode s) = Some s"
proof (induction s)
  case (Cons c s)
  have "utf8_encode (c # s) = (let n = (of_char c :: nat) in
     if n < 128 then [c] else [char_of (192 + n div 64), char_of (128 + n mod 64)]) @ utf8_encode s"
    by (simp add: utf8_encode_def Let_def)
  with Cons show ?case by (simp add: utf8_decode_encode_char)
qed (simp add: utf8_encode_def)

lemma utf8_decode_newline: "utf8_text (utf8_encode s @ [CHR 0x0A]) = Some (s @ [CHR 0x0A])"
proof -
  have "utf8_encode s @ [CHR 0x0A] = utf8_encode (s @ [CHR 0x0A])" by (simp add: utf8_encode_def)
  then show ?thesis by (simp only: utf8_decode_encode)
qed

section \<open>Tokens\<close>

definition json_space :: "char \<Rightarrow> bool" where
  "json_space c \<longleftrightarrow> c = CHR 0x20 \<or> c = CHR 0x09 \<or> c = CHR 0x0A \<or> c = CHR 0x0D"

definition skip_space :: "string \<Rightarrow> string" where
  "skip_space s = dropWhile json_space s"

definition json_hex_value :: "char \<Rightarrow> nat option" where
  "json_hex_value c = (let n = (of_char c :: nat)
     in if 48 \<le> n \<and> n \<le> 57 then Some (n - 48) else if 97 \<le> n \<and> n \<le> 102 then Some (n - 87)
        else if 65 \<le> n \<and> n \<le> 70 then Some (n - 55) else None)"

fun json_hex_number :: "string \<Rightarrow> nat option" where
  "json_hex_number [] = Some 0"
| "json_hex_number (c # cs) = (case (json_hex_value c, json_hex_number cs) of
     (Some v, Some w) \<Rightarrow> Some (v * 16 ^ length cs + w) | _ \<Rightarrow> None)"

definition unescape :: "char \<Rightarrow> char option" where
  "unescape c =
     (if c = CHR 0x22 \<or> c = CHR 0x5C \<or> c = CHR ''/'' then Some c
      else if c = CHR ''n'' then Some (CHR 0x0A) else if c = CHR ''r'' then Some (CHR 0x0D)
      else if c = CHR ''t'' then Some (CHR 0x09) else if c = CHR ''f'' then Some (CHR 0x0C)
      else if c = CHR ''b'' then Some (CHR 0x08) else None)"

text \<open>The rest of a string after its opening quote, and what follows its closing one.\<close>

definition push_char :: "char \<Rightarrow> (string \<times> string) option \<Rightarrow> (string \<times> string) option" where
  "push_char c r = map_option (\<lambda>(s, rest). (c # s, rest)) r"

function scan_string :: "string \<Rightarrow> (string \<times> string) option" where
  "scan_string [] = None"
| "scan_string (c # cs) =
     (if c = CHR 0x22 then Some ([], cs)
      else if c = CHR 0x5C then
        (case cs of
           [] \<Rightarrow> None
         | e # rest \<Rightarrow>
             if e = CHR ''u'' then
               (case json_hex_number (take 4 rest) of
                  Some n \<Rightarrow> if length rest < 4 \<or> 256 \<le> n then None
                    else push_char (char_of n) (scan_string (drop 4 rest))
                | None \<Rightarrow> None)
             else (case unescape e of None \<Rightarrow> None | Some x \<Rightarrow> push_char x (scan_string rest)))
      else if (of_char c :: nat) < 32 then None
      else push_char c (scan_string cs))"
  by pat_completeness auto
termination by (relation "measure length") auto

declare scan_string.simps [simp del]

definition number_char :: "char \<Rightarrow> bool" where
  "number_char c \<longleftrightarrow> digit c \<or> c \<in> {CHR ''-'', CHR ''+'', CHR ''.'', CHR ''e'', CHR ''E''}"

definition unsigned_part :: "string \<Rightarrow> string" where
  "unsigned_part s = (case s of [] \<Rightarrow> [] | c # cs \<Rightarrow> if c = CHR ''-'' then cs else s)"

definition whole_number :: "string \<Rightarrow> bool" where
  "whole_number s \<longleftrightarrow> s \<noteq> [] \<and> list_all digit s \<and> (s = ''0'' \<or> hd s \<noteq> CHR ''0'')"

definition int_token :: "string \<Rightarrow> bool" where
  "int_token s \<longleftrightarrow> whole_number (unsigned_part s)"

definition int_of_token :: "string \<Rightarrow> int" where
  "int_of_token s = (let n = int (digits_value (unsigned_part s)) in if has_prefix ''-'' s then - n else n)"

text \<open>The pattern \<open>-?(0|[1-9]\d*)(\.\d+)?([eE][-+]?\d+)?\<close> with a fraction or an exponent.\<close>

definition exponent_part :: "string \<Rightarrow> bool" where
  "exponent_part s =
     (case s of [] \<Rightarrow> True
      | _ # cs \<Rightarrow>
          let ds = (case cs of c # xs \<Rightarrow> if c = CHR ''-'' \<or> c = CHR ''+'' then xs else cs | [] \<Rightarrow> [])
          in ds \<noteq> [] \<and> list_all digit ds)"

definition float_token :: "string \<Rightarrow> bool" where
  "float_token s =
     (let unsigned = unsigned_part s;
          mantissa = takeWhile (\<lambda>c. c \<noteq> CHR ''e'' \<and> c \<noteq> CHR ''E'') unsigned;
          exponent = drop (length mantissa) unsigned;
          whole = takeWhile (\<lambda>c. c \<noteq> CHR ''.'') mantissa;
          places = drop (length whole) mantissa
      in list_all number_char s \<and> whole_number whole \<and> exponent_part exponent
       \<and> (case places of [] \<Rightarrow> exponent \<noteq> [] | _ # ds \<Rightarrow> ds \<noteq> [] \<and> list_all digit ds))"

definition number_of_token :: "(string \<Rightarrow> string option) \<Rightarrow> string \<Rightarrow> json option" where
  "number_of_token float_repr s =
     (if int_token s then Some (JInt (int_of_token s))
      else if float_token s then Some (JFloat (float_repr s)) else None)"

section \<open>Values\<close>

definition strip_prefix :: "string \<Rightarrow> string \<Rightarrow> string option" where
  "strip_prefix p s = (if has_prefix p s then Some (drop (length p) s) else None)"

definition LITERALS :: "(string \<times> json) list" where
  "LITERALS = [(''null'', JNull), (''true'', JBool True), (''false'', JBool False), (''NaN'', JFloat None),
     (''Infinity'', JFloat None), (''-Infinity'', JFloat None)]"

definition scan_literal :: "string \<Rightarrow> (json \<times> string) option" where
  "scan_literal s = (case find (\<lambda>(p, _). has_prefix p s) LITERALS of
     None \<Rightarrow> None | Some (p, j) \<Rightarrow> Some (j, drop (length p) s))"

fun scan_value :: "(string \<Rightarrow> string option) \<Rightarrow> nat \<Rightarrow> string \<Rightarrow> (json \<times> string) option"
and scan_elements :: "(string \<Rightarrow> string option) \<Rightarrow> nat \<Rightarrow> string \<Rightarrow> (json list \<times> string) option"
and scan_members :: "(string \<Rightarrow> string option) \<Rightarrow> nat \<Rightarrow> string \<Rightarrow> ((string \<times> json) list \<times> string) option" where
  "scan_value fr 0 s = None"
| "scan_value fr (Suc k) s =
     (case s of
        [] \<Rightarrow> None
      | c # cs \<Rightarrow>
          if c = CHR 0x22 then map_option (\<lambda>(t, rest). (JStr t, rest)) (scan_string cs)
          else if c = CHR ''['' then
            (case skip_space cs of
               [] \<Rightarrow> None
             | x # xs \<Rightarrow> if x = CHR '']'' then Some (JList [], xs)
                 else map_option (\<lambda>(vs, rest). (JList vs, rest)) (scan_elements fr k (x # xs)))
          else if c = CHR ''{'' then
            (case skip_space cs of
               [] \<Rightarrow> None
             | x # xs \<Rightarrow> if x = CHR ''}'' then Some (JDict [], xs)
                 else map_option (\<lambda>(kvs, rest). (JDict (fold (\<lambda>(i, v). json_put i v) kvs []), rest))
                        (scan_members fr k (x # xs)))
          else case scan_literal s of
            Some r \<Rightarrow> Some r
          | None \<Rightarrow>
              let token = takeWhile number_char s
              in map_option (\<lambda>j. (j, drop (length token) s)) (number_of_token fr token))"
| "scan_elements fr 0 s = None"
| "scan_elements fr (Suc k) s =
     (case scan_value fr k s of
        None \<Rightarrow> None
      | Some (v, rest) \<Rightarrow>
        (case skip_space rest of
           [] \<Rightarrow> None
         | x # xs \<Rightarrow>
             if x = CHR '']'' then Some ([v], xs)
             else if x = CHR '','' then
               map_option (\<lambda>(vs, r). (v # vs, r)) (scan_elements fr k (skip_space xs))
             else None))"
| "scan_members fr 0 s = None"
| "scan_members fr (Suc k) s =
     (case s of
        [] \<Rightarrow> None
      | c # cs \<Rightarrow>
          if c \<noteq> CHR 0x22 then None
          else case scan_string cs of
            None \<Rightarrow> None
          | Some (key, rest) \<Rightarrow>
            (case skip_space rest of
               [] \<Rightarrow> None
             | x # xs \<Rightarrow>
                 if x \<noteq> CHR '':'' then None
                 else case scan_value fr k (skip_space xs) of
                   None \<Rightarrow> None
                 | Some (v, rest1) \<Rightarrow>
                   (case skip_space rest1 of
                      [] \<Rightarrow> None
                    | y # ys \<Rightarrow>
                        if y = CHR ''}'' then Some ([(key, v)], ys)
                        else if y = CHR '','' then
                          map_option (\<lambda>(kvs, r). ((key, v) # kvs, r)) (scan_members fr k (skip_space ys))
                        else None)))"

declare scan_value.simps [simp del] scan_elements.simps [simp del] scan_members.simps [simp del]

definition json_loads :: "(string \<Rightarrow> string option) \<Rightarrow> string \<Rightarrow> json option" where
  "json_loads float_repr content =
     (case utf8_text content of
        None \<Rightarrow> None
      | Some s \<Rightarrow>
        (case scan_value float_repr (length s + 1) (skip_space s) of
           None \<Rightarrow> None
         | Some (j, rest) \<Rightarrow> if skip_space rest = [] then Some j else None))"

section \<open>What the renderers write is read back\<close>

text \<open>A value that is read back as it was: its floats are the \<open>repr\<close> of a float, its keys are distinct.\<close>

fun json_wf :: "(string \<Rightarrow> string option) \<Rightarrow> json \<Rightarrow> bool" where
  "json_wf fr (JFloat s) = (case s of None \<Rightarrow> False | Some t \<Rightarrow> float_token t \<and> fr t = Some t)"
| "json_wf fr (JList xs) = list_all (json_wf fr) xs"
| "json_wf fr (JDict kvs) = (distinct (map fst kvs) \<and> list_all (\<lambda>(_, v). json_wf fr v) kvs)"
| "json_wf fr _ = True"

definition delimited :: "string \<Rightarrow> bool" where
  "delimited rest \<longleftrightarrow> rest = [] \<or> \<not> number_char (hd rest)"

lemma json_hex_value_digit: "n < 16 \<Longrightarrow> json_hex_value (digit_char n) = Some n"
  by (auto simp: json_hex_value_def Let_def of_char_digit_char)

lemma json_hex_number_append:
  "json_hex_number (xs @ [c]) = (case (json_hex_number xs, json_hex_value c) of (Some v, Some w) \<Rightarrow> Some (v * 16 + w) | _ \<Rightarrow> None)"
  by (induction xs) (auto split: option.splits simp: algebra_simps)

lemma scanned_hex_digits: "n < 16 ^ k \<Longrightarrow> json_hex_number (hex_digits k n) = Some n"
proof (induction k arbitrary: n)
  case (Suc k)
  then have "n div 16 < 16 ^ k" by (simp add: less_mult_imp_div_less mult.commute)
  with Suc show ?case by (simp add: json_hex_number_append json_hex_value_digit)
qed simp

lemma scan_string_escape:
  "scan_string (json_escape c @ s) = push_char c (scan_string s)"
proof -
  have four: "take 4 (hex_digits 4 n @ s) = hex_digits 4 n" "drop 4 (hex_digits 4 n @ s) = s" for n s by simp_all
  have n: "(of_char c :: nat) < 256" by simp
  have h: "json_hex_number (hex_digits 4 (of_char c :: nat)) = Some (of_char c)"
    by (rule scanned_hex_digits) (rule less_trans [OF n], simp)
  show ?thesis
    using h four [of "of_char c"] n
    by (auto simp: json_escape_def unescape_def scan_string.simps(2) simp del: hex_digits.simps)
qed


lemma scan_string_text: "scan_string (concat (map json_escape s) @ CHR 0x22 # rest) = Some (s, rest)"
  by (induction s) (simp_all add: scan_string_escape push_char_def scan_string.simps(2))

lemma takeWhile_number:
  "list_all number_char t \<Longrightarrow> delimited rest \<Longrightarrow> takeWhile number_char (t @ rest) = t"
  by (cases rest) (auto simp: delimited_def list_all_iff takeWhile_append)

lemma digit_number_char: "digit c \<Longrightarrow> number_char c" by (simp add: number_char_def)

lemma dec_str_leading: "dec_str n = ''0'' \<or> hd (dec_str n) \<noteq> CHR ''0''"
proof (induction n rule: dec_str.induct)
  case (1 n)
  show ?case
  proof (cases "n < 10")
    case True
    then have "n \<in> set [0, 1, 2, 3, 4, 5, 6, 7, 8, 9]" by auto
    moreover have "\<forall>k \<in> set [0, 1, 2, 3, 4, 5, 6, 7, 8, 9]. k = 0 \<or> digit_char k \<noteq> CHR ''0''" by code_simp
    moreover have "digit_char 0 = CHR ''0''" by code_simp
    ultimately show ?thesis using True by (subst (1 2) dec_str.simps) auto
  next
    case False
    moreover have zero: "dec_str 0 = ''0''" by code_simp
    ultimately have "dec_str (n div 10) \<noteq> ''0''" using dec_str_inj [of "n div 10" 0] by auto
    with 1 [OF False] False digits_dec_str(2) [of "n div 10"] show ?thesis by (subst (1 2) dec_str.simps) simp
  qed
qed

lemma whole_number_dec_str: "whole_number (dec_str n)"
  using digits_dec_str [of n] dec_str_leading [of n] by (simp add: whole_number_def)

lemma int_str_token:
  "int_token (int_str n) \<and> int_of_token (int_str n) = n \<and> list_all number_char (int_str n)
   \<and> (digit (hd (int_str n)) \<or> (\<exists>c cs. int_str n = CHR ''-'' # c # cs \<and> digit c))"
proof -
  obtain c cs where d: "dec_str (nat \<bar>n\<bar>) = c # cs" by (cases "dec_str (nat \<bar>n\<bar>)") (use digits_dec_str(2) in auto)
  then have c: "digit c" "c \<noteq> CHR ''-''" using digits_dec_str(1) [of "nat \<bar>n\<bar>"] by auto
  have all: "list_all number_char (dec_str (nat \<bar>n\<bar>))"
    using digits_dec_str(1) [of "nat \<bar>n\<bar>"] by (auto simp: list_all_iff digit_number_char)
  show ?thesis
  proof (cases "n < 0")
    case True
    then have s: "int_str n = CHR ''-'' # dec_str (nat \<bar>n\<bar>)" by (simp add: int_str_def)
    from whole_number_dec_str [of "nat \<bar>n\<bar>"] all c d True show ?thesis
      by (simp add: s int_token_def unsigned_part_def int_of_token_def digits_value_dec_str [of "nat \<bar>n\<bar>", unfolded d]
        number_char_def)
  next
    case False
    then have s: "int_str n = dec_str (nat \<bar>n\<bar>)" by (simp add: int_str_def)
    from whole_number_dec_str [of "nat \<bar>n\<bar>"] all c d False show ?thesis
      by (simp add: s int_token_def unsigned_part_def int_of_token_def digits_value_dec_str [of "nat \<bar>n\<bar>", unfolded d])
  qed
qed

lemma digit_iff: "digit c \<longleftrightarrow> c \<in> set ''0123456789''"
proof
  assume "digit c"
  then have n: "48 \<le> (of_char c :: nat)" "(of_char c :: nat) \<le> 57" by (simp_all add: digit_def less_eq_char_def)
  have "n = 48 \<or> n = 49 \<or> n = 50 \<or> n = 51 \<or> n = 52 \<or> n = 53 \<or> n = 54 \<or> n = 55 \<or> n = 56 \<or> n = 57"
    if "48 \<le> n" "n \<le> 57" for n :: nat using that by presburger
  from this [OF n] have "(of_char c :: nat) \<in> set [48, 49, 50, 51, 52, 53, 54, 55, 56, 57]" by simp
  then have "char_of (of_char c :: nat) \<in> set (map char_of [48 :: nat, 49, 50, 51, 52, 53, 54, 55, 56, 57])"
    unfolding set_map by (rule imageI)
  moreover have "map char_of [48 :: nat, 49, 50, 51, 52, 53, 54, 55, 56, 57] = ''0123456789''" by code_simp
  ultimately show "c \<in> set ''0123456789''" by (simp only: char_of_char)
next
  have "\<forall>c \<in> set ''0123456789''. digit c" by code_simp
  then show "c \<in> set ''0123456789'' \<Longrightarrow> digit c" by blast
qed

lemma float_token_facts:
  assumes "float_token t"
  shows "list_all number_char t" "\<not> int_token t" "digit (hd t) \<or> (\<exists>c cs. t = CHR ''-'' # c # cs \<and> digit c)" "t \<noteq> []"
proof -
  define u where "u = unsigned_part t"
  define m where "m = takeWhile (\<lambda>c. c \<noteq> CHR ''e'' \<and> c \<noteq> CHR ''E'') u"
  define w where "w = takeWhile (\<lambda>c. c \<noteq> CHR ''.'') m"
  note facts = assms [unfolded float_token_def Let_def, folded u_def, folded m_def, folded w_def]
  have all: "list_all number_char t" by (rule facts [THEN conjunct1])
  have w: "whole_number w" by (rule facts [THEN conjunct2, THEN conjunct1])
  have places: "case drop (length w) m of [] \<Rightarrow> drop (length m) u \<noteq> [] | _ # ds \<Rightarrow> ds \<noteq> [] \<and> list_all digit ds"
    by (rule facts [THEN conjunct2, THEN conjunct2, THEN conjunct2])
  show "list_all number_char t" by (rule all)
  from w obtain c cs where wc: "w = c # cs" "digit c" by (cases w) (auto simp: whole_number_def)
  have mu: "m = w @ drop (length w) m" "u = m @ drop (length m) u"
    unfolding w_def m_def by (metis dropWhile_eq_drop takeWhile_dropWhile_id)+
  have u: "u = c # cs @ drop (length w) m @ drop (length m) u"
    by (subst mu(2), subst mu(1)) (simp add: wc(1))
  show "digit (hd t) \<or> (\<exists>c cs. t = CHR ''-'' # c # cs \<and> digit c)" "t \<noteq> []"
    using u wc(2) unfolding u_def by (auto simp: unsigned_part_def split: list.splits if_splits)
  show "\<not> int_token t"
  proof
    assume "int_token t"
    then have "list_all digit u" by (simp add: int_token_def whole_number_def u_def)
    then have d: "digit x" if "x \<in> set u" for x using that by (simp add: list_all_iff)
    have no: "\<not> digit (CHR ''e'')" "\<not> digit (CHR ''E'')" "\<not> digit (CHR ''.'')" by code_simp+
    have "takeWhile (\<lambda>c. c \<noteq> CHR ''e'' \<and> c \<noteq> CHR ''E'') u = u"
      unfolding takeWhile_eq_all_conv using d no by blast
    then have "m = u" by (simp only: m_def)
    moreover have "takeWhile (\<lambda>c. c \<noteq> CHR ''.'') m = m"
      unfolding takeWhile_eq_all_conv \<open>m = u\<close> using d no by blast
    then have "w = m" by (simp only: w_def)
    ultimately show False using places by simp
  qed
qed

text \<open>The first character of a rendered value.\<close>

definition value_start :: "char \<Rightarrow> bool" where
  "value_start c \<longleftrightarrow> \<not> json_space c \<and> c \<noteq> CHR '']'' \<and> c \<noteq> CHR ''}''"

lemma number_start: "digit c \<Longrightarrow> value_start c" "value_start (CHR ''-'')"
  by (auto simp: value_start_def json_space_def digit_iff)

lemma compact_start:
  assumes "json_compact j = Some t" "json_wf fr j"
  shows "\<exists>c cs. t = c # cs \<and> value_start c"
proof (cases j)
  case (JInt n)
  with assms int_str_token [of n] number_start show ?thesis
    by (cases "int_str n") (auto simp: int_token_def unsigned_part_def whole_number_def)
next
  case (JFloat s)
  with assms float_token_facts [of t] number_start show ?thesis
    by (cases t) (auto split: option.splits)
qed (use assms in \<open>auto simp: value_start_def json_space_def json_text_string_def\<close>)

lemma skip_start: "value_start c \<Longrightarrow> skip_space (c # cs) = c # cs"
  by (simp add: skip_space_def value_start_def)

lemma no_literal: "digit c \<Longrightarrow> scan_literal (c # s) = None" "digit c \<Longrightarrow> scan_literal (CHR ''-'' # c # s) = None"
  by (auto simp: scan_literal_def LITERALS_def digit_iff)

lemma scan_number:
  assumes "list_all number_char t" "t \<noteq> []" "number_of_token fr t = Some j" "delimited rest"
    "digit (hd t) \<or> (\<exists>c cs. t = CHR ''-'' # c # cs \<and> digit c)"
  shows "scan_value fr (Suc k) (t @ rest) = Some (j, rest)"
proof -
  obtain c cs where t: "t = c # cs" using assms(2) by (cases t) auto
  have start: "c \<noteq> CHR 0x22" "c \<noteq> CHR ''[''" "c \<noteq> CHR ''{''"
    using assms(1) by (auto simp: t number_char_def digit_iff)
  have "scan_literal (t @ rest) = None" using assms(5) t no_literal by auto
  with start takeWhile_number [OF assms(1,4)] assms(3) show ?thesis
    by (simp add: scan_value.simps(2) t)
qed

lemma all_some_map: "all_some (map f xs) = Some ys \<longleftrightarrow> list_all2 (\<lambda>x y. f x = Some y) xs ys"
proof (induction xs arbitrary: ys)
  case (Cons x xs)
  then show ?case by (cases "f x") (auto simp: list_all2_Cons1)
qed auto

lemma not_number: "\<not> number_char (CHR '','')" "\<not> number_char (CHR '']'')" "\<not> number_char (CHR ''}'')"
  by code_simp+

lemma skip_delimiter: "skip_space (CHR '','' # s) = CHR '','' # s" "skip_space (CHR '']'' # s) = CHR '']'' # s"
  "skip_space (CHR ''}'' # s) = CHR ''}'' # s" "skip_space (CHR '':'' # s) = CHR '':'' # s"
  "skip_space (CHR 0x22 # s) = CHR 0x22 # s"
  by (simp_all add: skip_space_def json_space_def)

text \<open>A value is read back from its text, whatever follows it, with more fuel than the text is long.\<close>

definition reads_back :: "(string \<Rightarrow> string option) \<Rightarrow> json \<Rightarrow> bool" where
  "reads_back fr j \<longleftrightarrow> (\<forall>t k rest. json_compact j = Some t \<longrightarrow> length t < k \<longrightarrow> delimited rest
     \<longrightarrow> scan_value fr k (t @ rest) = Some (j, rest))"

lemma reads_backD:
  "reads_back fr j \<Longrightarrow> json_compact j = Some t \<Longrightarrow> length t < k \<Longrightarrow> delimited rest
   \<Longrightarrow> scan_value fr k (t @ rest) = Some (j, rest)"
  by (simp add: reads_back_def)

lemma scan_elements_join:
  assumes "list_all2 (\<lambda>j t. json_compact j = Some t) js ts" "js \<noteq> []"
    "list_all (json_wf fr) js" "list_all (reads_back fr) js" "length (join_with '','' ts) + 1 < k"
  shows "scan_elements fr k (join_with '','' ts @ CHR '']'' # rest) = Some (js, rest)"
  using assms
proof (induction js arbitrary: ts k)
  case (Cons j js)
  obtain t ts' where ts: "ts = t # ts'" "json_compact j = Some t"
    "list_all2 (\<lambda>j t. json_compact j = Some t) js ts'"
    using Cons.prems(1) by (auto simp: list_all2_Cons1)
  obtain k' where k: "k = Suc k'" using Cons.prems(5) by (cases k) auto
  have read: "reads_back fr j" using Cons.prems(4) by simp
  show ?case
  proof (cases js)
    case Nil
    then have "ts' = []" using ts(3) by simp
    with reads_backD [OF read ts(2), of k' "CHR '']'' # rest"] Cons.prems(5) show ?thesis
      by (simp add: ts(1) k Nil scan_elements.simps(2) skip_delimiter delimited_def not_number)
  next
    case (Cons j2 js2)
    then obtain t2 ts2 where ts': "ts' = t2 # ts2" "json_compact j2 = Some t2"
      using ts(3) by (auto simp: list_all2_Cons1)
    have wf: "json_wf fr j2" "list_all (json_wf fr) js" "list_all (reads_back fr) js"
      using Cons.prems(3,4) Cons by simp_all
    let ?rest = "join_with '','' ts' @ CHR '']'' # rest"
    have skip: "skip_space ?rest = ?rest"
    proof -
      obtain c cs where t2: "t2 = c # cs" "value_start c" using compact_start [OF ts'(2) wf(1)] by blast
      then obtain us where "?rest = c # us" by (cases ts2) (auto simp: ts'(1))
      with skip_start [OF t2(2)] show ?thesis by simp
    qed
    have len: "length (join_with '','' ts) = length t + 1 + length (join_with '','' ts')"
      by (simp add: ts(1) ts'(1))
    have "scan_elements fr k' ?rest = Some (js, rest)"
      by (rule Cons.IH) (use ts(3) wf Cons Cons.prems(5) len k in auto)
    moreover have "scan_value fr k' (t @ CHR '','' # ?rest) = Some (j, CHR '','' # ?rest)"
      by (rule reads_backD [OF read ts(2)]) (use Cons.prems(5) len k in \<open>auto simp: delimited_def not_number\<close>)
    moreover have "join_with '','' ts @ CHR '']'' # rest = t @ CHR '','' # ?rest"
      by (simp add: ts(1) ts'(1))
    ultimately show ?thesis by (simp add: k scan_elements.simps(2) skip_delimiter skip)
  qed
qed simp

definition member_text :: "string \<times> string \<Rightarrow> string" where
  "member_text m = (case m of (key, r) \<Rightarrow> json_text_string key @ '':'' @ r)"

lemma scan_members_join:
  assumes "list_all2 (\<lambda>(i, j) (i', t). i' = i \<and> json_compact j = Some t) kvs ms" "kvs \<noteq> []"
    "list_all (\<lambda>(_, j). json_wf fr j) kvs" "list_all (\<lambda>(_, j). reads_back fr j) kvs"
    "length (join_with '','' (map member_text ms)) + 1 < k"
  shows "scan_members fr k (join_with '','' (map member_text ms) @ CHR ''}'' # rest) = Some (kvs, rest)"
  using assms
proof (induction kvs arbitrary: ms k)
  case (Cons kv kvs)
  obtain i j where kv: "kv = (i, j)" by (cases kv) auto
  obtain t ms' where ms: "ms = (i, t) # ms'" "json_compact j = Some t"
    "list_all2 (\<lambda>(i, j) (i', t). i' = i \<and> json_compact j = Some t) kvs ms'"
    using Cons.prems(1) by (auto simp: list_all2_Cons1 kv)
  obtain k' where k: "k = Suc k'" using Cons.prems(5) by (cases k) auto
  have read: "reads_back fr j" "json_wf fr j" using Cons.prems(3,4) by (simp_all add: kv)
  obtain c cs where t: "t = c # cs" "value_start c" using compact_start [OF ms(2) read(2)] by blast
  have skip: "skip_space (t @ s) = t @ s" for s using skip_start [OF t(2)] by (simp add: t(1))
  have member: "member_text (i, t) @ s = CHR 0x22 # concat (map json_escape i) @ CHR 0x22 # CHR '':'' # t @ s" for s
    by (simp add: member_text_def json_text_string_def)
  have len_text: "length t < length (member_text (i, t))" by (simp add: member_text_def)
  show ?case
  proof (cases kvs)
    case Nil
    then have "ms' = []" using ms(3) by simp
    moreover have "scan_value fr k' (t @ CHR ''}'' # rest) = Some (j, CHR ''}'' # rest)"
      by (rule reads_backD [OF read(1) ms(2)])
        (use Cons.prems(5) len_text k ms(1) \<open>ms' = []\<close> in \<open>auto simp: delimited_def not_number\<close>)
    ultimately show ?thesis
      by (simp add: ms(1) k Nil kv scan_members.simps(2) member scan_string_text skip_delimiter skip)
  next
    case (Cons kv2 kvs2)
    obtain m2 ms2 where ms': "ms' = m2 # ms2" using ms(3) Cons by (auto simp: list_all2_Cons1)
    let ?rest = "join_with '','' (map member_text ms') @ CHR ''}'' # rest"
    have skip2: "skip_space ?rest = ?rest"
    proof -
      obtain i2 t2 where "m2 = (i2, t2)" by (cases m2) auto
      then obtain us where "?rest = CHR 0x22 # us"
        by (cases ms2) (auto simp: ms' member_text_def json_text_string_def)
      then show ?thesis by (simp add: skip_delimiter)
    qed
    have len: "length (join_with '','' (map member_text ms))
        = length (member_text (i, t)) + 1 + length (join_with '','' (map member_text ms'))"
      by (simp add: ms(1) ms')
    have "scan_members fr k' ?rest = Some (kvs, rest)"
      by (rule Cons.IH) (use ms(3) Cons.prems(3,4,5) Cons len k in auto)
    moreover have "scan_value fr k' (t @ CHR '','' # ?rest) = Some (j, CHR '','' # ?rest)"
      by (rule reads_backD [OF read(1) ms(2)])
        (use Cons.prems(5) len len_text k in \<open>auto simp: delimited_def not_number\<close>)
    moreover have "join_with '','' (map member_text ms) @ CHR ''}'' # rest = member_text (i, t) @ CHR '','' # ?rest"
      by (simp add: ms(1) ms')
    ultimately show ?thesis
      by (simp add: k kv scan_members.simps(2) member scan_string_text skip_delimiter skip skip2)
  qed
qed simp

lemma json_put_fresh: "k \<notin> fst ` set acc \<Longrightarrow> json_put k v acc = acc @ [(k, v)]"
  by (simp add: json_put_def)

lemma fold_json_put:
  "distinct (map fst (acc @ kvs)) \<Longrightarrow> fold (\<lambda>(i, v). json_put i v) kvs acc = acc @ kvs"
proof (induction kvs arbitrary: acc)
  case (Cons kv kvs)
  obtain k v where kv: "kv = (k, v)" by (cases kv)
  with Cons.prems have "json_put k v acc = acc @ [(k, v)]" by (intro json_put_fresh) auto
  with Cons.IH [of "acc @ [(k, v)]"] Cons.prems show ?case by (simp add: kv)
qed simp

lemma scan_literal_words:
  "scan_literal (''null'' @ s) = Some (JNull, s)" "scan_literal (''true'' @ s) = Some (JBool True, s)"
  "scan_literal (''false'' @ s) = Some (JBool False, s)"
  by (simp_all add: scan_literal_def LITERALS_def)

lemma dict_members:
  assumes "json_compact (JDict kvs) = Some t"
  obtains ms where "list_all2 (\<lambda>(i, j) (i', t). i' = i \<and> json_compact j = Some t) kvs ms"
    "t = CHR ''{'' # join_with '','' (map member_text ms) @ ''}''"
proof -
  from assms obtain ms where ms: "all_some (map (\<lambda>(k, v). map_option (\<lambda>r. (k, r)) (json_compact v)) kvs) = Some ms"
    and t: "t = CHR ''{'' # join_with '','' (map member_text ms) @ ''}''"
    by (auto simp: member_text_def [abs_def])
  have "list_all2 (\<lambda>(i, j) (i', t). i' = i \<and> json_compact j = Some t) kvs ms"
    using ms unfolding all_some_map by (rule list_all2_mono) auto
  with t show ?thesis by (rule that [rotated])
qed

lemma reads_back_dict:
  assumes "distinct (map fst kvs)" "list_all (\<lambda>(_, j). json_wf fr j) kvs" "list_all (\<lambda>(_, j). reads_back fr j) kvs"
  shows "reads_back fr (JDict kvs)"
proof (unfold reads_back_def, intro allI impI)
  fix t k rest
  assume "json_compact (JDict kvs) = Some t" "length t < k"
  then obtain ms k' where ms: "list_all2 (\<lambda>(i, j) (i', t). i' = i \<and> json_compact j = Some t) kvs ms"
    and t: "t = CHR ''{'' # join_with '','' (map member_text ms) @ ''}''" and k: "k = Suc k'" "length t \<le> k'"
    by (cases k) (simp, elim dict_members, simp)
  show "scan_value fr k (t @ rest) = Some (JDict kvs, rest)"
  proof (cases kvs)
    case Nil
    with ms show ?thesis by (simp add: k t scan_value.simps(2) skip_delimiter)
  next
    case (Cons kv kvs')
    then obtain m ms' where m: "ms = m # ms'" using ms by (auto simp: list_all2_Cons1)
    obtain us where us: "join_with '','' (map member_text ms) @ CHR ''}'' # rest = CHR 0x22 # us"
      by (cases m, cases ms') (auto simp: m member_text_def json_text_string_def)
    have "scan_members fr k' (join_with '','' (map member_text ms) @ CHR ''}'' # rest) = Some (kvs, rest)"
      by (rule scan_members_join) (use ms assms Cons k t in auto)
    then have "scan_members fr k' (CHR 0x22 # us) = Some (kvs, rest)" by (simp only: us)
    moreover have "t @ rest = CHR ''{'' # CHR 0x22 # us" using us by (simp add: t)
    ultimately show ?thesis
      using fold_json_put [of "[]" kvs] assms(1) by (simp add: k scan_value.simps(2) skip_delimiter)
  qed
qed

lemma reads_back_list:
  assumes "list_all (json_wf fr) js" "list_all (reads_back fr) js"
  shows "reads_back fr (JList js)"
proof (unfold reads_back_def, intro allI impI)
  fix t k rest
  assume "json_compact (JList js) = Some t" "length t < k"
  then obtain ts k' where ts: "list_all2 (\<lambda>j t. json_compact j = Some t) js ts"
    and t: "t = CHR ''['' # join_with '','' ts @ '']''" and k: "k = Suc k'" "length t \<le> k'"
    by (cases k) (auto simp: all_some_map)
  show "scan_value fr k (t @ rest) = Some (JList js, rest)"
  proof (cases js)
    case Nil
    with ts show ?thesis by (simp add: k t scan_value.simps(2) skip_delimiter)
  next
    case (Cons j js')
    then obtain t1 ts' where t1: "ts = t1 # ts'" "json_compact j = Some t1" using ts by (auto simp: list_all2_Cons1)
    obtain c cs where c: "t1 = c # cs" "value_start c"
      using compact_start [OF t1(2), of fr] assms(1) Cons by auto
    obtain us where us: "join_with '','' ts @ CHR '']'' # rest = c # us"
      by (cases ts') (auto simp: t1(1) c(1))
    have "scan_elements fr k' (join_with '','' ts @ CHR '']'' # rest) = Some (js, rest)"
      by (rule scan_elements_join) (use ts assms Cons k t in auto)
    then have "scan_elements fr k' (c # us) = Some (js, rest)" by (simp only: us)
    moreover have "t @ rest = CHR ''['' # c # us" using us by (simp add: t)
    moreover have "c \<noteq> CHR '']''" using c(2) by (simp add: value_start_def)
    ultimately show ?thesis using skip_start [OF c(2)] by (simp add: k scan_value.simps(2))
  qed
qed

lemma reads_back_all: "json_wf fr j \<Longrightarrow> reads_back fr j"
proof (induction j)
  case (JDict kvs)
  then show ?case by (intro reads_back_dict) (auto simp: list_all_iff intro!: JDict.IH)
next
  case (JList js)
  then show ?case by (intro reads_back_list) (auto simp: list_all_iff)
next
  case (JInt n)
  have "scan_value fr (Suc k) (int_str n @ rest) = Some (JInt n, rest)" if "delimited rest" for k rest
    by (rule scan_number) (use int_str_token [of n] that in \<open>auto simp: number_of_token_def int_token_def
      unsigned_part_def whole_number_def\<close>)
  then show ?case by (auto simp: reads_back_def elim!: less_natE)
next
  case (JFloat s)
  then obtain t where t: "s = Some t" "float_token t" "fr t = Some t" by (auto split: option.splits)
  have "scan_value fr (Suc k) (t @ rest) = Some (JFloat s, rest)" if "delimited rest" for k rest
    by (rule scan_number) (use float_token_facts [OF t(2)] t that in \<open>auto simp: number_of_token_def\<close>)
  with t(1) show ?case by (auto simp: reads_back_def elim!: less_natE)
next
  case (JStr s)
  have "scan_value fr (Suc k) (json_text_string s @ rest) = Some (JStr s, rest)" for k rest
    by (simp add: json_text_string_def scan_value.simps(2) scan_string_text)
  then show ?case by (auto simp: reads_back_def elim!: less_natE)
next
  case JNull
  show ?case using scan_literal_words(1) by (auto simp: reads_back_def scan_value.simps(2) elim!: less_natE)
next
  case (JBool b)
  show ?case using scan_literal_words(2,3)
    by (cases b) (auto simp: reads_back_def scan_value.simps(2) elim!: less_natE)
qed

lemma skip_newline: "skip_space [CHR 0x0A] = []"
  by (simp add: skip_space_def json_space_def)

lemma newline_delimited: "delimited [CHR 0x0A]" by code_simp

lemma json_loads_line:
  assumes "json_wf float_repr j" "json_compact j = Some t"
  shows "json_loads float_repr (encode_line t) = Some j"
proof -
  obtain c cs where t: "t = c # cs" "value_start c" using compact_start [OF assms(2,1)] by blast
  have "scan_value float_repr (length t + 2) (t @ [CHR 0x0A]) = Some (j, [CHR 0x0A])"
    by (rule reads_backD [OF reads_back_all [OF assms(1)] assms(2)]) (simp_all add: newline_delimited)
  moreover have "skip_space (t @ [CHR 0x0A]) = t @ [CHR 0x0A]" using skip_start [OF t(2)] by (simp add: t(1))
  ultimately show ?thesis
    by (simp add: json_loads_def encode_line_def utf8_decode_newline skip_newline)
qed

section \<open>Sorted keys\<close>

text \<open>The value whose dictionaries have their keys in order: what \<open>sort_keys=True\<close> writes.\<close>

fun sort_keys :: "json \<Rightarrow> json" where
  "sort_keys (JList xs) = JList (map sort_keys xs)"
| "sort_keys (JDict kvs) = JDict (sort_key fst (map (\<lambda>(k, v). (k, sort_keys v)) kvs))"
| "sort_keys j = j"

lemma all_some_conv: "all_some xs = (if None \<in> set xs then None else Some (map the xs))"
  by (induction xs rule: all_some.induct) auto

lemma map_insort_key_on:
  "f' (g x) = f x \<Longrightarrow> (\<And>y. y \<in> set ys \<Longrightarrow> f' (g y) = f y)
   \<Longrightarrow> map g (insort_key f x ys) = insort_key f' (g x) (map g ys)" for f :: "'a \<Rightarrow> 'k::linorder"
  by (induction ys) simp_all

lemma map_sort_key_on:
  "(\<And>x. x \<in> set xs \<Longrightarrow> f' (g x) = f x) \<Longrightarrow> map g (sort_key f xs) = sort_key f' (map g xs)"
  for f :: "'a \<Rightarrow> 'k::linorder"
proof (induction xs)
  case (Cons x xs)
  then have "map g (insort_key f x (sort_key f xs)) = insort_key f' (g x) (map g (sort_key f xs))"
    by (intro map_insort_key_on) auto
  with Cons show ?case by simp
qed simp

lemma json_render_sorted: "json_render j = json_compact (sort_keys j)"
proof (induction j)
  case (JDict kvs)
  let ?r = "\<lambda>(k, v). map_option (\<lambda>r. (k, r)) (json_render v)"
  let ?c = "\<lambda>(k, v). map_option (\<lambda>r. (k, r)) (json_compact v)"
  let ?s = "\<lambda>(k, v). (k, sort_keys v)"
  have eq: "map ?r kvs = map ?c (map ?s kvs)" using JDict.IH by (auto simp: comp_def)
  show ?case
  proof (cases "None \<in> set (map ?r kvs)")
    case True
    moreover have "set (map ?c (sort_key fst (map ?s kvs))) = set (map ?r kvs)" unfolding eq set_map set_sort ..
    ultimately show ?thesis by (simp only: json_render.simps json_compact.simps sort_keys.simps all_some_conv if_True option.map)
  next
    case False
    have "fst (the (?c x)) = fst x" if "x \<in> set (map ?s kvs)" for x
    proof -
      from that have "?c x \<in> set (map ?r kvs)" unfolding eq set_map by (rule imageI)
      with False have "?c x \<noteq> None" by metis
      then show ?thesis by (cases x) auto
    qed
    then have "map (\<lambda>x. the (?c x)) (sort_key fst (map ?s kvs)) = sort_key fst (map (\<lambda>x. the (?c x)) (map ?s kvs))"
      by (rule map_sort_key_on)
    then have "sort_key fst (map the (map ?r kvs)) = map the (map ?c (sort_key fst (map ?s kvs)))"
      unfolding eq by (simp only: map_map comp_def)
    moreover have "None \<notin> set (map ?c (sort_key fst (map ?s kvs)))"
      using False unfolding eq set_map set_sort .
    ultimately show ?thesis using False
      by (simp only: json_render.simps json_compact.simps sort_keys.simps all_some_conv if_False option.map)
  qed
next
  case (JList xs)
  then have "map json_render xs = map json_compact (map sort_keys xs)" by simp
  then show ?case by (simp only: json_render.simps json_compact.simps sort_keys.simps)
qed simp_all

lemma json_wf_sort_keys: "json_wf fr (sort_keys j) = json_wf fr j"
proof (induction j)
  case (JDict kvs)
  let ?s = "\<lambda>(k, v). (k, sort_keys v)"
  have "mset (map fst (sort_key fst (map ?s kvs))) = mset (map fst kvs)" by (simp add: case_prod_unfold multiset.map_comp comp_def)
  then have "distinct (map fst (sort_key fst (map ?s kvs))) = distinct (map fst kvs)" by (rule mset_eq_imp_distinct_iff)
  moreover have "list_all (\<lambda>(_, v). json_wf fr v) (sort_key fst (map ?s kvs)) = list_all (\<lambda>(_, v). json_wf fr v) kvs"
    using JDict.IH by (fastforce simp: list_all_iff)
  ultimately show ?case by simp
qed (simp_all add: list_all_iff)

lemma map_of_sort_key:
  assumes "distinct (map fst kvs)"
  shows "map_of (sort_key fst kvs) = map_of kvs"
proof (rule map_of_eqI)
  have "mset (map fst (sort_key fst kvs)) = mset (map fst kvs)" by simp
  then have d: "distinct (map fst (sort_key fst kvs))" using assms mset_eq_imp_distinct_iff by metis
  show "set (map fst (sort_key fst kvs)) = set (map fst kvs)" by simp
  show "\<forall>k \<in> set (map fst (sort_key fst kvs)). map_of (sort_key fst kvs) k = map_of kvs k"
    using map_of_is_SomeI [OF d] assms by (auto simp: map_of_eq_Some_iff)
qed

lemma map_of_map_values: "map_of (map (\<lambda>(k, v). (k, f v)) kvs) i = map_option f (map_of kvs i)"
  by (induction kvs) auto

lemma get_sort_keys:
  "distinct (map fst kvs) \<Longrightarrow> json_get k (sort_keys (JDict kvs)) = sort_keys (json_get k (JDict kvs))"
proof -
  assume "distinct (map fst kvs)"
  then have "distinct (map fst (map (\<lambda>(k, v). (k, sort_keys v)) kvs))" by (simp add: comp_def case_prod_unfold)
  from map_of_sort_key [OF this] show ?thesis
    by (simp add: json_get_def get_def map_of_map_values split: option.splits)
qed

text \<open>
  C31: \<open>json.loads\<close> reads back what \<open>json.dumps\<close> wrote, byte by byte: a line of a normalized report, encoded in UTF-8
  with its line feed, gives the value that it was written for, and a profile, which is written with sorted keys,
  that value with its keys sorted.  The floats of the value are texts that \<open>repr\<close> gives and its dictionaries have
  distinct keys.
\<close>

theorem json_lines_round_trip:
  assumes "json_wf float_repr j" "json_compact j = Some t" "json_render j = Some t'"
  shows "json_loads float_repr (encode_line t) = Some j \<and> json_loads float_repr (encode_line t') = Some (sort_keys j)"
proof -
  from assms(3) have "json_compact (sort_keys j) = Some t'" by (simp only: json_render_sorted)
  with assms(1) have "json_loads float_repr (encode_line t') = Some (sort_keys j)"
    by (intro json_loads_line) (simp_all only: json_wf_sort_keys)
  with json_loads_line [OF assms(1,2)] show ?thesis ..
qed

definition sample_line_value :: json where
  "sample_line_value = JDict [([CHR ''b'', CHR 0xE9], JList [JInt (- 7), JFloat (Some ''0.5'')]), (''a'', JStr [CHR 0x01])]"

theorem json_lines_round_trip_witness:
  "json_loads Some (encode_line (the (json_compact sample_line_value))) = Some sample_line_value
   \<and> json_loads Some (encode_line (the (json_render sample_line_value)))
      = Some (JDict [(''a'', JStr [CHR 0x01]), ([CHR ''b'', CHR 0xE9], JList [JInt (- 7), JFloat (Some ''0.5'')])])"
proof -
  have wf: "json_wf Some sample_line_value" by code_simp
  have "json_compact sample_line_value \<noteq> None" "json_render sample_line_value \<noteq> None" by code_simp+
  moreover have "sort_keys sample_line_value
      = JDict [(''a'', JStr [CHR 0x01]), ([CHR ''b'', CHR 0xE9], JList [JInt (- 7), JFloat (Some ''0.5'')])]" by code_simp
  ultimately show ?thesis
    using json_lines_round_trip [OF wf, of "the (json_compact sample_line_value)" "the (json_render sample_line_value)"]
    by auto
qed

end
