(* ===== verification/Parser_Theorems.thy ===== *)
theory Parser_Theorems
  imports Json_Loads
begin

text \<open>
  The properties of the report parser (\<open>services/report_parser.py\<close>): the search for a free column name ends, and
  the invariant of the parser -- what the profile and the lines of a parsed report are, and how large they can be.
\<close>

section \<open>Names of columns\<close>

text \<open>The candidates that \<open>free_name\<close> tries in turn: the name itself, then the name with a suffix from 2 on.\<close>

definition candidate_name :: "string \<Rightarrow> nat \<Rightarrow> string" where
  "candidate_name base n = (if n = 0 then base else suffixed base (n + 1))"

lemma candidate_inj: "inj (\<lambda>n. py_casefold (candidate_name base n))"
proof (rule injI)
  fix m n
  assume eq: "py_casefold (candidate_name base m) = py_casefold (candidate_name base n)"
  have len: "length (py_casefold base) < length (py_casefold (suffixed base k))" for k
    unfolding casefold_suffixed by (simp add: py_casefold_def)
  from eq show "m = n"
    using len [of "n + 1"] len [of "m + 1"]
    by (auto simp: candidate_name_def split: if_splits dest: suffixed_inj)
qed

lemma candidate_free: "\<exists>n \<le> length used. py_casefold (candidate_name base n) \<notin> set used"
proof (rule ccontr)
  assume "\<not> ?thesis"
  then have "(\<lambda>n. py_casefold (candidate_name base n)) ` {..length used} \<subseteq> set used" by auto
  then have "card ((\<lambda>n. py_casefold (candidate_name base n)) ` {..length used}) \<le> card (set used)"
    by (intro card_mono) auto
  moreover have "card ((\<lambda>n. py_casefold (candidate_name base n)) ` {..length used}) = card {..length used}"
    by (rule card_image) (rule inj_on_subset [OF candidate_inj], simp)
  ultimately show False using card_length [of used] by simp
qed

lemma free_name_candidate:
  assumes "k \<le> n" "py_casefold (candidate_name base n) \<notin> set used"
    "\<And>m. m < n \<Longrightarrow> py_casefold (candidate_name base m) \<in> set used"
  shows "free_name base used (candidate_name base k) (k + 2) = candidate_name base n"
  using assms(1)
proof (induction "n - k" arbitrary: k)
  case 0
  with assms(2) show ?case by (subst free_name.simps) simp
next
  case (Suc i)
  then have "py_casefold (candidate_name base k) \<in> set used" by (intro assms(3)) simp
  then have "free_name base used (candidate_name base k) (k + 2)
      = free_name base used (candidate_name base (Suc k)) (Suc k + 2)"
    by (subst free_name.simps) (simp add: candidate_name_def)
  also have "\<dots> = candidate_name base n" by (rule Suc.hyps(1)) (use Suc in auto)
  finally show ?case .
qed

text \<open>
  C32: the loop that makes the name of a column unique ends, after at most one step per name that is taken, and gives
  the first name of the sequence \<open>base\<close>, \<open>base__2\<close>, \<open>base__3\<close> and so on that is not taken up to case.
\<close>

theorem column_suffix_search_ends:
  "\<exists>n \<le> length used. free_name base used base 2 = candidate_name base n
     \<and> py_casefold (candidate_name base n) \<notin> set used
     \<and> (\<lambda>m. py_casefold (candidate_name base m)) ` {..<n} \<subseteq> set used"
proof -
  define n where "n = (LEAST n. py_casefold (candidate_name base n) \<notin> set used)"
  from candidate_free obtain m where m: "m \<le> length used" "py_casefold (candidate_name base m) \<notin> set used" by blast
  have n: "py_casefold (candidate_name base n) \<notin> set used" unfolding n_def by (rule LeastI) (rule m(2))
  have le: "n \<le> length used" unfolding n_def using Least_le [of _ m] m by (meson le_trans)
  have less: "py_casefold (candidate_name base i) \<in> set used" if "i < n" for i
    using that not_less_Least unfolding n_def by blast
  from free_name_candidate [OF _ n less, of 0] have "free_name base used base 2 = candidate_name base n"
    by (simp add: candidate_name_def [of base 0] numeral_2_eq_2)
  with n le less show ?thesis by blast
qed

text \<open>What is fixed of a column when it is built, and the columns of a header.\<close>

definition fresh_column :: "column_profile \<Rightarrow> bool" where
  "fresh_column c \<longleftrightarrow> col_name c \<noteq> [] \<and> col_generated c = is_null (col_source_name c)
     \<and> col_source_name c \<noteq> Some []"

lemma header_text_nonempty: "header_text nfc c = Inr s \<Longrightarrow> s \<noteq> Some []"
  by (auto simp: header_text_def Let_def and_then_Inr_iff split: if_splits)

lemma free_name_shape: "candidate \<noteq> [] \<Longrightarrow> free_name base used candidate k \<noteq> []"
  by (induction base used candidate k rule: free_name.induct) (subst free_name.simps, auto simp: suffixed_def)

lemma new_column_name: "source \<noteq> Some [] \<Longrightarrow> col_name (new_column i source used) \<noteq> []"
  by (auto simp: new_column_def Let_def split: option.splits intro!: free_name_shape)

lemma build_columns_from:
  assumes "build_columns_from nfc i used cells = Inr columns"
  shows "map col_index columns = [i..<i + length cells] \<and> list_all fresh_column columns
    \<and> (\<forall>c \<in> set columns. col_type_counts c = (\<lambda>_. 0))
    \<and> distinct (map (py_casefold \<circ> col_name) columns)
    \<and> set (map (py_casefold \<circ> col_name) columns) \<inter> set used = {}"
  using assms
proof (induction nfc i used cells arbitrary: columns rule: build_columns_from.induct)
  case (2 nfc i used x rest)
  then obtain s cs where s: "header_text nfc x = Inr s"
    and cs: "build_columns_from nfc (Suc i) (py_casefold (col_name (new_column i s used)) # used) rest = Inr cs"
    and columns: "columns = new_column i s used # cs"
    by (auto simp: and_then_Inr_iff Let_def)
  have new: "py_casefold (col_name (new_column i s used)) \<notin> set used"
    by (simp add: new_column_def Let_def free_name_fresh)
  have fresh: "fresh_column (new_column i s used)"
    using new_column_name [OF header_text_nonempty [OF s]] header_text_nonempty [OF s]
    by (simp add: fresh_column_def new_column_def)
  have upt: "[i..<i + length (x # rest)] = i # [Suc i..<Suc i + length rest]"
    by (subst upt_conv_Cons) simp_all
  have index: "col_index (new_column i s used) = i" "col_type_counts (new_column i s used) = (\<lambda>_. 0)"
    by (simp_all add: new_column_def)
  from 2(1) [OF refl cs] new fresh index show ?case unfolding columns upt by auto
qed simp

section \<open>What a parsed sheet is\<close>

text \<open>A cell whose value has a property \<open>vok\<close>, for example that it is read back from its text.\<close>

definition cell_ok :: "(json \<Rightarrow> bool) \<Rightarrow> cell \<Rightarrow> bool" where
  "cell_ok vok c = (case normalize_value c of Inl _ \<Rightarrow> True | Inr (value, _) \<Rightarrow> vok value)"

definition good_columns :: "column_profile list \<Rightarrow> nat \<Rightarrow> bool" where
  "good_columns columns n \<longleftrightarrow> map col_index columns = [0..<length columns] \<and> list_all fresh_column columns
     \<and> distinct (map (py_casefold \<circ> col_name) columns)
     \<and> list_all (\<lambda>c. sum_list (map (col_type_counts c) VALUE_TYPE_ORDER) = n) columns
     \<and> length columns \<le> REPORT_MAX_COLUMNS_PER_SHEET"

definition good_row :: "(json \<Rightarrow> bool) \<Rightarrow> column_profile list \<Rightarrow> nat \<Rightarrow> string
    \<Rightarrow> nat \<times> (string \<times> json) list \<Rightarrow> bool" where
  "good_row vok columns i name r \<longleftrightarrow> map fst (snd r) = map col_name columns \<and> list_all (\<lambda>(_, v). vok v) (snd r)
     \<and> json_compact (row_payload i name (fst r) (snd r)) \<noteq> None"

definition row_line :: "nat \<Rightarrow> string \<Rightarrow> nat \<times> (string \<times> json) list \<Rightarrow> string" where
  "row_line i name r = encode_line (the (json_compact (row_payload i name (fst r) (snd r))))"

definition total_length :: "string list \<Rightarrow> nat" where
  "total_length ls = sum_list (map length ls)"

definition normalizer_ok :: "normalizer \<Rightarrow> bool" where
  "normalizer_ok nz \<longleftrightarrow> nz_uncompressed nz = total_length (nz_lines nz)
     \<and> nz_uncompressed nz \<le> REPORT_MAX_NORMALIZED_UNCOMPRESSED_BYTES
     \<and> nz_record_count nz = length (nz_lines nz) \<and> nz_total_cells nz \<le> REPORT_MAX_TOTAL_CELLS"

definition sheet_progress :: "(json \<Rightarrow> bool) \<Rightarrow> nat \<Rightarrow> string \<Rightarrow> normalizer \<Rightarrow> sheet_state \<Rightarrow> normalizer \<Rightarrow> bool" where
  "sheet_progress vok i name nz0 sh nz \<longleftrightarrow> normalizer_ok nz \<and> nz_sheets nz = nz_sheets nz0 \<and>
     (case sh_header sh of
        None \<Rightarrow> nz_lines nz = nz_lines nz0 \<and> sh_records sh = 0
      | Some (h, columns) \<Rightarrow> \<exists>rows. nz_lines nz = nz_lines nz0 @ map (row_line i name) rows
          \<and> sh_records sh = length rows \<and> length rows \<le> REPORT_MAX_ROWS_PER_SHEET
          \<and> good_columns columns (length rows) \<and> list_all (good_row vok columns i name) rows)"

lemma write_line_Inr:
  assumes "write_line gz payload nz = Inr nz'"
  shows "json_compact payload \<noteq> None \<and> nz' = nz\<lparr> nz_lines := nz_lines nz @ [encode_line (the (json_compact payload))],
       nz_uncompressed := nz_uncompressed nz + length (encode_line (the (json_compact payload))) \<rparr>
     \<and> nz_uncompressed nz' \<le> REPORT_MAX_NORMALIZED_UNCOMPRESSED_BYTES
     \<and> gzip_written gz (nz_lines nz') \<le> REPORT_MAX_NORMALIZED_COMPRESSED_BYTES"
  using assms by (auto simp: write_line_def Let_def split: option.splits if_splits)

lemma fit_row_Inr:
  assumes "fit_row width normalized = Inr fitted"
  shows "length fitted = width \<and> set fitted \<subseteq> insert (JNull, T_null) (set normalized)"
  using assms by (auto simp: fit_row_def split: if_splits dest: in_set_takeD)

lemma normalized_wf:
  assumes "map_result normalize_value raw = Inr normalized" "list_all (cell_ok vok) raw"
  shows "list_all (\<lambda>(v, _). vok v) normalized"
proof -
  from assms(1) have "list_all2 (\<lambda>x y. normalize_value x = Inr y) raw normalized" by (simp only: map_result_Inr_iff)
  with assms(2) show ?thesis
    by (auto simp: list_all2_conv_all_nth list_all_length cell_ok_def split: sum.splits prod.splits)
qed

lemma observe_type_total:
  "sum_list (map (col_type_counts (observe_type t c)) VALUE_TYPE_ORDER)
     = sum_list (map (col_type_counts c) VALUE_TYPE_ORDER) + 1"
  by (cases t) (simp_all add: observe_type_def VALUE_TYPE_ORDER_def)

lemma map_observed:
  "length fitted = length columns \<Longrightarrow> (\<And>t c. f (observe_type t c) = f c)
   \<Longrightarrow> map f (map2 (\<lambda>c (_, t). observe_type t c) columns fitted) = map f columns"
  by (auto simp: list_eq_iff_nth_eq split: prod.splits)

lemma observed_columns:
  assumes "good_columns columns n" "length fitted = length columns"
  shows "good_columns (map2 (\<lambda>c (_, t). observe_type t c) columns fitted) (Suc n)"
    and "map col_name (map2 (\<lambda>c (_, t). observe_type t c) columns fitted) = map col_name columns"
proof -
  let ?o = "map2 (\<lambda>c (_, t). observe_type t c) columns fitted"
  have len: "length ?o = length columns" using assms(2) by simp
  have names: "map (py_casefold \<circ> col_name) ?o = map (py_casefold \<circ> col_name) columns"
    "map col_index ?o = map col_index columns"
    by (intro map_observed assms(2); simp add: observe_type_def)+
  have "list_all fresh_column ?o" using assms
    by (auto simp: good_columns_def list_all_length fresh_column_def observe_type_def split: prod.splits)
  moreover have "list_all (\<lambda>c. sum_list (map (col_type_counts c) VALUE_TYPE_ORDER) = Suc n) ?o" using assms
    by (auto simp: good_columns_def list_all_length observe_type_total split: prod.splits)
  ultimately show "good_columns ?o (Suc n)" using assms(1) unfolding good_columns_def names len by blast
  show "map col_name ?o = map col_name columns" 
    by (intro map_observed assms(2)) (simp add: observe_type_def)
qed


lemma values_names: "length fitted = length columns
   \<Longrightarrow> map fst (map2 (\<lambda>c (v, _). (col_name c, v)) columns fitted) = map col_name columns"
  by (auto simp: list_eq_iff_nth_eq split: prod.splits)

lemma good_row_names: "map col_name columns' = map col_name columns
   \<Longrightarrow> good_row vok columns' i name = good_row vok columns i name"
  by (simp add: good_row_def [abs_def])

lemma data_row_progress:
  assumes step: "data_row gz i name h columns number raw sh nz = Inr (sh', nz')" and null: "vok JNull"
    and cells: "list_all (cell_ok vok) raw" and header: "sh_header sh = Some (h, columns)"
    and start: "sheet_progress vok i name nz0 sh nz"
  shows "sheet_progress vok i name nz0 sh' nz'"
proof -
  obtain normalized fitted where n: "map_result normalize_value raw = Inr normalized"
    and f: "fit_row (length columns) normalized = Inr fitted"
    using step by (auto simp: data_row_def and_then_Inr_iff)
  let ?cells = "map2 (\<lambda>c (value, _). (col_name c, value)) columns fitted"
  let ?observed = "map2 (\<lambda>c (_, t). observe_type t c) columns fitted"
  show ?thesis
  proof (cases "list_all (\<lambda>(value, _). value = JNull) fitted")
    case True
    with step n f start show ?thesis by (simp add: data_row_def)
  next
    case False
    define w where "w = write_line gz (row_payload i name number ?cells) nz"
    from step n f False obtain nz1 where limit: "sh_records sh < REPORT_MAX_ROWS_PER_SHEET"
      "nz_total_cells nz + length columns \<le> REPORT_MAX_TOTAL_CELLS"
      and w: "write_line gz (row_payload i name number ?cells) nz = Inr nz1"
      and sh': "sh' = sh\<lparr> sh_header := Some (h, ?observed), sh_records := sh_records sh + 1 \<rparr>"
      and nz': "nz' = nz1\<lparr> nz_record_count := nz_record_count nz + 1,
                  nz_total_cells := nz_total_cells nz + length columns \<rparr>"
      by (auto simp: data_row_def Let_def and_then_Inr_iff split: if_splits)
    obtain rows where rows: "nz_lines nz = nz_lines nz0 @ map (row_line i name) rows"
      "sh_records sh = length rows" "good_columns columns (length rows)" "list_all (good_row vok columns i name) rows"
      using start header by (auto simp: sheet_progress_def)
    have len: "length fitted = length columns" using fit_row_Inr [OF f] by simp
    have vok: "list_all (\<lambda>(v, _). vok v) fitted"
      using fit_row_Inr [OF f] normalized_wf [OF n cells] null by (fastforce simp: list_all_iff)
    have good: "good_row vok columns i name (number, ?cells)"
      using write_line_Inr [OF w] vok len values_names [OF len]
      by (auto simp: good_row_def list_all_length split: prod.splits)
    note written = write_line_Inr [OF w]
    have lines: "nz_lines nz1 = nz_lines nz @ [row_line i name (number, ?cells)]"
      using written by (simp add: row_line_def)
    have ok: "normalizer_ok nz'"
      using start written limit(2) by (auto simp: nz' normalizer_ok_def sheet_progress_def total_length_def)
    have "good_columns ?observed (Suc (length rows))" by (rule observed_columns(1) [OF rows(3) len])
    moreover have "good_row vok ?observed i name = good_row vok columns i name"
      by (rule good_row_names) (rule observed_columns(2) [OF rows(3) len])
    ultimately have "\<exists>rows. nz_lines nz' = nz_lines nz0 @ map (row_line i name) rows \<and> sh_records sh' = length rows
       \<and> length rows \<le> REPORT_MAX_ROWS_PER_SHEET \<and> good_columns ?observed (length rows)
       \<and> list_all (good_row vok ?observed i name) rows"
      using rows good limit(1) lines
      by (intro exI [of _ "rows @ [(number, ?cells)]"]) (simp add: sh' nz')
    moreover have "nz_sheets nz' = nz_sheets nz0" using start written by (simp add: nz' sheet_progress_def)
    ultimately show ?thesis using ok by (simp add: sheet_progress_def sh')
  qed
qed

lemma build_columns_good:
  assumes "build_columns nfc cells = Inr columns" "length cells \<le> REPORT_MAX_COLUMNS_PER_SHEET"
  shows "good_columns columns 0"
proof -
  from assms(1) have *: "map col_index columns = [0..<length cells]" "list_all fresh_column columns"
    "\<forall>c \<in> set columns. col_type_counts c = (\<lambda>_. 0)" "distinct (map (py_casefold \<circ> col_name) columns)"
    using build_columns_from [of nfc 0 "[]" cells columns] by (simp_all add: build_columns_def)
  from arg_cong [OF *(1), of length] have "length columns = length cells" by simp
  with * assms(2) show ?thesis by (simp add: good_columns_def list_all_iff VALUE_TYPE_ORDER_def)
qed

lemma drop_null_length: "drop_null cs = Inr ds \<Longrightarrow> length ds \<le> length cs"
  by (induction cs arbitrary: ds) (auto simp: and_then_Inr_iff split: if_splits)

lemma header_row_progress:
  assumes step: "header_row nfc number raw sh = Inr sh'" and width: "length raw \<le> REPORT_MAX_COLUMNS_PER_SHEET"
    and header: "sh_header sh = None" and start: "sheet_progress vok i name nz0 sh nz"
  shows "sheet_progress vok i name nz0 sh' nz"
proof (cases "sh' = sh")
  case False
  with step obtain trimmed columns where t: "trim_header raw = Inr trimmed" "build_columns nfc trimmed = Inr columns"
    "sh' = sh\<lparr> sh_header := Some (number, columns) \<rparr>"
    by (auto simp: header_row_def and_then_Inr_iff split: if_splits)
  have "length trimmed \<le> length raw"
    using t(1) drop_null_length [of "rev raw"] by (auto simp: trim_header_def and_then_Inr_iff)
  with width have "good_columns columns 0" by (intro build_columns_good [OF t(2)]) simp
  with start header show ?thesis by (simp add: sheet_progress_def t(3))
qed (use start in simp)

definition row_ok :: "(json \<Rightarrow> bool) \<Rightarrow> sheet_row \<Rightarrow> bool" where
  "row_ok vok r = (case snd r of Inl _ \<Rightarrow> True | Inr cells \<Rightarrow> list_all (cell_ok vok) cells)"

lemma progress_scanned: "sheet_progress vok i name nz0 (sh\<lparr> sh_scanned := n \<rparr>) nz = sheet_progress vok i name nz0 sh nz"
  by (cases "sh_header sh") (auto simp: sheet_progress_def)

lemma add_rows_progress:
  "add_rows nfc gz i name rows sh nz = Inr (sh', nz') \<Longrightarrow> list_all (row_ok vok) rows
   \<Longrightarrow> vok JNull \<Longrightarrow> sheet_progress vok i name nz0 sh nz \<Longrightarrow> sheet_progress vok i name nz0 sh' nz'"
proof (induction rows arbitrary: sh nz)
  case (Cons r rows)
  obtain number row where r: "r = (number, row)" by (cases r)
  let ?sh1 = "sh\<lparr> sh_scanned := sh_scanned sh + 1 \<rparr>"
  from Cons.prems(1) obtain raw where raw: "row = Inr raw" "length raw \<le> REPORT_MAX_COLUMNS_PER_SHEET"
    by (auto simp: r Let_def and_then_Inr_iff split: if_splits)
  have cells: "list_all (cell_ok vok) raw" using Cons.prems(2) by (simp add: r row_ok_def raw)
  have start: "sheet_progress vok i name nz0 ?sh1 nz" using Cons.prems(4) by (simp add: progress_scanned)
  show ?case
  proof (cases "sh_header sh")
    case None
    with Cons.prems(1) raw obtain sh2 where "header_row nfc number raw ?sh1 = Inr sh2"
      "add_rows nfc gz i name rows sh2 nz = Inr (sh', nz')"
      by (auto simp: r Let_def and_then_Inr_iff split: if_splits)
    with header_row_progress [OF _ raw(2) _ start] Cons None show ?thesis by simp
  next
    case (Some hc)
    obtain h columns where hc: "hc = (h, columns)" by (cases hc)
    with Cons.prems(1) raw Some obtain sh2 nz2 where "data_row gz i name h columns number raw ?sh1 nz = Inr (sh2, nz2)"
      "add_rows nfc gz i name rows sh2 nz2 = Inr (sh', nz')"
      by (auto simp: r Let_def and_then_Inr_iff split: if_splits)
    with data_row_progress [OF _ Cons.prems(3) cells _ start] Cons Some hc show ?thesis by simp
  qed
qed simp

section \<open>What a parsed report is\<close>

text \<open>\<open>nok\<close> and \<open>vok\<close> are properties of the names of the sheets and of the values of the cells.\<close>

record parsed_sheet =
  ps_index :: nat
  ps_name :: string
  ps_header :: nat
  ps_columns :: "column_profile list"
  ps_rows :: "(nat \<times> (string \<times> json) list) list"

definition sheet_json :: "parsed_sheet \<Rightarrow> json" where
  "sheet_json g = render_sheet (ps_index g) (ps_name g) (ps_header g) (length (ps_rows g)) (ps_columns g)"

definition sheet_lines :: "parsed_sheet \<Rightarrow> string list" where
  "sheet_lines g = map (row_line (ps_index g) (ps_name g)) (ps_rows g)"

definition good_sheet :: "(string \<Rightarrow> bool) \<Rightarrow> (json \<Rightarrow> bool) \<Rightarrow> parsed_sheet \<Rightarrow> bool" where
  "good_sheet nok vok g \<longleftrightarrow> good_columns (ps_columns g) (length (ps_rows g)) \<and> nok (ps_name g)
     \<and> length (ps_rows g) \<le> REPORT_MAX_ROWS_PER_SHEET
     \<and> list_all (good_row vok (ps_columns g) (ps_index g) (ps_name g)) (ps_rows g)"

text \<open>\<open>k\<close> is above the index of every sheet so far.\<close>

definition report_of_sheets :: "(string \<Rightarrow> bool) \<Rightarrow> (json \<Rightarrow> bool) \<Rightarrow> nat \<Rightarrow> parsed_sheet list \<Rightarrow> normalizer \<Rightarrow> bool" where
  "report_of_sheets nok vok k gs nz \<longleftrightarrow> normalizer_ok nz \<and> nz_sheets nz = map sheet_json gs
     \<and> nz_lines nz = concat (map sheet_lines gs) \<and> list_all (good_sheet nok vok) gs
     \<and> distinct (map ps_index gs) \<and> (\<forall>g \<in> set gs. ps_index g < k) \<and> length gs \<le> REPORT_MAX_SHEETS"

lemma add_sheet_parsed:
  assumes step: "add_sheet nfc gz i name rows nz = Inr nz'" and rows: "list_all (row_ok vok) rows"
    and null: "vok JNull" and name: "nok name" and start: "report_of_sheets nok vok i gs nz"
  shows "\<exists>gs'. report_of_sheets nok vok (Suc i) gs' nz'"
proof -
  from step obtain sh nz1 where add: "add_rows nfc gz i name rows start_sheet nz = Inr (sh, nz1)"
    and few: "length (nz_sheets nz) < REPORT_MAX_SHEETS"
    by (auto simp: add_sheet_def and_then_Inr_iff split: if_splits)
  have "sheet_progress vok i name nz start_sheet nz"
    using start by (simp add: sheet_progress_def start_sheet_def report_of_sheets_def)
  from add_rows_progress [OF add rows null this] have progress: "sheet_progress vok i name nz sh nz1" .
  show ?thesis
  proof (cases "sh_header sh")
    case None
    with progress start have "report_of_sheets nok vok (Suc i) gs nz1"
      by (auto simp: sheet_progress_def report_of_sheets_def normalizer_ok_def)
    with step few add None show ?thesis by (auto simp: add_sheet_def)
  next
    case (Some hc)
    obtain h columns where hc: "hc = (h, columns)" by (cases hc)
    with progress Some obtain rs where rs: "nz_lines nz1 = nz_lines nz @ map (row_line i name) rs"
      "sh_records sh = length rs" "length rs \<le> REPORT_MAX_ROWS_PER_SHEET"
      "good_columns columns (length rs)" "list_all (good_row vok columns i name) rs"
      by (auto simp: sheet_progress_def)
    define g where "g = \<lparr> ps_index = i, ps_name = name, ps_header = h, ps_columns = columns, ps_rows = rs \<rparr>"
    have "nz' = nz1\<lparr> nz_sheets := nz_sheets nz1 @ [sheet_json g] \<rparr>"
      using step few add Some hc by (simp add: add_sheet_def g_def sheet_json_def rs(2))
    then have "report_of_sheets nok vok (Suc i) (gs @ [g]) nz'"
      using progress start rs name few
      by (auto simp: report_of_sheets_def sheet_progress_def normalizer_ok_def sheet_lines_def good_sheet_def g_def)
    then show ?thesis ..
  qed
qed

definition worksheet_ok :: "(string \<Rightarrow> bool) \<Rightarrow> (json \<Rightarrow> bool) \<Rightarrow> worksheet \<Rightarrow> bool" where
  "worksheet_ok nok vok w \<longleftrightarrow> nok (ws_title w) \<and> list_all (row_ok vok) (ws_rows w)"

definition xls_sheet_ok :: "(string \<Rightarrow> bool) \<Rightarrow> (json \<Rightarrow> bool) \<Rightarrow> xls_sheet option \<Rightarrow> bool" where
  "xls_sheet_ok nok vok s = null_or (\<lambda>w. nok (xs_name w) \<and> list_all (row_ok vok) (xls_sheet_rows w)) s"

text \<open>What the readers of the workbooks give: sheets whose names and cells have the properties.\<close>

definition readers_ok :: "(string \<Rightarrow> bool) \<Rightarrow> (json \<Rightarrow> bool) \<Rightarrow> report_packages \<Rightarrow> string \<Rightarrow> bool" where
  "readers_ok nok vok pk content \<longleftrightarrow> null_or (list_all (worksheet_ok nok vok)) (rp_open_xlsx pk content)
     \<and> null_or (list_all (xls_sheet_ok nok vok)) (rp_open_xls pk content)"

lemma add_worksheets_parsed:
  "add_worksheets pk i ws nz = Inr nz' \<Longrightarrow> list_all (worksheet_ok nok vok) ws \<Longrightarrow> vok JNull \<Longrightarrow> report_of_sheets nok vok i gs nz
   \<Longrightarrow> \<exists>k gs'. report_of_sheets nok vok k gs' nz'"
proof (induction pk i ws nz arbitrary: gs rule: add_worksheets.induct)
  case (2 pk i w ws nz)
  then obtain nz1 where step: "add_sheet (rp_nfc pk) (rp_gzip pk) i (ws_title w) (ws_rows w) nz = Inr nz1"
    "add_worksheets pk (Suc i) ws nz1 = Inr nz'" "\<not> REPORT_MAX_COLUMNS_PER_SHEET < ws_max_column w"
    "\<not> REPORT_MAX_SCANNED_ROWS_PER_SHEET < ws_max_row w"
    by (auto simp: and_then_Inr_iff split: if_splits)
  have sheet: "nok (ws_title w)" "list_all (row_ok vok) (ws_rows w)" using "2.prems"(2) by (simp_all add: worksheet_ok_def)
  obtain gs1 where "report_of_sheets nok vok (Suc i) gs1 nz1"
    using add_sheet_parsed [OF step(1) sheet(2) "2.prems"(3) sheet(1) "2.prems"(4)] by blast
  with "2.IH" [OF step(3,4,2) _ "2.prems"(3)] "2.prems"(2) show ?case by simp
qed auto

lemma add_xls_sheets_parsed:
  "add_xls_sheets pk i ws nz = Inr nz' \<Longrightarrow> list_all (xls_sheet_ok nok vok) ws \<Longrightarrow> vok JNull \<Longrightarrow> report_of_sheets nok vok i gs nz
   \<Longrightarrow> \<exists>k gs'. report_of_sheets nok vok k gs' nz'"
proof (induction pk i ws nz arbitrary: gs rule: add_xls_sheets.induct)
  case (3 pk i w ws nz)
  then obtain nz1 where step: "add_sheet (rp_nfc pk) (rp_gzip pk) i (xs_name w) (xls_sheet_rows w) nz = Inr nz1"
    "add_xls_sheets pk (Suc i) ws nz1 = Inr nz'" "\<not> REPORT_MAX_COLUMNS_PER_SHEET < xs_ncols w"
    "\<not> REPORT_MAX_SCANNED_ROWS_PER_SHEET < xs_nrows w"
    by (auto simp: and_then_Inr_iff split: if_splits)
  have sheet: "nok (xs_name w)" "list_all (row_ok vok) (xls_sheet_rows w)" using "3.prems"(2) by (simp_all add: xls_sheet_ok_def)
  obtain gs1 where "report_of_sheets nok vok (Suc i) gs1 nz1"
    using add_sheet_parsed [OF step(1) sheet(2) "3.prems"(3) sheet(1) "3.prems"(4)] by blast
  with "3.IH" [OF step(3,4,2) _ "3.prems"(3)] "3.prems"(2) show ?case by simp
qed auto

lemma text_cell_ok: "vok JNull \<Longrightarrow> (\<And>s. vok (JStr s)) \<Longrightarrow> cell_ok vok (Cell_str s)"
  by (simp add: cell_ok_def normalize_value_def normalize_text_def)

lemma csv_rows_ok:
  "vok JNull \<Longrightarrow> (\<And>s. vok (JStr s)) \<Longrightarrow> list_all (row_ok vok) (csv_sheet rows)"
  by (auto simp: csv_sheet_def list_all_iff row_ok_def text_cell_ok split: option.splits)

lemma normalize_report_parsed:
  assumes "normalize_report pk ctx content = Inr nz" "readers_ok nok vok pk content" "vok JNull" "\<And>s. vok (JStr s)" "nok ''data''"
  shows "\<exists>k gs. report_of_sheets nok vok k gs nz" and "pc_file_extension ctx \<in> {''csv'', ''xlsx'', ''xls''}"
proof -
  have start: "report_of_sheets nok vok 0 [] empty_normalizer"
    by (simp add: report_of_sheets_def empty_normalizer_def normalizer_ok_def total_length_def)
  show "\<exists>k gs. report_of_sheets nok vok k gs nz"
  proof (cases "pc_file_extension ctx = ''csv''")
    case True
    with assms(1) obtain decoded where
      "add_sheet (rp_nfc pk) (rp_gzip pk) 0 ''data'' (csv_sheet (csv_rows Start_record [] [] decoded)) empty_normalizer = Inr nz"
      by (auto simp: normalize_report_def parse_csv_def split: option.splits)
    from add_sheet_parsed [OF this csv_rows_ok [OF assms(3,4)] assms(3,5) start] show ?thesis by blast
  next
    case csv: False
    show ?thesis
    proof (cases "pc_file_extension ctx = ''xlsx''")
      case True
      with csv assms(1) obtain ws where "add_worksheets pk 0 ws empty_normalizer = Inr nz" "rp_open_xlsx pk content = Some ws"
        by (auto simp: normalize_report_def parse_xlsx_def split: option.splits if_splits)
      with add_worksheets_parsed [OF _ _ assms(3) start] assms(2) show ?thesis by (auto simp: readers_ok_def)
    next
      case False
      with csv assms(1) obtain ws where "add_xls_sheets pk 0 ws empty_normalizer = Inr nz" "rp_open_xls pk content = Some ws"
        by (auto simp: normalize_report_def parse_xls_def split: option.splits if_splits)
      with add_xls_sheets_parsed [OF _ _ assms(3) start] assms(2) show ?thesis by (auto simp: readers_ok_def)
    qed
  qed
  show "pc_file_extension ctx \<in> {''csv'', ''xlsx'', ''xls''}"
    using assms(1) by (auto simp: normalize_report_def split: if_splits)
qed

end
