(* ===== verification/Dashboard_Schema.thy ===== *)
theory Dashboard_Schema
  imports Json_Text Model_Dashboard
begin

text \<open>
  \<open>app/schemas/dashboard.py\<close>: the goals and fields of an insight, the contract of each dashboard type, and the
  validators of a dashboard's title, configuration and insight mapping.  A \<open>ValueError\<close> of a validator is \<open>None\<close>;
  what pydantic itself checks of the types of a request is done when a value has the type of the model.
\<close>

definition DASHBOARD_INSIGHT_CONFIGURATION_VERSION :: int where "DASHBOARD_INSIGHT_CONFIGURATION_VERSION = 1"
definition DASHBOARD_INSIGHT_CALCULATION_VERSION :: int where "DASHBOARD_INSIGHT_CALCULATION_VERSION = 1"

datatype dashboard_goal = IMPROVE_CASH_FLOW | INCREASE_PROFITABILITY | REDUCE_EXPENSES | GROW_REVENUE
  | IMPROVE_COLLECTIONS_AR | STAY_ON_BUDGET | IMPROVE_FORECASTING | BENCHMARK_AGAINST_PEERS
  | IMPROVE_OPERATIONAL_EFFICIENCY

primrec goal_value :: "dashboard_goal \<Rightarrow> string" where
  "goal_value IMPROVE_CASH_FLOW = ''improve_cash_flow''"
| "goal_value INCREASE_PROFITABILITY = ''increase_profitability''"
| "goal_value REDUCE_EXPENSES = ''reduce_expenses''"
| "goal_value GROW_REVENUE = ''grow_revenue''"
| "goal_value IMPROVE_COLLECTIONS_AR = ''improve_collections_ar''"
| "goal_value STAY_ON_BUDGET = ''stay_on_budget''"
| "goal_value IMPROVE_FORECASTING = ''improve_forecasting''"
| "goal_value BENCHMARK_AGAINST_PEERS = ''benchmark_against_peers''"
| "goal_value IMPROVE_OPERATIONAL_EFFICIENCY = ''improve_operational_efficiency''"

datatype insight_field = PERIOD | LOCATION | EXPENSES | REVENUE | NET_CASH | CATEGORY | GROSS_MARGIN | SPEND
  | CASH_BALANCE | BUDGET | DEPARTMENT | VENDOR | STATUS_TITLE | STATUS_DETAIL | STATUS | PROGRESS

primrec field_value :: "insight_field \<Rightarrow> string" where
  "field_value PERIOD = ''period''"
| "field_value LOCATION = ''location''"
| "field_value EXPENSES = ''expenses''"
| "field_value REVENUE = ''revenue''"
| "field_value NET_CASH = ''net_cash''"
| "field_value CATEGORY = ''category''"
| "field_value GROSS_MARGIN = ''gross_margin''"
| "field_value SPEND = ''spend''"
| "field_value CASH_BALANCE = ''cash_balance''"
| "field_value BUDGET = ''budget''"
| "field_value DEPARTMENT = ''department''"
| "field_value VENDOR = ''vendor''"
| "field_value STATUS_TITLE = ''status_title''"
| "field_value STATUS_DETAIL = ''status_detail''"
| "field_value STATUS = ''status''"
| "field_value PROGRESS = ''progress''"

definition all_goals :: "dashboard_goal list" where
  "all_goals = [IMPROVE_CASH_FLOW, INCREASE_PROFITABILITY, REDUCE_EXPENSES, GROW_REVENUE,
     IMPROVE_COLLECTIONS_AR, STAY_ON_BUDGET, IMPROVE_FORECASTING, BENCHMARK_AGAINST_PEERS,
     IMPROVE_OPERATIONAL_EFFICIENCY]"

definition all_fields :: "insight_field list" where
  "all_fields = [PERIOD, LOCATION, EXPENSES, REVENUE, NET_CASH, CATEGORY, GROSS_MARGIN, SPEND,
     CASH_BALANCE, BUDGET, DEPARTMENT, VENDOR, STATUS_TITLE, STATUS_DETAIL, STATUS, PROGRESS]"

section \<open>The contract of the dashboard types\<close>

definition MAX_DASHBOARD_CONFIGURATION_BYTES :: nat where "MAX_DASHBOARD_CONFIGURATION_BYTES = 16 * 1024"
definition MAX_DASHBOARD_CONFIGURATION_DEPTH :: nat where "MAX_DASHBOARD_CONFIGURATION_DEPTH = 6"
definition MAX_DASHBOARD_CONFIGURATION_ITEMS :: nat where "MAX_DASHBOARD_CONFIGURATION_ITEMS = 512"
definition MAX_DASHBOARD_CONFIGURATION_KEY_LENGTH :: nat where "MAX_DASHBOARD_CONFIGURATION_KEY_LENGTH = 120"
definition MAX_DASHBOARD_INSIGHT_DATASETS :: nat where "MAX_DASHBOARD_INSIGHT_DATASETS = 20"
definition MAX_DASHBOARD_INSIGHT_GOALS :: nat where "MAX_DASHBOARD_INSIGHT_GOALS = 3"
definition MAX_DASHBOARD_SOURCE_COLUMN_LENGTH :: nat where "MAX_DASHBOARD_SOURCE_COLUMN_LENGTH = 300"

lemmas configuration_limits = MAX_DASHBOARD_CONFIGURATION_DEPTH_def MAX_DASHBOARD_CONFIGURATION_ITEMS_def
  MAX_DASHBOARD_CONFIGURATION_KEY_LENGTH_def MAX_DASHBOARD_CONFIGURATION_BYTES_def

definition NUMERIC_INSIGHT_FIELDS :: "insight_field list" where
  "NUMERIC_INSIGHT_FIELDS = [EXPENSES, REVENUE, NET_CASH, GROSS_MARGIN, SPEND, CASH_BALANCE, BUDGET, PROGRESS]"

fun DASHBOARD_INSIGHT_FIELDS :: "dashboard_type \<Rightarrow> insight_field list" where
  "DASHBOARD_INSIGHT_FIELDS EXECUTIVE_SUMMARY =
     [PERIOD, LOCATION, EXPENSES, REVENUE, NET_CASH, CATEGORY, GROSS_MARGIN]"
| "DASHBOARD_INSIGHT_FIELDS FINANCIAL_PERFORMANCE =
     [PERIOD, LOCATION, REVENUE, SPEND, CASH_BALANCE, BUDGET, CATEGORY]"
| "DASHBOARD_INSIGHT_FIELDS OPERATIONAL_KPI =
     [PERIOD, DEPARTMENT, VENDOR, EXPENSES, STATUS_TITLE, STATUS_DETAIL, STATUS, PROGRESS]"

fun DASHBOARD_REQUIRED_INSIGHT_FIELDS :: "dashboard_type \<Rightarrow> insight_field list" where
  "DASHBOARD_REQUIRED_INSIGHT_FIELDS EXECUTIVE_SUMMARY = DASHBOARD_INSIGHT_FIELDS EXECUTIVE_SUMMARY"
| "DASHBOARD_REQUIRED_INSIGHT_FIELDS FINANCIAL_PERFORMANCE = DASHBOARD_INSIGHT_FIELDS FINANCIAL_PERFORMANCE"
| "DASHBOARD_REQUIRED_INSIGHT_FIELDS OPERATIONAL_KPI = [PERIOD, DEPARTMENT, VENDOR, EXPENSES]"

fun DASHBOARD_REQUIRED_DATASET_FIELD_GROUPS :: "dashboard_type \<Rightarrow> insight_field list list" where
  "DASHBOARD_REQUIRED_DATASET_FIELD_GROUPS EXECUTIVE_SUMMARY = [[PERIOD, EXPENSES, CATEGORY, LOCATION]]"
| "DASHBOARD_REQUIRED_DATASET_FIELD_GROUPS FINANCIAL_PERFORMANCE = [[PERIOD, SPEND, CATEGORY, LOCATION]]"
| "DASHBOARD_REQUIRED_DATASET_FIELD_GROUPS OPERATIONAL_KPI = [[PERIOD, EXPENSES, DEPARTMENT, VENDOR]]"

fun DASHBOARD_OUTFLOW_DIMENSIONS :: "dashboard_type \<Rightarrow> insight_field \<times> insight_field list" where
  "DASHBOARD_OUTFLOW_DIMENSIONS EXECUTIVE_SUMMARY = (EXPENSES, [CATEGORY, LOCATION])"
| "DASHBOARD_OUTFLOW_DIMENSIONS FINANCIAL_PERFORMANCE = (SPEND, [CATEGORY, LOCATION])"
| "DASHBOARD_OUTFLOW_DIMENSIONS OPERATIONAL_KPI = (EXPENSES, [DEPARTMENT, VENDOR])"

section \<open>Configuration and title\<close>

text \<open>The counter of the items goes in and comes out; every value that is not JSON has no constructor.\<close>

fun validate_json_value :: "nat \<Rightarrow> json \<Rightarrow> nat \<Rightarrow> nat option"
and validate_json_list :: "nat \<Rightarrow> json list \<Rightarrow> nat \<Rightarrow> nat option"
and validate_json_items :: "nat \<Rightarrow> (string \<times> json) list \<Rightarrow> nat \<Rightarrow> nat option" where
  "validate_json_value depth value counter =
     (if MAX_DASHBOARD_CONFIGURATION_DEPTH < depth then None
      else case value of
        JDict kvs \<Rightarrow> validate_json_items (depth + 1) kvs counter
      | JList xs \<Rightarrow> validate_json_list (depth + 1) xs counter
      | JFloat digits \<Rightarrow> if is_null digits then None else Some counter
      | _ \<Rightarrow> Some counter)"
| "validate_json_list depth [] counter = Some counter"
| "validate_json_list depth (x # xs) counter =
     (if MAX_DASHBOARD_CONFIGURATION_ITEMS < counter + 1 then None
      else case validate_json_value depth x (counter + 1) of
        None \<Rightarrow> None
      | Some counter' \<Rightarrow> validate_json_list depth xs counter')"
| "validate_json_items depth [] counter = Some counter"
| "validate_json_items depth ((key, x) # kvs) counter =
     (if MAX_DASHBOARD_CONFIGURATION_ITEMS < counter + 1 then None
      else if \<not> (1 \<le> length key \<and> length key \<le> MAX_DASHBOARD_CONFIGURATION_KEY_LENGTH) then None
      else case validate_json_value depth x (counter + 1) of
        None \<Rightarrow> None
      | Some counter' \<Rightarrow> validate_json_items depth kvs counter')"

declare validate_json_value.simps [simp del]

definition validate_dashboard_configuration :: "stripe_object \<Rightarrow> stripe_object option" where
  "validate_dashboard_configuration value =
     (case validate_json_value 0 (JDict value) 0 of
        None \<Rightarrow> None
      | Some _ \<Rightarrow>
        (case json_render (JDict value) of
           None \<Rightarrow> None
         | Some text \<Rightarrow>
             if MAX_DASHBOARD_CONFIGURATION_BYTES < utf8_length text then None else Some value))"

definition normalize_dashboard_title :: "string \<Rightarrow> string option" where
  "normalize_dashboard_title value =
     (let normalized = py_strip value
      in if 1 \<le> length normalized \<and> length normalized \<le> DASHBOARD_TITLE_MAX_LENGTH
         then Some normalized else None)"

section \<open>Insight mappings\<close>

record dataset_mapping =
  dm_processing_job_id :: uuid
  dm_sheet_index :: int
  dm_sheet_name :: string
  dm_columns :: "(insight_field \<times> string) list"

record insight_configuration =
  ic_version :: int
  ic_goals :: "dashboard_goal list"
  ic_datasets :: "dataset_mapping list"

fun normalize_columns ::
  "(insight_field \<times> string) list \<Rightarrow> string list \<Rightarrow> (insight_field \<times> string) list option" where
  "normalize_columns [] used = Some []"
| "normalize_columns ((field, column_name) # rest) used =
     (let cleaned = py_strip column_name
      in if \<not> (1 \<le> length cleaned \<and> length cleaned \<le> MAX_DASHBOARD_SOURCE_COLUMN_LENGTH) then None
         else if py_casefold cleaned \<in> set used then None
         else map_option (\<lambda>columns. (field, cleaned) # columns)
                (normalize_columns rest (py_casefold cleaned # used)))"

text \<open>The field constraints and validators of one mapping; the keys of a dictionary are distinct.\<close>

definition validate_dataset :: "dataset_mapping \<Rightarrow> dataset_mapping option" where
  "validate_dataset m =
     (if dm_sheet_index m < 0 then None
      else if \<not> (1 \<le> length (dm_sheet_name m) \<and> length (dm_sheet_name m) \<le> 255) then None
      else if py_strip (dm_sheet_name m) = [] then None
      else if \<not> (1 \<le> length (dm_columns m) \<and> length (dm_columns m) \<le> length all_fields) then None
      else map_option (\<lambda>columns. m\<lparr> dm_columns := columns \<rparr>) (normalize_columns (dm_columns m) []))"

definition dataset_key :: "dataset_mapping \<Rightarrow> uuid \<times> int \<times> string" where
  "dataset_key m = (dm_processing_job_id m, dm_sheet_index m, py_casefold (dm_sheet_name m))"

definition validate_insight_configuration :: "insight_configuration \<Rightarrow> insight_configuration option" where
  "validate_insight_configuration c =
     (if ic_version c \<noteq> DASHBOARD_INSIGHT_CONFIGURATION_VERSION then None
      else if \<not> (1 \<le> length (ic_goals c) \<and> length (ic_goals c) \<le> MAX_DASHBOARD_INSIGHT_GOALS) then None
      else if \<not> (1 \<le> length (ic_datasets c) \<and> length (ic_datasets c) \<le> MAX_DASHBOARD_INSIGHT_DATASETS)
      then None
      else case all_some (map validate_dataset (ic_datasets c)) of
        None \<Rightarrow> None
      | Some datasets \<Rightarrow>
          if \<not> distinct (ic_goals c) then None
          else if \<not> distinct (map dataset_key datasets) then None
          else Some (c\<lparr> ic_datasets := datasets \<rparr>))"

definition dataset_fields :: "dataset_mapping \<Rightarrow> insight_field list" where
  "dataset_fields m = map fst (dm_columns m)"

definition mapped_fields :: "insight_configuration \<Rightarrow> insight_field list" where
  "mapped_fields c = concat (map dataset_fields (ic_datasets c))"

definition dataset_valid_for :: "dashboard_type \<Rightarrow> dataset_mapping \<Rightarrow> bool" where
  "dataset_valid_for t m =
     (let (outflow, dimensions) = DASHBOARD_OUTFLOW_DIMENSIONS t
      in \<not> ((\<exists>f \<in> set (dataset_fields m). f \<in> set NUMERIC_INSIGHT_FIELDS) \<and> PERIOD \<notin> set (dataset_fields m))
       \<and> \<not> (outflow \<in> set (dataset_fields m)
           \<and> \<not> set ([PERIOD, outflow] @ dimensions) \<subseteq> set (dataset_fields m)))"

definition validate_insight_configuration_for_type ::
  "dashboard_type \<Rightarrow> insight_configuration \<Rightarrow> bool" where
  "validate_insight_configuration_for_type t c \<longleftrightarrow>
     set (mapped_fields c) \<subseteq> set (DASHBOARD_INSIGHT_FIELDS t)
   \<and> set (DASHBOARD_REQUIRED_INSIGHT_FIELDS t) \<subseteq> set (mapped_fields c)
   \<and> list_all (dataset_valid_for t) (ic_datasets c)
   \<and> list_all (\<lambda>required. list_ex (\<lambda>m. set required \<subseteq> set (dataset_fields m)) (ic_datasets c))
       (DASHBOARD_REQUIRED_DATASET_FIELD_GROUPS t)"

text \<open>\<open>model_dump(mode="json")\<close> of a configuration.\<close>

definition dump_dataset :: "dataset_mapping \<Rightarrow> json" where
  "dump_dataset m = JDict
     [(''processing_job_id'', JStr (uuid_str (dm_processing_job_id m))),
      (''sheet_index'', JInt (dm_sheet_index m)), (''sheet_name'', JStr (dm_sheet_name m)),
      (''columns'', JDict (map (\<lambda>(f, c). (field_value f, JStr c)) (dm_columns m)))]"

definition dump_insight_configuration :: "insight_configuration \<Rightarrow> json" where
  "dump_insight_configuration c = JDict
     [(''version'', JInt (ic_version c)), (''goals'', JList (map (\<lambda>g. JStr (goal_value g)) (ic_goals c))),
      (''datasets'', JList (map dump_dataset (ic_datasets c)))]"

section \<open>Requests\<close>

record dashboard_create =
  dc_dashboard_type :: dashboard_type
  dc_title :: string
  dc_configuration :: stripe_object
  dc_insight_configuration :: "insight_configuration option"

text \<open>The length of a raw title is bounded before its validator strips it.\<close>

definition valid_title :: "string \<Rightarrow> string option" where
  "valid_title t = (if DASHBOARD_TITLE_MAX_LENGTH < length t then None else normalize_dashboard_title t)"

definition validate_dashboard_create :: "dashboard_create \<Rightarrow> dashboard_create option" where
  "validate_dashboard_create p =
     (case (valid_title (dc_title p), validate_dashboard_configuration (dc_configuration p)) of
        (Some title, Some configuration) \<Rightarrow>
          (case dc_insight_configuration p of
             None \<Rightarrow> Some (p\<lparr> dc_title := title, dc_configuration := configuration \<rparr>)
           | Some c \<Rightarrow>
             (case validate_insight_configuration c of
                None \<Rightarrow> None
              | Some c' \<Rightarrow>
                  if validate_insight_configuration_for_type (dc_dashboard_type p) c'
                  then Some (p\<lparr> dc_title := title, dc_configuration := configuration,
                               dc_insight_configuration := Some c' \<rparr>)
                  else None))
      | _ \<Rightarrow> None)"

text \<open>An update has the fields that the request sets; a null is refused for each of them.\<close>

record dashboard_update =
  du_title :: "string option"
  du_configuration :: "stripe_object option"
  du_insight_configuration :: "insight_configuration option"

definition check_set :: "('a \<Rightarrow> 'a option) \<Rightarrow> 'a option \<Rightarrow> 'a option option" where
  "check_set f x = (case x of None \<Rightarrow> Some None | Some v \<Rightarrow> map_option Some (f v))"

definition validate_dashboard_update :: "dashboard_update \<Rightarrow> dashboard_update option" where
  "validate_dashboard_update p =
     (case (check_set valid_title (du_title p),
            check_set validate_dashboard_configuration (du_configuration p),
            check_set validate_insight_configuration (du_insight_configuration p)) of
        (Some title, Some configuration, Some insight) \<Rightarrow>
          if is_null title \<and> is_null configuration \<and> is_null insight then None
          else Some \<lparr> du_title = title, du_configuration = configuration, du_insight_configuration = insight \<rparr>
      | _ \<Rightarrow> None)"

end
