(* ===== verification/Dashboard_Insights.thy ===== *)
theory Dashboard_Insights
  imports Dashboard_Schema Decimals
begin

text \<open>
  \<open>DashboardInsightAccumulator\<close> of \<open>app/services/dashboard_insights.py\<close>: how the mapped rows of the reports are
  accumulated.  A dictionary is a list of pairs in the order of insertion (\<open>AList.update\<close>), one with a fixed
  set of keys a function.  \<open>order\<close> is the order in which the interpreter iterates the frozen set of the
  numeric fields.
\<close>

definition DASHBOARD_INSIGHT_MAX_PERIODS :: nat where "DASHBOARD_INSIGHT_MAX_PERIODS = 600"
definition DASHBOARD_INSIGHT_MAX_DIMENSION_VALUES :: nat where "DASHBOARD_INSIGHT_MAX_DIMENSION_VALUES = 1000"
definition DASHBOARD_INSIGHT_MAX_STATUS_UPDATES :: nat where "DASHBOARD_INSIGHT_MAX_STATUS_UPDATES = 200"

definition DASHBOARD_INSIGHT_MAX_PERIOD_DIMENSION_POINTS :: nat where
  "DASHBOARD_INSIGHT_MAX_PERIOD_DIMENSION_POINTS = 20000"

definition DASHBOARD_INSIGHT_MAX_LABEL_LENGTH :: nat where "DASHBOARD_INSIGHT_MAX_LABEL_LENGTH = 255"

definition DASHBOARD_INSIGHT_MAX_STATUS_DETAIL_LENGTH :: nat where
  "DASHBOARD_INSIGHT_MAX_STATUS_DETAIL_LENGTH = 2000"

definition DASHBOARD_INSIGHT_DECIMAL_PRECISION :: nat where "DASHBOARD_INSIGHT_DECIMAL_PRECISION = 80"

definition CURRENCY_SYMBOLS :: "char list" where "CURRENCY_SYMBOLS = [CHR ''$'', CHR 0xA3, CHR 0xA5]"

definition NUMERIC_FIELDS :: "insight_field list" where
  "NUMERIC_FIELDS = [EXPENSES, REVENUE, NET_CASH, GROSS_MARGIN, SPEND, CASH_BALANCE, BUDGET]"

definition CURRENCY_FIELDS :: "insight_field list" where
  "CURRENCY_FIELDS = [EXPENSES, REVENUE, NET_CASH, SPEND, CASH_BALANCE, BUDGET]"

definition PERCENT_FIELDS :: "insight_field list" where "PERCENT_FIELDS = [GROSS_MARGIN, PROGRESS]"
definition NON_ADDITIVE_FIELDS :: "insight_field list" where
  "NON_ADDITIVE_FIELDS = [NET_CASH, CASH_BALANCE, GROSS_MARGIN]"

fun REQUIRED_NUMERIC_FIELDS :: "dashboard_type \<Rightarrow> insight_field list" where
  "REQUIRED_NUMERIC_FIELDS EXECUTIVE_SUMMARY = [EXPENSES, REVENUE, NET_CASH, GROSS_MARGIN]"
| "REQUIRED_NUMERIC_FIELDS FINANCIAL_PERFORMANCE = [REVENUE, SPEND, CASH_BALANCE, BUDGET]"
| "REQUIRED_NUMERIC_FIELDS OPERATIONAL_KPI = [EXPENSES]"

definition DIMENSION_FIELDS :: "insight_field list" where
  "DIMENSION_FIELDS = [LOCATION, CATEGORY, DEPARTMENT, VENDOR]"

fun DIMENSION_AGGREGATIONS :: "dashboard_type \<Rightarrow> (insight_field \<times> insight_field) list" where
  "DIMENSION_AGGREGATIONS EXECUTIVE_SUMMARY = [(EXPENSES, CATEGORY), (EXPENSES, LOCATION)]"
| "DIMENSION_AGGREGATIONS FINANCIAL_PERFORMANCE = [(SPEND, CATEGORY), (SPEND, LOCATION)]"
| "DIMENSION_AGGREGATIONS OPERATIONAL_KPI = [(EXPENSES, DEPARTMENT), (EXPENSES, VENDOR)]"

text \<open>\<open>DashboardInsightDataError\<close> with its code; \<open>InsightKeyError\<close> is a column that a row does not have.\<close>

datatype insight_error = InsightDataError string | InsightKeyError

section \<open>Numbers and labels of cells\<close>

abbreviation decimal_plus :: "decimal \<Rightarrow> decimal \<Rightarrow> decimal" where
  "decimal_plus \<equiv> dec_add DASHBOARD_INSIGHT_DECIMAL_PRECISION"

text \<open>The pattern \<open>[+-]?\d{1,3}(,\d{3})+(\.\d{1,20})?\<close>, matched in full.\<close>

definition grouped_decimal :: "string \<Rightarrow> bool" where
  "grouped_decimal s =
     (let unsigned = (case s of c # cs \<Rightarrow> if c = CHR ''+'' \<or> c = CHR ''-'' then cs else s | [] \<Rightarrow> []);
          whole = takeWhile (\<lambda>c. c \<noteq> CHR ''.'') unsigned; rest = drop (length whole) unsigned;
          groups = split_on (CHR '','') whole
      in list_all (list_all digit) groups \<and> 2 \<le> length groups
       \<and> 1 \<le> length (hd groups) \<and> length (hd groups) \<le> 3 \<and> list_all (\<lambda>g. length g = 3) (tl groups)
       \<and> (case rest of [] \<Rightarrow> True
          | _ # places \<Rightarrow> 1 \<le> length places \<and> length places \<le> 20 \<and> list_all digit places))"

text \<open>The minus sign U+2212 and the currency symbols beyond Latin-1 are no characters of the model.\<close>

definition without_percent :: "bool \<Rightarrow> string \<Rightarrow> string option" where
  "without_percent allowed s =
     (if has_suffix ''%'' s then (if allowed then Some (py_strip (butlast s)) else None) else Some s)"

definition without_leading_symbol :: "bool \<Rightarrow> string \<Rightarrow> string option" where
  "without_leading_symbol allowed s =
     (if s \<noteq> [] \<and> hd s \<in> set CURRENCY_SYMBOLS then (if allowed then Some (py_strip (tl s)) else None) else Some s)"

definition without_trailing_symbol :: "bool \<Rightarrow> string \<Rightarrow> string option" where
  "without_trailing_symbol allowed s =
     (if s \<noteq> [] \<and> last s \<in> set CURRENCY_SYMBOLS then (if allowed then Some (py_strip (butlast s)) else None)
      else Some s)"

definition without_groups :: "string \<Rightarrow> string option" where
  "without_groups s =
     (if CHR '','' \<in> set s
      then (if grouped_decimal s then Some (filter (\<lambda>c. c \<noteq> CHR '','') s) else None) else Some s)"

definition amount_of_text :: "bool \<Rightarrow> bool \<Rightarrow> string \<Rightarrow> decimal option" where
  "amount_of_text allow_currency allow_percent s =
     (let candidate = py_strip s;
          negative = has_prefix ''('' candidate \<and> has_suffix '')'' candidate;
          inner = (if negative then py_strip (butlast (tl candidate)) else candidate)
      in Option.bind (without_percent allow_percent inner) (\<lambda>a.
         Option.bind (without_leading_symbol allow_currency a) (\<lambda>b.
         Option.bind (without_trailing_symbol allow_currency b) (\<lambda>c.
         Option.bind (without_groups (filter (\<lambda>x. x \<noteq> CHR '' '') c)) (\<lambda>e.
           if negative
           then (if has_prefix ''+'' e \<or> has_prefix ''-'' e then None
                 else strict_decimal_text (CHR ''-'' # e))
           else strict_decimal_text e)))))"

definition amount_of :: "bool \<Rightarrow> bool \<Rightarrow> json \<Rightarrow> decimal option" where
  "amount_of allow_currency allow_percent value =
     (case value of
        JInt n \<Rightarrow> Some (dec_of_int n)
      | JFloat (Some s) \<Rightarrow> float_decimal s
      | JStr s \<Rightarrow> amount_of_text allow_currency allow_percent s
      | _ \<Rightarrow> None)"

definition label_of :: "nat \<Rightarrow> json \<Rightarrow> insight_error + string option" where
  "label_of maximum value =
     (case value of
        JNull \<Rightarrow> Inr None
      | _ \<Rightarrow>
          let rendered = (case value of JBool b \<Rightarrow> if b then ''true'' else ''false''
                | _ \<Rightarrow> py_strip (join_with '' '' (py_words (py_str value))))
          in if rendered = [] then Inr None
             else if maximum < length rendered then Inl (InsightDataError ''mapped_text_value_too_large'')
             else Inr (Some rendered))"

section \<open>The accumulator\<close>

type_synonym dataset_id = "uuid \<times> int \<times> string"

record numeric_stats =
  ns_count :: nat
  ns_total :: decimal
  ns_minimum :: "decimal option"
  ns_maximum :: "decimal option"

definition no_stats :: numeric_stats where
  "no_stats = \<lparr> ns_count = 0, ns_total = Dec 0 0, ns_minimum = None, ns_maximum = None \<rparr>"

definition smaller :: "decimal option \<Rightarrow> decimal \<Rightarrow> decimal" where
  "smaller x v = (case x of None \<Rightarrow> v | Some m \<Rightarrow> if dec_less v m then v else m)"

definition larger :: "decimal option \<Rightarrow> decimal \<Rightarrow> decimal" where
  "larger x v = (case x of None \<Rightarrow> v | Some m \<Rightarrow> if dec_less m v then v else m)"

definition observe_number :: "decimal \<Rightarrow> numeric_stats \<Rightarrow> numeric_stats" where
  "observe_number v s =
     \<lparr> ns_count = ns_count s + 1, ns_total = decimal_plus (ns_total s) v,
       ns_minimum = Some (smaller (ns_minimum s) v), ns_maximum = Some (larger (ns_maximum s) v) \<rparr>"

definition stats_average :: "numeric_stats \<Rightarrow> decimal option" where
  "stats_average s =
     (if ns_count s = 0 then None
      else Some (dec_div DASHBOARD_INSIGHT_DECIMAL_PRECISION (ns_total s) (dec_of_int (int (ns_count s)))))"

record status_update =
  su_period :: "string option"
  su_title :: "string option"
  su_detail :: "string option"
  su_status :: "string option"
  su_progress_decimal :: "string option"

record insight_accumulator =
  ia_type :: dashboard_type
  ia_configuration :: insight_configuration
  ia_validated :: "dataset_id list"
  ia_totals :: "insight_field \<Rightarrow> numeric_stats option"
  ia_by_period :: "insight_field \<Rightarrow> (string \<times> decimal) list"
  ia_by_dimension :: "insight_field \<times> insight_field \<Rightarrow> (string \<times> decimal) list"
  ia_by_period_dimension :: "insight_field \<times> insight_field \<Rightarrow> (string \<times> (string \<times> decimal) list) list"
  ia_unique_values :: "insight_field \<Rightarrow> string list"
  ia_status_updates :: "status_update list"
  ia_point_values :: "insight_field \<times> string \<Rightarrow> decimal option"
  ia_measure_dataset :: "insight_field \<times> string \<Rightarrow> dataset_id option"
  ia_point_count :: nat
  ia_mapped_row_count :: nat

definition new_accumulator :: "dashboard_type \<Rightarrow> insight_configuration \<Rightarrow> insight_accumulator" where
  "new_accumulator t c =
     \<lparr> ia_type = t, ia_configuration = c, ia_validated = [], ia_totals = (\<lambda>_. None),
       ia_by_period = (\<lambda>_. []), ia_by_dimension = (\<lambda>_. []), ia_by_period_dimension = (\<lambda>_. []),
       ia_unique_values = (\<lambda>_. []), ia_status_updates = [], ia_point_values = (\<lambda>_. None),
       ia_measure_dataset = (\<lambda>_. None), ia_point_count = 0, ia_mapped_row_count = 0 \<rparr>"

definition ia_mappings :: "insight_accumulator \<Rightarrow> (dataset_id \<times> (insight_field \<times> string) list) list" where
  "ia_mappings a = map (\<lambda>m. ((dm_processing_job_id m, dm_sheet_index m, dm_sheet_name m), dm_columns m))
     (ic_datasets (ia_configuration a))"

definition mapping_of :: "insight_accumulator \<Rightarrow> dataset_id \<Rightarrow> (insight_field \<times> string) list option" where
  "mapping_of a key = map_of (rev (ia_mappings a)) key"

definition mapped_processing_job_ids :: "insight_accumulator \<Rightarrow> uuid list" where
  "mapped_processing_job_ids a = remdups (map (\<lambda>(k, _). fst k) (ia_mappings a))"

section \<open>The profile of a source\<close>

definition profile_sheet :: "json \<Rightarrow> insight_error + (int \<times> string) \<times> string list" where
  "profile_sheet sheet =
     (case (json_get ''index'' sheet, json_get ''name'' sheet, json_get ''columns'' sheet) of
        (JInt i, JStr name, JList columns) \<Rightarrow>
          let names = remdups (concat (map (\<lambda>c. case json_get ''name'' c of JStr s \<Rightarrow> [s] | _ \<Rightarrow> []) columns))
          in if length names \<noteq> length columns then Inl (InsightDataError ''mapped_profile_invalid'')
             else Inr ((i, name), names)
      | _ \<Rightarrow> Inl (InsightDataError ''mapped_profile_invalid''))"

fun validate_mappings ::
  "uuid \<Rightarrow> ((int \<times> string) \<times> string list) list \<Rightarrow> (dataset_id \<times> (insight_field \<times> string) list) list
   \<Rightarrow> insight_accumulator \<Rightarrow> insight_error + insight_accumulator" where
  "validate_mappings job indexed [] a = Inr a"
| "validate_mappings job indexed ((key, columns) # rest) a =
     (if fst key \<noteq> job then validate_mappings job indexed rest a
      else case map_of (rev indexed) (snd key) of
        None \<Rightarrow> Inl (InsightDataError ''mapped_source_column_not_found'')
      | Some available \<Rightarrow>
          if \<not> set (map snd columns) \<subseteq> set available
          then Inl (InsightDataError ''mapped_source_column_not_found'')
          else validate_mappings job indexed rest (a\<lparr> ia_validated := List.insert key (ia_validated a) \<rparr>))"

definition validate_insight_profile ::
  "uuid \<Rightarrow> json \<Rightarrow> insight_accumulator \<Rightarrow> insight_error + insight_accumulator" where
  "validate_insight_profile job profile a =
     (case json_get ''sheets'' profile of
        JList sheets \<Rightarrow>
          and_then (map_result profile_sheet sheets) (\<lambda>indexed.
            validate_mappings job indexed (ia_mappings a) a)
      | _ \<Rightarrow> Inl (InsightDataError ''mapped_profile_invalid''))"

section \<open>Observing a row\<close>

definition put_amount :: "string \<Rightarrow> decimal \<Rightarrow> (string \<times> decimal) list \<Rightarrow> (string \<times> decimal) list" where
  "put_amount k v kvs = AList.update k
     (decimal_plus (case map_of kvs k of None \<Rightarrow> Dec 0 0 | Some w \<Rightarrow> w) v) kvs"

definition observe_unique ::
  "insight_field \<Rightarrow> string \<Rightarrow> insight_accumulator \<Rightarrow> insight_error + insight_accumulator" where
  "observe_unique f v a =
     (let vs = List.insert v (ia_unique_values a f);
          a' = a\<lparr> ia_unique_values := (ia_unique_values a)(f := vs) \<rparr>
      in if DASHBOARD_INSIGHT_MAX_DIMENSION_VALUES < length vs
         then Inl (InsightDataError ''mapped_dimension_cardinality_exceeded'') else Inr a')"

definition observe_period_value ::
  "insight_field \<Rightarrow> string \<Rightarrow> decimal \<Rightarrow> insight_accumulator \<Rightarrow> insight_error + insight_accumulator" where
  "observe_period_value f period v a =
     (let vs = put_amount period v (ia_by_period a f);
          a' = a\<lparr> ia_by_period := (ia_by_period a)(f := vs) \<rparr>
      in if DASHBOARD_INSIGHT_MAX_PERIODS < length vs
         then Inl (InsightDataError ''mapped_period_cardinality_exceeded'') else Inr a')"

definition row_semantic ::
  "(insight_field \<times> string) list \<Rightarrow> stripe_object \<Rightarrow> insight_error + (insight_field \<times> json) list" where
  "row_semantic columns values =
     map_result (\<lambda>(f, c). case map_of values c of None \<Rightarrow> Inl InsightKeyError | Some v \<Rightarrow> Inr (f, v)) columns"

text \<open>The labels of the mapped dimensions, in the order of the dimension fields.\<close>

fun observe_dimensions ::
  "(insight_field \<times> json) list \<Rightarrow> insight_field list \<Rightarrow> insight_accumulator
   \<Rightarrow> insight_error + (insight_field \<times> string) list \<times> insight_accumulator" where
  "observe_dimensions semantic [] a = Inr ([], a)"
| "observe_dimensions semantic (f # fs) a =
     (case map_of semantic f of
        None \<Rightarrow> observe_dimensions semantic fs a
      | Some value \<Rightarrow>
          and_then (label_of DASHBOARD_INSIGHT_MAX_LABEL_LENGTH value) (\<lambda>rendered.
            case rendered of
              None \<Rightarrow> observe_dimensions semantic fs a
            | Some label \<Rightarrow>
                and_then (observe_unique f label a) (\<lambda>a'.
                and_then (observe_dimensions semantic fs a') (\<lambda>(dimensions, a'').
                  Inr ((f, label) # dimensions, a'')))))"

definition observe_dimension_amount ::
  "insight_field \<Rightarrow> string \<Rightarrow> decimal \<Rightarrow> insight_field \<times> string \<Rightarrow> insight_accumulator
   \<Rightarrow> insight_error + insight_accumulator" where
  "observe_dimension_amount f period v dimension a =
     (case dimension of (d, label) \<Rightarrow>
        if (f, d) \<notin> set (DIMENSION_AGGREGATIONS (ia_type a)) then Inr a
        else
          let totals = put_amount label v (ia_by_dimension a (f, d));
              periods = ia_by_period_dimension a (f, d);
              values = (case map_of periods period of None \<Rightarrow> [] | Some vs \<Rightarrow> vs);
              count = (if label \<in> fst ` set values then ia_point_count a else ia_point_count a + 1)
          in if label \<notin> fst ` set values \<and> DASHBOARD_INSIGHT_MAX_PERIOD_DIMENSION_POINTS < count
             then Inl (InsightDataError ''mapped_series_cardinality_exceeded'')
             else Inr (a\<lparr> ia_by_dimension := (ia_by_dimension a)((f, d) := totals),
                         ia_by_period_dimension := (ia_by_period_dimension a)
                           ((f, d) := AList.update period (put_amount label v values) periods),
                         ia_point_count := count \<rparr>))"

text \<open>The amount of a field that adds up, or the first one of its period of a field that does not.\<close>

definition add_amount ::
  "insight_field \<Rightarrow> string \<Rightarrow> decimal \<Rightarrow> (insight_field \<times> string) list \<Rightarrow> insight_accumulator
   \<Rightarrow> insight_error + insight_accumulator" where
  "add_amount f period v dimensions a =
     (let stats = (case ia_totals a f of None \<Rightarrow> no_stats | Some s \<Rightarrow> s);
          a' = a\<lparr> ia_totals := (ia_totals a)(f := Some (observe_number v stats)) \<rparr>
      in and_then (observe_period_value f period v a')
           (fold_result (observe_dimension_amount f period v) dimensions))"

definition observe_amount ::
  "dataset_id \<Rightarrow> insight_field \<Rightarrow> string \<Rightarrow> decimal \<Rightarrow> (insight_field \<times> string) list
   \<Rightarrow> insight_accumulator \<Rightarrow> insight_error + insight_accumulator" where
  "observe_amount key f period v dimensions a =
     (if ia_measure_dataset a (f, period) \<notin> {None, Some key}
      then Inl (InsightDataError ''mapped_measure_period_overlap'')
      else
        let a1 = a\<lparr> ia_measure_dataset := (ia_measure_dataset a)((f, period) := Some key) \<rparr>;
            (outflow, required) = DASHBOARD_OUTFLOW_DIMENSIONS (ia_type a)
        in if f = outflow \<and> list_ex (\<lambda>d. d \<notin> fst ` set dimensions) required
           then Inl (InsightDataError ''mapped_required_dimension_value_missing'')
           else if f \<in> set NON_ADDITIVE_FIELDS
           then (case ia_point_values a1 (f, period) of
                   Some prior \<Rightarrow>
                     if \<not> dec_eq prior v
                     then Inl (InsightDataError ''mapped_point_in_time_value_ambiguous'') else Inr a1
                 | None \<Rightarrow> add_amount f period v dimensions
                     (a1\<lparr> ia_point_values := (ia_point_values a1)((f, period) := Some v) \<rparr>))
           else add_amount f period v dimensions a1)"

text \<open>One pass of the loop over the numeric fields; the flag is \<open>observed_numeric\<close>.\<close>

definition observe_field ::
  "dataset_id \<Rightarrow> (insight_field \<times> json) list \<Rightarrow> string option \<Rightarrow> (insight_field \<times> string) list
   \<Rightarrow> insight_field \<Rightarrow> bool \<times> insight_accumulator \<Rightarrow> insight_error + bool \<times> insight_accumulator" where
  "observe_field key semantic period dimensions f s =
     (case map_of semantic f of
        None \<Rightarrow> Inr s
      | Some JNull \<Rightarrow> Inr s
      | Some value \<Rightarrow>
        (case amount_of (f \<in> set CURRENCY_FIELDS) (f \<in> set PERCENT_FIELDS) value of
           None \<Rightarrow> Inl (InsightDataError ''mapped_numeric_value_invalid'')
         | Some v \<Rightarrow>
           (case period of
              None \<Rightarrow> Inl (InsightDataError ''mapped_period_value_missing'')
            | Some p \<Rightarrow>
                and_then (observe_amount key f p v dimensions (snd s)) (\<lambda>a. Inr (True, a)))))"

definition STATUS_FIELDS :: "insight_field list" where
  "STATUS_FIELDS = [STATUS_TITLE, STATUS_DETAIL, STATUS, PROGRESS]"

definition semantic_value :: "(insight_field \<times> json) list \<Rightarrow> insight_field \<Rightarrow> json" where
  "semantic_value semantic f = (case map_of semantic f of None \<Rightarrow> JNull | Some v \<Rightarrow> v)"

definition observe_status ::
  "(insight_field \<times> json) list \<Rightarrow> string option \<Rightarrow> insight_accumulator \<Rightarrow> insight_error + insight_accumulator" where
  "observe_status semantic period a =
     (if \<not> list_ex (\<lambda>f. semantic_value semantic f \<noteq> JNull) STATUS_FIELDS then Inr a
      else if DASHBOARD_INSIGHT_MAX_STATUS_UPDATES \<le> length (ia_status_updates a)
      then Inl (InsightDataError ''mapped_status_update_limit_exceeded'')
      else
        let progress = semantic_value semantic PROGRESS;
            amount = amount_of False True progress
        in if progress \<noteq> JNull \<and> is_null amount
           then Inl (InsightDataError ''mapped_numeric_value_invalid'')
           else
             and_then (label_of DASHBOARD_INSIGHT_MAX_LABEL_LENGTH (semantic_value semantic STATUS_TITLE)) (\<lambda>title.
             and_then (label_of DASHBOARD_INSIGHT_MAX_STATUS_DETAIL_LENGTH (semantic_value semantic STATUS_DETAIL)) (\<lambda>detail.
             and_then (label_of DASHBOARD_INSIGHT_MAX_LABEL_LENGTH (semantic_value semantic STATUS)) (\<lambda>status.
               Inr (a\<lparr> ia_status_updates := ia_status_updates a @
                 [\<lparr> su_period = period, su_title = title, su_detail = detail, su_status = status,
                    su_progress_decimal = map_option decimal_text amount \<rparr>] \<rparr>)))))"

definition observe_row ::
  "insight_field list \<Rightarrow> dataset_id \<Rightarrow> stripe_object \<Rightarrow> insight_accumulator
   \<Rightarrow> insight_error + insight_accumulator" where
  "observe_row order key values a =
     (case mapping_of a key of
        None \<Rightarrow> Inr a
      | Some columns \<Rightarrow>
          and_then (row_semantic columns values) (\<lambda>semantic.
          and_then (label_of DASHBOARD_INSIGHT_MAX_LABEL_LENGTH (semantic_value semantic PERIOD)) (\<lambda>period.
          and_then (observe_dimensions semantic DIMENSION_FIELDS a) (\<lambda>(dimensions, a1).
          and_then (fold_result (observe_field key semantic period dimensions) order (False, a1)) (\<lambda>(observed, a2).
            observe_status semantic period
              (if observed then a2\<lparr> ia_mapped_row_count := ia_mapped_row_count a2 + 1 \<rparr> else a2))))))"

text \<open>
  The rendering of an accumulator.  \<open>datetime.fromisoformat\<close> and \<open>datetime.strptime\<close> are the argument \<open>dates\<close>;
  \<open>enum\<close> is the order in which the interpreter iterates a set of strings.  The decimal context of the whole
  rendering has the insight precision.
\<close>

record date_parsers =
  from_iso :: "string \<Rightarrow> (int \<times> int \<times> int \<times> int \<times> int) option"
  strptime :: "string \<Rightarrow> string \<Rightarrow> (int \<times> int \<times> int) option"

section \<open>The order of periods\<close>

definition PERIOD_PATTERNS :: "string list" where
  "PERIOD_PATTERNS = [''%Y-%m'', ''%b-%y'', ''%b %Y'', ''%B %Y'', ''%b'', ''%B'', ''%Y'']"

definition has_year :: "string \<Rightarrow> bool" where
  "has_year pattern \<longleftrightarrow> has_infix ''%Y'' pattern \<or> has_infix ''%y'' pattern"

definition with_utc_offset :: "string \<Rightarrow> string" where
  "with_utc_offset s = concat (map (\<lambda>c. if c = CHR ''Z'' then ''+00:00'' else [c]) s)"

fun parse_patterns :: "date_parsers \<Rightarrow> string list \<Rightarrow> string \<Rightarrow> (int \<times> int \<times> int) option" where
  "parse_patterns dates [] s = None"
| "parse_patterns dates (pattern # patterns) s =
     (case strptime dates s pattern of
        None \<Rightarrow> parse_patterns dates patterns s
      | Some (y, m, d) \<Rightarrow> Some (if has_year pattern then y else 0, m, d))"

text \<open>The three kinds of keys are compared as one tuple: dates before numbers before other texts.\<close>

type_synonym period_key = "nat \<times> int list \<times> rat \<times> string"

definition period_sort_key :: "date_parsers \<Rightarrow> string \<Rightarrow> period_key" where
  "period_sort_key dates period =
     (let candidate = py_strip period
      in case from_iso dates (with_utc_offset candidate) of
           Some (y, m, d, h, mi) \<Rightarrow> (0, [y, m, d, h, mi], 0, [])
         | None \<Rightarrow>
           (case parse_patterns dates PERIOD_PATTERNS candidate of
              Some (y, m, d) \<Rightarrow> (0, [y, m, d, 0, 0], 0, [])
            | None \<Rightarrow>
              (case amount_of_text False False candidate of
                 Some v \<Rightarrow> (1, [], dec_val v, [])
               | None \<Rightarrow> (2, [], 0, py_casefold candidate))))"

definition sorted_periods :: "date_parsers \<Rightarrow> (string \<times> 'v) list \<Rightarrow> string list" where
  "sorted_periods dates values =
     sort_key (\<lambda>p. (period_sort_key dates p, py_casefold p)) (map fst values)"

definition lookup :: "(string \<times> 'v) list \<Rightarrow> string \<Rightarrow> 'v \<Rightarrow> 'v" where
  "lookup kvs k v = (case map_of kvs k of None \<Rightarrow> v | Some w \<Rightarrow> w)"

abbreviation (input) zero :: decimal where "zero \<equiv> Dec 0 0"

definition amount_at :: "(string \<times> decimal) list \<Rightarrow> string \<Rightarrow> decimal" where
  "amount_at kvs k = lookup kvs k (Dec 0 0)"

section \<open>Arithmetic and labels\<close>

abbreviation decimal_minus :: "decimal \<Rightarrow> decimal \<Rightarrow> decimal" where
  "decimal_minus \<equiv> dec_sub DASHBOARD_INSIGHT_DECIMAL_PRECISION"

abbreviation decimal_divide :: "decimal \<Rightarrow> decimal \<Rightarrow> decimal" where
  "decimal_divide \<equiv> dec_div DASHBOARD_INSIGHT_DECIMAL_PRECISION"

abbreviation decimal_times :: "decimal \<Rightarrow> decimal \<Rightarrow> decimal" where
  "decimal_times \<equiv> dec_mul DASHBOARD_INSIGHT_DECIMAL_PRECISION"

definition decimal_sum :: "decimal list \<Rightarrow> decimal" where
  "decimal_sum xs = foldl decimal_plus (Dec 0 0) xs"

definition ratio_percent :: "decimal \<Rightarrow> decimal \<Rightarrow> decimal option" where
  "ratio_percent numerator denominator =
     (if dec_is_zero denominator then None
      else Some (decimal_times (decimal_divide numerator denominator) (dec_of_int 100)))"

definition decimal_json :: "decimal option \<Rightarrow> json" where
  "decimal_json v = (case v of None \<Rightarrow> JNull | Some x \<Rightarrow> JStr (decimal_text x))"

definition text_json :: "string option \<Rightarrow> json" where
  "text_json v = (case v of None \<Rightarrow> JNull | Some s \<Rightarrow> JStr s)"

definition fields_json :: "insight_field list \<Rightarrow> json" where
  "fields_json fs = JList (map (\<lambda>f. JStr (field_value f)) fs)"

primrec FIELD_LABELS :: "insight_field \<Rightarrow> string" where
  "FIELD_LABELS PERIOD = ''Period''"
| "FIELD_LABELS LOCATION = ''Location''"
| "FIELD_LABELS EXPENSES = ''Expenses''"
| "FIELD_LABELS REVENUE = ''Revenue''"
| "FIELD_LABELS NET_CASH = ''Cash Balance''"
| "FIELD_LABELS CATEGORY = ''Category''"
| "FIELD_LABELS GROSS_MARGIN = ''Gross Margin''"
| "FIELD_LABELS SPEND = ''Spend''"
| "FIELD_LABELS CASH_BALANCE = ''Cash Balance''"
| "FIELD_LABELS BUDGET = ''Budgeted Spend''"
| "FIELD_LABELS DEPARTMENT = ''Department''"
| "FIELD_LABELS VENDOR = ''Vendor''"
| "FIELD_LABELS STATUS_TITLE = ''Status Update''"
| "FIELD_LABELS STATUS_DETAIL = ''Status Detail''"
| "FIELD_LABELS STATUS = ''Status''"
| "FIELD_LABELS PROGRESS = ''Progress''"

section \<open>Parts of the payload\<close>

definition metric ::
  "string \<Rightarrow> string \<Rightarrow> string \<Rightarrow> string \<Rightarrow> insight_field list \<Rightarrow> decimal option \<Rightarrow> json" where
  "metric key label unit calculation source_fields v = JDict
     [(''key'', JStr key), (''label'', JStr label), (''unit'', JStr unit), (''value_decimal'', decimal_json v),
      (''availability'', JStr (if is_null v then ''unavailable'' else ''available'')),
      (''calculation'', JStr calculation), (''source_fields'', fields_json source_fields)]"

definition point :: "string \<Rightarrow> decimal option \<Rightarrow> json" where
  "point label v = JDict [(''label'', JStr label), (''value_decimal'', decimal_json v)]"

definition total_of :: "insight_accumulator \<Rightarrow> insight_field \<Rightarrow> decimal option" where
  "total_of a f =
     (case ia_totals a f of None \<Rightarrow> None | Some s \<Rightarrow> if ns_count s = 0 then None else Some (ns_total s))"

definition average_of :: "insight_accumulator \<Rightarrow> insight_field \<Rightarrow> decimal option" where
  "average_of a f = (case ia_totals a f of None \<Rightarrow> None | Some s \<Rightarrow> stats_average s)"

definition latest_of :: "date_parsers \<Rightarrow> insight_accumulator \<Rightarrow> insight_field \<Rightarrow> decimal option" where
  "latest_of dates a f =
     (let values = ia_by_period a f; periods = sorted_periods dates values
      in if periods = [] then None else Some (amount_at values (last periods)))"

definition period_points :: "date_parsers \<Rightarrow> (string \<times> decimal) list \<Rightarrow> json" where
  "period_points dates values =
     JList (map (\<lambda>p. point p (Some (amount_at values p))) (sorted_periods dates values))"

definition single_series ::
  "date_parsers \<Rightarrow> insight_accumulator \<Rightarrow> string \<Rightarrow> string \<Rightarrow> insight_field \<Rightarrow> string \<Rightarrow> string \<Rightarrow> json" where
  "single_series dates a key label f unit calculation = JDict
     [(''key'', JStr key), (''label'', JStr label), (''unit'', JStr unit),
      (''dimension'', JStr (field_value PERIOD)), (''calculation'', JStr calculation),
      (''source_fields'', fields_json [PERIOD, f]), (''points'', period_points dates (ia_by_period a f))]"

text \<open>The average of up to three latest changes.\<close>

definition cash_trend :: "decimal list \<Rightarrow> decimal" where
  "cash_trend amounts =
     (let recent = last_n 3 (map2 (\<lambda>prior current. decimal_minus current prior) amounts (tl amounts))
      in if recent = [] then Dec 0 0
         else decimal_divide (decimal_sum recent) (dec_of_int (int (length recent))))"

definition cash_flow_forecast_series :: "date_parsers \<Rightarrow> insight_accumulator \<Rightarrow> json" where
  "cash_flow_forecast_series dates a =
     (let values = ia_by_period a NET_CASH;
          periods = sorted_periods dates values;
          amounts = map (amount_at values) periods;
          trend = cash_trend amounts;
          forecast = (if periods = [] then []
            else point (last periods) (Some (last amounts))
              # map (\<lambda>step. point (''Forecast +'' @ dec_str step)
                    (Some (decimal_plus (last amounts) (decimal_times trend (dec_of_int (int step))))))
                  [1, 2, 3])
      in JDict
        [(''key'', JStr ''cash_flow_forecast''), (''label'', JStr ''Cash Flow Forecast''),
         (''unit'', JStr ''currency''), (''dimension'', JStr (field_value PERIOD)),
         (''calculation'', JStr (''three-period linear projection from the average of up to the ''
            @ ''three latest mapped net_cash period changes; one observed '' @ ''period uses carry-forward'')),
         (''source_fields'', fields_json [PERIOD, NET_CASH]),
         (''series'', JList
            [JDict [(''key'', JStr ''actual''), (''label'', JStr ''Actual''), (''points'', period_points dates values)],
             JDict [(''key'', JStr ''forecast''), (''label'', JStr ''Forecast''), (''points'', JList forecast)]])])"

definition comparison_series ::
  "date_parsers \<Rightarrow> insight_accumulator \<Rightarrow> string \<Rightarrow> string \<Rightarrow> insight_field list \<Rightarrow> string \<Rightarrow> json" where
  "comparison_series dates a key label fs unit = JDict
     [(''key'', JStr key), (''label'', JStr label), (''unit'', JStr unit),
      (''dimension'', JStr (field_value PERIOD)),
      (''calculation'', JStr ''sum each mapped measure by period''),
      (''source_fields'', fields_json (PERIOD # fs)),
      (''series'', JList (map (\<lambda>f. JDict
         [(''key'', JStr (field_value f)), (''label'', JStr (FIELD_LABELS f)),
          (''points'', period_points dates (ia_by_period a f))]) fs))]"

text \<open>The labels of a dimension, as the set comprehension of the code collects them.\<close>

definition dimension_labels :: "(string list \<Rightarrow> string list) \<Rightarrow> (string \<times> (string \<times> decimal) list) list \<Rightarrow> string list" where
  "dimension_labels enum period_values = enum (remdups (concat (map (\<lambda>(_, vs). map fst vs) period_values)))"

definition dimension_series ::
  "date_parsers \<Rightarrow> (string list \<Rightarrow> string list) \<Rightarrow> insight_accumulator \<Rightarrow> string \<Rightarrow> string
   \<Rightarrow> insight_field \<Rightarrow> insight_field \<Rightarrow> json" where
  "dimension_series dates enum a key label f d =
     (let period_values = ia_by_period_dimension a (f, d);
          totals = ia_by_dimension a (f, d);
          labels = sort_key (\<lambda>i. (- \<bar>dec_val (amount_at totals i)\<bar>, py_casefold i))
                     (dimension_labels enum period_values);
          periods = sorted_periods dates period_values
      in JDict
        [(''key'', JStr key), (''label'', JStr label), (''unit'', JStr ''currency''),
         (''dimension'', JStr (field_value PERIOD)), (''series_dimension'', JStr (field_value d)),
         (''calculation'', JStr (''sum('' @ field_value f @ '') by period and '' @ field_value d)),
         (''source_fields'', fields_json [PERIOD, d, f]),
         (''series'', JList (map (\<lambda>i. JDict
            [(''key'', JStr i), (''label'', JStr i),
             (''points'', JList (concat (map (\<lambda>p.
                case map_of (lookup period_values p []) i of
                  None \<Rightarrow> [] | Some v \<Rightarrow> [point p (Some v)]) periods)))]) labels))])"

definition breakdown_items :: "(string \<times> decimal) list \<Rightarrow> json list" where
  "breakdown_items values =
     (let total = decimal_sum (map snd values)
      in map (\<lambda>(l, v). JDict
           [(''label'', JStr l), (''value_decimal'', decimal_json (Some v)),
            (''share_percent_decimal'', decimal_json (ratio_percent v total))])
         (sort_key (\<lambda>(l, v). (- dec_val v, py_casefold l)) values))"

definition breakdown ::
  "insight_accumulator \<Rightarrow> string \<Rightarrow> string \<Rightarrow> insight_field \<Rightarrow> insight_field \<Rightarrow> json" where
  "breakdown a key label f d = JDict
     [(''key'', JStr key), (''label'', JStr label), (''unit'', JStr ''currency''),
      (''dimension'', JStr (field_value d)),
      (''calculation'', JStr (''sum('' @ field_value f @ '') by '' @ field_value d)),
      (''source_fields'', fields_json [d, f]),
      (''items'', JList (breakdown_items (ia_by_dimension a (f, d))))]"

end
