(* ===== verification/Insight_Payload.thy ===== *)
theory Insight_Payload
  imports Dashboard_Insights
begin

text \<open>
  The signals, recommendations and calculated sections of \<open>app/services/dashboard_insights.py\<close>, the rendered
  payload, and the public contract of the dashboard types.
\<close>

definition abs_value :: "decimal \<Rightarrow> rat" where "abs_value v = \<bar>dec_val v\<bar>"

text \<open>The key of a row is read back from its rendered variance.\<close>

definition variance_of_row :: "json \<Rightarrow> rat" where
  "variance_of_row row =
     (case json_get ''variance_decimal'' row of
        JStr s \<Rightarrow> (case strict_decimal_text s of None \<Rightarrow> 0 | Some v \<Rightarrow> abs_value v)
      | _ \<Rightarrow> 0)"

definition label_of_row :: "json \<Rightarrow> string" where
  "label_of_row row = (case json_get ''label'' row of JStr s \<Rightarrow> s | _ \<Rightarrow> [])"

definition variance_row :: "(string \<times> decimal) list option \<Rightarrow> (string \<times> decimal) list option \<Rightarrow> string \<Rightarrow> json" where
  "variance_row current_values prior_values item =
     (let current = (case current_values of None \<Rightarrow> Dec 0 0 | Some vs \<Rightarrow> amount_at vs item);
          with_prior = (\<lambda>f. case prior_values of None \<Rightarrow> JNull | Some vs \<Rightarrow> decimal_json (f (amount_at vs item)))
      in JDict
        [(''label'', JStr item),
         (''current_value_decimal'', decimal_json (Some current)),
         (''prior_value_decimal'', with_prior Some),
         (''variance_decimal'', with_prior (\<lambda>prior. Some (decimal_minus current prior))),
         (''variance_percent_decimal'', with_prior (\<lambda>prior. ratio_percent (decimal_minus current prior) prior))])"

definition variance_table ::
  "date_parsers \<Rightarrow> (string list \<Rightarrow> string list) \<Rightarrow> insight_accumulator \<Rightarrow> insight_field \<Rightarrow> insight_field \<Rightarrow> json" where
  "variance_table dates enum a f d =
     (let period_values = ia_by_period_dimension a (f, d);
          periods = sorted_periods dates period_values;
          current_period = (if periods = [] then None else Some (last periods));
          prior_period = (if length periods < 2 then None else Some (last (butlast periods)));
          values_of = map_option (\<lambda>p. lookup period_values p []);
          dimensions = sort_key py_casefold (dimension_labels enum period_values);
          rows = map (variance_row (values_of current_period) (values_of prior_period)) dimensions
      in JDict
        [(''key'', JStr ''spend_variance_by_category''), (''label'', JStr ''Spend Variance by Category''),
         (''unit'', JStr ''currency''), (''current_period'', text_json current_period),
         (''prior_period'', text_json prior_period),
         (''calculation'', JStr ''current period spend minus prior period spend by category''),
         (''source_fields'', fields_json [PERIOD, d, f]),
         (''rows'', JList (sort_key (\<lambda>row. (- variance_of_row row, py_casefold (label_of_row row))) rows))])"

section \<open>Signals\<close>

fun primary_fields :: "dashboard_type \<Rightarrow> insight_field list" where
  "primary_fields EXECUTIVE_SUMMARY = [REVENUE, EXPENSES, NET_CASH]"
| "primary_fields FINANCIAL_PERFORMANCE = [REVENUE, SPEND]"
| "primary_fields OPERATIONAL_KPI = [EXPENSES]"

definition period_change ::
  "insight_field \<Rightarrow> (string \<times> decimal) list \<Rightarrow> string \<Rightarrow> string \<Rightarrow> (string \<times> json) list" where
  "period_change f values prior_period current_period =
     (let prior = amount_at values prior_period; current = amount_at values current_period
      in case ratio_percent (decimal_minus current prior) (dec_abs prior) of
           None \<Rightarrow> []
         | Some change \<Rightarrow>
             if dec_less (dec_abs change) (dec_of_int 25) then []
             else [(current_period, JDict
               [(''key'', JStr ''period_over_period_change''), (''severity'', JStr ''attention''),
                (''field'', JStr (field_value f)), (''prior_period'', JStr prior_period),
                (''current_period'', JStr current_period),
                (''change_percent_decimal'', decimal_json (Some change)),
                (''message'', JStr (FIELD_LABELS f @ '' changed by '' @ decimal_text change @ ''% from ''
                   @ prior_period @ '' to '' @ current_period @ ''.''))])])"

text \<open>A stable sort in descending order keeps the order of equal keys.\<close>

definition sort_key_descending :: "('a \<Rightarrow> 'k::linorder) \<Rightarrow> 'a list \<Rightarrow> 'a list" where
  "sort_key_descending key xs = rev (sort_key key (rev xs))"

definition anomalies :: "date_parsers \<Rightarrow> insight_accumulator \<Rightarrow> json list" where
  "anomalies dates a =
     (let results = concat (map (\<lambda>f.
            let values = ia_by_period a f; periods = sorted_periods dates values
            in concat (map2 (period_change f values) periods (tl periods))) (primary_fields (ia_type a)))
      in map snd (take 20 (sort_key_descending (\<lambda>(p, _). period_sort_key dates p) results)))"

definition outflow_field :: "dashboard_type \<Rightarrow> insight_field" where
  "outflow_field t = (if t = FINANCIAL_PERFORMANCE then SPEND else EXPENSES)"

definition concentration_dimension :: "dashboard_type \<Rightarrow> insight_field" where
  "concentration_dimension t = (if t = OPERATIONAL_KPI then VENDOR else CATEGORY)"

text \<open>\<open>max\<close> with a key returns the first of the greatest items.\<close>

fun first_greatest :: "string \<times> decimal \<Rightarrow> (string \<times> decimal) list \<Rightarrow> string \<times> decimal" where
  "first_greatest best [] = best"
| "first_greatest best (x # xs) = first_greatest (if dec_less (snd best) (snd x) then x else best) xs"

fun top_item :: "(string \<times> decimal) list \<Rightarrow> (string \<times> decimal) option" where
  "top_item [] = None"
| "top_item (x # xs) = Some (first_greatest x xs)"

definition outflow_risk :: "insight_accumulator \<Rightarrow> json list" where
  "outflow_risk a =
     (case (total_of a REVENUE, total_of a (outflow_field (ia_type a))) of
        (Some revenue, Some outflow) \<Rightarrow>
          if dec_less revenue outflow
          then [JDict
            [(''key'', JStr ''outflow_exceeds_revenue''), (''severity'', JStr ''high''),
             (''message'', JStr ''Mapped outflow exceeds mapped revenue.''),
             (''evidence'', JDict [(''revenue_decimal'', decimal_json (Some revenue)),
                (''outflow_decimal'', decimal_json (Some outflow))])]]
          else []
      | _ \<Rightarrow> [])"

definition budget_risk :: "insight_accumulator \<Rightarrow> json list" where
  "budget_risk a =
     (case (total_of a BUDGET, total_of a SPEND) of
        (Some budget, Some spend) \<Rightarrow>
          if dec_less budget spend
          then [JDict
            [(''key'', JStr ''spend_above_budget''), (''severity'', JStr ''high''),
             (''message'', JStr ''Mapped spend is above mapped budget.''),
             (''evidence'', JDict [(''spend_decimal'', decimal_json (Some spend)),
                (''budget_decimal'', decimal_json (Some budget)),
                (''variance_decimal'', decimal_json (Some (decimal_minus spend budget)))])]]
          else []
      | _ \<Rightarrow> [])"

definition concentration_risk :: "insight_accumulator \<Rightarrow> json list" where
  "concentration_risk a =
     (let d = concentration_dimension (ia_type a);
          values = ia_by_dimension a (outflow_field (ia_type a), d);
          total = decimal_sum (map snd values)
      in case top_item values of
           None \<Rightarrow> []
         | Some (top_label, top_value) \<Rightarrow>
             if \<not> dec_less (Dec 0 0) total then []
             else case ratio_percent top_value total of
               None \<Rightarrow> []
             | Some share \<Rightarrow>
                 if \<not> dec_le (dec_of_int 50) share then []
                 else [JDict
                   [(''key'', JStr ''outflow_concentration''), (''severity'', JStr ''attention''),
                    (''message'', JStr (top_label @ '' represents '' @ decimal_text share @ ''% of mapped outflow.'')),
                    (''evidence'', JDict [(''dimension'', JStr (field_value d)), (''label'', JStr top_label),
                       (''share_percent_decimal'', decimal_json (Some share))])]])"

definition risks :: "insight_accumulator \<Rightarrow> json list" where
  "risks a = outflow_risk a @ budget_risk a @ concentration_risk a"

section \<open>Recommendations\<close>

definition top_evidence :: "insight_accumulator \<Rightarrow> (string \<times> decimal) option \<Rightarrow> (string \<times> json) list" where
  "top_evidence a greatest =
     (let d = concentration_dimension (ia_type a);
          total = decimal_sum (map snd (ia_by_dimension a (outflow_field (ia_type a), d)))
      in case greatest of
           None \<Rightarrow> []
         | Some (l, v) \<Rightarrow>
             [(''dimension'', JStr (field_value d)), (''label'', JStr l),
              (''value_decimal'', decimal_json (Some v)),
              (''share_percent_decimal'', decimal_json (ratio_percent v total))])"

fun cash_field :: "dashboard_type \<Rightarrow> insight_field option" where
  "cash_field EXECUTIVE_SUMMARY = Some NET_CASH"
| "cash_field FINANCIAL_PERFORMANCE = Some CASH_BALANCE"
| "cash_field OPERATIONAL_KPI = None"

definition cash_flow_advice :: "date_parsers \<Rightarrow> insight_accumulator \<Rightarrow> (string \<times> json) list \<Rightarrow> string \<times> (string \<times> json) list" where
  "cash_flow_advice dates a top_items =
     (let f = cash_field (ia_type a); cash_value = Option.bind f (latest_of dates a)
      in ((if is_null cash_value
           then ''Cash-balance evidence is not available in this dashboard; ''
             @ ''add an approved cash source before evaluating cash flow.''
           else ''Review the latest mapped cash evidence and largest outflow ''
             @ ''concentration before setting a cash-flow action.''),
          [(''cash_field'', text_json (map_option field_value f)),
           (''latest_cash_decimal'', decimal_json cash_value),
           (''outflow_decimal'', decimal_json (total_of a (outflow_field (ia_type a))))] @ top_items))"

definition reduction_advice ::
  "insight_accumulator \<Rightarrow> bool \<Rightarrow> (string \<times> decimal) option \<Rightarrow> (string \<times> json) list \<Rightarrow> string \<times> (string \<times> json) list" where
  "reduction_advice a efficiency greatest top_items =
     (case greatest of
        Some (l, _) \<Rightarrow>
          (''Review '' @ l @ '', the largest mapped '' @ field_value (concentration_dimension (ia_type a)) @ '' ''
             @ ''outflow, before setting ''
             @ (if efficiency then ''an efficiency action'' else ''a reduction action'') @ ''.'', top_items)
      | None \<Rightarrow>
          (''Mapped outflow concentration is not available; add an approved ''
             @ ''category or vendor source before setting a reduction action.'', []))"

definition budget_advice :: "insight_accumulator \<Rightarrow> string \<times> (string \<times> json) list" where
  "budget_advice a =
     (let budget = total_of a BUDGET; spend = total_of a SPEND
      in ((if is_null budget \<or> is_null spend
           then ''Budget and spend evidence is not available in this dashboard; ''
             @ ''add approved budget and spend sources before evaluating variance.''
           else ''Review mapped budget versus spend variance and assign owners ''
             @ ''to the largest category differences.''),
          [(''budget_decimal'', decimal_json budget), (''spend_decimal'', decimal_json spend)]))"

definition revenue_advice :: "insight_accumulator \<Rightarrow> string \<times> (string \<times> json) list" where
  "revenue_advice a =
     (let revenue = total_of a REVENUE
      in ((if is_null revenue
           then ''Revenue evidence is not available in this dashboard; add an ''
             @ ''approved revenue source before setting a growth target.''
           else ''Review period revenue changes and validate the drivers behind ''
             @ ''declines before setting a growth target.''),
          [(''revenue_decimal'', decimal_json revenue)]))"

definition profitability_advice :: "insight_accumulator \<Rightarrow> string \<times> (string \<times> json) list" where
  "profitability_advice a =
     (let revenue = total_of a REVENUE; outflow = total_of a (outflow_field (ia_type a));
          difference = (case (revenue, outflow) of
             (Some r, Some s) \<Rightarrow> Some (decimal_minus r s) | _ \<Rightarrow> None)
      in ((if is_null revenue \<or> is_null outflow
           then ''Revenue and outflow evidence is not available in this dashboard; ''
             @ ''add approved sources before evaluating profitability.''
           else ''Review the mapped revenue-to-outflow difference and the ''
             @ ''largest cost concentration before choosing a margin action.''),
          [(''revenue_decimal'', decimal_json revenue), (''outflow_decimal'', decimal_json outflow),
           (''difference_decimal'', decimal_json difference)]))"

definition mapped_periods :: "insight_accumulator \<Rightarrow> string list" where
  "mapped_periods a = remdups (concat (map (\<lambda>f. map fst (ia_by_period a f)) all_fields))"

definition forecasting_advice :: "insight_accumulator \<Rightarrow> string \<times> (string \<times> json) list" where
  "forecasting_advice a =
     (let n = length (mapped_periods a)
      in ((if n < 2
           then ''At least two mapped periods are required before using the '' @ ''dashboard as a forecast baseline.''
           else ''Review period coverage and investigate flagged changes before ''
             @ ''using the mapped trend as a forecast baseline.''),
          [(''mapped_period_count'', JInt (int n))]))"

fun advice :: "date_parsers \<Rightarrow> insight_accumulator \<Rightarrow> (string \<times> decimal) option \<Rightarrow> dashboard_goal
    \<Rightarrow> string \<times> (string \<times> json) list" where
  "advice dates a greatest BENCHMARK_AGAINST_PEERS =
     (''No approved peer benchmark is present in the mapped reports; ''
        @ ''add a governed benchmark source before making comparisons.'', [])"
| "advice dates a greatest IMPROVE_COLLECTIONS_AR =
     (''Accounts-receivable fields are not part of this dashboard ''
        @ ''mapping; add an approved AR source before evaluating collections.'', [])"
| "advice dates a greatest IMPROVE_CASH_FLOW = cash_flow_advice dates a (top_evidence a greatest)"
| "advice dates a greatest REDUCE_EXPENSES = reduction_advice a False greatest (top_evidence a greatest)"
| "advice dates a greatest IMPROVE_OPERATIONAL_EFFICIENCY = reduction_advice a True greatest (top_evidence a greatest)"
| "advice dates a greatest STAY_ON_BUDGET = budget_advice a"
| "advice dates a greatest GROW_REVENUE = revenue_advice a"
| "advice dates a greatest INCREASE_PROFITABILITY = profitability_advice a"
| "advice dates a greatest IMPROVE_FORECASTING = forecasting_advice a"

definition recommendations :: "date_parsers \<Rightarrow> insight_accumulator \<Rightarrow> json list" where
  "recommendations dates a =
     (let greatest = top_item (ia_by_dimension a (outflow_field (ia_type a), concentration_dimension (ia_type a)))
      in map (\<lambda>goal. case advice dates a greatest goal of (message, evidence) \<Rightarrow> JDict
           [(''key'', JStr (''goal_'' @ goal_value goal)), (''goal'', JStr (goal_value goal)),
            (''message'', JStr message), (''evidence'', JDict evidence)]) (ic_goals (ia_configuration a)))"

section \<open>The calculated sections\<close>

definition per_count :: "decimal option \<Rightarrow> nat \<Rightarrow> decimal option" where
  "per_count v n = (case v of None \<Rightarrow> None | Some x \<Rightarrow>
     if n = 0 then None else Some (decimal_divide x (dec_of_int (int n))))"

definition executive_calculated :: "date_parsers \<Rightarrow> insight_accumulator \<Rightarrow> json" where
  "executive_calculated dates a =
     (let revenue = total_of a REVENUE; expenses = total_of a EXPENSES;
          net_profit = (case (revenue, expenses) of (Some r, Some x) \<Rightarrow> Some (decimal_minus r x) | _ \<Rightarrow> None);
          burn_rate = per_count expenses (length (ia_by_period a EXPENSES));
          category = breakdown a ''expense_categories'' ''Expense Categories'' EXPENSES CATEGORY;
          location = breakdown a ''expenses_by_location'' ''Expenses by Location'' EXPENSES LOCATION
      in JDict
        [(''kpis'', JList
           [metric ''total_revenue'' ''Total Revenue'' ''currency'' ''sum(revenue)'' [REVENUE] revenue,
            metric ''net_profit'' ''Net Profit'' ''currency'' ''sum(revenue) - sum(expenses)''
              [REVENUE, EXPENSES] net_profit,
            metric ''gross_margin'' ''Gross Margin'' ''percent''
              ''average(gross_margin) across distinct mapped periods'' [GROSS_MARGIN] (average_of a GROSS_MARGIN),
            metric ''burn_rate'' ''Burn Rate'' ''currency_per_period''
              ''sum(expenses) / distinct mapped periods'' [PERIOD, EXPENSES] burn_rate]),
         (''series'', JList
           [single_series dates a ''monthly_spend'' ''Monthly Spend'' EXPENSES ''currency'' ''sum(expenses) by period'',
            cash_flow_forecast_series dates a]),
         (''breakdowns'', JList [category, location]),
         (''tables'', JList [JDict
           [(''key'', JStr ''top_spend_drivers''), (''label'', JStr ''Top Spend Drivers by Category''),
            (''unit'', JStr ''currency''), (''calculation'', JStr ''expense categories sorted by mapped spend''),
            (''source_fields'', fields_json [CATEGORY, EXPENSES]),
            (''rows'', json_get ''items'' category)]])])"

definition financial_calculated :: "date_parsers \<Rightarrow> (string list \<Rightarrow> string list) \<Rightarrow> insight_accumulator \<Rightarrow> json" where
  "financial_calculated dates enum a =
     (let revenue = total_of a REVENUE; spend = total_of a SPEND; budget = total_of a BUDGET;
          health_ratio = (case (spend, revenue) of (Some s, Some r) \<Rightarrow> ratio_percent s r | _ \<Rightarrow> None);
          location = breakdown a ''spend_by_location'' ''Spend by Location'' SPEND LOCATION
      in JDict
        [(''kpis'', JList
           [metric ''total_revenue'' ''Total Revenue'' ''currency'' ''sum(revenue)'' [REVENUE] revenue,
            metric ''total_spend'' ''Total Spend'' ''currency'' ''sum(spend)'' [SPEND] spend,
            metric ''cash_balance'' ''Cash Balance'' ''currency'' ''latest(cash_balance) by mapped period''
              [PERIOD, CASH_BALANCE] (latest_of dates a CASH_BALANCE),
            metric ''total_budget'' ''Total Budget'' ''currency'' ''sum(budget)'' [BUDGET] budget,
            metric ''spend_to_revenue'' ''Spend to Revenue'' ''percent'' ''sum(spend) / sum(revenue) * 100''
              [SPEND, REVENUE] health_ratio]),
         (''series'', JList
           [comparison_series dates a ''monthly_spend_vs_revenue'' ''Monthly Spend vs Revenue'' [SPEND, REVENUE] ''currency'',
            dimension_series dates enum a ''monthly_trend_by_category'' ''Monthly Trend by Category'' SPEND CATEGORY]),
         (''breakdowns'', JList
           [JDict
             [(''key'', JStr ''financial_health''), (''label'', JStr ''Financial Health''),
              (''unit'', JStr ''currency''), (''calculation'', JStr ''mapped revenue compared with mapped spend''),
              (''source_fields'', fields_json [REVENUE, SPEND]),
              (''items'', JList
                [JDict [(''label'', JStr ''Revenue''), (''value_decimal'', decimal_json revenue)],
                 JDict [(''label'', JStr ''Spend''), (''value_decimal'', decimal_json spend)]])],
            location]),
         (''tables'', JList [variance_table dates enum a SPEND CATEGORY])])"

definition status_update_json :: "status_update \<Rightarrow> json" where
  "status_update_json u = JDict
     [(''period'', text_json (su_period u)), (''title'', text_json (su_title u)),
      (''detail'', text_json (su_detail u)), (''status'', text_json (su_status u)),
      (''progress_decimal'', text_json (su_progress_decimal u))]"

definition status_update_key :: "date_parsers \<Rightarrow> status_update \<Rightarrow> nat \<times> period_key" where
  "status_update_key dates u =
     (case su_period u of None \<Rightarrow> (1, period_sort_key dates []) | Some p \<Rightarrow> (0, period_sort_key dates p))"

definition count_value :: "nat \<Rightarrow> decimal option" where
  "count_value n = (if n = 0 then None else Some (dec_of_int (int n)))"

definition operational_calculated :: "date_parsers \<Rightarrow> (string list \<Rightarrow> string list) \<Rightarrow> insight_accumulator \<Rightarrow> json" where
  "operational_calculated dates enum a =
     (let departments = length (ia_unique_values a DEPARTMENT); vendors = length (ia_unique_values a VENDOR);
          expenses = total_of a EXPENSES
      in JDict
        [(''kpis'', JList
           [metric ''number_of_departments'' ''Number of Departments'' ''count'' ''count(distinct department)''
              [DEPARTMENT] (count_value departments),
            metric ''average_spend_per_department'' ''Avg Spend Per Department'' ''currency''
              ''sum(expenses) / count(distinct department)'' [EXPENSES, DEPARTMENT] (per_count expenses departments),
            metric ''number_of_vendors'' ''Number of Vendors'' ''count'' ''count(distinct vendor)''
              [VENDOR] (count_value vendors),
            metric ''total_expenses'' ''Total Expenses'' ''currency'' ''sum(expenses)'' [EXPENSES] expenses]),
         (''series'', JList
           [dimension_series dates enum a ''monthly_trend_by_department'' ''Monthly Trend by Department''
              EXPENSES DEPARTMENT,
            dimension_series dates enum a ''monthly_trend_by_vendor'' ''Monthly Trend by Vendor'' EXPENSES VENDOR]),
         (''breakdowns'', JList []),
         (''tables'', JList []),
         (''status_updates'', JList (map status_update_json
            (sort_key (status_update_key dates) (ia_status_updates a))))])"

section \<open>The rendered payload\<close>

definition validate_required_period_coverage :: "insight_accumulator \<Rightarrow> insight_error option" where
  "validate_required_period_coverage a =
     (let required = REQUIRED_NUMERIC_FIELDS (ia_type a);
          periods = (\<lambda>f. set (map fst (ia_by_period a f)))
      in if list_ex (\<lambda>f. ia_by_period a f = []) required
         then Some (InsightDataError ''mapped_required_numeric_values_missing'')
         else if list_ex (\<lambda>f. periods f \<noteq> periods (hd required)) required
         then Some (InsightDataError ''mapped_period_coverage_mismatch'') else None)"

definition calculated_sections ::
  "date_parsers \<Rightarrow> (string list \<Rightarrow> string list) \<Rightarrow> insight_accumulator \<Rightarrow> json" where
  "calculated_sections dates enum a =
     (case ia_type a of
        EXECUTIVE_SUMMARY \<Rightarrow> executive_calculated dates a
      | FINANCIAL_PERFORMANCE \<Rightarrow> financial_calculated dates enum a
      | OPERATIONAL_KPI \<Rightarrow> operational_calculated dates enum a)"

definition explainability :: json where
  "explainability = JDict
     [(''calculated_sections'',
         JList (map JStr [''kpis'', ''series'', ''breakdowns'', ''tables'', ''signals''])),
      (''ai_generated_sections'',
         JList (map JStr [''summary'', ''opportunity'', ''recommendation'', ''disclaimer''])),
      (''rule'', JStr (''Calculated values come only from explicitly mapped immutable ''
         @ ''report rows. AI narrative is stored separately and grounded '' @ ''to this snapshot.''))]"

definition render_insight ::
  "date_parsers \<Rightarrow> (string list \<Rightarrow> string list) \<Rightarrow> insight_accumulator \<Rightarrow> insight_error + json" where
  "render_insight dates enum a =
     (if \<not> set (map fst (ia_mappings a)) \<subseteq> set (ia_validated a)
      then Inl (InsightDataError ''mapped_source_sheet_not_found'')
      else if ia_mapped_row_count a = 0 then Inl (InsightDataError ''mapped_rows_not_found'')
      else case validate_required_period_coverage a of
        Some e \<Rightarrow> Inl e
      | None \<Rightarrow> Inr (JDict
          [(''contract_version'', JInt DASHBOARD_INSIGHT_CONFIGURATION_VERSION),
           (''calculation_version'', JInt DASHBOARD_INSIGHT_CALCULATION_VERSION),
           (''dashboard_type'', JStr (dashboard_type_value (ia_type a))),
           (''goals'', JList (map (\<lambda>g. JStr (goal_value g)) (ic_goals (ia_configuration a)))),
           (''mapped_row_count'', JInt (int (ia_mapped_row_count a))),
           (''calculated'', calculated_sections dates enum a),
           (''signals'', JDict [(''anomalies'', JList (anomalies dates a)), (''risks'', JList (risks a)),
              (''recommendations'', JList (recommendations dates a))]),
           (''explainability'', explainability)]))"

section \<open>The contract payload\<close>

primrec FIELD_VALUE_KINDS :: "insight_field \<Rightarrow> string" where
  "FIELD_VALUE_KINDS PERIOD = ''dimension''"
| "FIELD_VALUE_KINDS LOCATION = ''dimension''"
| "FIELD_VALUE_KINDS EXPENSES = ''currency''"
| "FIELD_VALUE_KINDS REVENUE = ''currency''"
| "FIELD_VALUE_KINDS NET_CASH = ''currency''"
| "FIELD_VALUE_KINDS CATEGORY = ''dimension''"
| "FIELD_VALUE_KINDS GROSS_MARGIN = ''percent''"
| "FIELD_VALUE_KINDS SPEND = ''currency''"
| "FIELD_VALUE_KINDS CASH_BALANCE = ''currency''"
| "FIELD_VALUE_KINDS BUDGET = ''currency''"
| "FIELD_VALUE_KINDS DEPARTMENT = ''dimension''"
| "FIELD_VALUE_KINDS VENDOR = ''dimension''"
| "FIELD_VALUE_KINDS STATUS_TITLE = ''text''"
| "FIELD_VALUE_KINDS STATUS_DETAIL = ''text''"
| "FIELD_VALUE_KINDS STATUS = ''text''"
| "FIELD_VALUE_KINDS PROGRESS = ''number''"

primrec GOAL_LABELS :: "dashboard_goal \<Rightarrow> string" where
  "GOAL_LABELS IMPROVE_CASH_FLOW = ''Improve cash flow''"
| "GOAL_LABELS INCREASE_PROFITABILITY = ''Increase profitability''"
| "GOAL_LABELS REDUCE_EXPENSES = ''Reduce expenses''"
| "GOAL_LABELS GROW_REVENUE = ''Grow revenue''"
| "GOAL_LABELS IMPROVE_COLLECTIONS_AR = ''Improve collections (AR)''"
| "GOAL_LABELS STAY_ON_BUDGET = ''Stay on budget''"
| "GOAL_LABELS IMPROVE_FORECASTING = ''Improve forecasting''"
| "GOAL_LABELS BENCHMARK_AGAINST_PEERS = ''Benchmark against peers''"
| "GOAL_LABELS IMPROVE_OPERATIONAL_EFFICIENCY = ''Improve operational efficiency''"

fun TYPE_COPY :: "dashboard_type \<Rightarrow> (string \<times> json) list" where
  "TYPE_COPY EXECUTIVE_SUMMARY =
     [(''title'', JStr ''Executive Summary''),
      (''description'', JStr (''Your AI CFO overview of business performance, featuring cash flow, ''
         @ ''cash flow forecast, burn rate, profit margin, net profit and top '' @ ''spend drivers.'')),
      (''recommended_reports'', JList (map JStr [''Profit & Loss'', ''Balance Sheet'', ''General Ledger'']))]"
| "TYPE_COPY FINANCIAL_PERFORMANCE =
     [(''title'', JStr ''Financial Performance''),
      (''description'', JStr (''Understand your financial health through revenue, spend, cash ''
         @ ''balance, financial health evidence, category spend variance, and '' @ ''budget versus spend trends.'')),
      (''recommended_reports'', JList (map JStr
         [''Profit & Loss'', ''Monthly Budget'', ''Monthly Spend'', ''Bank Statement'', ''Balance Sheet'']))]"
| "TYPE_COPY OPERATIONAL_KPI =
     [(''title'', JStr ''Operational KPI''),
      (''description'', JStr (''Understand monthly operating performance through expenses by ''
         @ ''department and vendor, with custom status updates for leadership.'')),
      (''recommended_reports'', JList (map JStr [''Custom KPI Tracker'', ''Status Update'', ''Monthly Trend'']))]"

definition all_dashboard_types :: "dashboard_type list" where
  "all_dashboard_types = [EXECUTIVE_SUMMARY, FINANCIAL_PERFORMANCE, OPERATIONAL_KPI]"

definition dashboard_insight_contract_payload :: json where
  "dashboard_insight_contract_payload = JDict
     [(''version'', JInt DASHBOARD_INSIGHT_CONFIGURATION_VERSION),
      (''max_goals'', JInt (int MAX_DASHBOARD_INSIGHT_GOALS)),
      (''max_datasets'', JInt (int MAX_DASHBOARD_INSIGHT_DATASETS)),
      (''numeric_fields_require_period'', JBool True),
      (''required_numeric_fields_share_periods'', JBool True),
      (''outflow_rows_require_dimensions'', JBool True),
      (''reject_overlapping_measure_periods'', JBool True),
      (''goals'', JList (map (\<lambda>g. JDict [(''key'', JStr (goal_value g)), (''label'', JStr (GOAL_LABELS g))]) all_goals)),
      (''dashboard_types'', JList (map (\<lambda>t. JDict
         ((''dashboard_type'', JStr (dashboard_type_value t)) # TYPE_COPY t @
          [(''fields'', JList (map (\<lambda>f. JDict
              [(''key'', JStr (field_value f)), (''label'', JStr (FIELD_LABELS f)),
               (''value_kind'', JStr (FIELD_VALUE_KINDS f)),
               (''required'', JBool (f \<in> set (DASHBOARD_REQUIRED_INSIGHT_FIELDS t)))]) (DASHBOARD_INSIGHT_FIELDS t))),
           (''required_dataset_field_groups'', JList (map (\<lambda>group.
              fields_json (filter (\<lambda>f. f \<in> set group) (DASHBOARD_INSIGHT_FIELDS t)))
              (DASHBOARD_REQUIRED_DATASET_FIELD_GROUPS t)))])) all_dashboard_types))]"

end
