(* ===== verification/Snapshot_Artifacts.thy ===== *)
theory Snapshot_Artifacts
  imports Insight_Payload Report_Parser Subscriptions Worker
begin

text \<open>
  \<open>app/services/dashboard_snapshots.py\<close>, the artifacts: what a completed job must have, which profiles and which
  normalized rows are accepted, and what they are aggregated to.  \<open>json.loads\<close>, \<open>gzip\<close> and \<open>sha256\<close> are
  arguments; a content that \<open>gzip\<close> cannot expand is \<open>None\<close>.
\<close>

definition DASHBOARD_MAX_SNAPSHOT_SOURCES :: nat where "DASHBOARD_MAX_SNAPSHOT_SOURCES = 20"

definition DASHBOARD_MAX_SNAPSHOT_PAYLOAD_BYTES :: nat where
  "DASHBOARD_MAX_SNAPSHOT_PAYLOAD_BYTES = 4 * 1024 * 1024"

definition DASHBOARD_MAX_NORMALIZED_LINE_BYTES :: nat where
  "DASHBOARD_MAX_NORMALIZED_LINE_BYTES = 16 * 1024 * 1024"

definition DASHBOARD_SNAPSHOT_FORMAT :: string where "DASHBOARD_SNAPSHOT_FORMAT = ''spike.dashboard-snapshot''"

datatype snapshot_error = DashboardSnapshotNotFoundError | DashboardSnapshotSourceNotFoundError
  | DashboardSnapshotSourceNotReadyError | DashboardSnapshotSourceMismatchError | DashboardSnapshotArtifactError
  | DashboardSnapshotStorageError | DashboardSnapshotConflictError | SnapshotSourcesValueError
  | SnapshotKeyError

section \<open>Columns\<close>

definition strict_decimal :: "json \<Rightarrow> decimal option" where
  "strict_decimal value =
     (case value of
        JInt n \<Rightarrow> Some (dec_of_int n)
      | JFloat (Some s) \<Rightarrow> float_decimal s
      | JStr s \<Rightarrow> strict_decimal_text (py_strip s)
      | _ \<Rightarrow> None)"

record column_totals =
  ct_non_null :: nat
  ct_null :: nat
  ct_numeric :: "numeric_stats option"

definition no_totals :: column_totals where
  "no_totals = \<lparr> ct_non_null = 0, ct_null = 0, ct_numeric = None \<rparr>"

definition observe_cell :: "json \<Rightarrow> column_totals \<Rightarrow> column_totals" where
  "observe_cell value c =
     (if value = JNull then c\<lparr> ct_null := ct_null c + 1 \<rparr>
      else
        let c' = c\<lparr> ct_non_null := ct_non_null c + 1 \<rparr>
        in case strict_decimal value of
             None \<Rightarrow> c'
           | Some v \<Rightarrow> c'\<lparr> ct_numeric := Some (observe_number v
               (case ct_numeric c of None \<Rightarrow> no_stats | Some s \<Rightarrow> s)) \<rparr>)"

definition render_numeric :: "numeric_stats option \<Rightarrow> json" where
  "render_numeric numeric =
     (case numeric of
        None \<Rightarrow> JNull
      | Some s \<Rightarrow>
          if ns_count s = 0 then JNull
          else JDict
            [(''count'', json_nat (ns_count s)), (''sum_decimal'', decimal_json (Some (ns_total s))),
             (''min_decimal'', decimal_json (ns_minimum s)), (''max_decimal'', decimal_json (ns_maximum s)),
             (''average_decimal'', decimal_json (stats_average s))])"

section \<open>Completed jobs\<close>

definition required_job_string ::
  "(report_processing_job \<Rightarrow> string option) \<Rightarrow> report_processing_job \<Rightarrow> snapshot_error + string" where
  "required_job_string attribute j =
     (case attribute j of
        None \<Rightarrow> Inl DashboardSnapshotSourceNotReadyError
      | Some s \<Rightarrow> if py_strip s = [] then Inl DashboardSnapshotSourceNotReadyError else Inr s)"

type_synonym job_signature = "job_status \<times> string option \<times> string option \<times> string option \<times> string option
  \<times> int option \<times> string option \<times> string option \<times> string option \<times> int option \<times> int option"

definition job_signature_of :: "report_processing_job \<Rightarrow> job_signature" where
  "job_signature_of j =
     (job_status j, result_storage_bucket j, normalized_storage_key j, normalized_storage_version_id j,
      normalized_etag j, normalized_size_bytes j, profile_storage_key j, profile_storage_version_id j,
      profile_etag j, record_count j, sheet_count j)"

definition REQUIRED_JOB_STRINGS :: "(report_processing_job \<Rightarrow> string option) list" where
  "REQUIRED_JOB_STRINGS = [result_storage_bucket, normalized_storage_key, normalized_storage_version_id,
     normalized_etag, profile_storage_key, profile_storage_version_id, profile_etag]"

definition validate_completed_job :: "report_processing_job \<Rightarrow> snapshot_error + unit" where
  "validate_completed_job j =
     (if job_status j \<noteq> COMPLETED then Inl DashboardSnapshotSourceNotReadyError
      else and_then (map_result (\<lambda>attribute. required_job_string attribute j) REQUIRED_JOB_STRINGS) (\<lambda>_.
        if (case normalized_size_bytes j of None \<Rightarrow> True
              | Some n \<Rightarrow> n \<le> 0 \<or> int REPORT_MAX_NORMALIZED_COMPRESSED_BYTES < n)
           \<or> (case record_count j of None \<Rightarrow> True | Some n \<Rightarrow> n < 0)
           \<or> (case sheet_count j of None \<Rightarrow> True | Some n \<Rightarrow> n \<le> 0)
        then Inl DashboardSnapshotSourceNotReadyError else Inr ()))"

section \<open>The profile\<close>

text \<open>Python's equality of a decoded value and an integer: booleans are 0 and 1, and floats are numbers.\<close>

definition equals_int :: "json \<Rightarrow> int \<Rightarrow> bool" where
  "equals_int j n =
     (case j of
        JInt m \<Rightarrow> m = n
      | JBool b \<Rightarrow> (if b then 1 else 0) = n
      | JFloat (Some s) \<Rightarrow> (case float_decimal s of None \<Rightarrow> False | Some v \<Rightarrow> dec_val v = of_int n)
      | _ \<Rightarrow> False)"

definition is_bool :: "json \<Rightarrow> bool" where
  "is_bool j = (case j of JBool _ \<Rightarrow> True | _ \<Rightarrow> False)"

definition natural_of :: "json \<Rightarrow> nat option" where
  "natural_of j = (case j of JInt n \<Rightarrow> if n < 0 then None else Some (nat n) | _ \<Rightarrow> None)"

definition nonempty_text :: "json \<Rightarrow> string option" where
  "nonempty_text j = (case j of JStr s \<Rightarrow> if s = [] then None else Some s | _ \<Rightarrow> None)"

definition PROFILE_VALUE_TYPES :: "string list" where
  "PROFILE_VALUE_TYPES = [''null'', ''boolean'', ''integer'', ''number'', ''date'', ''datetime'', ''time'', ''string'']"

definition positive_count :: "json \<Rightarrow> bool" where
  "positive_count j = (case natural_of j of None \<Rightarrow> False | Some n \<Rightarrow> 0 < n)"

definition count_of :: "json \<Rightarrow> nat" where
  "count_of j = (case natural_of j of None \<Rightarrow> 0 | Some n \<Rightarrow> n)"

definition type_counts_ok :: "json \<Rightarrow> nat \<Rightarrow> nat \<Rightarrow> bool" where
  "type_counts_ok type_counts records null_count =
     (case type_counts of
        JDict kvs \<Rightarrow> list_all (\<lambda>(k, v). k \<in> set PROFILE_VALUE_TYPES \<and> positive_count v) kvs
          \<and> sum_list (map (\<lambda>(_, v). count_of v) kvs) = records
          \<and> count_of (get ''null'' kvs) = null_count
      | _ \<Rightarrow> False)"

definition source_name_ok :: "json \<Rightarrow> json \<Rightarrow> bool" where
  "source_name_ok generated source_name =
     (case generated of
        JBool True \<Rightarrow> source_name = JNull
      | JBool False \<Rightarrow> \<not> is_null (nonempty_text source_name)
      | _ \<Rightarrow> False)"

text \<open>The name of one column of a profile, when the column is accepted.\<close>

definition profile_column :: "nat \<Rightarrow> nat \<Rightarrow> json \<Rightarrow> string option" where
  "profile_column records position column =
     (case (nonempty_text (json_get ''name'' column), natural_of (json_get ''null_count'' column),
            natural_of (json_get ''non_null_count'' column)) of
        (Some name, Some null_count, Some non_null_count) \<Rightarrow>
          if is_bool (json_get ''index'' column) \<or> \<not> equals_int (json_get ''index'' column) (int position)
             \<or> \<not> source_name_ok (json_get ''generated'' column) (json_get ''source_name'' column)
             \<or> null_count + non_null_count \<noteq> records
             \<or> \<not> type_counts_ok (json_get ''type_counts'' column) records null_count
          then None else Some name
      | _ \<Rightarrow> None)"

fun profile_columns :: "nat \<Rightarrow> nat \<Rightarrow> json list \<Rightarrow> string list option" where
  "profile_columns records position [] = Some []"
| "profile_columns records position (column # columns) =
     (case (profile_column records position column, profile_columns records (Suc position) columns) of
        (Some name, Some names) \<Rightarrow> Some (name # names) | _ \<Rightarrow> None)"

type_synonym sheet_key = "int \<times> string"

text \<open>One sheet: its key, its number of records, and the names of its columns.\<close>

definition sheet_contract_entry :: "json \<Rightarrow> (sheet_key \<times> nat \<times> string list) option" where
  "sheet_contract_entry sheet =
     (case (natural_of (json_get ''index'' sheet), nonempty_text (json_get ''name'' sheet),
            natural_of (json_get ''record_count'' sheet), json_get ''columns'' sheet) of
        (Some i, Some name, Some records, JList columns) \<Rightarrow>
          (case profile_columns records 0 columns of
             None \<Rightarrow> None
           | Some names \<Rightarrow>
               if distinct (map py_casefold names) then Some ((int i, name), records, names) else None)
      | _ \<Rightarrow> None)"

definition profile_sheet_contract :: "json \<Rightarrow> snapshot_error + (sheet_key \<times> nat \<times> string list) list" where
  "profile_sheet_contract profile =
     (case json_get ''sheets'' profile of
        JList sheets \<Rightarrow>
          (case all_some (map sheet_contract_entry sheets) of
             None \<Rightarrow> Inl DashboardSnapshotArtifactError
           | Some entries \<Rightarrow>
               if distinct (map fst entries) then Inr entries else Inl DashboardSnapshotArtifactError)
      | _ \<Rightarrow> Inl DashboardSnapshotArtifactError)"

definition sha256_hex :: "json \<Rightarrow> bool" where
  "sha256_hex j = (case j of JStr s \<Rightarrow> length s = 64 \<and> list_all lower_hex_digit s | _ \<Rightarrow> False)"

definition not_blank :: "json \<Rightarrow> bool" where
  "not_blank j = (case j of JStr s \<Rightarrow> py_strip s \<noteq> [] | _ \<Rightarrow> False)"

definition profile_header_ok :: "report_processing_job \<Rightarrow> json \<Rightarrow> bool" where
  "profile_header_ok j profile =
     (let source = json_get ''source'' profile; normalized = json_get ''normalized'' profile
      in is_dict source \<and> is_dict normalized
       \<and> json_get ''format'' profile = JStr ''spike.report-profile''
       \<and> equals_int (json_get ''version'' profile) REPORT_ARTIFACT_FORMAT_VERSION
       \<and> json_get ''job_id'' profile = JStr (uuid_str (job_id j))
       \<and> json_get ''business_id'' profile = JStr (uuid_str (job_business_id j))
       \<and> json_get ''report_upload_id'' source = JStr (uuid_str (report_upload_id j))
       \<and> not_blank (json_get ''filename'' source)
       \<and> json_get ''extension'' source \<in> {JStr ''csv'', JStr ''xlsx'', JStr ''xls''}
       \<and> not_blank (json_get ''content_type'' source)
       \<and> (case record_count j of None \<Rightarrow> False | Some n \<Rightarrow> equals_int (json_get ''record_count'' profile) n)
       \<and> (case sheet_count j of None \<Rightarrow> False | Some n \<Rightarrow> equals_int (json_get ''sheet_count'' profile) n)
       \<and> json_get ''format'' normalized = JStr ''jsonl'' \<and> json_get ''compression'' normalized = JStr ''gzip''
       \<and> sha256_hex (json_get ''sha256'' normalized))"

definition validate_profile ::
  "(string \<Rightarrow> json option) \<Rightarrow> report_processing_job \<Rightarrow> string \<Rightarrow> snapshot_error + json" where
  "validate_profile loads j content =
     (if REPORT_MAX_PROFILE_BYTES < length content then Inl DashboardSnapshotArtifactError
      else case loads content of
        None \<Rightarrow> Inl DashboardSnapshotArtifactError
      | Some profile \<Rightarrow>
          if \<not> is_dict profile \<or> \<not> profile_header_ok j profile then Inl DashboardSnapshotArtifactError
          else and_then (profile_sheet_contract profile) (\<lambda>entries.
            if Some (int (length entries)) \<noteq> sheet_count j
               \<or> Some (int (sum_list (map (\<lambda>(_, records, _). records) entries))) \<noteq> record_count j
            then Inl DashboardSnapshotArtifactError else Inr profile))"

section \<open>The normalized rows\<close>

record sheet_totals =
  st_key :: sheet_key
  st_rows :: nat
  st_columns :: "(string \<times> column_totals) list"

record aggregation =
  ag_sheets :: "sheet_totals list"
  ag_uncompressed :: nat
  ag_records :: nat
  ag_insight :: "insight_accumulator option"

definition start_totals :: "sheet_key \<times> nat \<times> string list \<Rightarrow> sheet_totals" where
  "start_totals e = (case e of (key, _, names) \<Rightarrow>
     \<lparr> st_key = key, st_rows = 0, st_columns = map (\<lambda>name. (name, no_totals)) names \<rparr>)"

definition observe_sheet_row :: "stripe_object \<Rightarrow> sheet_totals \<Rightarrow> sheet_totals" where
  "observe_sheet_row values s = s\<lparr> st_rows := st_rows s + 1,
     st_columns := map (\<lambda>(name, c). (name, observe_cell (get name values) c)) (st_columns s) \<rparr>"

definition row_parts :: "json \<Rightarrow> (sheet_key \<times> stripe_object) option" where
  "row_parts row =
     (case (json_get ''sheet_index'' row, json_get ''sheet_name'' row, json_get ''values'' row) of
        (JInt i, JStr name, JDict values) \<Rightarrow> Some ((i, name), values) | _ \<Rightarrow> None)"

definition observe_insight ::
  "insight_field list \<Rightarrow> dataset_id \<Rightarrow> stripe_object \<Rightarrow> insight_accumulator option
   \<Rightarrow> snapshot_error + insight_accumulator option" where
  "observe_insight order key values insight =
     (case insight of
        None \<Rightarrow> Inr None
      | Some a \<Rightarrow>
        (case observe_row order key values a of
           Inl InsightKeyError \<Rightarrow> Inl SnapshotKeyError
         | Inl (InsightDataError _) \<Rightarrow> Inl DashboardSnapshotArtifactError
         | Inr a' \<Rightarrow> Inr (Some a')))"

definition aggregate_line ::
  "(string \<Rightarrow> json option) \<Rightarrow> insight_field list \<Rightarrow> uuid \<Rightarrow> string \<Rightarrow> aggregation
   \<Rightarrow> snapshot_error + aggregation" where
  "aggregate_line loads order job line ag =
     (let total = ag_uncompressed ag + length line
      in if DASHBOARD_MAX_NORMALIZED_LINE_BYTES < length line
            \<or> REPORT_MAX_NORMALIZED_UNCOMPRESSED_BYTES < total
         then Inl DashboardSnapshotArtifactError
         else case Option.bind (loads line) row_parts of
           None \<Rightarrow> Inl DashboardSnapshotArtifactError
         | Some (key, values) \<Rightarrow>
           (case find (\<lambda>s. st_key s = key) (ag_sheets ag) of
              None \<Rightarrow> Inl DashboardSnapshotArtifactError
            | Some s \<Rightarrow>
                if set (map fst values) \<noteq> set (map fst (st_columns s))
                then Inl DashboardSnapshotArtifactError
                else and_then (observe_insight order (job, fst key, snd key) values (ag_insight ag)) (\<lambda>insight.
                  Inr \<lparr> ag_sheets = map (\<lambda>x. if st_key x = key then observe_sheet_row values x else x)
                          (ag_sheets ag),
                        ag_uncompressed = total, ag_records = ag_records ag + 1, ag_insight = insight \<rparr>)))"

text \<open>The lines of the expanded content, each with its line feed.\<close>

fun content_lines :: "string \<Rightarrow> string list" where
  "content_lines [] = []"
| "content_lines (c # cs) =
     (if c = CHR 0x0A then [c] # content_lines cs
      else case content_lines cs of [] \<Rightarrow> [[c]] | l # ls \<Rightarrow> (c # l) # ls)"

definition render_totals :: "sheet_totals \<Rightarrow> json" where
  "render_totals s = JDict
     [(''sheet_index'', JInt (fst (st_key s))), (''sheet_name'', JStr (snd (st_key s))),
      (''record_count'', json_nat (st_rows s)),
      (''columns'', JList (map (\<lambda>(name, c). JDict
         [(''name'', JStr name), (''non_null_count'', json_nat (ct_non_null c)),
          (''null_count'', json_nat (ct_null c)), (''numeric'', render_numeric (ct_numeric c))]) (st_columns s)))]"

definition render_aggregate :: "aggregation \<Rightarrow> json" where
  "render_aggregate ag = JDict
     [(''record_count'', json_nat (ag_records ag)), (''sheet_count'', json_nat (length (ag_sheets ag))),
      (''sheets'', JList (map render_totals (sort_key st_key (ag_sheets ag))))]"

record artifact_packages =
  ap_loads :: "string \<Rightarrow> json option"
  ap_gunzip :: "string \<Rightarrow> string option"
  ap_sha256 :: "string \<Rightarrow> string"
  ap_order :: "insight_field list"

definition aggregate_normalized ::
  "artifact_packages \<Rightarrow> report_processing_job \<Rightarrow> json \<Rightarrow> string \<Rightarrow> insight_accumulator option
   \<Rightarrow> snapshot_error + json \<times> insight_accumulator option" where
  "aggregate_normalized pk j profile content insight =
     (if Some (int (length content)) \<noteq> normalized_size_bytes j
         \<or> JStr (ap_sha256 pk content) \<noteq> json_get ''sha256'' (json_get ''normalized'' profile)
      then Inl DashboardSnapshotArtifactError
      else and_then (profile_sheet_contract profile) (\<lambda>entries.
        case ap_gunzip pk content of
          None \<Rightarrow> Inl DashboardSnapshotArtifactError
        | Some text \<Rightarrow>
            and_then (fold_result (aggregate_line (ap_loads pk) (ap_order pk) (job_id j)) (content_lines text)
              \<lparr> ag_sheets = map start_totals entries, ag_uncompressed = 0, ag_records = 0, ag_insight = insight \<rparr>)
              (\<lambda>ag.
                if Some (int (ag_records ag)) \<noteq> record_count j
                   \<or> map st_rows (ag_sheets ag) \<noteq> map (\<lambda>(_, records, _). records) entries
                then Inl DashboardSnapshotArtifactError
                else Inr (render_aggregate ag, ag_insight ag))))"

section \<open>Reading a source\<close>

record source_artifact =
  sa_job :: report_processing_job
  sa_profile :: json
  sa_aggregate :: json

text \<open>\<open>read\<close> is \<open>read_object\<close> of the gateway on bucket, key, version and the greatest number of bytes.\<close>

type_synonym object_reader = "string \<Rightarrow> string \<Rightarrow> string \<Rightarrow> nat \<Rightarrow> storage_error + string"

definition read_artifact ::
  "object_reader \<Rightarrow> string \<Rightarrow> string \<Rightarrow> string \<Rightarrow> nat \<Rightarrow> snapshot_error + string" where
  "read_artifact read bucket key version max_bytes =
     (case read bucket key version max_bytes of
        Inl S3ObjectNotFoundError \<Rightarrow> Inl DashboardSnapshotArtifactError
      | Inl _ \<Rightarrow> Inl DashboardSnapshotStorageError
      | Inr content \<Rightarrow> Inr content)"

definition validate_for_insight ::
  "uuid \<Rightarrow> json \<Rightarrow> insight_accumulator option \<Rightarrow> snapshot_error + insight_accumulator option" where
  "validate_for_insight job profile insight =
     (case insight of
        None \<Rightarrow> Inr None
      | Some a \<Rightarrow>
        (case validate_insight_profile job profile a of
           Inl _ \<Rightarrow> Inl DashboardSnapshotArtifactError | Inr a' \<Rightarrow> Inr (Some a')))"

definition read_source_artifact ::
  "artifact_packages \<Rightarrow> object_reader \<Rightarrow> report_processing_job \<Rightarrow> insight_accumulator option
   \<Rightarrow> snapshot_error + source_artifact \<times> insight_accumulator option" where
  "read_source_artifact pk read j insight =
     and_then (validate_completed_job j) (\<lambda>_.
     and_then (required_job_string result_storage_bucket j) (\<lambda>bucket.
     and_then (required_job_string profile_storage_key j) (\<lambda>profile_key.
     and_then (required_job_string profile_storage_version_id j) (\<lambda>profile_version.
     and_then (required_job_string normalized_storage_key j) (\<lambda>normalized_key.
     and_then (required_job_string normalized_storage_version_id j) (\<lambda>normalized_version.
     and_then (read_artifact read bucket profile_key profile_version REPORT_MAX_PROFILE_BYTES) (\<lambda>profile_content.
     and_then (read_artifact read bucket normalized_key normalized_version
                 (case normalized_size_bytes j of None \<Rightarrow> 0 | Some n \<Rightarrow> nat n)) (\<lambda>normalized_content.
     and_then (validate_profile (ap_loads pk) j profile_content) (\<lambda>profile.
     and_then (validate_for_insight (job_id j) profile insight) (\<lambda>insight1.
     and_then (aggregate_normalized pk j profile normalized_content insight1) (\<lambda>(aggregate, insight2).
       Inr (\<lparr> sa_job = j, sa_profile = profile, sa_aggregate = aggregate \<rparr>, insight2))))))))))))"

end
