(* ===== verification/Artifact_Theorems.thy ===== *)
theory Artifact_Theorems
  imports Parser_Theorems Snapshot_Artifacts "HOL-Library.Code_Target_Nat"
begin

text \<open>
  The composition of the report parser with the reader of the snapshots: the profile and the lines that the parser
  writes pass the checks of \<open>services/dashboard_snapshots.py\<close>, and the aggregate has the rows of the report.
\<close>

section \<open>The profile that a parsed report has\<close>

lemma get_simps: "json_get k (JDict kvs) = (case map_of kvs k of None \<Rightarrow> JNull | Some v \<Rightarrow> v)"
  by (simp add: json_get_def get_def)

definition text_counts :: "column_profile \<Rightarrow> (string \<times> json) list" where
  "text_counts c = map (\<lambda>t. (value_type_text t, json_nat (col_type_counts c t)))
     (filter (\<lambda>t. col_type_counts c t \<noteq> 0) VALUE_TYPE_ORDER)"

lemma value_type_text_inj: "value_type_text s = value_type_text t \<longleftrightarrow> s = t"
  by (cases s; cases t) simp_all

lemma distinct_text_counts: "distinct (map fst (text_counts c))"
proof -
  have "distinct (map value_type_text VALUE_TYPE_ORDER)" by code_simp
  then have "distinct (map value_type_text (filter P VALUE_TYPE_ORDER))" for P by (rule distinct_map_filter)
  then show ?thesis by (simp add: text_counts_def comp_def)
qed

lemma map_of_text_counts:
  "map_of (text_counts c) (value_type_text t) = (if col_type_counts c t = 0 then None else Some (json_nat (col_type_counts c t)))"
proof -
  have "t \<in> set VALUE_TYPE_ORDER" by (cases t) (simp_all add: VALUE_TYPE_ORDER_def)
  moreover have "map_of (map (\<lambda>t. (value_type_text t, f t)) (filter P ts)) (value_type_text t)
      = (if t \<in> set ts \<and> P t then Some (f t) else None)" for f :: "value_type \<Rightarrow> json" and P ts
    by (induction ts) (auto simp: value_type_text_inj)
  ultimately show ?thesis by (simp add: text_counts_def)
qed

lemma sorted_counts: "sort_keys (JDict (text_counts c)) = JDict (sort_key fst (text_counts c))"
proof -
  have "map (\<lambda>(k, v). (k, sort_keys v)) (text_counts c) = text_counts c"
    by (simp add: text_counts_def json_nat_def comp_def)
  then show ?thesis by simp
qed

lemma sum_sort_key: "sum_list (map f (sort_key g xs)) = sum_list (map f xs)" for f :: "'a \<Rightarrow> nat"
proof -
  have "mset (map f (sort_key g xs)) = mset (map f xs)" by simp
  then show ?thesis by (metis sum_mset_sum_list)
qed

lemma natural_json_nat [simp]: "natural_of (json_nat n) = Some n" "count_of (json_nat n) = n"
  by (simp_all add: natural_of_def json_nat_def count_of_def)

lemma text_counts_total:
  "sum_list (map (\<lambda>(_, v). count_of v) (text_counts c)) = sum_list (map (col_type_counts c) VALUE_TYPE_ORDER)"
proof -
  have "sum_list (map f (filter (\<lambda>t. f t \<noteq> 0) ts)) = sum_list (map f ts)" for f :: "value_type \<Rightarrow> nat" and ts
    by (induction ts) auto
  then show ?thesis by (simp add: text_counts_def comp_def)
qed

lemma text_counts_accepted:
  "type_counts_ok (sort_keys (JDict (text_counts c))) (sum_list (map (col_type_counts c) VALUE_TYPE_ORDER)) (col_type_counts c T_null)"
proof -
  have types: "value_type_text t \<in> set PROFILE_VALUE_TYPES" for t by (cases t) (simp_all add: PROFILE_VALUE_TYPES_def)
  have "count_of (get ''null'' (sort_key fst (text_counts c))) = col_type_counts c T_null"
    using map_of_text_counts [of c T_null]
    by (simp add: get_def map_of_sort_key [OF distinct_text_counts] count_of_def natural_of_def json_nat_def)
  moreover have "list_all (\<lambda>(k, v). k \<in> set PROFILE_VALUE_TYPES \<and> positive_count v) (sort_key fst (text_counts c))"
    using types by (auto simp: list_all_iff text_counts_def positive_count_def)
  ultimately show ?thesis
    unfolding sorted_counts type_counts_ok_def by (simp add: sum_sort_key text_counts_total)
qed

lemma sort_keys_nat [simp]: "sort_keys (json_nat n) = json_nat n"
  by (simp add: json_nat_def)

lemma render_column_accepted:
  assumes "fresh_column c" "col_index c = i" "sum_list (map (col_type_counts c) VALUE_TYPE_ORDER) = n"
  shows "profile_column n i (sort_keys (render_column c)) = Some (col_name c)"
proof -
  let ?kvs = "[(''index'', json_nat (col_index c)), (''name'', JStr (col_name c)),
           (''source_name'', json_option (col_source_name c)), (''generated'', JBool (col_generated c)),
           (''null_count'', json_nat (col_type_counts c T_null)),
           (''non_null_count'', json_nat (n - col_type_counts c T_null)), (''type_counts'', JDict (text_counts c))]"
  have render: "render_column c = JDict ?kvs"
    by (simp add: render_column_def Let_def assms(3) text_counts_def)
  have g: "json_get k (sort_keys (JDict ?kvs)) = sort_keys (json_get k (JDict ?kvs))" for k
    by (rule get_sort_keys) simp
  have le: "col_type_counts c T_null \<le> n" using assms(3) by (simp add: VALUE_TYPE_ORDER_def)
  have ok: "type_counts_ok (sort_keys (JDict (text_counts c))) n (col_type_counts c T_null)"
    using text_counts_accepted [of c] by (simp only: assms(3))
  have source: "source_name_ok (JBool (col_generated c)) (sort_keys (json_option (col_source_name c)))"
    using assms(1) by (cases "col_source_name c")
      (auto simp: fresh_column_def source_name_ok_def json_option_def nonempty_text_def)
  have name: "nonempty_text (JStr (col_name c)) = Some (col_name c)"
    using assms(1) by (simp add: fresh_column_def nonempty_text_def)
  show ?thesis unfolding render profile_column_def g
    using le ok source name assms(2)
    by (simp add: get_simps is_bool_def equals_int_def json_nat_def [of i] del: sort_keys.simps(2))
qed


lemma render_columns_accepted:
  "map col_index columns = [i..<i + length columns] \<Longrightarrow> list_all fresh_column columns
   \<Longrightarrow> list_all (\<lambda>c. sum_list (map (col_type_counts c) VALUE_TYPE_ORDER) = n) columns
   \<Longrightarrow> profile_columns n i (map (\<lambda>c. sort_keys (render_column c)) columns) = Some (map col_name columns)"
proof (induction columns arbitrary: i)
  case (Cons c columns)
  have "[i..<i + length (c # columns)] = i # [Suc i..<Suc i + length columns]" by (subst upt_conv_Cons) simp_all
  with Cons.prems(1) have "col_index c = i" "map col_index columns = [Suc i..<Suc i + length columns]" by simp_all
  with Cons render_column_accepted [of c i n] show ?case by simp
qed simp

definition sheet_entry :: "parsed_sheet \<Rightarrow> sheet_key \<times> nat \<times> string list" where
  "sheet_entry g = ((int (ps_index g), ps_name g), length (ps_rows g), map col_name (ps_columns g))"

lemma sheet_accepted:
  assumes "good_sheet (\<lambda>s. s \<noteq> []) vok g"
  shows "sheet_contract_entry (sort_keys (sheet_json g)) = Some (sheet_entry g)"
proof -
  let ?kvs = "[(''index'', json_nat (ps_index g)), (''name'', JStr (ps_name g)),
      (''header_row_number'', json_nat (ps_header g)), (''record_count'', json_nat (length (ps_rows g))),
      (''columns'', JList (map render_column (ps_columns g)))]"
  have sheet: "sheet_json g = JDict ?kvs" by (simp add: sheet_json_def render_sheet_def)
  have g: "json_get k (sort_keys (JDict ?kvs)) = sort_keys (json_get k (JDict ?kvs))" for k
    by (rule get_sort_keys) simp
  have columns: "profile_columns (length (ps_rows g)) 0 (map (\<lambda>c. sort_keys (render_column c)) (ps_columns g))
      = Some (map col_name (ps_columns g))"
    by (rule render_columns_accepted) (use assms in \<open>simp_all add: good_sheet_def good_columns_def\<close>)
  have "distinct (map py_casefold (map col_name (ps_columns g)))"
    using assms by (simp add: good_sheet_def good_columns_def)
  with columns assms show ?thesis unfolding sheet sheet_contract_entry_def g
    by (simp add: get_simps nonempty_text_def good_sheet_def sheet_entry_def comp_def)
qed

lemma all_some_sheets:
  "list_all (good_sheet (\<lambda>s. s \<noteq> []) vok) gs
   \<Longrightarrow> all_some (map (\<lambda>g. sheet_contract_entry (sort_keys (sheet_json g))) gs) = Some (map sheet_entry gs)"
  by (induction gs) (simp_all add: sheet_accepted [of vok])

lemma distinct_entries: "distinct (map ps_index gs) \<Longrightarrow> distinct (map (\<lambda>g. fst (sheet_entry g)) gs)"
  by (auto simp: distinct_map sheet_entry_def inj_on_def)

definition profile_items :: "parsing_context \<Rightarrow> string \<Rightarrow> normalizer \<Rightarrow> (string \<times> json) list" where
  "profile_items ctx digest nz = (case report_profile ctx digest nz of JDict kvs \<Rightarrow> kvs | _ \<Rightarrow> [])"

lemma profile_get:
  "report_profile ctx digest nz = JDict (profile_items ctx digest nz)"
  "json_get k (sort_keys (report_profile ctx digest nz)) = sort_keys (json_get k (report_profile ctx digest nz))"
proof -
  show *: "report_profile ctx digest nz = JDict (profile_items ctx digest nz)"
    by (simp add: profile_items_def report_profile_def)
  have "distinct (map fst (profile_items ctx digest nz))" by (simp add: profile_items_def report_profile_def)
  then show "json_get k (sort_keys (report_profile ctx digest nz)) = sort_keys (json_get k (report_profile ctx digest nz))"
    unfolding * by (rule get_sort_keys)
qed

lemma contract_of_profile:
  assumes "report_of_sheets (\<lambda>s. s \<noteq> []) vok k gs nz"
  shows "profile_sheet_contract (sort_keys (report_profile ctx digest nz)) = Inr (map sheet_entry gs)"
proof -
  have "json_get ''sheets'' (sort_keys (report_profile ctx digest nz))
      = JList (map (\<lambda>g. sort_keys (sheet_json g)) gs)"
    using assms unfolding profile_get(2) by (simp add: report_profile_def get_simps report_of_sheets_def comp_def)
  moreover have "list_all (good_sheet (\<lambda>s. s \<noteq> []) vok) gs" "distinct (map ps_index gs)"
    using assms by (simp_all add: report_of_sheets_def)
  ultimately show ?thesis
    by (simp add: profile_sheet_contract_def comp_def all_some_sheets distinct_entries [unfolded comp_def])
qed

text \<open>The job that stores the artifacts of a report, as the worker completes it.\<close>

definition job_stores :: "report_processing_job \<Rightarrow> parsing_context \<Rightarrow> report_artifacts \<Rightarrow> bool" where
  "job_stores j ctx a \<longleftrightarrow> job_status j = COMPLETED \<and> job_id j = pc_job_id ctx
     \<and> job_business_id j = pc_business_id ctx \<and> report_upload_id j = pc_report_upload_id ctx
     \<and> normalized_size_bytes j = Some (int (length (art_normalized_content a)))
     \<and> record_count j = Some (int (art_record_count a)) \<and> sheet_count j = Some (int (art_sheet_count a))
     \<and> list_all (\<lambda>f. case f j of None \<Rightarrow> False | Some s \<Rightarrow> py_strip s \<noteq> []) REQUIRED_JOB_STRINGS"

lemma sort_keys_leaf: "sort_keys (JStr s) = JStr s" "sort_keys (JInt n) = JInt n" "is_dict (sort_keys j) = is_dict j"
  "is_dict (JDict kvs)"
  by (simp_all add: is_dict_def) (cases j; simp)

lemma profile_header_accepted:
  assumes "job_id j = pc_job_id ctx" "job_business_id j = pc_business_id ctx" "report_upload_id j = pc_report_upload_id ctx"
    "record_count j = Some (int (nz_record_count nz))" "sheet_count j = Some (int (length (nz_sheets nz)))"
    "pc_file_extension ctx \<in> {''csv'', ''xlsx'', ''xls''}" "py_strip (pc_original_filename ctx) \<noteq> []"
    "py_strip (pc_content_type ctx) \<noteq> []" "sha256_hex (JStr digest)"
  shows "profile_header_ok j (sort_keys (report_profile ctx digest nz))"
proof -
  have g: "json_get k (sort_keys (JDict kvs)) = sort_keys (json_get k (JDict kvs))" if "distinct (map fst kvs)" for k kvs
    using that by (rule get_sort_keys)
  show ?thesis using assms
    unfolding profile_header_ok_def Let_def profile_get(2)
    by (auto simp: report_profile_def get_simps g sort_keys_leaf equals_int_def not_blank_def json_nat_def
        simp del: sort_keys.simps)
qed

section \<open>The lines that a parsed report has\<close>

lemma content_lines_concat:
  assumes "\<And>l. l \<in> set ls \<Longrightarrow> \<exists>t. l = t @ [CHR 0x0A] \<and> CHR 0x0A \<notin> set t"
  shows "content_lines (concat ls) = ls"
  using assms
proof (induction ls)
  case (Cons l ls)
  have line: "content_lines (t @ CHR 0x0A # rest) = (t @ [CHR 0x0A]) # content_lines rest" if "CHR 0x0A \<notin> set t" for t rest
    using that by (induction t) auto
  obtain t where t: "l = t @ [CHR 0x0A]" "CHR 0x0A \<notin> set t" using Cons.prems [of l] by auto
  with Cons line [OF t(2), of "concat ls"] show ?case by simp
qed simp

lemma no_newline_escape: "CHR 0x0A \<notin> set (json_escape c)"
proof -
  have h: "CHR 0x0A \<notin> set (hex_digits k n)" for k n
  proof (induction k arbitrary: n)
    case (Suc k)
    have "\<forall>k \<in> set [0..<16]. digit_char k \<noteq> CHR 0x0A" by code_simp
    then have "digit_char (n mod 16) \<noteq> CHR 0x0A" by simp
    with Suc show ?case by auto
  qed simp
  show ?thesis using h [of 4 "of_char c"] by (auto simp: json_escape_def simp del: hex_digits.simps)
qed

lemma no_newline_text: "CHR 0x0A \<notin> set (json_text_string s)"
  using no_newline_escape by (auto simp: json_text_string_def)

lemma no_newline_join: "\<forall>t \<in> set ts. CHR 0x0A \<notin> set t \<Longrightarrow> CHR 0x0A \<notin> set (join_with '','' ts)"
  by (induction "'',''" ts rule: join_with.induct) auto

lemma no_newline_number: "list_all number_char t \<Longrightarrow> CHR 0x0A \<notin> set t"
proof -
  have "\<not> number_char (CHR 0x0A)" by code_simp
  then show "list_all number_char t \<Longrightarrow> CHR 0x0A \<notin> set t" by (auto simp: list_all_iff)
qed

lemma list_all2_right: "list_all2 P xs ts \<Longrightarrow> u \<in> set ts \<Longrightarrow> \<exists>x \<in> set xs. P x u"
  by (induction xs ts rule: list_all2_induct) auto

lemma no_newline_compact: "json_compact j = Some t \<Longrightarrow> json_wf fr j \<Longrightarrow> CHR 0x0A \<notin> set t"
proof (induction j arbitrary: t)
  case (JFloat s)
  then show ?case using float_token_facts(1) no_newline_number by (auto split: option.splits)
next
  case (JInt n)
  then show ?case using int_str_token [of n] no_newline_number by auto
next
  case (JStr s)
  then show ?case using no_newline_text by auto
next
  case (JList xs)
  from JList.prems(1) obtain ts where ts: "list_all2 (\<lambda>j t. json_compact j = Some t) xs ts"
    "t = CHR ''['' # join_with '','' ts @ '']''" by (auto simp: all_some_map)
  have "CHR 0x0A \<notin> set u" if "u \<in> set ts" for u
  proof -
    from list_all2_right [OF ts(1) that] obtain x where "x \<in> set xs" "json_compact x = Some u" by blast
    with JList show ?thesis by (auto simp: list_all_iff)
  qed
  with no_newline_join [of ts] ts(2) show ?case by auto
next
  case (JDict kvs)
  obtain ms where ms: "list_all2 (\<lambda>(i, j) (i', t). i' = i \<and> json_compact j = Some t) kvs ms"
    "t = CHR ''{'' # join_with '','' (map member_text ms) @ ''}''" using dict_members [OF JDict.prems(1)] by blast
  have "CHR 0x0A \<notin> set (member_text m)" if "m \<in> set ms" for m
  proof -
    from list_all2_right [OF ms(1) that] obtain kv where kv: "kv \<in> set kvs" "json_compact (snd kv) = Some (snd m)"
      by (cases m) auto
    with JDict have "CHR 0x0A \<notin> set (snd m)" by (fastforce simp: list_all_iff)
    with no_newline_text [of "fst m"] show ?thesis by (cases m) (auto simp: member_text_def)
  qed
  with no_newline_join [of "map member_text ms"] ms(2) show ?case by auto
qed (auto split: if_splits)

lemma no_newline_utf8: "CHR 0x0A \<notin> set t \<Longrightarrow> CHR 0x0A \<notin> set (utf8_encode t)"
proof -
  have other: "CHR 0x0A \<noteq> (char_of m :: char)" if "m < 256" "m \<noteq> 10" for m :: nat
  proof
    assume "CHR 0x0A = (char_of m :: char)"
    then have "(of_char (CHR 0x0A) :: nat) = of_char (char_of m :: char)" by (rule arg_cong)
    moreover have "(of_char (CHR 0x0A) :: nat) = 10" by simp
    moreover have "(of_char (char_of m :: char) :: nat) = m" using that(1) by (simp add: of_char_of)
    ultimately show False using that(2) by simp
  qed
  have char: "CHR 0x0A \<notin> set (let n = (of_char c :: nat) in
      if n < 128 then [c] else [char_of (192 + n div 64), char_of (128 + n mod 64)])" if "c \<noteq> CHR 0x0A" for c :: char
  proof -
    define n where "n = (of_char c :: nat)"
    have "n < 256" by (simp add: n_def)
    then have "n div 64 < 4" "n mod 64 < 64" by auto
    then have "CHR 0x0A \<noteq> (char_of (192 + n div 64) :: char)" "CHR 0x0A \<noteq> (char_of (128 + n mod 64) :: char)"
      by (intro other; linarith)+
    with that show ?thesis unfolding n_def [symmetric] Let_def by (auto simp del: char_of_eq_iff)
  qed
  assume "CHR 0x0A \<notin> set t"
  then show ?thesis
  proof (induction t)
    case (Cons c t)
    have "utf8_encode (c # t) = (let n = (of_char c :: nat) in
        if n < 128 then [c] else [char_of (192 + n div 64), char_of (128 + n mod 64)]) @ utf8_encode t"
      by (simp add: utf8_encode_def)
    moreover from Cons.prems have "c \<noteq> CHR 0x0A" by auto
    ultimately show ?case using Cons char [of c] by (simp only: set_append Un_iff) simp
  qed (simp add: utf8_encode_def)
qed

section \<open>The aggregation of a parsed report\<close>

definition sheet_of :: "parsed_sheet \<Rightarrow> sheet_key" where
  "sheet_of g = (int (ps_index g), ps_name g)"

definition row_value :: "parsed_sheet \<Rightarrow> nat \<times> (string \<times> json) list \<Rightarrow> json" where
  "row_value g r = row_payload (ps_index g) (ps_name g) (fst r) (snd r)"

lemma row_value_wf:
  assumes "good_sheet nok (json_wf fr) g" "r \<in> set (ps_rows g)"
  shows "json_wf fr (row_value g r)" "map fst (snd r) = map col_name (ps_columns g)"
    "json_compact (row_value g r) = Some (the (json_compact (row_value g r)))"
proof -
  have good: "good_row (json_wf fr) (ps_columns g) (ps_index g) (ps_name g) r"
    and names: "distinct (map (py_casefold \<circ> col_name) (ps_columns g))"
    using assms by (auto simp: good_sheet_def list_all_iff good_columns_def)
  from good show n: "map fst (snd r) = map col_name (ps_columns g)"
    and "json_compact (row_value g r) = Some (the (json_compact (row_value g r)))"
    by (auto simp: good_row_def row_value_def)
  have "distinct (map col_name (ps_columns g))" using names by (auto simp: distinct_map inj_on_def)
  with good n show "json_wf fr (row_value g r)"
    by (simp add: row_value_def row_payload_def good_row_def json_nat_def)
qed

lemma row_parts_value: "row_parts (row_value g r) = Some (sheet_of g, snd r)"
  by (simp add: row_parts_def row_value_def row_payload_def get_simps json_nat_def sheet_of_def)

definition row_counts :: "aggregation \<Rightarrow> (sheet_key \<times> nat \<times> string list) list" where
  "row_counts ag = map (\<lambda>s. (st_key s, st_rows s, map fst (st_columns s))) (ag_sheets ag)"

definition add_count :: "sheet_key \<Rightarrow> nat \<Rightarrow> sheet_key \<times> nat \<times> string list \<Rightarrow> sheet_key \<times> nat \<times> string list" where
  "add_count key k e = (case e of (i, n, names) \<Rightarrow> (i, if i = key then n + k else n, names))"

definition lines_fit :: "string list \<Rightarrow> bool" where
  "lines_fit ls \<longleftrightarrow> list_all (\<lambda>l. length l \<le> DASHBOARD_MAX_NORMALIZED_LINE_BYTES) ls"

lemma aggregate_line_row:
  assumes good: "good_sheet nok (json_wf fr) g" "r \<in> set (ps_rows g)"
    and state: "(sheet_of g, n, map col_name (ps_columns g)) \<in> set (row_counts ag)" "distinct (map fst (row_counts ag))"
    and fits: "length (row_line (ps_index g) (ps_name g) r) \<le> DASHBOARD_MAX_NORMALIZED_LINE_BYTES"
      "ag_uncompressed ag + length (row_line (ps_index g) (ps_name g) r) \<le> REPORT_MAX_NORMALIZED_UNCOMPRESSED_BYTES"
    and none: "ag_insight ag = None"
  shows "\<exists>ag'. aggregate_line (json_loads fr) order job (row_line (ps_index g) (ps_name g) r) ag = Inr ag'
     \<and> row_counts ag' = map (add_count (sheet_of g) 1) (row_counts ag) \<and> ag_records ag' = ag_records ag + 1
     \<and> ag_uncompressed ag' = ag_uncompressed ag + length (row_line (ps_index g) (ps_name g) r)
     \<and> ag_insight ag' = None"
proof -
  let ?line = "row_line (ps_index g) (ps_name g) r"
  have loads: "json_loads fr ?line = Some (row_value g r)"
    using json_loads_line [OF row_value_wf(1,3) [OF good]] by (simp add: row_line_def row_value_def)
  obtain s where s: "s \<in> set (ag_sheets ag)" "st_key s = sheet_of g" "map fst (st_columns s) = map col_name (ps_columns g)"
    using state(1) by (auto simp: row_counts_def)
  then obtain s' where s': "find (\<lambda>s. st_key s = sheet_of g) (ag_sheets ag) = Some s'"
    by (cases "find (\<lambda>s. st_key s = sheet_of g) (ag_sheets ag)") (auto simp: find_None_iff)
  have "distinct (map st_key (ag_sheets ag))" using state(2) by (simp add: row_counts_def comp_def)
  moreover from s' have "s' \<in> set (ag_sheets ag)" "st_key s' = sheet_of g"
    by (auto simp: find_Some_iff)
  ultimately have "s' = s" using s by (metis distinct_map inj_onD)
  have names: "set (map fst (snd r)) = set (map fst (st_columns s))"
    using row_value_wf(2) [OF good] s(3) by simp
  let ?ag = "\<lparr> ag_sheets = map (\<lambda>x. if st_key x = sheet_of g then observe_sheet_row (snd r) x else x) (ag_sheets ag),
     ag_uncompressed = ag_uncompressed ag + length ?line, ag_records = ag_records ag + 1, ag_insight = None \<rparr>"
  have "aggregate_line (json_loads fr) order job ?line ag = Inr ?ag"
    using fits none s' names loads row_parts_value [of g r] \<open>s' = s\<close>
    by (simp add: aggregate_line_def Let_def observe_insight_def)
  moreover have "row_counts ?ag = map (add_count (sheet_of g) 1) (row_counts ag)"
    by (auto simp: row_counts_def add_count_def observe_sheet_row_def comp_def case_prod_unfold)
  ultimately show ?thesis by auto
qed

lemma fst_add_count [simp]: "fst (add_count key k e) = fst e" "fst \<circ> add_count key k = fst"
  by (auto simp: add_count_def split: prod.splits)

lemma add_count_facts:
  "add_count key k (add_count key l e) = add_count key (k + l) e"
  "add_count key 0 e = e"
  "(i, n, names) \<in> set es \<Longrightarrow> \<exists>n. (i, n, names) \<in> set (map (add_count key k) es)"
  by (auto simp: add_count_def case_prod_unfold) (force simp: add_count_def)

lemma aggregate_rows:
  assumes "good_sheet nok (json_wf fr) g" "set rs \<subseteq> set (ps_rows g)"
    "\<exists>n. (sheet_of g, n, map col_name (ps_columns g)) \<in> set (row_counts ag)" "distinct (map fst (row_counts ag))"
    "lines_fit (map (row_line (ps_index g) (ps_name g)) rs)"
    "ag_uncompressed ag + total_length (map (row_line (ps_index g) (ps_name g)) rs) \<le> REPORT_MAX_NORMALIZED_UNCOMPRESSED_BYTES"
    "ag_insight ag = None"
  shows "\<exists>ag'. fold_result (aggregate_line (json_loads fr) order job) (map (row_line (ps_index g) (ps_name g)) rs) ag = Inr ag'
     \<and> row_counts ag' = map (add_count (sheet_of g) (length rs)) (row_counts ag) \<and> ag_records ag' = ag_records ag + length rs
     \<and> ag_uncompressed ag' = ag_uncompressed ag + total_length (map (row_line (ps_index g) (ps_name g)) rs)
     \<and> ag_insight ag' = None"
  using assms(2-)
proof (induction rs arbitrary: ag)
  case Nil
  then show ?case by (simp add: total_length_def add_count_facts(2) map_idI)
next
  case (Cons r rs)
  let ?line = "row_line (ps_index g) (ps_name g)"
  obtain n where n: "(sheet_of g, n, map col_name (ps_columns g)) \<in> set (row_counts ag)" using Cons.prems(2) by blast
  obtain ag1 where ag1: "aggregate_line (json_loads fr) order job (?line r) ag = Inr ag1"
    "row_counts ag1 = map (add_count (sheet_of g) 1) (row_counts ag)" "ag_records ag1 = ag_records ag + 1"
    "ag_uncompressed ag1 = ag_uncompressed ag + length (?line r)" "ag_insight ag1 = None"
    using aggregate_line_row [OF assms(1) _ n Cons.prems(3), of r order job] Cons.prems
    by (auto simp: lines_fit_def total_length_def)
  have "\<exists>ag'. fold_result (aggregate_line (json_loads fr) order job) (map ?line rs) ag1 = Inr ag'
     \<and> row_counts ag' = map (add_count (sheet_of g) (length rs)) (row_counts ag1) \<and> ag_records ag' = ag_records ag1 + length rs
     \<and> ag_uncompressed ag' = ag_uncompressed ag1 + total_length (map ?line rs) \<and> ag_insight ag' = None"
    by (rule Cons.IH) (use Cons.prems ag1 add_count_facts(3) [OF n] in \<open>auto simp: lines_fit_def total_length_def\<close>)
  with ag1 show ?case by (auto simp: add_count_facts(1) total_length_def comp_def add.commute)
qed

definition expected_counts :: "parsed_sheet list \<Rightarrow> parsed_sheet list \<Rightarrow> (sheet_key \<times> nat \<times> string list) list" where
  "expected_counts gs hs = map (\<lambda>g. (sheet_of g, sum_list (map (\<lambda>h. if sheet_of h = sheet_of g then length (ps_rows h) else 0) hs),
     map col_name (ps_columns g))) gs"

lemma expected_counts_snoc:
  "map (add_count (sheet_of h) (length (ps_rows h))) (expected_counts gs hs) = expected_counts gs (hs @ [h])"
  by (auto simp: expected_counts_def add_count_def)

lemma total_length_append [simp]: "total_length (xs @ ys) = total_length xs + total_length ys"
  by (simp add: total_length_def)

lemma aggregate_sheets:
  assumes "list_all (good_sheet nok (json_wf fr)) gs" "distinct (map sheet_of gs)"
    "lines_fit (concat (map sheet_lines gs))"
    "total_length (concat (map sheet_lines gs)) \<le> REPORT_MAX_NORMALIZED_UNCOMPRESSED_BYTES"
  shows "hs = take n gs \<Longrightarrow> row_counts ag = expected_counts gs [] \<Longrightarrow> ag_records ag = 0 \<Longrightarrow> ag_uncompressed ag = 0
     \<Longrightarrow> ag_insight ag = None \<Longrightarrow>
     \<exists>ag'. fold_result (aggregate_line (json_loads fr) order job) (concat (map sheet_lines hs)) ag = Inr ag'
       \<and> row_counts ag' = expected_counts gs hs \<and> ag_records ag' = length (concat (map sheet_lines hs))
       \<and> ag_uncompressed ag' = total_length (concat (map sheet_lines hs)) \<and> ag_insight ag' = None"
proof (induction n arbitrary: hs)
  case 0
  then show ?case by (simp add: total_length_def)
next
  case (Suc n)
  show ?case
  proof (cases "n < length gs")
    case False
    with Suc show ?thesis by simp
  next
    case True
    define g where "g = gs ! n"
    have g: "g \<in> set gs" "take (Suc n) gs = take n gs @ [g]" using True by (simp_all add: g_def take_Suc_conv_app_nth)
    from Suc.IH [OF refl Suc.prems(2-)] obtain ag1 where
      ag1: "fold_result (aggregate_line (json_loads fr) order job) (concat (map sheet_lines (take n gs))) ag = Inr ag1"
      "row_counts ag1 = expected_counts gs (take n gs)" "ag_records ag1 = length (concat (map sheet_lines (take n gs)))"
      "ag_uncompressed ag1 = total_length (concat (map sheet_lines (take n gs)))" "ag_insight ag1 = None" by blast
    have split: "concat (map sheet_lines gs) = concat (map sheet_lines (take n gs)) @ sheet_lines g
        @ concat (map sheet_lines (drop (Suc n) gs))"
      by (subst (1) id_take_nth_drop [OF True]) (simp add: g_def)
    have "\<exists>ag'. fold_result (aggregate_line (json_loads fr) order job) (map (row_line (ps_index g) (ps_name g)) (ps_rows g)) ag1 = Inr ag'
     \<and> row_counts ag' = map (add_count (sheet_of g) (length (ps_rows g))) (row_counts ag1)
     \<and> ag_records ag' = ag_records ag1 + length (ps_rows g)
     \<and> ag_uncompressed ag' = ag_uncompressed ag1 + total_length (map (row_line (ps_index g) (ps_name g)) (ps_rows g))
     \<and> ag_insight ag' = None"
    proof (rule aggregate_rows)
      show "good_sheet nok (json_wf fr) g" using assms(1) g(1) by (simp add: list_all_iff)
      show "\<exists>n. (sheet_of g, n, map col_name (ps_columns g)) \<in> set (row_counts ag1)"
        using g(1) by (auto simp: ag1(2) expected_counts_def)
      show "distinct (map fst (row_counts ag1))" using assms(2) by (simp add: ag1(2) expected_counts_def comp_def)
      show "lines_fit (map (row_line (ps_index g) (ps_name g)) (ps_rows g))"
        using assms(3) by (simp add: split lines_fit_def sheet_lines_def)
      show "ag_uncompressed ag1 + total_length (map (row_line (ps_index g) (ps_name g)) (ps_rows g))
          \<le> REPORT_MAX_NORMALIZED_UNCOMPRESSED_BYTES"
        using assms(4) by (simp add: split ag1(4) sheet_lines_def)
    qed (simp_all add: ag1(5))
    moreover have "map (row_line (ps_index g) (ps_name g)) (ps_rows g) = sheet_lines g"
      "length (ps_rows g) = length (sheet_lines g)" by (simp_all add: sheet_lines_def)
    ultimately show ?thesis using ag1 g(2) Suc.prems(1) expected_counts_snoc [of g gs "take n gs"]
      by (auto simp: fold_result_append)
  qed
qed

lemma expected_all:
  assumes "distinct (map sheet_of gs)"
  shows "expected_counts gs gs = map (\<lambda>g. (sheet_of g, length (ps_rows g), map col_name (ps_columns g))) gs"
proof -
  have "sum_list (map (\<lambda>h. if sheet_of h = sheet_of g then length (ps_rows h) else 0) gs) = length (ps_rows g)"
    if "g \<in> set gs" for g
    using that assms
  proof (induction gs)
    case (Cons x xs)
    have zero: "sum_list (map (\<lambda>h. if sheet_of h = sheet_of x then length (ps_rows h) else 0) xs) = 0"
    proof -
      have "sheet_of h \<noteq> sheet_of x" if "h \<in> set xs" for h
        using imageI [OF that, of sheet_of] Cons.prems(2) by auto
      then show ?thesis by (simp add: sum_list_eq_0_iff)
    qed
    show ?case using Cons zero by (cases "g = x") auto
  qed simp
  then show ?thesis by (simp add: expected_counts_def)
qed

lemma distinct_sheets: "distinct (map ps_index gs) \<Longrightarrow> distinct (map sheet_of gs)"
  by (auto simp: distinct_map sheet_of_def inj_on_def)

lemma parsed_lines_separate:
  assumes "list_all (good_sheet nok (json_wf fr)) gs"
  shows "content_lines (concat (concat (map sheet_lines gs))) = concat (map sheet_lines gs)"
proof (rule content_lines_concat)
  fix l
  assume "l \<in> set (concat (map sheet_lines gs))"
  then obtain g r where g: "g \<in> set gs" "r \<in> set (ps_rows g)" "l = row_line (ps_index g) (ps_name g) r"
    by (auto simp: sheet_lines_def)
  have "good_sheet nok (json_wf fr) g" using assms g(1) by (simp add: list_all_iff)
  from no_newline_compact [OF row_value_wf(3) [OF this g(2)] row_value_wf(1) [OF this g(2)]]
  have "CHR 0x0A \<notin> set (utf8_encode (the (json_compact (row_value g r))))" by (rule no_newline_utf8)
  then show "\<exists>t. l = t @ [CHR 0x0A] \<and> CHR 0x0A \<notin> set t"
    by (auto simp: g(3) row_line_def encode_line_def row_value_def)
qed

text \<open>The aggregation of a parsed report succeeds, with the counts of its sheets.\<close>

lemma aggregate_parsed:
  assumes parsed: "report_of_sheets (\<lambda>s. s \<noteq> []) (json_wf fr) k gs nz"
    and job: "normalized_size_bytes j = Some (int (length content))" "record_count j = Some (int (nz_record_count nz))"
    and pk: "ap_loads pk = json_loads fr" "ap_gunzip pk content = Some (concat (nz_lines nz))"
    and fit: "lines_fit (nz_lines nz)"
  shows "\<exists>ag. aggregate_normalized pk j (sort_keys (report_profile ctx (ap_sha256 pk content) nz)) content None
        = Inr (render_aggregate ag, None)
     \<and> ag_records ag = nz_record_count nz \<and> length (ag_sheets ag) = length (nz_sheets nz)"
proof -
  let ?profile = "sort_keys (report_profile ctx (ap_sha256 pk content) nz)"
  have gs: "list_all (good_sheet (\<lambda>s. s \<noteq> []) (json_wf fr)) gs" "distinct (map sheet_of gs)"
    "nz_lines nz = concat (map sheet_lines gs)" "normalizer_ok nz" "nz_sheets nz = map sheet_json gs"
    using parsed distinct_sheets by (auto simp: report_of_sheets_def)
  let ?start = "\<lparr> ag_sheets = map start_totals (map sheet_entry gs), ag_uncompressed = 0, ag_records = 0, ag_insight = None \<rparr>"
  have start: "row_counts ?start = expected_counts gs []"
    by (simp add: row_counts_def start_totals_def sheet_entry_def expected_counts_def sheet_of_def comp_def)
  have "\<exists>ag. fold_result (aggregate_line (json_loads fr) (ap_order pk) (job_id j)) (concat (map sheet_lines (take (length gs) gs))) ?start = Inr ag
       \<and> row_counts ag = expected_counts gs (take (length gs) gs)
       \<and> ag_records ag = length (concat (map sheet_lines (take (length gs) gs)))
       \<and> ag_uncompressed ag = total_length (concat (map sheet_lines (take (length gs) gs))) \<and> ag_insight ag = None"
    by (rule aggregate_sheets [OF gs(1,2) _ _ refl start])
      (use fit gs(3,4) in \<open>simp_all add: normalizer_ok_def\<close>)
  then obtain ag where ag: "fold_result (aggregate_line (json_loads fr) (ap_order pk) (job_id j)) (nz_lines nz) ?start = Inr ag"
    "row_counts ag = expected_counts gs gs" "ag_records ag = length (nz_lines nz)" "ag_insight ag = None"
    by (auto simp: gs(3))
  have rows: "map st_rows (ag_sheets ag) = map (\<lambda>(_, records, _). records) (map sheet_entry gs)"
    using arg_cong [OF ag(2) [unfolded expected_all [OF gs(2)]], of "map (fst \<circ> snd)"]
    by (simp add: row_counts_def sheet_entry_def comp_def)
  have "json_get ''sha256'' (json_get ''normalized'' ?profile) = JStr (ap_sha256 pk content)"
    unfolding profile_get(2) by (simp add: report_profile_def get_simps get_sort_keys sort_keys_leaf del: sort_keys.simps)
  moreover have "content_lines (concat (nz_lines nz)) = nz_lines nz"
    using parsed_lines_separate [OF gs(1)] by (simp add: gs(3))
  moreover have "length (ag_sheets ag) = length gs" using arg_cong [OF rows, of length] by simp
  ultimately show ?thesis
    using job pk ag rows contract_of_profile [OF parsed] gs(4,5)
    by (intro exI [of _ ag]) (simp add: aggregate_normalized_def normalizer_ok_def)
qed

definition parser_packages :: report_packages where
  "parser_packages = \<lparr> rp_nfc = (\<lambda>s. s), rp_gzip = \<lparr> gzip_content = concat, gzip_written = total_length \<rparr>,
     rp_sha256 = (\<lambda>s. replicate 64 (CHR ''0'')), rp_decode = Some, rp_casefold = py_casefold,
     rp_zip_entries = (\<lambda>_. None), rp_open_xlsx = (\<lambda>_. None), rp_open_xls = (\<lambda>_. None) \<rparr>"

definition sample_parsing_context :: parsing_context where
  "sample_parsing_context = \<lparr> pc_job_id = 9, pc_business_id = 1, pc_report_upload_id = 7,
     pc_original_filename = ''r.csv'', pc_file_extension = ''csv'', pc_content_type = ''text/csv'' \<rparr>"

definition sample_csv :: string where
  "sample_csv = ''a,A'' @ [CHR 0x0A] @ ''1,'' @ [CHR 0x0A]"


section \<open>Bounds of a parsed report\<close>

lemma finish_report_Inr:
  "finish_report gz nz = Inr normalized \<Longrightarrow> nz_sheets nz \<noteq> [] \<and> normalized = gzip_content gz (nz_lines nz)
     \<and> length normalized \<le> REPORT_MAX_NORMALIZED_COMPRESSED_BYTES"
  by (auto simp: finish_report_def split: if_splits)

lemma parse_report_Inr:
  assumes "parse_report_content pk ctx content = Inr a"
  obtains nz t where "normalize_report pk ctx content = Inr nz" "nz_sheets nz \<noteq> []"
    "art_normalized_content a = gzip_content (rp_gzip pk) (nz_lines nz)"
    "length (art_normalized_content a) \<le> REPORT_MAX_NORMALIZED_COMPRESSED_BYTES"
    "json_render (report_profile ctx (rp_sha256 pk (art_normalized_content a)) nz) = Some t"
    "art_profile_content a = encode_line t" "length (art_profile_content a) \<le> REPORT_MAX_PROFILE_BYTES"
    "art_record_count a = nz_record_count nz" "art_sheet_count a = length (nz_sheets nz)"
proof -
  from assms obtain nz normalized where nz: "normalize_report pk ctx content = Inr nz"
    and f: "finish_report (rp_gzip pk) nz = Inr normalized"
    by (auto simp: parse_report_content_def and_then_Inr_iff)
  with assms obtain t where t: "json_render (report_profile ctx (rp_sha256 pk normalized) nz) = Some t"
    by (auto simp: parse_report_content_def Let_def split: option.splits)
  with assms nz f have "length (encode_line t) \<le> REPORT_MAX_PROFILE_BYTES"
    "a = \<lparr> art_normalized_content = normalized, art_normalized_sha256 = rp_sha256 pk normalized,
       art_profile_content = encode_line t, art_profile_sha256 = rp_sha256 pk (encode_line t),
       art_record_count = nz_record_count nz, art_sheet_count = length (nz_sheets nz) \<rparr>"
    by (auto simp: parse_report_content_def Let_def split: if_splits)
  with nz t finish_report_Inr [OF f] show ?thesis by (intro that) auto
qed

lemma record_count_bound:
  "list_all (good_sheet nok vok) gs \<Longrightarrow> length (concat (map sheet_lines gs)) \<le> length gs * REPORT_MAX_ROWS_PER_SHEET"
  by (induction gs) (auto simp: good_sheet_def sheet_lines_def)


definition sample_artifacts :: report_artifacts where
  "sample_artifacts = (case parse_report_content parser_packages sample_parsing_context sample_csv of Inr a \<Rightarrow> a
     | Inl _ \<Rightarrow> \<lparr> art_normalized_content = [], art_normalized_sha256 = [], art_profile_content = [],
                   art_profile_sha256 = [], art_record_count = 0, art_sheet_count = 0 \<rparr>)"

lemma sample_parse: "parse_report_content parser_packages sample_parsing_context sample_csv = Inr sample_artifacts"
proof -
  have "\<not> isl (parse_report_content parser_packages sample_parsing_context sample_csv)" by code_simp
  then show ?thesis by (cases "parse_report_content parser_packages sample_parsing_context sample_csv")
    (simp_all add: sample_artifacts_def)
qed


section \<open>A parsed report is accepted as the source of a snapshot\<close>

text \<open>What the gateway returns for the two objects of a job.\<close>

definition reader_returns :: "object_reader \<Rightarrow> report_processing_job \<Rightarrow> report_artifacts \<Rightarrow> bool" where
  "reader_returns read j a \<longleftrightarrow>
     read (the (result_storage_bucket j)) (the (profile_storage_key j)) (the (profile_storage_version_id j))
       REPORT_MAX_PROFILE_BYTES = Inr (art_profile_content a)
   \<and> read (the (result_storage_bucket j)) (the (normalized_storage_key j)) (the (normalized_storage_version_id j))
       (length (art_normalized_content a)) = Inr (art_normalized_content a)"

lemma job_strings:
  assumes "job_stores j ctx a"
  shows "\<And>f. f \<in> set REQUIRED_JOB_STRINGS \<Longrightarrow> required_job_string f j = Inr (the (f j))"
  using assms by (auto simp: job_stores_def list_all_iff required_job_string_def split: option.splits)

lemma job_completed:
  assumes "job_stores j ctx a" "art_normalized_content a \<noteq> []" "1 \<le> art_sheet_count a"
    "length (art_normalized_content a) \<le> REPORT_MAX_NORMALIZED_COMPRESSED_BYTES"
  shows "validate_completed_job j = Inr ()"
proof -
  have "map_result (\<lambda>f. required_job_string f j) REQUIRED_JOB_STRINGS = Inr (map (\<lambda>f. the (f j)) REQUIRED_JOB_STRINGS)"
    unfolding map_result_Inr_iff using job_strings [OF assms(1)] by (auto simp: list_all2_conv_all_nth)
  with assms show ?thesis by (auto simp: validate_completed_job_def job_stores_def)
qed

lemma profile_wf:
  assumes "report_of_sheets nok vok k gs nz"
  shows "json_wf fr (report_profile ctx digest nz)"
proof -
  have column: "json_wf fr (render_column c)" for c
  proof -
    have "list_all (\<lambda>(_, v). json_wf fr v) (text_counts c)" by (auto simp: text_counts_def list_all_iff json_nat_def)
    with distinct_text_counts [of c] show ?thesis
      unfolding render_column_def Let_def text_counts_def [symmetric]
      by (simp add: json_nat_def json_option_def split: option.splits)
  qed
  then have "list_all (json_wf fr) (map sheet_json gs)"
    by (auto simp: list_all_iff sheet_json_def render_sheet_def json_nat_def)
  with assms show ?thesis by (simp add: report_profile_def report_of_sheets_def json_nat_def)
qed

text \<open>
  C6: what the worker stores, the snapshots read: the artifacts of every parsed report pass all checks of the profile
  and of the normalized rows, and are aggregated with the record and sheet counts of the report.  \<open>gzip\<close>
  expands what it compressed, \<open>sha256\<close> gives 64 hexadecimal digits, sheets have names, the floats of the cells
  are texts of \<open>repr\<close>, and no line is longer than the 16 MiB that the reader of the lines allows.
\<close>

theorem parsed_report_accepted:
  assumes parse: "parse_report_content pk ctx content = Inr a"
    and readers: "readers_ok (\<lambda>s. s \<noteq> []) (json_wf float_repr) pk content"
    and names: "py_strip (pc_original_filename ctx) \<noteq> []" "py_strip (pc_content_type ctx) \<noteq> []"
    and sha: "ap_sha256 ap = rp_sha256 pk" "sha256_hex (JStr (rp_sha256 pk (art_normalized_content a)))"
    and loads: "ap_loads ap = json_loads float_repr"
    and gunzip: "\<And>ls. ap_gunzip ap (gzip_content (rp_gzip pk) ls) = Some (concat ls)"
    and fit: "lines_fit (content_lines (the (ap_gunzip ap (art_normalized_content a))))"
    and stored: "art_normalized_content a \<noteq> []" "job_stores j ctx a" "reader_returns read j a"
  shows "\<exists>source. read_source_artifact ap read j None = Inr (source, None) \<and> sa_job source = j
     \<and> json_get ''record_count'' (sa_aggregate source) = json_nat (art_record_count a)
     \<and> json_get ''sheet_count'' (sa_aggregate source) = json_nat (art_sheet_count a)"
proof -
  from parse obtain nz t where nz: "normalize_report pk ctx content = Inr nz" "nz_sheets nz \<noteq> []"
    "art_normalized_content a = gzip_content (rp_gzip pk) (nz_lines nz)"
    "length (art_normalized_content a) \<le> REPORT_MAX_NORMALIZED_COMPRESSED_BYTES"
    "json_render (report_profile ctx (rp_sha256 pk (art_normalized_content a)) nz) = Some t"
    "art_profile_content a = encode_line t" "length (art_profile_content a) \<le> REPORT_MAX_PROFILE_BYTES"
    "art_record_count a = nz_record_count nz" "art_sheet_count a = length (nz_sheets nz)"
    by (rule parse_report_Inr)
  obtain k gs where gs: "report_of_sheets (\<lambda>s. s \<noteq> []) (json_wf float_repr) k gs nz"
    using normalize_report_parsed(1) [OF nz(1) readers] by auto
  then have lines: "content_lines (concat (nz_lines nz)) = nz_lines nz" "nz_sheets nz = map sheet_json gs"
    using parsed_lines_separate by (auto simp: report_of_sheets_def)
  let ?profile = "sort_keys (report_profile ctx (rp_sha256 pk (art_normalized_content a)) nz)"
  have expand: "ap_gunzip ap (art_normalized_content a) = Some (concat (nz_lines nz))" by (simp add: nz(3) gunzip)
  obtain ag where ag: "aggregate_normalized ap j ?profile (art_normalized_content a) None = Inr (render_aggregate ag, None)"
    "ag_records ag = nz_record_count nz" "length (ag_sheets ag) = length (nz_sheets nz)"
    using aggregate_parsed [OF gs _ _ loads expand, of j ctx] fit stored(2) sha(1)
    by (auto simp: expand lines(1) job_stores_def nz(8))
  have "json_loads float_repr (art_profile_content a) = Some ?profile"
    unfolding nz(6) by (rule json_loads_line)
      (use profile_wf [OF gs] nz(5) in \<open>simp_all only: json_wf_sort_keys json_render_sorted\<close>)
  moreover have "profile_header_ok j ?profile"
    by (rule profile_header_accepted) (use stored(2) nz(8,9) names sha(2) normalize_report_parsed(2) [OF nz(1) readers]
      in \<open>auto simp: job_stores_def\<close>)
  moreover have "is_dict ?profile" unfolding sort_keys_leaf by (simp add: report_profile_def sort_keys_leaf)
  moreover have "sum_list (map (\<lambda>(_, records, _). records) (map sheet_entry gs)) = nz_record_count nz"
    using gs by (simp add: report_of_sheets_def normalizer_ok_def sheet_entry_def sheet_lines_def length_concat comp_def)
  ultimately have profile: "validate_profile (ap_loads ap) j (art_profile_content a) = Inr ?profile"
    using nz(7,8,9) stored(2) lines(2)
    by (simp add: validate_profile_def loads contract_of_profile [OF gs] job_stores_def)
  have "validate_completed_job j = Inr ()"
    by (rule job_completed [OF stored(2,1) _ nz(4)]) (use nz(2,9) in \<open>simp add: Suc_le_eq\<close>)
  moreover have "required_job_string f j = Inr (the (f j))" if "f \<in> set REQUIRED_JOB_STRINGS" for f
    using job_strings [OF stored(2) that] .
  ultimately have "read_source_artifact ap read j None
      = Inr (\<lparr> sa_job = j, sa_profile = ?profile, sa_aggregate = render_aggregate ag \<rparr>, None)"
    using stored(2,3) profile ag(1)
    by (simp add: read_source_artifact_def REQUIRED_JOB_STRINGS_def read_artifact_def reader_returns_def
        validate_for_insight_def job_stores_def)
  then show ?thesis
    using ag(2,3) nz(8,9) by (auto simp: render_aggregate_def get_simps)
qed


definition sample_artifact_packages :: artifact_packages where
  "sample_artifact_packages = \<lparr> ap_loads = json_loads Some, ap_gunzip = Some,
     ap_sha256 = (\<lambda>s. replicate 64 (CHR ''0'')), ap_order = NUMERIC_FIELDS \<rparr>"

definition stored_job :: report_processing_job where
  "stored_job = \<lparr> job_id = 9, job_business_id = 1, job_created_at = 0, report_upload_id = 7,
     source_storage_version_id = ''v'', source_etag = ''e'', job_status = COMPLETED, job_attempt_count = 1,
     max_attempts = 3, dispatch_attempt_count = 1, available_at = None, last_dispatched_at = Some 1,
     started_at = Some 2, lease_token = None, lease_expires_at = None, finished_at = Some 3, error_code = None,
     result_storage_bucket = Some ''bkt'', normalized_storage_key = Some ''n'',
     normalized_storage_version_id = Some ''nv'', normalized_etag = Some ''ne'',
     normalized_size_bytes = Some (int (length (art_normalized_content sample_artifacts))),
     profile_storage_key = Some ''p'', profile_storage_version_id = Some ''pv'', profile_etag = Some ''pe'',
     record_count = Some (int (art_record_count sample_artifacts)),
     sheet_count = Some (int (art_sheet_count sample_artifacts)) \<rparr>"

definition sample_reader :: object_reader where
  "sample_reader = (\<lambda>bucket key version max_bytes. Inr (if key = ''p'' then art_profile_content sample_artifacts
     else art_normalized_content sample_artifacts))"

lemma sample_stored: "job_stores stored_job sample_parsing_context sample_artifacts"
proof -
  have "list_all (\<lambda>f. case f stored_job of None \<Rightarrow> False | Some s \<Rightarrow> py_strip s \<noteq> []) REQUIRED_JOB_STRINGS"
    by (simp add: REQUIRED_JOB_STRINGS_def stored_job_def) code_simp
  then show ?thesis by (simp add: job_stores_def stored_job_def sample_parsing_context_def)
qed

theorem parsed_report_accepted_witness:
  "\<exists>source. read_source_artifact sample_artifact_packages sample_reader stored_job None = Inr (source, None)
     \<and> json_get ''record_count'' (sa_aggregate source) = JInt 1"
proof -
  have readers: "readers_ok (\<lambda>s. s \<noteq> []) (json_wf Some) parser_packages sample_csv"
    by (simp add: readers_ok_def parser_packages_def)
  have names: "py_strip (pc_original_filename sample_parsing_context) \<noteq> []"
    "py_strip (pc_content_type sample_parsing_context) \<noteq> []" by code_simp+
  have sha: "ap_sha256 sample_artifact_packages = rp_sha256 parser_packages"
    "sha256_hex (JStr (rp_sha256 parser_packages (art_normalized_content sample_artifacts)))"
    by (simp_all add: sample_artifact_packages_def parser_packages_def sha256_hex_def list_all_iff) code_simp
  have loads: "ap_loads sample_artifact_packages = json_loads Some" by (simp add: sample_artifact_packages_def)
  have gunzip: "ap_gunzip sample_artifact_packages (gzip_content (rp_gzip parser_packages) ls) = Some (concat ls)" for ls
    by (simp add: sample_artifact_packages_def parser_packages_def)
  have fit: "lines_fit (content_lines (the (ap_gunzip sample_artifact_packages (art_normalized_content sample_artifacts))))"
    by code_simp
  have some: "art_normalized_content sample_artifacts \<noteq> []" "art_record_count sample_artifacts = 1" by code_simp+
  have read: "reader_returns sample_reader stored_job sample_artifacts"
    by (simp add: reader_returns_def sample_reader_def stored_job_def)
  from parsed_report_accepted [OF sample_parse readers names sha loads gunzip fit some(1) sample_stored read]
  show ?thesis by (auto simp: some(2) json_nat_def)
qed

end
