(* ===== verification/Dashboard_Snapshots.thy ===== *)
theory Dashboard_Snapshots
  imports Snapshot_Artifacts Auth_Rows
begin

text \<open>
  \<open>app/services/dashboard_snapshots.py\<close>, the services: the public schema of a source, the payload of a snapshot,
  and its materialization.  \<open>env\<close> is what other transactions commit between the first transaction of an operation
  and the lock of its second one; \<open>parse_insight\<close> is the conversion by pydantic of a stored insight
  configuration to its types, after which its validators run.
\<close>

definition dashboard_by_id :: "db \<Rightarrow> uuid \<Rightarrow> uuid \<Rightarrow> dashboard option" where
  "dashboard_by_id d b i = scope_one dash_business_id b (\<lambda>x. dash_id x = i) (dashboards d)"

definition source_job :: "db \<Rightarrow> uuid \<Rightarrow> uuid \<Rightarrow> report_processing_job option" where
  "source_job d b i = scope_one job_business_id b (\<lambda>j. job_id j = i) (processing_jobs d)"

section \<open>The schema of a source\<close>

record source_schema =
  sch_processing_job_id :: uuid
  sch_report_upload_id :: uuid
  sch_filename :: string
  sch_record_count :: "int option"
  sch_sheet_count :: "int option"
  sch_sheets :: "json list"

definition public_sheet :: "json \<Rightarrow> json" where
  "public_sheet sheet = JDict
     [(''sheet_index'', json_get ''index'' sheet), (''sheet_name'', json_get ''name'' sheet),
      (''record_count'', json_get ''record_count'' sheet),
      (''columns'', JList (map
         (json_pick [''name'', ''source_name'', ''generated'', ''null_count'', ''non_null_count'', ''type_counts''])
         (json_items (json_get ''columns'' sheet))))]"

definition get_source_schema ::
  "artifact_packages \<Rightarrow> object_reader option \<Rightarrow> (db \<Rightarrow> db) \<Rightarrow> db \<Rightarrow> uuid \<Rightarrow> uuid
   \<Rightarrow> (snapshot_error + source_schema) \<times> db" where
  "get_source_schema pk storage env d b i =
     (case storage of
        None \<Rightarrow> (Inl DashboardSnapshotStorageError, d)
      | Some read \<Rightarrow>
        (case source_job d b i of
           None \<Rightarrow> (Inl DashboardSnapshotSourceNotFoundError, d)
         | Some j \<Rightarrow>
           (case and_then (validate_completed_job j) (\<lambda>_.
                 and_then (required_job_string result_storage_bucket j) (\<lambda>bucket.
                 and_then (required_job_string profile_storage_key j) (\<lambda>key.
                 and_then (required_job_string profile_storage_version_id j) (\<lambda>version.
                 and_then (read_artifact read bucket key version REPORT_MAX_PROFILE_BYTES) (\<lambda>content.
                 and_then (validate_profile (ap_loads pk) j content) (\<lambda>profile.
                 case (nonempty_text (json_get ''filename'' (json_get ''source'' profile)),
                       json_get ''sheets'' profile) of
                   (Some filename, JList sheets) \<Rightarrow> Inr (filename, sheets)
                 | _ \<Rightarrow> Inl DashboardSnapshotArtifactError)))))) of
              Inl e \<Rightarrow> (Inl e, d)
            | Inr (filename, sheets) \<Rightarrow>
                let d1 = env d
                in (case source_job d1 b i of
                      None \<Rightarrow> (Inl DashboardSnapshotConflictError, d1)
                    | Some current \<Rightarrow>
                        if job_signature_of current \<noteq> job_signature_of j
                        then (Inl DashboardSnapshotConflictError, d1)
                        else (Inr \<lparr> sch_processing_job_id = job_id j, sch_report_upload_id = report_upload_id current,
                                    sch_filename = filename, sch_record_count = record_count current,
                                    sch_sheet_count = sheet_count current,
                                    sch_sheets = map public_sheet sheets \<rparr>, d1)))))"

section \<open>The payload\<close>

definition text_option_json :: "string option \<Rightarrow> json" where
  "text_option_json v = (case v of None \<Rightarrow> JNull | Some s \<Rightarrow> JStr s)"

definition int_option_json :: "int option \<Rightarrow> json" where
  "int_option_json v = (case v of None \<Rightarrow> JNull | Some n \<Rightarrow> JInt n)"

definition source_payload :: "source_artifact \<Rightarrow> snapshot_error + json" where
  "source_payload source =
     (let j = sa_job source; profile_source = json_get ''source'' (sa_profile source)
      in case nonempty_text (json_get ''filename'' profile_source) of
           None \<Rightarrow> Inl DashboardSnapshotArtifactError
         | Some filename \<Rightarrow>
             if json_get ''report_upload_id'' profile_source \<noteq> JStr (uuid_str (report_upload_id j))
             then Inl DashboardSnapshotArtifactError
             else Inr (JDict
               [(''processing_job_id'', JStr (uuid_str (job_id j))),
                (''report_upload_id'', JStr (uuid_str (report_upload_id j))),
                (''filename'', JStr filename),
                (''normalized_storage_version_id'', text_option_json (normalized_storage_version_id j)),
                (''normalized_etag'', text_option_json (normalized_etag j)),
                (''profile_storage_version_id'', text_option_json (profile_storage_version_id j)),
                (''profile_etag'', text_option_json (profile_etag j)),
                (''record_count'', int_option_json (record_count j)),
                (''sheet_count'', int_option_json (sheet_count j)),
                (''aggregate'', sa_aggregate source)]))"

definition or_zero :: "int option \<Rightarrow> int" where
  "or_zero v = (case v of None \<Rightarrow> 0 | Some n \<Rightarrow> n)"

definition build_dashboard_snapshot_payload ::
  "uuid \<Rightarrow> dashboard_type \<Rightarrow> string \<Rightarrow> json \<Rightarrow> json option \<Rightarrow> json option \<Rightarrow> source_artifact list
   \<Rightarrow> snapshot_error + json" where
  "build_dashboard_snapshot_payload i t title configuration insight_configuration insight sources =
     and_then (map_result source_payload sources) (\<lambda>source_payloads.
       let definition_items = [(''id'', JStr (uuid_str i)), (''type'', JStr (dashboard_type_value t)),
             (''title'', JStr title), (''configuration'', configuration)]
             @ (case insight_configuration of None \<Rightarrow> [] | Some c \<Rightarrow> [(''insight_configuration'', c)]);
           payload = JDict ([(''format'', JStr DASHBOARD_SNAPSHOT_FORMAT),
             (''schema_version'', JInt DASHBOARD_SNAPSHOT_SCHEMA_VERSION),
             (''dashboard'', JDict definition_items),
             (''source_count'', json_nat (length sources)),
             (''record_count'', JInt (sum_list (map (\<lambda>s. or_zero (record_count (sa_job s))) sources))),
             (''sheet_count'', JInt (sum_list (map (\<lambda>s. or_zero (sheet_count (sa_job s))) sources))),
             (''sources'', JList source_payloads)]
             @ (case insight of None \<Rightarrow> [] | Some x \<Rightarrow> [(''insight'', x)]))
       in case canonical_json payload of
            None \<Rightarrow> Inl DashboardSnapshotArtifactError
          | Some text \<Rightarrow>
              if DASHBOARD_MAX_SNAPSHOT_PAYLOAD_BYTES < utf8_length text
              then Inl DashboardSnapshotArtifactError else Inr payload)"

section \<open>Snapshots\<close>

record materialization =
  mat_snapshot :: dashboard_snapshot
  mat_sources :: "snapshot_source list"
  mat_replayed :: bool

record snapshot_page =
  spage_items :: "dashboard_snapshot list"
  spage_total :: nat
  spage_limit :: nat
  spage_offset :: nat

definition validate_dashboard_snapshot_content ::
  "(string \<Rightarrow> string) \<Rightarrow> dashboard_snapshot \<Rightarrow> snapshot_error + unit" where
  "validate_dashboard_snapshot_content sha s =
     (if is_dict (ds_payload s) \<and> dashboard_snapshot_content_hash sha (ds_payload s) = Some (ds_content_hash s)
      then Inr () else Inl DashboardSnapshotArtifactError)"

definition source_jobs :: "db \<Rightarrow> uuid \<Rightarrow> uuid list \<Rightarrow> snapshot_error + report_processing_job list" where
  "source_jobs d b source_ids =
     (let jobs = scope_select job_business_id b (\<lambda>j. job_id j \<in> set source_ids) (processing_jobs d)
      in if length jobs \<noteq> length source_ids then Inl DashboardSnapshotSourceNotFoundError
         else and_then (map_result (\<lambda>i. case find (\<lambda>j. job_id j = i) (rev jobs) of
                  None \<Rightarrow> Inl DashboardSnapshotSourceNotFoundError | Some j \<Rightarrow> Inr j) source_ids) (\<lambda>ordered.
              and_then (map_result validate_completed_job ordered) (\<lambda>_. Inr ordered)))"

definition snapshot_sources_of :: "db \<Rightarrow> uuid \<Rightarrow> uuid \<Rightarrow> snapshot_source list" where
  "snapshot_sources_of d b i =
     sort_key src_position (scope_select src_business_id b (\<lambda>s. src_snapshot_id s = i) (snapshot_sources d))"

definition latest_snapshot :: "db \<Rightarrow> uuid \<Rightarrow> uuid \<Rightarrow> dashboard_snapshot option" where
  "latest_snapshot d b i = scope_latest ds_business_id b ds_version (\<lambda>s. ds_dashboard_id s = i) (dashboard_snapshots d)"

text \<open>The accumulator of a dashboard with an insight configuration, for the given sources.\<close>

definition start_insight ::
  "(json \<Rightarrow> insight_configuration option) \<Rightarrow> dashboard \<Rightarrow> uuid list
   \<Rightarrow> snapshot_error + insight_accumulator option" where
  "start_insight parse_insight x source_ids =
     (case dash_insight_configuration x of
        None \<Rightarrow> Inr None
      | Some stored \<Rightarrow>
        (case Option.bind (parse_insight stored) validate_insight_configuration of
           None \<Rightarrow> Inl DashboardSnapshotArtifactError
         | Some c \<Rightarrow>
             if \<not> validate_insight_configuration_for_type (dash_type x) c
             then Inl DashboardSnapshotArtifactError
             else
               let a = new_accumulator (dash_type x) c
               in if set (mapped_processing_job_ids a) \<noteq> set source_ids
                  then Inl DashboardSnapshotSourceMismatchError else Inr (Some a)))"

fun read_sources ::
  "artifact_packages \<Rightarrow> object_reader \<Rightarrow> report_processing_job list \<Rightarrow> insight_accumulator option
   \<Rightarrow> snapshot_error + source_artifact list \<times> insight_accumulator option" where
  "read_sources pk read [] insight = Inr ([], insight)"
| "read_sources pk read (j # js) insight =
     and_then (read_source_artifact pk read j insight) (\<lambda>(artifact, insight1).
     and_then (read_sources pk read js insight1) (\<lambda>(artifacts, insight2). Inr (artifact # artifacts, insight2)))"

definition render_optional ::
  "date_parsers \<Rightarrow> (string list \<Rightarrow> string list) \<Rightarrow> insight_accumulator option \<Rightarrow> snapshot_error + json option" where
  "render_optional dates enum insight =
     (case insight of
        None \<Rightarrow> Inr None
      | Some a \<Rightarrow>
        (case render_insight dates enum a of
           Inl _ \<Rightarrow> Inl DashboardSnapshotArtifactError | Inr x \<Rightarrow> Inr (Some x)))"

record snapshot_context =
  sx_snapshot_id :: uuid
  sx_created_at :: time
  sx_source_id :: "nat \<Rightarrow> uuid"
  sx_source_created_at :: "nat \<Rightarrow> time"

record snapshot_packages =
  sp_artifacts :: artifact_packages
  sp_dates :: date_parsers
  sp_enum :: "string list \<Rightarrow> string list"
  sp_parse_insight :: "json \<Rightarrow> insight_configuration option"

definition snapshot_tables_ok :: "db \<Rightarrow> bool" where
  "snapshot_tables_ok d \<longleftrightarrow> dashboard_snapshot_table_ok d \<and> snapshot_source_table_ok d"

definition new_snapshot ::
  "snapshot_context \<Rightarrow> uuid \<Rightarrow> uuid \<Rightarrow> uuid \<Rightarrow> int \<Rightarrow> json \<Rightarrow> string \<Rightarrow> dashboard_snapshot" where
  "new_snapshot ctx b i u version payload content_hash =
     \<lparr> ds_id = sx_snapshot_id ctx, ds_business_id = b, ds_dashboard_id = i, ds_version = version,
       ds_schema_version = DASHBOARD_SNAPSHOT_SCHEMA_VERSION, ds_payload = payload,
       ds_content_hash = content_hash, ds_created_by_user_id = u, ds_created_at = sx_created_at ctx \<rparr>"

definition new_snapshot_source ::
  "snapshot_context \<Rightarrow> uuid \<Rightarrow> nat \<Rightarrow> report_processing_job \<Rightarrow> snapshot_error + snapshot_source" where
  "new_snapshot_source ctx b position j =
     and_then (required_job_string normalized_storage_version_id j) (\<lambda>normalized_version.
     and_then (required_job_string normalized_etag j) (\<lambda>normalized_tag.
     and_then (required_job_string profile_storage_version_id j) (\<lambda>profile_version.
     and_then (required_job_string profile_etag j) (\<lambda>profile_tag.
       Inr \<lparr> src_id = sx_source_id ctx position, src_business_id = b, src_snapshot_id = sx_snapshot_id ctx,
             src_processing_job_id = job_id j, src_position = int position,
             src_normalized_version_id = normalized_version, src_normalized_etag = normalized_tag,
             src_profile_version_id = profile_version, src_profile_etag = profile_tag,
             src_created_at = sx_source_created_at ctx position \<rparr>))))"

definition add_snapshot ::
  "snapshot_context \<Rightarrow> db \<Rightarrow> uuid \<Rightarrow> uuid \<Rightarrow> uuid \<Rightarrow> int \<Rightarrow> json \<Rightarrow> string
   \<Rightarrow> report_processing_job list \<Rightarrow> (snapshot_error + materialization) \<times> db" where
  "add_snapshot ctx d b i u version payload content_hash jobs =
     (let s = new_snapshot ctx b i u version payload content_hash
      in case map_result (\<lambda>(position, j). new_snapshot_source ctx b position j) (enumerate 0 jobs) of
           Inl e \<Rightarrow> (Inl e, d)
         | Inr sources \<Rightarrow>
             settle snapshot_tables_ok DashboardSnapshotConflictError
               (Inr \<lparr> mat_snapshot = s, mat_sources = sources, mat_replayed = False \<rparr>)
               (d\<lparr> dashboard_snapshots := insert_row s (dashboard_snapshots d),
                   snapshot_sources := snapshot_sources d @ sources \<rparr>) d)"

text \<open>The second transaction, on the database \<open>d\<close> of which the lock of the dashboard was granted.\<close>

definition store_snapshot ::
  "(string \<Rightarrow> string) \<Rightarrow> snapshot_context \<Rightarrow> db \<Rightarrow> uuid \<Rightarrow> uuid \<Rightarrow> uuid \<Rightarrow> json \<Rightarrow> string
   \<Rightarrow> report_processing_job list \<Rightarrow> (snapshot_error + materialization) \<times> db" where
  "store_snapshot sha ctx d b i u payload content_hash jobs =
     (let found = latest_snapshot d b i
      in case (case found of None \<Rightarrow> Inr () | Some s \<Rightarrow> validate_dashboard_snapshot_content sha s) of
        Inl e \<Rightarrow> (Inl e, d)
      | Inr _ \<Rightarrow>
        (case found of
           Some s \<Rightarrow>
             if ds_content_hash s = content_hash
             then (Inr \<lparr> mat_snapshot = s, mat_sources = snapshot_sources_of d b (ds_id s), mat_replayed = True \<rparr>, d)
             else add_snapshot ctx d b i u (ds_version s + 1) payload content_hash jobs
         | None \<Rightarrow> add_snapshot ctx d b i u 1 payload content_hash jobs))"

definition same_dashboard :: "dashboard \<Rightarrow> dashboard \<Rightarrow> bool" where
  "same_dashboard x y \<longleftrightarrow> dash_updated_at y = dash_updated_at x \<and> dash_type y = dash_type x
     \<and> dash_title y = dash_title x \<and> dash_configuration y = dash_configuration x
     \<and> dash_insight_configuration y = dash_insight_configuration x"

definition materialize_locked ::
  "(string \<Rightarrow> string) \<Rightarrow> snapshot_context \<Rightarrow> db \<Rightarrow> uuid \<Rightarrow> dashboard \<Rightarrow> uuid \<Rightarrow> json \<Rightarrow> string
   \<Rightarrow> uuid list \<Rightarrow> report_processing_job list \<Rightarrow> (snapshot_error + materialization) \<times> db" where
  "materialize_locked sha ctx d b x u payload content_hash source_ids captured =
     (case dashboard_by_id d b (dash_id x) of
        None \<Rightarrow> (Inl DashboardSnapshotNotFoundError, d)
      | Some locked \<Rightarrow>
          if \<not> same_dashboard x locked then (Inl DashboardSnapshotConflictError, d)
          else case source_jobs d b source_ids of
            Inl e \<Rightarrow> (Inl e, d)
          | Inr current \<Rightarrow>
              if map job_signature_of current \<noteq> map job_signature_of captured
              then (Inl DashboardSnapshotConflictError, d)
              else store_snapshot sha ctx d b (dash_id x) u payload content_hash current)"

text \<open>What the first transaction and the reads of the artifacts give: the dashboard, its jobs and the payload.\<close>

definition prepare_snapshot ::
  "snapshot_packages \<Rightarrow> object_reader \<Rightarrow> db \<Rightarrow> uuid \<Rightarrow> uuid \<Rightarrow> uuid list
   \<Rightarrow> snapshot_error + dashboard \<times> report_processing_job list \<times> json" where
  "prepare_snapshot pk read d b i source_ids =
     and_then (case dashboard_by_id d b i of None \<Rightarrow> Inl DashboardSnapshotNotFoundError | Some x \<Rightarrow> Inr x) (\<lambda>x.
     and_then (source_jobs d b source_ids) (\<lambda>jobs.
     and_then (start_insight (sp_parse_insight pk) x source_ids) (\<lambda>start.
     and_then (read_sources (sp_artifacts pk) read jobs start) (\<lambda>(artifacts, insight).
     and_then (render_optional (sp_dates pk) (sp_enum pk) insight) (\<lambda>rendered.
     and_then (build_dashboard_snapshot_payload i (dash_type x) (dash_title x) (dash_configuration x)
                 (dash_insight_configuration x) rendered artifacts) (\<lambda>payload.
       Inr (x, jobs, payload)))))))"

definition materialize ::
  "snapshot_packages \<Rightarrow> object_reader option \<Rightarrow> (db \<Rightarrow> db) \<Rightarrow> snapshot_context \<Rightarrow> db \<Rightarrow> uuid \<Rightarrow> uuid
   \<Rightarrow> uuid \<Rightarrow> uuid list \<Rightarrow> (snapshot_error + materialization) \<times> db" where
  "materialize pk storage env ctx d b i u source_processing_job_ids =
     (if source_processing_job_ids = []
         \<or> DASHBOARD_MAX_SNAPSHOT_SOURCES < length source_processing_job_ids
         \<or> \<not> distinct source_processing_job_ids
      then (Inl SnapshotSourcesValueError, d)
      else case storage of
        None \<Rightarrow> (Inl DashboardSnapshotStorageError, d)
      | Some read \<Rightarrow>
          let source_ids = sort_key uuid_str source_processing_job_ids
          in case prepare_snapshot pk read d b i source_ids of
               Inl e \<Rightarrow> (Inl e, d)
             | Inr (x, jobs, payload) \<Rightarrow>
               (case dashboard_snapshot_content_hash (ap_sha256 (sp_artifacts pk)) payload of
                  None \<Rightarrow> (Inl DashboardSnapshotArtifactError, d)
                | Some content_hash \<Rightarrow>
                    materialize_locked (ap_sha256 (sp_artifacts pk)) ctx (env d) b x u payload content_hash
                      source_ids jobs))"

section \<open>Reading snapshots\<close>

definition read_snapshot ::
  "(string \<Rightarrow> string) \<Rightarrow> db \<Rightarrow> uuid \<Rightarrow> dashboard_snapshot option \<Rightarrow> snapshot_error + materialization" where
  "read_snapshot sha d b found =
     (case found of
        None \<Rightarrow> Inl DashboardSnapshotNotFoundError
      | Some s \<Rightarrow> and_then (validate_dashboard_snapshot_content sha s) (\<lambda>_.
          Inr \<lparr> mat_snapshot = s, mat_sources = snapshot_sources_of d b (ds_id s), mat_replayed = False \<rparr>))"

definition get_snapshot ::
  "(string \<Rightarrow> string) \<Rightarrow> db \<Rightarrow> uuid \<Rightarrow> uuid \<Rightarrow> uuid \<Rightarrow> snapshot_error + materialization" where
  "get_snapshot sha d b dashboard_id snapshot_id =
     (case dashboard_by_id d b dashboard_id of
        None \<Rightarrow> Inl DashboardSnapshotNotFoundError
      | Some _ \<Rightarrow> read_snapshot sha d b (scope_one ds_business_id b
          (\<lambda>s. ds_id s = snapshot_id \<and> ds_dashboard_id s = dashboard_id) (dashboard_snapshots d)))"

definition latest_materialization ::
  "(string \<Rightarrow> string) \<Rightarrow> db \<Rightarrow> uuid \<Rightarrow> uuid \<Rightarrow> snapshot_error + materialization" where
  "latest_materialization sha d b dashboard_id =
     (case dashboard_by_id d b dashboard_id of
        None \<Rightarrow> Inl DashboardSnapshotNotFoundError
      | Some _ \<Rightarrow> read_snapshot sha d b (latest_snapshot d b dashboard_id))"

definition list_snapshots ::
  "(string \<Rightarrow> string) \<Rightarrow> db \<Rightarrow> uuid \<Rightarrow> uuid \<Rightarrow> nat \<Rightarrow> nat \<Rightarrow> snapshot_error + snapshot_page" where
  "list_snapshots sha d b dashboard_id limit offset =
     (case dashboard_by_id d b dashboard_id of
        None \<Rightarrow> Inl DashboardSnapshotNotFoundError
      | Some _ \<Rightarrow>
          let found = scope_select ds_business_id b (\<lambda>s. ds_dashboard_id s = dashboard_id) (dashboard_snapshots d);
              items = take limit (drop offset (sort_key (\<lambda>s. - ds_version s) found))
          in and_then (map_result (validate_dashboard_snapshot_content sha) items) (\<lambda>_.
               Inr \<lparr> spage_items = items, spage_total = length found, spage_limit = limit, spage_offset = offset \<rparr>))"

end
