(* ===== verification/Insight_Theorems.thy ===== *)
theory Insight_Theorems
  imports Dashboard_Snapshots
begin

text \<open>
  The totals of the columns are the totals of exact arithmetic, and no observation of a validated source
  misses a column.
\<close>

section \<open>Column totals\<close>

lemma digits_value_bound: "list_all digit ds \<Longrightarrow> digits_value ds < 10 ^ length ds"
proof (induction ds rule: rev_induct)
  case (snoc d ds)
  have "(of_char d :: nat) - 48 \<le> 9" using snoc.prems by (auto simp: digit_def less_eq_char_def)
  with snoc show ?case by (simp add: digits_value_app digits_value_def [of "[d]"])
qed simp

definition cell_bound :: int where "cell_bound = 10 ^ 60"

lemma fitting_digits: "c < 10 ^ (40 + s) \<Longrightarrow> s \<le> 20 \<Longrightarrow> fitting cell_bound 20 (Dec (int c) s)"
proof -
  assume c: "c < 10 ^ (40 + s)" and s: "s \<le> 20"
  have "int c * 10 ^ (20 - s) \<le> 10 ^ (40 + s) * 10 ^ (20 - s)"
    by (rule mult_right_mono) (use c in \<open>simp_all flip: of_nat_power_less_of_nat_cancel_iff\<close>)
  also have "\<dots> = cell_bound" using s by (simp add: cell_bound_def flip: power_add)
  finally show ?thesis using s by (simp add: fitting_def dec_scale_def dec_at_def)
qed

lemma fitting_unsigned: "unsigned_decimal s = Some x \<Longrightarrow> fitting cell_bound 20 x"
proof -
  assume s: "unsigned_decimal s = Some x"
  define w where "w = takeWhile digit s"
  have w: "list_all digit w" by (auto simp: w_def list_all_iff dest: set_takeWhileD)
  from s have len: "length w \<le> 40" and cases: "(drop (length w) s = [] \<and> x = Dec (int (digits_value w)) 0)
      \<or> (\<exists>c places. drop (length w) s = c # places \<and> length places \<le> 20 \<and> list_all digit places
           \<and> x = Dec (int (digits_value (w @ places))) (length places))"
    by (auto simp: unsigned_decimal_def Let_def w_def split: list.splits if_splits)
  have less: "digits_value (w @ ds) < 10 ^ (40 + length ds)" if "list_all digit ds" for ds
  proof -
    have "digits_value (w @ ds) < 10 ^ (length w + length ds)"
      using digits_value_bound [of "w @ ds"] w that by simp
    also have "\<dots> \<le> 10 ^ (40 + length ds)" by (rule power_increasing) (use len in simp_all)
    finally show ?thesis .
  qed
  from cases show ?thesis using fitting_digits less [of "[]"] less by auto
qed

lemma fitting_neg: "fitting n m (dec_neg x) = fitting n m x"
  by (cases x) (simp add: fitting_def dec_neg_def dec_scale_def dec_at_def)

lemma fitting_text: "strict_decimal_text s = Some x \<Longrightarrow> fitting cell_bound 20 x"
  by (auto simp: strict_decimal_text_def fitting_neg split: list.splits if_splits dest: fitting_unsigned)

text \<open>A number of a cell that is summed exactly: text, an integer of at most 40 digits, a float of that size.\<close>

definition summable :: "json \<Rightarrow> bool" where
  "summable v = (case v of
       JInt n \<Rightarrow> \<bar>n\<bar> < 10 ^ 40
     | JFloat (Some s) \<Rightarrow> null_or (fitting cell_bound 20) (float_decimal s)
     | _ \<Rightarrow> True)"

lemma summable_fitting: "summable v \<Longrightarrow> strict_decimal v = Some x \<Longrightarrow> fitting cell_bound 20 x"
proof (cases v)
  case (JInt n)
  assume "summable v" "strict_decimal v = Some x"
  then have x: "x = Dec n 0" "\<bar>n\<bar> < 10 ^ 40" by (simp_all add: JInt summable_def strict_decimal_def dec_of_int_def)
  then have "fitting cell_bound 20 (Dec (int (nat \<bar>n\<bar>)) 0)" by (intro fitting_digits) (simp_all add: nat_less_iff)
  then show ?thesis by (simp add: x(1) fitting_def dec_scale_def dec_at_def abs_mult)
qed (auto simp: summable_def strict_decimal_def split: option.splits dest: fitting_text)

definition cell_numbers :: "json list \<Rightarrow> decimal list" where
  "cell_numbers vs = map the (filter (\<lambda>x. x \<noteq> None) (map strict_decimal vs))"

definition column_of :: "json list \<Rightarrow> column_totals" where
  "column_of vs = foldl (\<lambda>c v. observe_cell v c) no_totals vs"

lemma strict_decimal_null: "strict_decimal JNull = None"
  by (simp add: strict_decimal_def)

lemma column_of_snoc: "column_of (vs @ [v]) = observe_cell v (column_of vs)"
  by (simp add: column_of_def)

lemma cell_numbers_snoc: "cell_numbers (vs @ [v]) = cell_numbers vs @ (case strict_decimal v of None \<Rightarrow> [] | Some x \<Rightarrow> [x])"
  by (simp add: cell_numbers_def split: option.splits)

lemma column_counts:
  "ct_null (column_of vs) = length (filter (\<lambda>v. v = JNull) vs)
   \<and> ct_non_null (column_of vs) + ct_null (column_of vs) = length vs"
  by (induction vs rule: rev_induct)
    (auto simp: column_of_snoc observe_cell_def Let_def column_of_def no_totals_def split: option.splits)

definition is_least :: "decimal option \<Rightarrow> decimal list \<Rightarrow> bool" where
  "is_least m xs \<longleftrightarrow> (\<exists>v \<in> set xs. m = Some v \<and> (\<forall>x \<in> set xs. dec_val v \<le> dec_val x))"

definition is_greatest :: "decimal option \<Rightarrow> decimal list \<Rightarrow> bool" where
  "is_greatest m xs \<longleftrightarrow> (\<exists>v \<in> set xs. m = Some v \<and> (\<forall>x \<in> set xs. dec_val x \<le> dec_val v))"

lemma observe_number_fields:
  "ns_count (observe_number v s) = ns_count s + 1" "ns_total (observe_number v s) = decimal_plus (ns_total s) v"
  "is_least (ns_minimum s) xs \<Longrightarrow> is_least (ns_minimum (observe_number v s)) (xs @ [v])"
  "is_greatest (ns_maximum s) xs \<Longrightarrow> is_greatest (ns_maximum (observe_number v s)) (xs @ [v])"
  by (auto simp: observe_number_def is_least_def is_greatest_def smaller_def larger_def dec_val_less)

lemma column_numeric:
  "(case ct_numeric (column_of vs) of
      None \<Rightarrow> cell_numbers vs = []
    | Some s \<Rightarrow> cell_numbers vs \<noteq> [] \<and> ns_count s = length (cell_numbers vs)
        \<and> ns_total s = foldl decimal_plus (Dec 0 0) (cell_numbers vs)
        \<and> is_least (ns_minimum s) (cell_numbers vs) \<and> is_greatest (ns_maximum s) (cell_numbers vs))"
proof (induction vs rule: rev_induct)
  case Nil
  then show ?case by (simp add: column_of_def no_totals_def cell_numbers_def)
next
  case (snoc v vs)
  show ?case
  proof (cases "strict_decimal v")
    case None
    then have "ct_numeric (column_of (vs @ [v])) = ct_numeric (column_of vs)" "cell_numbers (vs @ [v]) = cell_numbers vs"
      by (simp_all add: column_of_snoc cell_numbers_snoc observe_cell_def)
    with snoc show ?thesis by (simp only:)
  next
    case (Some x)
    then have v: "v \<noteq> JNull" by (auto simp: strict_decimal_null)
    have numbers: "cell_numbers (vs @ [v]) = cell_numbers vs @ [x]" by (simp add: cell_numbers_snoc Some)
    show ?thesis
    proof (cases "ct_numeric (column_of vs)")
      case None
      with snoc have "cell_numbers vs = []" by simp
      with None Some v show ?thesis
        by (simp add: numbers column_of_snoc observe_cell_def observe_number_def no_stats_def smaller_def larger_def
            is_least_def is_greatest_def)
    next
      case (Some s)
      with snoc \<open>strict_decimal v = Some x\<close> v show ?thesis
        by (simp add: numbers column_of_snoc observe_cell_def observe_number_fields)
    qed
  qed
qed

lemma column_of_exact:
  assumes "list_all summable vs" "length vs \<le> 10 ^ 10"
  shows "ct_null (column_of vs) = length (filter (\<lambda>v. v = JNull) vs)
     \<and> ct_null (column_of vs) + ct_non_null (column_of vs) = length vs
     \<and> (case ct_numeric (column_of vs) of
          None \<Rightarrow> cell_numbers vs = []
        | Some s \<Rightarrow> ns_count s = length (cell_numbers vs)
            \<and> dec_val (ns_total s) = sum_list (map dec_val (cell_numbers vs))
            \<and> is_least (ns_minimum s) (cell_numbers vs) \<and> is_greatest (ns_maximum s) (cell_numbers vs))"
proof -
  have fit: "\<forall>x \<in> set (cell_numbers vs). fitting cell_bound 20 x"
    using assms(1) summable_fitting by (auto simp: cell_numbers_def list_all_iff)
  have "length (cell_numbers vs) \<le> 10 ^ 10"
    using assms(2) by (simp add: cell_numbers_def) (rule le_trans [OF length_filter_le])
  then have "int (length (cell_numbers vs)) * cell_bound \<le> 10 ^ 10 * cell_bound"
    by (intro mult_right_mono) (simp_all add: cell_bound_def)
  then have "0 + int (length (cell_numbers vs)) * cell_bound < 10 ^ DASHBOARD_INSIGHT_DECIMAL_PRECISION"
    by (simp add: cell_bound_def DASHBOARD_INSIGHT_DECIMAL_PRECISION_def)
  from fitting_sum [OF fit fitting_zero this] have
    "dec_val (foldl decimal_plus (Dec 0 0) (cell_numbers vs)) = sum_list (map dec_val (cell_numbers vs))"
    by (simp add: cell_bound_def DASHBOARD_INSIGHT_DECIMAL_PRECISION_def)
  with column_counts [of vs] column_numeric [of vs] show ?thesis by (auto split: option.splits)
qed

definition totals_after :: "sheet_key \<times> nat \<times> string list \<Rightarrow> stripe_object list \<Rightarrow> sheet_totals" where
  "totals_after e rows = foldl (\<lambda>s values. observe_sheet_row values s) (start_totals e) rows"

lemma totals_after_columns:
  "st_rows (totals_after (key, n, names) rows) = length rows
   \<and> st_columns (totals_after (key, n, names) rows) = map (\<lambda>name. (name, column_of (map (get name) rows))) names"
proof (induction rows rule: rev_induct)
  case Nil
  then show ?case by (simp add: totals_after_def start_totals_def column_of_def)
next
  case (snoc r rows)
  then show ?case by (simp add: totals_after_def observe_sheet_row_def column_of_snoc comp_def)
qed

text \<open>
  C34: the totals of a column are exact: of at most ten billion rows whose numbers have up to 40 digits and 20 places,
  the sum, the minimum and the maximum are those of the numeric cells of the column, and the counts those of its
  cells.
\<close>

theorem column_totals_exact:
  assumes "list_all summable (map (get name) rows)" "length rows \<le> 10 ^ 10"
    and "(name, c) \<in> set (st_columns (totals_after entry rows))"
  shows "ct_null c = length (filter (\<lambda>r. get name r = JNull) rows) \<and> ct_null c + ct_non_null c = length rows
     \<and> (case ct_numeric c of
          None \<Rightarrow> cell_numbers (map (get name) rows) = []
        | Some s \<Rightarrow> ns_count s = length (cell_numbers (map (get name) rows))
            \<and> dec_val (ns_total s) = sum_list (map dec_val (cell_numbers (map (get name) rows)))
            \<and> is_least (ns_minimum s) (cell_numbers (map (get name) rows))
            \<and> is_greatest (ns_maximum s) (cell_numbers (map (get name) rows)))"
proof -
  obtain key n names where "entry = (key, n, names)" by (cases entry)
  with assms(3) have c: "c = column_of (map (get name) rows)" by (auto simp: totals_after_columns)
  from column_of_exact [OF assms(1)] assms(2) show ?thesis by (simp add: c filter_map comp_def)
qed

definition sample_rows :: "stripe_object list" where
  "sample_rows = [[(''a'', JStr ''1.50'')], [(''a'', JNull)], [(''a'', JStr ''x'')], [(''a'', JInt (- 2))]]"

theorem column_totals_exact_witness:
  "\<exists>c s. st_columns (totals_after ((0, ''data''), 4, [''a'']) sample_rows) = [(''a'', c)] \<and> ct_null c = 1
     \<and> ct_numeric c = Some s \<and> dec_val (ns_total s) = - 1 / 2"
proof -
  define c where "c = column_of (map (get ''a'') sample_rows)"
  have columns: "st_columns (totals_after ((0, ''data''), 4, [''a'']) sample_rows) = [(''a'', c)]"
    by (simp add: totals_after_columns c_def)
  have "list_all summable (map (get ''a'') sample_rows)" by (simp add: sample_rows_def summable_def get_def)
  moreover have "length sample_rows \<le> 10 ^ 10" by (simp add: sample_rows_def)
  moreover have "(''a'', c) \<in> set (st_columns (totals_after ((0, ''data''), 4, [''a'']) sample_rows))" by (simp add: columns)
  moreover have "cell_numbers (map (get ''a'') sample_rows) = [Dec 150 2, Dec (- 2) 0]" by code_simp
  moreover have "length (filter (\<lambda>r. get ''a'' r = JNull) sample_rows) = 1" by code_simp
  ultimately show ?thesis using column_totals_exact [of "''a''" sample_rows c "((0, ''data''), 4, [''a''])"] columns
    by (auto simp: dec_val_def split: option.splits)
qed

section \<open>A validated profile has every mapped column\<close>

text \<open>No operation of the accumulator changes its configuration, and only a missing column is a key error.\<close>

lemma and_then_no_error: "r \<noteq> Inl e \<Longrightarrow> (\<And>x. r = Inr x \<Longrightarrow> f x \<noteq> Inl e) \<Longrightarrow> and_then r f \<noteq> Inl e"
  by (cases r) auto

lemma fold_result_no_error: "(\<And>x s. f x s \<noteq> Inl e) \<Longrightarrow> fold_result f xs s \<noteq> Inl e"
  by (induction xs arbitrary: s) (simp_all add: and_then_no_error)

lemma and_then_pair_no_error: "r \<noteq> Inl e \<Longrightarrow> (\<And>x y. f x y \<noteq> Inl e) \<Longrightarrow> and_then r (\<lambda>(x, y). f x y) \<noteq> Inl e"
  by (rule and_then_no_error) auto

lemma label_no_key_error: "label_of n v \<noteq> Inl InsightKeyError"
  by (auto simp: label_of_def Let_def split: json.splits)

lemma observe_unique_facts:
  "observe_unique f v a \<noteq> Inl InsightKeyError"
  "observe_unique f v a = Inr a' \<Longrightarrow> ia_configuration a' = ia_configuration a"
  by (auto simp: observe_unique_def Let_def split: if_splits)

lemma observe_dimensions_facts:
  "observe_dimensions semantic fs a \<noteq> Inl InsightKeyError
   \<and> (\<forall>ds a'. observe_dimensions semantic fs a = Inr (ds, a') \<longrightarrow> ia_configuration a' = ia_configuration a)"
proof (induction semantic fs a rule: observe_dimensions.induct)
  case (2 semantic f fs a)
  show ?case
  proof (cases "map_of semantic f")
    case (Some v)
    show ?thesis
    proof (cases "label_of DASHBOARD_INSIGHT_MAX_LABEL_LENGTH v")
      case (Inl e)
      with label_no_key_error [of DASHBOARD_INSIGHT_MAX_LABEL_LENGTH v] Some show ?thesis by auto
    next
      case (Inr rendered)
      with 2 Some observe_unique_facts show ?thesis
        by (cases rendered) (auto simp: and_then_def split: sum.splits)
    qed
  qed (use 2 in simp)
qed simp

lemma observe_dimension_amount_facts:
  "observe_dimension_amount f p v d a \<noteq> Inl InsightKeyError"
  "observe_dimension_amount f p v d a = Inr a' \<Longrightarrow> ia_configuration a' = ia_configuration a"
  by (auto simp: observe_dimension_amount_def Let_def split: if_splits prod.splits)

lemma observe_period_value_facts:
  "observe_period_value f p v a \<noteq> Inl InsightKeyError"
  "observe_period_value f p v a = Inr a' \<Longrightarrow> ia_configuration a' = ia_configuration a"
  by (auto simp: observe_period_value_def Let_def split: if_splits)

lemma add_amount_facts:
  "add_amount f p v ds a \<noteq> Inl InsightKeyError"
  "add_amount f p v ds a = Inr a' \<Longrightarrow> ia_configuration a' = ia_configuration a"
proof -
  show "add_amount f p v ds a \<noteq> Inl InsightKeyError"
    unfolding add_amount_def Let_def
    by (intro and_then_no_error fold_result_no_error observe_period_value_facts observe_dimension_amount_facts)
  assume "add_amount f p v ds a = Inr a'"
  then obtain a1 where a1: "observe_period_value f p v (a\<lparr> ia_totals := (ia_totals a)(f := Some (observe_number v
      (case ia_totals a f of None \<Rightarrow> no_stats | Some s \<Rightarrow> s))) \<rparr>) = Inr a1"
    "fold_result (observe_dimension_amount f p v) ds a1 = Inr a'"
    by (auto simp: add_amount_def Let_def and_then_Inr_iff)
  from fold_result_invariant [OF a1(2), of "\<lambda>x. ia_configuration x = ia_configuration a"]
  show "ia_configuration a' = ia_configuration a"
    using observe_period_value_facts(2) [OF a1(1)] observe_dimension_amount_facts(2) by simp
qed

lemma observe_amount_facts:
  "observe_amount key f p v ds a \<noteq> Inl InsightKeyError"
  "observe_amount key f p v ds a = Inr a' \<Longrightarrow> ia_configuration a' = ia_configuration a"
proof -
  obtain outflow required where o: "DASHBOARD_OUTFLOW_DIMENSIONS (ia_type a) = (outflow, required)" by (cases "DASHBOARD_OUTFLOW_DIMENSIONS (ia_type a)")
  show "observe_amount key f p v ds a \<noteq> Inl InsightKeyError"
    using add_amount_facts(1) by (auto simp: observe_amount_def o Let_def split: option.splits)
  show "observe_amount key f p v ds a = Inr a' \<Longrightarrow> ia_configuration a' = ia_configuration a"
    by (auto simp: observe_amount_def o Let_def split: option.splits if_splits dest: add_amount_facts(2))
qed

lemma observe_field_facts:
  "observe_field key semantic period ds f s \<noteq> Inl InsightKeyError"
  "observe_field key semantic period ds f s = Inr s' \<Longrightarrow> ia_configuration (snd s') = ia_configuration (snd s)"
  by (auto simp: observe_field_def and_then_def observe_amount_facts(1) split: option.splits json.splits sum.splits
      dest: observe_amount_facts(2))

lemma observe_status_facts:
  "observe_status semantic period a \<noteq> Inl InsightKeyError"
  "observe_status semantic period a = Inr a' \<Longrightarrow> ia_configuration a' = ia_configuration a"
  using label_no_key_error
  by (auto simp: observe_status_def Let_def and_then_def split: if_splits sum.splits)

lemma observe_row_facts:
  assumes "\<And>columns. mapping_of a key = Some columns \<Longrightarrow> set (map snd columns) \<subseteq> set (map fst values)"
  shows "observe_row order key values a \<noteq> Inl InsightKeyError"
    and "observe_row order key values a = Inr a' \<Longrightarrow> ia_configuration a' = ia_configuration a"
proof -
  have semantic: "\<exists>semantic. row_semantic columns values = Inr semantic" if "mapping_of a key = Some columns" for columns
  proof -
    have "\<exists>v. map_of values c = Some v" if "c \<in> snd ` set columns" for c
      using that assms [OF \<open>mapping_of a key = Some columns\<close>] by (metis (no_types) domD dom_map_of_conv_image_fst list.set_map subsetD)
    then have "\<exists>semantic. map_result (\<lambda>(f, c). case map_of values c of None \<Rightarrow> Inl InsightKeyError | Some v \<Rightarrow> Inr (f, v)) cs
        = Inr semantic" if "set cs \<subseteq> set columns" for cs
      using that by (induction cs) force+
    then show ?thesis by (simp add: row_semantic_def)
  qed
  show "observe_row order key values a \<noteq> Inl InsightKeyError"
  proof (cases "mapping_of a key")
    case (Some columns)
    from semantic [OF this] obtain sem where "row_semantic columns values = Inr sem" ..
    with Some show ?thesis
      by (simp add: observe_row_def, intro and_then_no_error and_then_pair_no_error)
        (simp_all add: observe_status_facts observe_dimensions_facts label_no_key_error fold_result_no_error
          observe_field_facts)
  qed (simp add: observe_row_def)
  assume row: "observe_row order key values a = Inr a'"
  show "ia_configuration a' = ia_configuration a"
  proof (cases "mapping_of a key")
    case (Some columns)
    with row obtain sem period ds a1 flag a2 where
      steps: "observe_dimensions sem DIMENSION_FIELDS a = Inr (ds, a1)"
      "fold_result (observe_field key sem period ds) order (False, a1) = Inr (flag, a2)"
      "observe_status sem period (if flag then a2\<lparr> ia_mapped_row_count := ia_mapped_row_count a2 + 1 \<rparr> else a2) = Inr a'"
      by (auto simp: observe_row_def and_then_Inr_iff)
    have "ia_configuration (snd (flag, a2)) = ia_configuration a1"
      using fold_result_invariant [OF steps(2), of "\<lambda>s. ia_configuration (snd s) = ia_configuration a1"]
        observe_field_facts(2) by auto
    with observe_status_facts(2) [OF steps(3)] observe_dimensions_facts steps(1) show ?thesis by (auto split: if_splits)
  qed (use row in \<open>simp add: observe_row_def\<close>)
qed

definition insight_ready :: "uuid \<Rightarrow> (sheet_key \<times> nat \<times> string list) list \<Rightarrow> insight_accumulator \<Rightarrow> bool" where
  "insight_ready job entries a \<longleftrightarrow> (\<forall>i name columns records names. mapping_of a (job, i, name) = Some columns \<longrightarrow>
     ((i, name), records, names) \<in> set entries \<longrightarrow> set (map snd columns) \<subseteq> set names)"

lemma insight_readyD:
  assumes "insight_ready job entries a" "mapping_of a (job, i, name) = Some columns"
    "((i, name), records, names) \<in> set entries"
  shows "set (map snd columns) \<subseteq> set names"
  using assms unfolding insight_ready_def by blast

lemma insight_ready_cong: "ia_configuration a' = ia_configuration a \<Longrightarrow> insight_ready job entries a' = insight_ready job entries a"
  by (simp add: insight_ready_def mapping_of_def ia_mappings_def)

lemma profile_columns_names:
  "profile_columns n i columns = Some names
   \<Longrightarrow> concat (map (\<lambda>c. case json_get ''name'' c of JStr s \<Rightarrow> [s] | _ \<Rightarrow> []) columns) = names"
proof (induction n i columns arbitrary: names rule: profile_columns.induct)
  case (2 n i column columns)
  then obtain name rest where "profile_column n i column = Some name" "profile_columns n (Suc i) columns = Some rest"
    "names = name # rest" by (auto split: option.splits)
  moreover from this(1) have "json_get ''name'' column = JStr name"
    by (auto simp: profile_column_def nonempty_text_def split: option.splits json.splits if_splits)
  ultimately show ?case using "2.IH" by simp
qed simp

lemma sheet_match:
  assumes "sheet_contract_entry sheet = Some (key, records, names)" "profile_sheet sheet = Inr (key', available)"
  shows "key' = key \<and> set available = set names"
proof -
  from assms(1) obtain i name columns where j: "natural_of (json_get ''index'' sheet) = Some i"
    "nonempty_text (json_get ''name'' sheet) = Some name" "json_get ''columns'' sheet = JList columns"
    "key = (int i, name)" "profile_columns records 0 columns = Some names"
    by (auto simp: sheet_contract_entry_def split: option.splits json.splits if_splits)
  from j(1,2) have "json_get ''index'' sheet = JInt (int i)" "json_get ''name'' sheet = JStr name"
    by (auto simp: natural_of_def nonempty_text_def split: json.splits if_splits)
  with assms(2) j profile_columns_names [OF j(5)] show ?thesis
    by (auto simp: profile_sheet_def Let_def split: if_splits)
qed

lemma validated_mappings:
  "validate_mappings job indexed mappings a = Inr a' \<Longrightarrow> ia_configuration a' = ia_configuration a \<and>
   (\<forall>(key, columns) \<in> set mappings. fst key = job \<longrightarrow>
      (\<exists>available. map_of (rev indexed) (snd key) = Some available \<and> set (map snd columns) \<subseteq> set available))"
proof (induction job indexed mappings a rule: validate_mappings.induct)
  case (2 job indexed key columns rest a)
  show ?case
  proof (cases "fst key = job")
    case True
    with 2 show ?thesis by (auto split: option.splits if_splits)
  qed (use 2 in auto)
qed simp

lemma validated_insight_ready:
  assumes "validate_insight_profile job profile a = Inr a'" "profile_sheet_contract profile = Inr entries"
  shows "insight_ready job entries a'"
proof -
  from assms(1) obtain sheets indexed where s: "json_get ''sheets'' profile = JList sheets"
    "map_result profile_sheet sheets = Inr indexed" "validate_mappings job indexed (ia_mappings a) a = Inr a'"
    by (auto simp: validate_insight_profile_def and_then_Inr_iff split: json.splits)
  with assms(2) have e: "all_some (map sheet_contract_entry sheets) = Some entries" "distinct (map fst entries)"
    by (auto simp: profile_sheet_contract_def split: option.splits if_splits)
  have ls: "list_all2 (\<lambda>s e. sheet_contract_entry s = Some e) sheets entries" if "all_some (map sheet_contract_entry sheets) = Some entries"
    for sheets entries
    using that
  proof (induction sheets arbitrary: entries)
    case (Cons s sheets)
    then show ?case by (cases "sheet_contract_entry s") (auto simp: list_all2_Cons1)
  qed auto
  have lp: "list_all2 (\<lambda>s p. profile_sheet s = Inr p) sheets indexed" using s(2) by (simp only: map_result_Inr_iff)
  have both: "list_all2 (\<lambda>p e. fst p = fst e \<and> set (snd p) = set (snd (snd e))) indexed entries"
    unfolding list_all2_conv_all_nth
  proof (intro conjI allI impI)
    show "length indexed = length entries" using ls [OF e(1)] lp by (simp add: list_all2_lengthD [symmetric])
    fix n
    assume n: "n < length indexed"
    have "profile_sheet (sheets ! n) = Inr (indexed ! n)" "sheet_contract_entry (sheets ! n) = Some (entries ! n)"
      using ls [OF e(1)] lp n by (auto simp: list_all2_conv_all_nth)
    then show "fst (indexed ! n) = fst (entries ! n)" "set (snd (indexed ! n)) = set (snd (snd (entries ! n)))"
      using sheet_match [of "sheets ! n" "fst (entries ! n)" "fst (snd (entries ! n))" "snd (snd (entries ! n))"
        "fst (indexed ! n)" "snd (indexed ! n)"] by auto
  qed
  then have keys: "map fst indexed = map fst entries" by (auto simp: list_all2_conv_all_nth list_eq_iff_nth_eq)
  show ?thesis unfolding insight_ready_def
  proof (intro allI impI)
    fix i name columns records names
    assume m: "mapping_of a' (job, i, name) = Some columns" and entry: "((i, name), records, names) \<in> set entries"
    have "mapping_of a' = mapping_of a" using validated_mappings [OF s(3)] by (auto simp: mapping_of_def ia_mappings_def)
    with m have "((job, i, name), columns) \<in> set (ia_mappings a)" by (auto simp: mapping_of_def dest: map_of_SomeD)
    with validated_mappings [OF s(3)] obtain available where
      av: "map_of (rev indexed) (i, name) = Some available" "set (map snd columns) \<subseteq> set available" by force
    then have "((i, name), available) \<in> set indexed" by (auto dest: map_of_SomeD)
    then obtain n where n: "n < length indexed" "indexed ! n = ((i, name), available)" by (auto simp: in_set_conv_nth)
    with both have "fst (entries ! n) = (i, name)" "set available = set (snd (snd (entries ! n)))" "n < length entries"
      by (auto simp: list_all2_conv_all_nth)
    moreover obtain m where "m < length entries" "entries ! m = ((i, name), records, names)"
      using entry by (auto simp: in_set_conv_nth)
    ultimately have "entries ! n = ((i, name), records, names)"
      using e(2) by (metis distinct_conv_nth length_map nth_map fst_conv)
    with av(2) \<open>set available = _\<close> show "set (map snd columns) \<subseteq> set names" by simp
  qed
qed

definition aggregating :: "uuid \<Rightarrow> (sheet_key \<times> nat \<times> string list) list \<Rightarrow> aggregation \<Rightarrow> bool" where
  "aggregating job entries ag \<longleftrightarrow>
     map (\<lambda>s. (st_key s, map fst (st_columns s))) (ag_sheets ag) = map (\<lambda>(key, _, names). (key, names)) entries
   \<and> null_or (insight_ready job entries) (ag_insight ag)"

lemma aggregate_line_no_key_error:
  assumes "aggregating job entries ag"
  shows "aggregate_line loads order job line ag \<noteq> Inl SnapshotKeyError"
    and "aggregate_line loads order job line ag = Inr ag' \<Longrightarrow> aggregating job entries ag'"
proof -
  have step: "observe_insight order (job, fst key, snd key) vs (ag_insight ag) \<noteq> Inl SnapshotKeyError
      \<and> (\<forall>i. observe_insight order (job, fst key, snd key) vs (ag_insight ag) = Inr i \<longrightarrow> null_or (insight_ready job entries) i)"
    if s: "find (\<lambda>s. st_key s = key) (ag_sheets ag) = Some s" and vs: "set (map fst vs) = set (map fst (st_columns s))" for key vs s
  proof (cases "ag_insight ag")
    case (Some a)
    from s have "s \<in> set (ag_sheets ag)" "st_key s = key" by (auto simp: find_Some_iff)
    then have "(key, map fst (st_columns s)) \<in> set (map (\<lambda>s. (st_key s, map fst (st_columns s))) (ag_sheets ag))" by force
    then have "(key, map fst (st_columns s)) \<in> set (map (\<lambda>(key, _, names). (key, names)) entries)"
      using assms by (simp only: aggregating_def)
    then obtain records where entry: "(key, records, map fst (st_columns s)) \<in> set entries" by auto
    have ready: "insight_ready job entries a" using assms Some by (simp add: aggregating_def)
    have columns: "set (map snd columns) \<subseteq> set (map fst vs)"
      if "mapping_of a (job, fst key, snd key) = Some columns" for columns
      using insight_readyD [OF ready, of "fst key" "snd key" columns records "map fst (st_columns s)"] that entry vs
      by (simp only: prod.collapse)
    show ?thesis
    proof (cases "observe_row order (job, fst key, snd key) vs a")
      case (Inl e)
      have "observe_row order (job, fst key, snd key) vs a \<noteq> Inl InsightKeyError"
        by (rule observe_row_facts(1) [OF columns])
      with Inl have "e \<noteq> InsightKeyError" by simp
      with Inl Some show ?thesis by (cases e) (simp_all add: observe_insight_def)
    next
      case (Inr a')
      have "insight_ready job entries a'"
        using insight_ready_cong [OF observe_row_facts(2) [OF columns Inr]] ready by blast
      with Inr Some show ?thesis by (simp add: observe_insight_def)
    qed
  qed (simp add: observe_insight_def)
  show "aggregate_line loads order job line ag \<noteq> Inl SnapshotKeyError"
    using step by (auto simp: aggregate_line_def Let_def and_then_def split: option.splits prod.splits sum.splits)
  assume "aggregate_line loads order job line ag = Inr ag'"
  then obtain key vs s insight where "find (\<lambda>s. st_key s = key) (ag_sheets ag) = Some s"
    "set (map fst vs) = set (map fst (st_columns s))"
    "observe_insight order (job, fst key, snd key) vs (ag_insight ag) = Inr insight"
    "ag_insight ag' = insight"
    "ag_sheets ag' = map (\<lambda>x. if st_key x = key then observe_sheet_row vs x else x) (ag_sheets ag)"
    by (auto simp: aggregate_line_def Let_def and_then_Inr_iff split: option.splits prod.splits if_splits)
  moreover have same: "st_key (if c then observe_sheet_row vs x else x) = st_key x
      \<and> map fst (st_columns (if c then observe_sheet_row vs x else x)) = map fst (st_columns x)" for c x
    by (simp add: observe_sheet_row_def comp_def case_prod_unfold)
  ultimately have "map (\<lambda>s. (st_key s, map fst (st_columns s))) (ag_sheets ag')
      = map (\<lambda>s. (st_key s, map fst (st_columns s))) (ag_sheets ag)" by simp
  with assms have "map (\<lambda>s. (st_key s, map fst (st_columns s))) (ag_sheets ag') = map (\<lambda>(key, _, names). (key, names)) entries"
    by (simp only: aggregating_def)
  moreover have "null_or (insight_ready job entries) insight"
    using step [OF \<open>find _ _ = _\<close> \<open>set (map fst vs) = _\<close>] \<open>observe_insight _ _ _ _ = _\<close> by blast
  ultimately show "aggregating job entries ag'" using \<open>ag_insight ag' = insight\<close> by (simp only: aggregating_def)
qed

lemma fold_result_no_error_inv:
  assumes "P s" "\<And>x s. P s \<Longrightarrow> f x s \<noteq> Inl e" "\<And>x s t. P s \<Longrightarrow> f x s = Inr t \<Longrightarrow> P t"
  shows "fold_result f xs s \<noteq> Inl e"
  using assms(1)
proof (induction xs arbitrary: s)
  case (Cons x xs)
  show ?case
  proof (cases "f x s")
    case (Inl e')
    with assms(2) [OF Cons.prems] show ?thesis by auto
  next
    case (Inr t)
    with Cons.IH assms(3) [OF Cons.prems] show ?thesis by simp
  qed
qed simp

lemma map_result_no_error:
  "(\<And>x. f x \<noteq> Inl e) \<Longrightarrow> map_result f xs \<noteq> Inl e"
  by (induction xs) (simp_all add: and_then_no_error)

lemma validate_completed_no_key_error: "validate_completed_job j \<noteq> Inl SnapshotKeyError"
proof (cases "job_status j = COMPLETED")
  case True
  then show ?thesis
    unfolding validate_completed_job_def
    by (simp, intro conjI impI and_then_no_error map_result_no_error)
      (simp_all add: required_job_string_def split: option.split)
qed (simp add: validate_completed_job_def)

lemma no_key_error_parts:
  "required_job_string f j \<noteq> Inl SnapshotKeyError"
  "read_artifact read bucket key version n \<noteq> Inl SnapshotKeyError"
  "validate_profile loads j content \<noteq> Inl SnapshotKeyError"
  "profile_sheet_contract profile \<noteq> Inl SnapshotKeyError"
  "validate_for_insight i profile insight \<noteq> Inl SnapshotKeyError"
  by (auto simp: required_job_string_def read_artifact_def validate_profile_def Let_def
    profile_sheet_contract_def validate_for_insight_def split: option.splits sum.splits storage_error.splits json.splits
    if_splits)

lemma aggregate_normalized_no_key_error:
  assumes "validate_for_insight (job_id j) profile insight = Inr insight1"
  shows "aggregate_normalized pk j profile content insight1 \<noteq> Inl SnapshotKeyError"
proof -
  have start: "aggregating (job_id j) entries \<lparr> ag_sheets = map start_totals entries, ag_uncompressed = 0,
      ag_records = 0, ag_insight = insight1 \<rparr>" if e: "profile_sheet_contract profile = Inr entries" for entries
  proof -
    have "null_or (insight_ready (job_id j) entries) insight1"
      using assms validated_insight_ready [OF _ e]
      by (auto simp: validate_for_insight_def split: option.splits sum.splits)
    then show ?thesis by (simp add: aggregating_def start_totals_def comp_def case_prod_unfold)
  qed
  have fold: "fold_result (aggregate_line (ap_loads pk) (ap_order pk) (job_id j)) ls s \<noteq> Inl SnapshotKeyError"
    if "aggregating (job_id j) entries s" for ls s entries
    by (rule fold_result_no_error_inv [where P = "aggregating (job_id j) entries"])
      (use that aggregate_line_no_key_error in blast)+
  show ?thesis
  proof (cases "profile_sheet_contract profile")
    case (Inl e)
    then show ?thesis using no_key_error_parts(4) [of profile] by (auto simp: aggregate_normalized_def)
  next
    case (Inr entries)
    show ?thesis
      using fold [OF start [OF Inr]]
      by (auto simp: aggregate_normalized_def Inr and_then_def split: option.splits sum.splits)
  qed
qed

lemma read_source_no_key_error: "read_source_artifact pk read j insight \<noteq> Inl SnapshotKeyError"
  unfolding read_source_artifact_def
  by (intro and_then_no_error and_then_pair_no_error validate_completed_no_key_error
    no_key_error_parts)
    (simp_all add: aggregate_normalized_no_key_error)

lemma read_sources_no_key_error: "read_sources pk read js insight \<noteq> Inl SnapshotKeyError"
proof (induction js arbitrary: insight)
  case (Cons j js)
  then show ?case
    unfolding read_sources.simps
    by (intro and_then_pair_no_error read_source_no_key_error) simp_all
qed simp

lemma source_jobs_no_key_error: "source_jobs d b ids \<noteq> Inl SnapshotKeyError"
proof -
  show ?thesis
    unfolding source_jobs_def Let_def
    by (simp, intro impI and_then_no_error map_result_no_error validate_completed_no_key_error)
      (simp_all split: option.split)
qed

lemma build_payload_no_key_error: "build_dashboard_snapshot_payload i t title c ic x sources \<noteq> Inl SnapshotKeyError"
  unfolding build_dashboard_snapshot_payload_def Let_def
  by (intro and_then_no_error map_result_no_error) (simp_all add: source_payload_def Let_def split: option.split)

lemma prepare_snapshot_no_key_error: "prepare_snapshot pk read d b i ids \<noteq> Inl SnapshotKeyError"
proof -
  have start: "start_insight parse x ids \<noteq> Inl SnapshotKeyError" for parse x
    by (simp add: start_insight_def Let_def split: option.split)
  have render: "render_optional dates enum insight \<noteq> Inl SnapshotKeyError" for dates enum insight
    by (simp add: render_optional_def split: option.split sum.split)
  show ?thesis
    unfolding prepare_snapshot_def
    by (intro and_then_no_error and_then_pair_no_error source_jobs_no_key_error read_sources_no_key_error start render
      build_payload_no_key_error) (simp_all split: option.split)
qed

text \<open>
  C11: no materialization ends in a KeyError, which the route would not turn into a response: whatever the stored
  profile and rows contain, the profile of every source is checked to have each column the insight configuration
  maps, and each row to have exactly the columns of its sheet, before the row is observed.
\<close>
theorem materialize_no_key_error:
  "fst (materialize pk storage env ctx d b i u ids) \<noteq> Inl SnapshotKeyError"
proof -
  have sources: "map_result (\<lambda>(position, j). new_snapshot_source ctx b position j) js \<noteq> Inl SnapshotKeyError" for js
  proof (rule map_result_no_error, clarify)
    fix position j
    assume "new_snapshot_source ctx b position j = Inl SnapshotKeyError"
    moreover have "new_snapshot_source ctx b position j \<noteq> Inl SnapshotKeyError"
      unfolding new_snapshot_source_def by (intro and_then_no_error no_key_error_parts) simp
    ultimately show False by simp
  qed
  have add: "fst (add_snapshot ctx d' b i' u version payload h jobs) \<noteq> Inl SnapshotKeyError" for d' i' version payload h jobs
    using sources [of "enumerate 0 jobs"]
    by (auto simp: add_snapshot_def Let_def settle_def split: sum.splits)
  have store: "fst (store_snapshot sha ctx d' b i' u payload h jobs) \<noteq> Inl SnapshotKeyError" for sha d' i' payload h jobs
    using add by (auto simp: store_snapshot_def Let_def validate_dashboard_snapshot_content_def split: option.splits)
  have locked: "fst (materialize_locked sha ctx d' b x u payload h ids' captured) \<noteq> Inl SnapshotKeyError"
    for sha d' x payload h ids' captured
    using store source_jobs_no_key_error [of d' b ids']
    by (auto simp: materialize_locked_def split: option.splits sum.splits)
  show ?thesis
    using prepare_snapshot_no_key_error locked
    by (auto simp: materialize_def Let_def split: option.splits sum.splits prod.splits)
qed

end
