(* ===== verification/Dashboards.thy ===== *)
theory Dashboards
  imports Dashboard_Snapshots
begin

text \<open>
  \<open>app/services/dashboards.py\<close>: the dashboards of a tenant.  \<open>env\<close> is what other transactions commit while the
  creation waits for the lock of the current subscription.
\<close>

datatype dashboard_error = DashboardNotFoundError | DashboardConflictError | DashboardInsightConfigurationError
  | DashboardSubscriptionError subscription_error

record dashboard_page =
  dpage_items :: "dashboard list"
  dpage_total :: nat
  dpage_limit :: nat
  dpage_offset :: nat

definition dashboard_usage :: "db \<Rightarrow> uuid \<Rightarrow> nat" where
  "dashboard_usage d b = count_where (\<lambda>x. dash_business_id x = b) (dashboards d)"

definition lock_current_subscription :: "db \<Rightarrow> uuid \<Rightarrow> subscription_error + subscription" where
  "lock_current_subscription d b =
     (case get_current b d of None \<Rightarrow> Inl SubscriptionRequiredError | Some s \<Rightarrow> Inr s)"

record new_dashboard_context =
  nd_id :: uuid
  nd_created_at :: time
  nd_updated_at :: time

definition new_dashboard :: "new_dashboard_context \<Rightarrow> uuid \<Rightarrow> uuid \<Rightarrow> dashboard_create \<Rightarrow> dashboard" where
  "new_dashboard ctx b u p =
     \<lparr> dash_id = nd_id ctx, dash_business_id = b, dash_created_at = nd_created_at ctx,
       dash_updated_at = nd_updated_at ctx, dash_created_by_user_id = u, dash_type = dc_dashboard_type p,
       dash_title = dc_title p, dash_configuration = JDict (dc_configuration p),
       dash_insight_configuration = map_option dump_insight_configuration (dc_insight_configuration p) \<rparr>"

definition add_dashboard :: "dashboard \<Rightarrow> db \<Rightarrow> db" where
  "add_dashboard x d = d\<lparr> dashboards := insert_row x (dashboards d) \<rparr>"

definition create_dashboard ::
  "new_dashboard_context \<Rightarrow> (db \<Rightarrow> db) \<Rightarrow> db \<Rightarrow> uuid \<Rightarrow> uuid \<Rightarrow> dashboard_create \<Rightarrow> time
   \<Rightarrow> (dashboard_error + dashboard) \<times> db" where
  "create_dashboard ctx env d b u p now =
     (let d1 = env d
      in case and_then (lock_current_subscription d1 b) (\<lambda>_.
              require d1 b DASHBOARDS (int (dashboard_usage d1 b)) now) of
           Inl e \<Rightarrow> (Inl (DashboardSubscriptionError e), d1)
         | Inr _ \<Rightarrow>
             let x = new_dashboard ctx b u p
             in settle dashboard_table_ok DashboardConflictError (Inr x) (add_dashboard x d1) d1)"

definition get_dashboard :: "db \<Rightarrow> uuid \<Rightarrow> uuid \<Rightarrow> dashboard_error + dashboard" where
  "get_dashboard d b i =
     (case dashboard_by_id d b i of None \<Rightarrow> Inl DashboardNotFoundError | Some x \<Rightarrow> Inr x)"

definition list_dashboards :: "db \<Rightarrow> uuid \<Rightarrow> nat \<Rightarrow> nat \<Rightarrow> dashboard_page" where
  "list_dashboards d b limit offset =
     \<lparr> dpage_items = take limit (drop offset
         (sort_key (\<lambda>x. (- dash_updated_at x, - int (dash_id x)))
           (scope_select dash_business_id b (\<lambda>_. True) (dashboards d)))),
       dpage_total = dashboard_usage d b, dpage_limit = limit, dpage_offset = offset \<rparr>"

text \<open>An UPDATE is emitted, and \<open>updated_at\<close> set, only when a value of the row changes.\<close>

definition apply_update :: "dashboard_update \<Rightarrow> dashboard \<Rightarrow> dashboard" where
  "apply_update p x = x\<lparr>
     dash_title := (case du_title p of None \<Rightarrow> dash_title x | Some t \<Rightarrow> t),
     dash_configuration := (case du_configuration p of None \<Rightarrow> dash_configuration x | Some c \<Rightarrow> JDict c),
     dash_insight_configuration := (case du_insight_configuration p of
        None \<Rightarrow> dash_insight_configuration x | Some c \<Rightarrow> Some (dump_insight_configuration c)) \<rparr>"

definition save_dashboard :: "dashboard \<Rightarrow> db \<Rightarrow> db" where
  "save_dashboard x d = d\<lparr> dashboards := update_where (\<lambda>y. dash_id y = dash_id x) (\<lambda>_. x) (dashboards d) \<rparr>"

definition update_dashboard ::
  "db \<Rightarrow> uuid \<Rightarrow> uuid \<Rightarrow> dashboard_update \<Rightarrow> time \<Rightarrow> (dashboard_error + dashboard) \<times> db" where
  "update_dashboard d b i p now =
     (case get_dashboard d b i of
        Inl e \<Rightarrow> (Inl e, d)
      | Inr x \<Rightarrow>
          if (case du_insight_configuration p of
                None \<Rightarrow> False | Some c \<Rightarrow> \<not> validate_insight_configuration_for_type (dash_type x) c)
          then (Inl DashboardInsightConfigurationError, d)
          else
            let changed = apply_update p x;
                y = (if changed = x then x else changed\<lparr> dash_updated_at := now \<rparr>)
            in settle dashboard_table_ok DashboardConflictError (Inr y) (save_dashboard y d) d)"

text \<open>The foreign keys of the database delete what depends on a deleted row (\<open>ON DELETE CASCADE\<close>).\<close>

definition delete_conversations :: "(ai_conversation \<Rightarrow> bool) \<Rightarrow> db \<Rightarrow> db" where
  "delete_conversations gone d = d\<lparr>
     ai_messages := rows_where (\<lambda>m. \<not> list_ex (\<lambda>c. gone c \<and> conv_id c = msg_conversation_id m) (ai_conversations d))
       (ai_messages d),
     ai_conversations := rows_where (\<lambda>c. \<not> gone c) (ai_conversations d) \<rparr>"

definition delete_snapshots :: "(dashboard_snapshot \<Rightarrow> bool) \<Rightarrow> db \<Rightarrow> db" where
  "delete_snapshots gone d =
     (let ids = map ds_id (rows_where gone (dashboard_snapshots d));
          d1 = delete_conversations (\<lambda>c. case conv_dashboard_snapshot_id c of None \<Rightarrow> False | Some i \<Rightarrow> i \<in> set ids) d
      in d1\<lparr> snapshot_sources := rows_where (\<lambda>s. src_snapshot_id s \<notin> set ids) (snapshot_sources d1),
             dashboard_snapshots := rows_where (\<lambda>s. \<not> gone s) (dashboard_snapshots d1) \<rparr>)"

definition delete_dashboard_row :: "uuid \<Rightarrow> db \<Rightarrow> db" where
  "delete_dashboard_row i d =
     (let d1 = delete_snapshots (\<lambda>s. ds_dashboard_id s = i) d
      in d1\<lparr> dashboards := rows_where (\<lambda>x. dash_id x \<noteq> i) (dashboards d1) \<rparr>)"

definition dashboard_tables_ok :: "db \<Rightarrow> bool" where
  "dashboard_tables_ok d \<longleftrightarrow> dashboard_table_ok d \<and> snapshot_tables_ok d \<and> ai_tables_ok d"

definition delete_dashboard :: "db \<Rightarrow> uuid \<Rightarrow> uuid \<Rightarrow> (dashboard_error + unit) \<times> db" where
  "delete_dashboard d b i =
     (case get_dashboard d b i of
        Inl e \<Rightarrow> (Inl e, d)
      | Inr x \<Rightarrow> settle dashboard_tables_ok DashboardConflictError (Inr ()) (delete_dashboard_row (dash_id x) d) d)"

end
