(* ===== verification/Snapshot_Theorems.thy ===== *)
theory Snapshot_Theorems
  imports Dashboards "HOL-Library.Code_Target_Nat"
begin

text \<open>
  The snapshots of a dashboard: their versions are consecutive in every history and earlier ones stay, and a
  materialization is idempotent.  The sample is one dashboard of one report.
\<close>

section \<open>What a stored snapshot is\<close>

lemma settle_Inr: "settle ok e r d' d = (Inr m, d'') \<longleftrightarrow> ok d' \<and> r = Inr m \<and> d'' = d'"
  by (auto simp: settle_def)

lemma find_append: "find P (xs @ ys) = (case find P xs of None \<Rightarrow> find P ys | Some x \<Rightarrow> Some x)"
  by (induction xs) auto

lemma latest_where_append:
  assumes "P r" "\<And>s. s \<in> set t \<Longrightarrow> P s \<Longrightarrow> key s < key r"
  shows "latest_where key P (t @ [r]) = Some r"
proof (cases "latest_where key P (t @ [r])")
  case None
  with assms(1) show ?thesis by (auto simp: latest_where_None_iff)
next
  case (Some s)
  from latest_where_SomeD [OF Some] latest_where_max [OF Some, of r] assms show ?thesis
    using Some by (auto simp: not_le [symmetric])
qed

lemma latest_snapshot_max:
  "latest_snapshot d b i = Some s \<Longrightarrow> x \<in> set (dashboard_snapshots d) \<Longrightarrow> ds_business_id x = b
   \<Longrightarrow> ds_dashboard_id x = i \<Longrightarrow> ds_version x \<le> ds_version s"
  unfolding latest_snapshot_def scope_latest_def by (auto intro: latest_where_max [where key = ds_version])

lemma latest_snapshot_None:
  "latest_snapshot d b i = None \<longleftrightarrow> (\<forall>x \<in> set (dashboard_snapshots d). ds_business_id x = b \<longrightarrow> ds_dashboard_id x \<noteq> i)"
  by (auto simp: latest_snapshot_def scope_latest_def latest_where_None_iff)

definition next_version :: "db \<Rightarrow> uuid \<Rightarrow> uuid \<Rightarrow> int" where
  "next_version d b i = (case latest_snapshot d b i of None \<Rightarrow> 1 | Some s \<Rightarrow> ds_version s + 1)"

lemma add_snapshot_Inr:
  assumes "add_snapshot ctx d b i u version payload h jobs = (Inr m, d')"
  obtains sources where
    "m = \<lparr> mat_snapshot = new_snapshot ctx b i u version payload h, mat_sources = sources, mat_replayed = False \<rparr>"
    "map_result (\<lambda>(position, j). new_snapshot_source ctx b position j) (enumerate 0 jobs) = Inr sources"
    "d' = d\<lparr> dashboard_snapshots := dashboard_snapshots d @ [new_snapshot ctx b i u version payload h],
             snapshot_sources := snapshot_sources d @ sources \<rparr>"
    "snapshot_tables_ok d'"
  using assms by (auto simp: add_snapshot_def Let_def settle_Inr insert_row_def split: sum.splits)

lemma store_snapshot_cases:
  assumes "store_snapshot sha ctx d b i u payload h jobs = (Inr m, d')"
  shows "(d' = d \<and> mat_replayed m \<and> latest_snapshot d b i = Some (mat_snapshot m) \<and> ds_content_hash (mat_snapshot m) = h
            \<and> mat_sources m = snapshot_sources_of d b (ds_id (mat_snapshot m))
            \<and> validate_dashboard_snapshot_content sha (mat_snapshot m) = Inr ())
    \<or> add_snapshot ctx d b i u (next_version d b i) payload h jobs = (Inr m, d')"
  using assms by (auto simp: store_snapshot_def next_version_def Let_def split: option.splits sum.splits if_splits)

lemma store_snapshot_error: "store_snapshot sha ctx d b i u payload h jobs = (Inl e, d') \<Longrightarrow> d' = d"
  by (auto simp: store_snapshot_def add_snapshot_def settle_def Let_def split: option.splits sum.splits if_splits)

text \<open>The effect of a materialization on the database that its lock was granted on.\<close>

lemma materialize_locked_cases:
  assumes "materialize_locked sha ctx d b x u payload h ids captured = (Inr m, d')"
  shows "\<exists>locked current. dashboard_by_id d b (dash_id x) = Some locked \<and> same_dashboard x locked
    \<and> source_jobs d b ids = Inr current \<and> map job_signature_of current = map job_signature_of captured
    \<and> store_snapshot sha ctx d b (dash_id x) u payload h current = (Inr m, d')"
  using assms by (auto simp: materialize_locked_def split: option.splits sum.splits if_splits)

lemma materialize_locked_error:
  "materialize_locked sha ctx d b x u payload h ids captured = (Inl e, d') \<Longrightarrow> d' = d"
  by (auto simp: materialize_locked_def store_snapshot_error split: option.splits sum.splits if_splits)

definition snapshot_added :: "db \<Rightarrow> db \<Rightarrow> bool" where
  "snapshot_added d d' \<longleftrightarrow> (\<exists>b x. dashboard_by_id d b (ds_dashboard_id x) \<noteq> None \<and> ds_business_id x = b
     \<and> ds_version x = next_version d b (ds_dashboard_id x) \<and> dashboards d' = dashboards d
     \<and> dashboard_snapshots d' = dashboard_snapshots d @ [x])"

lemma add_snapshot_added:
  assumes "add_snapshot ctx d b i u (next_version d b i) payload h jobs = (Inr m, d')" "dashboard_by_id d b i = Some x"
  shows "snapshot_added d d'"
proof -
  from assms(1) have "dashboards d' = dashboards d"
    "dashboard_snapshots d' = dashboard_snapshots d @ [new_snapshot ctx b i u (next_version d b i) payload h]"
    by (auto elim!: add_snapshot_Inr)
  with assms(2) show ?thesis
    unfolding snapshot_added_def
    by (intro exI [where x = b] exI [where x = "new_snapshot ctx b i u (next_version d b i) payload h"])
      (simp add: new_snapshot_def)
qed

lemma materialize_effect:
  obtains "snd (materialize pk storage env ctx d b i u ids) = d"
  | "snd (materialize pk storage env ctx d b i u ids) = env d"
  | "snapshot_added (env d) (snd (materialize pk storage env ctx d b i u ids))"
proof -
  have locked: "d' = d1 \<or> snapshot_added d1 d'"
    if m: "materialize_locked sha ctx d1 b x u payload h js captured = (r, d')" for sha d1 x payload h js captured r d'
  proof (cases r)
    case (Inl e)
    with m show ?thesis by (simp add: materialize_locked_error)
  next
    case (Inr y)
    from materialize_locked_cases [OF m [unfolded Inr]] obtain locked current where
      l: "dashboard_by_id d1 b (dash_id x) = Some locked"
        "store_snapshot sha ctx d1 b (dash_id x) u payload h current = (Inr y, d')" by blast
    from store_snapshot_cases [OF l(2)] add_snapshot_added [OF _ l(1)] show ?thesis by blast
  qed
  have "snd (materialize pk storage env ctx d b i u ids) = d \<or> snd (materialize pk storage env ctx d b i u ids) = env d
    \<or> snapshot_added (env d) (snd (materialize pk storage env ctx d b i u ids))"
    using locked
    by (auto simp: materialize_def Let_def split: option.splits sum.splits prod.splits)
      (metis prod.collapse)+
  then show ?thesis using that by blast
qed

section \<open>Histories\<close>

text \<open>
  What happens to the dashboards of all tenants, transaction by transaction.  \<open>env\<close> is any history that the other
  transactions have while an operation waits for its lock; \<open>elsewhere\<close> is a change of the other tables.  The
  dashboards of \<open>kept\<close> are not deleted.
\<close>

inductive history :: "uuid set \<Rightarrow> db \<Rightarrow> db \<Rightarrow> bool" for kept where
  start: "history kept d d"
| created: "history kept d0 d \<Longrightarrow> history kept d (env d)
    \<Longrightarrow> history kept d0 (snd (create_dashboard ctx env d b u p now))"
| updated: "history kept d0 d \<Longrightarrow> history kept d0 (snd (update_dashboard d b i p now))"
| deleted: "history kept d0 d \<Longrightarrow> i \<notin> kept \<Longrightarrow> history kept d0 (snd (delete_dashboard d b i))"
| materialized: "history kept d0 d \<Longrightarrow> history kept d (env d)
    \<Longrightarrow> history kept d0 (snd (materialize pk storage env sctx d b i u ids))"
| elsewhere: "history kept d0 d \<Longrightarrow> dashboards d' = dashboards d \<Longrightarrow> dashboard_snapshots d' = dashboard_snapshots d
    \<Longrightarrow> history kept d0 d'"

definition snapshots_of :: "uuid \<Rightarrow> db \<Rightarrow> dashboard_snapshot list" where
  "snapshots_of i d = filter (\<lambda>s. ds_dashboard_id s = i) (dashboard_snapshots d)"

definition versions_ok :: "db \<Rightarrow> bool" where
  "versions_ok d \<longleftrightarrow> unique_on dash_id (dashboards d)
   \<and> (\<forall>s \<in> set (dashboard_snapshots d).
        (\<exists>x \<in> set (dashboards d). dash_id x = ds_dashboard_id s \<and> dash_business_id x = ds_business_id s)
        \<and> (let found = snapshots_of (ds_dashboard_id s) d
           in map ds_version found = map (\<lambda>n. int n + 1) [0..<length found]))"

lemma versions_okD:
  assumes "versions_ok d"
  shows "map ds_version (snapshots_of i d) = map (\<lambda>n. int n + 1) [0..<length (snapshots_of i d)]"
proof (cases "snapshots_of i d")
  case (Cons s ss)
  then have "s \<in> set (dashboard_snapshots d)" "ds_dashboard_id s = i"
    by (auto simp: snapshots_of_def filter_eq_Cons_iff)
  with assms show ?thesis unfolding versions_ok_def Let_def by blast
qed simp

lemma versions_okI:
  assumes "unique_on dash_id (dashboards d)"
    "\<And>s. s \<in> set (dashboard_snapshots d)
       \<Longrightarrow> \<exists>x \<in> set (dashboards d). dash_id x = ds_dashboard_id s \<and> dash_business_id x = ds_business_id s"
    "\<And>i. map ds_version (snapshots_of i d) = map (\<lambda>n. int n + 1) [0..<length (snapshots_of i d)]"
  shows "versions_ok d"
  using assms by (simp add: versions_ok_def Let_def)

lemma next_version_ok:
  assumes "versions_ok d" "dashboard_by_id d b i = Some x"
  shows "next_version d b i = int (length (snapshots_of i d)) + 1"
proof -
  have x: "x \<in> set (dashboards d)" "dash_business_id x = b" "dash_id x = i"
    using assms(2) by (auto simp: dashboard_by_id_def dest: scope_one_SomeD)
  have business: "ds_business_id s = b" if "s \<in> set (snapshots_of i d)" for s
  proof -
    from that have "s \<in> set (dashboard_snapshots d)" "ds_dashboard_id s = i" by (auto simp: snapshots_of_def)
    with assms(1) obtain y where "y \<in> set (dashboards d)" "dash_id y = i" "dash_business_id y = ds_business_id s"
      unfolding versions_ok_def by blast
    with x assms(1) show ?thesis by (metis unique_onD versions_ok_def)
  qed
  note versions = versions_okD [OF assms(1), of i]
  show ?thesis
  proof (cases "latest_snapshot d b i")
    case None
    with business have "snapshots_of i d = []"
      by (auto simp: latest_snapshot_None snapshots_of_def filter_empty_conv)
    with None show ?thesis by (simp add: next_version_def)
  next
    case (Some s)
    then have s: "s \<in> set (snapshots_of i d)"
      by (auto simp: latest_snapshot_def snapshots_of_def dest: scope_latest_SomeD)
    then have n: "0 < length (snapshots_of i d)" by (cases "snapshots_of i d") auto
    have "ds_version s \<in> set (map ds_version (snapshots_of i d))" using s by simp
    then have le: "ds_version s \<le> int (length (snapshots_of i d))" by (subst (asm) versions) auto
    have "int (length (snapshots_of i d) - 1) + 1 \<in> set (map ds_version (snapshots_of i d))"
      using n by (subst versions) auto
    then obtain t where "t \<in> set (snapshots_of i d)" "ds_version t = int (length (snapshots_of i d))"
      using n by (auto simp: of_nat_diff)
    with latest_snapshot_max [OF Some, of t] business have "int (length (snapshots_of i d)) \<le> ds_version s"
      by (auto simp: snapshots_of_def)
    with le Some show ?thesis by (simp add: next_version_def)
  qed
qed

lemma snapshots_of_added:
  "dashboard_snapshots d' = dashboard_snapshots d @ [x]
   \<Longrightarrow> snapshots_of i d' = snapshots_of i d @ (if ds_dashboard_id x = i then [x] else [])"
  by (simp add: snapshots_of_def)

lemma snapshot_added_keeps:
  assumes "snapshot_added d d'" "versions_ok d"
  shows "versions_ok d'"
proof -
  from assms(1) obtain x y where x: "dashboard_by_id d (ds_business_id x) (ds_dashboard_id x) = Some y"
    "ds_version x = next_version d (ds_business_id x) (ds_dashboard_id x)" "dashboards d' = dashboards d"
    "dashboard_snapshots d' = dashboard_snapshots d @ [x]"
    by (auto simp: snapshot_added_def)
  show ?thesis
  proof (rule versions_okI)
    show "unique_on dash_id (dashboards d')" using assms(2) x(3) by (simp add: versions_ok_def)
    show "\<exists>y \<in> set (dashboards d'). dash_id y = ds_dashboard_id s \<and> dash_business_id y = ds_business_id s"
      if "s \<in> set (dashboard_snapshots d')" for s
    proof (cases "s = x")
      case True
      with x(1,3) show ?thesis by (auto simp: dashboard_by_id_def dest: scope_one_SomeD)
    next
      case False
      with that x(3,4) assms(2) show ?thesis by (auto simp: versions_ok_def)
    qed
    show "map ds_version (snapshots_of i d') = map (\<lambda>n. int n + 1) [0..<length (snapshots_of i d')]" for i
      using versions_okD [OF assms(2), of i] next_version_ok [OF assms(2) x(1)] x(2)
      by (simp add: snapshots_of_added [OF x(4)])
  qed
qed

lemma same_dashboards_keep:
  assumes "dashboards d' = dashboards d" "dashboard_snapshots d' = dashboard_snapshots d"
  shows "versions_ok d' = versions_ok d" and "snapshots_of i d' = snapshots_of i d"
  using assms by (simp_all add: versions_ok_def snapshots_of_def)

lemma create_effect:
  assumes "create_dashboard ctx env d b u p now = (r, d')"
  shows "d' = env d \<or> d' = add_dashboard (new_dashboard ctx b u p) (env d) \<and> dashboard_table_ok d'"
  using assms by (auto simp: create_dashboard_def Let_def settle_def split: sum.splits if_splits)

lemma add_dashboard_keeps:
  assumes "dashboard_table_ok (add_dashboard x d)" "versions_ok d"
  shows "versions_ok (add_dashboard x d)"
  using assms by (auto simp: dashboard_table_ok_def versions_ok_def add_dashboard_def snapshots_of_def Let_def)

lemma update_effect:
  assumes "update_dashboard d b i p now = (r, d')"
  shows "d' = d \<or> (\<exists>x y. d' = save_dashboard y d \<and> dashboard_by_id d b i = Some x \<and> dash_id y = dash_id x
    \<and> dash_business_id y = dash_business_id x)"
  using assms
  by (auto simp: update_dashboard_def get_dashboard_def Let_def settle_def apply_update_def
    split: option.splits if_splits)

lemma save_dashboard_keeps:
  assumes "dashboard_by_id d b i = Some x" "dash_id y = dash_id x" "dash_business_id y = dash_business_id x"
    "versions_ok d"
  shows "versions_ok (save_dashboard y d)"
proof (rule versions_okI)
  have x: "x \<in> set (dashboards d)" using assms(1) by (auto simp: dashboard_by_id_def dest: scope_one_SomeD)
  show "unique_on dash_id (dashboards (save_dashboard y d))"
    using assms(4) by (simp add: save_dashboard_def versions_ok_def, subst unique_on_update_where) auto
  show "map ds_version (snapshots_of j (save_dashboard y d))
      = map (\<lambda>n. int n + 1) [0..<length (snapshots_of j (save_dashboard y d))]" for j
    using versions_okD [OF assms(4), of j] by (simp add: save_dashboard_def snapshots_of_def)
  fix s
  assume "s \<in> set (dashboard_snapshots (save_dashboard y d))"
  then have "s \<in> set (dashboard_snapshots d)" by (simp add: save_dashboard_def)
  with assms(4) obtain z where z: "z \<in> set (dashboards d)" "dash_id z = ds_dashboard_id s"
    "dash_business_id z = ds_business_id s"
    unfolding versions_ok_def by blast
  have "z = x" if "dash_id z = dash_id x"
    using assms(4) x z(1) that by (metis unique_onD versions_ok_def)
  then show "\<exists>z \<in> set (dashboards (save_dashboard y d)). dash_id z = ds_dashboard_id s
      \<and> dash_business_id z = ds_business_id s"
    using z x assms(2,3) by (cases "dash_id z = dash_id x") (auto simp: save_dashboard_def set_update_where)
qed

lemma delete_row_tables:
  "dashboards (delete_dashboard_row i d) = rows_where (\<lambda>x. dash_id x \<noteq> i) (dashboards d)"
  "dashboard_snapshots (delete_dashboard_row i d) = rows_where (\<lambda>s. ds_dashboard_id s \<noteq> i) (dashboard_snapshots d)"
  by (simp_all add: delete_dashboard_row_def delete_snapshots_def delete_conversations_def Let_def)

lemma delete_effect:
  assumes "delete_dashboard d b i = (r, d')"
  shows "d' = d \<or> d' = delete_dashboard_row i d"
  using assms
  by (auto simp: delete_dashboard_def get_dashboard_def settle_def dashboard_by_id_def dest: scope_one_SomeD
    split: option.splits if_splits)

lemma snapshots_of_deleted: "snapshots_of j (delete_dashboard_row i d) = (if j = i then [] else snapshots_of j d)"
  by (auto simp: snapshots_of_def delete_row_tables rows_where_def filter_empty_conv intro: filter_cong)

lemma delete_row_keeps:
  assumes "versions_ok d"
  shows "versions_ok (delete_dashboard_row i d)"
proof (rule versions_okI)
  show "unique_on dash_id (dashboards (delete_dashboard_row i d))"
    using assms by (simp add: delete_row_tables versions_ok_def unique_on_def rows_where_def distinct_map_filter)
  show "map ds_version (snapshots_of j (delete_dashboard_row i d))
      = map (\<lambda>n. int n + 1) [0..<length (snapshots_of j (delete_dashboard_row i d))]" for j
    using versions_okD [OF assms, of j] by (simp add: snapshots_of_deleted)
  show "\<exists>x \<in> set (dashboards (delete_dashboard_row i d)). dash_id x = ds_dashboard_id s
      \<and> dash_business_id x = ds_business_id s"
    if "s \<in> set (dashboard_snapshots (delete_dashboard_row i d))" for s
  proof -
    from that have s: "s \<in> set (dashboard_snapshots d)" "ds_dashboard_id s \<noteq> i" by (simp_all add: delete_row_tables)
    with assms obtain x where "x \<in> set (dashboards d)" "dash_id x = ds_dashboard_id s"
      "dash_business_id x = ds_business_id s"
      unfolding versions_ok_def by blast
    with s(2) show ?thesis by (auto simp: delete_row_tables)
  qed
qed

definition history_extends :: "uuid set \<Rightarrow> db \<Rightarrow> db \<Rightarrow> bool" where
  "history_extends kept d d' \<longleftrightarrow> (\<forall>i \<in> kept. \<exists>new. snapshots_of i d' = snapshots_of i d @ new)"

lemma history_extends_refl: "(\<And>i. i \<in> kept \<Longrightarrow> snapshots_of i d' = snapshots_of i d) \<Longrightarrow> history_extends kept d d'"
  by (simp add: history_extends_def)

lemma history_extends_trans: "history_extends kept d d1 \<Longrightarrow> history_extends kept d1 d2 \<Longrightarrow> history_extends kept d d2"
  unfolding history_extends_def by (metis append_assoc)

lemma create_extends:
  assumes "create_dashboard ctx env d b u p now = (r, d')" "versions_ok (env d)"
  shows "versions_ok d' \<and> history_extends kept (env d) d'"
  using create_effect [OF assms(1)] add_dashboard_keeps [OF _ assms(2)] assms(2)
  by (auto intro!: history_extends_refl simp: add_dashboard_def snapshots_of_def)

lemma update_extends:
  assumes "update_dashboard d b i p now = (r, d')" "versions_ok d"
  shows "versions_ok d' \<and> history_extends kept d d'"
  using update_effect [OF assms(1)] save_dashboard_keeps [OF _ _ _ assms(2)] assms(2)
  by (auto intro!: history_extends_refl simp: save_dashboard_def snapshots_of_def)

lemma delete_extends:
  assumes "delete_dashboard d b i = (r, d')" "versions_ok d" "i \<notin> kept"
  shows "versions_ok d' \<and> history_extends kept d d'"
  using delete_effect [OF assms(1)] delete_row_keeps [OF assms(2)] assms(2,3)
  by (auto intro!: history_extends_refl simp: snapshots_of_deleted)

lemma materialize_extends:
  assumes "versions_ok d" "versions_ok (env d)" "history_extends kept d (env d)"
  shows "versions_ok (snd (materialize pk storage env ctx d b i u ids))
    \<and> history_extends kept d (snd (materialize pk storage env ctx d b i u ids))"
proof (rule materialize_effect [of pk storage env ctx d b i u ids])
  assume a: "snapshot_added (env d) (snd (materialize pk storage env ctx d b i u ids))"
  then have "history_extends kept (env d) (snd (materialize pk storage env ctx d b i u ids))"
    by (auto simp: snapshot_added_def history_extends_def snapshots_of_added)
  with snapshot_added_keeps [OF a assms(2)] history_extends_trans [OF assms(3)] show ?thesis by blast
qed (use assms in \<open>simp_all add: history_extends_refl\<close>)

lemma history_keeps:
  assumes "history kept d0 d" "versions_ok d0"
  shows "versions_ok d \<and> history_extends kept d0 d"
  using assms
proof (induction rule: history.induct)
  case (start d)
  then show ?case by (simp add: history_extends_refl)
next
  case (created d0 d env ctx b u p now)
  then show ?case using create_extends [OF surjective_pairing, where ctx = ctx and env = env and d = d and b = b and u = u and p = p and now = now] history_extends_trans by blast
next
  case (updated d0 d b i p now)
  then show ?case using update_extends [OF surjective_pairing, where d = d and b = b and i = i and p = p and now = now] history_extends_trans by blast
next
  case (deleted d0 d i b)
  then show ?case using delete_extends [OF surjective_pairing, where d = d and b = b and i = i] history_extends_trans by blast
next
  case (materialized d0 d env pk storage sctx b i u ids)
  then have e: "versions_ok d" "history_extends kept d0 d" "versions_ok (env d)" "history_extends kept d (env d)" by simp_all
  from materialize_extends [where env = env and d = d and kept = kept, OF e(1,3,4)] history_extends_trans [OF e(2)]
  show ?case by blast
next
  case (elsewhere d0 d d')
  then have e: "versions_ok d" "history_extends kept d0 d" by simp_all
  have "history_extends kept d d'" by (rule history_extends_refl) (rule same_dashboards_keep(2) [OF elsewhere.hyps(2,3)])
  with e history_extends_trans [OF e(2)] same_dashboards_keep(1) [OF elsewhere.hyps(2,3)] show ?case by blast
qed

text \<open>
  C7: whatever happens to the dashboards -- creations, updates, deletions and materializations by any users of any
  tenants, interleaved at every lock -- the snapshots of each dashboard are numbered 1, 2, 3 and so on without a gap,
  each belongs to a dashboard of its own tenant, and as long as a dashboard is not deleted its earlier snapshots stay
  as they were, byte by byte, before the new ones.
\<close>
theorem snapshot_versions_consecutive:
  assumes "history kept d0 d" and "versions_ok d0"
  shows "versions_ok d \<and> (\<forall>i \<in> kept. \<exists>new. snapshots_of i d = snapshots_of i d0 @ new)"
  using history_keeps [OF assms] by (simp_all add: history_extends_def)

section \<open>A materialization is repeated without effect\<close>

lemma source_jobs_Inr:
  assumes "source_jobs d b ids = Inr jobs"
  shows "list_all2 (\<lambda>i j. j \<in> set (processing_jobs d) \<and> job_business_id j = b \<and> job_id j = i) ids jobs"
    and "\<forall>j \<in> set jobs. job_status j = COMPLETED"
proof -
  let ?jobs = "scope_select job_business_id b (\<lambda>j. job_id j \<in> set ids) (processing_jobs d)"
  from assms obtain us where jobs:
    "map_result (\<lambda>i. case find (\<lambda>j. job_id j = i) (rev ?jobs) of None \<Rightarrow> Inl DashboardSnapshotSourceNotFoundError
       | Some j \<Rightarrow> Inr j) ids = Inr jobs" "map_result validate_completed_job jobs = Inr us"
    by (auto simp: source_jobs_def Let_def and_then_Inr_iff split: if_splits)
  have found: "j \<in> set (processing_jobs d) \<and> job_business_id j = b \<and> job_id j = i"
    if "(case find (\<lambda>j. job_id j = i) (rev ?jobs) of None \<Rightarrow> Inl DashboardSnapshotSourceNotFoundError
       | Some j \<Rightarrow> Inr j) = Inr j" for i j
  proof -
    from that have "find (\<lambda>j. job_id j = i) (rev ?jobs) = Some j" by (simp split: option.splits)
    then have "j \<in> set (rev ?jobs)" "job_id j = i"
      using row_where_SomeD [of "\<lambda>j. job_id j = i" "rev ?jobs" j] by (simp_all add: row_where_def)
    then show ?thesis by (simp add: scope_select_subset)
  qed
  show "list_all2 (\<lambda>i j. j \<in> set (processing_jobs d) \<and> job_business_id j = b \<and> job_id j = i) ids jobs"
    using jobs(1) unfolding map_result_Inr_iff by (rule list_all2_mono) (rule found)
  show "\<forall>j \<in> set jobs. job_status j = COMPLETED"
    using jobs(2)
    by (auto simp: map_result_Inr_iff list_all2_conv_all_nth in_set_conv_nth validate_completed_job_def split: if_splits)
qed

lemma source_jobs_same:
  assumes "source_jobs d b ids = Inr jobs" "source_jobs d1 b ids = Inr current"
    and "unique_on job_id (processing_jobs d1)"
    and "\<forall>j \<in> set (processing_jobs d). job_status j = COMPLETED \<longrightarrow> j \<in> set (processing_jobs d1)"
  shows "current = jobs"
proof -
  note a = source_jobs_Inr(1) [OF assms(1)] and c = source_jobs_Inr(1) [OF assms(2)]
  show ?thesis
  proof (rule nth_equalityI)
    show "length current = length jobs" using a c by (simp add: list_all2_lengthD [symmetric])
    fix n
    assume "n < length current"
    then have n: "n < length current" "n < length jobs" "n < length ids"
      using a c by (simp_all add: list_all2_lengthD [symmetric])
    then have "jobs ! n \<in> set (processing_jobs d1)" "job_id (jobs ! n) = ids ! n"
      using a source_jobs_Inr(2) [OF assms(1)] assms(4) by (simp_all add: list_all2_conv_all_nth)
    moreover have "current ! n \<in> set (processing_jobs d1)" "job_id (current ! n) = ids ! n"
      using c n by (simp_all add: list_all2_conv_all_nth)
    ultimately show "current ! n = jobs ! n" using assms(3) by (metis unique_onD)
  qed
qed

lemma dashboard_by_id_id: "dashboard_by_id d b i = Some x \<Longrightarrow> dash_id x = i"
  by (auto simp: dashboard_by_id_def dest: scope_one_SomeD)

lemma prepare_snapshot_Inr:
  "prepare_snapshot pk read d b i ids = Inr (x, jobs, payload)
   \<Longrightarrow> dashboard_by_id d b i = Some x \<and> source_jobs d b ids = Inr jobs"
  by (auto simp: prepare_snapshot_def and_then_Inr_iff split: option.splits)

lemma prepare_snapshot_same:
  assumes "prepare_snapshot pk read d b i ids = Inr (x, jobs, payload)"
    and "dashboard_by_id d' b i = Some y" "same_dashboard x y" "source_jobs d' b ids = Inr jobs"
  shows "prepare_snapshot pk read d' b i ids = Inr (y, jobs, payload)"
proof -
  have "start_insight (sp_parse_insight pk) y ids = start_insight (sp_parse_insight pk) x ids"
  proof -
    have "dash_type y = dash_type x" "dash_insight_configuration y = dash_insight_configuration x"
      using assms(3) by (simp_all add: same_dashboard_def)
    then show ?thesis by (simp only: start_insight_def)
  qed
  with assms prepare_snapshot_Inr [OF assms(1)] show ?thesis
    by (auto simp: prepare_snapshot_def and_then_Inr_iff same_dashboard_def)
qed

lemma prepare_payload_dict:
  assumes "prepare_snapshot pk read d b i ids = Inr (x, jobs, payload)"
  shows "is_dict payload"
  using assms
  by (auto simp: prepare_snapshot_def build_dashboard_snapshot_payload_def Let_def and_then_Inr_iff is_dict_def
    split: option.splits if_splits)

lemma new_snapshot_source_snapshot:
  "map_result (\<lambda>(position, j). new_snapshot_source ctx b position j) (enumerate n jobs) = Inr sources
   \<Longrightarrow> map src_position sources = map int [n..<n + length jobs]
     \<and> (\<forall>s \<in> set sources. src_snapshot_id s = sx_snapshot_id ctx \<and> src_business_id s = b)"
proof (induction jobs arbitrary: n sources)
  case (Cons j jobs)
  then obtain s rest where "new_snapshot_source ctx b n j = Inr s"
    "map_result (\<lambda>(position, j). new_snapshot_source ctx b position j) (enumerate (Suc n) jobs) = Inr rest"
    "sources = s # rest"
    by (auto simp: and_then_Inr_iff)
  moreover from this(1) have "src_position s = int n" "src_snapshot_id s = sx_snapshot_id ctx" "src_business_id s = b"
    by (auto simp: new_snapshot_source_def and_then_Inr_iff)
  moreover have "[n..<Suc (n + length jobs)] = n # [Suc n..<Suc (n + length jobs)]" by (simp add: upt_conv_Cons del: upt_Suc)
  ultimately show ?case using Cons.IH [of "Suc n" rest] by (simp del: upt_Suc)
qed simp

text \<open>A snapshot that was just stored is the latest of its dashboard, with the sources it was stored with.\<close>

lemma add_snapshot_latest:
  assumes "add_snapshot ctx d b i u (next_version d b i) payload h jobs = (Inr m, d')"
    and "snapshot_tables_ok d"
  shows "latest_snapshot d' b i = Some (mat_snapshot m)"
    and "snapshot_sources_of d' b (ds_id (mat_snapshot m)) = mat_sources m"
proof -
  let ?s = "new_snapshot ctx b i u (next_version d b i) payload h"
  from assms(1) obtain sources where m:
    "m = \<lparr> mat_snapshot = ?s, mat_sources = sources, mat_replayed = False \<rparr>"
    "map_result (\<lambda>(position, j). new_snapshot_source ctx b position j) (enumerate 0 jobs) = Inr sources"
    "d' = d\<lparr> dashboard_snapshots := dashboard_snapshots d @ [?s], snapshot_sources := snapshot_sources d @ sources \<rparr>"
    "snapshot_tables_ok d'"
    by (rule add_snapshot_Inr)
  have "ds_version x < next_version d b i"
    if "x \<in> set (dashboard_snapshots d)" "ds_business_id x = b" "ds_dashboard_id x = i" for x
    using that latest_snapshot_max [of d b i _ x]
    by (auto simp: next_version_def latest_snapshot_None split: option.splits)
  then show "latest_snapshot d' b i = Some (mat_snapshot m)"
    unfolding latest_snapshot_def scope_latest_def m(1,3)
    by (simp, intro latest_where_append) (simp_all add: new_snapshot_def)
  have "unique_on ds_id (dashboard_snapshots d @ [?s])"
    using m(3,4) by (simp add: snapshot_tables_ok_def dashboard_snapshot_table_ok_def)
  then have fresh: "ds_id x \<noteq> sx_snapshot_id ctx" if "x \<in> set (dashboard_snapshots d)" for x
    using that by (auto simp: unique_on_def new_snapshot_def image_iff)
  have "src_snapshot_id x \<noteq> sx_snapshot_id ctx" if x: "x \<in> set (snapshot_sources d)" for x
  proof -
    obtain y where "y \<in> set (dashboard_snapshots d)" "ds_id y = src_snapshot_id x"
      using assms(2) x unfolding snapshot_tables_ok_def snapshot_source_table_ok_def by blast
    with fresh [of y] show ?thesis by simp
  qed
  then have "filter (\<lambda>s. src_business_id s = b \<and> src_snapshot_id s = sx_snapshot_id ctx) (snapshot_sources d) = []"
    by (simp add: filter_empty_conv)
  moreover note sources = new_snapshot_source_snapshot [OF m(2)]
  moreover from this have "filter (\<lambda>s. src_business_id s = b \<and> src_snapshot_id s = sx_snapshot_id ctx) sources = sources"
    by (simp add: filter_id_conv)
  ultimately have "scope_select src_business_id b (\<lambda>s. src_snapshot_id s = sx_snapshot_id ctx) (snapshot_sources d') = sources"
    by (simp add: m(3) scope_select_def rows_where_def)
  moreover have "sorted (map src_position sources)"
    using sources by (auto simp: sorted_iff_nth_mono)
  ultimately show "snapshot_sources_of d' b (ds_id (mat_snapshot m)) = mat_sources m"
    by (simp add: snapshot_sources_of_def m(1) new_snapshot_def sort_key_id_if_sorted)
qed

lemma sort_uuid_same:
  assumes "mset xs = mset ys" "\<forall>x \<in> set xs. x < 2 ^ 128"
  shows "sort_key uuid_str xs = sort_key uuid_str ys"
proof (rule sort_key_inj_key_eq)
  show "inj_on uuid_str (set xs)" using assms(2) by (auto intro!: inj_onI uuid_str_inj)
qed (use assms(1) in simp_all)


section \<open>A dashboard, a report and a snapshot\<close>

definition small_job :: report_processing_job where
  "small_job = \<lparr> job_id = 9, job_business_id = 1, job_created_at = 0, report_upload_id = 7,
     source_storage_version_id = ''v'', source_etag = ''e'', job_status = COMPLETED, job_attempt_count = 1,
     max_attempts = 3, dispatch_attempt_count = 1, available_at = None, last_dispatched_at = Some 1,
     started_at = Some 2, lease_token = None, lease_expires_at = None, finished_at = Some 3, error_code = None,
     result_storage_bucket = Some ''bkt'', normalized_storage_key = Some ''n'',
     normalized_storage_version_id = Some ''nv'', normalized_etag = Some ''ne'', normalized_size_bytes = Some 2,
     profile_storage_key = Some ''p'', profile_storage_version_id = Some ''pv'', profile_etag = Some ''pe'',
     record_count = Some 1, sheet_count = Some 1 \<rparr>"

definition small_profile :: json where
  "small_profile = JDict
     [(''format'', JStr ''spike.report-profile''), (''version'', JInt 1), (''job_id'', JStr (uuid_str 9)),
      (''business_id'', JStr (uuid_str 1)),
      (''source'', JDict [(''report_upload_id'', JStr (uuid_str 7)), (''filename'', JStr ''r.csv''),
         (''extension'', JStr ''csv''), (''content_type'', JStr ''text/csv'')]),
      (''normalized'', JDict [(''format'', JStr ''jsonl''), (''compression'', JStr ''gzip''),
         (''sha256'', JStr (replicate 64 (CHR ''0'')))]),
      (''record_count'', JInt 1), (''sheet_count'', JInt 1),
      (''sheets'', JList [JDict [(''index'', JInt 0), (''name'', JStr ''S''), (''record_count'', JInt 1),
         (''columns'', JList [JDict [(''index'', JInt 0), (''name'', JStr ''a''), (''source_name'', JStr ''a''),
            (''generated'', JBool False), (''null_count'', JInt 0), (''non_null_count'', JInt 1),
            (''type_counts'', JDict [(''string'', JInt 1)])]])]])]"

definition small_row :: json where
  "small_row = JDict [(''sheet_index'', JInt 0), (''sheet_name'', JStr ''S''), (''values'', JDict [(''a'', JStr ''x'')])]"

definition small_packages :: artifact_packages where
  "small_packages = \<lparr> ap_loads = (\<lambda>s. if s = ''p'' then Some small_profile else Some small_row), ap_gunzip = Some,
     ap_sha256 = (\<lambda>s. replicate 64 (CHR ''0'')), ap_order = NUMERIC_FIELDS \<rparr>"

definition small_reader :: object_reader where
  "small_reader = (\<lambda>bucket key version max_bytes. Inr (if key = ''p'' then ''p'' else [CHR ''r'', CHR 0x0A]))"

definition snapshot_sample_db :: db where
  "snapshot_sample_db = empty_db\<lparr>
     role_assignments := [\<lparr> assignment_id = 11, assignment_business_id = 1, assignment_user_id = 5, tenant_role = OWNER,
        assignment_is_active = True \<rparr>],
     dashboards := [\<lparr> dash_id = 100, dash_business_id = 1, dash_created_at = 0, dash_updated_at = 0,
        dash_created_by_user_id = 5, dash_type = EXECUTIVE_SUMMARY, dash_title = ''T'', dash_configuration = JDict [],
        dash_insight_configuration = None \<rparr>],
     processing_jobs := [small_job] \<rparr>"

definition snapshot_sample_packages :: snapshot_packages where
  "snapshot_sample_packages = \<lparr> sp_artifacts = small_packages,
     sp_dates = \<lparr> from_iso = (\<lambda>_. None), strptime = (\<lambda>_ _. None) \<rparr>, sp_enum = (\<lambda>xs. xs),
     sp_parse_insight = (\<lambda>_. None) \<rparr>"

definition snapshot_sample_context :: snapshot_context where
  "snapshot_sample_context = \<lparr> sx_snapshot_id = 200, sx_created_at = 7, sx_source_id = (\<lambda>n. 300 + n),
     sx_source_created_at = (\<lambda>_. 7) \<rparr>"

definition small_dashboard :: dashboard where
  "small_dashboard = hd (dashboards snapshot_sample_db)"

lemma small_prepared:
  obtains payload t where "prepare_snapshot snapshot_sample_packages small_reader snapshot_sample_db 1 100 [9]
      = Inr (small_dashboard, [small_job], payload)" "canonical_json payload = Some t" "is_json_object payload"
proof -
  have "\<not> isl (prepare_snapshot snapshot_sample_packages small_reader snapshot_sample_db 1 100 [9])" by code_simp
  then obtain x jobs payload where p: "prepare_snapshot snapshot_sample_packages small_reader snapshot_sample_db 1 100 [9]
      = Inr (x, jobs, payload)"
    by (cases "prepare_snapshot snapshot_sample_packages small_reader snapshot_sample_db 1 100 [9]") auto
  have "dashboard_by_id snapshot_sample_db 1 100 = Some small_dashboard"
    by (simp add: dashboard_by_id_def scope_one_def snapshot_sample_db_def small_dashboard_def)
  moreover have "source_jobs snapshot_sample_db 1 [9] = Inr [small_job]" by code_simp
  ultimately have x: "x = small_dashboard" "jobs = [small_job]" using prepare_snapshot_Inr [OF p] by auto
  obtain t where "canonical_json payload = Some t"
    using p by (auto simp: prepare_snapshot_def build_dashboard_snapshot_payload_def Let_def and_then_Inr_iff
      split: option.splits if_splits)
  with p x prepare_payload_dict [OF p] that show ?thesis by (auto simp: is_dict_def is_json_object_def split: json.splits)
qed

definition small_source :: snapshot_source where
  "small_source = \<lparr> src_id = 300, src_business_id = 1, src_snapshot_id = 200, src_processing_job_id = 9,
     src_position = 0, src_normalized_version_id = ''nv'', src_normalized_etag = ''ne'',
     src_profile_version_id = ''pv'', src_profile_etag = ''pe'', src_created_at = 7 \<rparr>"

definition small_snapshot :: "json \<Rightarrow> dashboard_snapshot" where
  "small_snapshot payload = \<lparr> ds_id = 200, ds_business_id = 1, ds_dashboard_id = 100, ds_version = 1,
     ds_schema_version = DASHBOARD_SNAPSHOT_SCHEMA_VERSION, ds_payload = payload,
     ds_content_hash = replicate 64 (CHR ''0''), ds_created_by_user_id = 5, ds_created_at = 7 \<rparr>"

definition stored_sample :: "json \<Rightarrow> db" where
  "stored_sample payload = snapshot_sample_db\<lparr> dashboard_snapshots := [small_snapshot payload],
     snapshot_sources := [small_source] \<rparr>"

lemma sample_snapshot_tables:
  "snapshot_tables_ok snapshot_sample_db" "is_json_object payload \<Longrightarrow> snapshot_tables_ok (stored_sample payload)"
  by (simp_all add: snapshot_tables_ok_def dashboard_snapshot_table_ok_def snapshot_source_table_ok_def
    snapshot_sample_db_def empty_db_def stored_sample_def small_snapshot_def small_source_def unique_on_def check_defs
    small_job_def lower_hex_digit_def list_all_iff less_eq_char_def)

lemma sample_materialized:
  obtains payload where "materialize snapshot_sample_packages (Some small_reader) (\<lambda>d. d) snapshot_sample_context
      snapshot_sample_db 1 100 5 [9]
    = (Inr \<lparr> mat_snapshot = small_snapshot payload, mat_sources = [small_source], mat_replayed = False \<rparr>,
       stored_sample payload)"
    "is_json_object payload"
proof -
  obtain payload t where p: "prepare_snapshot snapshot_sample_packages small_reader snapshot_sample_db 1 100 [9]
      = Inr (small_dashboard, [small_job], payload)" "canonical_json payload = Some t" "is_json_object payload"
    by (rule small_prepared)
  have jobs: "source_jobs snapshot_sample_db 1 [9] = Inr [small_job]" by code_simp
  have found: "dashboard_by_id snapshot_sample_db 1 (dash_id small_dashboard) = Some small_dashboard"
    "dash_id small_dashboard = 100" "same_dashboard small_dashboard small_dashboard"
    by (simp_all add: dashboard_by_id_def scope_one_def snapshot_sample_db_def small_dashboard_def same_dashboard_def)
  have none: "latest_snapshot snapshot_sample_db 1 100 = None"
    by (simp add: latest_snapshot_None snapshot_sample_db_def empty_db_def)
  have source: "map_result (\<lambda>(position, j). new_snapshot_source snapshot_sample_context 1 position j)
      (enumerate 0 [small_job]) = Inr [small_source]" by code_simp
  have snapshot: "new_snapshot snapshot_sample_context 1 100 5 1 payload (replicate 64 (CHR ''0'')) = small_snapshot payload"
    by (simp add: new_snapshot_def small_snapshot_def snapshot_sample_context_def)
  have "snapshot_sample_db\<lparr> dashboard_snapshots := insert_row (small_snapshot payload) (dashboard_snapshots snapshot_sample_db),
      snapshot_sources := snapshot_sources snapshot_sample_db @ [small_source] \<rparr> = stored_sample payload"
    by (simp add: stored_sample_def snapshot_sample_db_def empty_db_def insert_row_def)
  with source snapshot sample_snapshot_tables(2) [OF p(3)]
  have "add_snapshot snapshot_sample_context snapshot_sample_db 1 100 5 1 payload (replicate 64 (CHR ''0'')) [small_job]
      = (Inr \<lparr> mat_snapshot = small_snapshot payload, mat_sources = [small_source], mat_replayed = False \<rparr>, stored_sample payload)"
    by (simp add: add_snapshot_def settle_def)
  then have "materialize snapshot_sample_packages (Some small_reader) (\<lambda>d. d) snapshot_sample_context
      snapshot_sample_db 1 100 5 [9]
    = (Inr \<lparr> mat_snapshot = small_snapshot payload, mat_sources = [small_source], mat_replayed = False \<rparr>, stored_sample payload)"
    using p(1,2) jobs found none
    by (simp add: materialize_def DASHBOARD_MAX_SNAPSHOT_SOURCES_def dashboard_snapshot_content_hash_def
      materialize_locked_def store_snapshot_def snapshot_sample_packages_def small_packages_def)
  with p(3) that show ?thesis by blast
qed

theorem snapshot_versions_consecutive_witness:
  "\<exists>d. history {100} snapshot_sample_db d \<and> map ds_version (snapshots_of 100 d) = [1] \<and> versions_ok d
     \<and> (\<exists>new. snapshots_of 100 d = snapshots_of 100 snapshot_sample_db @ new)"
proof -
  obtain payload where m: "materialize snapshot_sample_packages (Some small_reader) (\<lambda>d. d) snapshot_sample_context
      snapshot_sample_db 1 100 5 [9]
    = (Inr \<lparr> mat_snapshot = small_snapshot payload, mat_sources = [small_source], mat_replayed = False \<rparr>, stored_sample payload)"
    by (rule sample_materialized)
  have "history {100} snapshot_sample_db (snd (materialize snapshot_sample_packages (Some small_reader) (\<lambda>d. d)
      snapshot_sample_context snapshot_sample_db 1 100 5 [9]))"
    by (intro history.materialized history.start)
  then have h: "history {100} snapshot_sample_db (stored_sample payload)" by (simp only: m snd_conv)
  have "versions_ok snapshot_sample_db" by (simp add: versions_ok_def snapshot_sample_db_def empty_db_def unique_on_def)
  from snapshot_versions_consecutive [OF h this] h show ?thesis
    by (intro exI [of _ "stored_sample payload"]) (simp add: snapshots_of_def stored_sample_def small_snapshot_def)
qed


end
