(* ===== verification/Dashboard_Theorems.thy ===== *)
theory Dashboard_Theorems
  imports Snapshot_Theorems Sample
begin

text \<open>
  The limit of the plan on the number of dashboards, and the cascade of a deleted dashboard.
\<close>

section \<open>Deleting rows\<close>

lemma list_all_rows_where: "list_all P t \<Longrightarrow> list_all P (rows_where Q t)"
  by (auto simp: rows_where_def list_all_iff)

lemma unique_on_rows_where: "unique_on key t \<Longrightarrow> unique_on key (rows_where Q t)"
  by (simp add: unique_on_def rows_where_def distinct_map_filter)

lemma unique_nullable_rows_where: "unique_nullable key t \<Longrightarrow> unique_nullable key (rows_where Q t)"
  by (induction t) (auto simp: unique_nullable_def rows_where_def)

lemma unique_where_rows_where: "unique_where P key t \<Longrightarrow> unique_where P key (rows_where Q t)"
  by (induction t) (auto simp: unique_where_def rows_where_def)

lemmas rows_where_keeps = list_all_rows_where unique_on_rows_where unique_nullable_rows_where unique_where_rows_where

section \<open>The cascade of a deleted dashboard\<close>

definition snapshot_of_dashboard :: "uuid \<Rightarrow> db \<Rightarrow> uuid \<Rightarrow> bool" where
  "snapshot_of_dashboard i d k \<longleftrightarrow> (\<exists>s \<in> set (dashboard_snapshots d). ds_dashboard_id s = i \<and> ds_id s = k)"

definition conversation_of_dashboard :: "uuid \<Rightarrow> db \<Rightarrow> ai_conversation \<Rightarrow> bool" where
  "conversation_of_dashboard i d c \<longleftrightarrow> (case conv_dashboard_snapshot_id c of None \<Rightarrow> False
     | Some k \<Rightarrow> snapshot_of_dashboard i d k)"

definition message_of_dashboard :: "uuid \<Rightarrow> db \<Rightarrow> ai_message \<Rightarrow> bool" where
  "message_of_dashboard i d m \<longleftrightarrow> (\<exists>c \<in> set (ai_conversations d). conversation_of_dashboard i d c
     \<and> conv_id c = msg_conversation_id m)"

lemma delete_dashboard_row_eq:
  "delete_dashboard_row i d = d\<lparr>
     dashboards := rows_where (\<lambda>x. dash_id x \<noteq> i) (dashboards d),
     dashboard_snapshots := rows_where (\<lambda>s. ds_dashboard_id s \<noteq> i) (dashboard_snapshots d),
     snapshot_sources := rows_where (\<lambda>s. \<not> snapshot_of_dashboard i d (src_snapshot_id s)) (snapshot_sources d),
     ai_conversations := rows_where (\<lambda>c. \<not> conversation_of_dashboard i d c) (ai_conversations d),
     ai_messages := rows_where (\<lambda>m. \<not> message_of_dashboard i d m) (ai_messages d) \<rparr>"
proof -
  let ?ids = "map ds_id (rows_where (\<lambda>s. ds_dashboard_id s = i) (dashboard_snapshots d))"
  have ids: "k \<in> set ?ids \<longleftrightarrow> snapshot_of_dashboard i d k" for k
    by (auto simp: snapshot_of_dashboard_def)
  have messages: "list_ex (\<lambda>c. conversation_of_dashboard i d c \<and> conv_id c = msg_conversation_id m) (ai_conversations d)
      = message_of_dashboard i d m" for m
    by (auto simp: message_of_dashboard_def list_ex_iff)
  show ?thesis
    unfolding delete_dashboard_row_def delete_snapshots_def delete_conversations_def Let_def ids
      conversation_of_dashboard_def [symmetric] messages
    by simp
qed

lemma delete_keeps_dashboards:
  "dashboard_table_ok d \<Longrightarrow> dashboard_table_ok (delete_dashboard_row i d)"
  by (simp add: dashboard_table_ok_def delete_dashboard_row_eq rows_where_keeps)

lemma delete_keeps_snapshots:
  assumes "dashboard_snapshot_table_ok d"
  shows "dashboard_snapshot_table_ok (delete_dashboard_row i d)"
proof -
  have "\<exists>x \<in> set (dashboards (delete_dashboard_row i d)). dash_id x = ds_dashboard_id s \<and> dash_business_id x = ds_business_id s"
    if "s \<in> set (dashboard_snapshots (delete_dashboard_row i d))" for s
  proof -
    from that have s: "s \<in> set (dashboard_snapshots d)" "ds_dashboard_id s \<noteq> i" by (simp_all add: delete_dashboard_row_eq)
    then obtain x where "x \<in> set (dashboards d)" "dash_id x = ds_dashboard_id s" "dash_business_id x = ds_business_id s"
      using assms unfolding dashboard_snapshot_table_ok_def by blast
    with s(2) show ?thesis by (auto simp: delete_dashboard_row_eq)
  qed
  with assms show ?thesis by (simp add: dashboard_snapshot_table_ok_def delete_dashboard_row_eq rows_where_keeps)
qed

lemma delete_keeps_sources:
  assumes "snapshot_source_table_ok d"
  shows "snapshot_source_table_ok (delete_dashboard_row i d)"
proof -
  have "\<exists>x \<in> set (dashboard_snapshots (delete_dashboard_row i d)). ds_id x = src_snapshot_id s \<and> ds_business_id x = src_business_id s"
    if "s \<in> set (snapshot_sources (delete_dashboard_row i d))" for s
  proof -
    from that have s: "s \<in> set (snapshot_sources d)" "\<not> snapshot_of_dashboard i d (src_snapshot_id s)"
      by (simp_all add: delete_dashboard_row_eq)
    then obtain x where "x \<in> set (dashboard_snapshots d)" "ds_id x = src_snapshot_id s" "ds_business_id x = src_business_id s"
      using assms unfolding snapshot_source_table_ok_def by blast
    with s(2) show ?thesis by (auto simp: delete_dashboard_row_eq snapshot_of_dashboard_def)
  qed
  with assms show ?thesis by (simp add: snapshot_source_table_ok_def delete_dashboard_row_eq rows_where_keeps)
qed

lemma delete_keeps_conversations:
  assumes "conversation_table_ok d"
  shows "conversation_table_ok (delete_dashboard_row i d)"
proof -
  have "null_or (\<lambda>k. \<exists>s \<in> set (dashboard_snapshots (delete_dashboard_row i d)). ds_id s = k \<and> ds_business_id s = conv_business_id c)
      (conv_dashboard_snapshot_id c)" if "c \<in> set (ai_conversations (delete_dashboard_row i d))" for c
  proof (cases "conv_dashboard_snapshot_id c")
    case (Some k)
    with that have c: "c \<in> set (ai_conversations d)" "\<not> snapshot_of_dashboard i d k"
      by (simp_all add: delete_dashboard_row_eq conversation_of_dashboard_def)
    have "\<forall>c \<in> set (ai_conversations d). null_or (\<lambda>i. \<exists>s \<in> set (dashboard_snapshots d).
        ds_id s = i \<and> ds_business_id s = conv_business_id c) (conv_dashboard_snapshot_id c)"
      using assms unfolding conversation_table_ok_def by (elim conjE)
    from bspec [OF this c(1)] Some obtain s where "s \<in> set (dashboard_snapshots d)" "ds_id s = k" "ds_business_id s = conv_business_id c" by auto
    with c(2) Some show ?thesis by (auto simp: delete_dashboard_row_eq snapshot_of_dashboard_def)
  qed simp
  with assms show ?thesis by (simp add: conversation_table_ok_def delete_dashboard_row_eq rows_where_keeps)
qed

lemma delete_keeps_messages:
  assumes "message_table_ok d"
  shows "message_table_ok (delete_dashboard_row i d)"
proof -
  have "\<exists>c \<in> set (ai_conversations (delete_dashboard_row i d)). conv_id c = msg_conversation_id m \<and> conv_business_id c = msg_business_id m"
    if "m \<in> set (ai_messages (delete_dashboard_row i d))" for m
  proof -
    from that have m: "m \<in> set (ai_messages d)" "\<not> message_of_dashboard i d m" by (simp_all add: delete_dashboard_row_eq)
    then obtain c where "c \<in> set (ai_conversations d)" "conv_id c = msg_conversation_id m" "conv_business_id c = msg_business_id m"
      using assms unfolding message_table_ok_def by blast
    with m(2) show ?thesis by (auto simp: delete_dashboard_row_eq message_of_dashboard_def)
  qed
  moreover have "null_or (\<lambda>r. \<exists>q \<in> set (ai_messages (delete_dashboard_row i d)). msg_id q = r
      \<and> msg_business_id q = msg_business_id m \<and> msg_conversation_id q = msg_conversation_id m) (msg_reply_to_message_id m)"
    if "m \<in> set (ai_messages (delete_dashboard_row i d))" for m
  proof (cases "msg_reply_to_message_id m")
    case (Some r)
    from that have m: "m \<in> set (ai_messages d)" "\<not> message_of_dashboard i d m" by (simp_all add: delete_dashboard_row_eq)
    have "\<forall>m \<in> set (ai_messages d). null_or (\<lambda>r. \<exists>q \<in> set (ai_messages d). msg_id q = r
        \<and> msg_business_id q = msg_business_id m \<and> msg_conversation_id q = msg_conversation_id m) (msg_reply_to_message_id m)"
      using assms unfolding message_table_ok_def by (elim conjE)
    from bspec [OF this m(1)] Some obtain q where "q \<in> set (ai_messages d)" "msg_id q = r" "msg_business_id q = msg_business_id m"
      "msg_conversation_id q = msg_conversation_id m" by auto
    with m(2) Some show ?thesis by (auto simp: delete_dashboard_row_eq message_of_dashboard_def)
  qed simp
  ultimately show ?thesis using assms by (simp add: message_table_ok_def delete_dashboard_row_eq rows_where_keeps)
qed

lemma delete_keeps_tables: "dashboard_tables_ok d \<Longrightarrow> dashboard_tables_ok (delete_dashboard_row i d)"
  by (simp add: dashboard_tables_ok_def snapshot_tables_ok_def ai_tables_ok_def delete_keeps_dashboards
    delete_keeps_snapshots delete_keeps_sources delete_keeps_conversations delete_keeps_messages)

text \<open>
  C35: the deletion of a dashboard succeeds exactly when the tenant has it.  It takes with it the snapshots of the
  dashboard, their sources, the conversations about them and the messages of these, nothing else is removed or
  changed, and no row is left that refers to a removed one: all constraints hold again.
\<close>
theorem delete_dashboard_cascades:
  assumes "dashboard_tables_ok d"
  shows "delete_dashboard d b i = (if dashboard_by_id d b i = None then (Inl DashboardNotFoundError, d)
     else (Inr (), d\<lparr>
       dashboards := rows_where (\<lambda>x. dash_id x \<noteq> i) (dashboards d),
       dashboard_snapshots := rows_where (\<lambda>s. ds_dashboard_id s \<noteq> i) (dashboard_snapshots d),
       snapshot_sources := rows_where (\<lambda>s. \<not> snapshot_of_dashboard i d (src_snapshot_id s)) (snapshot_sources d),
       ai_conversations := rows_where (\<lambda>c. \<not> conversation_of_dashboard i d c) (ai_conversations d),
       ai_messages := rows_where (\<lambda>m. \<not> message_of_dashboard i d m) (ai_messages d) \<rparr>))
   \<and> dashboard_tables_ok (snd (delete_dashboard d b i))"
proof (cases "dashboard_by_id d b i")
  case (Some x)
  then have "dash_id x = i" by (auto simp: dashboard_by_id_def dest: scope_one_SomeD)
  with Some delete_keeps_tables [OF assms, of i] show ?thesis
    by (simp add: delete_dashboard_def get_dashboard_def settle_def delete_dashboard_row_eq)
qed (use assms in \<open>simp add: delete_dashboard_def get_dashboard_def\<close>)

section \<open>The limit of the plan\<close>

lemma create_dashboard_Inr:
  assumes "create_dashboard ctx env d b u p now = (Inr x, d')"
  shows "\<exists>grant. require (env d) b DASHBOARDS (int (dashboard_usage (env d) b)) now = Inr grant
    \<and> x = new_dashboard ctx b u p \<and> d' = add_dashboard x (env d) \<and> dashboard_table_ok d'"
  using assms
  by (auto simp: create_dashboard_def Let_def settle_def and_then_Inr_iff split: sum.splits if_splits)

lemma require_Inr:
  assumes "require d b k n now = Inr grant"
  shows "\<exists>s ent. get_current b d = Some s \<and> access_active (evaluate_access s now)
    \<and> find_entitlement k (effective_entitlements d b s) = Some ent \<and> ee_is_enabled ent
    \<and> null_or (\<lambda>l. n < l) (ee_limit_value ent)"
  using assms by (auto simp: require_def summarize_def Let_def null_or_def split: if_splits sum.splits option.splits)

text \<open>
  C36: no tenant gets more dashboards than its plan allows: a dashboard is created only under a current subscription
  whose access is active and whose entitlements enable dashboards, and with it the tenant has at most the limit of
  the plan -- counted in the state the lock of the subscription was granted in, whatever other requests created in
  the meantime.  Nobody else's dashboards change.
\<close>
theorem dashboard_limit_enforced:
  assumes "create_dashboard ctx env d b u p now = (Inr x, d')"
  shows "\<exists>s ent. get_current b (env d) = Some s \<and> access_active (evaluate_access s now)
     \<and> find_entitlement DASHBOARDS (effective_entitlements (env d) b s) = Some ent \<and> ee_is_enabled ent
     \<and> (case ee_limit_value ent of None \<Rightarrow> True | Some l \<Rightarrow> int (dashboard_usage d' b) \<le> l)
     \<and> dashboards d' = dashboards (env d) @ [x] \<and> dash_business_id x = b
     \<and> (\<exists>a \<in> set (role_assignments d'). assignment_business_id a = b \<and> assignment_user_id a = u)"
proof -
  from create_dashboard_Inr [OF assms] obtain grant where
    c: "require (env d) b DASHBOARDS (int (dashboard_usage (env d) b)) now = Inr grant" "x = new_dashboard ctx b u p"
      "d' = add_dashboard x (env d)" "dashboard_table_ok d'" by blast
  from require_Inr [OF c(1)] obtain s ent where e: "get_current b (env d) = Some s" "access_active (evaluate_access s now)"
    "find_entitlement DASHBOARDS (effective_entitlements (env d) b s) = Some ent" "ee_is_enabled ent"
    "null_or (\<lambda>l. int (dashboard_usage (env d) b) < l) (ee_limit_value ent)" by blast
  have x: "dash_business_id x = b" "dash_created_by_user_id x = u" by (simp_all add: c(2) new_dashboard_def)
  have "int (dashboard_usage d' b) = int (dashboard_usage (env d) b) + 1"
    by (simp add: c(3) dashboard_usage_def add_dashboard_def x)
  moreover have "\<exists>a \<in> set (role_assignments d'). assignment_business_id a = b \<and> assignment_user_id a = u"
    using c(4) x by (auto simp: dashboard_table_ok_def c(3) add_dashboard_def)
  ultimately show ?thesis
    using e x by (intro exI [of _ s] exI [of _ ent]) (auto simp: c(3) add_dashboard_def insert_row_def split: option.splits)
qed

theorem delete_dashboard_cascades_witness:
  "delete_dashboard (stored_sample (JDict [])) 1 100 = (Inr (), snapshot_sample_db\<lparr> dashboards := [] \<rparr>)"
proof -
  have ok: "dashboard_tables_ok (stored_sample (JDict []))"
    using sample_snapshot_tables(2) [of "JDict []"]
    by (simp add: dashboard_tables_ok_def ai_tables_ok_def conversation_table_ok_def message_table_ok_def
      dashboard_table_ok_def stored_sample_def snapshot_sample_db_def empty_db_def check_defs unique_on_def unique_where_def
      unique_nullable_def is_json_object_def)
      code_simp
  have "dashboard_by_id (stored_sample (JDict [])) 1 100 \<noteq> None"
    by (simp add: dashboard_by_id_def scope_one_def stored_sample_def snapshot_sample_db_def)
  with delete_dashboard_cascades [OF ok, of 1 100] show ?thesis
    by (simp add: stored_sample_def snapshot_sample_db_def empty_db_def rows_where_def small_snapshot_def small_source_def
      snapshot_of_dashboard_def)
qed

definition dashboard_sample_db :: db where
  "dashboard_sample_db = sample_db\<lparr> subscription_entitlements := [sample_entitlement\<lparr> se_key := DASHBOARDS \<rparr>] \<rparr>"

definition dashboard_sample_context :: new_dashboard_context where
  "dashboard_sample_context = \<lparr> nd_id = 100, nd_created_at = 7, nd_updated_at = 7 \<rparr>"

definition dashboard_sample_request :: dashboard_create where
  "dashboard_sample_request = \<lparr> dc_dashboard_type = EXECUTIVE_SUMMARY, dc_title = ''T'', dc_configuration = [],
     dc_insight_configuration = None \<rparr>"

theorem dashboard_limit_enforced_witness:
  "\<exists>d'. create_dashboard dashboard_sample_context (\<lambda>d. d) dashboard_sample_db 10 1 dashboard_sample_request 5
      = (Inr (new_dashboard dashboard_sample_context 10 1 dashboard_sample_request), d') \<and> length (dashboards d') = 1"
proof -
  let ?r = "create_dashboard dashboard_sample_context (\<lambda>d. d) dashboard_sample_db 10 1 dashboard_sample_request 5"
  have "fst ?r = Inr (new_dashboard dashboard_sample_context 10 1 dashboard_sample_request)" by code_simp
  then have r: "?r = (Inr (new_dashboard dashboard_sample_context 10 1 dashboard_sample_request), snd ?r)"
    by (cases ?r) simp
  from dashboard_limit_enforced [OF r] have "length (dashboards (snd ?r)) = 1"
    by (auto simp: dashboard_sample_db_def sample_db_def empty_db_def)
  with r show ?thesis by blast
qed

end
