(* ===== verification/Request_Theorems.thy ===== *)
theory Request_Theorems
  imports Dashboards Admin_Audit
begin

text \<open>
  The validators of the requests on dashboards accept what they are meant to, and what they accept is well-formed.
\<close>

section \<open>Configurations\<close>

definition configuration_key_ok :: "string \<Rightarrow> bool" where
  "configuration_key_ok key \<longleftrightarrow> 1 \<le> length key \<and> length key \<le> MAX_DASHBOARD_CONFIGURATION_KEY_LENGTH"

fun configuration_node_ok :: "nat \<times> json \<Rightarrow> bool" where
  "configuration_node_ok (n, v) \<longleftrightarrow> n \<le> MAX_DASHBOARD_CONFIGURATION_DEPTH
     \<and> (case v of JFloat digits \<Rightarrow> \<not> is_null digits
        | JDict kvs \<Rightarrow> list_all (\<lambda>kv. configuration_key_ok (fst kv)) kvs
        | _ \<Rightarrow> True)"

abbreviation counted :: "(nat \<times> json) list \<Rightarrow> nat \<Rightarrow> nat \<Rightarrow> bool" where
  "counted ns c c' \<equiv> c' = c + total_items ns \<and> c' \<le> MAX_DASHBOARD_CONFIGURATION_ITEMS
     \<and> list_all configuration_node_ok ns"

lemma validate_json_spec:
  "c \<le> MAX_DASHBOARD_CONFIGURATION_ITEMS \<Longrightarrow> validate_json_value n v c = Some c' \<longleftrightarrow> counted (json_nodes n v) c c'"
  "c \<le> MAX_DASHBOARD_CONFIGURATION_ITEMS \<Longrightarrow> validate_json_list n xs c = Some c'
     \<longleftrightarrow> counted (concat (map (json_nodes n) xs)) (c + length xs) c'"
  "c \<le> MAX_DASHBOARD_CONFIGURATION_ITEMS \<Longrightarrow> validate_json_items n kvs c = Some c'
     \<longleftrightarrow> counted (concat (map (\<lambda>kv. json_nodes n (snd kv)) kvs)) (c + length kvs) c'
       \<and> list_all (\<lambda>kv. configuration_key_ok (fst kv)) kvs"
proof (induction n v c and n xs c and n kvs c arbitrary: c' and c' and c'
    rule: validate_json_value_validate_json_list_validate_json_items.induct)
  case (1 depth v counter)
  then show ?case by (cases v) (auto simp: validate_json_value.simps)
next
  case (3 depth x xs counter)
  show ?case
  proof (cases "MAX_DASHBOARD_CONFIGURATION_ITEMS < counter + 1")
    case False
    show ?thesis
    proof (cases "validate_json_value depth x (counter + 1)")
      case None
      with 3(1) [OF False, of "counter + 1 + total_items (json_nodes depth x)"] False show ?thesis by auto
    next
      case (Some c1)
      then have first: "counted (json_nodes depth x) (counter + 1) c1" using 3(1) [OF False, of c1] False by simp
      then have "validate_json_list depth xs c1 = Some c' \<longleftrightarrow> counted (concat (map (json_nodes depth) xs)) (c1 + length xs) c'"
        using 3(2) [OF False Some] by simp
      with Some first False show ?thesis by auto
    qed
  qed auto
next
  case (5 depth key x kvs counter)
  show ?case
  proof (cases "MAX_DASHBOARD_CONFIGURATION_ITEMS < counter + 1 \<or> \<not> configuration_key_ok key")
    case True
    then show ?thesis by (auto simp: configuration_key_ok_def)
  next
    case False
    then have key: "\<not> MAX_DASHBOARD_CONFIGURATION_ITEMS < counter + 1"
      "\<not> \<not> (1 \<le> length key \<and> length key \<le> MAX_DASHBOARD_CONFIGURATION_KEY_LENGTH)" "configuration_key_ok key"
      by (simp_all add: configuration_key_ok_def)
    show ?thesis
    proof (cases "validate_json_value depth x (counter + 1)")
      case None
      with 5(1) [OF key(1,2), of "counter + 1 + total_items (json_nodes depth x)"] key show ?thesis by auto
    next
      case (Some c1)
      then have first: "counted (json_nodes depth x) (counter + 1) c1" using 5(1) [OF key(1,2), of c1] key by simp
      then have "validate_json_items depth kvs c1 = Some c'
          \<longleftrightarrow> counted (concat (map (\<lambda>kv. json_nodes depth (snd kv)) kvs)) (c1 + length kvs) c'
            \<and> list_all (\<lambda>kv. configuration_key_ok (fst kv)) kvs"
        using 5(2) [OF key(1,2) Some] by simp
      with Some first key show ?thesis by auto
    qed
  qed
qed auto

text \<open>
  A dashboard configuration is accepted exactly when no value lies deeper than six levels, it has at most 512
  items in all, every key has 1 to 120 characters, every number is finite and its compact text is at most 16 KiB of
  UTF-8; it is then stored unchanged.
\<close>
theorem configuration_accepted_iff:
  "validate_dashboard_configuration kvs = Some m \<longleftrightarrow>
     m = kvs \<and> total_items (json_nodes 0 (JDict kvs)) \<le> 512
   \<and> list_all configuration_node_ok (json_nodes 0 (JDict kvs))
   \<and> (\<exists>t. json_render (JDict kvs) = Some t \<and> utf8_length t \<le> 16 * 1024)"
  (is "?L \<longleftrightarrow> _ \<and> ?items \<and> ?nodes \<and> ?size")
proof -
  have "(\<exists>c. validate_json_value 0 (JDict kvs) 0 = Some c) \<longleftrightarrow> ?items \<and> ?nodes"
    by (simp only: validate_json_spec(1) [of 0] configuration_limits) auto
  then show ?thesis
    by (auto simp: validate_dashboard_configuration_def MAX_DASHBOARD_CONFIGURATION_BYTES_def
        simp del: json_render.simps json_nodes.simps split: option.splits)
qed

section \<open>What a validated request stores\<close>

lemma validated_configuration_same: "validate_dashboard_configuration kvs = Some m \<Longrightarrow> m = kvs"
  by (auto simp: validate_dashboard_configuration_def split: option.splits if_splits)

lemma valid_title_Some:
  assumes "valid_title t = Some t'"
  shows "valid_title t' = Some t'" and "trimmed_length_between 1 DASHBOARD_TITLE_MAX_LENGTH t'"
  using assms by (auto simp: valid_title_def normalize_dashboard_title_def Let_def trimmed_length_between_def split: if_splits)

lemma normalize_columns_again: "normalize_columns cs used = Some cs' \<Longrightarrow> normalize_columns cs' used = Some cs'"
proof (induction cs used arbitrary: cs' rule: normalize_columns.induct)
  case (2 field column_name rest used)
  from "2.prems" obtain rest' where r: "cs' = (field, py_strip column_name) # rest'"
    "1 \<le> length (py_strip column_name)" "length (py_strip column_name) \<le> MAX_DASHBOARD_SOURCE_COLUMN_LENGTH"
    "py_casefold (py_strip column_name) \<notin> set used"
    "normalize_columns rest (py_casefold (py_strip column_name) # used) = Some rest'"
    by (auto simp: Let_def split: if_splits)
  with "2.IH" [OF refl _ _ r(5)] show ?case by simp
qed simp

lemma normalize_columns_length: "normalize_columns cs used = Some cs' \<Longrightarrow> length cs' = length cs"
  by (induction cs used arbitrary: cs' rule: normalize_columns.induct) (auto simp: Let_def split: if_splits)

lemma validate_dataset_again:
  assumes "validate_dataset m = Some m'"
  shows "validate_dataset m' = Some m'"
proof -
  from assms obtain cs where cs: "normalize_columns (dm_columns m) [] = Some cs" "m' = m\<lparr> dm_columns := cs \<rparr>"
    by (auto simp: validate_dataset_def split: if_splits)
  with normalize_columns_length [OF cs(1)] normalize_columns_again [OF cs(1)] assms show ?thesis
    by (auto simp: validate_dataset_def split: if_splits)
qed

lemma all_some_again:
  "all_some (map f xs) = Some ys \<Longrightarrow> (\<And>x y. f x = Some y \<Longrightarrow> f y = Some y) \<Longrightarrow> all_some (map f ys) = Some ys"
proof (induction xs arbitrary: ys)
  case (Cons x xs)
  then show ?case by (cases "f x") auto
qed auto

lemma all_some_length: "all_some (map f xs) = Some ys \<Longrightarrow> length ys = length xs"
proof (induction xs arbitrary: ys)
  case (Cons x xs)
  then show ?case by (cases "f x") auto
qed auto

lemma validate_insight_again:
  assumes "validate_insight_configuration c = Some c'"
  shows "validate_insight_configuration c' = Some c'"
proof -
  from assms obtain ds where "all_some (map validate_dataset (ic_datasets c)) = Some ds" "c' = c\<lparr> ic_datasets := ds \<rparr>"
    by (auto simp: validate_insight_configuration_def split: option.splits if_splits)
  with all_some_again [OF this(1) validate_dataset_again] all_some_length [OF this(1)] assms show ?thesis
    by (auto simp: validate_insight_configuration_def split: option.splits if_splits)
qed

text \<open>
  C37: what a validated request stores is well-formed: the row of a new dashboard satisfies every CHECK constraint of
  its table, its insight configuration is complete for the type of the dashboard, and validating the stored values
  again accepts them unchanged.
\<close>
theorem validated_dashboard_well_formed:
  assumes "validate_dashboard_create p = Some p'"
  shows "dashboard_checks (new_dashboard ctx b u p') \<and> validate_dashboard_create p' = Some p'
     \<and> null_or (validate_insight_configuration_for_type (dc_dashboard_type p')) (dc_insight_configuration p')"
proof -
  from assms obtain t c where v: "valid_title (dc_title p) = Some t"
    "validate_dashboard_configuration (dc_configuration p) = Some c"
    by (auto simp: validate_dashboard_create_def split: option.splits)
  note t = valid_title_Some [OF v(1)] and c = validated_configuration_same [OF v(2)]
  show ?thesis
  proof (cases "dc_insight_configuration p")
    case None
    with assms v t c show ?thesis
      by (auto simp: validate_dashboard_create_def dashboard_checks_def new_dashboard_def is_json_object_def)
  next
    case (Some i)
    with assms v obtain i' where i: "validate_insight_configuration i = Some i'"
      "validate_insight_configuration_for_type (dc_dashboard_type p) i'"
      "p' = p\<lparr> dc_title := t, dc_configuration := c, dc_insight_configuration := Some i' \<rparr>"
      by (auto simp: validate_dashboard_create_def split: option.splits if_splits)
    with Some v t c validate_insight_again [OF i(1)] show ?thesis
      by (simp add: validate_dashboard_create_def dashboard_checks_def new_dashboard_def is_json_object_def
        dump_insight_configuration_def)
  qed
qed

definition sample_create_request :: dashboard_create where
  "sample_create_request = \<lparr> dc_dashboard_type = OPERATIONAL_KPI, dc_title = '' Costs '', dc_configuration = [(''k'', JInt 1)],
     dc_insight_configuration = Some \<lparr> ic_version = 1, ic_goals = [REDUCE_EXPENSES], ic_datasets =
       [\<lparr> dm_processing_job_id = 9, dm_sheet_index = 0, dm_sheet_name = ''S'',
          dm_columns = [(PERIOD, ''month ''), (DEPARTMENT, ''dept''), (VENDOR, ''vendor''), (EXPENSES, ''amount'')] \<rparr>] \<rparr> \<rparr>"

theorem validated_dashboard_well_formed_witness:
  "\<exists>p'. validate_dashboard_create sample_create_request = Some p' \<and> dc_title p' = ''Costs''
     \<and> validate_dashboard_create p' = Some p'
     \<and> dashboard_checks (new_dashboard \<lparr> nd_id = 1, nd_created_at = 2, nd_updated_at = 2 \<rparr> 3 4 p')"
proof -
  have "map_option dc_title (validate_dashboard_create sample_create_request) = Some ''Costs''" by code_simp
  then obtain p' where p: "validate_dashboard_create sample_create_request = Some p'" "dc_title p' = ''Costs''" by auto
  from validated_dashboard_well_formed [OF p(1)] p show ?thesis by blast
qed

end
