(* ===== verification/Dashboard_PDF.thy ===== *)
theory Dashboard_PDF
  imports Dashboards Insight_Payload
begin

text \<open>
  \<open>app/services/dashboard_pdf.py\<close>: the HTML document of a snapshot and its export as PDF.  A document is a list
  of code points.  What WeasyPrint makes of a document, the preparation of its native libraries and \<open>isoformat\<close>
  are arguments.
\<close>

type_synonym document = "nat list"

definition codes :: "string \<Rightarrow> document" where
  "codes s = map of_char s"

definition text_lines :: "string list \<Rightarrow> document" where
  "text_lines ls = codes (join_with [CHR 0x0A] ls)"

datatype pdf_error = DashboardPDFDashboardNotFoundError | DashboardPDFSnapshotNotFoundError
  | DashboardPDFRendererError | DashboardPDFRendererUnavailableError | PayloadAttributeError

definition DASHBOARD_PDF_MAX_METRIC_ROWS :: nat where "DASHBOARD_PDF_MAX_METRIC_ROWS = 500"

fun DASHBOARD_TYPE_LABELS :: "dashboard_type \<Rightarrow> string" where
  "DASHBOARD_TYPE_LABELS EXECUTIVE_SUMMARY = ''Executive Summary''"
| "DASHBOARD_TYPE_LABELS FINANCIAL_PERFORMANCE = ''Financial Performance''"
| "DASHBOARD_TYPE_LABELS OPERATIONAL_KPI = ''Operational KPI''"

primrec industry_value :: "industry \<Rightarrow> string" where
  "industry_value GENERAL = ''General''"
| "industry_value FINANCE_BANKING = ''Finance & Banking''"
| "industry_value INVESTMENT_MANAGEMENT = ''Investment Management''"
| "industry_value INSURANCE = ''Insurance''"
| "industry_value ACCOUNTING = ''Accounting''"
| "industry_value AGRICULTURE = ''Agriculture''"
| "industry_value MEDIA_ENTERTAINMENT = ''Media & Entertainment''"
| "industry_value HEALTHCARE = ''Healthcare''"
| "industry_value TRANSPORTATION = ''Transportation''"
| "industry_value MANUFACTURING = ''Manufacturing''"
| "industry_value CONSTRUCTION = ''Construction''"
| "industry_value CONSULTANT = ''Consultant''"
| "industry_value TECHNOLOGY = ''Technology''"
| "industry_value GOVERNMENT = ''Government''"
| "industry_value MARKETING = ''Marketing''"
| "industry_value OTHER = ''Other''"

section \<open>Values\<close>

text \<open>\<open>html.escape(s, quote=True)\<close>.\<close>

definition html_escape_char :: "char \<Rightarrow> string" where
  "html_escape_char c =
     (if c = CHR ''&'' then ''&amp;''
      else if c = CHR ''<'' then ''&lt;''
      else if c = CHR ''>'' then ''&gt;''
      else if c = CHR 0x22 then ''&quot;''
      else if c = CHR 0x27 then ''&#x27;''
      else [c])"

definition html_escape :: "string \<Rightarrow> string" where
  "html_escape s = concat (map html_escape_char s)"

text \<open>\<open>_escape\<close>: an em dash for \<open>None\<close>.\<close>

definition escape_value :: "json \<Rightarrow> document" where
  "escape_value j = (if j = JNull then [8212] else codes (html_escape (py_str j)))"

text \<open>\<open>json.dumps\<close> with sorted keys and the separators \<open>(",", ": ")\<close>; \<open>None\<close> is its \<open>ValueError\<close>.\<close>

fun json_spaced :: "json \<Rightarrow> string option" where
  "json_spaced (JList xs) =
     map_option (\<lambda>rs. ''['' @ join_with '','' rs @ '']'') (all_some (map json_spaced xs))"
| "json_spaced (JDict kvs) =
     map_option (\<lambda>rs. ''{'' @ join_with '',''
         (map (\<lambda>(k, r). json_text_string k @ '': '' @ r) (sort_key fst rs)) @ ''}'')
       (all_some (map (\<lambda>(k, v). map_option (\<lambda>r. (k, r)) (json_spaced v)) kvs))"
| "json_spaced j = json_render j"

definition json_display :: "json \<Rightarrow> pdf_error + document" where
  "json_display j =
     (case json_spaced j of
        None \<Rightarrow> Inl DashboardPDFRendererError | Some s \<Rightarrow> Inr (escape_value (JStr s)))"

definition as_dict :: "json \<Rightarrow> pdf_error + stripe_object" where
  "as_dict j = (case j of JDict kvs \<Rightarrow> Inr kvs | _ \<Rightarrow> Inl DashboardPDFRendererError)"

definition as_list :: "json \<Rightarrow> pdf_error + json list" where
  "as_list j = (case j of JList xs \<Rightarrow> Inr xs | _ \<Rightarrow> Inl DashboardPDFRendererError)"

definition industry_text :: "industry option \<Rightarrow> string" where
  "industry_text i = (case i of None \<Rightarrow> ''Not specified'' | Some x \<Rightarrow> industry_value x)"

section \<open>The file name\<close>

definition slug_char :: "char \<Rightarrow> bool" where
  "slug_char c \<longleftrightarrow> (CHR ''a'' \<le> c \<and> c \<le> CHR ''z'') \<or> (CHR ''0'' \<le> c \<and> c \<le> CHR ''9'')"

text \<open>\<open>re.sub("[^a-z0-9]+", "-", s)\<close>; \<open>dashed\<close> says that the previous character was replaced.\<close>

fun slug_text :: "bool \<Rightarrow> string \<Rightarrow> string" where
  "slug_text dashed [] = []"
| "slug_text dashed (c # cs) =
     (if slug_char c then c # slug_text False cs
      else if dashed then slug_text True cs else CHR ''-'' # slug_text True cs)"

definition strip_dashes :: "string \<Rightarrow> string" where
  "strip_dashes s = rev (dropWhile (\<lambda>c. c = CHR ''-'') (rev (dropWhile (\<lambda>c. c = CHR ''-'') s)))"

definition dashboard_pdf_filename :: "string \<Rightarrow> uuid \<Rightarrow> int \<Rightarrow> string" where
  "dashboard_pdf_filename title i version =
     (let slug = take 80 (strip_dashes (slug_text False (py_lower (py_strip title))))
      in (if slug = [] then ''dashboard-'' @ uuid_str i else slug) @ ''-v'' @ int_str version @ ''.pdf'')"

section \<open>The rows of the tables\<close>

definition no_configuration_row :: document where
  \<open>no_configuration_row =
     codes ''<tr><td colspan="2" class="muted">No dashboard configuration was stored.</td></tr>''\<close>

definition configuration_row :: "string \<times> json \<Rightarrow> pdf_error + document" where
  "configuration_row item =
     and_then (json_display (snd item)) (\<lambda>shown.
       Inr (codes ''<tr><th>'' @ escape_value (JStr (fst item)) @ codes ''</th><td>'' @ shown @ codes ''</td></tr>''))"

definition configuration_rows :: "stripe_object \<Rightarrow> pdf_error + document" where
  "configuration_rows configuration =
     (if configuration = [] then Inr no_configuration_row
      else and_then (map_result configuration_row (sort_key fst configuration)) (\<lambda>rows. Inr (concat rows)))"

definition no_source_row :: document where
  \<open>no_source_row = codes ''<tr><td colspan="4" class="muted">No report sources were recorded.</td></tr>''\<close>

definition source_row :: "nat \<times> json \<Rightarrow> pdf_error + document" where
  "source_row item =
     and_then (as_dict (snd item)) (\<lambda>source.
       Inr (codes ''<tr><td>'' @ codes (dec_str (fst item)) @ codes ''</td><td>''
         @ escape_value (get ''filename'' source) @ codes ''</td><td>''
         @ escape_value (get ''record_count'' source) @ codes ''</td><td>''
         @ escape_value (get ''sheet_count'' source) @ codes ''</td></tr>''))"

definition source_rows :: "json list \<Rightarrow> pdf_error + document" where
  "source_rows sources =
     (if sources = [] then Inr no_source_row
      else and_then (map_result source_row (enumerate 1 sources)) (\<lambda>rows. Inr (concat rows)))"

text \<open>The rows collected so far and the number of omitted ones pass through the loops.\<close>

definition metric_row :: "json \<Rightarrow> json \<Rightarrow> stripe_object \<Rightarrow> stripe_object \<Rightarrow> document" where
  "metric_row filename sheet_name column numeric =
     codes ''<tr><td>'' @ escape_value filename @ codes ''</td><td>'' @ escape_value sheet_name
     @ codes ''</td><td>'' @ escape_value (get ''name'' column)
     @ codes ''</td><td>'' @ escape_value (get ''count'' numeric)
     @ codes ''</td><td>'' @ escape_value (get ''sum_decimal'' numeric)
     @ codes ''</td><td>'' @ escape_value (get ''average_decimal'' numeric)
     @ codes ''</td><td>'' @ escape_value (get ''min_decimal'' numeric)
     @ codes ''</td><td>'' @ escape_value (get ''max_decimal'' numeric) @ codes ''</td></tr>''"

type_synonym metric_state = "document list \<times> nat"

definition add_metric_column :: "json \<Rightarrow> json \<Rightarrow> json \<Rightarrow> metric_state \<Rightarrow> pdf_error + metric_state" where
  "add_metric_column filename sheet_name raw_column state =
     and_then (as_dict raw_column) (\<lambda>column.
       if get ''numeric'' column = JNull then Inr state
       else and_then (as_dict (get ''numeric'' column)) (\<lambda>numeric.
         case state of (rows, omitted) \<Rightarrow>
           if DASHBOARD_PDF_MAX_METRIC_ROWS \<le> length rows then Inr (rows, omitted + 1)
           else Inr (rows @ [metric_row filename sheet_name column numeric], omitted)))"

definition add_metric_sheet :: "json \<Rightarrow> json \<Rightarrow> metric_state \<Rightarrow> pdf_error + metric_state" where
  "add_metric_sheet filename raw_sheet state =
     and_then (as_dict raw_sheet) (\<lambda>sheet.
     and_then (as_list (get ''columns'' sheet)) (\<lambda>columns.
       fold_result (add_metric_column filename (get_default ''sheet_name'' (JStr ''Sheet'') sheet)) columns state))"

definition add_metric_source :: "json \<Rightarrow> metric_state \<Rightarrow> pdf_error + metric_state" where
  "add_metric_source raw_source state =
     and_then (as_dict raw_source) (\<lambda>source.
     and_then (as_dict (get ''aggregate'' source)) (\<lambda>aggregate.
     and_then (as_list (get ''sheets'' aggregate)) (\<lambda>sheets.
       fold_result (add_metric_sheet (get_default ''filename'' (JStr ''Report'') source)) sheets state)))"

definition no_metric_row :: document where
  \<open>no_metric_row = codes (''<tr><td colspan="8" class="muted">'' @ ''No numeric aggregate columns were available ''
     @ ''in this snapshot.'' @ ''</td></tr>'')\<close>

definition metric_rows :: "json list \<Rightarrow> pdf_error + document \<times> nat" where
  "metric_rows sources =
     and_then (fold_result add_metric_source sources ([], 0)) (\<lambda>(rows, omitted).
       Inr (if rows = [] then no_metric_row else concat rows, omitted))"

definition omitted_note :: "nat \<Rightarrow> document" where
  \<open>omitted_note n =
     (if n = 0 then []
      else codes ''<div class="notice">'' @ codes (dec_str n) @ codes '' additional numeric columns ''
        @ codes ''were omitted from this PDF to keep the export bounded.'' @ codes ''</div>'')\<close>

section \<open>The document\<close>

definition pdf_style_page :: "string list" where
  \<open>pdf_style_page =
     [''@page {'', ''    size: A4;'', ''    margin: 16mm 14mm 18mm;'', ''}'', '''', ''* {'',
      ''    box-sizing: border-box;'', ''}'', '''', ''body {'', ''    margin: 0;'',
      ''    font-family: Arial, "Segoe UI", sans-serif;'', ''    color: #151513;'', ''    font-size: 10px;'',
      ''    line-height: 1.45;'', ''}'', '''', ''h1 {'', ''    margin: 0;'', ''    font-size: 25px;'',
      ''    line-height: 1.15;'', ''}'', '''', ''h2 {'', ''    margin: 20px 0 8px;'', ''    font-size: 15px;'',
      ''    color: #0f172a;'', ''}'', '''', ''.brand {'', ''    color: #2563eb;'', ''    font-size: 11px;'',
      ''    font-weight: 700;'', ''    letter-spacing: 0.08em;'', ''    text-transform: uppercase;'', ''}'',
      '''', ''.subtitle {'', ''    margin-top: 5px;'', ''    color: #575855;'', ''    font-size: 12px;'', ''}'',
      '''', ''.meta {'', ''    margin-top: 14px;'', ''    padding: 10px 12px;'', ''    background: #f8fafc;'',
      ''    border: 1px solid #e5e7eb;'', ''    border-radius: 6px;'', ''}'', '''', ''.meta-grid {'',
      ''    width: 100%;'', ''    border-collapse: collapse;'', ''}'', '''', ''.meta-grid td {'',
      ''    padding: 3px 8px 3px 0;'', ''    vertical-align: top;'', ''}'', '''', ''.meta-label {'',
      ''    color: #575855;'', ''    font-weight: 700;'', ''    white-space: nowrap;'', ''}'', '''',
      ''.cards {'', ''    width: 100%;'', ''    border-collapse: separate;'', ''    border-spacing: 6px;'',
      ''    margin-left: -6px;'', ''    margin-right: -6px;'', ''}'', '''']\<close>

definition pdf_style_parts :: "string list" where
  \<open>pdf_style_parts =
     [''.card {'', ''    width: 33.333%;'', ''    padding: 11px;'', ''    border: 1px solid #dbe4f4;'',
      ''    background: #fafafa;'', ''    vertical-align: top;'', ''}'', '''', ''.card-label {'',
      ''    color: #575855;'', ''    font-size: 9px;'', ''    text-transform: uppercase;'', ''}'', '''',
      ''.card-value {'', ''    margin-top: 3px;'', ''    font-size: 19px;'', ''    font-weight: 700;'',
      ''    color: #0f172a;'', ''}'', '''', ''table.data {'', ''    width: 100%;'',
      ''    border-collapse: collapse;'', ''    table-layout: auto;'', ''}'', '''', ''table.data th,'',
      ''table.data td {'', ''    border-bottom: 1px solid #e5e7eb;'', ''    padding: 5px 6px;'',
      ''    text-align: left;'', ''    vertical-align: top;'', ''    overflow-wrap: anywhere;'', ''}'', '''',
      ''table.data thead th {'', ''    background: #e9effd;'', ''    color: #102a63;'',
      ''    font-weight: 700;'', ''}'', '''', ''table.configuration th {'', ''    width: 25%;'',
      ''    color: #575855;'', ''}'', '''', ''.hash {'', ''    font-family: monospace;'',
      ''    font-size: 8px;'', ''    overflow-wrap: anywhere;'', ''}'', '''', ''.muted {'',
      ''    color: #858585;'', ''}'', '''', ''.notice {'', ''    margin-top: 8px;'', ''    padding: 7px 9px;'',
      ''    background: #fff7ed;'', ''    border: 1px solid #fed7aa;'', ''}'', '''', ''.footer {'',
      ''    margin-top: 22px;'', ''    padding-top: 9px;'', ''    border-top: 1px solid #e5e7eb;'',
      ''    color: #858585;'', ''    font-size: 8px;'', ''}'', '''', ''.no-break {'',
      ''    break-inside: avoid;'', ''}'']\<close>

definition pdf_document ::
  "(time \<Rightarrow> string) \<Rightarrow> dashboard_snapshot \<Rightarrow> string \<Rightarrow> industry option \<Rightarrow> stripe_object \<Rightarrow> string \<Rightarrow> dashboard_type
   \<Rightarrow> document \<Rightarrow> document \<Rightarrow> document \<Rightarrow> document \<Rightarrow> document" where
  \<open>pdf_document isoformat s name ind payload title t config_rows source_table metrics note =
     text_lines ([''<!doctype html>'', ''<html lang="en">'', ''<head>'', ''<meta charset="utf-8">'', ''<style>'']
       @ pdf_style_page @ pdf_style_parts @
       [''</style>'', ''</head>'', '''', ''<body>'', '''', ''<div class="brand">Spike Technology</div>'',
        ''<h1>''])
   @ escape_value (JStr title)
   @ text_lines
       [''</h1>'', ''<div class="subtitle">'']
   @ escape_value (JStr (DASHBOARD_TYPE_LABELS t))
   @ text_lines
       [''</div>'', '''', ''<div class="meta">'', ''<table class="meta-grid">'', ''<tr>'',
        ''<td class="meta-label">Business</td>'', ''<td>'']
   @ escape_value (JStr name)
   @ text_lines
       [''</td>'', ''<td class="meta-label">Industry</td>'', ''<td>'']
   @ escape_value (JStr (industry_text ind))
   @ text_lines
       [''</td>'', ''</tr>'', '''', ''<tr>'', ''<td class="meta-label">Snapshot version</td>'', ''<td>'']
   @ codes (int_str (ds_version s))
   @ text_lines
       [''</td>'', ''<td class="meta-label">Snapshot created</td>'', ''<td>'']
   @ escape_value (JStr (isoformat (ds_created_at s)))
   @ text_lines
       [''</td>'', ''</tr>'', '''', ''<tr>'', ''<td class="meta-label">Dashboard ID</td>'', ''<td>'']
   @ escape_value (JStr (uuid_str (ds_dashboard_id s)))
   @ text_lines
       [''</td>'', ''<td class="meta-label">Schema version</td>'', ''<td>'']
   @ codes (int_str (ds_schema_version s))
   @ text_lines
       [''</td>'', ''</tr>'', '''', ''<tr>'', ''<td class="meta-label">Content hash</td>'',
        ''<td colspan="3" class="hash">'']
   @ escape_value (JStr (ds_content_hash s))
   @ text_lines
       [''</td>'', ''</tr>'', ''</table>'', ''</div>'', '''', ''<h2>Snapshot overview</h2>'', '''',
        ''<table class="cards">'', ''<tr>'', ''<td class="card">'',
        ''<div class="card-label">Report sources</div>'', ''<div class="card-value">'']
   @ escape_value (get ''source_count'' payload)
   @ text_lines
       [''</div>'', ''</td>'', '''', ''<td class="card">'', ''<div class="card-label">Records</div>'',
        ''<div class="card-value">'']
   @ escape_value (get ''record_count'' payload)
   @ text_lines
       [''</div>'', ''</td>'', '''', ''<td class="card">'', ''<div class="card-label">Sheets</div>'',
        ''<div class="card-value">'']
   @ escape_value (get ''sheet_count'' payload)
   @ text_lines
       [''</div>'', ''</td>'', ''</tr>'', ''</table>'', '''', ''<div class="no-break">'',
        ''<h2>Dashboard configuration</h2>'', '''', ''<table class="data configuration">'', ''<tbody>'', '''']
   @ config_rows
   @ text_lines
       ['''', ''</tbody>'', ''</table>'', ''</div>'', '''', ''<h2>Report sources</h2>'', '''',
        ''<table class="data">'', ''<thead>'', ''<tr>'', ''<th>#</th>'', ''<th>File</th>'',
        ''<th>Records</th>'', ''<th>Sheets</th>'', ''</tr>'', ''</thead>'', ''<tbody>'', '''']
   @ source_table
   @ text_lines
       ['''', ''</tbody>'', ''</table>'', '''', ''<h2>Numeric aggregates</h2>'', '''', ''<table class="data">'',
        ''<thead>'', ''<tr>'', ''<th>Source</th>'', ''<th>Sheet</th>'', ''<th>Column</th>'', ''<th>Count</th>'',
        ''<th>Sum</th>'', ''<th>Average</th>'', ''<th>Min</th>'', ''<th>Max</th>'', ''</tr>'', ''</thead>'',
        ''<tbody>'', '''']
   @ metrics
   @ text_lines
       ['''', ''</tbody>'', ''</table>'', '''', '''']
   @ note
   @ text_lines
       ['''', '''', ''<div class="footer">'', ''This report is rendered from immutable dashboard snapshot'',
        ''version '']
   @ codes (int_str (ds_version s))
   @ text_lines
       [''. It does not re-read or re-parse the'', ''original uploaded report during export.'', ''</div>'',
        '''', ''</body>'', ''</html>'', '''']\<close>

definition build_dashboard_pdf_html ::
  "(time \<Rightarrow> string) \<Rightarrow> dashboard_snapshot \<Rightarrow> string \<Rightarrow> industry option \<Rightarrow> pdf_error + document" where
  "build_dashboard_pdf_html isoformat s name ind =
     and_then (as_dict (ds_payload s)) (\<lambda>payload.
       if get ''format'' payload \<noteq> JStr ''spike.dashboard-snapshot'' then Inl DashboardPDFRendererError
       else and_then (as_dict (get ''dashboard'' payload)) (\<lambda>dashboard.
         and_then (as_dict (get ''configuration'' dashboard)) (\<lambda>configuration.
         and_then (as_list (get ''sources'' payload)) (\<lambda>sources.
           case find (\<lambda>t. get ''type'' dashboard = JStr (dashboard_type_value t)) all_dashboard_types of
             None \<Rightarrow> Inl DashboardPDFRendererError
           | Some t \<Rightarrow>
             (case get ''title'' dashboard of
                JStr title \<Rightarrow>
                  if py_strip title = [] then Inl DashboardPDFRendererError
                  else and_then (metric_rows sources) (\<lambda>(metrics, omitted).
                    and_then (configuration_rows configuration) (\<lambda>config_rows.
                    and_then (source_rows sources) (\<lambda>source_table.
                      Inr (pdf_document isoformat s name ind payload title t config_rows source_table metrics
                            (omitted_note omitted)))))
              | _ \<Rightarrow> Inl DashboardPDFRendererError)))))"

section \<open>Rendering and export\<close>

text \<open>
  \<open>runtime\<close> is the preparation of the native libraries and the import of WeasyPrint, \<open>write_pdf\<close> its rendering;
  \<open>None\<close> is an exception.
\<close>

definition is_pdf :: "string \<Rightarrow> bool" where
  "is_pdf content = has_prefix ''%PDF-'' content"

definition weasyprint_render ::
  "unit option \<Rightarrow> (document \<Rightarrow> string option) \<Rightarrow> (time \<Rightarrow> string) \<Rightarrow> dashboard_snapshot \<Rightarrow> string \<Rightarrow> industry option
   \<Rightarrow> pdf_error + string" where
  "weasyprint_render runtime write_pdf isoformat s name ind =
     (case runtime of
        None \<Rightarrow> Inl DashboardPDFRendererUnavailableError
      | Some _ \<Rightarrow>
          and_then (build_dashboard_pdf_html isoformat s name ind) (\<lambda>document.
            case write_pdf document of
              None \<Rightarrow> Inl DashboardPDFRendererError
            | Some content \<Rightarrow> if \<not> is_pdf content then Inl DashboardPDFRendererError else Inr content))"

record pdf_export =
  pdf_content :: string
  pdf_filename :: string
  pdf_snapshot_version :: int
  pdf_snapshot_content_hash :: string

definition export_latest ::
  "(dashboard_snapshot \<Rightarrow> string \<Rightarrow> industry option \<Rightarrow> pdf_error + string) \<Rightarrow> db \<Rightarrow> uuid \<Rightarrow> uuid \<Rightarrow> string
   \<Rightarrow> industry option \<Rightarrow> pdf_error + pdf_export" where
  "export_latest render d b i name ind =
     (case dashboard_by_id d b i of
        None \<Rightarrow> Inl DashboardPDFDashboardNotFoundError
      | Some _ \<Rightarrow>
        (case latest_snapshot d b i of
           None \<Rightarrow> Inl DashboardPDFSnapshotNotFoundError
         | Some s \<Rightarrow>
             and_then (render s name ind) (\<lambda>content.
               if \<not> is_pdf content then Inl DashboardPDFRendererError
               else case ds_payload s of
                 JDict payload \<Rightarrow>
                   and_then (as_dict (get ''dashboard'' payload)) (\<lambda>dashboard.
                     case get ''title'' dashboard of
                       JStr title \<Rightarrow> Inr \<lparr> pdf_content = content,
                         pdf_filename = dashboard_pdf_filename title i (ds_version s),
                         pdf_snapshot_version = ds_version s, pdf_snapshot_content_hash = ds_content_hash s \<rparr>
                     | _ \<Rightarrow> Inl DashboardPDFRendererError)
               | _ \<Rightarrow> Inl PayloadAttributeError)))"

end
