(* ===== verification/Dashboard_Reads.thy ===== *)
theory Dashboard_Reads
  imports Dashboards
begin

text \<open>
  The response models of \<open>app/schemas/dashboard.py\<close>: which rows and payloads pydantic accepts for the answers of the
  dashboard routes.
\<close>

section \<open>Fields and models of pydantic\<close>

text \<open>
  A type of a field is the set of JSON values that it accepts.  \<open>rp_int\<close> is the conversion of a value to \<open>int\<close>
  in pydantic's lax mode, \<open>rp_uuid\<close> what it takes for a \<open>UUID\<close>, and \<open>rp_insight_configuration\<close> the conversion of a
  stored insight configuration to its types, after which its validators run.
\<close>

record read_packages =
  rp_int :: "json \<Rightarrow> int option"
  rp_uuid :: "json \<Rightarrow> bool"
  rp_insight_configuration :: "json \<Rightarrow> insight_configuration option"

definition accepts_str :: "json \<Rightarrow> bool" where
  "accepts_str j = (case j of JStr _ \<Rightarrow> True | _ \<Rightarrow> False)"

definition accepts_bool :: "json \<Rightarrow> bool" where
  "accepts_bool j = (case j of JBool _ \<Rightarrow> True | _ \<Rightarrow> False)"

definition accepts_int :: "read_packages \<Rightarrow> json \<Rightarrow> bool" where
  "accepts_int pk j \<longleftrightarrow> rp_int pk j \<noteq> None"

definition accepts_int_from :: "read_packages \<Rightarrow> int \<Rightarrow> json \<Rightarrow> bool" where
  "accepts_int_from pk low j = (case rp_int pk j of None \<Rightarrow> False | Some n \<Rightarrow> low \<le> n)"

definition accepts_one_of :: "string list \<Rightarrow> json \<Rightarrow> bool" where
  "accepts_one_of allowed j = (case j of JStr s \<Rightarrow> s \<in> set allowed | _ \<Rightarrow> False)"

definition or_null :: "(json \<Rightarrow> bool) \<Rightarrow> json \<Rightarrow> bool" where
  "or_null p j \<longleftrightarrow> j = JNull \<or> p j"

definition accepts_list :: "(json \<Rightarrow> bool) \<Rightarrow> json \<Rightarrow> bool" where
  "accepts_list p j = (case j of JList xs \<Rightarrow> list_all p xs | _ \<Rightarrow> False)"

definition accepts_dict :: "(json \<Rightarrow> bool) \<Rightarrow> json \<Rightarrow> bool" where
  "accepts_dict p j = (case j of JDict kvs \<Rightarrow> list_all (\<lambda>(_, v). p v) kvs | _ \<Rightarrow> False)"

text \<open>The fields of a model: name, whether it is required, and its type.  \<open>forbid\<close> is \<open>extra="forbid"\<close>.\<close>

type_synonym model_field = "string \<times> bool \<times> (json \<Rightarrow> bool)"

definition accepts_model :: "bool \<Rightarrow> model_field list \<Rightarrow> json \<Rightarrow> bool" where
  "accepts_model forbid spec j =
     (case j of
        JDict kvs \<Rightarrow>
          (forbid \<longrightarrow> list_all (\<lambda>(k, _). k \<in> set (map fst spec)) kvs)
        \<and> list_all (\<lambda>(k, required, p). case map_of kvs k of None \<Rightarrow> \<not> required | Some v \<Rightarrow> p v) spec
      | _ \<Rightarrow> False)"

abbreviation dashboard_type_field :: "json \<Rightarrow> bool" where
  "dashboard_type_field \<equiv> accepts_one_of (map dashboard_type_value all_dashboard_types)"

abbreviation insight_field_field :: "json \<Rightarrow> bool" where
  "insight_field_field \<equiv> accepts_one_of (map field_value all_fields)"

abbreviation goal_field :: "json \<Rightarrow> bool" where
  "goal_field \<equiv> accepts_one_of (map goal_value all_goals)"

section \<open>The contract and the schema of a source\<close>

definition goal_contract_read :: "json \<Rightarrow> bool" where
  "goal_contract_read = accepts_model False [(''key'', True, goal_field), (''label'', True, accepts_str)]"

definition insight_field_contract_read :: "json \<Rightarrow> bool" where
  "insight_field_contract_read = accepts_model False
     [(''key'', True, insight_field_field), (''label'', True, accepts_str),
      (''value_kind'', True, accepts_one_of [''dimension'', ''currency'', ''percent'', ''text'', ''number'']),
      (''required'', True, accepts_bool)]"

definition type_contract_read :: "json \<Rightarrow> bool" where
  "type_contract_read = accepts_model False
     [(''dashboard_type'', True, dashboard_type_field), (''title'', True, accepts_str),
      (''description'', True, accepts_str), (''recommended_reports'', True, accepts_list accepts_str),
      (''fields'', True, accepts_list insight_field_contract_read),
      (''required_dataset_field_groups'', True, accepts_list (accepts_list insight_field_field))]"

definition insight_contract_read :: "read_packages \<Rightarrow> json \<Rightarrow> bool" where
  "insight_contract_read pk = accepts_model False
     [(''version'', False, (\<lambda>j. j = JInt 1)), (''max_goals'', False, accepts_int pk),
      (''max_datasets'', False, accepts_int pk), (''numeric_fields_require_period'', True, accepts_bool),
      (''required_numeric_fields_share_periods'', True, accepts_bool),
      (''outflow_rows_require_dimensions'', True, accepts_bool),
      (''reject_overlapping_measure_periods'', True, accepts_bool),
      (''goals'', True, accepts_list goal_contract_read),
      (''dashboard_types'', True, accepts_list type_contract_read)]"

definition source_column_read :: "read_packages \<Rightarrow> json \<Rightarrow> bool" where
  "source_column_read pk = accepts_model False
     [(''name'', True, accepts_str), (''source_name'', True, or_null accepts_str),
      (''generated'', True, accepts_bool), (''null_count'', True, accepts_int pk),
      (''non_null_count'', True, accepts_int pk), (''type_counts'', True, accepts_dict (accepts_int pk))]"

definition source_sheet_read :: "read_packages \<Rightarrow> json \<Rightarrow> bool" where
  "source_sheet_read pk = accepts_model False
     [(''sheet_index'', True, accepts_int pk), (''sheet_name'', True, accepts_str),
      (''record_count'', True, accepts_int pk), (''columns'', True, accepts_list (source_column_read pk))]"

definition source_schema_read :: "read_packages \<Rightarrow> source_schema \<Rightarrow> bool" where
  "source_schema_read pk s \<longleftrightarrow> sch_record_count s \<noteq> None \<and> sch_sheet_count s \<noteq> None
     \<and> list_all (source_sheet_read pk) (sch_sheets s)"

section \<open>The parts of an insight\<close>

definition metric_read :: "json \<Rightarrow> bool" where
  "metric_read = accepts_model True
     [(''key'', True, accepts_str), (''label'', True, accepts_str), (''unit'', True, accepts_str),
      (''value_decimal'', True, or_null accepts_str),
      (''availability'', True, accepts_one_of [''available'', ''unavailable'']),
      (''calculation'', True, accepts_str), (''source_fields'', True, accepts_list insight_field_field)]"

definition point_read :: "json \<Rightarrow> bool" where
  "point_read = accepts_model True
     [(''label'', True, accepts_str), (''value_decimal'', True, or_null accepts_str)]"

definition named_series_read :: "json \<Rightarrow> bool" where
  "named_series_read = accepts_model True
     [(''key'', True, accepts_str), (''label'', True, accepts_str), (''points'', True, accepts_list point_read)]"

definition series_read :: "json \<Rightarrow> bool" where
  "series_read = accepts_model True
     [(''key'', True, accepts_str), (''label'', True, accepts_str), (''unit'', True, accepts_str),
      (''dimension'', True, insight_field_field), (''series_dimension'', False, or_null insight_field_field),
      (''calculation'', True, accepts_str), (''source_fields'', True, accepts_list insight_field_field),
      (''points'', False, accepts_list point_read), (''series'', False, accepts_list named_series_read)]"

definition breakdown_item_read :: "json \<Rightarrow> bool" where
  "breakdown_item_read = accepts_model True
     [(''label'', True, accepts_str), (''value_decimal'', True, or_null accepts_str),
      (''share_percent_decimal'', False, or_null accepts_str)]"

definition breakdown_read :: "json \<Rightarrow> bool" where
  "breakdown_read = accepts_model True
     [(''key'', True, accepts_str), (''label'', True, accepts_str), (''unit'', True, accepts_str),
      (''dimension'', False, or_null insight_field_field), (''calculation'', True, accepts_str),
      (''source_fields'', True, accepts_list insight_field_field),
      (''items'', True, accepts_list breakdown_item_read)]"

definition spend_driver_row_read :: "json \<Rightarrow> bool" where
  "spend_driver_row_read = accepts_model True
     [(''label'', True, accepts_str), (''value_decimal'', True, or_null accepts_str),
      (''share_percent_decimal'', False, or_null accepts_str)]"

definition variance_row_read :: "json \<Rightarrow> bool" where
  "variance_row_read = accepts_model True
     [(''label'', True, accepts_str), (''current_value_decimal'', True, accepts_str),
      (''prior_value_decimal'', True, or_null accepts_str), (''variance_decimal'', True, or_null accepts_str),
      (''variance_percent_decimal'', True, or_null accepts_str)]"

definition table_read :: "json \<Rightarrow> bool" where
  "table_read = accepts_model True
     [(''key'', True, accepts_str), (''label'', True, accepts_str), (''unit'', True, accepts_str),
      (''calculation'', True, accepts_str), (''source_fields'', True, accepts_list insight_field_field),
      (''current_period'', False, or_null accepts_str), (''prior_period'', False, or_null accepts_str),
      (''rows'', True, accepts_list (\<lambda>j. spend_driver_row_read j \<or> variance_row_read j))]"

definition status_update_read :: "json \<Rightarrow> bool" where
  "status_update_read = accepts_model True
     [(''period'', True, or_null accepts_str), (''title'', True, or_null accepts_str),
      (''detail'', True, or_null accepts_str), (''status'', True, or_null accepts_str),
      (''progress_decimal'', True, or_null accepts_str)]"

definition calculated_insight_read :: "json \<Rightarrow> bool" where
  "calculated_insight_read = accepts_model True
     [(''kpis'', True, accepts_list metric_read), (''series'', True, accepts_list series_read),
      (''breakdowns'', True, accepts_list breakdown_read), (''tables'', True, accepts_list table_read),
      (''status_updates'', False, accepts_list status_update_read)]"

definition anomaly_read :: "json \<Rightarrow> bool" where
  "anomaly_read = accepts_model True
     [(''key'', True, accepts_str), (''severity'', True, accepts_one_of [''attention'']),
      (''field'', True, insight_field_field), (''prior_period'', True, accepts_str),
      (''current_period'', True, accepts_str), (''change_percent_decimal'', True, accepts_str),
      (''message'', True, accepts_str)]"

definition risk_read :: "json \<Rightarrow> bool" where
  "risk_read = accepts_model True
     [(''key'', True, accepts_str), (''severity'', True, accepts_one_of [''attention'', ''high'']),
      (''message'', True, accepts_str), (''evidence'', True, accepts_dict (or_null accepts_str))]"

definition recommendation_read :: "read_packages \<Rightarrow> json \<Rightarrow> bool" where
  "recommendation_read pk = accepts_model True
     [(''key'', True, accepts_str), (''goal'', True, goal_field), (''message'', True, accepts_str),
      (''evidence'', True, accepts_dict (or_null (\<lambda>j. accepts_str j \<or> accepts_int pk j)))]"

definition signals_read :: "read_packages \<Rightarrow> json \<Rightarrow> bool" where
  "signals_read pk = accepts_model True
     [(''anomalies'', True, accepts_list anomaly_read), (''risks'', True, accepts_list risk_read),
      (''recommendations'', True, accepts_list (recommendation_read pk))]"

definition explainability_read :: "json \<Rightarrow> bool" where
  "explainability_read = accepts_model True
     [(''calculated_sections'', True, accepts_list accepts_str),
      (''ai_generated_sections'', True, accepts_list accepts_str), (''rule'', True, accepts_str)]"

definition insight_read :: "read_packages \<Rightarrow> json \<Rightarrow> bool" where
  "insight_read pk = accepts_model True
     [(''contract_version'', False, (\<lambda>j. j = JInt 1)), (''calculation_version'', False, (\<lambda>j. j = JInt 1)),
      (''dashboard_type'', True, dashboard_type_field), (''goals'', True, accepts_list goal_field),
      (''mapped_row_count'', True, accepts_int_from pk 1), (''calculated'', True, calculated_insight_read),
      (''signals'', True, signals_read pk), (''explainability'', True, explainability_read)]"

section \<open>Dashboards and snapshots\<close>

definition insight_configuration_read :: "read_packages \<Rightarrow> json \<Rightarrow> bool" where
  "insight_configuration_read pk j \<longleftrightarrow>
     Option.bind (rp_insight_configuration pk j) validate_insight_configuration \<noteq> None"

definition dashboard_read :: "read_packages \<Rightarrow> dashboard \<Rightarrow> bool" where
  "dashboard_read pk x \<longleftrightarrow> is_json_object (dash_configuration x)
     \<and> null_or (insight_configuration_read pk) (dash_insight_configuration x)"

definition snapshot_definition_read :: "read_packages \<Rightarrow> json \<Rightarrow> bool" where
  "snapshot_definition_read pk = accepts_model True
     [(''id'', True, rp_uuid pk), (''type'', True, dashboard_type_field), (''title'', True, accepts_str),
      (''configuration'', True, is_json_object),
      (''insight_configuration'', False, or_null (insight_configuration_read pk))]"

definition snapshot_payload_read :: "read_packages \<Rightarrow> json \<Rightarrow> bool" where
  "snapshot_payload_read pk = accepts_model True
     [(''format'', True, accepts_one_of [''spike.dashboard-snapshot'']),
      (''schema_version'', False, (\<lambda>j. j = JInt 1)), (''dashboard'', True, snapshot_definition_read pk),
      (''source_count'', True, accepts_int_from pk 1), (''record_count'', True, accepts_int_from pk 0),
      (''sheet_count'', True, accepts_int_from pk 1), (''sources'', True, accepts_list is_json_object),
      (''insight'', False, or_null (insight_read pk))]"

definition snapshot_read :: "read_packages \<Rightarrow> dashboard_snapshot \<Rightarrow> bool" where
  "snapshot_read pk s \<longleftrightarrow> snapshot_payload_read pk (ds_payload s)"

end
