(* ===== verification/Read_Theorems.thy ===== *)
theory Read_Theorems
  imports Dashboard_Reads Snapshot_Theorems AI_Conversations
begin

text \<open>
  The response models accept what the services produce: the payload of every stored snapshot and the schema of every
  accepted source.
\<close>

text \<open>What the writers of the calculation produce is accepted by the models of the response.\<close>

lemmas accepts_defs = accepts_model_def accepts_str_def accepts_bool_def accepts_list_def accepts_dict_def
  accepts_one_of_def

lemma or_null_simps [simp]: "or_null p JNull" "p j \<Longrightarrow> or_null p j"
  by (simp_all add: or_null_def)

lemma decimal_json_read [simp]: "or_null accepts_str (decimal_json v)" "accepts_str (decimal_json (Some x))"
  by (cases v; simp add: decimal_json_def or_null_def accepts_str_def)+

lemma text_json_read [simp]: "or_null accepts_str (text_json v)"
  by (cases v; simp add: text_json_def or_null_def accepts_str_def)

lemma field_value_read [simp]: "insight_field_field (JStr (field_value f))"
  by (cases f) (simp_all add: accepts_one_of_def all_fields_def)

lemma period_field_read [simp]: "insight_field_field (JStr ''period'')"
  using field_value_read [of PERIOD] by simp

lemma all_fields_UNIV [simp]: "set all_fields = UNIV"
proof -
  have "f \<in> set all_fields" for f by (cases f) (simp_all add: all_fields_def)
  then show ?thesis by blast
qed

lemma fields_json_read [simp]: "accepts_list insight_field_field (fields_json fs)"
  by (simp add: fields_json_def accepts_list_def list_all_iff)

lemma goal_value_read [simp]: "goal_field (JStr (goal_value g))"
  by (cases g) (simp_all add: accepts_one_of_def all_goals_def)

lemma dashboard_type_read [simp]: "dashboard_type_field (JStr (dashboard_type_value t))"
  by (cases t) (simp_all add: accepts_one_of_def all_dashboard_types_def)

lemma accepts_str_JStr [simp]: "accepts_str (JStr s)"
  by (simp add: accepts_str_def)

lemma accepts_list_JList [simp]: "accepts_list p (JList xs) \<longleftrightarrow> list_all p xs"
  by (simp add: accepts_list_def)

lemma accepts_dict_JDict [simp]: "accepts_dict p (JDict kvs) \<longleftrightarrow> list_all (\<lambda>(_, v). p v) kvs"
  by (simp add: accepts_dict_def)

lemma metric_read [simp]: "metric_read (metric key label unit calculation fs v)"
  by (simp add: metric_def metric_read_def accepts_model_def accepts_one_of_def)

lemma point_read [simp]: "point_read (point label v)"
  by (simp add: point_def point_read_def accepts_model_def)

lemma period_points_read [simp]: "accepts_list point_read (period_points dates values)"
  by (simp add: period_points_def list_all_iff)

lemma single_series_read [simp]: "series_read (single_series dates a key label f unit calculation)"
  by (simp add: single_series_def series_read_def accepts_model_def)

lemma named_series_read [simp]:
  "accepts_list point_read points \<Longrightarrow>
   named_series_read (JDict [(''key'', JStr key), (''label'', JStr label), (''points'', points)])"
  by (simp add: named_series_read_def accepts_model_def)

lemma cash_flow_forecast_series_read [simp]: "series_read (cash_flow_forecast_series dates a)"
  by (simp add: cash_flow_forecast_series_def series_read_def accepts_model_def Let_def list_all_iff)

lemma comparison_series_read [simp]: "series_read (comparison_series dates a key label fs unit)"
  by (simp add: comparison_series_def series_read_def accepts_model_def list_all_iff)

lemma dimension_series_read [simp]: "series_read (dimension_series dates enum a key label f d)"
  by (auto simp add: dimension_series_def series_read_def accepts_model_def Let_def list_all_iff
      intro!: named_series_read split: option.splits)

lemma breakdown_items_read [simp]:
  "list_all breakdown_item_read (breakdown_items values)" "list_all spend_driver_row_read (breakdown_items values)"
  by (auto simp: breakdown_items_def Let_def list_all_iff breakdown_item_read_def spend_driver_row_read_def
      accepts_model_def)

lemma breakdown_read [simp]: "breakdown_read (breakdown a key label f d)"
  by (simp add: breakdown_def breakdown_read_def accepts_model_def)

lemma variance_row_read [simp]: "variance_row_read (variance_row current prior item)"
  by (simp add: variance_row_def variance_row_read_def accepts_model_def Let_def split: option.splits)

lemma variance_table_read [simp]: "table_read (variance_table dates enum a f d)"
  by (simp add: variance_table_def table_read_def accepts_model_def Let_def list_all_iff)

lemma spend_drivers_read [simp]:
  "table_read (JDict
     [(''key'', JStr key), (''label'', JStr label), (''unit'', JStr unit), (''calculation'', JStr calculation),
      (''source_fields'', fields_json fs), (''rows'', json_get ''items'' (breakdown a k l f d))])"
  using breakdown_items_read(2)
  by (simp add: table_read_def accepts_model_def breakdown_def json_get_def get_def list_all_iff)

lemma status_update_read [simp]: "status_update_read (status_update_json u)"
  by (simp add: status_update_json_def status_update_read_def accepts_model_def)

lemma executive_read: "calculated_insight_read (executive_calculated dates a)"
  by (simp add: executive_calculated_def calculated_insight_read_def accepts_model_def Let_def)

lemma financial_read: "calculated_insight_read (financial_calculated dates enum a)"
proof -
  have [simp]: "breakdown_read (JDict
     [(''key'', JStr key), (''label'', JStr label), (''unit'', JStr unit), (''calculation'', JStr calculation),
      (''source_fields'', fields_json fs), (''items'', JList
        [JDict [(''label'', JStr l), (''value_decimal'', decimal_json v)],
         JDict [(''label'', JStr l'), (''value_decimal'', decimal_json v')]])])" for key label unit calculation fs l v l' v'
    by (simp add: breakdown_read_def breakdown_item_read_def accepts_model_def)
  show ?thesis
    by (simp add: financial_calculated_def calculated_insight_read_def accepts_model_def Let_def)
qed

lemma operational_read: "calculated_insight_read (operational_calculated dates enum a)"
  by (simp add: operational_calculated_def calculated_insight_read_def accepts_model_def Let_def list_all_iff)

lemma calculated_sections_read [simp]: "calculated_insight_read (calculated_sections dates enum a)"
  by (cases "ia_type a") (simp_all add: calculated_sections_def executive_read financial_read operational_read)

lemma severity_read [simp]: "accepts_one_of [''attention''] (JStr ''attention'')"
  by (simp add: accepts_one_of_def)

lemma period_change_read:
  assumes "x \<in> set (period_change f values prior current)"
  shows "anomaly_read (snd x)"
proof (cases "ratio_percent (decimal_minus (amount_at values current) (amount_at values prior))
    (dec_abs (amount_at values prior))")
  case None
  with assms show ?thesis by (simp add: period_change_def)
next
  case (Some change)
  with assms show ?thesis
    by (simp add: period_change_def anomaly_read_def accepts_model_def split: if_splits)
qed

lemma set_sort_key_descending [simp]: "set (sort_key_descending key xs) = set xs"
  by (simp add: sort_key_descending_def)

lemma anomalies_read [simp]: "list_all anomaly_read (anomalies dates a)"
  by (auto simp: anomalies_def Let_def list_all_iff dest!: in_set_takeD dest: period_change_read [of "(p, j)" for p j, simplified])

lemma risks_read [simp]: "list_all risk_read (risks a)"
  by (simp add: risks_def outflow_risk_def budget_risk_def concentration_risk_def Let_def risk_read_def
      accepts_model_def accepts_one_of_def split: option.splits prod.splits if_splits)

definition evidence_value :: "json \<Rightarrow> bool" where
  "evidence_value v \<longleftrightarrow> or_null accepts_str v \<or> (\<exists>n. v = JInt n)"

lemma evidence_value_simps [simp]: "evidence_value (decimal_json v)" "evidence_value (text_json t)"
  "evidence_value (JStr s)" "evidence_value (JInt n)"
  by (simp_all add: evidence_value_def)

definition evidence_read :: "(string \<times> json) list \<Rightarrow> bool" where
  "evidence_read kvs \<longleftrightarrow> list_all (\<lambda>(_, v). evidence_value v) kvs"

lemma evidence_read_simps [simp]:
  "evidence_read []" "evidence_read ((k, v) # kvs) \<longleftrightarrow> evidence_value v \<and> evidence_read kvs"
  "evidence_read (kvs @ kvs') \<longleftrightarrow> evidence_read kvs \<and> evidence_read kvs'"
  by (simp_all add: evidence_read_def)

lemma top_evidence_read [simp]: "evidence_read (top_evidence a greatest)"
  by (simp add: top_evidence_def Let_def split: option.split prod.split)

lemma advice_read [simp]: "evidence_read (snd (advice dates a greatest goal))"
  by (cases goal) (simp_all add: cash_flow_advice_def reduction_advice_def budget_advice_def revenue_advice_def
      profitability_advice_def forecasting_advice_def Let_def split: option.split prod.split)

lemma recommendation_read:
  assumes "\<And>n. rp_int pk (JInt n) = Some n" and "evidence_read evidence"
  shows "recommendation_read pk (JDict [(''key'', JStr key), (''goal'', JStr (goal_value goal)),
    (''message'', JStr message), (''evidence'', JDict evidence)])"
  using assms by (auto simp: recommendation_read_def accepts_model_def evidence_read_def evidence_value_def
      or_null_def list_all_iff accepts_int_def)

lemma recommendations_read:
  assumes "\<And>n. rp_int pk (JInt n) = Some n"
  shows "list_all (recommendation_read pk) (recommendations dates a)"
proof -
  have "recommendation_read pk (case advice dates a greatest goal of (message, evidence) \<Rightarrow> JDict
      [(''key'', JStr key), (''goal'', JStr (goal_value goal)), (''message'', JStr message),
       (''evidence'', JDict evidence)])" for greatest goal key
    using recommendation_read [OF assms, of "snd (advice dates a greatest goal)"] by (simp add: case_prod_beta)
  then show ?thesis unfolding recommendations_def Let_def list_all_iff by (simp del: append.simps)
qed

lemma explainability_read [simp]: "explainability_read explainability"
  by (simp add: explainability_def explainability_read_def accepts_model_def)

lemma render_insight_read:
  assumes "render_insight dates enum a = Inr j" and "\<And>n. rp_int pk (JInt n) = Some n"
  shows "insight_read pk j"
proof -
  have "ia_mapped_row_count a \<noteq> 0" using assms(1) by (auto simp: render_insight_def split: if_splits)
  with assms show ?thesis
    by (auto simp: render_insight_def insight_read_def signals_read_def accepts_model_def accepts_int_from_def
        recommendations_read list_all_iff [where P = goal_field] DASHBOARD_INSIGHT_CONFIGURATION_VERSION_def DASHBOARD_INSIGHT_CALCULATION_VERSION_def
        split: if_splits option.splits)
qed

section \<open>Stored snapshots\<close>

lemma source_payloads_read:
  "map_result source_payload sources = Inr payloads \<Longrightarrow> list_all is_json_object payloads"
  by (induction sources arbitrary: payloads)
    (auto simp: source_payload_def Let_def and_then_Inr_iff is_json_object_def split: option.splits if_splits)

text \<open>The payload that the payloads of the sources give.\<close>

definition payload_of ::
  "uuid \<Rightarrow> dashboard_type \<Rightarrow> string \<Rightarrow> json \<Rightarrow> json option \<Rightarrow> json option \<Rightarrow> source_artifact list \<Rightarrow> json list \<Rightarrow> json" where
  "payload_of i t title configuration ic insight sources payloads =
     JDict ([(''format'', JStr DASHBOARD_SNAPSHOT_FORMAT),
       (''schema_version'', JInt DASHBOARD_SNAPSHOT_SCHEMA_VERSION),
       (''dashboard'', JDict ([(''id'', JStr (uuid_str i)), (''type'', JStr (dashboard_type_value t)),
          (''title'', JStr title), (''configuration'', configuration)]
          @ (case ic of None \<Rightarrow> [] | Some c \<Rightarrow> [(''insight_configuration'', c)]))),
       (''source_count'', json_nat (length sources)),
       (''record_count'', JInt (sum_list (map (\<lambda>s. or_zero (record_count (sa_job s))) sources))),
       (''sheet_count'', JInt (sum_list (map (\<lambda>s. or_zero (sheet_count (sa_job s))) sources))),
       (''sources'', JList payloads)] @ (case insight of None \<Rightarrow> [] | Some x \<Rightarrow> [(''insight'', x)]))"

lemma bounded_rendering:
  "(case c of None \<Rightarrow> Inl e | Some t \<Rightarrow> if B t then Inl e' else Inr p) = Inr q \<Longrightarrow> q = p \<and> c \<noteq> None"
  by (cases c) (simp_all split: if_split_asm)

lemma built_payload:
  assumes "build_dashboard_snapshot_payload i t title configuration ic insight sources = Inr payload"
  obtains payloads where "map_result source_payload sources = Inr payloads"
    "payload = payload_of i t title configuration ic insight sources payloads" "canonical_json payload \<noteq> None"
proof -
  from assms obtain payloads where payloads: "map_result source_payload sources = Inr payloads"
    and rest: "(case canonical_json (payload_of i t title configuration ic insight sources payloads) of
        None \<Rightarrow> Inl DashboardSnapshotArtifactError
      | Some text \<Rightarrow>
          if DASHBOARD_MAX_SNAPSHOT_PAYLOAD_BYTES < utf8_length text then Inl DashboardSnapshotArtifactError
          else Inr (payload_of i t title configuration ic insight sources payloads)) = Inr payload"
    unfolding build_dashboard_snapshot_payload_def Let_def and_then_Inr_iff payload_of_def by (elim exE conjE)
  from bounded_rendering [OF rest] have "payload = payload_of i t title configuration ic insight sources payloads"
    "canonical_json payload \<noteq> None" by simp_all
  with payloads show thesis by (rule that)
qed

lemma payload_read:
  assumes ints: "\<And>n. rp_int pk (JInt n) = Some n" and uuids: "\<And>i. rp_uuid pk (JStr (uuid_str i))"
    and built: "build_dashboard_snapshot_payload i t title configuration ic insight sources = Inr payload"
    and parts: "is_json_object configuration" "null_or (insight_configuration_read pk) ic"
      "null_or (insight_read pk) insight"
    and sources: "sources \<noteq> []" "list_all (\<lambda>s. 0 \<le> or_zero (record_count (sa_job s))) sources"
      "list_all (\<lambda>s. 1 \<le> or_zero (sheet_count (sa_job s))) sources"
  shows "snapshot_payload_read pk payload
    \<and> (json_get ''insight'' payload = (case insight of None \<Rightarrow> JNull | Some x \<Rightarrow> x))"
proof -
  have records: "0 \<le> sum_list (map (\<lambda>s. or_zero (record_count (sa_job s))) sources)"
    using sources(2) by (intro sum_list_nonneg) (auto simp: list_all_iff)
  have sheets: "1 \<le> sum_list (map (\<lambda>s. or_zero (sheet_count (sa_job s))) sources)"
  proof -
    have "sum_list (map (\<lambda>_. 1) sources) \<le> sum_list (map (\<lambda>s. or_zero (sheet_count (sa_job s))) sources)"
      using sources(3) by (intro sum_list_mono) (auto simp: list_all_iff)
    moreover have "1 \<le> sum_list (map (\<lambda>_. 1 :: int) sources)" using sources(1) by (cases sources) (simp_all add: sum_list_triv)
    ultimately show ?thesis by linarith
  qed
  have length: "1 \<le> int (length sources)" using sources(1) by (cases sources) simp_all
  obtain payloads where payloads: "map_result source_payload sources = Inr payloads"
    and payload: "payload = payload_of i t title configuration ic insight sources payloads"
    by (rule built_payload [OF built])
  have dashboard: "snapshot_definition_read pk (JDict ([(''id'', JStr (uuid_str i)),
      (''type'', JStr (dashboard_type_value t)), (''title'', JStr title), (''configuration'', configuration)]
      @ (case ic of None \<Rightarrow> [] | Some c \<Rightarrow> [(''insight_configuration'', c)])))"
    using parts(1,2) by (cases ic) (simp_all add: snapshot_definition_read_def accepts_model_def uuids or_null_def)
  have format: "accepts_one_of [''spike.dashboard-snapshot''] (JStr DASHBOARD_SNAPSHOT_FORMAT)"
    by (simp add: accepts_one_of_def DASHBOARD_SNAPSHOT_FORMAT_def)
  show ?thesis
    using parts(3) records sheets length dashboard format source_payloads_read [OF payloads]
    by (cases insight)
      (simp_all add: payload payload_of_def snapshot_payload_read_def accepts_model_def accepts_int_from_def ints json_nat_def
        DASHBOARD_SNAPSHOT_SCHEMA_VERSION_def json_get_def get_def or_null_def)
qed

lemma read_sources_jobs:
  "read_sources pk read js insight = Inr (artifacts, insight') \<Longrightarrow> map sa_job artifacts = js"
  by (induction js arbitrary: insight artifacts)
    (auto simp: and_then_Inr_iff read_source_artifact_def split: prod.splits)

lemma completed_counts:
  assumes "validate_completed_job j = Inr u"
  obtains n m where "record_count j = Some n" "0 \<le> n" "sheet_count j = Some m" "1 \<le> m"
proof -
  from assms have "\<not> (case record_count j of None \<Rightarrow> True | Some n \<Rightarrow> n < 0)"
    "\<not> (case sheet_count j of None \<Rightarrow> True | Some n \<Rightarrow> n \<le> 0)"
    by (simp_all add: validate_completed_job_def and_then_Inr_iff split: if_split_asm)
  then show thesis by (auto intro: that split: option.splits)
qed

lemma source_jobs_counts:
  assumes "source_jobs d b ids = Inr jobs"
  shows "\<forall>j \<in> set jobs. 0 \<le> or_zero (record_count j)" "\<forall>j \<in> set jobs. 1 \<le> or_zero (sheet_count j)"
    "length jobs = length ids"
proof -
  from assms obtain us where "map_result validate_completed_job jobs = Inr us"
    by (auto simp: source_jobs_def Let_def and_then_Inr_iff split: if_splits)
  then have completed: "\<exists>u. validate_completed_job j = Inr u" if "j \<in> set jobs" for j
    using that by (auto simp: map_result_Inr_iff list_all2_conv_all_nth in_set_conv_nth)
  show "\<forall>j \<in> set jobs. 0 \<le> or_zero (record_count j)" "\<forall>j \<in> set jobs. 1 \<le> or_zero (sheet_count j)"
    by (metis completed completed_counts or_zero_def option.simps(5))+
  show "length jobs = length ids" using source_jobs_Inr(1) [OF assms] by (simp add: list_all2_lengthD)
qed

lemma aggregate_keeps_insight:
  assumes "aggregate_normalized pk j profile content insight = Inr (aggregate, insight')"
  shows "insight' = None \<longleftrightarrow> insight = None"
proof -
  from assms obtain raw entries ag where
    folded: "fold_result (aggregate_line (ap_loads pk) (ap_order pk) (job_id j)) (content_lines raw)
      \<lparr> ag_sheets = map start_totals entries, ag_uncompressed = 0, ag_records = 0, ag_insight = insight \<rparr> = Inr ag"
    and "insight' = ag_insight ag"
    by (auto simp: aggregate_normalized_def and_then_Inr_iff split: if_splits option.splits)
  moreover have "ag_insight ag = None \<longleftrightarrow> insight = None"
    by (rule fold_result_invariant [OF folded, where P = "\<lambda>ag. ag_insight ag = None \<longleftrightarrow> insight = None"])
      (auto simp: aggregate_line_def observe_insight_def Let_def and_then_Inr_iff
        split: if_splits option.splits prod.splits sum.splits insight_error.splits)
  ultimately show ?thesis by simp
qed

lemma validate_keeps_insight:
  "validate_for_insight job profile insight = Inr insight' \<Longrightarrow> insight' = None \<longleftrightarrow> insight = None"
  by (auto simp: validate_for_insight_def split: option.split_asm sum.split_asm)

lemma read_source_insight:
  assumes "read_source_artifact pk read j insight = Inr (artifact, insight')"
  shows "insight' = None \<longleftrightarrow> insight = None"
proof -
  from assms obtain profile content insight1 aggregate where "validate_for_insight (job_id j) profile insight = Inr insight1"
    "aggregate_normalized pk j profile content insight1 = Inr (aggregate, insight')"
    unfolding read_source_artifact_def and_then_Inr_iff by auto
  from validate_keeps_insight [OF this(1)] aggregate_keeps_insight [OF this(2)] show ?thesis by simp
qed

lemma read_sources_insight:
  "read_sources pk read js insight = Inr (artifacts, insight') \<Longrightarrow> insight' = None \<longleftrightarrow> insight = None"
proof (induction js arbitrary: insight artifacts)
  case (Cons j js)
  then obtain artifact insight1 artifacts1 where r: "read_source_artifact pk read j insight = Inr (artifact, insight1)"
    "read_sources pk read js insight1 = Inr (artifacts1, insight')"
    by (auto simp: and_then_Inr_iff)
  from read_source_insight [OF r(1)] Cons.IH [OF r(2)] show ?case by simp
qed simp

lemma prepared_payload_read:
  assumes ints: "\<And>n. rp_int rp (JInt n) = Some n" and uuids: "\<And>i. rp_uuid rp (JStr (uuid_str i))"
    and conversion: "rp_insight_configuration rp = sp_parse_insight pk"
    and tables: "dashboard_table_ok d" and ids: "ids \<noteq> []"
    and prepared: "prepare_snapshot pk read d b i ids = Inr (x, jobs, payload)"
  shows "snapshot_payload_read rp payload
    \<and> (json_get ''insight'' payload = JNull \<longleftrightarrow> dash_insight_configuration x = None)"
proof -
  note p = prepare_snapshot_Inr [OF prepared]
  from prepared obtain start artifacts insight rendered where
    s: "start_insight (sp_parse_insight pk) x ids = Inr start"
    "read_sources (sp_artifacts pk) read jobs start = Inr (artifacts, insight)"
    "render_optional (sp_dates pk) (sp_enum pk) insight = Inr rendered"
    "build_dashboard_snapshot_payload i (dash_type x) (dash_title x) (dash_configuration x)
       (dash_insight_configuration x) rendered artifacts = Inr payload"
    by (auto simp: prepare_snapshot_def and_then_Inr_iff split: option.splits)
  have configuration: "is_json_object (dash_configuration x)"
    using tables p by (auto simp: dashboard_table_ok_def dashboard_checks_def list_all_iff dashboard_by_id_def
        dest: scope_one_SomeD)
  have stored: "null_or (insight_configuration_read rp) (dash_insight_configuration x)"
    using s(1) by (auto simp: start_insight_def insight_configuration_read_def conversion split: option.splits if_splits)
  have started: "start = None \<longleftrightarrow> dash_insight_configuration x = None"
    using s(1) by (auto simp: start_insight_def Let_def split: option.splits if_splits)
  have jobs: "map sa_job artifacts = jobs" by (rule read_sources_jobs [OF s(2)])
  have rendered: "null_or (insight_read rp) rendered" "rendered = None \<longleftrightarrow> dash_insight_configuration x = None"
    using s(3) read_sources_insight [OF s(2)] started render_insight_read [OF _ ints]
    by (auto simp: render_optional_def split: option.splits sum.splits)
  have "artifacts \<noteq> []" using jobs source_jobs_counts(3) [of d b ids jobs] p ids by auto
  moreover have "list_all (\<lambda>s. 0 \<le> or_zero (record_count (sa_job s))) artifacts"
    "list_all (\<lambda>s. 1 \<le> or_zero (sheet_count (sa_job s))) artifacts"
    using source_jobs_counts(1,2) [of d b ids jobs] p jobs by (auto simp: list_all_iff)
  ultimately have read: "snapshot_payload_read rp payload
      \<and> json_get ''insight'' payload = (case rendered of None \<Rightarrow> JNull | Some j \<Rightarrow> j)"
    by (intro payload_read [OF ints uuids s(4) configuration stored rendered(1)])
  have "j \<noteq> JNull" if "insight_read rp j" for j using that by (auto simp: insight_read_def accepts_model_def)
  with read rendered show ?thesis by (auto split: option.splits)
qed


section \<open>The schema of a source\<close>

lemma natural_of_read:
  assumes "\<And>n. rp_int rp (JInt n) = Some n" "natural_of j = Some k"
  shows "accepts_int rp j"
  using assms by (cases j) (auto simp: natural_of_def accepts_int_def)

lemma nonempty_text_read: "nonempty_text j = Some s \<Longrightarrow> accepts_str j"
  by (cases j) (simp_all add: nonempty_text_def)

lemma json_pick_read:
  "json_pick ks (JDict kvs) = JDict (map (\<lambda>k. (k, get k kvs)) ks)"
  by (simp add: json_pick_def json_get_def)

lemma profile_column_read:
  assumes ints: "\<And>n. rp_int rp (JInt n) = Some n" and column: "profile_column records position column = Some name"
  shows "source_column_read rp
    (json_pick [''name'', ''source_name'', ''generated'', ''null_count'', ''non_null_count'', ''type_counts''] column)"
proof -
  from column obtain nulls others where c: "nonempty_text (json_get ''name'' column) = Some name"
    "natural_of (json_get ''null_count'' column) = Some nulls"
    "natural_of (json_get ''non_null_count'' column) = Some others"
    "source_name_ok (json_get ''generated'' column) (json_get ''source_name'' column)"
    "type_counts_ok (json_get ''type_counts'' column) records nulls"
    by (auto simp: profile_column_def split: option.splits if_splits)
  have "accepts_bool (json_get ''generated'' column)" "or_null accepts_str (json_get ''source_name'' column)"
    using c(4) nonempty_text_read [of "json_get ''source_name'' column"]
    by (auto simp: source_name_ok_def accepts_bool_def or_null_def is_null_iff split: json.splits bool.splits)
  moreover have "accepts_dict (accepts_int rp) (json_get ''type_counts'' column)"
    using c(5) natural_of_read [OF ints]
    by (auto simp: type_counts_ok_def accepts_dict_def list_all_iff positive_count_def split: json.splits option.splits)
  ultimately show ?thesis
    using nonempty_text_read [OF c(1)] natural_of_read [OF ints c(2)] natural_of_read [OF ints c(3)]
    by (simp add: source_column_read_def accepts_model_def json_pick_def)
qed

lemma profile_columns_read:
  assumes "\<And>n. rp_int rp (JInt n) = Some n" "profile_columns records position columns = Some names"
  shows "list_all (source_column_read rp) (map (json_pick
    [''name'', ''source_name'', ''generated'', ''null_count'', ''non_null_count'', ''type_counts'']) columns)"
  using assms(2)
  by (induction columns arbitrary: position names)
    (auto simp: profile_column_read [OF assms(1)] split: option.splits)

lemma public_sheet_read:
  assumes ints: "\<And>n. rp_int rp (JInt n) = Some n" and sheet: "sheet_contract_entry sheet = Some entry"
  shows "source_sheet_read rp (public_sheet sheet)"
proof -
  from sheet obtain i name records columns names where s: "natural_of (json_get ''index'' sheet) = Some i"
    "nonempty_text (json_get ''name'' sheet) = Some name" "natural_of (json_get ''record_count'' sheet) = Some records"
    "json_get ''columns'' sheet = JList columns" "profile_columns records 0 columns = Some names"
    by (auto simp: sheet_contract_entry_def split: option.splits json.splits)
  then show ?thesis
    using natural_of_read [OF ints s(1)] natural_of_read [OF ints s(3)] nonempty_text_read [OF s(2)]
      profile_columns_read [OF ints s(5)]
    by (simp add: source_sheet_read_def public_sheet_def accepts_model_def json_items_def)
qed

lemma all_some_each: "all_some (map f xs) = Some ys \<Longrightarrow> x \<in> set xs \<Longrightarrow> \<exists>y. f x = Some y"
proof (induction xs arbitrary: ys)
  case (Cons a xs)
  then show ?case by (cases "f a") auto
qed simp

lemma source_schema_readable:
  assumes ints: "\<And>n. rp_int rp (JInt n) = Some n" and schema: "get_source_schema pk storage env d b i = (Inr s, d')"
  shows "source_schema_read rp s"
proof -
  from schema obtain read j sheets filename current where chain:
    "and_then (validate_completed_job j) (\<lambda>_.
     and_then (required_job_string result_storage_bucket j) (\<lambda>bucket.
     and_then (required_job_string profile_storage_key j) (\<lambda>key.
     and_then (required_job_string profile_storage_version_id j) (\<lambda>version.
     and_then (read_artifact read bucket key version REPORT_MAX_PROFILE_BYTES) (\<lambda>content.
     and_then (validate_profile (ap_loads pk) j content) (\<lambda>profile.
     case (nonempty_text (json_get ''filename'' (json_get ''source'' profile)), json_get ''sheets'' profile) of
       (Some filename, JList sheets) \<Rightarrow> Inr (filename, sheets)
     | _ \<Rightarrow> Inl DashboardSnapshotArtifactError)))))) = Inr (filename, sheets)"
    and s: "job_signature_of current = job_signature_of j" "sch_record_count s = record_count current"
      "sch_sheet_count s = sheet_count current" "sch_sheets s = map public_sheet sheets"
    by (auto simp: get_source_schema_def Let_def split: option.split_asm sum.split_asm if_split_asm)
  have sheets: "json_get ''sheets'' profile = JList sheets"
    if "(case (nonempty_text (json_get ''filename'' (json_get ''source'' profile)), json_get ''sheets'' profile) of
       (Some filename, JList sheets) \<Rightarrow> Inr (filename, sheets)
     | _ \<Rightarrow> Inl DashboardSnapshotArtifactError) = Inr (filename, sheets)" for profile
    using that by (auto split: option.split_asm json.split_asm)
  from chain obtain content profile where j: "validate_completed_job j = Inr ()"
    "validate_profile (ap_loads pk) j content = Inr profile" "json_get ''sheets'' profile = JList sheets"
    by (elim and_then_InrE) (drule sheets, auto)
  from j(2,3) obtain entries where "all_some (map sheet_contract_entry sheets) = Some entries"
    by (auto simp: validate_profile_def and_then_Inr_iff profile_sheet_contract_def split: option.splits if_splits)
  then have "\<forall>sheet \<in> set sheets. \<exists>entry. sheet_contract_entry sheet = Some entry"
    by (blast dest: all_some_each)
  then have "list_all (source_sheet_read rp) (sch_sheets s)"
    using public_sheet_read [OF ints] by (auto simp: s(4) list_all_iff)
  moreover obtain n m where "record_count j = Some n" "sheet_count j = Some m" by (rule completed_counts [OF j(1)])
  ultimately show ?thesis using s(1) by (simp add: source_schema_read_def s(2,3) job_signature_of_def)
qed

text \<open>A new snapshot has the payload of its preparation, and is the latest of its dashboard.\<close>

lemma materialized_new:
  assumes "materialize pk storage env ctx d b i u ids = (Inr m, d')" and "\<not> mat_replayed m"
  obtains read x jobs payload h current where "storage = Some read"
    "prepare_snapshot pk read d b i (sort_key uuid_str ids) = Inr (x, jobs, payload)"
    "dashboard_snapshot_content_hash (ap_sha256 (sp_artifacts pk)) payload = Some h"
    "add_snapshot ctx (env d) b i u (next_version (env d) b i) payload h current = (Inr m, d')"
    "mat_snapshot m = new_snapshot ctx b i u (next_version (env d) b i) payload h" "ids \<noteq> []"
proof -
  let ?sha = "ap_sha256 (sp_artifacts pk)" and ?ids = "sort_key uuid_str ids"
  from assms(1) obtain read x jobs payload h where f: "storage = Some read" "ids \<noteq> []"
    "prepare_snapshot pk read d b i ?ids = Inr (x, jobs, payload)" "dashboard_snapshot_content_hash ?sha payload = Some h"
    "materialize_locked ?sha ctx (env d) b x u payload h ?ids jobs = (Inr m, d')"
    by (auto simp: materialize_def Let_def split: option.splits sum.splits if_splits)
  have "dash_id x = i" using prepare_snapshot_Inr [OF f(3)] dashboard_by_id_id by blast
  with materialize_locked_cases [OF f(5)] obtain current where
    "store_snapshot ?sha ctx (env d) b i u payload h current = (Inr m, d')" by blast
  from store_snapshot_cases [OF this] assms(2)
  have a: "add_snapshot ctx (env d) b i u (next_version (env d) b i) payload h current = (Inr m, d')" by auto
  then have "mat_snapshot m = new_snapshot ctx b i u (next_version (env d) b i) payload h"
    by (auto elim: add_snapshot_Inr)
  with f a show thesis by (intro that)
qed

lemma snapshot_read_new:
  assumes ints: "\<And>n. rp_int rp (JInt n) = Some n" and uuids: "\<And>n. rp_uuid rp (JStr (uuid_str n))"
    and conversion: "rp_insight_configuration rp = sp_parse_insight pk"
    and tables: "dashboard_table_ok d"
    and new: "materialize pk storage env ctx d b i u ids = (Inr m, d')" "\<not> mat_replayed m"
  obtains x where "dashboard_by_id d b i = Some x" "snapshot_read rp (mat_snapshot m)"
    "json_get ''insight'' (ds_payload (mat_snapshot m)) = JNull \<longleftrightarrow> dash_insight_configuration x = None"
proof -
  from new obtain read x jobs payload h current where
    p: "prepare_snapshot pk read d b i (sort_key uuid_str ids) = Inr (x, jobs, payload)"
    and m: "mat_snapshot m = new_snapshot ctx b i u (next_version (env d) b i) payload h" and "ids \<noteq> []"
    by (rule materialized_new)
  then have "sort_key uuid_str ids \<noteq> []" by (metis length_0_conv length_sort)
  from prepared_payload_read [OF ints uuids conversion tables this p] prepare_snapshot_Inr [OF p] show thesis
    by (intro that [of x]) (simp_all add: m new_snapshot_def snapshot_read_def)
qed

text \<open>
  C38: a snapshot that a materialization stores is accepted by the response model that every route reads it with,
  and it can be the subject of an AI analysis exactly when its dashboard has an insight configuration.
\<close>

theorem stored_snapshot_readable:
  assumes "materialize pk storage env ctx d b i u ids = (Inr m, d')" "\<not> mat_replayed m" "dashboard_table_ok d"
    and "\<And>n. rp_int rp (JInt n) = Some n" "\<And>n. rp_uuid rp (JStr (uuid_str n))"
    and "rp_insight_configuration rp = sp_parse_insight pk"
  shows "snapshot_read rp (mat_snapshot m)
    \<and> (validate_analysis_snapshot (snapshot_payload_read rp) (mat_snapshot m)
       = (if \<exists>x. dashboard_by_id d b i = Some x \<and> dash_insight_configuration x \<noteq> None
          then Inr () else Inl AIConversationSourceNotReadyError))"
proof -
  obtain x where "dashboard_by_id d b i = Some x" "snapshot_read rp (mat_snapshot m)"
    "json_get ''insight'' (ds_payload (mat_snapshot m)) = JNull \<longleftrightarrow> dash_insight_configuration x = None"
    by (rule snapshot_read_new [OF assms(4-6) assms(3) assms(1,2)])
  then show ?thesis by (simp add: validate_analysis_snapshot_def snapshot_read_def)
qed

definition sample_reads :: read_packages where
  "sample_reads = \<lparr> rp_int = (\<lambda>j. case j of JInt n \<Rightarrow> Some n | _ \<Rightarrow> None), rp_uuid = accepts_str,
     rp_insight_configuration = (\<lambda>_. None) \<rparr>"

lemma sample_reads_laws: "rp_int sample_reads (JInt n) = Some n" "rp_uuid sample_reads (JStr (uuid_str i))"
  "rp_insight_configuration sample_reads = sp_parse_insight snapshot_sample_packages"
  by (simp_all add: sample_reads_def snapshot_sample_packages_def)

lemma sample_dashboards_ok: "dashboard_table_ok snapshot_sample_db"
  by (simp add: dashboard_table_ok_def snapshot_sample_db_def empty_db_def check_defs unique_on_def is_json_object_def
      null_or_def trimmed_length_between_def sql_trim_def Let_def DASHBOARD_TITLE_MAX_LENGTH_def)

theorem stored_snapshot_readable_witness:
  "\<exists>m d'. materialize snapshot_sample_packages (Some small_reader) (\<lambda>d. d) snapshot_sample_context snapshot_sample_db 1 100 5 [9]
      = (Inr m, d') \<and> snapshot_read sample_reads (mat_snapshot m)
    \<and> validate_analysis_snapshot (snapshot_payload_read sample_reads) (mat_snapshot m) = Inl AIConversationSourceNotReadyError"
proof -
  obtain payload where m: "materialize snapshot_sample_packages (Some small_reader) (\<lambda>d. d) snapshot_sample_context
      snapshot_sample_db 1 100 5 [9]
    = (Inr \<lparr> mat_snapshot = small_snapshot payload, mat_sources = [small_source], mat_replayed = False \<rparr>, stored_sample payload)"
    by (rule sample_materialized)
  have "dashboard_by_id snapshot_sample_db 1 100 = Some small_dashboard" "dash_insight_configuration small_dashboard = None"
    by (simp_all add: dashboard_by_id_def scope_one_def snapshot_sample_db_def small_dashboard_def)
  with stored_snapshot_readable [OF m _ sample_dashboards_ok sample_reads_laws] m show ?thesis by auto
qed

end
