(* ===== verification/PDF_Theorems.thy ===== *)
theory PDF_Theorems
  imports Dashboard_PDF Read_Theorems Json_Loads
begin

text \<open>
  The PDF export of a snapshot: the name of the file, the markup of the document, the bound on its rows, and that
  every stored snapshot has a document.
\<close>

section \<open>The file name\<close>

definition filename_char :: "char \<Rightarrow> bool" where
  "filename_char c \<longleftrightarrow> slug_char c \<or> c = CHR ''-'' \<or> c = CHR ''.''"

lemma slug_text_chars: "list_all (\<lambda>c. slug_char c \<or> c = CHR ''-'') (slug_text dashed s)"
  by (induction dashed s rule: slug_text.induct) simp_all

lemma strip_dashes_chars: "list_all P s \<Longrightarrow> list_all P (strip_dashes s)"
  by (auto simp: strip_dashes_def list_all_iff dest!: set_dropWhileD)

lemma strip_dashes_hd:
  assumes "strip_dashes s \<noteq> []"
  shows "hd (strip_dashes s) \<noteq> CHR ''-''"
proof -
  let ?dash = "\<lambda>c. c = CHR ''-''"
  define t where "t = dropWhile ?dash s"
  have stripped: "strip_dashes s = rev (dropWhile ?dash (rev t))" by (simp add: strip_dashes_def t_def)
  have split: "strip_dashes s @ rev (takeWhile ?dash (rev t)) = t"
    unfolding stripped by (metis takeWhile_dropWhile_id rev_append rev_rev_ident)
  with assms have "t \<noteq> []" by auto
  moreover have "hd (strip_dashes s) = hd t" using split assms by (metis hd_append2)
  ultimately show ?thesis using hd_dropWhile [of ?dash s] by (simp add: t_def)
qed

lemma digit_char_slug: "n < 16 \<Longrightarrow> slug_char (digit_char n)"
  by (simp add: slug_char_def less_eq_char_def of_char_digit_char)

lemma int_str_chars: "list_all filename_char (int_str z)"
proof -
  have "list_all slug_char (dec_str n)" for n
    by (induction n rule: dec_str.induct) (subst dec_str.simps, simp add: digit_char_slug)
  then show ?thesis by (auto simp: int_str_def filename_char_def list_all_iff)
qed

lemma uuid_str_chars: "list_all filename_char (uuid_str i)"
proof -
  have "list_all slug_char (hex_digits k n)" for k n
    by (induction k arbitrary: n) (simp_all add: digit_char_slug)
  then have "list_all slug_char (uuid_hex i)" by (simp add: uuid_hex_def)
  then show ?thesis
    by (auto simp: uuid_str_def Let_def filename_char_def list_all_iff dest: in_set_takeD in_set_dropD)
qed

lemma pdf_filename_safe:
  "list_all filename_char (dashboard_pdf_filename title i version)"
  "slug_char (hd (dashboard_pdf_filename title i version))"
  "length (dashboard_pdf_filename title i version) \<le> 86 + length (int_str version)"
proof -
  let ?slug = "take 80 (strip_dashes (slug_text False (py_lower (py_strip title))))"
  have chars: "list_all (\<lambda>c. slug_char c \<or> c = CHR ''-'') ?slug"
    using strip_dashes_chars [OF slug_text_chars] by (auto simp: list_all_iff dest: in_set_takeD)
  have first: "slug_char (hd ?slug)" if "?slug \<noteq> []"
    using that chars strip_dashes_hd [of "slug_text False (py_lower (py_strip title))"]
    by (cases "strip_dashes (slug_text False (py_lower (py_strip title)))") auto
  show "list_all filename_char (dashboard_pdf_filename title i version)"
    using chars int_str_chars [of version] uuid_str_chars [of i]
    by (auto simp: dashboard_pdf_filename_def Let_def filename_char_def slug_char_def list_all_iff less_eq_char_def)
  show "slug_char (hd (dashboard_pdf_filename title i version))"
    using first by (auto simp: dashboard_pdf_filename_def Let_def slug_char_def less_eq_char_def)
  show "length (dashboard_pdf_filename title i version) \<le> 86 + length (int_str version)"
    by (simp add: dashboard_pdf_filename_def Let_def)
qed

section \<open>The markup of a document\<close>

text \<open>The characters that HTML reads as markup: quotes and angle brackets.\<close>

definition markup :: "document \<Rightarrow> document" where
  "markup doc = filter (\<lambda>c. c \<in> {34, 39, 60, 62}) doc"

lemma markup_simps [simp]: "markup [] = []" "markup (xs @ ys) = markup xs @ markup ys"
  "markup (concat xss) = concat (map markup xss)"
  by (simp add: markup_def, simp add: markup_def) (induction xss, simp_all add: markup_def)

lemma markup_html_escape: "markup (codes (html_escape s)) = []"
proof (induction s)
  case (Cons c s)
  have "markup (codes (html_escape_char c)) = []"
  proof (cases "c \<in> {CHR ''&'', CHR ''<'', CHR ''>'', CHR 0x22, CHR 0x27}")
    case True
    then show ?thesis by (auto simp: html_escape_char_def codes_def markup_def)
  next
    case False
    have same: "c = d" if "(of_char c :: nat) = of_char d" for d using that by simp
    have "of_char c \<noteq> (34 :: nat)" "of_char c \<noteq> (39 :: nat)" "of_char c \<noteq> (60 :: nat)" "of_char c \<noteq> (62 :: nat)"
      using False same [of "CHR 0x22"] same [of "CHR 0x27"] same [of "CHR ''<''"] same [of "CHR ''>''"] by auto
    with False show ?thesis by (simp add: html_escape_char_def codes_def markup_def)
  qed
  with Cons show ?case by (simp add: html_escape_def codes_def markup_def)
qed (simp add: html_escape_def codes_def)

lemma markup_escape_value [simp]: "markup (escape_value j) = []"
  by (simp add: escape_value_def markup_html_escape) (simp add: markup_def)

lemma markup_filename_chars: "list_all filename_char s \<Longrightarrow> markup (codes s) = []"
  by (induction s) (auto simp: codes_def markup_def filename_char_def slug_char_def less_eq_char_def)

lemma markup_numbers [simp]: "markup (codes (int_str z)) = []" "markup (codes (dec_str n)) = []"
proof -
  show *: "markup (codes (int_str z)) = []" for z by (rule markup_filename_chars [OF int_str_chars])
  show "markup (codes (dec_str n)) = []" using * [of "int n"] by (simp add: int_str_def)
qed

lemma map_result_frame:
  assumes "map_result f xs = Inr rows" and "\<And>x r. f x = Inr r \<Longrightarrow> markup r = frame"
  shows "markup (concat rows) = concat (replicate (length xs) frame)"
  using assms by (induction xs arbitrary: rows) (auto simp: and_then_Inr_iff)

definition configuration_frame :: document where
  "configuration_frame = markup (codes ''<tr><th>'' @ codes ''</th><td>'' @ codes ''</td></tr>'')"

lemma configuration_row_markup: "configuration_row item = Inr r \<Longrightarrow> markup r = configuration_frame"
  by (auto simp: configuration_row_def json_display_def and_then_Inr_iff configuration_frame_def split: option.splits)

lemma configuration_rows_markup:
  assumes "configuration_rows c = Inr rows" "configuration_rows c' = Inr rows'" "length c = length c'"
  shows "markup rows = markup rows'"
  using assms map_result_frame [where f = configuration_row, OF _ configuration_row_markup]
  by (auto simp: configuration_rows_def and_then_Inr_iff simp del: markup_simps split: if_splits)

definition source_frame :: document where
  "source_frame = markup (codes ''<tr><td>'' @ codes ''</td><td>'' @ codes ''</td><td>'' @ codes ''</td><td>''
     @ codes ''</td></tr>'')"

lemma source_row_markup: "source_row item = Inr r \<Longrightarrow> markup r = source_frame"
  by (auto simp: source_row_def and_then_Inr_iff source_frame_def)

lemma source_rows_markup:
  assumes "source_rows c = Inr rows" "source_rows c' = Inr rows'" "length c = length c'"
  shows "markup rows = markup rows'"
  using assms map_result_frame [where f = source_row, OF _ source_row_markup]
  by (auto simp: source_rows_def and_then_Inr_iff simp del: markup_simps split: if_splits)

section \<open>The numeric columns\<close>

definition column_weight :: "json \<Rightarrow> nat" where
  "column_weight column = (if json_get ''numeric'' column = JNull then 0 else 1)"

definition sheet_weight :: "json \<Rightarrow> nat" where
  "sheet_weight sheet = sum_list (map column_weight (json_items (json_get ''columns'' sheet)))"

definition source_weight :: "json \<Rightarrow> nat" where
  "source_weight source = sum_list (map sheet_weight (json_items (json_get ''sheets'' (json_get ''aggregate'' source))))"

text \<open>The number of numeric columns of all sources.\<close>

definition numeric_columns :: "json list \<Rightarrow> nat" where
  "numeric_columns sources = sum_list (map source_weight sources)"

definition metric_frame :: document where
  "metric_frame = markup (codes ''<tr><td>'' @ codes ''</td><td>'' @ codes ''</td><td>'' @ codes ''</td><td>''
     @ codes ''</td><td>'' @ codes ''</td><td>'' @ codes ''</td><td>'' @ codes ''</td><td>'' @ codes ''</td></tr>'')"

text \<open>After \<open>n\<close> numeric columns, the first 500 have a row and the others are counted.\<close>

definition metric_state_ok :: "nat \<Rightarrow> metric_state \<Rightarrow> bool" where
  "metric_state_ok n state \<longleftrightarrow> length (fst state) = min DASHBOARD_PDF_MAX_METRIC_ROWS n
     \<and> snd state = n - DASHBOARD_PDF_MAX_METRIC_ROWS \<and> (\<forall>r \<in> set (fst state). markup r = metric_frame)"

lemma fold_result_weight:
  assumes "fold_result f xs s = Inr s'" "metric_state_ok n s"
    and "\<And>x s s' n. x \<in> set xs \<Longrightarrow> f x s = Inr s' \<Longrightarrow> metric_state_ok n s \<Longrightarrow> metric_state_ok (n + w x) s'"
  shows "metric_state_ok (n + sum_list (map w xs)) s'"
  using assms
proof (induction xs arbitrary: n s)
  case (Cons x xs)
  from Cons.prems(1) obtain t where t: "f x s = Inr t" "fold_result f xs t = Inr s'" by (auto simp: and_then_Inr_iff)
  have "metric_state_ok (n + w x) t" using Cons.prems(2,3) t(1) by simp
  from Cons.IH [OF t(2) this] Cons.prems(3) show ?case by (simp add: add.assoc)
qed simp

lemma as_dict_Inr [simp]: "as_dict j = Inr kvs \<longleftrightarrow> j = JDict kvs"
  by (cases j) (simp_all add: as_dict_def)

lemma as_list_Inr [simp]: "as_list j = Inr xs \<longleftrightarrow> j = JList xs"
  by (cases j) (simp_all add: as_list_def)

lemma json_get_JDict: "json_get k (JDict kvs) = get k kvs"
  by (simp add: json_get_def)

lemma metric_row_markup: "markup (metric_row filename sheet column numeric) = metric_frame"
  by (simp add: metric_row_def metric_frame_def)

lemma column_weight_step:
  assumes "add_metric_column filename sheet column s = Inr s'" "metric_state_ok n s"
  shows "metric_state_ok (n + column_weight column) s'"
proof -
  from assms(1) obtain kvs where kvs: "column = JDict kvs" by (auto simp: add_metric_column_def and_then_Inr_iff)
  show ?thesis
  proof (cases "get ''numeric'' kvs = JNull")
    case True
    with assms kvs show ?thesis by (simp add: add_metric_column_def column_weight_def json_get_JDict as_dict_def)
  next
    case False
    obtain rows omitted where s: "s = (rows, omitted)" by (cases s)
    from assms(1) False kvs obtain numeric where
      "s' = (if DASHBOARD_PDF_MAX_METRIC_ROWS \<le> length rows then (rows, omitted + 1)
        else (rows @ [metric_row filename sheet kvs numeric], omitted))"
      by (auto simp: add_metric_column_def and_then_Inr_iff s split: if_splits)
    with assms(2) False kvs show ?thesis
      by (auto simp: metric_state_ok_def column_weight_def json_get_JDict s metric_row_markup)
  qed
qed

lemma sheet_weight_step:
  assumes "add_metric_sheet filename sheet s = Inr s'" "metric_state_ok n s"
  shows "metric_state_ok (n + sheet_weight sheet) s'"
proof -
  from assms(1) obtain kvs columns where "sheet = JDict kvs" "get ''columns'' kvs = JList columns"
    "fold_result (add_metric_column filename (get_default ''sheet_name'' (JStr ''Sheet'') kvs)) columns s = Inr s'"
    by (auto simp: add_metric_sheet_def and_then_Inr_iff)
  with fold_result_weight [OF this(3) assms(2) column_weight_step] show ?thesis
    by (simp add: sheet_weight_def json_get_JDict json_items_def)
qed

lemma source_weight_step:
  assumes "add_metric_source source s = Inr s'" "metric_state_ok n s"
  shows "metric_state_ok (n + source_weight source) s'"
proof -
  from assms(1) obtain kvs aggregate sheets where "source = JDict kvs" "get ''aggregate'' kvs = JDict aggregate"
    "get ''sheets'' aggregate = JList sheets"
    "fold_result (add_metric_sheet (get_default ''filename'' (JStr ''Report'') kvs)) sheets s = Inr s'"
    by (auto simp: add_metric_source_def and_then_Inr_iff)
  with fold_result_weight [OF this(4) assms(2) sheet_weight_step] show ?thesis
    by (simp add: source_weight_def json_get_JDict json_items_def)
qed

lemma metric_rows_spec:
  assumes "metric_rows sources = Inr (doc, omitted)"
  shows "omitted = numeric_columns sources - DASHBOARD_PDF_MAX_METRIC_ROWS"
    and "\<exists>rows. length rows = min DASHBOARD_PDF_MAX_METRIC_ROWS (numeric_columns sources)
      \<and> doc = (if rows = [] then no_metric_row else concat rows) \<and> (\<forall>r \<in> set rows. markup r = metric_frame)"
proof -
  from assms obtain rows where rows: "fold_result add_metric_source sources ([], 0) = Inr (rows, omitted)"
    "doc = (if rows = [] then no_metric_row else concat rows)"
    by (auto simp: metric_rows_def and_then_Inr_iff)
  have "metric_state_ok 0 ([], 0)" by (simp add: metric_state_ok_def)
  from fold_result_weight [OF rows(1) this source_weight_step]
  have "metric_state_ok (numeric_columns sources) (rows, omitted)" by (simp add: numeric_columns_def)
  with rows(2) show "omitted = numeric_columns sources - DASHBOARD_PDF_MAX_METRIC_ROWS"
    "\<exists>rows. length rows = min DASHBOARD_PDF_MAX_METRIC_ROWS (numeric_columns sources)
      \<and> doc = (if rows = [] then no_metric_row else concat rows) \<and> (\<forall>r \<in> set rows. markup r = metric_frame)"
    by (auto simp: metric_state_ok_def)
qed

lemma metric_rows_markup:
  assumes "metric_rows a = Inr (doc, om)" "metric_rows b = Inr (doc', om')" "numeric_columns a = numeric_columns b"
  shows "markup doc = markup doc'" "om = om'"
proof -
  show "om = om'" using metric_rows_spec(1) [OF assms(1)] metric_rows_spec(1) [OF assms(2)] assms(3) by simp
  have frames: "concat (map markup rows) = concat (replicate (length rows) metric_frame)"
    if "\<forall>r \<in> set rows. markup r = metric_frame" for rows
    using that by (induction rows) simp_all
  obtain rows where r: "length rows = min DASHBOARD_PDF_MAX_METRIC_ROWS (numeric_columns a)"
    "doc = (if rows = [] then no_metric_row else concat rows)" "\<forall>r \<in> set rows. markup r = metric_frame"
    using metric_rows_spec(2) [OF assms(1)] by blast
  obtain rows' where r': "length rows' = min DASHBOARD_PDF_MAX_METRIC_ROWS (numeric_columns b)"
    "doc' = (if rows' = [] then no_metric_row else concat rows')" "\<forall>r \<in> set rows'. markup r = metric_frame"
    using metric_rows_spec(2) [OF assms(2)] by blast
  have length: "length rows = length rows'" using r(1) r'(1) assms(3) by simp
  then have "rows = [] \<longleftrightarrow> rows' = []" by auto
  with frames [OF r(3)] frames [OF r'(3)] length show "markup doc = markup doc'" by (simp add: r(2) r'(2))
qed

section \<open>Documents of the same shape have the same markup\<close>

definition document_shape :: "json \<Rightarrow> nat \<times> nat \<times> nat" where
  "document_shape payload =
     (case json_get ''configuration'' (json_get ''dashboard'' payload) of JDict kvs \<Rightarrow> length kvs | _ \<Rightarrow> 0,
      length (json_items (json_get ''sources'' payload)), numeric_columns (json_items (json_get ''sources'' payload)))"

lemma build_html_Inr:
  assumes "build_dashboard_pdf_html isoformat s name ind = Inr doc"
  obtains payload title t configuration sources config_rows source_table metrics omitted where
    "ds_payload s = JDict payload" "json_get ''configuration'' (json_get ''dashboard'' (JDict payload)) = JDict configuration"
    "get ''sources'' payload = JList sources" "configuration_rows configuration = Inr config_rows"
    "source_rows sources = Inr source_table" "metric_rows sources = Inr (metrics, omitted)"
    "doc = pdf_document isoformat s name ind payload title t config_rows source_table metrics (omitted_note omitted)"
proof -
  from assms obtain payload dashboard configuration sources where p: "ds_payload s = JDict payload"
    "get ''dashboard'' payload = JDict dashboard" "get ''configuration'' dashboard = JDict configuration"
    "get ''sources'' payload = JList sources"
    "(case find (\<lambda>t. get ''type'' dashboard = JStr (dashboard_type_value t)) all_dashboard_types of
        None \<Rightarrow> Inl DashboardPDFRendererError
      | Some t \<Rightarrow>
        (case get ''title'' dashboard of
           JStr title \<Rightarrow>
             if py_strip title = [] then Inl DashboardPDFRendererError
             else and_then (metric_rows sources) (\<lambda>(metrics, omitted).
               and_then (configuration_rows configuration) (\<lambda>config_rows.
               and_then (source_rows sources) (\<lambda>source_table.
                 Inr (pdf_document isoformat s name ind payload title t config_rows source_table metrics
                       (omitted_note omitted)))))
         | _ \<Rightarrow> Inl DashboardPDFRendererError)) = Inr doc"
    unfolding build_dashboard_pdf_html_def
    by (elim and_then_InrE) (simp split: if_split_asm, elim and_then_InrE, simp)
  from p(5) obtain t title where "get ''title'' dashboard = JStr title"
    and "and_then (metric_rows sources) (\<lambda>(metrics, omitted).
      and_then (configuration_rows configuration) (\<lambda>config_rows.
      and_then (source_rows sources) (\<lambda>source_table.
        Inr (pdf_document isoformat s name ind payload title t config_rows source_table metrics
              (omitted_note omitted))))) = Inr doc"
    by (auto split: option.split_asm json.split_asm if_split_asm)
  then obtain metrics omitted config_rows source_table where "metric_rows sources = Inr (metrics, omitted)"
    "configuration_rows configuration = Inr config_rows" "source_rows sources = Inr source_table"
    "doc = pdf_document isoformat s name ind payload title t config_rows source_table metrics (omitted_note omitted)"
    by (auto simp: and_then_Inr_iff)
  with p(1-4) that show thesis by (simp add: json_get_JDict)
qed

lemma pdf_document_markup:
  assumes "markup c = markup c'" "markup t = markup t'" "markup m = markup m'" "markup n = markup n'"
  shows "markup (pdf_document isoformat s name ind payload title ty c t m n)
    = markup (pdf_document isoformat' s' name' ind' payload' title' ty' c' t' m' n')"
  unfolding pdf_document_def markup_simps markup_escape_value markup_numbers assms by (rule refl)

text \<open>
  C40: The document of an export has a fixed structure. The quotes and angle brackets of two exports, in their order, are the
  same whenever the payloads have as many configuration entries, as many sources and as many numeric columns (the table of
  metrics stops at its 500th row, so there are finitely many): no title, name, header, configuration key or value of the
  stored data, whatever characters it has, adds a tag or an attribute to the document or ends one.\<close>

theorem document_markup_fixed:
  assumes "build_dashboard_pdf_html isoformat s name ind = Inr doc"
    and "build_dashboard_pdf_html isoformat s' name' ind' = Inr doc'"
    and "document_shape (ds_payload s) = document_shape (ds_payload s')"
  shows "markup doc = markup doc'"
proof -
  from assms(1) obtain payload title t configuration sources config_rows source_table metrics omitted where d:
    "ds_payload s = JDict payload" "json_get ''configuration'' (json_get ''dashboard'' (JDict payload)) = JDict configuration"
    "get ''sources'' payload = JList sources" "configuration_rows configuration = Inr config_rows"
    "source_rows sources = Inr source_table" "metric_rows sources = Inr (metrics, omitted)"
    "doc = pdf_document isoformat s name ind payload title t config_rows source_table metrics (omitted_note omitted)"
    by (rule build_html_Inr)
  from assms(2) obtain payload' title' t' configuration' sources' config_rows' source_table' metrics' omitted' where d':
    "ds_payload s' = JDict payload'" "json_get ''configuration'' (json_get ''dashboard'' (JDict payload')) = JDict configuration'"
    "get ''sources'' payload' = JList sources'" "configuration_rows configuration' = Inr config_rows'"
    "source_rows sources' = Inr source_table'" "metric_rows sources' = Inr (metrics', omitted')"
    "doc' = pdf_document isoformat s' name' ind' payload' title' t' config_rows' source_table' metrics' (omitted_note omitted')"
    by (rule build_html_Inr)
  have shape: "length configuration = length configuration'" "length sources = length sources'"
    "numeric_columns sources = numeric_columns sources'"
    using assms(3) d(1-3) d'(1-3) by (simp_all add: document_shape_def json_get_JDict json_items_def)
  show ?thesis
    unfolding d(7) d'(7)
    by (rule pdf_document_markup [OF configuration_rows_markup [OF d(4) d'(4) shape(1)]
        source_rows_markup [OF d(5) d'(5) shape(2)] metric_rows_markup(1) [OF d(6) d'(6) shape(3)]])
      (simp add: metric_rows_markup(2) [OF d(6) d'(6) shape(3)])
qed

section \<open>A stored snapshot has a document\<close>

definition succeeds :: "'e + 'a \<Rightarrow> bool" where
  "succeeds r \<longleftrightarrow> (\<exists>x. r = Inr x)"

lemma succeeds_simps [simp]: "succeeds (Inr x)" "\<not> succeeds (Inl e)"
  by (simp_all add: succeeds_def)

lemma and_then_total: "succeeds r \<Longrightarrow> (\<And>x. r = Inr x \<Longrightarrow> succeeds (f x)) \<Longrightarrow> succeeds (and_then r f)"
  by (auto simp: succeeds_def)

lemma fold_result_total: "(\<And>x s. x \<in> set xs \<Longrightarrow> succeeds (f x s)) \<Longrightarrow> succeeds (fold_result f xs s)"
  by (induction xs arbitrary: s) (auto intro: and_then_total)

lemma map_result_total: "(\<And>x. x \<in> set xs \<Longrightarrow> succeeds (f x)) \<Longrightarrow> succeeds (map_result f xs)"
  by (induction xs) (auto intro!: and_then_total)

lemma map_result_origin: "map_result f xs = Inr ys \<Longrightarrow> y \<in> set ys \<Longrightarrow> \<exists>x \<in> set xs. f x = Inr y"
  by (induction xs arbitrary: ys) (auto simp: and_then_Inr_iff)

lemma as_simps [simp]: "as_dict (JDict kvs) = Inr kvs" "as_list (JList xs) = Inr xs"
  by (simp_all add: as_dict_def as_list_def)

lemma add_column_total:
  assumes "get ''numeric'' kvs = JNull \<or> is_json_object (get ''numeric'' kvs)"
  shows "succeeds (add_metric_column filename sheet (JDict kvs) s)"
  using assms by (cases s) (auto simp: add_metric_column_def is_json_object_def split: json.splits)

lemma render_numeric_shape: "render_numeric n = JNull \<or> is_json_object (render_numeric n)"
  by (simp add: render_numeric_def is_json_object_def split: option.split)

lemma add_sheet_total: "succeeds (add_metric_sheet filename (render_totals g) s)"
proof -
  have "succeeds (add_metric_column filename sheet_name (JDict
      [(''name'', JStr name), (''non_null_count'', json_nat (ct_non_null c)),
       (''null_count'', json_nat (ct_null c)), (''numeric'', render_numeric (ct_numeric c))]) t)"
    for sheet_name name c t
    using render_numeric_shape [of "ct_numeric c"] by (intro add_column_total) (simp add: get_def)
  then show ?thesis
    by (simp add: add_metric_sheet_def render_totals_def get_def) (rule fold_result_total, auto)
qed

lemma add_source_total:
  assumes "source_payload source = Inr j" "sa_aggregate source = render_aggregate ag"
  shows "succeeds (add_metric_source j s)"
proof -
  from assms(1) obtain kvs where "j = JDict kvs" "get ''aggregate'' kvs = render_aggregate ag"
    using assms(2) by (auto simp: source_payload_def Let_def get_def split: option.splits if_splits)
  then show ?thesis
    by (simp add: add_metric_source_def render_aggregate_def get_def [of "''sheets''"])
      (rule fold_result_total, auto simp: add_sheet_total)
qed

lemma source_row_total: "is_json_object j \<Longrightarrow> succeeds (source_row (n, j))"
  by (auto simp: source_row_def is_json_object_def split: json.splits)

lemma json_spaced_renders: "json_render j \<noteq> None \<Longrightarrow> json_spaced j \<noteq> None"
proof (induction j rule: json_spaced.induct)
  case (1 xs)
  then show ?case by (auto simp: all_some_conv split: if_splits) (metis image_eqI not_None_eq)
next
  case (2 kvs)
  then show ?case by (force simp: all_some_conv split: if_splits prod.splits)
qed simp_all

lemma rendered_items:
  assumes "json_render (JDict kvs) \<noteq> None" "(k, v) \<in> set kvs"
  shows "json_render v \<noteq> None"
  using assms by (force simp: all_some_conv split: if_splits prod.splits)

lemma configuration_rows_total:
  assumes "json_render (JDict configuration) \<noteq> None"
  shows "succeeds (configuration_rows configuration)"
proof -
  have "succeeds (configuration_row item)" if item: "item \<in> set configuration" for item
  proof -
    obtain shown where "json_spaced (snd item) = Some shown"
      using item rendered_items [OF assms, of "fst item" "snd item"] json_spaced_renders [of "snd item"] by auto
    then show ?thesis by (simp add: configuration_row_def json_display_def)
  qed
  then have "succeeds (map_result configuration_row (sort_key fst configuration))"
    by (intro map_result_total) simp
  then show ?thesis by (auto simp: configuration_rows_def intro: and_then_total)
qed

lemma read_sources_aggregates:
  assumes "read_sources pk read js insight = Inr (artifacts, insight')" "source \<in> set artifacts"
  obtains ag where "sa_aggregate source = render_aggregate ag"
proof -
  have single: "\<exists>ag. sa_aggregate artifact = render_aggregate ag"
    if r: "read_source_artifact pk read j insight = Inr (artifact, insight1)" for j insight artifact insight1
  proof -
    from r obtain profile content insight2 aggregate where
      "aggregate_normalized pk j profile content insight2 = Inr (aggregate, insight1)"
      "artifact = \<lparr> sa_job = j, sa_profile = profile, sa_aggregate = aggregate \<rparr>"
      unfolding read_source_artifact_def and_then_Inr_iff by auto
    then show ?thesis by (auto simp: aggregate_normalized_def and_then_Inr_iff split: if_splits option.splits)
  qed
  have "\<exists>ag. sa_aggregate source = render_aggregate ag"
    using assms
  proof (induction js arbitrary: insight artifacts)
    case (Cons j js)
    then obtain artifact insight1 artifacts1 where r: "read_source_artifact pk read j insight = Inr (artifact, insight1)"
      "read_sources pk read js insight1 = Inr (artifacts1, insight')" "artifacts = artifact # artifacts1"
      by (auto simp: and_then_Inr_iff)
    show ?case
    proof (cases "source = artifact")
      case True
      with single [OF r(1)] show ?thesis by simp
    next
      case False
      with Cons.prems(2) r(3) show ?thesis by (intro Cons.IH [OF r(2)]) simp
    qed
  qed simp
  with that show thesis by blast
qed

lemma payload_document:
  assumes built: "build_dashboard_snapshot_payload i t title configuration ic insight sources = Inr payload"
    and parts: "is_json_object configuration" "py_strip title \<noteq> []"
    and aggregates: "\<And>source. source \<in> set sources \<Longrightarrow> \<exists>ag. sa_aggregate source = render_aggregate ag"
    and s: "ds_payload s = payload"
  shows "succeeds (build_dashboard_pdf_html isoformat s name ind)"
    and "\<exists>kvs dashboard. payload = JDict kvs \<and> get ''dashboard'' kvs = JDict dashboard \<and> get ''title'' dashboard = JStr title"
proof -
  obtain kvs where configuration: "configuration = JDict kvs"
    using parts(1) by (auto simp: is_json_object_def split: json.splits)
  obtain payloads where payloads: "map_result source_payload sources = Inr payloads"
    and payload: "payload = payload_of i t title configuration ic insight sources payloads"
    and renders: "canonical_json payload \<noteq> None"
    by (rule built_payload [OF built])
  define dashboard where "dashboard = [(''id'', JStr (uuid_str i)), (''type'', JStr (dashboard_type_value t)),
    (''title'', JStr title), (''configuration'', configuration)]
    @ (case ic of None \<Rightarrow> [] | Some c \<Rightarrow> [(''insight_configuration'', c)])"
  obtain items where items: "payload = JDict items" "get ''dashboard'' items = JDict dashboard"
    "get ''format'' items = JStr DASHBOARD_SNAPSHOT_FORMAT" "get ''sources'' items = JList payloads"
    "(''dashboard'', JDict dashboard) \<in> set items"
    using payload unfolding payload_of_def dashboard_def [symmetric]
    by (intro that, assumption) (simp_all add: get_def)
  have fields: "get ''title'' dashboard = JStr title" "get ''configuration'' dashboard = JDict kvs"
    "get ''type'' dashboard = JStr (dashboard_type_value t)" "(''configuration'', JDict kvs) \<in> set dashboard"
    by (simp_all add: dashboard_def get_def configuration)
  have "json_render (JDict dashboard) \<noteq> None"
    using rendered_items [OF _ items(5)] renders by (simp add: items(1) canonical_json_def)
  from rendered_items [OF this fields(4)] have "succeeds (configuration_rows kvs)" by (rule configuration_rows_total)
  moreover have payload_sources: "\<exists>source \<in> set sources. source_payload source = Inr j" if "j \<in> set payloads" for j
    by (rule map_result_origin [OF payloads that])
  then have "succeeds (metric_rows payloads)"
    using aggregates unfolding metric_rows_def
    by (intro and_then_total fold_result_total) (auto dest!: payload_sources intro: add_source_total)
  moreover have "succeeds (source_rows payloads)"
    using source_payloads_read [OF payloads]
    by (auto simp: source_rows_def list_all_iff in_set_enumerate_eq intro!: and_then_total map_result_total source_row_total)
  moreover have "find (\<lambda>t'. get ''type'' dashboard = JStr (dashboard_type_value t')) all_dashboard_types = Some t"
    by (cases t) (simp_all add: fields(3) all_dashboard_types_def)
  ultimately show "succeeds (build_dashboard_pdf_html isoformat s name ind)"
    using parts(2)
    by (auto simp: build_dashboard_pdf_html_def s items fields DASHBOARD_SNAPSHOT_FORMAT_def succeeds_def)
  show "\<exists>kvs dashboard. payload = JDict kvs \<and> get ''dashboard'' kvs = JDict dashboard \<and> get ''title'' dashboard = JStr title"
    using items(1,2) fields(1) by blast
qed

lemma export_of_document:
  assumes "dashboard_by_id d b i \<noteq> None" "latest_snapshot d b i = Some s"
    and "build_dashboard_pdf_html isoformat s name ind = Inr document" "write_pdf document = Some content" "is_pdf content"
    and "ds_payload s = JDict kvs" "get ''dashboard'' kvs = JDict dashboard" "get ''title'' dashboard = JStr title"
  shows "export_latest (weasyprint_render (Some ()) write_pdf isoformat) d b i name ind
    = Inr \<lparr> pdf_content = content, pdf_filename = dashboard_pdf_filename title i (ds_version s),
            pdf_snapshot_version = ds_version s, pdf_snapshot_content_hash = ds_content_hash s \<rparr>"
  using assms by (auto simp: export_latest_def weasyprint_render_def)



definition titled_snapshot :: "string \<Rightarrow> dashboard_snapshot" where
  "titled_snapshot title = small_snapshot (JDict
     [(''format'', JStr ''spike.dashboard-snapshot''),
      (''dashboard'', JDict [(''type'', JStr ''operational_kpi''), (''title'', JStr title),
         (''configuration'', JDict [(''layout'', JStr title)])]),
      (''sources'', JList [])])"

lemma titled_document:
  assumes "py_strip title \<noteq> []"
  obtains doc where "build_dashboard_pdf_html isoformat (titled_snapshot title) name ind = Inr doc"
proof -
  have "succeeds (configuration_rows [(''layout'', JStr title)])"
    by (rule configuration_rows_total) simp
  moreover have "find (\<lambda>t. JStr ''operational_kpi'' = JStr (dashboard_type_value t)) all_dashboard_types = Some OPERATIONAL_KPI"
    by (simp add: all_dashboard_types_def)
  ultimately have "succeeds (build_dashboard_pdf_html isoformat (titled_snapshot title) name ind)"
    using assms
    by (auto simp: build_dashboard_pdf_html_def titled_snapshot_def small_snapshot_def get_def succeeds_def
        metric_rows_def source_rows_def)
  then show thesis by (auto simp: succeeds_def that)
qed

theorem document_markup_fixed_witness:
  "\<exists>doc doc'. build_dashboard_pdf_html (\<lambda>_. ''2024'') (titled_snapshot ''Plan'') ''Acme'' None = Inr doc
    \<and> build_dashboard_pdf_html (\<lambda>_. ''2024'') (titled_snapshot ''<b>'') ''<i>'' None = Inr doc' \<and> markup doc = markup doc'"
proof -
  have "py_strip ''Plan'' \<noteq> []" "py_strip ''<b>'' \<noteq> []" by code_simp+
  then obtain doc doc' where "build_dashboard_pdf_html (\<lambda>_. ''2024'') (titled_snapshot ''Plan'') ''Acme'' None = Inr doc"
    "build_dashboard_pdf_html (\<lambda>_. ''2024'') (titled_snapshot ''<b>'') ''<i>'' None = Inr doc'"
    by (metis titled_document)
  moreover have "document_shape (ds_payload (titled_snapshot ''Plan'')) = document_shape (ds_payload (titled_snapshot ''<b>''))"
    by (simp add: document_shape_def titled_snapshot_def small_snapshot_def json_get_def get_def json_items_def)
  ultimately show ?thesis using document_markup_fixed by blast
qed

end
