(* ===== verification/Spec2Isabelle.thy ===== *)
theory Spec2Isabelle
  imports Credit_Theorems Upload_Theorems Identity_Theorems Billing_Theorems AI_Theorems Artifact_Theorems
    Insight_Theorems Dashboard_Theorems Request_Theorems PDF_Theorems
begin

text \<open>
  The backend of the Spike platform as Isabelle/HOL functions.

  The program (\<open>src/app\<close>) is a FastAPI application over PostgreSQL, with Redis for rate limits, S3 for
  uploaded reports, Celery workers that parse them, Stripe for billing and Gemini for chat.  Its logic
  is in \<open>src/app/services\<close>, one service class per concern; the tables and their constraints are in
  \<open>src/app/models\<close>.  A request opens a session, calls one service operation and commits or rolls back.

  \<^bold>\<open>How the code is modelled.\<close>  A table is a list of rows, a row a record with the fields of the
  SQLModel class, the database the record \<open>db\<close> of all tables.  A service operation is a function
  from the database and the arguments of the call to its result and the new database; an exception is a
  constructor of the service's error datatype, and an operation that rolls back returns the old
  database.  A flush or a commit checks the constraints of the written tables (\<open>settle\<close>,
  \<open>credit_tables_ok\<close>, \<open>report_tables_ok\<close>, \<open>identity_tables_ok\<close>) and turns into the error that the code maps
  an \<open>IntegrityError\<close> to.  What the code takes from its surroundings is an argument: fresh UUIDs, the
  instants of \<open>utc_now()\<close> (records named \<open>..._context\<close>), salts, hashes, the JWT package, the OLE and ZIP
  readers, the answers of S3, Redis and Stripe.  A row that other transactions may change while an operation waits
  for a lock is modelled by a function \<open>env\<close> on databases, applied at the point of the wait; sequences of
  requests are lists of operations or the steps of an inductive relation.  Python's integers are \<open>int\<close>,
  instants and durations are microseconds, strings are lists of Latin-1 characters.

  \<^bold>\<open>Theories.\<close>
  \<^item> \<open>Prelude\<close>, \<open>PyStrings\<close>: rows, tables, uniqueness and the Python string operations that the code uses.
  \<^item> \<open>Model_Identity\<close>, \<open>Model_Subscription\<close>, \<open>Model_Credit\<close>, \<open>Model_Report\<close>, \<open>Model_Billing\<close>: the row types and
    CHECK constraints of \<open>models/*.py\<close>; \<open>Database\<close> has the tables and their UNIQUE and foreign keys.
  \<^item> \<open>Contracts\<close>: the interfaces as locales -- invariants of a step function, rows that become final,
    the part of the database a tenant sees, codes with a bounded number of tries.
  \<^item> \<open>Subscriptions\<close> (\<open>services/subscriptions.py\<close>): catalogue, access window, entitlements.
  \<^item> \<open>Credits\<close>, \<open>Admin_Audit\<close>, \<open>Admin_Credits\<close> (\<open>services/ai_credits.py\<close>, \<open>admin_audit.py\<close>,
    \<open>admin_ai_credits.py\<close>): reservation, consumption, release and adjustment of AI credits;
    \<open>Credit_System\<close> composes them and \<open>Credit_Theorems\<close> proves conservation, isolation and replay.
  \<^item> \<open>Processing_Rows\<close>, \<open>Processing\<close>, \<open>Processing_System\<close>, \<open>Processing_Theorems\<close> (\<open>services/processing.py\<close>,
    \<open>processing_dispatch.py\<close>): jobs with leases; \<open>Worker\<close> (\<open>workers/tasks.py\<close>, \<open>processing_artifacts.py\<close>)
    runs one attempt of a job.
  \<^item> \<open>Report_Content\<close>, \<open>Uploads\<close>, \<open>Upload_Theorems\<close> (\<open>services/uploads.py\<close>): file-name and content checks, the
    creation and completion of an upload batch.
  \<^item> \<open>Security\<close> (\<open>core/security.py\<close>, \<open>core/password_policy.py\<close>), \<open>Auth_Rows\<close>, \<open>Auth\<close> (\<open>services/auth.py\<close>,
    \<open>get_current_user\<close> of \<open>api/deps.py\<close>), \<open>Email_Two_Step\<close> (\<open>services/email_two_step.py\<close>), \<open>Account_Security\<close>
    (\<open>services/account_security.py\<close>), \<open>Accounts\<close> (\<open>services/admin_accounts.py\<close>, \<open>user_profiles.py\<close>,
    \<open>business.py\<close>, \<open>tenant.py\<close>, \<open>rate_limit.py\<close>): identities, sessions, codes, tenants;
    \<open>Identity_System\<close> is their transition relation and \<open>Identity_Theorems\<close> its properties.
  \<^item> \<open>Stripe_Values\<close>, \<open>Billing_Checkout\<close>, \<open>Billing_Sync\<close>, \<open>Billing_Webhook\<close> (\<open>services/billing.py\<close>): the typed readers of
    Stripe's objects, the creation of a checkout, the mirror of subscriptions and invoices, and the
    webhook events with their claims; \<open>Billing_Theorems\<close> shows that an event is applied once, that the
    invoice mirror refines a register of the latest versions, and that a checkout is opened once.
  \<^item> \<open>Model_AI\<close>, \<open>Json_Text\<close>, \<open>AI_Conversations\<close> (\<open>services/ai_conversations.py\<close>), \<open>AI_Prompt\<close> (the grounding and
    the budgeted prompt of \<open>services/ai_execution.py\<close>), \<open>Gemini_Gateway\<close> (what \<open>services/gemini_gateway.py\<close> makes of
    an answer), \<open>AI_Execution\<close> (the execution service): a message, its credit, its lease and its answer;
    \<open>AI_System\<close> and \<open>AI_Theorems\<close> show that they settle together and once.
  \<^item> \<open>Decimals\<close> (Python's \<open>decimal\<close>), \<open>Report_Parser\<close> (\<open>services/report_parser.py\<close>), \<open>Json_Loads\<close> (the reader of the
    JSON lines, which inverts the writer) and \<open>Parser_Theorems\<close>: a workbook becomes JSON lines and a profile.
  \<^item> \<open>Model_Dashboard\<close>, \<open>Dashboard_Schema\<close> (the validators of \<open>schemas/dashboard.py\<close>), \<open>Dashboard_Insights\<close> and
    \<open>Insight_Payload\<close> (\<open>services/dashboard_insights.py\<close>), \<open>Snapshot_Artifacts\<close> and \<open>Dashboard_Snapshots\<close>
    (\<open>services/dashboard_snapshots.py\<close>), \<open>Dashboards\<close> (\<open>services/dashboards.py\<close>): dashboards and their immutable
    versions.  \<open>Artifact_Theorems\<close>, \<open>Insight_Theorems\<close>, \<open>Snapshot_Theorems\<close>, \<open>Dashboard_Theorems\<close> and
    \<open>Request_Theorems\<close> hold their properties.
  \<^item> \<open>Sample\<close>: one concrete database for the runs that show the hypotheses of the theorems hold.

  \<^bold>\<open>What the lemmas show.\<close>  For every component: each operation keeps the constraints of its tables,
  what it does on each branch, and which rows it leaves alone.  The locales lift this from one operation
  to every sequence.  The theorems after a claim number are the properties: credits are neither lost nor
  created and stay with their tenant; a job has at most one holder and at most its number of attempts,
  a stale holder has no effect and a finished job is final; an upload is accepted exactly when the stored
  object is the announced one; a change of credentials ends every session, a refresh token works
  once and codes lock out; entitlements follow the override order; metadata and content checks accept
  exactly what they are meant to; a billing event is applied once and the mirrors of Stripe's objects
  converge to the latest version in any order of delivery.

  \<^bold>\<open>Bounds and fuel.\<close>  Recursion follows the data, or the number of bytes or records left.  Only the
  JSON reader has fuel, one step more than its text has characters, which reads back whatever the writer
  writes; the search for a free column suffix ends after at most as many tries as there are names in use.
  UUIDs are naturals below \<open>2 ^ 128\<close> where their text form matters.

  \<^bold>\<open>Not modelled.\<close>  Lengths of VARCHAR columns and the range of INTEGER columns (amounts in cents among
  them), \<open>updated_at\<close>, indexes without a constraint, characters beyond Latin-1 and Unicode normalization
  (arguments), logging, metrics and mail delivery, and the SQL dialect below the level of one query.  The
  session's identity map is modelled where the code reads a challenge or a checkout attempt before and
  after a lock; a user row read under a lock, and the subscription that an invoice refers to, are taken as
  fresh.  A webhook waits for its locks at one point (\<open>env\<close>).  The float seconds of Stripe's timestamps are an
  argument, and so are the workbook readers, gzip, SHA-256, the Gemini client, the order in which Python
  enumerates a set, \<open>datetime\<close>'s parsers and pydantic's conversion of stored JSON to types.  The PDF export, the
  HTTP routes with their response models, the administrators' lists, configuration and the clients of the
  external services are left out.
\<close>

end
